(* ===== verification/PyBase.thy ===== *)
theory PyBase
  imports Main "HOL-Library.Sublist" "HOL-Library.Char_ord" "HOL-Library.List_Lexorder"
    "HOL-Library.AList" "HOL-Library.Product_Lexorder"
begin

text \<open>
  Prelude of the PBXSense Agent development: the parts of Python's language and standard
  library that the modelled modules use, and the generic facts about them.

  A Python string is a list of code points below 256 (Isabelle's \<open>char\<close>, read as Latin-1);
  the character predicates below are Python's on that range. A Python dict is an association
  list in insertion order with distinct keys (\<open>AList.update\<close> keeps the position of a key
  that is present and appends a new one, as a dict does); where the order of a dict cannot be
  observed, a map is used instead. Python integers are \<open>int\<close>. \<open>sorted\<close> is
  the stable \<open>sort_key\<close>.
\<close>

section \<open>Strings\<close>

type_synonym 'v pydict = "(string \<times> 'v) list"

named_theorems py_str "defining equations of the string functions"

definition code_point :: "char \<Rightarrow> nat" where
  "code_point c = of_char c"

definition lower_char :: "char \<Rightarrow> char" where
  "lower_char c = (let n = code_point c in
     if (65 \<le> n \<and> n \<le> 90) \<or> (192 \<le> n \<and> n \<le> 222 \<and> n \<noteq> 215) then char_of (n + 32) else c)"

definition lower :: "string \<Rightarrow> string" where
  "lower s = map lower_char s"

text \<open>\<open>str.upper\<close>: the sharp s becomes two letters; the two Latin-1 letters whose upper case lies
  outside Latin-1 (code points 181 and 255) are left as they are.\<close>

definition upper_char :: "char \<Rightarrow> string" where
  "upper_char c = (let n = code_point c in
     if (97 \<le> n \<and> n \<le> 122) \<or> (224 \<le> n \<and> n \<le> 254 \<and> n \<noteq> 247) then [char_of (n - 32)]
     else if n = 223 then ''SS'' else [c])"

definition upper :: "string \<Rightarrow> string" where
  "upper s = concat (map upper_char s)"

definition is_space :: "char \<Rightarrow> bool" where
  "is_space c = (let n = code_point c in (9 \<le> n \<and> n \<le> 13) \<or> (28 \<le> n \<and> n \<le> 32) \<or> n = 133 \<or> n = 160)"

definition is_decimal :: "char \<Rightarrow> bool" where
  "is_decimal c = (let n = code_point c in 48 \<le> n \<and> n \<le> 57)"

text \<open>\<open>str.isdigit\<close> of one character: the superscripts two, three and one count as digits.\<close>

definition is_digit_char :: "char \<Rightarrow> bool" where
  "is_digit_char c = (is_decimal c \<or> code_point c \<in> {178, 179, 185})"

definition is_alpha :: "char \<Rightarrow> bool" where
  "is_alpha c = (let n = code_point c in
     (65 \<le> n \<and> n \<le> 90) \<or> (97 \<le> n \<and> n \<le> 122) \<or> n \<in> {170, 181, 186} \<or>
     (192 \<le> n \<and> n \<noteq> 215 \<and> n \<noteq> 247))"

definition is_alnum :: "char \<Rightarrow> bool" where
  "is_alnum c = (is_alpha c \<or> is_digit_char c \<or> code_point c \<in> {188, 189, 190})"

definition str_isdigit :: "string \<Rightarrow> bool" where
  "str_isdigit s = (s \<noteq> [] \<and> list_all is_digit_char s)"

definition str_isalnum :: "string \<Rightarrow> bool" where
  "str_isalnum s = (s \<noteq> [] \<and> list_all is_alnum s)"

definition rstrip_chars :: "(char \<Rightarrow> bool) \<Rightarrow> string \<Rightarrow> string" where
  "rstrip_chars p s = rev (dropWhile p (rev s))"

definition strip_chars :: "(char \<Rightarrow> bool) \<Rightarrow> string \<Rightarrow> string" where
  "strip_chars p s = rstrip_chars p (dropWhile p s)"

definition strip :: "string \<Rightarrow> string" where
  "strip s = strip_chars is_space s"

text \<open>\<open>p in s\<close> for strings: \<open>p\<close> occurs in \<open>s\<close>.\<close>

fun contains :: "string \<Rightarrow> string \<Rightarrow> bool" where
  "contains p [] = (p = [])"
| "contains p (c # s) = (prefix p (c # s) \<or> contains p s)"

definition any_marker :: "string list \<Rightarrow> string \<Rightarrow> bool" where
  "any_marker ms s = list_ex (\<lambda>m. contains m s) ms"

definition replace_char :: "char \<Rightarrow> char \<Rightarrow> string \<Rightarrow> string" where
  "replace_char a b s = map (\<lambda>c. if c = a then b else c) s"

text \<open>The two halves of \<open>s.split(c, 1)\<close>; the second is empty when \<open>c\<close> does not occur.\<close>

definition before :: "char \<Rightarrow> string \<Rightarrow> string" where
  "before c s = takeWhile (\<lambda>x. x \<noteq> c) s"

definition after :: "char \<Rightarrow> string \<Rightarrow> string" where
  "after c s = drop 1 (dropWhile (\<lambda>x. x \<noteq> c) s)"

text \<open>\<open>s.rsplit(c, 1)[-1]\<close>: what follows the last occurrence.\<close>

definition after_last :: "char \<Rightarrow> string \<Rightarrow> string" where
  "after_last c s = rev (takeWhile (\<lambda>x. x \<noteq> c) (rev s))"

fun split_on :: "char \<Rightarrow> string \<Rightarrow> string list" where
  "split_on c [] = [[]]"
| "split_on c (x # xs) = (if x = c then [] # split_on c xs
     else (case split_on c xs of [] \<Rightarrow> [[x]] | w # ws \<Rightarrow> (x # w) # ws))"

fun join :: "string \<Rightarrow> string list \<Rightarrow> string" where
  "join sep [] = []"
| "join sep [w] = w"
| "join sep (w # v # ws) = w @ sep @ join sep (v # ws)"

text \<open>Python's \<open>a or b\<close> on strings: the empty string is false.\<close>

definition or_str :: "string \<Rightarrow> string \<Rightarrow> string" where
  "or_str a b = (if a = [] then b else a)"

definition first_nonempty :: "string list \<Rightarrow> string" where
  "first_nonempty ws = foldr or_str ws []"

section \<open>Numbers as text\<close>

definition digit_char :: "nat \<Rightarrow> char" where
  "digit_char d = char_of (48 + d)"

fun show_nat :: "nat \<Rightarrow> string" where
  "show_nat n = (if n < 10 then [digit_char n] else show_nat (n div 10) @ [digit_char (n mod 10)])"

declare show_nat.simps [simp del]

definition show_int :: "int \<Rightarrow> string" where
  "show_int i = (if i < 0 then ''-'' @ show_nat (nat (- i)) else show_nat (nat i))"

text \<open>\<open>f"{n:02d}"\<close> for a number that is not negative.\<close>

definition show_02d :: "int \<Rightarrow> string" where
  "show_02d i = (if 0 \<le> i \<and> i < 10 then ''0'' @ show_int i else show_int i)"

definition digit_val :: "char \<Rightarrow> int" where
  "digit_val c = int (code_point c) - 48"

text \<open>\<open>int(s)\<close> after the surrounding white space is gone: an optional sign, then decimal digits with
  single underscores between them; \<open>None\<close> stands for \<open>ValueError\<close>.\<close>

fun parse_digits :: "int \<Rightarrow> string \<Rightarrow> int option" where
  "parse_digits acc [] = Some acc"
| "parse_digits acc (c # cs) =
     (if is_decimal c then parse_digits (acc * 10 + digit_val c) cs
      else if c = CHR ''_'' then
        (case cs of d # ds \<Rightarrow> if is_decimal d then parse_digits (acc * 10 + digit_val d) ds else None
         | [] \<Rightarrow> None)
      else None)"

definition parse_unsigned :: "string \<Rightarrow> int option" where
  "parse_unsigned s = (case s of c # cs \<Rightarrow> if is_decimal c then parse_digits (digit_val c) cs else None
     | [] \<Rightarrow> None)"

definition py_int :: "string \<Rightarrow> int option" where
  "py_int s = (let t = strip s in
     case t of
       c # cs \<Rightarrow> if c = CHR ''-'' then map_option uminus (parse_unsigned cs)
                 else if c = CHR ''+'' then parse_unsigned cs else parse_unsigned t
     | [] \<Rightarrow> None)"

section \<open>Optional values and lists\<close>

definition opt_or :: "'a option \<Rightarrow> 'a \<Rightarrow> 'a" where
  "opt_or x d = (case x of None \<Rightarrow> d | Some y \<Rightarrow> y)"

text \<open>\<open>d.get(k, default)\<close>.\<close>

definition dget :: "('k \<times> 'v) list \<Rightarrow> 'k \<Rightarrow> 'v \<Rightarrow> 'v" where
  "dget d k v = opt_or (map_of d k) v"

text \<open>\<open>d.setdefault(k, v)\<close> as a change of the dict.\<close>

definition dsetdefault :: "'k \<Rightarrow> 'v \<Rightarrow> ('k \<times> 'v) list \<Rightarrow> ('k \<times> 'v) list" where
  "dsetdefault k v d = (case map_of d k of None \<Rightarrow> d @ [(k, v)] | Some _ \<Rightarrow> d)"

text \<open>\<open>xs[-n:]\<close> for \<open>n > 0\<close>.\<close>

definition last_n :: "nat \<Rightarrow> 'a list \<Rightarrow> 'a list" where
  "last_n n xs = drop (length xs - n) xs"

text \<open>\<open>xs[-n:]\<close>: \<open>-0\<close> is 0, so the slice of length 0 is the whole list.\<close>

definition tail_slice :: "nat \<Rightarrow> 'a list \<Rightarrow> 'a list" where
  "tail_slice n xs = (if n = 0 then xs else last_n n xs)"

text \<open>\<open>sorted(xs, key=f, reverse=True)\<close>: descending, and stable.\<close>

definition sort_desc :: "('a \<Rightarrow> 'b::linorder) \<Rightarrow> 'a list \<Rightarrow> 'a list" where
  "sort_desc f xs = rev (sort_key f (rev xs))"

text \<open>\<open>sorted(set(...))\<close>: sorted and without repetition.\<close>

definition sorted_set :: "'a::linorder list \<Rightarrow> 'a list" where
  "sorted_set xs = sort (remdups xs)"

section \<open>Generic lemmas\<close>

lemma opt_or_simps [simp]: "opt_or None d = d" "opt_or (Some x) d = x"
  by (simp_all add: opt_or_def)

lemma or_str_simps [simp]: "or_str [] b = b" "or_str (c # cs) b = c # cs"
  by (simp_all add: or_str_def)

lemma or_str_eq_Nil [simp]: "or_str a b = [] \<longleftrightarrow> a = [] \<and> b = []"
  by (simp add: or_str_def)

lemma contains_iff: "contains p s \<longleftrightarrow> (\<exists>a b. s = a @ p @ b)"
proof (induction s)
  case Nil
  then show ?case by simp
next
  case (Cons c s)
  show ?case
  proof
    assume "contains p (c # s)"
    then consider "prefix p (c # s)" | "contains p s" by auto
    then show "\<exists>a b. c # s = a @ p @ b"
    proof cases
      case 1
      then obtain b where "c # s = [] @ p @ b" by (auto simp: prefix_def)
      then show ?thesis by blast
    next
      case 2
      with Cons.IH obtain a b where "c # s = (c # a) @ p @ b" by auto
      then show ?thesis by blast
    qed
  next
    assume "\<exists>a b. c # s = a @ p @ b"
    then obtain a b where ab: "c # s = a @ p @ b" by blast
    show "contains p (c # s)"
    proof (cases a)
      case Nil
      with ab have "prefix p (c # s)" by (auto simp: prefix_def)
      then show ?thesis by simp
    next
      case (Cons d a')
      with ab have "s = a' @ p @ b" by simp
      with Cons.IH show ?thesis by auto
    qed
  qed
qed

lemma contains_trans: "contains p q \<Longrightarrow> contains q s \<Longrightarrow> contains p s"
  by (auto simp: contains_iff) (metis append.assoc)

lemma contains_self [simp]: "contains p p"
  by (auto simp: contains_iff intro: exI [of _ "[]"])

lemma find_SomeD: "find P xs = Some x \<Longrightarrow> x \<in> set xs \<and> P x"
  by (induction xs) (auto split: if_splits)

lemma find_NoneD: "find P xs = None \<Longrightarrow> x \<in> set xs \<Longrightarrow> \<not> P x"
  by (induction xs) (auto split: if_splits)

lemma filter_inj_key:
  assumes "distinct (map f xs)" "x \<in> set xs"
  shows "filter (\<lambda>y. f y = f x) xs = [x]"
  using assms
proof (induction xs)
  case (Cons y ys)
  show ?case
  proof (cases "y = x")
    case True
    with Cons.prems have "\<forall>z \<in> set ys. f z \<noteq> f x" by (auto simp: image_iff)
    with True show ?thesis by (simp add: filter_empty_conv)
  next
    case False
    with Cons.prems have "f y \<noteq> f x" by (auto simp: image_iff)
    with False Cons show ?thesis by simp
  qed
qed simp

lemma last_n_length [simp]: "length (last_n n xs) = min n (length xs)"
  by (simp add: last_n_def)

lemma set_last_n: "set (last_n n xs) \<subseteq> set xs"
  by (simp add: last_n_def set_drop_subset)

lemma in_set_map_filter: "y \<in> set (List.map_filter f xs) \<longleftrightarrow> (\<exists>x \<in> set xs. f x = Some y)"
  by (induction xs) (auto simp: List.map_filter_simps split: option.splits)

lemma set_tail_slice: "set (tail_slice n xs) \<subseteq> set xs"
  by (simp add: tail_slice_def set_last_n)

lemma set_sort_desc [simp]: "set (sort_desc f xs) = set xs"
  by (simp add: sort_desc_def)

lemma length_sort_desc [simp]: "length (sort_desc f xs) = length xs"
  by (simp add: sort_desc_def)

lemma sorted_sort_desc: "sorted_wrt (\<lambda>x y. f y \<le> f x) (sort_desc f xs)"
proof -
  have "sorted (map f (sort_key f (rev xs)))" by simp
  then have "sorted_wrt (\<lambda>x y. f x \<le> f y) (sort_key f (rev xs))"
    by (simp add: sorted_wrt_map)
  then show ?thesis by (simp add: sort_desc_def sorted_wrt_rev)
qed

lemma set_sorted_set [simp]: "set (sorted_set xs) = set xs"
  by (simp add: sorted_set_def)

lemma sorted_sorted_set [simp]: "sorted (sorted_set xs)"
  by (simp add: sorted_set_def)

lemma distinct_sorted_set [simp]: "distinct (sorted_set xs)"
  by (simp add: sorted_set_def)

lemma dsetdefault_map_of: "map_of (dsetdefault k v d) =
    (if map_of d k = None then (map_of d)(k \<mapsto> v) else map_of d)"
  by (auto simp: dsetdefault_def map_add_def fun_eq_iff split: option.splits)

section \<open>The dict interface\<close>

text \<open>
  What the modules that count and group rely on: a dict type with lookup and update. The laws
  are those of Python's dict; \<open>keys\<close> is the insertion order, which \<open>update\<close> keeps for a key
  that is present and extends at the end for a new one.
\<close>

locale py_dict =
  fixes empty :: "'d"
    and lookup :: "'d \<Rightarrow> 'k \<Rightarrow> 'v option"
    and update :: "'k \<Rightarrow> 'v \<Rightarrow> 'd \<Rightarrow> 'd"
    and keys :: "'d \<Rightarrow> 'k list"
  assumes lookup_empty: "lookup empty k = None"
    and lookup_update: "lookup (update k v d) = (lookup d)(k \<mapsto> v)"
    and keys_empty: "keys empty = []"
    and keys_update: "keys (update k v d) = (if k \<in> set (keys d) then keys d else keys d @ [k])"
begin

text \<open>Any accumulation over a list whose step only changes the entry at the item's key.\<close>

lemma fold_lookup:
  "lookup (foldl (\<lambda>d x. update (f x) (g (lookup d (f x)) x) d) d0 xs) k =
     foldl (\<lambda>acc x. Some (g acc x)) (lookup d0 k) (filter (\<lambda>x. f x = k) xs)"
  by (induction xs arbitrary: d0) (auto simp: lookup_update)

lemma fold_keys_gen:
  "keys (foldl (\<lambda>d x. update (f x) (g (lookup d (f x)) x) d) d0 xs) =
     foldl (\<lambda>ks x. if f x \<in> set ks then ks else ks @ [f x]) (keys d0) xs"
  by (induction xs arbitrary: d0) (auto simp: keys_update)

end

text \<open>Keys in the order of their first occurrence.\<close>

definition first_keys :: "('a \<Rightarrow> 'k) \<Rightarrow> 'a list \<Rightarrow> 'k list" where
  "first_keys f xs = foldl (\<lambda>ks x. if f x \<in> set ks then ks else ks @ [f x]) [] xs"

lemma first_keys_fold_props:
  assumes "distinct ks"
  shows "distinct (foldl (\<lambda>ks x. if f x \<in> set ks then ks else ks @ [f x]) ks xs)"
    and "set (foldl (\<lambda>ks x. if f x \<in> set ks then ks else ks @ [f x]) ks xs) = set ks \<union> f ` set xs"
  using assms by (induction xs arbitrary: ks) auto

lemma distinct_first_keys [simp]: "distinct (first_keys f xs)"
  by (simp add: first_keys_def first_keys_fold_props)

lemma set_first_keys [simp]: "set (first_keys f xs) = f ` set xs"
  by (simp add: first_keys_def first_keys_fold_props)

lemma first_keys_id_fold:
  assumes "distinct (map f xs)" "set ks \<inter> f ` set xs = {}"
  shows "foldl (\<lambda>ks x. if f x \<in> set ks then ks else ks @ [f x]) ks xs = ks @ map f xs"
  using assms by (induction xs arbitrary: ks) auto

lemma first_keys_id: "distinct (map f xs) \<Longrightarrow> first_keys f xs = map f xs"
  using first_keys_id_fold [of f xs "[]"] by (simp add: first_keys_def)

context py_dict
begin

lemma fold_keys:
  "keys (foldl (\<lambda>d x. update (f x) (g (lookup d (f x)) x) d) empty xs) = first_keys f xs"
  by (simp add: fold_keys_gen keys_empty first_keys_def)

end

lemma alist_keys_update:
  "map fst (AList.update k v d) = (if k \<in> set (map fst d) then map fst d else map fst d @ [k])"
  by (induction d) auto

interpretation ad: py_dict "[]" map_of AList.update "map fst"
  by unfold_locales (simp_all add: update_conv' alist_keys_update)

subsection \<open>Counting and grouping\<close>

text \<open>\<open>collections.Counter(xs)\<close>, and the grouping idiom \<open>d.setdefault(key(x), []).append(x)\<close>.\<close>

definition counter_add :: "('k \<times> nat) list \<Rightarrow> 'k \<Rightarrow> ('k \<times> nat) list" where
  "counter_add d k = AList.update k (Suc (opt_or (map_of d k) 0)) d"

definition counter :: "'k list \<Rightarrow> ('k \<times> nat) list" where
  "counter xs = foldl counter_add [] xs"

definition group_add :: "('a \<Rightarrow> 'k) \<Rightarrow> ('k \<times> 'a list) list \<Rightarrow> 'a \<Rightarrow> ('k \<times> 'a list) list" where
  "group_add f d x = AList.update (f x) (opt_or (map_of d (f x)) [] @ [x]) d"

definition group_by :: "('a \<Rightarrow> 'k) \<Rightarrow> 'a list \<Rightarrow> ('k \<times> 'a list) list" where
  "group_by f xs = foldl (group_add f) [] xs"

text \<open>\<open>Counter.most_common(1)\<close>: the first entry, in insertion order, with the greatest count.\<close>

fun first_max :: "('a \<Rightarrow> 'b::linorder) \<Rightarrow> 'a list \<Rightarrow> 'a option" where
  "first_max f [] = None"
| "first_max f (x # xs) = (case first_max f xs of None \<Rightarrow> Some x
     | Some y \<Rightarrow> if f y \<le> f x then Some x else Some y)"

lemma group_by_fold:
  "group_by f xs = foldl (\<lambda>d x. AList.update (f x) (opt_or (map_of d (f x)) [] @ [x]) d) [] xs"
  by (simp add: group_by_def group_add_def [abs_def])

lemma counter_fold:
  "counter xs = foldl (\<lambda>d x. AList.update x (Suc (opt_or (map_of d x) 0)) d) [] xs"
  by (simp add: counter_def counter_add_def [abs_def])

lemma keys_group_by [simp]: "map fst (group_by f xs) = first_keys f xs"
  using ad.fold_keys [of f "\<lambda>l x. opt_or l [] @ [x]" xs] by (simp add: group_by_fold)

lemma keys_counter [simp]: "map fst (counter xs) = first_keys (\<lambda>x. x) xs"
  using ad.fold_keys [of "\<lambda>x. x" "\<lambda>n x. Suc (opt_or n 0)" xs] by (simp add: counter_fold)

lemma foldl_append_some:
  "foldl (\<lambda>acc x. Some (opt_or acc [] @ [x])) (Some ys) xs = Some (ys @ xs)"
  by (induction xs arbitrary: ys) auto

lemma group_by_lookup:
  "map_of (group_by f xs) k = (if k \<in> f ` set xs then Some (filter (\<lambda>x. f x = k) xs) else None)"
proof -
  have "map_of (group_by f xs) k =
      foldl (\<lambda>acc x. Some (opt_or acc [] @ [x])) None (filter (\<lambda>x. f x = k) xs)"
    using ad.fold_lookup [of f "\<lambda>l x. opt_or l [] @ [x]" "[]" xs k] by (simp add: group_by_fold)
  also have "\<dots> = (if filter (\<lambda>x. f x = k) xs = [] then None else Some (filter (\<lambda>x. f x = k) xs))"
    by (cases "filter (\<lambda>x. f x = k) xs") (simp_all add: foldl_append_some)
  also have "\<dots> = (if k \<in> f ` set xs then Some (filter (\<lambda>x. f x = k) xs) else None)"
    by (auto simp: filter_empty_conv)
  finally show ?thesis .
qed

lemma foldl_count_some: "foldl (\<lambda>acc x. Some (Suc (opt_or acc 0))) (Some n) xs = Some (n + length xs)"
  by (induction xs arbitrary: n) auto

lemma count_list_filter: "count_list xs k = length (filter (\<lambda>x. x = k) xs)"
  by (induction xs) auto

lemma counter_lookup:
  "map_of (counter xs) k = (if k \<in> set xs then Some (count_list xs k) else None)"
proof -
  have "map_of (counter xs) k =
      foldl (\<lambda>acc x. Some (Suc (opt_or acc 0))) None (filter (\<lambda>x. x = k) xs)"
    using ad.fold_lookup [of "\<lambda>x. x" "\<lambda>n x. Suc (opt_or n 0)" "[]" xs k]
    by (simp add: counter_fold)
  also have "\<dots> = (if filter (\<lambda>x. x = k) xs = [] then None else Some (length (filter (\<lambda>x. x = k) xs)))"
    by (cases "filter (\<lambda>x. x = k) xs") (simp_all add: foldl_count_some)
  also have "\<dots> = (if k \<in> set xs then Some (count_list xs k) else None)"
    by (auto simp: filter_empty_conv count_list_filter)
  finally show ?thesis .
qed

lemma counter_in_set: "(k, n) \<in> set (counter xs) \<longleftrightarrow> k \<in> set xs \<and> n = count_list xs k"
proof -
  have "distinct (map fst (counter xs))" by simp
  then have "(k, n) \<in> set (counter xs) \<longleftrightarrow> map_of (counter xs) k = Some n"
    by (simp add: map_of_eq_Some_iff)
  then show ?thesis by (auto simp: counter_lookup)
qed

lemma length_counter: "length (counter xs) = card (set xs)"
proof -
  have "length (counter xs) = length (first_keys (\<lambda>x. x) xs)"
    by (metis keys_counter length_map)
  also have "\<dots> = card (set xs)"
    by (metis distinct_card distinct_first_keys set_first_keys image_ident)
  finally show ?thesis .
qed

lemma first_max_Nil_iff [simp]: "first_max f xs = None \<longleftrightarrow> xs = []"
  by (cases xs) (auto split: option.splits)

lemma first_max_Some: "first_max f xs = Some x \<Longrightarrow> x \<in> set xs \<and> (\<forall>y \<in> set xs. f y \<le> f x)"
proof (induction xs arbitrary: x)
  case (Cons a xs)
  then show ?case
    by (fastforce split: option.splits if_splits)
qed simp

lemma group_by_items:
  assumes "(k, g) \<in> set (group_by f xs)"
  shows "g = filter (\<lambda>x. f x = k) xs" and "k \<in> f ` set xs" and "g \<noteq> []"
proof -
  have d: "distinct (map fst (group_by f xs))" by simp
  from assms d have "map_of (group_by f xs) k = Some g" by (simp add: map_of_eq_Some_iff)
  then show g: "g = filter (\<lambda>x. f x = k) xs" and k: "k \<in> f ` set xs"
    by (auto simp: group_by_lookup split: if_splits)
  then show "g \<noteq> []" by (auto simp: filter_empty_conv)
qed

lemma group_by_eq_map:
  "group_by f xs = map (\<lambda>k. (k, filter (\<lambda>x. f x = k) xs)) (first_keys f xs)"
proof -
  have "map (\<lambda>k. (k, filter (\<lambda>x. f x = k) xs)) (map fst (group_by f xs)) = group_by f xs"
    unfolding map_map by (rule map_idI) (auto dest: group_by_items)
  then show ?thesis by simp
qed

end
