(* ===== verification/PyNum.thy ===== *)
theory PyNum
  imports PyBase Complex_Main "HOL-Library.Monad_Syntax"
begin

text \<open>
  Python's floating-point arithmetic and calendar time, as far as the modelled modules use them.

  A float is the rational number it denotes; \<open>fl\<close> rounds to 53 significant bits, half to even,
  as one IEEE double operation does (no overflow, underflow or NaN: the numbers here are counts,
  rates, seconds and percentages). A float operation is \<open>fl\<close> of the exact operation.

  A \<open>datetime\<close> is its wall-clock reading in microseconds since 0001-01-01 00:00. The Agent takes
  every observation time from the same \<open>ZoneInfo\<close> object, and Python compares and subtracts
  datetimes with the same \<open>tzinfo\<close> by their wall clocks; the datetimes of the history files
  are naive. What the time zone database says is a parameter wherever it is used.
\<close>

section \<open>Floats\<close>

function bits :: "int \<Rightarrow> int" where
  "bits n = (if n \<le> 0 then 0 else bits (n div 2) + 1)"
  by pat_completeness auto
termination by (relation "measure nat") auto

declare bits.simps [simp del]

definition pow2 :: "int \<Rightarrow> rat" where
  "pow2 e = (if 0 \<le> e then 2 ^ nat e else 1 / 2 ^ nat (- e))"

definition round_half_even :: "rat \<Rightarrow> int" where
  "round_half_even y = (let f = \<lfloor>y\<rfloor>; d = y - of_int f in
     if d < 1 / 2 then f else if 1 / 2 < d then f + 1 else if even f then f else f + 1)"

definition fl :: "rat \<Rightarrow> rat" where
  "fl x = (if x = 0 then 0 else
     let (p, q) = quotient_of x;
         e0 = bits \<bar>p\<bar> - bits q - 53;
         e = (if 2 ^ 53 \<le> \<bar>x\<bar> / pow2 e0 then e0 + 1 else e0)
     in of_int (round_half_even (x / pow2 e)) * pow2 e)"

text \<open>True division of two integers, as \<open>int.__truediv__\<close> rounds it: once.\<close>

definition int_div_fl :: "int \<Rightarrow> int \<Rightarrow> rat" where
  "int_div_fl a b = fl (of_int a / of_int b)"

definition trunc_rat :: "rat \<Rightarrow> int" where
  "trunc_rat x = (if 0 \<le> x then \<lfloor>x\<rfloor> else - \<lfloor>- x\<rfloor>)"

text \<open>\<open>f"{x:.nf}"\<close>: the decimal digits of the exact value, rounded half to even.\<close>

definition pad0 :: "nat \<Rightarrow> string \<Rightarrow> string" where
  "pad0 n s = replicate (n - length s) (CHR ''0'') @ s"

definition show_fixed :: "nat \<Rightarrow> rat \<Rightarrow> string" where
  "show_fixed n x = (let m = round_half_even (\<bar>x\<bar> * 10 ^ n);
      whole = m div 10 ^ n; frac = m mod 10 ^ n
     in (if x < 0 then ''-'' else []) @ show_int whole @ ''.'' @ pad0 n (show_int frac))"

section \<open>Dates and times\<close>

type_synonym datetime = int

definition second_us :: int where "second_us = 1000000"
definition minute_us :: int where "minute_us = 60000000"
definition hour_us :: int where "hour_us = 3600000000"
definition day_us :: int where "day_us = 86400000000"

lemmas us_defs = second_us_def minute_us_def hour_us_def day_us_def

text \<open>\<open>t.date()\<close> as its proleptic Gregorian ordinal, and the clock fields.\<close>

definition date_of :: "datetime \<Rightarrow> int" where
  "date_of t = t div day_us + 1"

definition hour_of :: "datetime \<Rightarrow> int" where
  "hour_of t = (t mod day_us) div hour_us"

definition minute_of :: "datetime \<Rightarrow> int" where
  "minute_of t = (t mod hour_us) div minute_us"

definition second_of :: "datetime \<Rightarrow> int" where
  "second_of t = (t mod minute_us) div second_us"

text \<open>\<open>date.weekday()\<close>: Monday is 0; ordinal 1 is a Monday.\<close>

definition weekday :: "int \<Rightarrow> int" where
  "weekday d = (d + 6) mod 7"

text \<open>Year, month and day of an ordinal, by 400-year eras that start on 1 March.\<close>

definition civil :: "int \<Rightarrow> int \<times> int \<times> int" where
  "civil d = (let z = d + 305; era = z div 146097; doe = z mod 146097;
      yoe = (doe - doe div 1460 + doe div 36524 - doe div 146096) div 365;
      doy = doe - (365 * yoe + yoe div 4 - yoe div 100);
      mp = (5 * doy + 2) div 153;
      m = (if mp < 10 then mp + 3 else mp - 9)
     in (yoe + era * 400 + (if m \<le> 2 then 1 else 0), m, doy - (153 * mp + 2) div 5 + 1))"

definition year_of :: "int \<Rightarrow> int" where "year_of d = fst (civil d)"
definition month_of :: "int \<Rightarrow> int" where "month_of d = fst (snd (civil d))"
definition day_of :: "int \<Rightarrow> int" where "day_of d = snd (snd (civil d))"

definition ordinal :: "int \<Rightarrow> int \<Rightarrow> int \<Rightarrow> int" where
  "ordinal y m d = (let y' = (if m \<le> 2 then y - 1 else y); era = y' div 400; yoe = y' mod 400;
      doy = (153 * (if 2 < m then m - 3 else m + 9) + 2) div 5 + d - 1;
      doe = yoe * 365 + yoe div 4 - yoe div 100 + doy
     in era * 146097 + doe - 305)"

definition is_leap :: "int \<Rightarrow> bool" where
  "is_leap y = (y mod 4 = 0 \<and> (y mod 100 \<noteq> 0 \<or> y mod 400 = 0))"

definition days_in_month :: "int \<Rightarrow> int \<Rightarrow> int" where
  "days_in_month y m = (if m = 2 then (if is_leap y then 29 else 28)
     else if m \<in> {4, 6, 9, 11} then 30 else 31)"

text \<open>\<open>date.isocalendar()[:2]\<close>: the ISO year and week of an ordinal. The Thursday of the same
  week decides the year.\<close>

definition iso_week :: "int \<Rightarrow> int \<times> int" where
  "iso_week d = (let thursday = d - weekday d + 3; y = year_of thursday
     in (y, (thursday - ordinal y 1 1) div 7 + 1))"

section \<open>Reading and writing datetimes\<close>

definition month_abbr :: "int \<Rightarrow> string" where
  "month_abbr m = (let names = [''Jan'', ''Feb'', ''Mar'', ''Apr'', ''May'', ''Jun'', ''Jul'', ''Aug'',
       ''Sep'', ''Oct'', ''Nov'', ''Dec'']
     in if 1 \<le> m \<and> m \<le> 12 then names ! nat (m - 1) else [])"

text \<open>\<open>strftime("%H:%M")\<close> and \<open>strftime("%d %b, %H:%M")\<close> in the C locale.\<close>

definition show_hm :: "datetime \<Rightarrow> string" where
  "show_hm t = show_02d (hour_of t) @ '':'' @ show_02d (minute_of t)"

definition show_dbhm :: "datetime \<Rightarrow> string" where
  "show_dbhm t = show_02d (day_of (date_of t)) @ '' '' @ month_abbr (month_of (date_of t)) @ '', '' @ show_hm t"

text \<open>\<open>isoformat()\<close> of a naive datetime.\<close>

definition isoformat :: "datetime \<Rightarrow> string" where
  "isoformat t = (let d = date_of t; us = t mod second_us in
     pad0 4 (show_int (year_of d)) @ ''-'' @ show_02d (month_of d) @ ''-'' @ show_02d (day_of d) @ ''T''
     @ show_hm t @ '':'' @ show_02d (second_of t)
     @ (if us = 0 then [] else ''.'' @ pad0 6 (show_int us)))"

text \<open>
  \<open>datetime.strptime(s, "%Y-%m-%d %H:%M:%S")\<close> (and the same with slashes): four year digits,
  then fields of one or two digits between the separators; a day may be written with a leading
  space; at least one white space before the hour. Out-of-range fields and trailing text are a
  \<open>ValueError\<close> (\<open>None\<close>).
\<close>

definition take_field :: "int \<Rightarrow> int \<Rightarrow> string \<Rightarrow> (int \<times> string) option" where
  "take_field lo hi s = (let ds = takeWhile is_decimal s; r = dropWhile is_decimal s in
     if ds = [] \<or> 2 < length ds then None
     else case parse_digits 0 ds of None \<Rightarrow> None
       | Some v \<Rightarrow> if lo \<le> v \<and> v \<le> hi then Some (v, r) else None)"

definition expect :: "char \<Rightarrow> string \<Rightarrow> string option" where
  "expect c s = (case s of x # xs \<Rightarrow> if x = c then Some xs else None | [] \<Rightarrow> None)"

definition take_year :: "string \<Rightarrow> (int \<times> string) option" where
  "take_year s = (if length s < 4 \<or> \<not> list_all is_decimal (take 4 s) then None
     else map_option (\<lambda>y. (y, drop 4 s)) (parse_digits 0 (take 4 s)))"

definition take_day :: "string \<Rightarrow> (int \<times> string) option" where
  "take_day s = (case s of c # d # r \<Rightarrow>
       if c = CHR '' '' then (if is_decimal d then map_option (\<lambda>(v, _). (v, r)) (take_field 1 9 [d]) else None)
       else take_field 1 31 s
     | _ \<Rightarrow> take_field 1 31 s)"

definition strptime :: "char \<Rightarrow> string \<Rightarrow> datetime option" where
  "strptime sep s = do {
     (y, r1) \<leftarrow> take_year s;
     r2 \<leftarrow> expect sep r1;
     (m, r3) \<leftarrow> take_field 1 12 r2;
     r4 \<leftarrow> expect sep r3;
     (d, r5) \<leftarrow> take_day r4;
     r6 \<leftarrow> (if dropWhile is_space r5 = r5 then None else Some (dropWhile is_space r5));
     (hh, r7) \<leftarrow> take_field 0 23 r6;
     r8 \<leftarrow> expect (CHR '':'') r7;
     (mm, r9) \<leftarrow> take_field 0 59 r8;
     r10 \<leftarrow> expect (CHR '':'') r9;
     (ss, r11) \<leftarrow> take_field 0 61 r10;
     if r11 \<noteq> [] \<or> y < 1 \<or> days_in_month y m < d \<or> 59 < ss then None
     else Some ((ordinal y m d - 1) * day_us + hh * hour_us + mm * minute_us + ss * second_us) }"

text \<open>The loop over the two formats, as the history readers write it.\<close>

definition parse_datetime_text :: "string \<Rightarrow> datetime option" where
  "parse_datetime_text s = (case strptime (CHR ''-'') s of Some t \<Rightarrow> Some t
     | None \<Rightarrow> strptime (CHR ''/'') s)"

text \<open>\<open>int(t.timestamp())\<close> and \<open>int(t.timestamp() * 1_000_000)\<close> for a datetime that lies \<open>us\<close>
  microseconds after the Unix epoch: the timestamp is a float, so it is rounded once, and the product
  again.\<close>

definition ts_seconds :: "int \<Rightarrow> int" where
  "ts_seconds us = trunc_rat (fl (of_int us / 1000000))"

definition ts_micros :: "int \<Rightarrow> int" where
  "ts_micros us = trunc_rat (fl (fl (of_int us / 1000000) * 1000000))"

section \<open>Facts about floats and calendar fields\<close>

lemma hour_of_range: "0 \<le> hour_of t \<and> hour_of t \<le> 23"
proof -
  have "t mod day_us \<le> 86399999999" and lo: "0 \<le> t mod day_us" by (simp_all add: day_us_def)
  then have "(t mod day_us) div hour_us \<le> 86399999999 div hour_us"
    by (intro zdiv_mono1) (simp_all add: hour_us_def)
  moreover have "0 \<le> (t mod day_us) div hour_us"
    using lo by (simp add: hour_us_def pos_imp_zdiv_nonneg_iff)
  ultimately show ?thesis by (simp add: hour_of_def hour_us_def)
qed

lemma weekday_range: "0 \<le> weekday d \<and> weekday d \<le> 6"
  by (simp add: weekday_def)

lemma date_of_mono: "s \<le> t \<Longrightarrow> date_of s \<le> date_of t"
  by (simp add: date_of_def day_us_def zdiv_mono1)

lemma fl_0 [simp]: "fl 0 = 0"
  by (simp add: fl_def)

text \<open>Rounding to a float never crosses an integer: below \<open>2 ^ 53\<close> every integer is a float.\<close>

lemma bits_bounds: "0 < n \<Longrightarrow> 1 \<le> bits n \<and> 2 ^ nat (bits n - 1) \<le> n \<and> n < 2 ^ nat (bits n)"
proof (induction n rule: bits.induct)
  case (1 n)
  show ?case
  proof (cases "n = 1")
    case True
    have "bits 1 = 1" by (simp add: bits.simps [of 1] bits.simps [of 0])
    with True show ?thesis by simp
  next
    case False
    with 1(2) have h: "0 < n div 2" by simp
    from 1(1) [OF _ h] 1(2) have ih: "1 \<le> bits (n div 2)" "2 ^ nat (bits (n div 2) - 1) \<le> n div 2"
      "n div 2 < 2 ^ nat (bits (n div 2))" by auto
    have b: "bits n = bits (n div 2) + 1" using 1(2) by (simp add: bits.simps [of n])
    have e1: "(2::int) ^ nat (bits (n div 2)) = 2 * 2 ^ nat (bits (n div 2) - 1)"
      using ih(1) by (simp add: power_Suc [symmetric] nat_diff_distrib Suc_nat_eq_nat_zadd1 del: power_Suc)
    have e2: "(2::int) ^ nat (bits (n div 2) + 1) = 2 * 2 ^ nat (bits (n div 2))"
      using ih(1) by (simp add: nat_add_distrib)
    show ?thesis using ih unfolding b by (simp add: e1 e2) linarith
  qed
qed

lemma round_half_even_ge:
  assumes "of_int a \<le> y"
  shows "a \<le> round_half_even y"
proof -
  from assms have "a \<le> \<lfloor>y\<rfloor>" by (simp add: le_floor_iff)
  then show ?thesis by (simp add: round_half_even_def Let_def)
qed

lemma round_half_even_le:
  assumes "y \<le> of_int b"
  shows "round_half_even y \<le> b"
proof (cases "\<lfloor>y\<rfloor> < b")
  case True
  then show ?thesis by (simp add: round_half_even_def Let_def)
next
  case False
  then have "of_int b \<le> y" by (simp add: not_less le_floor_iff)
  with assms have "y = of_int b" by simp
  then show ?thesis by (simp add: round_half_even_def)
qed

lemma fl_fraction:
  assumes "0 < x" and "x < 2 ^ 53"
  obtains k where "fl x = of_int (round_half_even (x * 2 ^ k)) / 2 ^ k"
proof -
  obtain p q where pq: "quotient_of x = (p, q)" by force
  have q: "0 < q" and x: "x = of_int p / of_int q"
    using quotient_of_denom_pos [OF pq] quotient_of_div [OF pq] by auto
  with assms(1) have p: "0 < p" by (simp add: zero_less_divide_iff)
  define e0 where "e0 = bits \<bar>p\<bar> - bits q - 53"
  define e where "e = (if 2 ^ 53 \<le> \<bar>x\<bar> / pow2 e0 then e0 + 1 else e0)"
  have "e \<le> 0"
  proof (rule ccontr)
    assume "\<not> e \<le> 0"
    then have "0 \<le> e0" "e0 = 0 \<longrightarrow> 2 ^ 53 \<le> x" using assms(1) by (auto simp: e_def pow2_def split: if_splits)
    then consider "0 < e0" | "e0 = 0" "2 ^ 53 \<le> x" by linarith
    then show False
    proof cases
      case 1
      then have le: "bits q + 53 \<le> bits p - 1" using p by (simp add: e0_def)
      have "q * 2 ^ 53 < 2 ^ nat (bits q) * 2 ^ 53" using bits_bounds [OF q] by simp
      also have "\<dots> = 2 ^ (nat (bits q) + 53)" by (simp add: power_add)
      also have "\<dots> \<le> (2::int) ^ nat (bits p - 1)" using le bits_bounds [OF q] by (intro power_increasing) auto
      also have "\<dots> \<le> p" using bits_bounds [OF p] by simp
      finally have "of_int (q * 2 ^ 53) < (of_int p :: rat)" by (simp only: of_int_less_iff)
      then have "2 ^ 53 < x" using q by (simp add: x field_simps)
      with assms(2) show False by simp
    next
      case 2
      with assms(2) show False by simp
    qed
  qed
  then have "pow2 e = 1 / 2 ^ nat (- e)" by (simp add: pow2_def)
  moreover have "fl x = of_int (round_half_even (x / pow2 e)) * pow2 e"
    using assms(1) by (simp add: fl_def pq e_def e0_def Let_def)
  ultimately show thesis using that [of "nat (- e)"] by simp
qed

lemma fl_bounds:
  assumes "0 \<le> x" and "x < 2 ^ 53" and "of_int a \<le> x" and "x \<le> of_int b"
  shows "of_int a \<le> fl x \<and> fl x \<le> of_int b"
proof (cases "x = 0")
  case True
  with assms show ?thesis by simp
next
  case False
  with assms(1) have "0 < x" by simp
  then obtain k where k: "fl x = of_int (round_half_even (x * 2 ^ k)) / 2 ^ k"
    using fl_fraction [OF _ assms(2)] by blast
  have "of_int (a * 2 ^ k) \<le> x * 2 ^ k" using assms(3) by simp
  from round_half_even_ge [OF this] have 1: "a * 2 ^ k \<le> round_half_even (x * 2 ^ k)" .
  have "x * 2 ^ k \<le> of_int (b * 2 ^ k)" using assms(4) by simp
  from round_half_even_le [OF this] have 2: "round_half_even (x * 2 ^ k) \<le> b * 2 ^ k" .
  from 1 have "of_int (a * 2 ^ k) \<le> (of_int (round_half_even (x * 2 ^ k)) :: rat)" by (simp only: of_int_le_iff)
  moreover from 2 have "(of_int (round_half_even (x * 2 ^ k)) :: rat) \<le> of_int (b * 2 ^ k)" by (simp only: of_int_le_iff)
  ultimately show ?thesis unfolding k by (simp add: field_simps)
qed


end
