(* ===== verification/PbxTypes.thy ===== *)
theory PbxTypes
  imports PyNum
begin

text \<open>
  The neutral snapshot types of \<open>pbxsense_agent/pulse.py\<close> and \<open>pbxsense_agent/history.py\<close> that
  every connector produces and every later stage consumes: channels, endpoints, queues, call
  records, voicemails, security events and the snapshot itself, with the defaults of the
  dataclasses, and the payload records the Home pipeline builds (a Signal is a dict with the
  same keys in the code).
\<close>

section \<open>Connector snapshot\<close>

record ami_channel =
  channel :: string
  extension :: string
  caller :: string
  connected :: string
  chan_state :: string
  endpoint :: string
  caller_number :: string
  connected_number :: string
  duration :: string
  unique_id :: string
  linked_id :: string

record ami_endpoint =
  ep_extension :: string
  device_state :: string
  active_channels :: int
  ep_label :: string
  role :: string
  ep_number :: string
  presence :: string
  ip_address :: string

record ami_queue =
  q_name :: string
  waiting_callers :: int
  longest_wait_seconds :: int
  available_members :: int
  busy_members :: int
  paused_members :: int
  total_members :: int

record cdr_call =
  source :: string
  destination :: string
  disposition :: string
  started_at :: "datetime option"
  duration_seconds :: int
  cdr_context :: string
  cdr_channel :: string
  destination_channel :: string
  last_app :: string
  last_data :: string
  recording_id :: string
  packet_loss_percent :: "rat option"
  jitter_ms :: "rat option"
  latency_ms :: "rat option"

record voicemail_message =
  mailbox :: string
  vm_caller :: string
  created_at :: "datetime option"

record security_event =
  ev_kind :: string
  ev_service :: string
  occurred_at :: "datetime option"

record ami_snapshot =
  reachable :: bool
  agent_version :: string
  channels :: "ami_channel list"
  endpoints :: "ami_endpoint list"
  queues :: "ami_queue list"
  recent_calls :: "cdr_call list"
  voicemails :: "voicemail_message list"
  security_events :: "security_event list"
  error :: "string option"

text \<open>The keyword defaults of the dataclasses.\<close>

definition default_channel :: ami_channel where
  "default_channel = \<lparr>channel = [], extension = [], caller = [], connected = [], chan_state = [],
     endpoint = [], caller_number = [], connected_number = [], duration = [], unique_id = [],
     linked_id = []\<rparr>"

definition default_endpoint :: ami_endpoint where
  "default_endpoint = \<lparr>ep_extension = [], device_state = [], active_channels = 0, ep_label = [],
     role = ''extension'', ep_number = [], presence = [], ip_address = []\<rparr>"

definition default_queue :: ami_queue where
  "default_queue = \<lparr>q_name = [], waiting_callers = 0, longest_wait_seconds = 0,
     available_members = 0, busy_members = 0, paused_members = 0, total_members = 0\<rparr>"

definition default_call :: cdr_call where
  "default_call = \<lparr>source = [], destination = [], disposition = [], started_at = None,
     duration_seconds = 0, cdr_context = [], cdr_channel = [], destination_channel = [],
     last_app = [], last_data = [], recording_id = [], packet_loss_percent = None,
     jitter_ms = None, latency_ms = None\<rparr>"

definition default_snapshot :: ami_snapshot where
  "default_snapshot = \<lparr>reachable = True, agent_version = [], channels = [], endpoints = [],
     queues = [], recent_calls = [], voicemails = [], security_events = [], error = None\<rparr>"

definition is_trunk :: "ami_endpoint \<Rightarrow> bool" where
  "is_trunk e = (role e = ''trunk'')"

section \<open>Payload records\<close>

record signal =
  sg_id :: string
  sg_kind :: string
  category :: string
  importance :: string
  sg_state :: string
  sg_title :: string
  sg_body :: string
  time_label :: string
  action_label :: "string option"
  why :: "string list"
  technical :: "string pydict"
  notification_id :: "string option"

text \<open>An entry of \<open>ActivityTracker._events\<close>.\<close>

record activity_event =
  a_id :: string
  a_kind :: string
  a_title :: string
  a_body :: string
  a_why :: string
  a_technical :: "string pydict"
  observed_at :: datetime
  a_category :: string

record call_entry =
  c_title :: string
  c_body :: string
  c_time_label :: string
  is_active :: bool
  c_kind :: string
  recording :: "(string \<times> string) option"

record person =
  p_name :: string
  p_extension :: string
  p_status :: string
  p_status_text :: string
  p_detail :: string
  p_ip_address :: string
  p_presence :: "string \<times> string"
  last_active_at :: "string option"

record trunk_view =
  t_name :: string
  t_endpoint :: string
  t_status_text :: string
  t_detail :: string
  t_active_channels :: int
  t_available :: bool

record queue_view =
  v_name :: string
  v_queue :: string
  v_status :: string
  v_status_text :: string
  v_detail :: string
  v_waiting_callers :: int
  v_longest_wait_seconds :: int
  v_available_members :: int
  v_busy_members :: int
  v_paused_members :: int
  v_total_members :: int

text \<open>
  Most Signals are active and carry no action and no occurrence id; this is the dict literal they
  share in the code.
\<close>

definition mk_signal :: "string \<Rightarrow> string \<Rightarrow> string \<Rightarrow> string \<Rightarrow> string \<Rightarrow> string \<Rightarrow> string \<Rightarrow>
    string list \<Rightarrow> string pydict \<Rightarrow> signal" where
  "mk_signal i k cat imp ttl bdy lbl ws tech = \<lparr>sg_id = i, sg_kind = k, category = cat,
     importance = imp, sg_state = ''active'', sg_title = ttl, sg_body = bdy, time_label = lbl,
     action_label = None, why = ws, technical = tech, notification_id = None\<rparr>"

lemma mk_signal_sel [simp]:
  "sg_id (mk_signal i k cat imp ttl bdy lbl ws tech) = i"
  "sg_kind (mk_signal i k cat imp ttl bdy lbl ws tech) = k"
  "category (mk_signal i k cat imp ttl bdy lbl ws tech) = cat"
  "importance (mk_signal i k cat imp ttl bdy lbl ws tech) = imp"
  "sg_state (mk_signal i k cat imp ttl bdy lbl ws tech) = ''active''"
  "sg_title (mk_signal i k cat imp ttl bdy lbl ws tech) = ttl"
  "sg_body (mk_signal i k cat imp ttl bdy lbl ws tech) = bdy"
  "time_label (mk_signal i k cat imp ttl bdy lbl ws tech) = lbl"
  "technical (mk_signal i k cat imp ttl bdy lbl ws tech) = tech"
  "notification_id (mk_signal i k cat imp ttl bdy lbl ws tech) = None"
  by (simp_all add: mk_signal_def)

end
