(* ===== verification/History.thy ===== *)
theory History
  imports PbxTypes
begin

text \<open>
  \<open>pbxsense_agent/history.py\<close>: the readers of call records, voicemails and security events.
  The file system, the UTF-8 decoder and the CSV reader are not modelled: a reader is a function
  of what they return (\<open>None\<close> for a missing file or an \<open>OSError\<close>). What is modelled is every
  decision the module takes on that content: the bounded tail of the CDR file, the rows that are
  kept and how they become records, their order and limit, the meaning of a disposition, the
  voicemail metadata and the security log lines.
\<close>

section \<open>Meaning of a call record\<close>

definition MISSED_CDR_DISPOSITIONS :: "string list" where
  "MISSED_CDR_DISPOSITIONS = [''NO ANSWER'', ''BUSY'', ''FAILED'', ''CONGESTION'']"

definition looks_like_ivr_reached :: "cdr_call \<Rightarrow> bool" where
  "looks_like_ivr_reached call =
    (let ctx = lower (cdr_context call); app = lower (last_app call);
         data = lower (last_data call); dst = lower (strip (destination call));
         has_human_channel = (strip (destination_channel call) \<noteq> [])
     in if has_human_channel then False
        else if any_marker [''ivr'', ''menu'', ''autoattendant'', ''auto-attendant''] ctx then True
        else if dst \<in> {''s'', ''i'', ''t'', ''h''}
             \<and> app \<in> {''answer'', ''background'', ''backgroun'', ''playback'', ''read'', ''waitexten''}
             then True
        else contains ''ivr'' data \<or> contains ''menu'' data)"

definition interpreted_call_kind :: "cdr_call \<Rightarrow> string" where
  "interpreted_call_kind call =
    (let disp = upper (disposition call)
     in if disp \<in> set MISSED_CDR_DISPOSITIONS then ''missed''
        else if disp \<noteq> ''ANSWERED'' then []
        else if looks_like_ivr_reached call then ''ivr_reached''
        else ''answered'')"

section \<open>Call records from the CDR file\<close>

text \<open>
  \<open>_recent_cdr_rows\<close> reads at most \<open>target_bytes\<close> from the end of the file and, when it did not
  start at the beginning, drops everything up to and including the first newline.
\<close>

definition target_bytes :: "nat \<Rightarrow> nat" where
  "target_bytes limit = min (16 * 1024 * 1024) (max (1024 * 1024) (limit * 2048 * 3))"

definition newline :: char where
  "newline = CHR 0x0A"

definition recent_cdr_tail :: "nat \<Rightarrow> string \<Rightarrow> string" where
  "recent_cdr_tail target content =
    (let start = length content - target; raw = drop start content
     in if start \<noteq> 0 then (if newline \<in> set raw then after newline raw else []) else raw)"

definition parse_int :: "string \<Rightarrow> int" where
  "parse_int raw = opt_or (py_int raw) 0"

definition recording_filename :: "string \<Rightarrow> string" where
  "recording_filename value' = after_last (CHR ''/'') (replace_char (CHR 0x5C) (CHR ''/'') (strip value'))"

definition recording_id_from_row :: "string list \<Rightarrow> string" where
  "recording_id_from_row row =
    (if length row > 17 \<and> strip (row ! 17) \<noteq> [] then recording_filename (row ! 17) else [])"

definition call_of_row :: "string list \<Rightarrow> cdr_call" where
  "call_of_row row = default_call\<lparr>
     source := strip (row ! 1),
     destination := strip (row ! 2),
     disposition := (if length row > 14 then upper (strip (row ! 14)) else []),
     started_at := parse_datetime_text (strip (row ! 9)),
     duration_seconds := parse_int (strip (row ! 12)),
     cdr_context := (if length row > 3 then strip (row ! 3) else []),
     cdr_channel := (if length row > 5 then strip (row ! 5) else []),
     destination_channel := (if length row > 6 then strip (row ! 6) else []),
     last_app := (if length row > 7 then strip (row ! 7) else []),
     last_data := (if length row > 8 then strip (row ! 8) else []),
     recording_id := recording_id_from_row row\<rparr>"

text \<open>\<open>datetime.min\<close>, the sort key of a call without a start time.\<close>

definition datetime_min :: datetime where
  "datetime_min = 0"

definition call_sort_key :: "cdr_call \<Rightarrow> datetime" where
  "call_sort_key c = opt_or (started_at c) datetime_min"

definition read_recent_cdr_calls :: "nat \<Rightarrow> string list list option \<Rightarrow> cdr_call list" where
  "read_recent_cdr_calls limit rows =
    (case rows of None \<Rightarrow> []
     | Some rs \<Rightarrow>
         let calls = map call_of_row (filter (\<lambda>row. \<not> length row < 14) (tail_slice (limit * 3) rs))
         in take limit (sort_desc call_sort_key calls))"

section \<open>Voicemails\<close>

definition is_line_break :: "char \<Rightarrow> bool" where
  "is_line_break c = (let n = code_point c in n \<in> {10, 11, 12, 13, 28, 29, 30, 133})"

text \<open>\<open>str.splitlines()\<close>: a carriage return and the newline after it are one break, and there is
  no empty line after a final break.\<close>

fun splitlines_acc :: "string \<Rightarrow> string \<Rightarrow> string list" where
  "splitlines_acc acc [] = (if acc = [] then [] else [rev acc])"
| "splitlines_acc acc (c # cs) =
    (if is_line_break c then
       (if code_point c = 13 then
          (case cs of d # ds \<Rightarrow> if code_point d = 10 then rev acc # splitlines_acc [] ds
                               else rev acc # splitlines_acc [] cs
           | [] \<Rightarrow> rev acc # splitlines_acc [] cs)
        else rev acc # splitlines_acc [] cs)
     else splitlines_acc (c # acc) cs)"

definition splitlines :: "string \<Rightarrow> string list" where
  "splitlines s = splitlines_acc [] s"

definition read_voicemail_metadata :: "string option \<Rightarrow> string pydict" where
  "read_voicemail_metadata text' = (case text' of None \<Rightarrow> []
     | Some t \<Rightarrow> foldl (\<lambda>d line. if CHR ''='' \<notin> set line then d
           else AList.update (strip (before (CHR ''='') line)) (strip (after (CHR ''='') line)) d)
         [] (splitlines t))"

text \<open>The path component before the first \<open>INBOX\<close>; empty when there is none.\<close>

definition mailbox_from_path :: "string list \<Rightarrow> string" where
  "mailbox_from_path parts =
    (let front = takeWhile (\<lambda>p. p \<noteq> ''INBOX'') parts
     in if ''INBOX'' \<notin> set parts \<or> front = [] then [] else last front)"

text \<open>
  \<open>datetime.fromtimestamp\<close> depends on the host's time zone, so it is a parameter \<open>from_ts\<close> with
  three outcomes: a time, one of the errors \<open>_parse_timestamp\<close> catches (\<open>TypeError\<close>,
  \<open>ValueError\<close>, \<open>OSError\<close>), or an \<open>OverflowError\<close> (a number beyond the platform's
  \<open>time_t\<close>), which it does not catch. A result \<open>None\<close> below is that exception escaping.
\<close>

datatype ts_result = TsOk datetime | TsCaught | TsOverflow

definition parse_timestamp :: "(int \<Rightarrow> ts_result) \<Rightarrow> string \<Rightarrow> datetime option option" where
  "parse_timestamp from_ts raw = (case py_int raw of None \<Rightarrow> Some None
     | Some n \<Rightarrow> (case from_ts n of TsOk t \<Rightarrow> Some (Some t) | TsCaught \<Rightarrow> Some None | TsOverflow \<Rightarrow> None))"

text \<open>A voicemail file is its path and its text.\<close>

definition voicemail_of_file :: "(int \<Rightarrow> ts_result) \<Rightarrow> string list \<times> string option \<Rightarrow> voicemail_message option" where
  "voicemail_of_file from_ts f = (let metadata = read_voicemail_metadata (snd f)
     in map_option (\<lambda>t. \<lparr>mailbox = mailbox_from_path (fst f),
         vm_caller = or_str (strip_chars (\<lambda>c. c = CHR 0x22) (dget metadata ''callerid'' [])) ''A caller'',
         created_at = t\<rparr>) (parse_timestamp from_ts (dget metadata ''origtime'' [])))"

text \<open>\<open>files\<close> are the message files with their modification times (\<open>None\<close>: not a directory, or an
  \<open>OSError\<close> while listing).\<close>

definition read_recent_voicemails ::
    "(int \<Rightarrow> ts_result) \<Rightarrow> nat \<Rightarrow> (int \<times> string list \<times> string option) list option \<Rightarrow> voicemail_message list option" where
  "read_recent_voicemails from_ts limit files = (case files of None \<Rightarrow> Some []
     | Some fs \<Rightarrow> those (map (\<lambda>f. voicemail_of_file from_ts (snd f)) (take limit (sort_desc fst fs))))"

section \<open>Security events\<close>

definition SUPPORTED_SECURITY_EVENTS :: "string list" where
  "SUPPORTED_SECURITY_EVENTS = [''InvalidAccountID'', ''InvalidPassword'', ''ChallengeResponseFailed'',
     ''FailedACL'', ''RequestBadFormat'']"

text \<open>
  The search for \<open>Key="?([^",\s]+)\<close>: at each position where the key and the equals sign match, an
  optional quote is skipped when a group can follow it, and the group is the longest run of
  characters other than quote, comma and white space; the first position with a nonempty group
  wins.
\<close>

definition field_char :: "char \<Rightarrow> bool" where
  "field_char c = (c \<noteq> CHR 0x22 \<and> c \<noteq> CHR '','' \<and> \<not> is_space c)"

definition match_field :: "string \<Rightarrow> string \<Rightarrow> string option" where
  "match_field key s =
    (if prefix key s then
       let r = drop (length key) s;
           r' = (case r of c # cs \<Rightarrow> if c = CHR 0x22 then cs else r | [] \<Rightarrow> r);
           g = takeWhile field_char r'
       in if g = [] then None else Some g
     else None)"

fun search_field :: "string \<Rightarrow> string \<Rightarrow> string option" where
  "search_field key [] = match_field key []"
| "search_field key (c # cs) = (case match_field key (c # cs) of Some g \<Rightarrow> Some g
     | None \<Rightarrow> search_field key cs)"

definition security_log_time :: "string \<Rightarrow> datetime option" where
  "security_log_time line = (case line of [] \<Rightarrow> None
     | c # cs \<Rightarrow>
        let g = takeWhile (\<lambda>x. x \<noteq> CHR '']'') cs
        in if c \<noteq> CHR ''['' \<or> g = [] \<or> CHR '']'' \<notin> set cs then None
           else parse_datetime_text (take 19 (strip g)))"

definition security_event_from_line :: "string \<Rightarrow> security_event option" where
  "security_event_from_line line = (case search_field ''SecurityEvent='' line of None \<Rightarrow> None
     | Some kind \<Rightarrow>
        if kind \<notin> set SUPPORTED_SECURITY_EVENTS then None
        else Some \<lparr>ev_kind = kind, ev_service = opt_or (search_field ''Service='' line) ''PBX'',
                   occurred_at = security_log_time line\<rparr>)"

definition recent_event :: "datetime \<Rightarrow> security_event \<Rightarrow> bool" where
  "recent_event cutoff e = (case occurred_at e of None \<Rightarrow> False | Some t \<Rightarrow> \<not> t < cutoff)"

text \<open>The last 256 KiB of the log, its last \<open>limit * 10\<close> lines, the events among them that are dated
  inside the window, the last \<open>limit\<close> of those.\<close>

definition read_recent_security_events :: "int \<Rightarrow> nat \<Rightarrow> datetime \<Rightarrow> string option \<Rightarrow> security_event list" where
  "read_recent_security_events window_minutes limit now content = (case content of None \<Rightarrow> []
     | Some raw \<Rightarrow>
        let cutoff = now - window_minutes * minute_us;
            lines = tail_slice (limit * 10) (splitlines (last_n 262144 raw));
            events = filter (recent_event cutoff) (List.map_filter security_event_from_line lines)
        in tail_slice limit events)"

section \<open>Lemmas\<close>

lemma interpreted_call_kind_cases:
  "interpreted_call_kind c \<in> {''missed'', [], ''ivr_reached'', ''answered''}"
  by (simp add: interpreted_call_kind_def Let_def)

lemma answered_iff:
  "interpreted_call_kind c = ''answered'' \<longleftrightarrow>
     upper (disposition c) = ''ANSWERED'' \<and> \<not> looks_like_ivr_reached c"
  by (auto simp: interpreted_call_kind_def MISSED_CDR_DISPOSITIONS_def Let_def)

lemma human_channel_not_ivr:
  "strip (destination_channel c) \<noteq> [] \<Longrightarrow> \<not> looks_like_ivr_reached c"
  by (simp add: looks_like_ivr_reached_def Let_def)

text \<open>The CDR tail: bounded, a suffix of the file, and it starts where a line starts.\<close>

lemma after_length_le: "length (after c s) \<le> length s"
proof -
  have "length (dropWhile (\<lambda>x. x \<noteq> c) s) \<le> length s" by (rule length_dropWhile_le)
  then show ?thesis by (simp add: after_def)
qed

lemma before_after: "c \<in> set s \<Longrightarrow> s = before c s @ c # after c s"
proof -
  assume "c \<in> set s"
  then have ne: "dropWhile (\<lambda>x. x \<noteq> c) s \<noteq> []" by (simp add: dropWhile_eq_Nil_conv)
  then have "hd (dropWhile (\<lambda>x. x \<noteq> c) s) = c" by (metis (mono_tags, lifting) hd_dropWhile)
  with ne have "dropWhile (\<lambda>x. x \<noteq> c) s = c # after c s"
    by (cases "dropWhile (\<lambda>x. x \<noteq> c) s") (simp_all add: after_def)
  moreover have "s = takeWhile (\<lambda>x. x \<noteq> c) s @ dropWhile (\<lambda>x. x \<noteq> c) s" by simp
  ultimately show ?thesis by (simp add: before_def)
qed

lemma before_no_char: "c \<notin> set (before c s)"
  by (auto simp: before_def dest: set_takeWhileD)

lemma recent_cdr_tail_length: "length (recent_cdr_tail target content) \<le> target"
proof -
  have "length (drop (length content - target) content) \<le> target" by simp
  then show ?thesis
    using after_length_le [of newline "drop (length content - target) content"]
    by (simp add: recent_cdr_tail_def Let_def)
qed

lemma recent_cdr_tail_line_start:
  "\<exists>pre. content = pre @ recent_cdr_tail target content \<and>
     (pre = [] \<or> recent_cdr_tail target content = [] \<or> last pre = newline)"
proof (cases "length content - target = 0 \<or> newline \<notin> set (drop (length content - target) content)")
  case True
  then show ?thesis
    by (cases "length content - target = 0") (auto simp: recent_cdr_tail_def Let_def)
next
  case False
  let ?d = "drop (length content - target) content"
  from False have tail: "recent_cdr_tail target content = after newline ?d"
    by (simp add: recent_cdr_tail_def Let_def)
  have "content = take (length content - target) content @ ?d" by simp
  also have "\<dots> = (take (length content - target) content @ before newline ?d @ [newline]) @ after newline ?d"
    using before_after [of newline ?d] False by simp
  finally have "content =
      (take (length content - target) content @ before newline ?d @ [newline]) @ recent_cdr_tail target content"
    by (simp add: tail)
  then show ?thesis by (intro exI [of _ "take (length content - target) content @ before newline ?d @ [newline]"]) auto
qed

lemma read_recent_cdr_calls_length: "length (read_recent_cdr_calls limit rows) \<le> limit"
  by (simp add: read_recent_cdr_calls_def Let_def split: option.splits)

lemma those_map_None: "those (map f xs) = None \<longleftrightarrow> (\<exists>x \<in> set xs. f x = None)"
  by (induction xs) (auto split: option.splits)

lemma read_recent_voicemails_raises_iff:
  "read_recent_voicemails from_ts limit (Some fs) = None \<longleftrightarrow>
     (\<exists>f \<in> set (take limit (sort_desc fst fs)).
        \<exists>n. py_int (dget (read_voicemail_metadata (snd (snd f))) ''origtime'' []) = Some n \<and> from_ts n = TsOverflow)"
proof -
  have "voicemail_of_file from_ts (snd f) = None \<longleftrightarrow>
      (\<exists>n. py_int (dget (read_voicemail_metadata (snd (snd f))) ''origtime'' []) = Some n \<and> from_ts n = TsOverflow)" for f :: "int \<times> string list \<times> string option"
    by (auto simp: voicemail_of_file_def parse_timestamp_def Let_def split: option.splits ts_result.splits)
  then show ?thesis
    by (simp only: read_recent_voicemails_def option.case those_map_None)
qed

lemma sorted_wrt_take: "sorted_wrt P xs \<Longrightarrow> sorted_wrt P (take n xs)"
  by (simp add: sorted_wrt_iff_nth_less)

lemma read_recent_cdr_calls_sorted:
  "sorted_wrt (\<lambda>c d. call_sort_key d \<le> call_sort_key c) (read_recent_cdr_calls limit rows)"
  by (simp add: read_recent_cdr_calls_def Let_def sorted_wrt_take sorted_sort_desc split: option.splits)

text \<open>
  The tail of the CDR file that a history refresh parses is never longer than the byte target,
  is a suffix of the file, and starts at the beginning of a line: no half row is parsed, and the cost
  of a refresh does not grow with the file.
\<close>

theorem cdr_tail_whole_lines_bounded:
  "length (recent_cdr_tail (target_bytes limit) content) \<le> 16 * 1024 * 1024 \<and>
   (\<exists>pre. content = pre @ recent_cdr_tail (target_bytes limit) content \<and>
     (pre = [] \<or> recent_cdr_tail (target_bytes limit) content = [] \<or> last pre = newline))"
proof
  have "length (recent_cdr_tail (target_bytes limit) content) \<le> target_bytes limit"
    by (rule recent_cdr_tail_length)
  also have "\<dots> \<le> 16 * 1024 * 1024" by (simp add: target_bytes_def)
  finally show "length (recent_cdr_tail (target_bytes limit) content) \<le> 16 * 1024 * 1024" .
qed (rule recent_cdr_tail_line_start)

text \<open>
  The recent calls are at most \<open>limit\<close>, newest first (calls without a start time last), and each
  is the reading of a complete row of the file.
\<close>

theorem recent_calls_newest_first:
  "length (read_recent_cdr_calls limit (Some rows)) \<le> limit \<and>
   sorted_wrt (\<lambda>c d. call_sort_key d \<le> call_sort_key c) (read_recent_cdr_calls limit (Some rows)) \<and>
   (\<forall>c \<in> set (read_recent_cdr_calls limit (Some rows)). \<exists>row \<in> set rows. 14 \<le> length row \<and> c = call_of_row row)"
proof (intro conjI ballI)
  fix c assume "c \<in> set (read_recent_cdr_calls limit (Some rows))"
  then obtain row where "row \<in> set (tail_slice (limit * 3) rows)" "\<not> length row < 14" "c = call_of_row row"
    by (auto simp: read_recent_cdr_calls_def Let_def dest!: in_set_takeD)
  moreover have "set (tail_slice (limit * 3) rows) \<subseteq> set rows" by (rule set_tail_slice)
  ultimately show "\<exists>row \<in> set rows. 14 \<le> length row \<and> c = call_of_row row"
    by (intro bexI [of _ row]) auto
qed (rule read_recent_cdr_calls_length, rule read_recent_cdr_calls_sorted)

definition demo_row :: "string \<Rightarrow> string list" where
  "demo_row t = [[], ''301'', ''200'', [], [], [], [], [], [], t, [], [], ''35'', [], ''ANSWERED'']"

theorem recent_calls_newest_first_witness:
  "map source (read_recent_cdr_calls 1 (Some [demo_row ''2026-01-02 10:00:00'', [''short''], demo_row ''2026-01-01 10:00:00''])) = [''301''] \<and>
   list_all (\<lambda>c. \<exists>row \<in> set [demo_row ''2026-01-02 10:00:00'', [''short''], demo_row ''2026-01-01 10:00:00''].
       14 \<le> length row \<and> c = call_of_row row)
     (read_recent_cdr_calls 1 (Some [demo_row ''2026-01-02 10:00:00'', [''short''], demo_row ''2026-01-01 10:00:00'']))"
proof
  show "map source (read_recent_cdr_calls 1 (Some [demo_row ''2026-01-02 10:00:00'', [''short''], demo_row ''2026-01-01 10:00:00''])) = [''301'']"
    by code_simp
qed (use recent_calls_newest_first [of 1] in \<open>unfold list_all_iff, blast\<close>)

text \<open>
  Reading the voicemails raises exactly when one of the newest \<open>limit\<close> message files has a numeric
  \<open>origtime\<close> that the platform cannot represent: the \<open>OverflowError\<close> is not among the exceptions
  \<open>_parse_timestamp\<close> catches, so one such file makes the whole history refresh fail.
\<close>

theorem voicemails_raise_on_overflow:
  "read_recent_voicemails from_ts limit (Some fs) = None \<longleftrightarrow>
     (\<exists>f \<in> set (take limit (sort_desc fst fs)).
        \<exists>n. py_int (dget (read_voicemail_metadata (snd (snd f))) ''origtime'' []) = Some n \<and> from_ts n = TsOverflow)"
  by (rule read_recent_voicemails_raises_iff)

text \<open>
  Every security event that is reported is of a supported kind and carries a time inside the
  window: an undated or old log line never becomes a Security Signal.
\<close>

theorem security_events_supported_and_recent:
  "\<forall>e \<in> set (read_recent_security_events window_minutes limit now content).
     ev_kind e \<in> set SUPPORTED_SECURITY_EVENTS \<and>
     (\<exists>t. occurred_at e = Some t \<and> now - window_minutes * minute_us \<le> t)"
proof
  fix e assume a: "e \<in> set (read_recent_security_events window_minutes limit now content)"
  then obtain raw where raw: "content = Some raw" by (cases content) (auto simp: read_recent_security_events_def)
  let ?evs = "List.map_filter security_event_from_line (tail_slice (limit * 10) (splitlines (last_n 262144 raw)))"
  from a have "e \<in> set (filter (recent_event (now - window_minutes * minute_us)) ?evs)"
    using set_tail_slice [of limit "filter (recent_event (now - window_minutes * minute_us)) ?evs"]
    by (auto simp: raw read_recent_security_events_def Let_def)
  then obtain line where "security_event_from_line line = Some e" "recent_event (now - window_minutes * minute_us) e"
    by (auto simp: List.map_filter_def)
  then show "ev_kind e \<in> set SUPPORTED_SECURITY_EVENTS \<and>
      (\<exists>t. occurred_at e = Some t \<and> now - window_minutes * minute_us \<le> t)"
    by (auto simp: security_event_from_line_def recent_event_def not_less split: option.splits if_splits)
qed

definition demo_security_line :: string where
  "demo_security_line = ''[2026-01-02 10:00:00] SecurityEvent='' @ [CHR 0x22] @ ''InvalidPassword'' @ [CHR 0x22]"

definition demo_security_now :: datetime where
  "demo_security_now = opt_or (parse_datetime_text ''2026-01-02 10:05:00'') 0"

lemma demo_security_tail: "last_n 262144 demo_security_line = demo_security_line"
  by (simp add: last_n_def demo_security_line_def)

lemma demo_security_events:
  "map ev_kind (tail_slice 10 (filter (recent_event (demo_security_now - 15 * minute_us))
     (List.map_filter security_event_from_line (tail_slice (10 * 10) (splitlines demo_security_line))))) = [''InvalidPassword'']"
  by code_simp

theorem security_events_supported_and_recent_witness:
  "map ev_kind (read_recent_security_events 15 10 demo_security_now (Some demo_security_line)) = [''InvalidPassword''] \<and>
   list_all (\<lambda>e. ev_kind e \<in> set SUPPORTED_SECURITY_EVENTS)
     (read_recent_security_events 15 10 demo_security_now (Some demo_security_line))"
proof
  show "map ev_kind (read_recent_security_events 15 10 demo_security_now (Some demo_security_line)) = [''InvalidPassword'']"
    using demo_security_events by (simp only: read_recent_security_events_def option.case Let_def demo_security_tail)
qed (use security_events_supported_and_recent [of 15 10 demo_security_now "Some demo_security_line"]
  in \<open>unfold list_all_iff, blast\<close>)

end
