(* ===== verification/PulseText.thy ===== *)
theory PulseText
  imports History
begin

text \<open>
  The naming and classification helpers of \<open>pbxsense_agent/pulse.py\<close>: display names of
  extensions, trunks and call parties, endpoints read from channel names, device and presence
  states, active channels, and the small formatters of the Home payload.
\<close>

section \<open>Endpoints and channel names\<close>

definition endpoint_from_channel :: "string \<Rightarrow> string" where
  "endpoint_from_channel ch =
    (if CHR ''/'' \<notin> set ch then [] else before (CHR ''-'') (after (CHR ''/'') ch))"

definition person_endpoint :: "ami_channel \<Rightarrow> string" where
  "person_endpoint c = or_str (endpoint c) (or_str (endpoint_from_channel (channel c)) (extension c))"

definition clean_unknown :: "string \<Rightarrow> string" where
  "clean_unknown v = (let cleaned = strip v
     in if lower cleaned \<in> {[], ''<unknown>'', ''unknown''} then [] else cleaned)"

definition safe_id :: "string \<Rightarrow> string" where
  "safe_id raw = lower (strip_chars (\<lambda>c. c = CHR ''_'')
     (map (\<lambda>c. if is_alnum c then c else CHR ''_'') raw))"

definition is_active_channel :: "ami_channel \<Rightarrow> bool" where
  "is_active_channel c = (lower (chan_state c) \<in> {''up'', ''ring'', ''ringing''} \<or> connected c \<noteq> [])"

section \<open>Device and presence states\<close>

definition spaced :: "string \<Rightarrow> string" where
  "spaced s = replace_char (CHR ''-'') (CHR '' '') (replace_char (CHR ''_'') (CHR '' '') s)"

definition unavailable_markers :: "string list" where
  "unavailable_markers = [''unavailable'', ''unreachable'', ''offline'', ''removed'', ''unregistered'',
     ''not registered'', ''unknown'', ''rejected'']"

definition device_state_is_unavailable :: "string \<Rightarrow> bool" where
  "device_state_is_unavailable raw = any_marker unavailable_markers (spaced (lower (strip raw)))"

definition endpoint_unavailable :: "ami_endpoint \<Rightarrow> bool" where
  "endpoint_unavailable e = device_state_is_unavailable (device_state e)"

definition normalized_presence :: "string \<Rightarrow> (string \<times> string) option" where
  "normalized_presence raw =
    (let v = strip raw in
     if v = [] then None
     else let n = spaced (lower v) in
       if device_state_is_unavailable n then Some (''offline'', ''Offline'')
       else if contains ''do not disturb'' n \<or> n = ''dnd'' then Some (''do_not_disturb'', ''Do not disturb'')
       else if contains ''away'' n then Some (''away'', ''Away'')
       else if contains ''ringing'' n then Some (''ringing'', ''Ringing'')
       else if any_marker [''busy'', ''in use'', ''on hold''] n then Some (''busy'', ''Busy'')
       else if any_marker [''available'', ''reachable'', ''registered'', ''not in use'', ''idle''] n
         then Some (''available'', ''Available'')
       else if contains ''unknown'' n then Some (''unknown'', ''Unknown'')
       else None)"

definition person_presence :: "ami_endpoint \<Rightarrow> bool \<Rightarrow> string \<times> string" where
  "person_presence e is_talking =
    (if is_talking then (''on_call'', ''On a call'')
     else let device_presence = normalized_presence (device_state e) in
       if (case device_presence of None \<Rightarrow> False
           | Some p \<Rightarrow> fst p \<in> {''offline'', ''ringing'', ''busy''})
       then the device_presence
       else case normalized_presence (presence e) of Some p \<Rightarrow> p
         | None \<Rightarrow> (case device_presence of Some p \<Rightarrow> p | None \<Rightarrow> (''unknown'', ''Unknown'')))"

definition registered_trunk_detail :: "string \<Rightarrow> string" where
  "registered_trunk_detail ds = (let state = strip ds in
     if state = [] then ''Registered and ready''
     else if any_marker [''registered'', ''reachable'', ''available'', ''ok''] (lower state)
       then ''Registered and ready''
     else state)"

section \<open>Names\<close>

definition looks_like_extension :: "string \<Rightarrow> string \<Rightarrow> bool" where
  "looks_like_extension v ext = (let normalized = lower (strip v) in
     if \<not> str_isdigit (strip ext) \<and> normalized = lower (strip ext) then False
     else normalized \<in> {[], lower (strip ext), lower (''pjsip/'' @ ext), lower (''sip/'' @ ext)})"

definition extension_name :: "string \<Rightarrow> string pydict \<Rightarrow> string \<Rightarrow> string" where
  "extension_name ext names observed_label =
    (if observed_label \<noteq> [] \<and> \<not> looks_like_extension observed_label ext then observed_label
     else dget names ext ext)"

definition trunk_display_name :: "string \<Rightarrow> string" where
  "trunk_display_name name = (if contains ''trunk'' (lower name) then name else ''SIP trunk '' @ name)"

definition party_name :: "string \<Rightarrow> string \<Rightarrow> string pydict \<Rightarrow> string pydict \<Rightarrow> string" where
  "party_name ext fallback names labels =
    (if ext \<noteq> [] then
       let observed_label = dget labels ext []; manual_name = dget names ext [] in
       if observed_label \<noteq> [] \<or> manual_name \<noteq> [] then extension_name ext names observed_label
       else ext
     else or_str (clean_unknown fallback) ''a caller'')"

text \<open>The first of the candidates that is nonempty and differs from \<open>x\<close>.\<close>

definition first_other :: "string \<Rightarrow> string list \<Rightarrow> string option" where
  "first_other x cands = find (\<lambda>c. c \<noteq> [] \<and> c \<noteq> x) cands"

definition peer_name :: "ami_channel \<Rightarrow> string \<Rightarrow> string pydict \<Rightarrow> string pydict \<Rightarrow> string" where
  "peer_name c pe names labels =
    (case first_other pe [connected_number c, extension c, caller_number c] of
       Some cand \<Rightarrow> party_name cand (or_str (connected c) (caller c)) names labels
     | None \<Rightarrow>
         let pname = party_name pe [] names labels
         in opt_or (first_other pname [clean_unknown (connected c), clean_unknown (caller c)]) ''a caller'')"

definition looks_like_callable_number :: "string \<Rightarrow> bool" where
  "looks_like_callable_number v = (let stripped = strip v; digits = filter is_digit_char stripped in
     if digits = [] then False
     else if lower stripped \<in> {''s'', ''i'', ''t'', ''h'', ''e'', ''fax''} then False
     else length digits \<ge> 3 \<or> prefix ''+'' stripped)"

definition caller_name :: "ami_channel \<Rightarrow> string" where
  "caller_name c = or_str (caller c) (or_str (connected c) ''a caller'')"

definition trunk_call_caller :: "ami_channel \<Rightarrow> string" where
  "trunk_call_caller c = or_str (clean_unknown (caller_number c))
     (or_str (clean_unknown (caller c)) (or_str (clean_unknown (connected c)) ''A caller''))"

definition trunk_call_destination :: "ami_channel \<Rightarrow> string \<Rightarrow> string" where
  "trunk_call_destination c trunk_number =
    (let trunk_endpoint = or_str (endpoint c) (endpoint_from_channel (channel c)) in
     case find (\<lambda>v. v \<noteq> [] \<and> v \<noteq> trunk_endpoint \<and> looks_like_callable_number v)
        (map clean_unknown [connected_number c, extension c, connected c]) of
       Some v \<Rightarrow> v
     | None \<Rightarrow> clean_unknown trunk_number)"

definition trunk_call_title :: "ami_channel \<Rightarrow> string \<Rightarrow> string" where
  "trunk_call_title c trunk_number =
    (let caller' = trunk_call_caller c; dst = trunk_call_destination c trunk_number in
     if dst \<noteq> [] then caller' @ '' is calling '' @ dst @ ''.''
     else caller' @ '' is using the SIP trunk.'')"

section \<open>Formatters\<close>

definition caller_label :: "int \<Rightarrow> string" where
  "caller_label n = (if n = 1 then ''caller'' else ''callers'')"

definition member_label :: "int \<Rightarrow> string" where
  "member_label n = (if n = 1 then ''member'' else ''members'')"

definition wait_label :: "int \<Rightarrow> string" where
  "wait_label secs = (let s = max 0 secs in
     if s < 60 then show_int s @ ''s''
     else let minutes = s div 60; remainder = s mod 60 in
       if remainder = 0 then show_int minutes @ ''m''
       else show_int minutes @ ''m '' @ show_int remainder @ ''s'')"

definition duration_body :: "int \<Rightarrow> string" where
  "duration_body secs =
    (if secs \<le> 0 then ''The call connected.''
     else let minutes = secs div 60; seconds = secs mod 60 in
       if minutes \<le> 0 then ''The call lasted '' @ show_int seconds @ '' seconds.''
       else if seconds = 0 then
         ''The call lasted '' @ show_int minutes @ '' minute'' @ (if minutes \<noteq> 1 then ''s'' else []) @ ''.''
       else ''The call lasted '' @ show_int minutes @ '' minute'' @ (if minutes \<noteq> 1 then ''s'' else [])
            @ '' '' @ show_int seconds @ '' seconds.'')"

definition pulse_time_label :: "datetime option \<Rightarrow> datetime \<Rightarrow> string" where
  "pulse_time_label v now = (case v of None \<Rightarrow> ''Earlier''
     | Some t \<Rightarrow> if date_of t = date_of now then ''Today, '' @ show_hm t else show_dbhm t)"

definition activity_event_time_label :: "datetime \<Rightarrow> datetime \<Rightarrow> string" where
  "activity_event_time_label observed now =
    (let elapsed_seconds = max 0 (trunc_rat (fl (of_int (now - observed) / 1000000))) in
     if elapsed_seconds < 60 then ''Just now''
     else let minutes = elapsed_seconds div 60 in
       if minutes < 60 then show_int minutes @ ''m ago'' else ''Earlier today'')"

definition valid_moment_hours :: "int \<Rightarrow> int" where
  "valid_moment_hours hours = (if hours \<in> {1, 3, 6, 12, 24} then hours else 24)"

definition greeting :: "datetime \<Rightarrow> string" where
  "greeting now = (if 5 \<le> hour_of now \<and> hour_of now < 12 then ''Good morning''
     else if 12 \<le> hour_of now \<and> hour_of now < 18 then ''Good afternoon''
     else ''Good evening'')"

end
