(* ===== verification/PulseViews.thy ===== *)
theory PulseViews
  imports PulseText
begin

text \<open>
  The People, trunk, queue and call lists of the Home payload (\<open>pbxsense_agent/pulse.py\<close>), and
  the grouping of the channels of one call.
\<close>

section \<open>People\<close>

text \<open>\<open>fmt\<close> writes a datetime with the UTC offset of the configured zone (\<open>datetime.isoformat\<close>).\<close>

definition talking_extensions :: "ami_channel list \<Rightarrow> string list" where
  "talking_extensions active = filter (\<lambda>x. x \<noteq> []) (map person_endpoint active)"

definition person_of :: "(datetime \<Rightarrow> string) \<Rightarrow> string list \<Rightarrow> string pydict \<Rightarrow> (string \<rightharpoonup> datetime) \<Rightarrow>
    ami_endpoint \<Rightarrow> person" where
  "person_of fmt talking names last_active e =
    (let name = extension_name (ep_extension e) names (ep_label e);
         pl = person_presence e (ep_extension e \<in> set talking \<or> active_channels e > 0);
         (status, status_text, detail) =
           (if fst pl = ''on_call'' then (''talking'', ''On a call'', ''Active now'')
            else if fst pl = ''offline'' then
              (''unavailable'', ''Unavailable'', or_str (device_state e) ''Not reachable'')
            else (''online'', snd pl, or_str (device_state e) ''Reachable''))
     in \<lparr>p_name = name, p_extension = ep_extension e, p_status = status, p_status_text = status_text,
         p_detail = detail, p_ip_address = ip_address e, p_presence = pl,
         last_active_at = (if fst pl = ''offline'' then map_option fmt (last_active (ep_extension e)) else None)\<rparr>)"

definition build_people :: "(datetime \<Rightarrow> string) \<Rightarrow> ami_endpoint list \<Rightarrow> ami_channel list \<Rightarrow> string pydict \<Rightarrow>
    (string \<rightharpoonup> datetime) \<Rightarrow> person list" where
  "build_people fmt eps active names last_active =
    map (person_of fmt (talking_extensions active) names last_active)
      (filter (\<lambda>e. \<not> is_trunk e) (sort_key ep_extension eps))"

section \<open>Trunks\<close>

definition trunk_of :: "string pydict \<Rightarrow> ami_endpoint \<Rightarrow> trunk_view" where
  "trunk_of names e =
    (let name = trunk_display_name (extension_name (ep_extension e) names (ep_label e));
         unavailable = endpoint_unavailable e;
         (status_text, detail) =
           (if unavailable then (''Needs attention'', or_str (device_state e) ''Not reachable'')
            else if active_channels e > 0 then
              (''Working'', ''Carrying '' @ show_int (active_channels e) @ '' active channel(s)'')
            else (''Working'', registered_trunk_detail (device_state e)))
     in \<lparr>t_name = name, t_endpoint = ep_extension e, t_status_text = status_text, t_detail = detail,
         t_active_channels = active_channels e, t_available = (\<not> unavailable)\<rparr>)"

definition build_trunks :: "ami_endpoint list \<Rightarrow> string pydict \<Rightarrow> trunk_view list" where
  "build_trunks eps names = map (trunk_of names) (filter is_trunk (sort_key ep_extension eps))"

section \<open>Queues\<close>

definition queue_of :: "ami_queue \<Rightarrow> queue_view" where
  "queue_of q =
    (let waiting = max 0 (waiting_callers q); available = max 0 (available_members q);
         (status, status_text) =
           (if waiting = 0 then (''ready'', ''No callers waiting'')
            else if available = 0 then
              (''needs_attention'', show_int waiting @ '' '' @ caller_label waiting @ '' waiting'')
            else (''waiting'', show_int waiting @ '' '' @ caller_label waiting @ '' waiting''));
         details =
           (if waiting \<noteq> 0 then [''Longest wait '' @ wait_label (longest_wait_seconds q)] else [])
           @ [if available \<noteq> 0 then show_int available @ '' '' @ member_label available @ '' available''
              else ''No members available'']
           @ (if busy_members q \<noteq> 0 then [show_int (busy_members q) @ '' busy''] else [])
           @ (if paused_members q \<noteq> 0 then [show_int (paused_members q) @ '' paused''] else [])
     in \<lparr>v_name = q_name q, v_queue = q_name q, v_status = status, v_status_text = status_text,
         v_detail = join ('' '' @ [CHR 0xB7] @ '' '') details,
         v_waiting_callers = waiting,
         v_longest_wait_seconds = max 0 (longest_wait_seconds q),
         v_available_members = available,
         v_busy_members = max 0 (busy_members q),
         v_paused_members = max 0 (paused_members q),
         v_total_members = max 0 (total_members q)\<rparr>)"

definition build_queues :: "ami_queue list \<Rightarrow> queue_view list" where
  "build_queues qs = map queue_of (sort_key q_name qs)"

section \<open>One entry per call\<close>

definition peer_endpoint :: "ami_channel \<Rightarrow> string \<Rightarrow> string" where
  "peer_endpoint c pe = opt_or (first_other pe [connected_number c, extension c, caller_number c]) []"

text \<open>The party set of a channel, listed in sorted order without repetition.\<close>

definition call_party_key :: "ami_channel \<Rightarrow> string list" where
  "call_party_key c = (let p = person_endpoint c; peer = peer_endpoint c p
     in sorted_set (filter (\<lambda>x. x \<noteq> []) [p, peer]))"

definition call_group_key :: "ami_channel \<Rightarrow> string" where
  "call_group_key c =
    (if linked_id c \<noteq> [] then ''linked:'' @ linked_id c
     else let parties = call_party_key c in
       if length parties > 1 then ''parties:'' @ join ''|'' parties
       else ''channel:'' @ channel c)"

definition preferred_call_channel :: "ami_channel list \<Rightarrow> ami_channel" where
  "preferred_call_channel chans =
    (case find (\<lambda>c. caller_number c \<noteq> [] \<and> person_endpoint c = caller_number c) chans of
       Some c \<Rightarrow> c
     | None \<Rightarrow> (case find (\<lambda>c. caller c \<noteq> [] \<and> clean_unknown (caller c) \<noteq> []) chans of
         Some c \<Rightarrow> c
       | None \<Rightarrow> (case chans of c # _ \<Rightarrow> c | [] \<Rightarrow> default_channel)))"

text \<open>The groups dict keeps its keys in first-occurrence order, which is the code's \<open>order\<close> list; a
  group is never empty, so the code's \<open>channels[0]\<close> cannot fail (the default in
  \<open>preferred_call_channel\<close> is unreachable here).\<close>

definition dedupe_call_channels :: "ami_channel list \<Rightarrow> ami_channel list" where
  "dedupe_call_channels chans = map (\<lambda>g. preferred_call_channel (snd g)) (group_by call_group_key chans)"

section \<open>Call entries\<close>

definition channel_endpoint :: "ami_channel \<Rightarrow> string" where
  "channel_endpoint c = or_str (endpoint c) (extension c)"

definition call_from_channel :: "ami_channel \<Rightarrow> string pydict \<Rightarrow> string pydict \<Rightarrow> string pydict \<Rightarrow>
    string pydict \<Rightarrow> call_entry" where
  "call_from_channel c names labels roles numbers =
    (let ce = channel_endpoint c in
     if map_of roles ce = Some ''trunk'' then
       let trunk_name = extension_name ce names (dget labels ce []);
           trunk_number = dget numbers ce []
       in \<lparr>c_title = trunk_call_title c trunk_number,
           c_body = ''Live call through '' @ trunk_display_name trunk_name @ ''.'',
           c_time_label = ''Active now'', is_active = True, c_kind = ''active'', recording = None\<rparr>
     else
       let pe = person_endpoint c;
           name = party_name pe (caller c) names labels;
           peer = peer_name c pe names labels
       in \<lparr>c_title = name @ '' is talking to '' @ peer @ ''.'', c_body = ''Live call from the PBX.'',
           c_time_label = ''Active now'', is_active = True, c_kind = ''active'', recording = None\<rparr>)"

definition history_trunk_endpoint :: "cdr_call \<Rightarrow> string pydict \<Rightarrow> string" where
  "history_trunk_endpoint r roles =
    opt_or (find (\<lambda>e. map_of roles e = Some ''trunk'')
      (map endpoint_from_channel [cdr_channel r, destination_channel r])) []"

definition history_destination_name :: "cdr_call \<Rightarrow> string pydict \<Rightarrow> string pydict \<Rightarrow> string pydict \<Rightarrow> string" where
  "history_destination_name r names roles numbers =
    (let raw = strip (destination r) in
     if looks_like_callable_number raw then extension_name raw names []
     else let trunk_number = dget numbers (history_trunk_endpoint r roles) [] in
       if trunk_number \<noteq> [] then trunk_number else extension_name raw names [])"

text \<open>\<open>urllib.parse.quote(s, safe='')\<close> on code points below 128, which are their own UTF-8 bytes; a
  code point from 128 to 255 is two bytes.\<close>

definition hex_digit :: "nat \<Rightarrow> char" where
  "hex_digit d = (if d < 10 then char_of (48 + d) else char_of (55 + d))"

definition quote_byte :: "nat \<Rightarrow> string" where
  "quote_byte b = [CHR ''%'', hex_digit (b div 16), hex_digit (b mod 16)]"

definition quote_char :: "char \<Rightarrow> string" where
  "quote_char c = (let n = code_point c in
     if n < 128 \<and> (is_alpha c \<or> is_decimal c \<or> c \<in> {CHR ''_'', CHR ''.'', CHR ''-'', CHR ''~''}) then [c]
     else if n < 128 then quote_byte n
     else quote_byte (192 + n div 64) @ quote_byte (128 + n mod 64))"

definition quote :: "string \<Rightarrow> string" where
  "quote s = concat (map quote_char s)"

definition call_of_history :: "string pydict \<Rightarrow> string pydict \<Rightarrow> string pydict \<Rightarrow> datetime \<Rightarrow> cdr_call \<Rightarrow>
    call_entry option" where
  "call_of_history names roles numbers now r =
    (let src = extension_name (source r) names [];
         dst = history_destination_name r names roles numbers;
         ik = interpreted_call_kind r;
         mk = (\<lambda>kind title' body'. Some \<lparr>c_title = title', c_body = body',
            c_time_label = pulse_time_label (started_at r) now, is_active = False, c_kind = kind,
            recording = (if recording_id r \<noteq> []
               then Some (recording_id r, ''/recordings/'' @ quote (recording_id r)) else None)\<rparr>)
     in if ik = ''answered'' then
          mk ''answered'' (src @ '' called '' @ dst @ ''.'') (duration_body (duration_seconds r))
        else if ik = ''ivr_reached'' then
          mk ''ivr_reached'' (src @ '' reached the IVR.'') ''The call reached the PBX menu.''
        else if ik = ''missed'' then
          mk ''missed'' (src @ '' missed '' @ dst @ ''.'') ''The call did not connect.''
        else None)"

definition calls_from_history :: "cdr_call list \<Rightarrow> string pydict \<Rightarrow> string pydict \<Rightarrow> string pydict \<Rightarrow>
    datetime \<Rightarrow> call_entry list" where
  "calls_from_history rs names roles numbers now = List.map_filter (call_of_history names roles numbers now) rs"

definition calls_from_voicemail :: "voicemail_message list \<Rightarrow> string pydict \<Rightarrow> datetime \<Rightarrow> call_entry list" where
  "calls_from_voicemail vms names now = map (\<lambda>m.
     \<lparr>c_title = vm_caller m @ '' left '' @ extension_name (mailbox m) names [] @ '' a voicemail.'',
      c_body = ''A voicemail is available.'', c_time_label = pulse_time_label (created_at m) now,
      is_active = False, c_kind = ''voicemail'', recording = None\<rparr>) vms"

section \<open>Lemmas\<close>

lemma preferred_in_group: "g \<noteq> [] \<Longrightarrow> preferred_call_channel g \<in> set g"
  by (cases g) (auto simp: preferred_call_channel_def dest: find_SomeD split: option.splits)

lemma preferred_singleton [simp]: "preferred_call_channel [c] = c"
  by (simp add: preferred_call_channel_def)

lemma dedupe_eq_map:
  "dedupe_call_channels cs =
     map (\<lambda>k. preferred_call_channel (filter (\<lambda>c. call_group_key c = k) cs)) (first_keys call_group_key cs)"
  by (simp add: dedupe_call_channels_def group_by_eq_map)

lemma preferred_group_key:
  assumes "k \<in> call_group_key ` set cs"
  shows "preferred_call_channel (filter (\<lambda>c. call_group_key c = k) cs) \<in> set cs"
    and "call_group_key (preferred_call_channel (filter (\<lambda>c. call_group_key c = k) cs)) = k"
proof -
  from assms have "filter (\<lambda>c. call_group_key c = k) cs \<noteq> []" by (auto simp: filter_empty_conv)
  from preferred_in_group [OF this]
  show "preferred_call_channel (filter (\<lambda>c. call_group_key c = k) cs) \<in> set cs"
    and "call_group_key (preferred_call_channel (filter (\<lambda>c. call_group_key c = k) cs)) = k" by auto
qed

lemma dedupe_keys: "map call_group_key (dedupe_call_channels cs) = first_keys call_group_key cs"
proof -
  have "map call_group_key (dedupe_call_channels cs) = map id (first_keys call_group_key cs)"
    unfolding dedupe_eq_map map_map
    by (rule map_cong [OF refl]) (simp add: preferred_group_key)
  then show ?thesis by simp
qed

lemma dedupe_distinct_keys:
  assumes d: "distinct (map call_group_key cs)"
  shows "dedupe_call_channels cs = cs"
proof -
  have "dedupe_call_channels cs =
      map (\<lambda>c. preferred_call_channel (filter (\<lambda>c'. call_group_key c' = call_group_key c) cs)) cs"
    by (simp add: dedupe_eq_map first_keys_id [OF d])
  also have "\<dots> = map id cs"
    by (rule map_cong [OF refl]) (simp add: filter_inj_key [OF d])
  finally show ?thesis by simp
qed

text \<open>
  One call, one entry: the deduplicated channels are observed channels, their call keys are
  the keys of the observed channels in order of first appearance with no key twice, and a second
  pass changes nothing.
\<close>

theorem dedupe_one_entry_per_call:
  "set (dedupe_call_channels cs) \<subseteq> set cs \<and>
   map call_group_key (dedupe_call_channels cs) = first_keys call_group_key cs \<and>
   distinct (map call_group_key (dedupe_call_channels cs)) \<and>
   dedupe_call_channels (dedupe_call_channels cs) = dedupe_call_channels cs"
proof -
  have d: "distinct (map call_group_key (dedupe_call_channels cs))" by (simp add: dedupe_keys)
  have "set (dedupe_call_channels cs) \<subseteq> set cs"
    by (auto simp: dedupe_eq_map preferred_group_key)
  with d show ?thesis by (simp add: dedupe_keys dedupe_distinct_keys)
qed

end
