(* ===== verification/Confirm.thy ===== *)
theory Confirm
  imports PyNum
begin

text \<open>
  Timed confirmation, the interface behind the availability tracker and the aggregate-tip tracker:
  a machine that watches a condition over time and reports it once it has held long enough. The
  locale states what such a machine promises about one step; its lemma gives the behaviour over
  any history of observations with non-decreasing times: the report is on exactly when the
  condition has held without a break for at least the delay.
\<close>

text \<open>The time at which the condition's current unbroken run began, read off the history (oldest
  observation first); \<open>None\<close> when the last observation did not meet the condition.\<close>

definition run_start :: "(bool \<times> datetime) list \<Rightarrow> datetime option" where
  "run_start h = (case takeWhile fst (rev h) of [] \<Rightarrow> None | x # xs \<Rightarrow> Some (snd (last (x # xs))))"

lemma run_start_Nil [simp]: "run_start [] = None"
  by (simp add: run_start_def)

lemma run_start_snoc:
  "run_start (h @ [(b, t)]) = (if b then Some (opt_or (run_start h) t) else None)"
  by (auto simp: run_start_def split: list.splits)

text \<open>Feeding a machine a history; the second component is the last report.\<close>

definition feed :: "('o \<Rightarrow> datetime \<Rightarrow> 's \<Rightarrow> 's \<times> bool) \<Rightarrow> 's \<Rightarrow> ('o \<times> datetime) list \<Rightarrow> 's \<times> bool" where
  "feed step s obs = foldl (\<lambda>so ot. step (fst ot) (snd ot) (fst so)) (s, False) obs"

lemma feed_Nil [simp]: "feed step s [] = (s, False)"
  by (simp add: feed_def)

lemma feed_snoc [simp]: "feed step s (obs @ [(x, t)]) = step x t (fst (feed step s obs))"
  by (simp add: feed_def)

text \<open>The history of the condition, from the history of observations.\<close>

definition cond_history :: "('o \<Rightarrow> bool) \<Rightarrow> ('o \<times> datetime) list \<Rightarrow> (bool \<times> datetime) list" where
  "cond_history bad obs = map (\<lambda>ot. (bad (fst ot), snd ot)) obs"

lemma cond_history_simps [simp]:
  "cond_history bad [] = []"
  "cond_history bad (obs @ [(x, t)]) = cond_history bad obs @ [(bad x, t)]"
  by (simp_all add: cond_history_def)

locale confirmation =
  fixes step :: "'o \<Rightarrow> datetime \<Rightarrow> 's \<Rightarrow> 's \<times> bool"
    and bad :: "'o \<Rightarrow> bool"
    and init :: 's
    and started :: "'s \<Rightarrow> datetime option"
    and shown :: "'s \<Rightarrow> bool"
    and inv :: "'s \<Rightarrow> bool"
    and delay :: int
  assumes init: "inv init" "started init = None" "\<not> shown init"
    and inv_step: "inv s \<Longrightarrow> inv (fst (step x t s))"
    and good_step: "inv s \<Longrightarrow> \<not> bad x \<Longrightarrow>
      started (fst (step x t s)) = None \<and> \<not> snd (step x t s)"
    and bad_step: "inv s \<Longrightarrow> bad x \<Longrightarrow> started (fst (step x t s)) = Some (opt_or (started s) t)"
    and due: "inv s \<Longrightarrow> bad x \<Longrightarrow> delay \<le> t - opt_or (started s) t \<Longrightarrow> snd (step x t s)"
    and not_early: "inv s \<Longrightarrow> bad x \<Longrightarrow> snd (step x t s) \<Longrightarrow>
      delay \<le> t - opt_or (started s) t \<or> (started s \<noteq> None \<and> shown s)"
    and shown_step: "inv s \<Longrightarrow> shown (fst (step x t s)) \<Longrightarrow> bad x \<and> snd (step x t s)"
begin

definition trace_inv :: "('o \<times> datetime) list \<Rightarrow> 's \<times> bool \<Rightarrow> bool" where
  "trace_inv obs so \<longleftrightarrow> inv (fst so) \<and> started (fst so) = run_start (cond_history bad obs) \<and>
     (shown (fst so) \<longrightarrow> snd so) \<and>
     (snd so \<longleftrightarrow> (\<exists>t0. obs \<noteq> [] \<and> run_start (cond_history bad obs) = Some t0 \<and>
        delay \<le> snd (last obs) - t0))"

lemma trace_inv_step:
  assumes I: "trace_inv obs so" and sorted: "sorted (map snd (obs @ [(x, t)]))"
  shows "trace_inv (obs @ [(x, t)]) (step x t (fst so))"
proof -
  let ?s = "fst so"
  let ?h = "cond_history bad obs"
  from I have inv: "inv ?s" and st: "started ?s = run_start ?h" and sh: "shown ?s \<longrightarrow> snd so"
    and out: "snd so \<longleftrightarrow> (\<exists>t0. obs \<noteq> [] \<and> run_start ?h = Some t0 \<and> delay \<le> snd (last obs) - t0)"
    unfolding trace_inv_def by blast+
  show ?thesis
  proof (cases "bad x")
    case False
    with good_step [OF inv False, of t] inv_step [OF inv, of x t] shown_step [OF inv, of x t]
    show ?thesis by (auto simp: trace_inv_def run_start_snoc)
  next
    case True
    have le: "obs \<noteq> [] \<Longrightarrow> snd (last obs) \<le> t"
      using sorted by (auto simp: sorted_append)
    have "snd (step x t ?s) \<longleftrightarrow> delay \<le> t - opt_or (started ?s) t"
    proof
      assume "snd (step x t ?s)"
      from not_early [OF inv True this]
      show "delay \<le> t - opt_or (started ?s) t"
      proof
        assume a: "started ?s \<noteq> None \<and> shown ?s"
        with sh out obtain t0 where t0: "obs \<noteq> []" "run_start ?h = Some t0" "delay \<le> snd (last obs) - t0"
          by blast
        with le have "delay \<le> t - t0" by force
        with t0(2) st show ?thesis by simp
      qed
    next
      assume "delay \<le> t - opt_or (started ?s) t"
      then show "snd (step x t ?s)" by (rule due [OF inv True])
    qed
    with bad_step [OF inv True, of t] inv_step [OF inv, of x t] shown_step [OF inv, of x t] st True
    show ?thesis by (auto simp: trace_inv_def run_start_snoc)
  qed
qed

lemma trace_inv_feed: "sorted (map snd obs) \<Longrightarrow> trace_inv obs (feed step init obs)"
proof (induction obs rule: rev_induct)
  case Nil
  show ?case by (simp add: trace_inv_def init)
next
  case (snoc xt obs)
  obtain x t where xt: "xt = (x, t)" by force
  from snoc.prems have "sorted (map snd obs)" by (simp add: sorted_append)
  from trace_inv_step [OF snoc.IH [OF this], of x t] snoc.prems
  show ?case by (simp add: xt)
qed

lemma confirmed_iff:
  assumes "sorted (map snd (obs @ [(x, t)]))"
  shows "snd (feed step init (obs @ [(x, t)])) \<longleftrightarrow>
    (\<exists>t0. run_start (cond_history bad (obs @ [(x, t)])) = Some t0 \<and> delay \<le> t - t0)"
  using trace_inv_feed [OF assms] by (simp add: trace_inv_def)

lemma started_feed:
  assumes "sorted (map snd obs)"
  shows "started (fst (feed step init obs)) = run_start (cond_history bad obs)"
  using trace_inv_feed [OF assms] by (simp add: trace_inv_def)

lemma inv_feed:
  assumes "sorted (map snd obs)"
  shows "inv (fst (feed step init obs))"
  using trace_inv_feed [OF assms] by (simp add: trace_inv_def)

end

end
