(* ===== verification/PulseActivity.thy ===== *)
theory PulseActivity
  imports PulseViews Confirm
begin

text \<open>
  \<open>ActivityTracker\<close> of \<open>pbxsense_agent/pulse.py\<close>: the short-lived Activity feed, built from the
  differences between consecutive snapshots. Python sets and frozensets are HOL sets; a loop over a
  set treats its elements independently, so it is written as one update for all of them. The
  tracker's lock makes \<open>observe\<close> atomic.
\<close>

section \<open>What is remembered of a snapshot\<close>

record moment_state =
  ms_reachable :: bool
  monitored_extensions :: "string set"
  queue_waiting :: "(string \<times> int) list"
  unavailable_extensions :: "string set"
  voicemail_keys :: "string set"
  queue_abandonment_keys :: "string set"
  unavailable_trunks :: "string set"
  active_trunks :: "string set"

definition is_queue_context :: "cdr_call \<Rightarrow> bool" where
  "is_queue_context c = contains ''queue'' (lower (join '' '' [cdr_context c, last_app c, last_data c]))"

definition voicemail_key :: "voicemail_message \<Rightarrow> string list" where
  "voicemail_key m = (case created_at m of None \<Rightarrow> []
     | Some t \<Rightarrow> [mailbox m @ ''|'' @ vm_caller m @ ''|'' @ isoformat t])"

definition abandonment_key :: "cdr_call \<Rightarrow> string list" where
  "abandonment_key c = (case started_at c of None \<Rightarrow> []
     | Some t \<Rightarrow> if interpreted_call_kind c = ''missed'' \<and> is_queue_context c
         then [source c @ ''|'' @ isoformat t] else [])"

definition moment_state_of :: "ami_snapshot \<Rightarrow> moment_state" where
  "moment_state_of snap =
    (let eps = endpoints snap; phones = filter (\<lambda>e. \<not> is_trunk e) eps; trunks = filter is_trunk eps in
     \<lparr>ms_reachable = reachable snap,
      monitored_extensions = set (map ep_extension phones),
      queue_waiting = sort (map (\<lambda>q. (q_name q, max 0 (waiting_callers q))) (queues snap)),
      unavailable_extensions = set (map ep_extension (filter endpoint_unavailable phones)),
      voicemail_keys = set (concat (map voicemail_key (voicemails snap))),
      queue_abandonment_keys = set (concat (map abandonment_key (recent_calls snap))),
      unavailable_trunks = set (map ep_extension (filter endpoint_unavailable trunks)),
      active_trunks = set (map channel_endpoint (filter (\<lambda>c.
         list_ex (\<lambda>e. ep_extension e = channel_endpoint c) trunks \<and> is_active_channel c) (channels snap)))\<rparr>)"

text \<open>\<open>dict(pairs)\<close>: the position of the first occurrence of a key, the value of the last.\<close>

definition dict_of :: "(string \<times> int) list \<Rightarrow> int pydict" where
  "dict_of ps = foldl (\<lambda>d p. AList.update (fst p) (snd p) d) [] ps"

section \<open>State\<close>

record activity_state =
  act_previous :: "moment_state option"
  act_events :: "activity_event list"
  reported_phone_recoveries :: "string \<rightharpoonup> datetime"
  outstanding_phone_outages :: "string set"
  phone_outage_started_at :: "string \<rightharpoonup> datetime"
  phone_recovery_started_at :: "string \<rightharpoonup> datetime"
  busy_queues :: "string \<rightharpoonup> string set"
  recovered_trunks_waiting :: "string set"

definition initial_activity :: activity_state where
  "initial_activity = \<lparr>act_previous = None, act_events = [], reported_phone_recoveries = Map.empty,
     outstanding_phone_outages = {}, phone_outage_started_at = Map.empty,
     phone_recovery_started_at = Map.empty, busy_queues = Map.empty, recovered_trunks_waiting = {}\<rparr>"

record activity_config =
  keep_for :: int
  phone_outage_confirmation :: int
  phone_recovery_confirmation :: int
  act_tz :: "datetime \<Rightarrow> int"

section \<open>Events\<close>

definition mk_event :: "activity_config \<Rightarrow> datetime \<Rightarrow> string \<Rightarrow> string \<Rightarrow> string \<Rightarrow> string \<Rightarrow>
    string pydict \<Rightarrow> string \<Rightarrow> string \<Rightarrow> activity_event" where
  "mk_event cfg now kind ttl bdy wy tech scope cat =
    (let suffix = (if scope \<noteq> [] then safe_id scope else ''office'') in
     \<lparr>a_id = ''sig_moment_'' @ kind @ ''_'' @ suffix @ ''_'' @ show_int (ts_seconds (act_tz cfg now)),
      a_kind = kind, a_title = ttl, a_body = bdy, a_why = wy, a_technical = tech,
      observed_at = now, a_category = cat\<rparr>)"

definition add_event :: "activity_event \<Rightarrow> activity_state \<Rightarrow> activity_state" where
  "add_event ev s = s\<lparr>act_events := act_events s @ [ev]\<rparr>"

subsection \<open>Queues\<close>

definition mark_busy :: "string set \<Rightarrow> (string \<rightharpoonup> string set) \<Rightarrow> string \<times> int \<Rightarrow> (string \<rightharpoonup> string set)" where
  "mark_busy keys b qw = (let (q, waiting) = qw in
     if waiting \<ge> 2 \<and> b q = None then b(q \<mapsto> keys) else b)"

definition queue_transition :: "activity_config \<Rightarrow> datetime \<Rightarrow> moment_state \<Rightarrow> int pydict \<Rightarrow>
    activity_state \<Rightarrow> string \<times> int \<Rightarrow> activity_state" where
  "queue_transition cfg now cur current_queues s qw =
    (let (q, previous_waiting) = qw in
     if previous_waiting \<le> 0 \<or> dget current_queues q 0 \<noteq> 0 then s
     else
       let s1 = add_event (mk_event cfg now ''pbx_queue_cleared_activity''
             (q @ '' has cleared its waiting callers.'')
             (''The queue moved from '' @ show_int previous_waiting @ '' waiting caller(s) to none.'')
             ''The PBX queue snapshot no longer reports callers waiting.''
             [(''queue'', q), (''previous_waiting_callers'', show_int previous_waiting)] q ''activity'') s;
           baseline = busy_queues s1 q;
           s2 = s1\<lparr>busy_queues := (busy_queues s1)(q := None)\<rparr>
       in if baseline = Some (queue_abandonment_keys cur) then
            add_event (mk_event cfg now ''busy_period_completed_without_abandonment''
             (q @ '' cleared a busy period without an abandonment.'')
             ''Waiting callers were cleared without a new abandoned queue call.''
             ''PBXSense observed queue pressure reach at least two callers, then return to zero.''
             [(''queue'', q), (''peak_confirmed_waiting'', ''2+'')] q ''moment'') s2
          else s2)"

definition queue_transitions :: "activity_config \<Rightarrow> datetime \<Rightarrow> moment_state \<Rightarrow> moment_state \<Rightarrow>
    activity_state \<Rightarrow> activity_state" where
  "queue_transitions cfg now prev cur s =
    (let previous_queues = dict_of (queue_waiting prev); current_queues = dict_of (queue_waiting cur);
         b1 = foldl (mark_busy (queue_abandonment_keys prev)) (busy_queues s) previous_queues;
         b2 = foldl (mark_busy (queue_abandonment_keys cur)) b1 current_queues
     in foldl (queue_transition cfg now cur current_queues) (s\<lparr>busy_queues := b2\<rparr>) previous_queues)"

subsection \<open>Trunks\<close>

definition trunk_event :: "activity_config \<Rightarrow> datetime \<Rightarrow> string \<Rightarrow> activity_event" where
  "trunk_event cfg now t = mk_event cfg now ''trunk_recovery_successful_call''
     (''Trunk '' @ t @ '' recovered and is carrying a call.'')
     ''The restored trunk has confirmed its recovery with live traffic.''
     ''The trunk changed from unavailable to reachable and later appeared on an active call.''
     [(''trunk'', t)] t ''moment''"

definition trunk_transitions :: "activity_config \<Rightarrow> datetime \<Rightarrow> moment_state \<Rightarrow> moment_state \<Rightarrow>
    activity_state \<Rightarrow> activity_state" where
  "trunk_transitions cfg now prev cur s =
    (let waiting = recovered_trunks_waiting s \<union> (unavailable_trunks prev - unavailable_trunks cur);
         successful = waiting \<inter> active_trunks cur
     in (foldl (\<lambda>s t. add_event (trunk_event cfg now t) s) s (sorted_list_of_set successful))
          \<lparr>recovered_trunks_waiting := waiting - successful\<rparr>)"

subsection \<open>Phones\<close>

definition all_reachable_title :: string where
  "all_reachable_title = ''All monitored phones are reachable again.''"

definition recovery_event :: "activity_config \<Rightarrow> datetime \<Rightarrow> string set \<Rightarrow> string set \<Rightarrow> activity_event" where
  "recovery_event cfg now fresh remaining =
    (let count = card fresh;
         (ttl, bdy) = (if remaining = {} then
             (all_reachable_title, ''The previously unavailable phone(s) recovered.'')
           else (show_nat count @ '' phone'' @ (if count \<noteq> 1 then ''s'' else []) @ '' came back online.'',
                 ''PBXSense saw the phone availability recover.''))
     in mk_event cfg now ''pbx_phone_recovered_activity'' ttl bdy
          ''An endpoint changed from unavailable to reachable.''
          [(''recovered_extensions'', join '','' (sorted_list_of_set fresh)),
           (''remaining_unavailable_extensions'', join '','' (sorted_list_of_set remaining))] [] ''activity'')"

definition phone_transitions :: "activity_config \<Rightarrow> datetime \<Rightarrow> moment_state \<Rightarrow> activity_state \<Rightarrow> activity_state" where
  "phone_transitions cfg now cur s =
    (let recovered = outstanding_phone_outages s \<inter> (monitored_extensions cur - unavailable_extensions cur);
         started = (\<lambda>x. if x \<in> recovered then Some (opt_or (phone_recovery_started_at s x) now) else None);
         fresh = {x \<in> recovered. reported_phone_recoveries s x = None \<and>
                    now - opt_or (started x) now \<ge> phone_recovery_confirmation cfg}
     in if fresh = {} then s\<lparr>phone_recovery_started_at := started\<rparr>
        else let remaining = outstanding_phone_outages s - fresh in
          add_event (recovery_event cfg now fresh remaining)
            (s\<lparr>outstanding_phone_outages := remaining,
               phone_recovery_started_at := started |` (- fresh),
               reported_phone_recoveries :=
                 (\<lambda>x. if x \<in> fresh then Some now else reported_phone_recoveries s x)\<rparr>))"

subsection \<open>Voicemail\<close>

definition voicemail_transitions :: "activity_config \<Rightarrow> datetime \<Rightarrow> moment_state \<Rightarrow> moment_state \<Rightarrow>
    activity_state \<Rightarrow> activity_state" where
  "voicemail_transitions cfg now prev cur s =
    (let new_voicemail = voicemail_keys cur - voicemail_keys prev; count = card new_voicemail in
     if new_voicemail = {} then s
     else add_event (mk_event cfg now ''pbx_voicemail_received_activity''
       (if count = 1 then ''A new voicemail arrived.'' else show_nat count @ '' new voicemails arrived.'')
       ''The PBX recorded new voicemail since the previous snapshot.''
       ''The local voicemail history contains new messages.''
       [(''new_voicemails'', show_nat count)] [] ''activity'') s)"

definition record_transitions :: "activity_config \<Rightarrow> moment_state \<Rightarrow> moment_state \<Rightarrow> datetime \<Rightarrow>
    activity_state \<Rightarrow> activity_state" where
  "record_transitions cfg prev cur now s =
     voicemail_transitions cfg now prev cur
       (phone_transitions cfg now cur
         (trunk_transitions cfg now prev cur
           (queue_transitions cfg now prev cur s)))"

section \<open>observe\<close>

definition recovered_of_event :: "activity_event \<Rightarrow> string set" where
  "recovered_of_event ev = set (filter (\<lambda>x. x \<noteq> [])
     (split_on (CHR '','') (dget (a_technical ev) ''recovered_extensions'' [])))"

definition activity_event_is_still_current :: "moment_state \<Rightarrow> activity_event \<Rightarrow> bool" where
  "activity_event_is_still_current cur ev =
    (if a_kind ev = ''pbx_queue_cleared_activity'' then
       dget (dict_of (queue_waiting cur)) (dget (a_technical ev) ''queue'' []) 0 = 0
     else if a_kind ev = ''pbx_phone_recovered_activity'' then
       (if a_title ev = all_reachable_title then unavailable_extensions cur = {}
        else recovered_of_event ev \<inter> unavailable_extensions cur = {})
     else True)"

definition note_outages :: "activity_config \<Rightarrow> moment_state \<Rightarrow> datetime \<Rightarrow> activity_state \<Rightarrow> activity_state" where
  "note_outages cfg cur now s =
    (let un = unavailable_extensions cur;
         started = (\<lambda>x. if x \<in> un then Some (opt_or (phone_outage_started_at s x) now) else None);
         confirmed = {x \<in> un. now - opt_or (started x) now \<ge> phone_outage_confirmation cfg}
     in s\<lparr>phone_outage_started_at := started,
          reported_phone_recoveries := reported_phone_recoveries s |` (- confirmed),
          phone_recovery_started_at := phone_recovery_started_at s |` (- confirmed),
          outstanding_phone_outages := outstanding_phone_outages s \<union> confirmed\<rparr>)"

definition expire :: "activity_config \<Rightarrow> datetime \<Rightarrow> activity_state \<Rightarrow> activity_state" where
  "expire cfg now s =
    (let cutoff = now - keep_for cfg in
     s\<lparr>act_events := filter (\<lambda>ev. observed_at ev \<ge> cutoff) (act_events s),
       reported_phone_recoveries := (\<lambda>x. case reported_phone_recoveries s x of None \<Rightarrow> None
          | Some t \<Rightarrow> if t \<ge> cutoff then Some t else None)\<rparr>)"

definition activity_observe :: "activity_config \<Rightarrow> ami_snapshot \<Rightarrow> datetime \<Rightarrow> activity_state \<Rightarrow>
    activity_state \<times> activity_event list" where
  "activity_observe cfg snap now s =
    (let cur = moment_state_of snap;
         s1 = (if ms_reachable cur then
                 let s2 = note_outages cfg cur now s;
                     s3 = (case act_previous s2 of None \<Rightarrow> s2 | Some prev \<Rightarrow> record_transitions cfg prev cur now s2)
                 in s3\<lparr>act_events := filter (activity_event_is_still_current cur) (act_events s3),
                       act_previous := Some cur\<rparr>
               else s);
         s4 = expire cfg now s1
     in (s4, rev (act_events s4)))"

definition activity_run :: "activity_config \<Rightarrow> (ami_snapshot \<times> datetime) list \<Rightarrow> activity_state" where
  "activity_run cfg obs = foldl (\<lambda>s st. fst (activity_observe cfg (fst st) (snd st) s)) initial_activity obs"

lemma activity_run_Nil [simp]: "activity_run cfg [] = initial_activity"
  by (simp add: activity_run_def)

lemma activity_run_snoc [simp]:
  "activity_run cfg (obs @ [(snap, now)]) = fst (activity_observe cfg snap now (activity_run cfg obs))"
  by (simp add: activity_run_def)


section \<open>The event list\<close>

text \<open>\<open>s'\<close> has the events of \<open>s\<close> and possibly new ones of the kinds of the feed, observed at
  \<open>now\<close>.\<close>

definition activity_kinds :: "string set" where
  "activity_kinds = {''pbx_queue_cleared_activity'', ''busy_period_completed_without_abandonment'',
     ''trunk_recovery_successful_call'', ''pbx_phone_recovered_activity'', ''pbx_voicemail_received_activity''}"

definition extends :: "datetime \<Rightarrow> activity_state \<Rightarrow> activity_state \<Rightarrow> bool" where
  "extends now s s' \<longleftrightarrow> (\<exists>zs. act_events s' = act_events s @ zs \<and>
     (\<forall>e \<in> set zs. observed_at e = now \<and> a_kind e \<in> activity_kinds))"

lemma extends_refl [simp]: "act_events s' = act_events s \<Longrightarrow> extends now s s'"
  by (simp add: extends_def)

lemma extends_trans: "extends now s1 s2 \<Longrightarrow> extends now s2 s3 \<Longrightarrow> extends now s1 s3"
  by (force simp: extends_def)

lemma extends_add:
  assumes "extends now s s'" and "observed_at ev = now" and "a_kind ev \<in> activity_kinds"
  shows "extends now s (add_event ev s')"
  using assms by (auto simp: extends_def add_event_def)

lemma extends_foldl:
  assumes "\<And>s x. extends now s (f s x)"
  shows "extends now s (foldl f s xs)"
  by (induction xs arbitrary: s) (auto intro: extends_trans assms)

lemma observed_at_mk [simp]: "observed_at (mk_event cfg now k t b w te sc c) = now"
  by (simp add: mk_event_def)

lemma observed_at_trunk [simp]: "observed_at (trunk_event cfg now t) = now"
  by (simp add: trunk_event_def)

lemma observed_at_recovery [simp]: "observed_at (recovery_event cfg now f r) = now"
  by (simp add: recovery_event_def Let_def)

lemma kind_mk [simp]: "a_kind (mk_event cfg now k t b w te sc c) = k"
  by (simp add: mk_event_def)

lemma kind_trunk [simp]: "a_kind (trunk_event cfg now t) = ''trunk_recovery_successful_call''"
  by (simp add: trunk_event_def)

lemma kind_recovery [simp]: "a_kind (recovery_event cfg now f r) = ''pbx_phone_recovered_activity''"
  by (simp add: recovery_event_def Let_def)

lemma activity_kinds_iff [simp]:
  "k \<in> activity_kinds \<longleftrightarrow> k = ''pbx_queue_cleared_activity'' \<or>
     k = ''busy_period_completed_without_abandonment'' \<or> k = ''trunk_recovery_successful_call'' \<or>
     k = ''pbx_phone_recovered_activity'' \<or> k = ''pbx_voicemail_received_activity''"
  by (auto simp: activity_kinds_def)

lemma extends_queue_transition: "extends now s (queue_transition cfg now cur cq s qw)"
  by (cases qw) (auto simp: queue_transition_def Let_def extends_def add_event_def)

lemma extends_queues: "extends now s (queue_transitions cfg now prev cur s)"
  unfolding queue_transitions_def Let_def
  by (rule extends_trans [OF extends_refl extends_foldl [OF extends_queue_transition]]) simp

lemma extends_trunks: "extends now s (trunk_transitions cfg now prev cur s)"
  unfolding trunk_transitions_def Let_def
  by (rule extends_trans [OF extends_foldl extends_refl]) (auto intro: extends_add)

lemma extends_phones: "extends now s (phone_transitions cfg now cur s)"
  by (auto simp: phone_transitions_def Let_def extends_def add_event_def)

lemma extends_voicemail: "extends now s (voicemail_transitions cfg now prev cur s)"
  by (auto simp: voicemail_transitions_def Let_def extends_def add_event_def)

lemma extends_record: "extends now s (record_transitions cfg prev cur now s)"
  unfolding record_transitions_def
  by (meson extends_trans extends_queues extends_trunks extends_phones extends_voicemail)

lemma events_note_outages [simp]: "act_events (note_outages cfg cur now s) = act_events s"
  by (simp add: note_outages_def Let_def)

text \<open>What one observation does to the list of events.\<close>

lemma observe_events:
  obtains zs P where
    "act_events (fst (activity_observe cfg snap now s)) =
       filter (\<lambda>e. observed_at e \<ge> now - keep_for cfg) (filter P (act_events s @ zs))"
    and "\<And>e. e \<in> set zs \<Longrightarrow> observed_at e = now"
    and "\<And>e. e \<in> set zs \<Longrightarrow> a_kind e \<in> activity_kinds"
    and "reachable snap \<Longrightarrow> P = activity_event_is_still_current (moment_state_of snap)"
proof -
  let ?cur = "moment_state_of snap"
  let ?s2 = "note_outages cfg ?cur now s"
  let ?s3 = "case act_previous ?s2 of None \<Rightarrow> ?s2 | Some prev \<Rightarrow> record_transitions cfg prev ?cur now ?s2"
  have r: "ms_reachable ?cur = reachable snap" by (simp add: moment_state_of_def Let_def)
  show thesis
  proof (cases "reachable snap")
    case True
    have "extends now s ?s3"
      by (auto split: option.split intro: extends_trans [OF extends_refl extends_record])
    then obtain zs where zs: "act_events ?s3 = act_events s @ zs"
        "\<forall>e \<in> set zs. observed_at e = now \<and> a_kind e \<in> activity_kinds"
      unfolding extends_def by blast
    show thesis
    proof (rule that [of "activity_event_is_still_current ?cur" zs])
      show "act_events (fst (activity_observe cfg snap now s)) =
          filter (\<lambda>e. observed_at e \<ge> now - keep_for cfg)
            (filter (activity_event_is_still_current ?cur) (act_events s @ zs))"
        using True r zs(1) by (simp add: activity_observe_def Let_def expire_def)
    qed (use zs(2) in auto)
  next
    case False
    show thesis
    proof (rule that [of "\<lambda>_. True" "[]"])
      show "act_events (fst (activity_observe cfg snap now s)) =
          filter (\<lambda>e. observed_at e \<ge> now - keep_for cfg) (filter (\<lambda>_. True) (act_events s @ []))"
        using False r by (simp add: activity_observe_def Let_def expire_def)
    qed (use False in auto)
  qed
qed

lemma activity_run_kinds: "e \<in> set (act_events (activity_run cfg obs)) \<Longrightarrow> a_kind e \<in> activity_kinds"
proof (induction obs arbitrary: e rule: rev_induct)
  case Nil
  then show ?case by (simp add: initial_activity_def)
next
  case (snoc st obs)
  obtain snap now where st: "st = (snap, now)" by (cases st)
  obtain zs P where "act_events (fst (activity_observe cfg snap now (activity_run cfg obs))) =
       filter (\<lambda>e. observed_at e \<ge> now - keep_for cfg) (filter P (act_events (activity_run cfg obs) @ zs))"
    and "\<And>e. e \<in> set zs \<Longrightarrow> a_kind e \<in> activity_kinds"
    by (rule observe_events [of cfg snap now "activity_run cfg obs"]) blast
  with snoc show ?case by (auto simp: st simp del: activity_kinds_iff)
qed

lemma observe_times:
  assumes so: "sorted (map observed_at (act_events s))"
    and bd: "\<And>e. e \<in> set (act_events s) \<Longrightarrow> observed_at e \<le> now"
  shows "sorted (map observed_at (act_events (fst (activity_observe cfg snap now s))))
    \<and> (\<forall>e \<in> set (act_events (fst (activity_observe cfg snap now s))).
         now - keep_for cfg \<le> observed_at e \<and> observed_at e \<le> now)"
proof -
  obtain zs P where e: "act_events (fst (activity_observe cfg snap now s)) =
       filter (\<lambda>e. observed_at e \<ge> now - keep_for cfg) (filter P (act_events s @ zs))"
    and zs: "\<And>e. e \<in> set zs \<Longrightarrow> observed_at e = now"
    by (rule observe_events [of cfg snap now s]) blast
  have "sorted (map observed_at zs)" using zs by (induction zs) auto
  with so bd zs have all: "sorted (map observed_at (act_events s @ zs))"
    by (simp add: sorted_append)
  have "\<And>x. x \<in> set (act_events s @ zs) \<Longrightarrow> observed_at x \<le> now"
    using bd zs by (metis Un_iff order_refl set_append)
  then show ?thesis
    unfolding e by (simp only: set_filter mem_Collect_eq sorted_filter [OF sorted_filter [OF all]]) blast
qed

lemma events_times:
  assumes "sorted (map snd (obs @ [(snap, now)]))"
  shows "sorted (map observed_at (act_events (activity_run cfg (obs @ [(snap, now)]))))
    \<and> (\<forall>e \<in> set (act_events (activity_run cfg (obs @ [(snap, now)]))).
         now - keep_for cfg \<le> observed_at e \<and> observed_at e \<le> now)"
  using assms
proof (induction obs arbitrary: snap now rule: rev_induct)
  case Nil
  show ?case
    unfolding activity_run_snoc by (rule observe_times) (simp_all add: initial_activity_def)
next
  case (snoc st obs)
  obtain snap0 now0 where st: "st = (snap0, now0)" by (cases st)
  from snoc.prems have sorted: "sorted (map snd (obs @ [(snap0, now0)]))" and le: "now0 \<le> now"
    by (auto simp: st sorted_append)
  from snoc.IH [OF sorted] le show ?case
    by (simp only: st activity_run_snoc [of cfg "obs @ [(snap0, now0)]"])
      (intro observe_times; fastforce)
qed

text \<open>
  C29. The Activity feed is newest first and holds exactly events of the keep window: for every
  history of observations with non-decreasing times, each event returned was observed at most
  \<open>keep_for\<close> ago, never in the future, and no event precedes a newer one.
\<close>

theorem activity_feed_newest_first_in_window:
  assumes "sorted (map snd (obs @ [(snap, now)]))"
  shows "let evs = snd (activity_observe cfg snap now (activity_run cfg obs)) in
    sorted_wrt (\<lambda>e f. observed_at e \<ge> observed_at f) evs \<and>
    (\<forall>e. e \<in> set evs \<longrightarrow> now - keep_for cfg \<le> observed_at e \<and> observed_at e \<le> now)"
proof -
  have f: "snd (activity_observe cfg snap now (activity_run cfg obs)) =
      rev (act_events (activity_run cfg (obs @ [(snap, now)])))"
    by (simp only: activity_run_snoc) (simp add: activity_observe_def Let_def)
  from events_times [OF assms(1), of cfg] show ?thesis
    unfolding f Let_def set_rev sorted_wrt_rev sorted_map by blast
qed

definition day :: int where "day = 86400 * 1000000"

definition sec :: int where "sec = 1000000"

definition demo_activity_cfg :: activity_config where
  "demo_activity_cfg = \<lparr>keep_for = day, phone_outage_confirmation = 5 * sec,
     phone_recovery_confirmation = 5 * sec, act_tz = id\<rparr>"

definition phone :: "string \<Rightarrow> string \<Rightarrow> ami_endpoint" where
  "phone x st = default_endpoint\<lparr>ep_extension := x, device_state := st\<rparr>"

definition phones_snapshot :: "(string \<times> string) list \<Rightarrow> ami_snapshot" where
  "phones_snapshot xs = default_snapshot\<lparr>endpoints := map (\<lambda>p. phone (fst p) (snd p)) xs\<rparr>"

definition queue_snapshot :: "string \<Rightarrow> int \<Rightarrow> ami_snapshot" where
  "queue_snapshot q n = default_snapshot\<lparr>queues := [default_queue\<lparr>q_name := q, waiting_callers := n\<rparr>]\<rparr>"

theorem activity_feed_newest_first_in_window_witness:
  "let evs = snd (activity_observe demo_activity_cfg (queue_snapshot ''sales'' 0) (20 * sec)
       (activity_run demo_activity_cfg [(queue_snapshot ''sales'' 3, 10 * sec)])) in
   map a_kind evs = [''busy_period_completed_without_abandonment'', ''pbx_queue_cleared_activity''] \<and>
   list_all (\<lambda>e. 20 * sec - day \<le> observed_at e \<and> observed_at e \<le> 20 * sec) evs"
proof -
  have s: "sorted (map snd ([(queue_snapshot ''sales'' 3, 10 * sec)] @ [(queue_snapshot ''sales'' 0, 20 * sec)]))"
    by (simp add: sec_def)
  have k: "map a_kind (snd (activity_observe demo_activity_cfg (queue_snapshot ''sales'' 0) (20 * sec)
       (activity_run demo_activity_cfg [(queue_snapshot ''sales'' 3, 10 * sec)]))) =
     [''busy_period_completed_without_abandonment'', ''pbx_queue_cleared_activity'']"
    by code_simp
  have d: "keep_for demo_activity_cfg = day" by (simp add: demo_activity_cfg_def)
  from activity_feed_newest_first_in_window [OF s, of demo_activity_cfg] k show ?thesis
    by (simp add: Let_def d list_all_iff)
qed

section \<open>Phone outages\<close>

text \<open>The phone part of the state is only touched by \<open>note_outages\<close>, \<open>phone_transitions\<close> and
  \<open>expire\<close>.\<close>

lemma phones_add [simp]:
  "outstanding_phone_outages (add_event e s) = outstanding_phone_outages s"
  "reported_phone_recoveries (add_event e s) = reported_phone_recoveries s"
  "phone_recovery_started_at (add_event e s) = phone_recovery_started_at s"
  "phone_outage_started_at (add_event e s) = phone_outage_started_at s"
  by (simp_all add: add_event_def)

definition same_phones :: "activity_state \<Rightarrow> activity_state \<Rightarrow> bool" where
  "same_phones s s' \<longleftrightarrow> outstanding_phone_outages s' = outstanding_phone_outages s \<and>
     reported_phone_recoveries s' = reported_phone_recoveries s \<and>
     phone_recovery_started_at s' = phone_recovery_started_at s \<and>
     phone_outage_started_at s' = phone_outage_started_at s"

lemma same_phones_foldl: "(\<And>s x. same_phones s (f s x)) \<Longrightarrow> same_phones s (foldl f s xs)"
  by (induction xs arbitrary: s) (auto simp: same_phones_def)

lemma same_phones_queues: "same_phones s (queue_transitions cfg now prev cur s)"
proof -
  have "same_phones s (queue_transition cfg now cur cq s qw)" for s cq and qw :: "string \<times> int"
    by (cases qw) (simp add: queue_transition_def Let_def same_phones_def)
  from same_phones_foldl [of "queue_transition cfg now cur (dict_of (queue_waiting cur))", OF this]
  show ?thesis by (simp add: queue_transitions_def Let_def same_phones_def)
qed

lemma same_phones_trunks: "same_phones s (trunk_transitions cfg now prev cur s)"
proof -
  have "same_phones s (add_event (trunk_event cfg now t) s)" for s t
    by (simp add: same_phones_def)
  from same_phones_foldl [of "\<lambda>s t. add_event (trunk_event cfg now t) s", OF this]
  show ?thesis by (simp add: trunk_transitions_def Let_def same_phones_def)
qed

lemma same_phones_voicemail: "same_phones s (voicemail_transitions cfg now prev cur s)"
  by (simp add: voicemail_transitions_def Let_def same_phones_def)

lemma same_phones_before:
  "same_phones s (trunk_transitions cfg now prev cur (queue_transitions cfg now prev cur s))"
  using same_phones_queues [of s cfg now prev cur]
    same_phones_trunks [of "queue_transitions cfg now prev cur s" cfg now prev cur]
  by (simp add: same_phones_def)

text \<open>An outstanding outage has no reported recovery, and a recovery is only being confirmed for an
  outstanding outage.\<close>

definition phones_ok :: "activity_state \<Rightarrow> bool" where
  "phones_ok s \<longleftrightarrow> outstanding_phone_outages s \<inter> dom (reported_phone_recoveries s) = {} \<and>
     dom (phone_recovery_started_at s) \<subseteq> outstanding_phone_outages s"

lemma phones_ok_same: "same_phones s s' \<Longrightarrow> phones_ok s' = phones_ok s"
  by (simp add: phones_ok_def same_phones_def)

lemma phones_ok_note: "phones_ok s \<Longrightarrow> phones_ok (note_outages cfg cur now s)"
  by (auto simp: phones_ok_def note_outages_def Let_def restrict_map_def dom_def split: if_splits)

lemma phones_ok_phones: "phones_ok s \<Longrightarrow> phones_ok (phone_transitions cfg now cur s)"
  by (auto simp: phones_ok_def phone_transitions_def Let_def restrict_map_def dom_def split: if_splits)

lemma phones_ok_expire: "phones_ok s \<Longrightarrow> phones_ok (expire cfg now s)"
  by (auto simp: phones_ok_def expire_def Let_def dom_def split: option.splits if_splits)

lemma phones_ok_record: "phones_ok s \<Longrightarrow> phones_ok (record_transitions cfg prev cur now s)"
  unfolding record_transitions_def
  by (simp add: phones_ok_same [OF same_phones_voicemail] phones_ok_phones
      phones_ok_same [OF same_phones_before])

lemma phones_ok_observe: "phones_ok s \<Longrightarrow> phones_ok (fst (activity_observe cfg snap now s))"
proof -
  have upd: "phones_ok (s\<lparr>act_events := es, act_previous := pr\<rparr>) = phones_ok s" for s es pr
    by (simp add: phones_ok_def)
  assume "phones_ok s"
  then show ?thesis
    by (auto simp: activity_observe_def Let_def upd phones_ok_note phones_ok_record
        split: option.split intro!: phones_ok_expire)
qed

lemma phones_ok_run: "phones_ok (activity_run cfg obs)"
proof (induction obs rule: rev_induct)
  case Nil
  show ?case by (simp add: phones_ok_def initial_activity_def)
next
  case (snoc st obs)
  then show ?case by (cases st) (simp add: phones_ok_observe)
qed

text \<open>
  In every reachable state a phone with an outstanding (confirmed, not yet resolved) outage is
  not among the reported recoveries, and a recovery is being timed only for an outstanding outage:
  one outage can be reported recovered at most once, and a phone that was never confirmed down is
  never reported recovered.
\<close>

theorem activity_phone_bookkeeping:
  "outstanding_phone_outages (activity_run cfg obs) \<inter> dom (reported_phone_recoveries (activity_run cfg obs)) = {} \<and>
   dom (phone_recovery_started_at (activity_run cfg obs)) \<subseteq> outstanding_phone_outages (activity_run cfg obs)"
  using phones_ok_run [of cfg obs] by (simp add: phones_ok_def)

subsection \<open>Outstanding outages are confirmed outages\<close>

text \<open>At each reachable snapshot, whether phone \<open>x\<close> was listed unavailable.\<close>

definition phone_history :: "string \<Rightarrow> (ami_snapshot \<times> datetime) list \<Rightarrow> (bool \<times> datetime) list" where
  "phone_history x obs = map (\<lambda>st. (list_ex (\<lambda>e. \<not> is_trunk e \<and> ep_extension e = x \<and> endpoint_unavailable e)
       (endpoints (fst st)), snd st)) (filter (\<lambda>st. reachable (fst st)) obs)"

lemma phone_history_snoc:
  "phone_history x (obs @ [(snap, now)]) = (if reachable snap
     then phone_history x obs @ [(x \<in> unavailable_extensions (moment_state_of snap), now)]
     else phone_history x obs)"
  by (auto simp: phone_history_def moment_state_of_def Let_def list_ex_iff)

lemma ms_reachable_of [simp]: "ms_reachable (moment_state_of snap) = reachable snap"
  by (simp add: moment_state_of_def Let_def)

lemma outage_started_record [simp]:
  "phone_outage_started_at (record_transitions cfg prev cur now s) = phone_outage_started_at s"
  using same_phones_before [of s cfg now prev cur]
  by (simp add: record_transitions_def same_phones_def phone_transitions_def Let_def voicemail_transitions_def)

lemma outage_started_observe:
  "phone_outage_started_at (fst (activity_observe cfg snap now s)) x =
    (if reachable snap then
       (if x \<in> unavailable_extensions (moment_state_of snap)
        then Some (opt_or (phone_outage_started_at s x) now) else None)
     else phone_outage_started_at s x)"
proof -
  have "phone_outage_started_at (fst (activity_observe cfg snap now s)) =
    (if reachable snap then phone_outage_started_at (note_outages cfg (moment_state_of snap) now s)
     else phone_outage_started_at s)"
    by (simp add: activity_observe_def Let_def expire_def split: option.split)
  then show ?thesis by (simp add: note_outages_def Let_def)
qed

lemma outage_started_run:
  "phone_outage_started_at (activity_run cfg obs) x = run_start (phone_history x obs)"
proof (induction obs rule: rev_induct)
  case Nil
  show ?case by (simp add: initial_activity_def phone_history_def)
next
  case (snoc st obs)
  then show ?case
    by (cases st) (simp add: outage_started_observe phone_history_snoc run_start_snoc)
qed

text \<open>\<open>x\<close>'s outage is confirmed at the end of \<open>obs\<close>.\<close>

definition outage_confirmed :: "activity_config \<Rightarrow> string \<Rightarrow> (ami_snapshot \<times> datetime) list \<Rightarrow> bool" where
  "outage_confirmed cfg x obs = (obs \<noteq> [] \<and> reachable (fst (last obs)) \<and>
     (case run_start (phone_history x obs) of None \<Rightarrow> False
      | Some t0 \<Rightarrow> phone_outage_confirmation cfg \<le> snd (last obs) - t0))"

lemma outstanding_observe:
  assumes "x \<in> outstanding_phone_outages (fst (activity_observe cfg snap now s))"
    and "x \<notin> outstanding_phone_outages s"
  shows "reachable snap \<and> x \<in> unavailable_extensions (moment_state_of snap) \<and>
    phone_outage_confirmation cfg \<le> now - opt_or (phone_outage_started_at s x) now"
proof -
  let ?cur = "moment_state_of snap"
  let ?s2 = "note_outages cfg ?cur now s"
  have sub: "outstanding_phone_outages (record_transitions cfg prev ?cur now s') \<subseteq> outstanding_phone_outages s'"
    for prev s'
    using same_phones_before [of s' cfg now prev ?cur]
    by (auto simp: record_transitions_def same_phones_def phone_transitions_def Let_def voicemail_transitions_def)
  have "outstanding_phone_outages (fst (activity_observe cfg snap now s)) \<subseteq>
      (if reachable snap then outstanding_phone_outages ?s2 else outstanding_phone_outages s)"
    using sub by (auto simp: activity_observe_def Let_def expire_def split: option.splits)
  with assms show ?thesis by (auto simp: note_outages_def Let_def split: if_splits)
qed

text \<open>
  Only a confirmed outage becomes outstanding: when phone \<open>x\<close> is outstanding after a history of
  observations, some prefix of that history ends in a reachable snapshot at which \<open>x\<close> had been
  listed as unavailable without interruption for at least the confirmation period, and \<open>x\<close>'s
  recorded outage start is always the start of its current unbroken unavailability.
\<close>

theorem outstanding_outage_was_confirmed:
  "phone_outage_started_at (activity_run cfg obs) x = run_start (phone_history x obs) \<and>
   (x \<in> outstanding_phone_outages (activity_run cfg obs) \<longrightarrow>
     (\<exists>k. k \<le> length obs \<and> outage_confirmed cfg x (take k obs)))"
proof (induction obs rule: rev_induct)
  case Nil
  show ?case by (simp add: initial_activity_def phone_history_def)
next
  case (snoc st obs)
  obtain snap now where st: "st = (snap, now)" by (cases st)
  have "\<exists>k. k \<le> length (obs @ [st]) \<and> outage_confirmed cfg x (take k (obs @ [st]))"
    if a: "x \<in> outstanding_phone_outages (activity_run cfg (obs @ [st]))"
  proof (cases "x \<in> outstanding_phone_outages (activity_run cfg obs)")
    case True
    with snoc.IH obtain k where "k \<le> length obs" "outage_confirmed cfg x (take k obs)" by blast
    then show ?thesis by (intro exI [of _ k]) simp
  next
    case False
    from outstanding_observe [OF a [unfolded st activity_run_snoc] False]
    have "outage_confirmed cfg x (obs @ [st])"
      by (simp add: outage_confirmed_def st phone_history_snoc run_start_snoc outage_started_run)
    then show ?thesis by (intro exI [of _ "length (obs @ [st])"]) simp
  qed
  then show ?case by (simp only: outage_started_run) blast
qed

text \<open>A phone down for 5 s is outstanding.\<close>

definition outage_obs :: "(ami_snapshot \<times> datetime) list" where
  "outage_obs = [(phones_snapshot [(''200'', ''Unreachable'')], 10 * sec),
     (phones_snapshot [(''200'', ''Unreachable'')], 15 * sec)]"

lemma outage_obs_outstanding: "''200'' \<in> outstanding_phone_outages (activity_run demo_activity_cfg outage_obs)"
  by code_simp

theorem outstanding_outage_was_confirmed_witness:
  "\<exists>k. k \<le> length outage_obs \<and> outage_confirmed demo_activity_cfg ''200'' (take k outage_obs)"
  using outstanding_outage_was_confirmed [of demo_activity_cfg outage_obs "''200''"] outage_obs_outstanding
  by blast

section \<open>The feed and the current snapshot\<close>

lemma dict_of_snoc: "dict_of (ps @ [p]) = AList.update (fst p) (snd p) (dict_of ps)"
  by (simp add: dict_of_def)

text \<open>Over a sorted list the value kept for a key is the largest one.\<close>

lemma dict_of_sorted_max:
  "sorted ps \<Longrightarrow> (k, v) \<in> set ps \<Longrightarrow> \<exists>m. map_of (dict_of ps) k = Some m \<and> v \<le> m \<and> (k, m) \<in> set ps"
proof (induction ps rule: rev_induct)
  case (snoc p ps)
  show ?case
  proof (cases "fst p = k")
    case True
    then have m: "map_of (dict_of (ps @ [p])) k = Some (snd p)"
      by (simp add: dict_of_snoc update_conv')
    have "(k, v) \<le> p"
      using snoc.prems by (auto simp: sorted_append)
    with True have "v \<le> snd p" by (cases p) (simp add: less_eq_prod_def)
    with m True show ?thesis by (cases p) auto
  next
    case False
    with snoc.prems have "(k, v) \<in> set ps" "sorted ps" by (auto simp: sorted_append)
    from snoc.IH [OF this(2) this(1)] False show ?thesis
      by (auto simp: dict_of_snoc update_conv')
  qed
qed simp

lemma queue_empty_iff:
  assumes "dget (dict_of (queue_waiting (moment_state_of snap))) q 0 = 0"
    and "r \<in> set (queues snap)" and "q_name r = q"
  shows "waiting_callers r \<le> 0"
proof -
  have "(q, max 0 (waiting_callers r)) \<in> set (queue_waiting (moment_state_of snap))"
    using assms(2,3) by (auto simp: moment_state_of_def Let_def)
  moreover have "sorted (queue_waiting (moment_state_of snap))"
    by (simp add: moment_state_of_def Let_def)
  ultimately obtain m where "map_of (dict_of (queue_waiting (moment_state_of snap))) q = Some m"
    and "max 0 (waiting_callers r) \<le> m"
    using dict_of_sorted_max by blast
  with assms(1) show ?thesis by (simp add: dget_def)
qed


definition cleared_obs :: "(ami_snapshot \<times> datetime) list" where
  "cleared_obs = [(queue_snapshot ''sales'' 3, 10 * sec)]"


subsection \<open>A recovery behind a fresh outage\<close>

definition recoveries :: "activity_event list \<Rightarrow> activity_event list" where
  "recoveries evs = filter (\<lambda>e. a_kind e = ''pbx_phone_recovered_activity'') evs"

definition same_recoveries :: "activity_state \<Rightarrow> activity_state \<Rightarrow> bool" where
  "same_recoveries s s' \<longleftrightarrow> recoveries (act_events s') = recoveries (act_events s)"

lemma same_recoveries_foldl: "(\<And>s x. same_recoveries s (f s x)) \<Longrightarrow> same_recoveries s (foldl f s xs)"
  by (induction xs arbitrary: s) (auto simp: same_recoveries_def)

lemma same_recoveries_queues: "same_recoveries s (queue_transitions cfg now prev cur s)"
proof -
  have "same_recoveries s (queue_transition cfg now cur cq s qw)" for s cq and qw :: "string \<times> int"
    by (cases qw) (simp add: queue_transition_def Let_def same_recoveries_def recoveries_def add_event_def)
  from same_recoveries_foldl [of "queue_transition cfg now cur (dict_of (queue_waiting cur))", OF this]
  show ?thesis by (simp add: queue_transitions_def Let_def same_recoveries_def)
qed

lemma same_recoveries_trunks: "same_recoveries s (trunk_transitions cfg now prev cur s)"
proof -
  have "same_recoveries s (add_event (trunk_event cfg now t) s)" for s t
    by (simp add: same_recoveries_def recoveries_def add_event_def trunk_event_def)
  from same_recoveries_foldl [of "\<lambda>s t. add_event (trunk_event cfg now t) s", OF this]
  show ?thesis by (simp add: trunk_transitions_def Let_def same_recoveries_def)
qed

lemma phone_transitions_events:
  "act_events (phone_transitions cfg now cur s) = act_events s \<or>
   (\<exists>f. act_events (phone_transitions cfg now cur s) =
      act_events s @ [recovery_event cfg now f (outstanding_phone_outages (phone_transitions cfg now cur s))])"
  unfolding phone_transitions_def Let_def by (simp add: add_event_def) blast

lemma recoveries_record:
  assumes "outstanding_phone_outages (record_transitions cfg prev cur now s) = {}"
    and "e \<in> set (recoveries (act_events (record_transitions cfg prev cur now s)))"
  shows "e \<in> set (act_events s) \<or> a_title e = all_reachable_title"
proof -
  let ?s1 = "trunk_transitions cfg now prev cur (queue_transitions cfg now prev cur s)"
  let ?s2 = "phone_transitions cfg now cur ?s1"
  have "recoveries (act_events ?s1) = recoveries (act_events s)"
    using same_recoveries_queues [of s cfg now prev cur]
      same_recoveries_trunks [of "queue_transitions cfg now prev cur s" cfg now prev cur]
    by (simp add: same_recoveries_def)
  then have s1: "x \<in> set (act_events s)" if "x \<in> set (recoveries (act_events ?s1))" for x
    using that by simp (simp add: recoveries_def)
  have "recoveries (act_events (record_transitions cfg prev cur now s)) = recoveries (act_events ?s2)"
    by (simp add: record_transitions_def voicemail_transitions_def Let_def recoveries_def add_event_def)
  with assms(2) have e: "e \<in> set (recoveries (act_events ?s2))" by simp
  have empty: "outstanding_phone_outages ?s2 = {}"
    using assms(1) by (simp add: record_transitions_def voicemail_transitions_def Let_def split: if_splits)
  have title: "a_title (recovery_event cfg now f {}) = all_reachable_title" for f
    by (simp add: recovery_event_def mk_event_def Let_def)
  have "x \<in> set (act_events ?s2) \<Longrightarrow> x \<in> set (act_events ?s1) \<or> a_title x = all_reachable_title" for x
    using phone_transitions_events [of cfg now cur ?s1] unfolding empty by (auto simp: title)
  with e have "e \<in> set (recoveries (act_events ?s1)) \<or> a_title e = all_reachable_title"
    by (auto simp: recoveries_def)
  with s1 show ?thesis by blast
qed

text \<open>
  C37. A recovery that completes the last outstanding outage while some other phone is listed as
  unavailable, but not yet for its confirmation period, is never shown: the event says that all
  phones are reachable, so the observation that creates it drops it again, although the outage is
  no longer outstanding and will not be reported later.
\<close>

theorem recovery_lost_behind_unconfirmed_outage:
  assumes "reachable snap" and "e \<in> set (endpoints snap)" and "\<not> is_trunk e" and "endpoint_unavailable e"
    and "outstanding_phone_outages (fst (activity_observe cfg snap now s)) = {}"
    and "ev \<in> set (snd (activity_observe cfg snap now s))"
    and "a_kind ev = ''pbx_phone_recovered_activity''"
  shows "ev \<in> set (act_events s)"
proof -
  let ?cur = "moment_state_of snap"
  let ?s2 = "note_outages cfg ?cur now s"
  let ?s3 = "case act_previous ?s2 of None \<Rightarrow> ?s2 | Some prev \<Rightarrow> record_transitions cfg prev ?cur now ?s2"
  have un: "unavailable_extensions ?cur \<noteq> {}"
    using assms(2-4) by (auto simp: moment_state_of_def Let_def filter_empty_conv)
  have "ev \<in> set (act_events ?s3)" and cur: "activity_event_is_still_current ?cur ev"
    using assms(1,6) by (auto simp: activity_observe_def Let_def expire_def)
  moreover have "outstanding_phone_outages ?s3 = {}"
    using assms(1,5) by (auto simp: activity_observe_def Let_def expire_def)
  moreover have "a_title ev \<noteq> all_reachable_title"
    using cur un assms(7) by (auto simp: activity_event_is_still_current_def)
  ultimately show ?thesis
    using assms(7) recoveries_record [of cfg _ ?cur now ?s2 ev]
    by (auto simp: recoveries_def split: option.splits)
qed

text \<open>Phone 200 has been back for 5 s and its recovery is due; 201 has just gone down.\<close>

definition recovering_state :: activity_state where
  "recovering_state = initial_activity\<lparr>act_previous := Some (moment_state_of (phones_snapshot [])),
     outstanding_phone_outages := {''200''}, phone_recovery_started_at := [''200'' \<mapsto> 20 * sec]\<rparr>"

definition fresh_outage_snapshot :: ami_snapshot where
  "fresh_outage_snapshot = phones_snapshot [(''200'', ''Reachable''), (''201'', ''Unreachable'')]"

theorem recovery_lost_behind_unconfirmed_outage_witness:
  "list_all (\<lambda>ev. a_kind ev \<noteq> ''pbx_phone_recovered_activity'')
     (snd (activity_observe demo_activity_cfg fresh_outage_snapshot (25 * sec) recovering_state))"
proof -
  have r: "reachable fresh_outage_snapshot"
    by (simp add: fresh_outage_snapshot_def phones_snapshot_def default_snapshot_def)
  have e: "phone ''201'' ''Unreachable'' \<in> set (endpoints fresh_outage_snapshot)"
    by (simp add: fresh_outage_snapshot_def phones_snapshot_def default_snapshot_def)
  have t: "\<not> is_trunk (phone ''201'' ''Unreachable'')" by code_simp
  have u: "endpoint_unavailable (phone ''201'' ''Unreachable'')" by code_simp
  have o: "outstanding_phone_outages
      (fst (activity_observe demo_activity_cfg fresh_outage_snapshot (25 * sec) recovering_state)) = {}"
    by code_simp
  have "act_events recovering_state = []" by (simp add: recovering_state_def initial_activity_def)
  with recovery_lost_behind_unconfirmed_outage [OF r e t u o] show ?thesis by (auto simp: list_all_iff)
qed

end
