(* ===== verification/PulseTrackers.thy ===== *)
theory PulseTrackers
  imports PulseText Confirm
begin

text \<open>
  The stateful observers of \<open>pbxsense_agent/pulse.py\<close> and \<open>presence_history.py\<close> that turn a
  sequence of snapshots into what the Home payload may show:
  \<^item> \<open>EndpointAvailabilitySignalTracker\<close>: one calm unavailability Signal per outage;
  \<^item> \<open>EndpointAggregateTipTracker\<close>: the delayed multi-phone tip;
  \<^item> \<open>EndpointLastActiveTracker\<close>: the last healthy observation of each extension, persisted.

  Each object's lock makes its methods atomic, so a tracker is a state and one function per
  method. \<open>tz\<close> gives a wall-clock time's distance from the Unix epoch in microseconds.
\<close>

section \<open>EndpointAvailabilitySignalTracker\<close>

record endpoint_signal_state =
  outage_started_at :: "datetime option"
  recovery_started_at :: "datetime option"
  episode_notified :: bool
  signal_visible :: bool
  es_notification_id :: string

definition fresh_endpoint_state :: endpoint_signal_state where
  "fresh_endpoint_state = \<lparr>outage_started_at = None, recovery_started_at = None,
     episode_notified = False, signal_visible = False, es_notification_id = []\<rparr>"

record tracker_config =
  tr_outage_confirmation :: int
  tr_recovery_confirmation :: int
  tr_role :: string
  tr_tz :: "datetime \<Rightarrow> int"

type_synonym tracker_states = "string \<rightharpoonup> endpoint_signal_state"

definition outage_notification_id :: "(datetime \<Rightarrow> int) \<Rightarrow> string \<Rightarrow> datetime \<Rightarrow> string" where
  "outage_notification_id tz ext now =
     ''sig_endpoint_'' @ ext @ ''_unavailable_'' @ show_int (ts_micros (tz now))"

definition tracked_endpoints :: "string \<Rightarrow> ami_endpoint list \<Rightarrow> (string \<times> ami_endpoint) list" where
  "tracked_endpoints r eps = foldl (\<lambda>d e. AList.update (ep_extension e) e d) []
     (filter (\<lambda>e. is_trunk e = (r = ''trunk'')) eps)"

text \<open>One iteration of the loop of \<open>observe\<close>: the endpoint's new state (\<open>None\<close> when its entry is
  popped) and whether it is added to the visible set.\<close>

definition unavailable_step :: "tracker_config \<Rightarrow> string \<Rightarrow> datetime \<Rightarrow> endpoint_signal_state \<Rightarrow> endpoint_signal_state" where
  "unavailable_step cfg ext now s =
    (let s1 = (if recovery_started_at s \<noteq> None then
                 s\<lparr>recovery_started_at := None, outage_started_at := Some now, episode_notified := False,
                   signal_visible := False, es_notification_id := []\<rparr>
               else if outage_started_at s = None then s\<lparr>outage_started_at := Some now\<rparr>
               else s);
         s2 = (if es_notification_id s1 = []
               then s1\<lparr>es_notification_id := outage_notification_id (tr_tz cfg) ext now\<rparr> else s1)
     in if \<not> episode_notified s2 \<and> now - opt_or (outage_started_at s2) now \<ge> tr_outage_confirmation cfg
        then s2\<lparr>episode_notified := True, signal_visible := True\<rparr> else s2)"

definition available_step :: "tracker_config \<Rightarrow> datetime \<Rightarrow> endpoint_signal_state \<Rightarrow> endpoint_signal_state option" where
  "available_step cfg now s =
    (let s1 = s\<lparr>outage_started_at := None, signal_visible := False\<rparr>
     in if \<not> episode_notified s1 then None
        else case recovery_started_at s1 of
          None \<Rightarrow> Some (s1\<lparr>recovery_started_at := Some now\<rparr>)
        | Some r \<Rightarrow> if now - r \<ge> tr_recovery_confirmation cfg then None else Some s1)"

definition endpoint_step :: "tracker_config \<Rightarrow> string \<Rightarrow> ami_endpoint \<Rightarrow> datetime \<Rightarrow>
    endpoint_signal_state option \<Rightarrow> endpoint_signal_state option \<times> bool" where
  "endpoint_step cfg ext e now st =
    (let s = opt_or st fresh_endpoint_state
     in if endpoint_unavailable e then
          let s' = unavailable_step cfg ext now s in (Some s', signal_visible s')
        else (available_step cfg now s, False))"

definition observe_endpoint :: "tracker_config \<Rightarrow> datetime \<Rightarrow> tracker_states \<times> string set \<Rightarrow>
    string \<times> ami_endpoint \<Rightarrow> tracker_states \<times> string set" where
  "observe_endpoint cfg now acc item =
    (let (states, visible) = acc; (ext, e) = item; (st, v) = endpoint_step cfg ext e now (states ext)
     in (states(ext := st), if v then insert ext visible else visible))"

definition tracker_observe :: "tracker_config \<Rightarrow> ami_snapshot \<Rightarrow> datetime \<Rightarrow> tracker_states \<Rightarrow>
    tracker_states \<times> string set" where
  "tracker_observe cfg snap now states =
    (if \<not> reachable snap then (states, {})
     else let eps = tracked_endpoints (tr_role cfg) (endpoints snap);
              kept = (\<lambda>ext. if ext \<in> set (map fst eps) then states ext else None)
          in foldl (observe_endpoint cfg now) (kept, {}) eps)"

text \<open>\<open>notification_ids\<close>: the occurrence of each visible outage.\<close>

definition notification_ids :: "tracker_states \<Rightarrow> string \<rightharpoonup> string" where
  "notification_ids states ext = (case states ext of None \<Rightarrow> None
     | Some s \<Rightarrow> if signal_visible s \<and> es_notification_id s \<noteq> [] then Some (es_notification_id s) else None)"

subsection \<open>The loop works endpoint by endpoint\<close>

lemma distinct_tracked: "distinct (map fst (tracked_endpoints r eps))"
  using ad.fold_keys [of ep_extension "\<lambda>_ e. e" "filter (\<lambda>e. is_trunk e = (r = ''trunk'')) eps"]
  by (simp add: tracked_endpoints_def)

lemma observe_loop:
  assumes "distinct (map fst eps)"
  shows "foldl (observe_endpoint cfg now) (states, visible) eps =
    (\<lambda>ext. case map_of eps ext of None \<Rightarrow> states ext
        | Some e \<Rightarrow> fst (endpoint_step cfg ext e now (states ext)),
     visible \<union> {ext. \<exists>e. map_of eps ext = Some e \<and> snd (endpoint_step cfg ext e now (states ext))})"
  using assms
proof (induction eps arbitrary: states visible)
  case (Cons item eps)
  obtain x e where item: "item = (x, e)" by (cases item)
  have nx: "map_of eps x = None" and d: "distinct (map fst eps)"
    using Cons.prems by (simp_all add: item map_of_eq_None_iff)
  obtain st v where sv: "endpoint_step cfg x e now (states x) = (st, v)" by (cases "endpoint_step cfg x e now (states x)")
  let ?states = "states(x := st)"
  let ?visible = "if v then insert x visible else visible"
  have "foldl (observe_endpoint cfg now) (states, visible) (item # eps) =
      foldl (observe_endpoint cfg now) (?states, ?visible) eps"
    by (simp add: item observe_endpoint_def sv)
  also have "\<dots> = (\<lambda>ext. case map_of eps ext of None \<Rightarrow> ?states ext
        | Some e \<Rightarrow> fst (endpoint_step cfg ext e now (?states ext)),
     ?visible \<union> {ext. \<exists>e. map_of eps ext = Some e \<and> snd (endpoint_step cfg ext e now (?states ext))})"
    by (rule Cons.IH [OF d])
  also have "(\<lambda>ext. case map_of eps ext of None \<Rightarrow> ?states ext
        | Some e \<Rightarrow> fst (endpoint_step cfg ext e now (?states ext))) =
      (\<lambda>ext. case map_of (item # eps) ext of None \<Rightarrow> states ext
        | Some e \<Rightarrow> fst (endpoint_step cfg ext e now (states ext)))"
    by (rule HOL.ext) (simp add: item nx sv split: option.splits)
  also have "?visible \<union> {ext. \<exists>e. map_of eps ext = Some e \<and> snd (endpoint_step cfg ext e now (?states ext))} =
      visible \<union> {ext. \<exists>e. map_of (item # eps) ext = Some e \<and> snd (endpoint_step cfg ext e now (states ext))}"
  proof (rule set_eqI)
    fix y
    show "y \<in> ?visible \<union> {ext. \<exists>e. map_of eps ext = Some e \<and> snd (endpoint_step cfg ext e now (?states ext))} \<longleftrightarrow>
      y \<in> visible \<union> {ext. \<exists>e. map_of (item # eps) ext = Some e \<and> snd (endpoint_step cfg ext e now (states ext))}"
      by (cases "y = x") (simp_all add: item nx sv)
  qed
  finally show ?case .
qed simp

text \<open>What one extension sees of the snapshots: its endpoint in the tracked role, if listed.\<close>

definition endpoint_view :: "tracker_config \<Rightarrow> string \<Rightarrow> ami_snapshot \<Rightarrow> ami_endpoint option" where
  "endpoint_view cfg ext snap = map_of (tracked_endpoints (tr_role cfg) (endpoints snap)) ext"

definition view_step :: "tracker_config \<Rightarrow> string \<Rightarrow> ami_endpoint option \<Rightarrow> datetime \<Rightarrow>
    endpoint_signal_state option \<Rightarrow> endpoint_signal_state option \<times> bool" where
  "view_step cfg ext x now st = (case x of None \<Rightarrow> (None, False) | Some e \<Rightarrow> endpoint_step cfg ext e now st)"

lemma tracker_observe_pointwise:
  assumes "reachable snap"
  shows "fst (tracker_observe cfg snap now states) ext = fst (view_step cfg ext (endpoint_view cfg ext snap) now (states ext))"
    and "ext \<in> snd (tracker_observe cfg snap now states) \<longleftrightarrow> snd (view_step cfg ext (endpoint_view cfg ext snap) now (states ext))"
proof -
  let ?eps = "tracked_endpoints (tr_role cfg) (endpoints snap)"
  have key: "ext \<in> set (map fst ?eps) \<longleftrightarrow> map_of ?eps ext \<noteq> None"
    by (simp add: map_of_eq_None_iff)
  show "fst (tracker_observe cfg snap now states) ext = fst (view_step cfg ext (endpoint_view cfg ext snap) now (states ext))"
    and "ext \<in> snd (tracker_observe cfg snap now states) \<longleftrightarrow> snd (view_step cfg ext (endpoint_view cfg ext snap) now (states ext))"
    using assms key
    by (auto simp: tracker_observe_def observe_loop [OF distinct_tracked] view_step_def endpoint_view_def Let_def
        split: option.splits)
qed

subsection \<open>The tracker as a confirmation machine\<close>

definition down :: "ami_endpoint option \<Rightarrow> bool" where
  "down x = (case x of None \<Rightarrow> False | Some e \<Rightarrow> endpoint_unavailable e)"

definition state_started :: "endpoint_signal_state option \<Rightarrow> datetime option" where
  "state_started st = Option.bind st outage_started_at"

definition state_shown :: "endpoint_signal_state option \<Rightarrow> bool" where
  "state_shown st = (case st of None \<Rightarrow> False | Some s \<Rightarrow> signal_visible s)"

text \<open>The invariant of one extension's entry: during an outage the Signal is visible exactly when
  the episode has been notified, and the occurrence id names the start of the outage; outside an
  outage the entry only waits for the recovery confirmation.\<close>

definition tracker_inv :: "tracker_config \<Rightarrow> string \<Rightarrow> endpoint_signal_state option \<Rightarrow> bool" where
  "tracker_inv cfg ext st = (case st of None \<Rightarrow> True | Some s \<Rightarrow>
     (case outage_started_at s of
        Some t0 \<Rightarrow> recovery_started_at s = None \<and> (episode_notified s \<longleftrightarrow> signal_visible s) \<and>
          es_notification_id s = outage_notification_id (tr_tz cfg) ext t0
      | None \<Rightarrow> recovery_started_at s \<noteq> None \<and> episode_notified s \<and> \<not> signal_visible s))"

lemmas step_defs = view_step_def endpoint_step_def unavailable_step_def available_step_def
  fresh_endpoint_state_def Let_def

lemma outage_notification_id_nonempty [simp]: "outage_notification_id tz ext t \<noteq> []"
  by (simp add: outage_notification_id_def)

lemma tracker_inv_None [simp]: "tracker_inv cfg ext None"
  by (simp add: tracker_inv_def)

lemma tracker_inv_step:
  assumes "tracker_inv cfg ext st"
  shows "tracker_inv cfg ext (fst (view_step cfg ext x now st))"
  using assms
  by (cases x; cases st)
    (auto simp: tracker_inv_def step_defs split: option.splits if_splits)

lemma view_step_shown: "snd (view_step cfg ext x now st) = state_shown (fst (view_step cfg ext x now st))"
  by (cases x; cases st) (auto simp: state_shown_def step_defs split: option.splits if_splits)

interpretation ep: confirmation "view_step cfg ext" down None state_started state_shown
    "tracker_inv cfg ext" "tr_outage_confirmation cfg" for cfg ext
proof (unfold_locales, goal_cases)
  case 1 show ?case by simp
next
  case 2 show ?case by (simp add: state_started_def)
next
  case 3 show ?case by (simp add: state_shown_def)
next
  case (4 s x t) then show ?case by (rule tracker_inv_step)
next
  case (5 s x t) then show ?case
    by (cases x; cases s) (auto simp: down_def state_started_def step_defs split: option.splits if_splits)
next
  case (6 s x t) then show ?case
    by (cases x; cases s)
      (auto simp: down_def state_started_def tracker_inv_def step_defs split: option.splits if_splits)
next
  case (7 s x t) then show ?case
    by (cases x; cases s)
      (auto simp: down_def state_started_def tracker_inv_def step_defs split: option.splits if_splits)
next
  case (8 s x t) then show ?case
    by (cases x; cases s)
      (auto simp: down_def state_started_def state_shown_def tracker_inv_def step_defs split: option.splits if_splits)
next
  case (9 s x t) then show ?case
    by (cases x; cases s)
      (auto simp: down_def state_shown_def step_defs split: option.splits if_splits)
qed

subsection \<open>Histories of snapshots\<close>

definition tracker_run :: "tracker_config \<Rightarrow> (ami_snapshot \<times> datetime) list \<Rightarrow> tracker_states \<times> string set" where
  "tracker_run cfg obs = foldl (\<lambda>acc st. tracker_observe cfg (fst st) (snd st) (fst acc)) (Map.empty, {}) obs"

definition views :: "tracker_config \<Rightarrow> string \<Rightarrow> (ami_snapshot \<times> datetime) list \<Rightarrow> (ami_endpoint option \<times> datetime) list" where
  "views cfg ext obs = map (\<lambda>st. (endpoint_view cfg ext (fst st), snd st)) (filter (\<lambda>st. reachable (fst st)) obs)"

text \<open>The history of one extension: at each reachable snapshot, whether it was listed and unavailable.\<close>

definition outage_history :: "tracker_config \<Rightarrow> string \<Rightarrow> (ami_snapshot \<times> datetime) list \<Rightarrow> (bool \<times> datetime) list" where
  "outage_history cfg ext obs = cond_history down (views cfg ext obs)"

lemma tracker_run_snoc [simp]:
  "tracker_run cfg (obs @ [(snap, now)]) = tracker_observe cfg snap now (fst (tracker_run cfg obs))"
  by (simp add: tracker_run_def)

lemma views_snoc [simp]:
  "views cfg ext (obs @ [(snap, now)]) =
     (if reachable snap then views cfg ext obs @ [(endpoint_view cfg ext snap, now)] else views cfg ext obs)"
  by (simp add: views_def)

lemma sorted_views: "sorted (map snd obs) \<Longrightarrow> sorted (map snd (views cfg ext obs))"
  by (induction obs rule: rev_induct) (auto simp: views_def sorted_append)

lemma tracker_run_states: "fst (tracker_run cfg obs) ext = fst (feed (view_step cfg ext) None (views cfg ext obs))"
proof (induction obs rule: rev_induct)
  case Nil
  show ?case by (simp add: tracker_run_def views_def)
next
  case (snoc st obs)
  obtain snap now where st: "st = (snap, now)" by (cases st)
  show ?case
  proof (cases "reachable snap")
    case True
    then show ?thesis by (simp add: st tracker_observe_pointwise snoc.IH)
  next
    case False
    then show ?thesis using snoc.IH by (simp add: st tracker_observe_def)
  qed
qed

lemma tracker_run_visible:
  assumes "reachable snap"
  shows "ext \<in> snd (tracker_run cfg (obs @ [(snap, now)])) \<longleftrightarrow>
    snd (feed (view_step cfg ext) None (views cfg ext (obs @ [(snap, now)])))"
  using assms by (simp add: tracker_observe_pointwise tracker_run_states)

lemma visible_iff:
  assumes "sorted (map snd (obs @ [(snap, now)]))" and "reachable snap"
  shows "ext \<in> snd (tracker_run cfg (obs @ [(snap, now)])) \<longleftrightarrow>
    (\<exists>t0. run_start (outage_history cfg ext (obs @ [(snap, now)])) = Some t0 \<and>
      tr_outage_confirmation cfg \<le> now - t0)"
proof -
  have "sorted (map snd (views cfg ext obs @ [(endpoint_view cfg ext snap, now)]))"
    using sorted_views [OF assms(1), of cfg ext] assms(2) by simp
  from ep.confirmed_iff [OF this] assms(2) show ?thesis
    by (simp only: tracker_run_visible [OF assms(2)] outage_history_def views_snoc if_True)
qed

lemma notification_ids_eq:
  assumes "sorted (map snd obs)"
  shows "notification_ids (fst (tracker_run cfg obs)) ext =
    (case run_start (outage_history cfg ext obs) of None \<Rightarrow> None
     | Some t0 \<Rightarrow> if tr_outage_confirmation cfg \<le> snd (last (views cfg ext obs)) - t0
         then Some (outage_notification_id (tr_tz cfg) ext t0) else None)"
proof (cases "views cfg ext obs" rule: rev_cases)
  case Nil
  then show ?thesis
    by (simp add: notification_ids_def tracker_run_states outage_history_def)
next
  case (snoc vs xt)
  obtain x t where xt: "xt = (x, t)" by (cases xt)
  let ?st = "fst (feed (view_step cfg ext) None (vs @ [(x, t)]))"
  have sorted: "sorted (map snd (vs @ [(x, t)]))"
    using sorted_views [OF assms, of cfg ext] by (simp add: snoc xt)
  have inv: "tracker_inv cfg ext ?st" by (rule ep.inv_feed [OF sorted])
  have started: "state_started ?st = run_start (outage_history cfg ext obs)"
    by (simp only: ep.started_feed [OF sorted] outage_history_def snoc xt)
  have shown: "state_shown ?st \<longleftrightarrow>
      (\<exists>t0. run_start (outage_history cfg ext obs) = Some t0 \<and> tr_outage_confirmation cfg \<le> t - t0)"
    using ep.confirmed_iff [OF sorted]
    by (simp add: view_step_shown outage_history_def snoc xt)
  have run: "notification_ids (fst (tracker_run cfg obs)) ext = notification_ids (\<lambda>_. ?st) ext"
    by (simp add: notification_ids_def tracker_run_states snoc xt)
  show ?thesis
    unfolding run snoc xt using inv started shown
    by (cases ?st)
      (auto simp: notification_ids_def tracker_inv_def state_started_def state_shown_def split: option.splits)
qed

text \<open>
  C6. A phone (or trunk) is shown as unavailable exactly when it has been listed as unavailable in
  every reachable snapshot since some time \<open>t0\<close> and the outage confirmation period has passed since
  \<open>t0\<close>. Unreachable snapshots neither confirm nor end an outage; an available or missing entry ends
  it. This holds for every history of observations with non-decreasing times.
\<close>

theorem unavailable_shown_iff_confirmed:
  assumes "sorted (map snd (obs @ [(snap, now)]))" and "reachable snap"
  shows "ext \<in> snd (tracker_run cfg (obs @ [(snap, now)])) \<longleftrightarrow>
    (\<exists>t0. run_start (outage_history cfg ext (obs @ [(snap, now)])) = Some t0 \<and>
      tr_outage_confirmation cfg \<le> now - t0)"
  by (rule visible_iff [OF assms])

text \<open>A phone that goes down at 10 s, with a confirmation of 5 s, is shown at 15 s.\<close>

definition demo_cfg :: tracker_config where
  "demo_cfg = \<lparr>tr_outage_confirmation = 5000000, tr_recovery_confirmation = 5000000,
     tr_role = ''extension'', tr_tz = id\<rparr>"

definition demo_snapshot :: "string \<Rightarrow> ami_snapshot" where
  "demo_snapshot st = default_snapshot\<lparr>endpoints := [default_endpoint\<lparr>ep_extension := ''200'', device_state := st\<rparr>]\<rparr>"

definition demo_obs :: "(ami_snapshot \<times> datetime) list" where
  "demo_obs = [(demo_snapshot ''Reachable'', 0), (demo_snapshot ''Unreachable'', 10000000)]"

lemma demo_cfg_sel [simp]:
  "tr_outage_confirmation demo_cfg = 5000000" "tr_tz demo_cfg = id"
  by (simp_all add: demo_cfg_def)

lemma demo_snapshot_reachable [simp]: "reachable (demo_snapshot st)"
  by (simp add: demo_snapshot_def default_snapshot_def)

lemma demo_history:
  "run_start (outage_history demo_cfg ''200'' (demo_obs @ [(demo_snapshot ''Unreachable'', 15000000)])) = Some 10000000"
  by code_simp

theorem unavailable_shown_iff_confirmed_witness:
  "''200'' \<in> snd (tracker_run demo_cfg (demo_obs @ [(demo_snapshot ''Unreachable'', 15000000)]))"
proof -
  have "sorted (map snd (demo_obs @ [(demo_snapshot ''Unreachable'', 15000000)]))"
    by (simp add: demo_obs_def)
  from unavailable_shown_iff_confirmed [OF this demo_snapshot_reachable, of "''200''" demo_cfg]
  show ?thesis by (simp only: demo_history demo_cfg_sel) simp
qed

text \<open>
  The occurrence id of a visible outage is a function of the time the outage began: it stays the
  same while the outage lasts and is present exactly while the Signal is visible, so relay and app
  copies of one outage collapse and a later outage gets its own id.
\<close>

theorem notification_id_names_outage_start:
  assumes "sorted (map snd obs)"
  shows "notification_ids (fst (tracker_run cfg obs)) ext =
    (case run_start (outage_history cfg ext obs) of None \<Rightarrow> None
     | Some t0 \<Rightarrow> if tr_outage_confirmation cfg \<le> snd (last (views cfg ext obs)) - t0
         then Some (outage_notification_id (tr_tz cfg) ext t0) else None)"
  by (rule notification_ids_eq [OF assms])

theorem notification_id_names_outage_start_witness:
  "notification_ids (fst (tracker_run demo_cfg (demo_obs @ [(demo_snapshot ''Unreachable'', 15000000)]))) ''200'' =
     Some (outage_notification_id id ''200'' 10000000)"
proof -
  have "sorted (map snd (demo_obs @ [(demo_snapshot ''Unreachable'', 15000000)]))"
    by (simp add: demo_obs_def)
  from notification_id_names_outage_start [OF this, of demo_cfg "''200''"] show ?thesis
    by (simp only: demo_history demo_cfg_sel) simp
qed

lemma views_recovery [simp]: "views (cfg\<lparr>tr_recovery_confirmation := r\<rparr>) ext obs = views cfg ext obs"
  by (simp add: views_def endpoint_view_def)

lemma outage_history_recovery [simp]:
  "outage_history (cfg\<lparr>tr_recovery_confirmation := r\<rparr>) ext obs = outage_history cfg ext obs"
  by (simp add: outage_history_def)

text \<open>
  The recovery confirmation period changes nothing that is shown: two trackers that differ only
  in it agree on every visible set and on every occurrence id. (The docstring of \<open>observe\<close> says that
  a short recovery does not arm another alert; the code lets any recovery end the episode.)
\<close>

theorem recovery_confirmation_unobservable:
  assumes "sorted (map snd obs)"
  shows "snd (tracker_run (cfg\<lparr>tr_recovery_confirmation := r\<rparr>) obs) = snd (tracker_run cfg obs) \<and>
    notification_ids (fst (tracker_run (cfg\<lparr>tr_recovery_confirmation := r\<rparr>) obs)) =
      notification_ids (fst (tracker_run cfg obs))"
proof
  show "notification_ids (fst (tracker_run (cfg\<lparr>tr_recovery_confirmation := r\<rparr>) obs)) =
      notification_ids (fst (tracker_run cfg obs))"
    by (rule HOL.ext) (simp add: notification_ids_eq [OF assms] split: option.split)
  show "snd (tracker_run (cfg\<lparr>tr_recovery_confirmation := r\<rparr>) obs) = snd (tracker_run cfg obs)"
  proof (cases obs rule: rev_cases)
    case Nil
    then show ?thesis by (simp add: tracker_run_def)
  next
    case (snoc os st)
    obtain snap now where st: "st = (snap, now)" by (cases st)
    show ?thesis
    proof (cases "reachable snap")
      case True
      have "sorted (map snd (os @ [(snap, now)]))" using assms by (simp add: snoc st)
      from visible_iff [OF this True] show ?thesis by (auto simp only: snoc st) simp_all
    next
      case False
      then show ?thesis by (simp add: snoc st tracker_observe_def)
    qed
  qed
qed

theorem recovery_confirmation_unobservable_witness:
  "snd (tracker_run (demo_cfg\<lparr>tr_recovery_confirmation := 3600000000\<rparr>) demo_obs) =
     snd (tracker_run demo_cfg demo_obs)"
proof -
  have "sorted (map snd demo_obs)" by (simp add: demo_obs_def)
  from recovery_confirmation_unobservable [OF this, where cfg = demo_cfg and r = 3600000000] show ?thesis by simp
qed

section \<open>EndpointAggregateTipTracker\<close>

definition unavailable_phones :: "ami_snapshot \<Rightarrow> nat" where
  "unavailable_phones snap = length (filter (\<lambda>e. \<not> is_trunk e \<and> endpoint_unavailable e) (endpoints snap))"

definition aggregate_observe :: "int \<Rightarrow> ami_snapshot \<Rightarrow> datetime \<Rightarrow> datetime option \<Rightarrow> datetime option \<times> bool" where
  "aggregate_observe delay snap now started =
    (if unavailable_phones snap < 2 then (None, False)
     else let s = opt_or started now in (Some s, now - s \<ge> delay))"

definition many_down :: "ami_snapshot \<Rightarrow> bool" where
  "many_down snap = (2 \<le> unavailable_phones snap)"

interpretation agg: confirmation "aggregate_observe delay" many_down None id "\<lambda>_. False" "\<lambda>_. True" delay
  for delay
  by unfold_locales (auto simp: aggregate_observe_def many_down_def Let_def)

text \<open>
  The multi-phone tip is shown exactly when at least two phones have been unavailable in every
  snapshot since some time and the delay has passed since then. (An unreachable snapshot lists no
  phones, so it restarts the wait.)
\<close>

theorem aggregate_tip_iff_sustained:
  assumes "sorted (map snd (obs @ [(snap, now)]))"
  shows "snd (feed (aggregate_observe delay) None (obs @ [(snap, now)])) \<longleftrightarrow>
    (\<exists>t0. run_start (cond_history many_down (obs @ [(snap, now)])) = Some t0 \<and> delay \<le> now - t0)"
  by (rule agg.confirmed_iff [OF assms])

definition two_down :: ami_snapshot where
  "two_down = default_snapshot\<lparr>endpoints :=
     [default_endpoint\<lparr>ep_extension := ''200'', device_state := ''Unavailable''\<rparr>,
      default_endpoint\<lparr>ep_extension := ''201'', device_state := ''rejected''\<rparr>]\<rparr>"

theorem aggregate_tip_iff_sustained_witness:
  "snd (feed (aggregate_observe 180000000) None ([(two_down, 0)] @ [(two_down, 180000000)]))"
proof -
  have s: "sorted (map snd ([(two_down, 0::datetime)] @ [(two_down, 180000000)]))" by simp
  have "run_start (cond_history many_down ([(two_down, 0)] @ [(two_down, 180000000)])) = Some 0"
    by code_simp
  then show ?thesis by (simp only: aggregate_tip_iff_sustained [OF s]) simp
qed

section \<open>EndpointLastActiveTracker\<close>

text \<open>\<open>saved\<close> is the content of the JSON file; a save that fails with an \<open>OSError\<close> leaves it as it
  was (\<open>save_ok\<close> is whether the write succeeds).\<close>

record last_active_state =
  la_last_active :: "string \<rightharpoonup> datetime"
  la_was_available :: "string \<rightharpoonup> bool"
  la_saved :: "string \<rightharpoonup> datetime"

definition last_active_step :: "datetime \<Rightarrow> last_active_state \<times> bool \<Rightarrow> ami_endpoint \<Rightarrow> last_active_state \<times> bool" where
  "last_active_step now acc e =
    (let (s, changed) = acc in
     if is_trunk e then (s, changed)
     else let x = ep_extension e; available = (\<not> endpoint_unavailable e);
              s1 = (if available then s\<lparr>la_last_active := (la_last_active s)(x \<mapsto> now)\<rparr> else s);
              changed1 = (if available then changed
                          else if la_was_available s x = Some True then True else changed)
          in (s1\<lparr>la_was_available := (la_was_available s1)(x \<mapsto> available)\<rparr>, changed1))"

definition last_active_observe :: "bool \<Rightarrow> ami_snapshot \<Rightarrow> datetime \<Rightarrow> last_active_state \<Rightarrow>
    last_active_state \<times> (string \<rightharpoonup> datetime)" where
  "last_active_observe save_ok snap now s =
    (if \<not> reachable snap then (s, la_last_active s)
     else let (s1, changed) = foldl (last_active_step now) (s, False) (endpoints snap);
              s2 = (if changed \<and> save_ok then s1\<lparr>la_saved := la_last_active s1\<rparr> else s1)
          in (s2, la_last_active s2))"

lemma last_active_changed_mono: "c \<Longrightarrow> snd (foldl (last_active_step now) (s, c) es)"
  by (induction es rule: rev_induct)
    (auto simp: last_active_step_def Let_def split: prod.splits)

lemma last_active_was_frame:
  "(\<forall>e \<in> set es. is_trunk e \<or> ep_extension e \<noteq> x) \<Longrightarrow>
    la_was_available (fst (foldl (last_active_step now) (s, c) es)) x = la_was_available s x"
  by (induction es rule: rev_induct)
    (auto simp: last_active_step_def Let_def split: prod.splits)

lemma last_active_changed:
  assumes "la_was_available s (ep_extension e) = Some True" and "\<not> is_trunk e" "endpoint_unavailable e"
    and "\<forall>d \<in> set ys. is_trunk d \<or> ep_extension d \<noteq> ep_extension e"
  shows "snd (foldl (last_active_step now) (s, c) (ys @ e # zs))"
proof -
  obtain s1 c1 where sc: "foldl (last_active_step now) (s, c) ys = (s1, c1)"
    by (cases "foldl (last_active_step now) (s, c) ys")
  have "la_was_available s1 (ep_extension e) = Some True"
    using last_active_was_frame [OF assms(4), of now s c] assms(1) by (simp add: sc)
  then have "snd (last_active_step now (s1, c1) e)"
    using assms(2,3) by (simp add: last_active_step_def Let_def)
  then have "snd (foldl (last_active_step now) (last_active_step now (s1, c1) e) zs)"
    using last_active_changed_mono [of True now "fst (last_active_step now (s1, c1) e)" zs]
    by (cases "last_active_step now (s1, c1) e") simp
  then show ?thesis by (simp add: sc)
qed

lemma last_active_fold:
  "la_last_active (fst (foldl (last_active_step now) (s, c) es)) x =
     (if \<exists>e \<in> set es. \<not> is_trunk e \<and> ep_extension e = x \<and> \<not> endpoint_unavailable e then Some now
      else la_last_active s x)"
  by (induction es rule: rev_induct)
    (auto simp: last_active_step_def Let_def split: prod.splits)

definition healthy_times :: "string \<Rightarrow> (ami_snapshot \<times> datetime) list \<Rightarrow> datetime list" where
  "healthy_times x obs = map snd (filter (\<lambda>st. reachable (fst st) \<and>
     (\<exists>e \<in> set (endpoints (fst st)). \<not> is_trunk e \<and> ep_extension e = x \<and> \<not> endpoint_unavailable e)) obs)"

definition last_active_run :: "bool \<Rightarrow> last_active_state \<Rightarrow> (ami_snapshot \<times> datetime) list \<Rightarrow> last_active_state" where
  "last_active_run save_ok s obs = foldl (\<lambda>s st. fst (last_active_observe save_ok (fst st) (snd st) s)) s obs"

lemma last_active_observe_last:
  "la_last_active (fst (last_active_observe save_ok snap now s)) x =
    (if reachable snap \<and> (\<exists>e \<in> set (endpoints snap). \<not> is_trunk e \<and> ep_extension e = x \<and> \<not> endpoint_unavailable e)
     then Some now else la_last_active s x)"
  using last_active_fold [of now s False "endpoints snap" x]
  by (auto simp: last_active_observe_def Let_def split: prod.splits)

text \<open>
  After any history, the last-active time of an extension is the time of the last reachable
  snapshot that listed it as an available phone; when there was none, it is what the file held at
  start-up.
\<close>

theorem last_active_is_last_healthy_observation:
  "la_last_active (last_active_run save_ok s obs) x =
    (if healthy_times x obs = [] then la_last_active s x else Some (last (healthy_times x obs)))"
proof (induction obs rule: rev_induct)
  case Nil
  show ?case by (simp add: last_active_run_def healthy_times_def)
next
  case (snoc st obs)
  obtain snap now where st: "st = (snap, now)" by (cases st)
  have "la_last_active (last_active_run save_ok s (obs @ [(snap, now)])) x =
      la_last_active (fst (last_active_observe save_ok snap now (last_active_run save_ok s obs))) x"
    by (simp add: last_active_run_def)
  then show ?case
    by (simp add: st last_active_observe_last snoc.IH healthy_times_def)
qed

text \<open>
  When a phone that was available in the previous reachable snapshot is reported unavailable,
  the tracker writes the file, and the file then holds exactly the tracker's last-active times (each
  phone being listed once).
\<close>

theorem outage_persists_last_active:
  assumes "reachable snap" "e \<in> set (endpoints snap)" "\<not> is_trunk e" "endpoint_unavailable e"
    and "la_was_available s (ep_extension e) = Some True"
    and "distinct (map ep_extension (filter (\<lambda>e. \<not> is_trunk e) (endpoints snap)))"
  shows "la_saved (fst (last_active_observe True snap now s)) = la_last_active (fst (last_active_observe True snap now s))"
proof -
  obtain ys zs where es: "endpoints snap = ys @ e # zs"
    using assms(2) by (auto dest: split_list)
  have "\<forall>d \<in> set ys. is_trunk d \<or> ep_extension d \<noteq> ep_extension e"
    using assms(3,6) by (auto simp: es image_iff)
  from last_active_changed [OF assms(5,3,4) this, of now False zs] assms(1)
  show ?thesis by (auto simp: last_active_observe_def Let_def es split: prod.splits)
qed

theorem outage_persists_last_active_witness:
  "la_saved (fst (last_active_observe True (demo_snapshot ''Offline'') 7
      \<lparr>la_last_active = [''200'' \<mapsto> 3], la_was_available = [''200'' \<mapsto> True], la_saved = Map.empty\<rparr>)) ''200'' = Some 3"
proof -
  let ?e = "default_endpoint\<lparr>ep_extension := ''200'', device_state := ''Offline''\<rparr>"
  let ?s = "\<lparr>la_last_active = [''200'' \<mapsto> 3], la_was_available = [''200'' \<mapsto> True], la_saved = Map.empty\<rparr>"
  have eps: "endpoints (demo_snapshot ''Offline'') = [?e]" by (simp add: demo_snapshot_def)
  have un: "endpoint_unavailable ?e" by code_simp
  have nt: "\<not> is_trunk ?e" by code_simp
  have "la_saved (fst (last_active_observe True (demo_snapshot ''Offline'') 7 ?s)) =
      la_last_active (fst (last_active_observe True (demo_snapshot ''Offline'') 7 ?s))"
    by (rule outage_persists_last_active [of _ ?e]) (simp_all add: eps un nt)
  then show ?thesis by (simp add: last_active_observe_last eps un)
qed

end
