(* ===== verification/EngineText.thy ===== *)
theory EngineText
  imports PulseText
begin

text \<open>
  The helpers of \<open>pbxsense_agent/engine.py\<close>: attempt keys, missed-call targets, trunk names, and
  the statistics over dated calls. Regular expressions are written as the scanners they denote.
  \<open>tz\<close> gives a wall-clock time's distance from the Unix epoch in microseconds.
\<close>

section \<open>Names and states\<close>

text \<open>The engine keeps its own, narrower versions of two helpers of the Home pipeline.\<close>

definition engine_extension_name :: "string \<Rightarrow> string pydict \<Rightarrow> string \<Rightarrow> string" where
  "engine_extension_name ext names observed_label =
    (if observed_label \<noteq> [] \<and> lower (strip observed_label) \<noteq> lower (strip ext) then observed_label
     else dget names ext ext)"

definition engine_endpoint_unavailable :: "ami_endpoint \<Rightarrow> bool" where
  "engine_endpoint_unavailable e = (let st = lower (device_state e) in
     contains ''unavailable'' st \<or> contains ''unreachable'' st)"

definition percent :: "rat \<Rightarrow> string" where
  "percent v = show_int (round_half_even (fl (v * 100))) @ ''%''"

definition person_endpoint_labels :: "ami_endpoint list \<Rightarrow> string pydict" where
  "person_endpoint_labels eps = foldl (\<lambda>d e. AList.update (ep_extension e) (ep_label e) d) []
     (filter (\<lambda>e. \<not> is_trunk e \<and> ep_extension e \<noteq> []) eps)"

definition engine_signal :: "string \<Rightarrow> string \<Rightarrow> string \<Rightarrow> string \<Rightarrow> string \<Rightarrow> string list \<Rightarrow>
    string pydict \<Rightarrow> string \<Rightarrow> signal" where
  "engine_signal cat ident k ttl bdy ws tech lbl =
     mk_signal (''sig_'' @ cat @ ''_'' @ ident) k cat ''feed'' ttl bdy lbl ws tech"

section \<open>Call attempts\<close>

definition is_queue_call :: "cdr_call \<Rightarrow> bool" where
  "is_queue_call c = contains ''queue'' (lower (join '' '' [cdr_context c, last_app c, last_data c]))"

definition call_attempt_key :: "(datetime \<Rightarrow> int) \<Rightarrow> cdr_call \<Rightarrow> string \<times> string" where
  "call_attempt_key tz c = (let src = lower (strip (source c)) in
     case started_at c of
       None \<Rightarrow> (src, join ''|'' [lower (strip (destination c)), lower (strip (cdr_channel c)),
          lower (strip (destination_channel c)), lower (strip (last_data c)), show_int (duration_seconds c)])
     | Some t \<Rightarrow> (src, show_int (ts_seconds (tz t) div 10)))"

definition missed_calls :: "cdr_call list \<Rightarrow> cdr_call list" where
  "missed_calls cs = filter (\<lambda>c. interpreted_call_kind c = ''missed'') cs"

definition missed_count :: "(datetime \<Rightarrow> int) \<Rightarrow> cdr_call list \<Rightarrow> nat" where
  "missed_count tz cs = length (remdups (map (call_attempt_key tz) (missed_calls cs)))"

section \<open>Targets of a missed call\<close>

definition channel_targets :: "string \<Rightarrow> string pydict \<Rightarrow> string list" where
  "channel_targets v labels = (let e = endpoint_from_channel v in
     if e \<noteq> [] \<and> map_of labels e \<noteq> None then [e] else [])"

text \<open>\<open>re.finditer("(?:PJSIP|SIP|IAX2|DAHDI)/([^,&|/)-]+)")\<close>: the non-overlapping matches from left
  to right. No alternative is a prefix of another, so at most one of them starts at a position.\<close>

definition after_prefix :: "string list \<Rightarrow> string \<Rightarrow> string option" where
  "after_prefix ps s = map_option (\<lambda>p. drop (length p) s) (find (\<lambda>p. prefix p s) ps)"

definition dial_technologies :: "string list" where
  "dial_technologies = [''PJSIP/'', ''SIP/'', ''IAX2/'', ''DAHDI/'']"

definition dial_char :: "char \<Rightarrow> bool" where
  "dial_char c = (c \<notin> set '',&|/)-'')"

lemma after_prefix_length: "after_prefix ps s = Some r \<Longrightarrow> length r \<le> length s"
  by (auto simp: after_prefix_def)

function dial_matches :: "string \<Rightarrow> string list" where
  "dial_matches [] = []"
| "dial_matches (c # cs) = (case after_prefix dial_technologies (c # cs) of
     None \<Rightarrow> dial_matches cs
   | Some r \<Rightarrow> (case r of [] \<Rightarrow> dial_matches cs
       | x # xs \<Rightarrow> if dial_char x then (x # takeWhile dial_char xs) # dial_matches (dropWhile dial_char xs)
           else dial_matches cs))"
  by pat_completeness auto
termination
proof (relation "measure length", goal_cases)
  case (4 c cs r x xs)
  from after_prefix_length [OF 4(1)] 4(2) have "length xs \<le> length cs" by simp
  with length_dropWhile_le [of dial_char xs] show ?case by simp
qed auto

definition dial_targets :: "string \<Rightarrow> string pydict \<Rightarrow> string list" where
  "dial_targets v labels = filter (\<lambda>e. map_of labels e \<noteq> None) (map strip (dial_matches v))"

text \<open>The loop with the \<open>seen\<close> set keeps the first occurrence of each target.\<close>

definition missed_call_targets :: "cdr_call \<Rightarrow> string pydict \<Rightarrow> string list" where
  "missed_call_targets c labels = first_keys (\<lambda>x. x)
     ((if map_of labels (destination c) \<noteq> None then [destination c] else [])
      @ channel_targets (destination_channel c) labels @ dial_targets (last_data c) labels)"

section \<open>Trunk names\<close>

text \<open>\<open>re.search("(?:PJSIP|SIP|IAX2)/([^/-]+)", value, re.IGNORECASE)\<close>, group 1.\<close>

definition trunk_char :: "char \<Rightarrow> bool" where
  "trunk_char c = (c \<notin> set ''/-'')"

fun trunk_match :: "string \<Rightarrow> string option" where
  "trunk_match [] = None"
| "trunk_match (c # cs) =
    (case find (\<lambda>p. prefix p (lower (take (length p) (c # cs)))) [''pjsip/'', ''sip/'', ''iax2/''] of
       None \<Rightarrow> trunk_match cs
     | Some p \<Rightarrow> (let g = takeWhile trunk_char (drop (length p) (c # cs)) in
         if g = [] then trunk_match cs else Some g))"

definition trunk_of_channel :: "string \<Rightarrow> string option" where
  "trunk_of_channel v = (case trunk_match v of None \<Rightarrow> None
     | Some g \<Rightarrow> if str_isdigit g then None else Some g)"

definition trunk_from_call :: "cdr_call \<Rightarrow> string" where
  "trunk_from_call c = (case trunk_of_channel (cdr_channel c) of Some g \<Rightarrow> g
     | None \<Rightarrow> opt_or (trunk_of_channel (destination_channel c)) [])"

text \<open>\<open>re.sub("[^a-z0-9]", "", value.lower())\<close>\<close>

definition squash :: "string \<Rightarrow> string" where
  "squash v = filter (\<lambda>c. (CHR ''a'' \<le> c \<and> c \<le> CHR ''z'') \<or> (CHR ''0'' \<le> c \<and> c \<le> CHR ''9'')) (lower v)"

definition trunk_name_for_context :: "string \<Rightarrow> ami_endpoint list \<Rightarrow> string pydict \<Rightarrow> string option" where
  "trunk_name_for_context ctx eps names =
    (let normalized = squash ctx in
     if \<not> prefix ''from'' normalized then None
     else let suf = drop 4 normalized in
       if suf = [] \<or> suf = ''internal'' then None
       else map_option (\<lambda>e. engine_extension_name (ep_extension e) names (ep_label e))
         (find (\<lambda>e. is_trunk e \<and> list_ex (\<lambda>cand. suf = cand \<or> (3 \<le> length suf \<and> contains suf cand))
              (map squash (filter (\<lambda>v. v \<noteq> [])
                [ep_extension e, ep_label e, dget names (ep_extension e) []]))) eps))"

definition trunk_display_for_call :: "cdr_call \<Rightarrow> ami_endpoint list \<Rightarrow> string pydict \<Rightarrow> string" where
  "trunk_display_for_call c eps names =
    (let trunk = trunk_from_call c in
     if trunk = [] then opt_or (trunk_name_for_context (cdr_context c) eps names) []
     else case find (\<lambda>e. is_trunk e \<and> lower (ep_extension e) = lower trunk) eps of
         Some e \<Rightarrow> engine_extension_name (ep_extension e) names (ep_label e)
       | None \<Rightarrow> trunk)"

text \<open>\<open>re.sub("\s+(?:sip\s+)?trunk$", "", name, flags=re.IGNORECASE)\<close>: from the leftmost white space
  after which only the suffix follows; \<open>$\<close> also matches before a final newline.\<close>

definition trunk_word_end :: "string \<Rightarrow> string option" where
  "trunk_word_end s = (if lower (take 5 s) = ''trunk'' \<and> drop 5 s \<in> {[], [CHR 0x0A]}
     then Some (drop 5 s) else None)"

definition trunk_suffix_end :: "string \<Rightarrow> string option" where
  "trunk_suffix_end s = (let r = dropWhile is_space s in
     case trunk_word_end r of Some e \<Rightarrow> Some e
     | None \<Rightarrow> if lower (take 3 r) = ''sip'' \<and> drop 3 r \<noteq> [] \<and> is_space (hd (drop 3 r))
         then trunk_word_end (dropWhile is_space (drop 3 r)) else None)"

fun strip_trunk_suffix :: "string \<Rightarrow> string" where
  "strip_trunk_suffix [] = []"
| "strip_trunk_suffix (c # cs) = (if is_space c then
     (case trunk_suffix_end cs of Some e \<Rightarrow> e | None \<Rightarrow> c # strip_trunk_suffix cs)
   else c # strip_trunk_suffix cs)"

definition short_trunk_name :: "string \<Rightarrow> string" where
  "short_trunk_name name = or_str (strip (strip_trunk_suffix name)) name"

section \<open>Statistics over calls\<close>

definition dated_calls :: "cdr_call list \<Rightarrow> (cdr_call \<times> datetime) list" where
  "dated_calls cs = List.map_filter (\<lambda>c. map_option (\<lambda>t. (c, t)) (started_at c)) cs"

definition call_dates :: "(cdr_call \<times> datetime) list \<Rightarrow> int list" where
  "call_dates ds = map (\<lambda>ct. date_of (snd ct)) ds"

definition history_days :: "(cdr_call \<times> datetime) list \<Rightarrow> nat" where
  "history_days ds = length (remdups (call_dates ds))"

definition history_window :: "cdr_call list \<Rightarrow> datetime \<Rightarrow> string" where
  "history_window cs now = (case map snd (dated_calls cs) of
     [] \<Rightarrow> ''recent history''
   | t # ts \<Rightarrow> (let elapsed = now - foldl min t ts; days = elapsed div day_us in
       if days > 0 then show_int (days + 1) @ '' days''
       else let hours = max 1 (elapsed mod day_us div hour_us) in
         ''about '' @ show_int hours @ '' hour'' @ (if hours \<noteq> 1 then ''s'' else [])))"

definition same_weekday_counts :: "(cdr_call \<times> datetime) list \<Rightarrow> datetime \<Rightarrow> nat list" where
  "same_weekday_counts ds now = (let today = date_of now in
     map snd (counter (filter (\<lambda>d. d \<noteq> today \<and> weekday d = weekday today) (call_dates ds))))"

definition busiest_hour :: "(cdr_call \<times> datetime) list \<Rightarrow> (int \<times> nat) option" where
  "busiest_hour ds = (case first_max snd (counter (map (\<lambda>ct. hour_of (snd ct)) ds)) of
     None \<Rightarrow> None
   | Some (h, n) \<Rightarrow> if n < 4 then None else Some (h, n))"

text \<open>The two streak loops of \<open>_operational_moments\<close>: days are counted backwards while the day has
  calls and is good. A day without calls ends the loop, so it runs at most once per day of the
  history.\<close>

function streak :: "int list \<Rightarrow> (int \<Rightarrow> bool) \<Rightarrow> int \<Rightarrow> nat" where
  "streak dates good d = (if d \<in> set dates \<and> good d then Suc (streak dates good (d - 1)) else 0)"
  by pat_completeness auto
termination
proof (relation "measure (\<lambda>(dates, good, d). card {x \<in> set dates. x \<le> d})", goal_cases)
  case (2 dates good d)
  then have "{x \<in> set dates. x \<le> d - 1} \<subset> {x \<in> set dates. x \<le> d}" by auto
  then show ?case by (simp add: psubset_card_mono)
qed simp

declare streak.simps [simp del]

section \<open>Lemmas\<close>

lemma streak_iff:
  "streak dates good d = n \<longleftrightarrow>
    (\<forall>i. 0 \<le> i \<and> i < int n \<longrightarrow> d - i \<in> set dates \<and> good (d - i)) \<and>
    \<not> (d - int n \<in> set dates \<and> good (d - int n))"
proof (induction dates good d arbitrary: n rule: streak.induct)
  case (1 dates good d)
  let ?ok = "\<lambda>d. d \<in> set dates \<and> good d"
  show ?case
  proof (cases "?ok d")
    case False
    then show ?thesis
      by (cases n) (auto simp: streak.simps [of dates good d] intro!: exI [of _ 0])
  next
    case True
    show ?thesis
    proof (cases n)
      case 0
      with True show ?thesis by (simp add: streak.simps [of dates good d])
    next
      case (Suc m)
      have shift: "(\<forall>i. 0 \<le> i \<and> i < int (Suc m) \<longrightarrow> ?ok (d - i)) \<longleftrightarrow>
          (\<forall>i. 0 \<le> i \<and> i < int m \<longrightarrow> ?ok (d - 1 - i))"
      proof
        assume a: "\<forall>i. 0 \<le> i \<and> i < int (Suc m) \<longrightarrow> ?ok (d - i)"
        show "\<forall>i. 0 \<le> i \<and> i < int m \<longrightarrow> ?ok (d - 1 - i)"
        proof (intro allI impI)
          fix i assume "0 \<le> i \<and> i < int m"
          with a [rule_format, of "i + 1"] show "?ok (d - 1 - i)" by (simp add: algebra_simps)
        qed
      next
        assume a: "\<forall>i. 0 \<le> i \<and> i < int m \<longrightarrow> ?ok (d - 1 - i)"
        show "\<forall>i. 0 \<le> i \<and> i < int (Suc m) \<longrightarrow> ?ok (d - i)"
        proof (intro allI impI)
          fix i assume "0 \<le> i \<and> i < int (Suc m)"
          with a [rule_format, of "i - 1"] True show "?ok (d - i)" by (cases "i = 0") auto
        qed
      qed
      from True "1.IH" [OF True, of m] show ?thesis
        unfolding Suc shift by (simp add: streak.simps [of dates good d] algebra_simps)
    qed
  qed
qed

lemma missed_count_card: "missed_count tz cs = card (call_attempt_key tz ` set (missed_calls cs))"
  by (simp add: missed_count_def length_remdups_card_conv)

lemma missed_count_le: "missed_count tz cs \<le> length (missed_calls cs)"
  by (metis length_map length_remdups_leq missed_count_def)

lemma missed_count_0_iff: "missed_count tz cs = 0 \<longleftrightarrow> missed_calls cs = []"
  by (simp add: missed_count_def)

end
