(* ===== verification/Engine.thy ===== *)
theory Engine
  imports EngineText
begin

text \<open>
  \<open>build_engine_signals\<close> of \<open>pbxsense_agent/engine.py\<close>: the recommendations, insights, moments and
  security Signals derived from one snapshot and the local call history.
\<close>

section \<open>Recommendations\<close>

definition missed_pairs :: "(datetime \<Rightarrow> int) \<Rightarrow> string pydict \<Rightarrow> cdr_call list \<Rightarrow>
    (string \<times> (string \<times> string)) list" where
  "missed_pairs tz labels cs = concat (map (\<lambda>c. map (\<lambda>d. (d, call_attempt_key tz c))
     (missed_call_targets c labels)) (missed_calls cs))"

text \<open>\<open>by_destination\<close>: each destination with the set of its attempt keys, written without repetition.\<close>

definition missed_by_destination :: "(datetime \<Rightarrow> int) \<Rightarrow> string pydict \<Rightarrow> cdr_call list \<Rightarrow>
    (string \<times> (string \<times> string) list) list" where
  "missed_by_destination tz labels cs =
     map (\<lambda>(d, ps). (d, remdups (map snd ps))) (group_by fst (missed_pairs tz labels cs))"

definition missed_signal :: "string pydict \<Rightarrow> string pydict \<Rightarrow> string \<Rightarrow> string \<times> (string \<times> string) list \<Rightarrow> signal" where
  "missed_signal labels names window item =
    (let (d, attempts) = item; count = show_nat (length attempts) in
     mk_signal (''sig_tip_missed_'' @ safe_id d) ''missed_call_pattern'' ''recommendation'' ''attention''
       (engine_extension_name d names (dget labels d []) @ '' missed '' @ count @ '' recent calls.'')
       ''It may be worth checking coverage for this phone.'' ''Today''
       [''PBXSense found '' @ count @ '' recent calls that did not connect.'',
        ''The calls point to the same destination.'']
       [(''extension'', d), (''missed_calls'', count), (''window'', window)])"

definition ranked_destinations :: "(datetime \<Rightarrow> int) \<Rightarrow> string pydict \<Rightarrow> cdr_call list \<Rightarrow>
    (string \<times> (string \<times> string) list) list" where
  "ranked_destinations tz labels cs = sort_desc (\<lambda>item. length (snd item)) (missed_by_destination tz labels cs)"

definition missed_call_recommendations :: "(datetime \<Rightarrow> int) \<Rightarrow> ami_endpoint list \<Rightarrow> cdr_call list \<Rightarrow>
    string pydict \<Rightarrow> datetime \<Rightarrow> signal list" where
  "missed_call_recommendations tz eps cs names now =
    (let labels = person_endpoint_labels eps in
     map (missed_signal labels names (history_window cs now))
       (filter (\<lambda>item. 2 \<le> length (snd item)) (take 3 (ranked_destinations tz labels cs))))"

definition missed_rate_recommendations :: "(datetime \<Rightarrow> int) \<Rightarrow> cdr_call list \<Rightarrow> datetime \<Rightarrow> signal list" where
  "missed_rate_recommendations tz cs now =
    (let dated = dated_calls cs in
     if length dated < 20 \<or> history_days dated < 7 then []
     else
       let today = date_of now;
           today_calls = filter (\<lambda>ct. date_of (snd ct) = today) dated;
           previous_calls = filter (\<lambda>ct. date_of (snd ct) \<noteq> today) dated
       in if length today_calls < 5 \<or> length previous_calls < 10 then []
         else
           let today_missed = missed_count tz (map fst today_calls);
               previous_missed = missed_count tz (map fst previous_calls);
               today_rate = int_div_fl (int today_missed) (int (length today_calls));
               baseline_rate = int_div_fl (int previous_missed) (int (length previous_calls))
           in if today_missed < 3 \<or> today_rate < fl (baseline_rate + fl (2 / 10)) then []
             else [mk_signal ''sig_tip_missed_rate_higher_today'' ''missed_rate_pattern'' ''recommendation''
               ''attention'' ''Missed calls are higher than usual today.''
               ''It may be worth checking coverage before the day gets busier.'' ''Today''
               [''Today missed-call rate is '' @ percent today_rate @ ''.'',
                ''The recent baseline is about '' @ percent baseline_rate @ ''.'']
               [(''today_calls'', show_nat (length today_calls)),
                (''today_missed_calls'', show_nat today_missed),
                (''today_missed_rate'', percent today_rate),
                (''baseline_missed_rate'', percent baseline_rate),
                (''comparison_window'', show_nat (history_days previous_calls) @ '' prior days'')]])"

definition unavailable_persons :: "ami_endpoint list \<Rightarrow> ami_endpoint list" where
  "unavailable_persons eps = filter (\<lambda>e. \<not> is_trunk e \<and> engine_endpoint_unavailable e) eps"

definition endpoint_recommendations :: "ami_endpoint list \<Rightarrow> string pydict \<Rightarrow> signal list" where
  "endpoint_recommendations eps names =
    (let unavailable = unavailable_persons eps; n = show_nat (length unavailable) in
     if length unavailable < 2 then []
     else [mk_signal ''sig_tip_multiple_endpoints_unavailable'' ''endpoint_unavailable_pattern''
       ''recommendation'' ''attention'' (n @ '' phones look unavailable.'')
       ''This may be a network, power, or registration issue rather than one phone.'' ''Just now''
       [''AMI reported more than one extension as unavailable.'',
        ''PBXSense groups related endpoint trouble before suggesting action.'']
       [(''extensions'', join '', '' (map ep_extension unavailable)),
        (''phones'', join '', '' (map (\<lambda>e. engine_extension_name (ep_extension e) names (ep_label e)) unavailable)),
        (''unavailable_count'', n)]])"

section \<open>Insights from the call history\<close>

definition kind_count :: "string \<Rightarrow> cdr_call list \<Rightarrow> nat" where
  "kind_count k cs = length (filter (\<lambda>c. interpreted_call_kind c = k) cs)"

definition call_mix_text :: "nat \<Rightarrow> nat \<Rightarrow> nat \<Rightarrow> nat \<Rightarrow> string \<times> string" where
  "call_mix_text answered missed ivr_reached vms =
    (if answered = 0 \<and> missed = 0 \<and> ivr_reached > 0 \<and> vms = 0 then
       (''Recent callers reached the IVR.'',
        ''PBXSense saw callers reach the PBX menu without human missed-call pressure.'')
     else if missed = 0 \<and> vms = 0 then
       (''Recent calls are being handled cleanly.'',
        ''PBXSense did not find missed calls or voicemail pressure in the latest history.'')
     else if missed > answered then
       (''Missed calls are higher than answered calls.'',
        ''Recent call history may deserve a quick look.'')
     else if vms > 0 then
       (''Voicemail is part of today's call flow.'',
        ''PBXSense found recent voicemail activity alongside call history.'')
     else (''Recent call flow looks balanced.'',
        ''Answered and missed calls are both visible, without a strong pattern yet.''))"

definition call_mix_insights :: "(datetime \<Rightarrow> int) \<Rightarrow> cdr_call list \<Rightarrow> voicemail_message list \<Rightarrow>
    datetime \<Rightarrow> signal list" where
  "call_mix_insights tz cs vms now =
    (if cs = [] \<and> vms = [] then []
     else
       let answered = kind_count ''answered'' cs; missed = missed_count tz cs;
           ivr_reached = kind_count ''ivr_reached'' cs; voicemail_count = length vms;
           (ttl, bdy) = call_mix_text answered missed ivr_reached voicemail_count
       in if answered + missed + ivr_reached + voicemail_count = 0 then []
         else [mk_signal ''sig_insight_call_mix'' ''call_mix_insight'' ''insight'' ''feed'' ttl bdy ''Today''
           [''PBXSense compared answered calls, missed calls, and voicemail activity.'',
            ''This is derived from recent call history visible to the Agent.'']
           [(''answered_calls'', show_nat answered), (''missed_calls'', show_nat missed),
            (''ivr_reached_calls'', show_nat ivr_reached), (''voicemails'', show_nat voicemail_count),
            (''comparison_window'', history_window cs now)]])"

definition weekday_insight :: "nat \<Rightarrow> nat list \<Rightarrow> signal list" where
  "weekday_insight today_count counts =
    (let baseline = int_div_fl (int (sum_list counts)) (int (length counts));
         avg = show_fixed 1 baseline;
         ws = [''Today has '' @ show_nat today_count @ '' visible call(s).'',
               ''Recent matching weekdays average about '' @ avg @ '' call(s).''];
         tech = [(''today_calls'', show_nat today_count), (''weekday_average'', avg),
                 (''comparison_window'', show_nat (length counts) @ '' matching weekdays'')]
     in if of_nat today_count \<ge> max 6 (fl (baseline * fl (15 / 10))) then
          [mk_signal ''sig_insight_weekday_busier'' ''weekday_volume_pattern'' ''insight'' ''feed''
             ''Today is busier than this weekday usually is.''
             ''PBXSense compared today with recent matching weekdays.'' ''Today'' ws tech]
        else if of_nat today_count \<le> max 1 (fl (baseline * fl (45 / 100))) \<and> baseline \<ge> 5 then
          [mk_signal ''sig_insight_weekday_quieter'' ''weekday_volume_pattern'' ''insight'' ''feed''
             ''Today is quieter than this weekday usually is.''
             ''PBXSense compared today with recent matching weekdays.'' ''Today'' ws tech]
        else [])"

definition busiest_hour_insight :: "(cdr_call \<times> datetime) list \<Rightarrow> signal list" where
  "busiest_hour_insight dated = (case busiest_hour dated of None \<Rightarrow> []
     | Some (h, n) \<Rightarrow> (let hh = show_02d h @ '':00'' in
        [mk_signal ''sig_insight_busiest_hour'' ''busy_hour_pattern'' ''insight'' ''feed''
          (''Calls tend to cluster around '' @ hh @ ''.'')
          ''This is the busiest hour in the visible call history.'' ''This month''
          [''PBXSense found '' @ show_nat n @ '' call(s) around '' @ hh @ ''.'',
           ''This came from the local call history visible to the Agent.'']
          [(''hour'', hh), (''calls_in_hour'', show_nat n),
           (''comparison_window'', show_nat (history_days dated) @ '' days'')]]))"

definition rhythm_insights :: "cdr_call list \<Rightarrow> datetime \<Rightarrow> signal list" where
  "rhythm_insights cs now =
    (let dated = dated_calls cs in
     if length dated < 20 \<or> history_days dated < 7 then []
     else
       let today_calls = filter (\<lambda>ct. date_of (snd ct) = date_of now) dated in
       if today_calls = [] then []
       else
         let counts = same_weekday_counts dated now in
         if length counts < 2 then []
         else take 2 (weekday_insight (length today_calls) counts @ busiest_hour_insight dated))"

text \<open>A missing measurement counts as 0.\<close>

definition measured_calls :: "cdr_call list \<Rightarrow> cdr_call list" where
  "measured_calls cs = filter (\<lambda>c. packet_loss_percent c \<noteq> None \<or> jitter_ms c \<noteq> None \<or> latency_ms c \<noteq> None) cs"

definition degraded_calls :: "cdr_call list \<Rightarrow> cdr_call list" where
  "degraded_calls cs = filter (\<lambda>c. opt_or (packet_loss_percent c) 0 \<ge> 2 \<or> opt_or (jitter_ms c) 0 \<ge> 30 \<or>
     opt_or (latency_ms c) 0 \<ge> 150) (measured_calls cs)"

definition worst :: "(cdr_call \<Rightarrow> rat option) \<Rightarrow> cdr_call list \<Rightarrow> rat" where
  "worst f cs = (case map (\<lambda>c. opt_or (f c) 0) cs of [] \<Rightarrow> 0 | x # xs \<Rightarrow> foldl max x xs)"

definition call_quality_insights :: "cdr_call list \<Rightarrow> signal list" where
  "call_quality_insights cs =
    (let measured = measured_calls cs; degraded = degraded_calls cs in
     if degraded = [] then []
     else [mk_signal ''sig_insight_cucm_call_quality'' ''call_quality_degradation'' ''insight'' ''attention''
       ''Recent calls show quality degradation.''
       ''CUCM diagnostic records found packet loss, jitter, or latency worth reviewing.'' ''Recent history''
       [show_nat (length degraded) @ '' of '' @ show_nat (length measured)
          @ '' calls with CMR evidence crossed a quality threshold.'',
        ''PBXSense checks for at least 2% packet loss, 30 ms jitter, or 150 ms latency.'']
       [(''degraded_calls'', show_nat (length degraded)), (''measured_calls'', show_nat (length measured)),
        (''worst_packet_loss_percent'', show_fixed 2 (worst packet_loss_percent degraded)),
        (''worst_jitter_ms'', show_fixed 1 (worst jitter_ms degraded)),
        (''worst_latency_ms'', show_fixed 1 (worst latency_ms degraded))]])"

section \<open>Operational insights\<close>

definition total_waiting :: "ami_queue list \<Rightarrow> int" where
  "total_waiting qs = sum_list (map (\<lambda>q. max 0 (waiting_callers q)) qs)"

definition total_available :: "ami_queue list \<Rightarrow> int" where
  "total_available qs = sum_list (map (\<lambda>q. max 0 (available_members q)) qs)"

definition queue_demand_insight :: "ami_queue list \<Rightarrow> signal list" where
  "queue_demand_insight qs =
    (let w = show_int (total_waiting qs); a = show_int (total_available qs) in
     if total_waiting qs > total_available qs then
       [engine_signal ''insight'' ''queue_demand_agents'' ''queue_demand_vs_agents''
          (w @ '' callers are waiting for '' @ a @ '' available queue agents.'')
          ''Queue demand is currently higher than available coverage.''
          [''The PBX reports '' @ w @ '' waiting caller(s) and '' @ a @ '' available agent(s).'']
          [(''waiting_callers'', w), (''available_agents'', a)] ''Now'']
     else [])"

definition abandonment_hours :: "(cdr_call \<times> datetime) list \<Rightarrow> (int \<times> nat) list" where
  "abandonment_hours dated = counter (map (\<lambda>p. snd (fst p)) (filter (\<lambda>p. 2 \<le> snd p)
     (counter (map (\<lambda>ct. (date_of (snd ct), hour_of (snd ct)))
       (filter (\<lambda>ct. interpreted_call_kind (fst ct) = ''missed'' \<and> is_queue_call (fst ct)) dated)))))"

definition abandonment_insight :: "(cdr_call \<times> datetime) list \<Rightarrow> signal list" where
  "abandonment_insight dated = (case first_max snd (abandonment_hours dated) of None \<Rightarrow> []
     | Some (h, days) \<Rightarrow> if days < 2 then [] else
         (let hh = show_02d h @ '':00'' in
          [engine_signal ''insight'' ''repeated_abandonment'' ''repeated_abandonment_period''
            (''Queue abandonments repeatedly cluster around '' @ hh @ ''.'')
            ''The same pressure period appears on multiple days.''
            [''At least two abandoned queue calls appeared in that hour on '' @ show_nat days @ '' days.'']
            [(''hour'', hh), (''matching_days'', show_nat days)] ''Recent history'']))"

definition after_hours_insight :: "(cdr_call \<times> datetime) list \<Rightarrow> signal list" where
  "after_hours_insight dated =
    (let after_hours = filter (\<lambda>ct. hour_of (snd ct) < 8 \<or> 18 \<le> hour_of (snd ct)) dated;
         n = show_nat (length after_hours); m = show_nat (length dated) in
     if length dated \<ge> 20 \<and> length after_hours \<ge> 5
        \<and> int_div_fl (int (length after_hours)) (int (length dated)) \<ge> fl (2 / 10)
     then [engine_signal ''insight'' ''after_hours_calls'' ''after_hours_call_pattern''
        ''A meaningful share of calls arrives after hours.''
        ''Coverage or routing outside the working day may deserve review.''
        [n @ '' of '' @ m @ '' visible calls were before 08:00 or after 18:00.'']
        [(''after_hours_calls'', n), (''visible_calls'', m)] ''Recent history'']
     else [])"

definition extension_insight :: "ami_endpoint list \<Rightarrow> string pydict \<Rightarrow> (cdr_call \<times> datetime) list \<Rightarrow> signal list" where
  "extension_insight eps names dated =
    (let ids = set (map ep_extension (filter (\<lambda>e. \<not> is_trunk e) eps));
         missed = filter (\<lambda>ct. interpreted_call_kind (fst ct) = ''missed'') dated
     in case first_max snd (counter (filter (\<lambda>d. d \<in> ids) (map (\<lambda>ct. destination (fst ct)) missed))) of
       None \<Rightarrow> []
     | Some (ext', count) \<Rightarrow>
         (let days = length (remdups (call_dates (filter (\<lambda>ct. destination (fst ct) = ext') missed))) in
          if count \<ge> 4 \<and> days \<ge> 2 then
            [engine_signal ''insight'' (''extension_availability_'' @ safe_id ext') ''recurring_extension_availability''
              (engine_extension_name ext' names [] @ '' has recurring availability pressure.'')
              ''Missed attempts to this extension recur across multiple days.''
              [''PBXSense found '' @ show_nat count @ '' missed attempts across '' @ show_nat days @ '' days.'']
              [(''extension'', ext'), (''missed_attempts'', show_nat count), (''days'', show_nat days)]
              ''Recent history'']
          else []))"

definition missed_trunks :: "ami_endpoint list \<Rightarrow> string pydict \<Rightarrow> (cdr_call \<times> datetime) list \<Rightarrow> string list" where
  "missed_trunks eps names dated = map short_trunk_name (List.map_filter (\<lambda>ct.
     if interpreted_call_kind (fst ct) = ''missed'' then
       (case trunk_name_for_context (cdr_context (fst ct)) eps names of
          Some n \<Rightarrow> if n = [] then None else Some n | None \<Rightarrow> None)
     else None) dated)"

definition trunk_missed_insight :: "ami_endpoint list \<Rightarrow> string pydict \<Rightarrow> (cdr_call \<times> datetime) list \<Rightarrow> signal list" where
  "trunk_missed_insight eps names dated =
    (if length (filter is_trunk eps) < 2 then []
     else
       let by_trunk = counter (missed_trunks eps names dated); total = sum_list (map snd by_trunk) in
       if total < 5 then []
       else case first_max snd by_trunk of None \<Rightarrow> []
         | Some (trunk, count) \<Rightarrow>
             if int_div_fl (int count) (int total) \<ge> fl (6 / 10) then
               [engine_signal ''insight'' (''trunk_missed_'' @ safe_id trunk) ''trunk_missed_call_load''
                 (trunk @ '' carries most of the visible missed-call load.'')
                 ''One of the configured SIP trunks accounts for a disproportionate share.''
                 [show_nat count @ '' of '' @ show_nat total
                    @ '' missed inbound calls were associated with this trunk.'']
                 [(''trunk'', trunk), (''missed_calls'', show_nat count),
                  (''total_trunk_missed_calls'', show_nat total)] ''Recent history'']
             else [])"

definition duration_insight :: "(cdr_call \<times> datetime) list \<Rightarrow> datetime \<Rightarrow> signal list" where
  "duration_insight dated now =
    (let answered = filter (\<lambda>ct. interpreted_call_kind (fst ct) = ''answered'') dated; today = date_of now;
         todays = map (duration_seconds o fst) (filter (\<lambda>ct. date_of (snd ct) = today) answered);
         priors = map (duration_seconds o fst) (filter (\<lambda>ct. date_of (snd ct) \<noteq> today \<and>
            weekday (date_of (snd ct)) = weekday today) answered)
     in if length todays < 5 \<or> length priors < 10 then []
       else
         let today_avg = int_div_fl (sum_list todays) (int (length todays));
             prior_avg = int_div_fl (sum_list priors) (int (length priors));
             ta = show_int (round_half_even today_avg); pa = show_int (round_half_even prior_avg)
         in if prior_avg \<ge> 10 \<and> (today_avg \<ge> fl (prior_avg * fl (14 / 10)) \<or> today_avg \<le> fl (prior_avg * fl (6 / 10)))
           then [engine_signal ''insight'' ''weekday_duration_change'' ''weekday_call_duration_change''
              (''Answered calls are '' @ (if today_avg > prior_avg then ''longer'' else ''shorter'')
                 @ '' than on matching weekdays.'')
              ''PBXSense compared average answered-call duration.''
              [''Today averages '' @ ta @ ''s versus '' @ pa @ ''s on matching weekdays.'']
              [(''today_average_seconds'', ta), (''weekday_average_seconds'', pa)] ''Today'']
           else [])"

definition trunk_share_insight :: "ami_endpoint list \<Rightarrow> string pydict \<Rightarrow> (cdr_call \<times> datetime) list \<Rightarrow> signal list" where
  "trunk_share_insight eps names dated =
    (let trunks = counter (filter (\<lambda>t. t \<noteq> []) (map (\<lambda>ct. trunk_display_for_call (fst ct) eps names) dated));
         total = sum_list (map snd trunks) in
     if total < 10 \<or> length trunks < 2 then []
     else case first_max snd trunks of None \<Rightarrow> []
       | Some (trunk, count) \<Rightarrow>
           (let share = int_div_fl (int count) (int total); p = show_int (round_half_even (fl (share * 100))) @ ''%'' in
            if share \<ge> fl (8 / 10) then
              [engine_signal ''insight'' ''trunk_distribution'' ''trunk_usage_distribution''
                (''Most visible calls rely on trunk '' @ trunk @ ''.'')
                ''Traffic is concentrated enough that failover readiness matters.''
                [''This trunk carried '' @ p @ '' of calls with identifiable trunks.'']
                [(''primary_trunk'', trunk), (''share'', p), (''identified_calls'', show_nat total)]
                ''Recent history'']
            else []))"

definition operational_insights :: "ami_endpoint list \<Rightarrow> ami_queue list \<Rightarrow> cdr_call list \<Rightarrow> string pydict \<Rightarrow>
    datetime \<Rightarrow> signal list" where
  "operational_insights eps qs cs names now =
    (let dated = dated_calls cs in
     queue_demand_insight qs @ abandonment_insight dated @ after_hours_insight dated
     @ extension_insight eps names dated @ trunk_missed_insight eps names dated
     @ duration_insight dated now @ trunk_share_insight eps names dated)"

section \<open>Moments\<close>

definition ceil_rat :: "rat \<Rightarrow> int" where
  "ceil_rat x = - \<lfloor>- x\<rfloor>"

definition volume_average :: "nat list \<Rightarrow> rat" where
  "volume_average baselines = int_div_fl (int (sum_list baselines)) (int (length baselines))"

definition volume_target :: "nat list \<Rightarrow> int" where
  "volume_target baselines = max 1 (ceil_rat (volume_average baselines))"

definition period_label :: "string \<Rightarrow> string" where
  "period_label p = (if p = ''daily'' then ''day'' else if p = ''weekly'' then ''week'' else ''month'')"

definition period_time_label :: "string \<Rightarrow> string" where
  "period_time_label p = (if p = ''daily'' then ''Today'' else if p = ''weekly'' then ''This week'' else ''This month'')"

definition average_volume_moment :: "string \<Rightarrow> nat \<Rightarrow> nat list \<Rightarrow> nat \<Rightarrow> signal list" where
  "average_volume_moment period current baselines samples =
    (let avg = show_fixed 1 (volume_average baselines); label = period_label period in
     if int current < volume_target baselines then []
     else [engine_signal ''moment'' (''adaptive_'' @ period @ ''_volume'') ''adaptive_call_volume_milestone''
       (''This '' @ label @ '' reached the PBX's usual call volume.'')
       (''The team answered '' @ show_nat current @ '' calls against a learned '' @ period
          @ '' average of about '' @ avg @ ''.'')
       [''The target adapts to this PBX using '' @ show_nat samples @ '' completed '' @ label @ ''(s).'']
       [(''period'', period), (''answered_calls'', show_nat current), (''average_answered_calls'', avg),
        (''adaptive_target'', show_int (volume_target baselines)), (''baseline_periods'', show_nat samples)]
       (period_time_label period)])"

definition answered_dates :: "cdr_call list \<Rightarrow> int list" where
  "answered_dates cs = call_dates (filter (\<lambda>ct. interpreted_call_kind (fst ct) = ''answered'') (dated_calls cs))"

text \<open>The weekly and the monthly loop: calls of the current period are counted apart; a past period is
  complete when its calls fall on at least \<open>need\<close> different days.\<close>

definition complete_periods :: "(int \<Rightarrow> int \<times> int) \<Rightarrow> nat \<Rightarrow> int \<times> int \<Rightarrow> int list \<Rightarrow> nat list" where
  "complete_periods period_of need current dates =
     map (\<lambda>(_, ds). length ds) (filter (\<lambda>(_, ds). need \<le> length (remdups ds))
       (group_by period_of (filter (\<lambda>d. period_of d \<noteq> current) dates)))"

definition month_period :: "int \<Rightarrow> int \<times> int" where
  "month_period d = (year_of d, month_of d)"

definition adaptive_volume_moments :: "cdr_call list \<Rightarrow> datetime \<Rightarrow> signal list" where
  "adaptive_volume_moments cs now =
    (let dates = answered_dates cs; today = date_of now;
         daily_counts = map snd (counter (filter (\<lambda>d. d \<noteq> today) dates));
         current_daily = length (filter (\<lambda>d. d = today) dates);
         complete_weeks = complete_periods iso_week 4 (iso_week today) dates;
         current_week = length (filter (\<lambda>d. iso_week d = iso_week today) dates);
         complete_months = complete_periods month_period 15 (month_period today) dates;
         current_month = length (filter (\<lambda>d. month_period d = month_period today) dates)
     in (if 3 \<le> length daily_counts
         then average_volume_moment ''daily'' current_daily daily_counts (length daily_counts) else [])
      @ (if 2 \<le> length complete_weeks
         then average_volume_moment ''weekly'' current_week complete_weeks (length complete_weeks) else [])
      @ (if 2 \<le> length complete_months
         then average_volume_moment ''monthly'' current_month complete_months (length complete_months) else []))"

definition first_answered_moment :: "cdr_call list \<Rightarrow> datetime \<Rightarrow> signal list" where
  "first_answered_moment cs now =
    (case sort_key snd (filter (\<lambda>ct. date_of (snd ct) = date_of now \<and>
        interpreted_call_kind (fst ct) = ''answered'') (dated_calls cs)) of
       [] \<Rightarrow> []
     | (c, t) # _ \<Rightarrow> [engine_signal ''moment'' ''first_answered_call'' ''first_answered_call_of_day''
         ''The first call of the day was answered.'' ''The day is under way with a connected caller.''
         [''The first visible answered call began at '' @ show_hm t @ ''.'']
         [(''answered_at'', show_hm t)] ''Today''])"

definition queues_target_moment :: "ami_queue list \<Rightarrow> datetime \<Rightarrow> signal list" where
  "queues_target_moment qs now =
    (if qs \<noteq> [] \<and> 17 \<le> hour_of now \<and>
        list_all (\<lambda>q. waiting_callers q = 0 \<and> longest_wait_seconds q \<le> 60) qs
     then [engine_signal ''moment'' ''queues_met_target'' ''queues_finished_within_target''
        ''All monitored queues finished within target.''
        ''No callers remain waiting and observed waits stayed within 60 seconds.''
        [''PBXSense checked '' @ show_nat (length qs) @ '' monitored queue(s) near the end of the day.'']
        [(''queues'', show_nat (length qs)), (''target_seconds'', ''60'')] ''Today'']
     else [])"

definition no_missed_moment :: "(datetime \<Rightarrow> int) \<Rightarrow> cdr_call list \<Rightarrow> datetime \<Rightarrow> signal list" where
  "no_missed_moment tz cs now =
    (let today_calls = filter (\<lambda>ct. date_of (snd ct) = date_of now) (dated_calls cs) in
     if 17 \<le> hour_of now \<and> today_calls \<noteq> [] \<and> missed_count tz (map fst today_calls) = 0
     then [engine_signal ''moment'' ''day_without_missed_calls'' ''full_day_without_missed_calls''
        ''The working day finished without a missed call.''
        ''Every visible call avoided a missed-call outcome.''
        [''PBXSense checked '' @ show_nat (length today_calls) @ '' call(s); a no-call day never qualifies.'']
        [(''visible_calls'', show_nat (length today_calls)), (''missed_calls'', ''0'')] ''Today'']
     else [])"

definition calls_on :: "cdr_call list \<Rightarrow> int \<Rightarrow> cdr_call list" where
  "calls_on cs d = map fst (opt_or (map_of (group_by (\<lambda>ct. date_of (snd ct)) (dated_calls cs)) d) [])"

definition clean_streak :: "(datetime \<Rightarrow> int) \<Rightarrow> cdr_call list \<Rightarrow> datetime \<Rightarrow> nat" where
  "clean_streak tz cs now =
     streak (call_dates (dated_calls cs)) (\<lambda>d. missed_count tz (calls_on cs d) = 0)
       (if hour_of now < 17 then date_of now - 1 else date_of now)"

definition voicemail_dates :: "voicemail_message list \<Rightarrow> int list" where
  "voicemail_dates vms = map date_of (List.map_filter created_at vms)"

definition voicemail_free_streak :: "cdr_call list \<Rightarrow> voicemail_message list \<Rightarrow> datetime \<Rightarrow> nat" where
  "voicemail_free_streak cs vms now =
     streak (call_dates (dated_calls cs)) (\<lambda>d. d \<notin> set (voicemail_dates vms)) (date_of now)"

definition streak_moments :: "(datetime \<Rightarrow> int) \<Rightarrow> cdr_call list \<Rightarrow> voicemail_message list \<Rightarrow> datetime \<Rightarrow> signal list" where
  "streak_moments tz cs vms now =
    (let n = clean_streak tz cs now; m = voicemail_free_streak cs vms now in
     (if n \<ge> 2 then [engine_signal ''moment'' ''clean_operating_streak'' ''clean_operating_day_streak''
        (''A '' @ show_nat n @ ''-day clean operating streak is growing.'')
        ''Each counted day had real call activity and no missed calls.''
        [''No-call days and incomplete working days are excluded.''] [(''streak_days'', show_nat n)] ''Today'']
      else [])
     @ (if m \<ge> 2 then [engine_signal ''moment'' ''voicemail_free_streak'' ''voicemail_free_service_streak''
        (''A '' @ show_nat m @ ''-day voicemail-free service streak is growing.'')
        ''Calls were visible without a new voicemail on each counted day.''
        [''The streak counts consecutive days represented in local call history.'']
        [(''streak_days'', show_nat m)] ''Today'']
      else []))"

definition operational_moments :: "(datetime \<Rightarrow> int) \<Rightarrow> ami_queue list \<Rightarrow> cdr_call list \<Rightarrow>
    voicemail_message list \<Rightarrow> datetime \<Rightarrow> signal list" where
  "operational_moments tz qs cs vms now =
     first_answered_moment cs now @ adaptive_volume_moments cs now @ queues_target_moment qs now
     @ no_missed_moment tz cs now @ streak_moments tz cs vms now"

section \<open>Security\<close>

definition security_cutoff :: "datetime \<Rightarrow> datetime" where
  "security_cutoff now = now - 15 * minute_us"

definition failed_calls :: "cdr_call list \<Rightarrow> datetime \<Rightarrow> cdr_call list" where
  "failed_calls cs now = filter (\<lambda>c. upper (disposition c) \<in> {''FAILED'', ''CONGESTION''} \<and>
     (case started_at c of None \<Rightarrow> False | Some t \<Rightarrow> security_cutoff now \<le> t)) cs"

definition recent_security_events :: "security_event list \<Rightarrow> datetime \<Rightarrow> security_event list" where
  "recent_security_events evs now = filter (\<lambda>e. case occurred_at e of None \<Rightarrow> False
     | Some t \<Rightarrow> security_cutoff now \<le> t) evs"

definition failed_call_signal :: "cdr_call list \<Rightarrow> datetime \<Rightarrow> signal list" where
  "failed_call_signal cs now =
    (let failed = failed_calls cs now; n = show_nat (length failed) in
     if length failed < 3 then []
     else [mk_signal ''sig_security_failed_call_cluster'' ''failed_call_cluster'' ''security'' ''attention''
       ''Several calls failed close together.''
       ''PBXSense grouped repeated failed call attempts for review.'' ''Today''
       [''PBXSense found '' @ n @ '' failed or congested recent calls.'',
        ''Repeated failures can point to routing, trunk, or unwanted call attempts.'']
       [(''attempts'', n), (''window'', ''15 minutes''),
        (''sources'', join '', '' (take 5 (sorted_set (filter (\<lambda>x. x \<noteq> []) (map source failed)))))]])"

text \<open>The three event clusters share the shape of their Signal.\<close>

definition event_cluster :: "string list \<Rightarrow> nat \<Rightarrow> string \<Rightarrow> string \<Rightarrow> string \<Rightarrow> string \<Rightarrow> string \<Rightarrow>
    security_event list \<Rightarrow> signal list" where
  "event_cluster kinds need ident k ttl bdy found recent =
    (let evs = filter (\<lambda>e. ev_kind e \<in> set kinds) recent; n = show_nat (length evs);
         services = join '', '' (take 3 (sorted_set (map ev_service evs))) in
     if length evs < need then []
     else [mk_signal ident k ''security'' ''attention'' ttl bdy ''Recent''
       [''PBXSense found '' @ n @ found,
        ''The Agent keeps only aggregate security evidence, not account names or addresses.'']
       [(''attempts'', n), (''services'', or_str services ''PBX''), (''window'', ''15 minutes'')]])"

definition security_signals :: "cdr_call list \<Rightarrow> security_event list \<Rightarrow> datetime \<Rightarrow> signal list" where
  "security_signals cs evs now =
    (let recent = recent_security_events evs now in
     failed_call_signal cs now
     @ event_cluster [''InvalidAccountID'', ''InvalidPassword'', ''ChallengeResponseFailed''] 3
         ''sig_security_authentication_failures'' ''authentication_failure_cluster''
         ''Several PBX login attempts were rejected.''
         ''PBXSense grouped recent failed authentication events for review.''
         '' recent rejected authentication events.'' recent
     @ event_cluster [''FailedACL''] 2
         ''sig_security_acl_failures'' ''acl_failure_cluster''
         ''Repeated PBX access attempts were blocked.''
         ''PBXSense grouped recent access-control failures for review.''
         '' recent ACL failures.'' recent
     @ event_cluster [''RequestBadFormat''] 3
         ''sig_security_malformed_requests'' ''malformed_request_cluster''
         ''Several malformed PBX requests were rejected.''
         ''PBXSense grouped recent invalid request-format events for review.''
         '' recent malformed requests.'' recent)"

section \<open>build_engine_signals\<close>

definition build_engine_signals :: "(datetime \<Rightarrow> int) \<Rightarrow> ami_snapshot \<Rightarrow> string pydict \<Rightarrow> datetime \<Rightarrow> signal list" where
  "build_engine_signals tz snap names now =
     missed_call_recommendations tz (endpoints snap) (recent_calls snap) names now
     @ call_mix_insights tz (recent_calls snap) (voicemails snap) now
     @ rhythm_insights (recent_calls snap) now
     @ call_quality_insights (recent_calls snap)
     @ operational_insights (endpoints snap) (queues snap) (recent_calls snap) names now
     @ operational_moments tz (queues snap) (recent_calls snap) (voicemails snap) now
     @ missed_rate_recommendations tz (recent_calls snap) now
     @ endpoint_recommendations (endpoints snap) names
     @ security_signals (recent_calls snap) (security_events snap) now"

end
