(* ===== verification/PulseHome.thy ===== *)
theory PulseHome
  imports PulseActivity PulseTrackers Engine
begin

text \<open>
  The Signals of the Home payload and the payload itself (\<open>build_home_payload\<close> of
  \<open>pbxsense_agent/pulse.py\<close>), and the refresh of \<open>pbxsense_agent/main.py\<close> that feeds one snapshot
  to the observers and keeps what they return as the Home state. Sets passed as \<open>None\<close> in the code
  are option values.
\<close>

section \<open>Signals\<close>

definition reconnecting_signal :: "ami_snapshot \<Rightarrow> signal" where
  "reconnecting_signal snap = mk_signal ''sig_agent_reconnecting'' ''agent_reconnecting'' ''health'' ''important''
     ''PBXSense Agent is trying to reach the PBX.''
     (or_str (opt_or (error snap) []) ''The Agent could not read the PBX yet.'') ''Just now''
     [''The Agent attempted to read the configured PBX connector.'',
      ''A successful PBX snapshot has not arrived yet.'']
     [(''error'', or_str (opt_or (error snap) []) ''unknown'')]"

definition trunk_call_signal :: "string pydict \<Rightarrow> string pydict \<Rightarrow> string pydict \<Rightarrow> ami_channel \<Rightarrow> signal" where
  "trunk_call_signal names labels numbers c =
    (let ce = channel_endpoint c;
         trunk_name = extension_name ce names (dget labels ce []);
         trunk_number = dget numbers ce []
     in mk_signal (''sig_trunk_call_'' @ safe_id (channel c)) ''trunk_call_active'' ''activity'' ''feed''
       (trunk_call_title c trunk_number)
       (''Live call through '' @ trunk_display_name trunk_name @ ''.'') ''Now''
       [''The PBX reported an active channel on a trunk endpoint.'',
        ''PBXSense classified this endpoint as a trunk, not a phone.'']
       [(''channel'', channel c), (''endpoint'', ce), (''caller'', caller_name c),
        (''destination'', trunk_call_destination c trunk_number), (''trunk_number'', trunk_number),
        (''state'', chan_state c), (''role'', ''trunk'')])"

definition person_call_signal :: "string pydict \<Rightarrow> string pydict \<Rightarrow> ami_channel \<Rightarrow> signal" where
  "person_call_signal names labels c =
    (let pe = person_endpoint c; name = party_name pe (caller c) names labels;
         peer = peer_name c pe names labels
     in mk_signal (''sig_active_'' @ safe_id (channel c)) ''call_active'' ''activity'' ''feed''
       (name @ '' is talking to '' @ peer @ ''.'') ''A live call is moving through the PBX.'' ''Now''
       [''The PBX reported an active channel.'', ''PBXSense mapped the channel to an extension.'']
       [(''channel'', channel c), (''extension'', or_str pe (extension c)),
        (''dialed_extension'', extension c), (''caller_number'', caller_number c),
        (''connected_number'', connected_number c), (''caller'', peer), (''state'', chan_state c)])"

definition on_trunk :: "string pydict \<Rightarrow> ami_channel \<Rightarrow> bool" where
  "on_trunk roles c = (map_of roles (channel_endpoint c) = Some ''trunk'')"

definition call_signal :: "string pydict \<Rightarrow> string pydict \<Rightarrow> string pydict \<Rightarrow> string pydict \<Rightarrow> ami_channel \<Rightarrow> signal" where
  "call_signal names labels roles numbers c =
     (if on_trunk roles c then trunk_call_signal names labels numbers c else person_call_signal names labels c)"

definition trunk_signals :: "ami_endpoint \<Rightarrow> string pydict \<Rightarrow> signal list" where
  "trunk_signals e names =
    (let name = trunk_display_name (extension_name (ep_extension e) names (ep_label e));
         tech = [(''endpoint'', ep_extension e), (''device_state'', device_state e),
                 (''active_channels'', show_int (active_channels e)), (''role'', ''trunk'')]
     in if endpoint_unavailable e then
          [mk_signal (''sig_trunk_'' @ ep_extension e @ ''_unavailable'') ''trunk_unavailable'' ''health'' ''important''
             (name @ '' looks unavailable.'')
             ''Incoming or outgoing calls through this trunk may be affected.'' ''Just now''
             [''The PBX reported a trunk-like endpoint as unavailable.'',
              ''PBXSense monitors trunks separately from phones and extensions.''] tech]
        else if active_channels e > 0 then
          [mk_signal (''sig_trunk_'' @ ep_extension e @ ''_active'') ''trunk_active'' ''activity'' ''feed''
             (name @ '' is carrying calls.'')
             (show_int (active_channels e) @ '' active channel(s) are using this trunk.'') ''Now''
             [''The PBX reported active channels on a trunk-like endpoint.'',
              ''PBXSense treats trunk traffic as PBX activity, not a person status.''] tech]
        else [])"

definition endpoint_signal_id :: "string \<Rightarrow> string" where
  "endpoint_signal_id x = ''sig_endpoint_'' @ x @ ''_unavailable''"

definition unavailable_signal :: "string pydict \<Rightarrow> (string \<rightharpoonup> string) \<Rightarrow> ami_endpoint \<Rightarrow> signal" where
  "unavailable_signal names ids e =
     (mk_signal (endpoint_signal_id (ep_extension e)) ''endpoint_unavailable'' ''health'' ''attention''
       (extension_name (ep_extension e) names (ep_label e) @ '' looks unavailable.'')
       ''The phone is not currently reachable through the PBX.'' ''Just now''
       [''The PBX reported the endpoint as unavailable.'',
        ''PBXSense treats device availability as an office health signal.'']
       [(''extension'', ep_extension e), (''device_state'', device_state e)])
     \<lparr>action_label := Some ''Open person'',
      notification_id := Some (opt_or (ids (ep_extension e)) (endpoint_signal_id (ep_extension e)))\<rparr>"

definition endpoint_signals :: "string pydict \<Rightarrow> string set option \<Rightarrow> (string \<rightharpoonup> string) \<Rightarrow> string set option \<Rightarrow>
    string set \<Rightarrow> ami_endpoint \<Rightarrow> signal list" where
  "endpoint_signals names confirmed ids trunks_confirmed active_trunk_endpoints e =
    (if is_trunk e then
       if ep_extension e \<in> active_trunk_endpoints then []
       else if endpoint_unavailable e \<and> (case trunks_confirmed of None \<Rightarrow> False | Some t \<Rightarrow> ep_extension e \<notin> t)
         then []
       else trunk_signals e names
     else if endpoint_unavailable e \<and> (case confirmed of None \<Rightarrow> True | Some p \<Rightarrow> ep_extension e \<in> p)
       then [unavailable_signal names ids e]
     else [])"

definition event_signal :: "datetime \<Rightarrow> activity_event \<Rightarrow> signal" where
  "event_signal now ev = mk_signal (a_id ev) (a_kind ev) (a_category ev) ''feed'' (a_title ev) (a_body ev)
     (activity_event_time_label (observed_at ev) now)
     [''PBXSense observed a change between PBX snapshots.'', a_why ev] (a_technical ev)"

definition activity_signals :: "ami_channel list \<Rightarrow> datetime \<Rightarrow> int \<Rightarrow> activity_event list \<Rightarrow> signal list" where
  "activity_signals active now hours evs = take 5
    ((if active = [] then [] else
       [mk_signal ''sig_activity_live_calls'' ''pbx_live_calls_activity'' ''activity'' ''feed''
          ''Live calls are under way.'' ''PBXSense is seeing call activity on the PBX right now.'' ''Now''
          [''The PBX connector reported active call channels.'',
           ''This is a live event, not a comparison with earlier call history.'']
          [(''active_calls'', show_nat (length (dedupe_call_channels active)))]])
     @ map (event_signal now) (filter (\<lambda>ev. \<not> observed_at ev < now - hours * hour_us) evs))"

definition build_signals :: "ami_snapshot \<Rightarrow> ami_channel list \<Rightarrow> string pydict \<Rightarrow> string pydict \<Rightarrow> string pydict \<Rightarrow>
    string pydict \<Rightarrow> datetime \<Rightarrow> int \<Rightarrow> activity_event list \<Rightarrow> string set option \<Rightarrow> (string \<rightharpoonup> string) \<Rightarrow>
    string set option \<Rightarrow> signal list" where
  "build_signals snap active names labels roles numbers now hours evs confirmed ids trunks_confirmed =
    (if \<not> reachable snap then [reconnecting_signal snap]
     else let shown = take 5 active;
              active_trunk_endpoints = set (map channel_endpoint (filter (on_trunk roles) shown))
       in map (call_signal names labels roles numbers) shown
          @ concat (map (endpoint_signals names confirmed ids trunks_confirmed active_trunk_endpoints) (endpoints snap))
          @ activity_signals active now hours evs)"

section \<open>The payload\<close>

definition endpoint_dict :: "(ami_endpoint \<Rightarrow> string) \<Rightarrow> ami_endpoint list \<Rightarrow> string pydict" where
  "endpoint_dict f eps = foldl (\<lambda>d e. AList.update (ep_extension e) (f e) d) [] eps"

definition mood_of :: "ami_snapshot \<Rightarrow> ami_channel list \<Rightarrow> signal list \<Rightarrow> string" where
  "mood_of snap active sgs =
    (if \<not> reachable snap then ''PBXSense is trying to reach the PBX.''
     else if list_ex (\<lambda>s. importance s \<in> {''attention'', ''important''}) sgs then ''There is something worth watching.''
     else if active \<noteq> [] then ''Calls are moving.'' else ''Everything looks healthy.'')"

definition quiet_now :: "ami_snapshot \<Rightarrow> call_entry" where
  "quiet_now snap = (if reachable snap
     then \<lparr>c_title = ''No calls right now.'', c_body = ''The PBX is reachable.'', c_time_label = ''Now'',
       is_active = False, c_kind = ''answered'', recording = None\<rparr>
     else \<lparr>c_title = ''Waiting for the PBX.'',
       c_body = or_str (opt_or (error snap) []) ''The Agent is reconnecting.'', c_time_label = ''Now'',
       is_active = False, c_kind = ''missed'', recording = None\<rparr>)"

definition connection_detail :: "ami_snapshot \<Rightarrow> string \<Rightarrow> string" where
  "connection_detail snap display = (if reachable snap then display @ '' answered the Agent snapshot request.''
     else or_str (opt_or (error snap) []) ''The Agent has not connected to the PBX yet.'')"

record connection_view =
  cn_kind :: string
  cn_label :: string
  cn_detail :: string
  cn_agent_version :: string
  cn_last_contact :: string

record home_payload =
  hp_greeting :: string
  hp_mood :: string
  hp_connection :: connection_view
  hp_now :: call_entry
  hp_signals :: "signal list"
  hp_calls :: "call_entry list"
  hp_people :: "person list"
  hp_trunks :: "trunk_view list"
  hp_queues :: "queue_view list"

text \<open>The settings the payload depends on; the PBX type, host and port are copied through and left out.\<close>

record home_config =
  display_name :: string
  extension_names :: "string pydict"
  hc_fmt :: "datetime \<Rightarrow> string"
  hc_tz :: "datetime \<Rightarrow> int"

definition build_home_payload :: "home_config \<Rightarrow> ami_snapshot \<Rightarrow> datetime \<Rightarrow> int \<Rightarrow> activity_event list \<Rightarrow>
    string set option \<Rightarrow> string set option \<Rightarrow> (string \<rightharpoonup> string) \<Rightarrow> (string \<rightharpoonup> datetime) \<Rightarrow> home_payload" where
  "build_home_payload cfg snap now moment_hours evs confirmed trunks_confirmed ids last_active =
    (let hours = valid_moment_hours moment_hours;
         names = extension_names cfg;
         active = filter is_active_channel (channels snap);
         call_channels = dedupe_call_channels active;
         labels = endpoint_dict ep_label (filter (\<lambda>e. ep_label e \<noteq> []) (endpoints snap));
         roles = endpoint_dict role (endpoints snap);
         numbers = endpoint_dict ep_number (filter (\<lambda>e. ep_number e \<noteq> []) (endpoints snap));
         active_calls = map (\<lambda>c. call_from_channel c names labels roles numbers) call_channels;
         sgs = build_signals snap call_channels names labels roles numbers now hours evs confirmed ids trunks_confirmed
               @ build_engine_signals (hc_tz cfg) snap names now
     in \<lparr>hp_greeting = greeting now,
         hp_mood = mood_of snap active sgs,
         hp_connection = \<lparr>cn_kind = (if reachable snap then ''local'' else ''reconnecting''),
           cn_label = (if reachable snap then ''Connected locally'' else ''Reconnecting''),
           cn_detail = connection_detail snap (display_name cfg),
           cn_agent_version = agent_version snap,
           cn_last_contact = (if reachable snap then ''Just now'' else ''Not yet'')\<rparr>,
         hp_now = (case active_calls of c # _ \<Rightarrow> c | [] \<Rightarrow> quiet_now snap),
         hp_signals = sgs,
         hp_calls = active_calls @ calls_from_history (recent_calls snap) names roles numbers now
           @ calls_from_voicemail (voicemails snap) names now,
         hp_people = build_people (hc_fmt cfg) (endpoints snap) active names last_active,
         hp_trunks = build_trunks (endpoints snap) names,
         hp_queues = build_queues (queues snap)\<rparr>)"

section \<open>Refreshing the Home state\<close>

text \<open>The observers the Agent keeps for its lifetime.\<close>

record observers =
  ob_activity :: activity_state
  ob_endpoints :: tracker_states
  ob_trunks :: tracker_states
  ob_aggregate :: "datetime option"
  ob_last_active :: last_active_state

record observer_config =
  oc_activity :: activity_config
  oc_endpoints :: tracker_config
  oc_trunks :: tracker_config
  oc_delay :: int
  oc_persist :: bool

record home_state =
  hs_snapshot :: ami_snapshot
  hs_observed_at :: datetime
  hs_events :: "activity_event list"
  hs_confirmed :: "string set"
  hs_ids :: "string \<rightharpoonup> string"
  hs_trunks :: "string set"
  hs_tip :: bool
  hs_last_active :: "string \<rightharpoonup> datetime"

definition observe_all :: "observer_config \<Rightarrow> ami_snapshot \<Rightarrow> datetime \<Rightarrow> observers \<Rightarrow> observers \<times> home_state" where
  "observe_all oc snap now ob =
    (let (act, moment_events) = activity_observe (oc_activity oc) snap now (ob_activity ob);
         (eps, phone_signals) = tracker_observe (oc_endpoints oc) snap now (ob_endpoints ob);
         (trs, trunk_signals') = tracker_observe (oc_trunks oc) snap now (ob_trunks ob);
         (agg, show_aggregate_tip) = aggregate_observe (oc_delay oc) snap now (ob_aggregate ob);
         (la, endpoint_last_active) = last_active_observe (oc_persist oc) snap now (ob_last_active ob)
     in (\<lparr>ob_activity = act, ob_endpoints = eps, ob_trunks = trs, ob_aggregate = agg, ob_last_active = la\<rparr>,
         \<lparr>hs_snapshot = snap, hs_observed_at = now, hs_events = moment_events, hs_confirmed = phone_signals,
          hs_ids = notification_ids eps, hs_trunks = trunk_signals', hs_tip = show_aggregate_tip,
          hs_last_active = endpoint_last_active\<rparr>))"

definition tip_id :: string where
  "tip_id = ''sig_tip_multiple_endpoints_unavailable''"

definition home_payload_from_state :: "home_config \<Rightarrow> home_state \<Rightarrow> int \<Rightarrow> home_payload" where
  "home_payload_from_state cfg hs moment_hours =
    (let payload = build_home_payload cfg (hs_snapshot hs) (hs_observed_at hs) moment_hours (hs_events hs)
           (Some (hs_confirmed hs)) (Some (hs_trunks hs)) (hs_ids hs) (hs_last_active hs)
     in if hs_tip hs then payload
        else payload\<lparr>hp_signals := filter (\<lambda>s. sg_id s \<noteq> tip_id) (hp_signals payload)\<rparr>)"

text \<open>
  The history readers run at most once per poll interval; their result is cached and replaces the
  history of the connector's snapshot. \<open>reads\<close> is what they would return now, \<open>None\<close> when one of them
  raises: then nothing is assigned and the refresh fails.
\<close>

type_synonym history_cache = "cdr_call list \<times> voicemail_message list \<times> security_event list"

record agent_state =
  ag_history :: history_cache
  ag_history_at :: rat
  ag_observers :: observers
  ag_home :: "home_state option"

definition refresh_history :: "rat \<Rightarrow> rat \<Rightarrow> history_cache option \<Rightarrow> agent_state \<Rightarrow> agent_state option" where
  "refresh_history interval monotonic reads st =
    (if ag_history_at st = 0 \<or> monotonic - ag_history_at st \<ge> interval
     then map_option (\<lambda>h. st\<lparr>ag_history := h, ag_history_at := monotonic\<rparr>) reads
     else Some st)"

definition with_history :: "history_cache \<Rightarrow> ami_snapshot \<Rightarrow> ami_snapshot" where
  "with_history h snap = snap\<lparr>recent_calls := fst h, voicemails := fst (snd h), security_events := snd (snd h)\<rparr>"

definition refresh_home_state :: "observer_config \<Rightarrow> bool \<Rightarrow> rat \<Rightarrow> ami_snapshot \<Rightarrow> datetime \<Rightarrow> rat \<Rightarrow>
    history_cache option \<Rightarrow> agent_state \<Rightarrow> agent_state option" where
  "refresh_home_state oc local_history interval snap now monotonic reads st =
    (case (if local_history then map_option (\<lambda>s. (s, with_history (ag_history s) snap))
              (refresh_history interval monotonic reads st)
           else Some (st, snap)) of
       None \<Rightarrow> None
     | Some (st', snap') \<Rightarrow>
         (let (ob, hs) = observe_all oc snap' now (ag_observers st')
          in Some (st'\<lparr>ag_observers := ob, ag_home := Some hs\<rparr>)))"

section \<open>Runs of the observers\<close>

definition initial_observers :: "last_active_state \<Rightarrow> observers" where
  "initial_observers la = \<lparr>ob_activity = initial_activity, ob_endpoints = Map.empty, ob_trunks = Map.empty,
     ob_aggregate = None, ob_last_active = la\<rparr>"

definition observers_run :: "observer_config \<Rightarrow> last_active_state \<Rightarrow> (ami_snapshot \<times> datetime) list \<Rightarrow> observers" where
  "observers_run oc la obs =
     foldl (\<lambda>ob st. fst (observe_all oc (fst st) (snd st) ob)) (initial_observers la) obs"

lemma observe_all_parts:
  "ob_activity (fst (observe_all oc snap now ob)) = fst (activity_observe (oc_activity oc) snap now (ob_activity ob))"
  "ob_endpoints (fst (observe_all oc snap now ob)) = fst (tracker_observe (oc_endpoints oc) snap now (ob_endpoints ob))"
  "ob_trunks (fst (observe_all oc snap now ob)) = fst (tracker_observe (oc_trunks oc) snap now (ob_trunks ob))"
  "ob_aggregate (fst (observe_all oc snap now ob)) = fst (aggregate_observe (oc_delay oc) snap now (ob_aggregate ob))"
  "hs_snapshot (snd (observe_all oc snap now ob)) = snap"
  "hs_observed_at (snd (observe_all oc snap now ob)) = now"
  "hs_events (snd (observe_all oc snap now ob)) = snd (activity_observe (oc_activity oc) snap now (ob_activity ob))"
  "hs_confirmed (snd (observe_all oc snap now ob)) = snd (tracker_observe (oc_endpoints oc) snap now (ob_endpoints ob))"
  "hs_ids (snd (observe_all oc snap now ob)) =
     notification_ids (fst (tracker_observe (oc_endpoints oc) snap now (ob_endpoints ob)))"
  "hs_trunks (snd (observe_all oc snap now ob)) = snd (tracker_observe (oc_trunks oc) snap now (ob_trunks ob))"
  "hs_tip (snd (observe_all oc snap now ob)) = snd (aggregate_observe (oc_delay oc) snap now (ob_aggregate ob))"
  by (simp_all add: observe_all_def split: prod.splits)

lemma observers_run_parts:
  "ob_activity (observers_run oc la obs) = activity_run (oc_activity oc) obs"
  "ob_endpoints (observers_run oc la obs) = fst (tracker_run (oc_endpoints oc) obs)"
  "ob_trunks (observers_run oc la obs) = fst (tracker_run (oc_trunks oc) obs)"
  "ob_aggregate (observers_run oc la obs) = fst (feed (aggregate_observe (oc_delay oc)) None obs)"
proof (induction obs rule: rev_induct)
  case Nil
  show "ob_activity (observers_run oc la []) = activity_run (oc_activity oc) []"
    "ob_endpoints (observers_run oc la []) = fst (tracker_run (oc_endpoints oc) [])"
    "ob_trunks (observers_run oc la []) = fst (tracker_run (oc_trunks oc) [])"
    "ob_aggregate (observers_run oc la []) = fst (feed (aggregate_observe (oc_delay oc)) None [])"
    by (simp_all add: observers_run_def initial_observers_def tracker_run_def)
next
  case (snoc st obs)
  obtain snap now where st: "st = (snap, now)" by (cases st)
  have run: "observers_run oc la (obs @ [st]) = fst (observe_all oc snap now (observers_run oc la obs))"
    by (simp add: observers_run_def st)
  from snoc show "ob_activity (observers_run oc la (obs @ [st])) = activity_run (oc_activity oc) (obs @ [st])"
    "ob_endpoints (observers_run oc la (obs @ [st])) = fst (tracker_run (oc_endpoints oc) (obs @ [st]))"
    "ob_trunks (observers_run oc la (obs @ [st])) = fst (tracker_run (oc_trunks oc) (obs @ [st]))"
    "ob_aggregate (observers_run oc la (obs @ [st])) = fst (feed (aggregate_observe (oc_delay oc)) None (obs @ [st]))"
    unfolding run by (simp_all add: observe_all_parts st)
qed

text \<open>The Home state after the last of a sequence of observations.\<close>

definition home_after :: "observer_config \<Rightarrow> last_active_state \<Rightarrow> (ami_snapshot \<times> datetime) list \<Rightarrow>
    ami_snapshot \<Rightarrow> datetime \<Rightarrow> home_state" where
  "home_after oc la obs snap now = snd (observe_all oc snap now (observers_run oc la obs))"

lemma home_after_parts:
  "hs_snapshot (home_after oc la obs snap now) = snap"
  "hs_observed_at (home_after oc la obs snap now) = now"
  "hs_events (home_after oc la obs snap now) = rev (act_events (activity_run (oc_activity oc) (obs @ [(snap, now)])))"
  "hs_confirmed (home_after oc la obs snap now) = snd (tracker_run (oc_endpoints oc) (obs @ [(snap, now)]))"
  "hs_ids (home_after oc la obs snap now) = notification_ids (fst (tracker_run (oc_endpoints oc) (obs @ [(snap, now)])))"
  "hs_trunks (home_after oc la obs snap now) = snd (tracker_run (oc_trunks oc) (obs @ [(snap, now)]))"
  "hs_tip (home_after oc la obs snap now) = snd (feed (aggregate_observe (oc_delay oc)) None (obs @ [(snap, now)]))"
proof -
  show "hs_events (home_after oc la obs snap now) = rev (act_events (activity_run (oc_activity oc) (obs @ [(snap, now)])))"
    by (simp add: home_after_def observe_all_parts observers_run_parts)
      (simp add: activity_observe_def Let_def)
qed (simp_all add: home_after_def observe_all_parts observers_run_parts)

end
