(* ===== verification/HomeLaws.thy ===== *)
theory HomeLaws
  imports PulseHome
begin

text \<open>What the Home payload promises: theorems over the whole path from a sequence of snapshots
  through the observers to the Signals, and over one payload.\<close>

section \<open>Which stage a Signal comes from\<close>

definition engine_kinds :: "string set" where
  "engine_kinds = {''missed_call_pattern'', ''call_mix_insight'', ''weekday_volume_pattern'', ''busy_hour_pattern'',
     ''missed_rate_pattern'', ''endpoint_unavailable_pattern'', ''failed_call_cluster'',
     ''authentication_failure_cluster'', ''acl_failure_cluster'', ''malformed_request_cluster'',
     ''call_quality_degradation'', ''queue_demand_vs_agents'', ''repeated_abandonment_period'',
     ''after_hours_call_pattern'', ''recurring_extension_availability'', ''trunk_missed_call_load'',
     ''weekday_call_duration_change'', ''trunk_usage_distribution'', ''first_answered_call_of_day'',
     ''queues_finished_within_target'', ''full_day_without_missed_calls'', ''clean_operating_day_streak'',
     ''voicemail_free_service_streak'', ''adaptive_call_volume_milestone''}"

lemma engine_signal_kind [simp]: "sg_kind (engine_signal cat i k t b ws tech l) = k"
  by (simp add: engine_signal_def)

lemmas engine_parts = missed_call_recommendations_def missed_signal_def call_mix_insights_def
  rhythm_insights_def weekday_insight_def busiest_hour_insight_def call_quality_insights_def
  operational_insights_def queue_demand_insight_def abandonment_insight_def after_hours_insight_def
  extension_insight_def trunk_missed_insight_def duration_insight_def trunk_share_insight_def
  operational_moments_def first_answered_moment_def adaptive_volume_moments_def average_volume_moment_def
  queues_target_moment_def no_missed_moment_def streak_moments_def missed_rate_recommendations_def
  endpoint_recommendations_def security_signals_def failed_call_signal_def event_cluster_def

definition kinds_in :: "string set \<Rightarrow> signal list \<Rightarrow> bool" where
  "kinds_in K sgs = (\<forall>s \<in> set sgs. sg_kind s \<in> K)"

lemma kinds_in_simps [simp]:
  "kinds_in K []"
  "kinds_in K (s # ss) \<longleftrightarrow> sg_kind s \<in> K \<and> kinds_in K ss"
  "kinds_in K (xs @ ys) \<longleftrightarrow> kinds_in K xs \<and> kinds_in K ys"
  by (auto simp: kinds_in_def)

lemma kinds_in_mono: "kinds_in K sgs \<Longrightarrow> set ys \<subseteq> set sgs \<Longrightarrow> kinds_in K ys"
  by (auto simp: kinds_in_def)

lemma kinds_rhythm: "kinds_in {''weekday_volume_pattern'', ''busy_hour_pattern''} (rhythm_insights cs now)"
proof -
  have "kinds_in {''weekday_volume_pattern'', ''busy_hour_pattern''} (weekday_insight n counts @ busiest_hour_insight ds)"
    for n counts ds
    by (simp add: weekday_insight_def busiest_hour_insight_def Let_def split: option.split)
  then show ?thesis
    by (auto simp: rhythm_insights_def Let_def intro: kinds_in_mono [OF _ set_take_subset])
qed

lemma kinds_missed: "kinds_in {''missed_call_pattern''} (missed_call_recommendations tz eps cs names now)"
  by (auto simp: kinds_in_def missed_call_recommendations_def missed_signal_def Let_def split: prod.splits)

lemma kinds_insights:
  "kinds_in engine_kinds (call_mix_insights tz cs vms now)"
  "kinds_in engine_kinds (call_quality_insights cs)"
  "kinds_in engine_kinds (queue_demand_insight qs)"
  "kinds_in engine_kinds (abandonment_insight ds)"
  "kinds_in engine_kinds (after_hours_insight ds)"
  "kinds_in engine_kinds (extension_insight eps names ds)"
  "kinds_in engine_kinds (trunk_missed_insight eps names ds)"
  "kinds_in engine_kinds (duration_insight ds now)"
  "kinds_in engine_kinds (trunk_share_insight eps names ds)"
  by (simp_all add: engine_parts engine_kinds_def Let_def split: option.split prod.split)

lemma kinds_moments:
  "kinds_in engine_kinds (first_answered_moment cs now)"
  "kinds_in engine_kinds (average_volume_moment p n bs m)"
  "kinds_in engine_kinds (queues_target_moment qs now)"
  "kinds_in engine_kinds (no_missed_moment tz cs now)"
  "kinds_in engine_kinds (streak_moments tz cs vms now)"
  "kinds_in engine_kinds (missed_rate_recommendations tz cs now)"
  "kinds_in engine_kinds (endpoint_recommendations eps names)"
  "kinds_in engine_kinds (failed_call_signal cs now)"
  by (simp_all add: engine_parts engine_kinds_def Let_def split: list.split prod.split)

lemma kinds_cluster: "k \<in> K \<Longrightarrow> kinds_in K (event_cluster ks n i k t b f recent)"
  by (simp add: event_cluster_def Let_def)

lemma kinds_security: "kinds_in engine_kinds (security_signals cs evs now)"
proof -
  have "''authentication_failure_cluster'' \<in> engine_kinds" "''acl_failure_cluster'' \<in> engine_kinds"
    "''malformed_request_cluster'' \<in> engine_kinds" by (simp_all add: engine_kinds_def)
  then show ?thesis
    by (simp add: security_signals_def kinds_moments kinds_cluster Let_def)
qed

lemma kinds_engine: "kinds_in engine_kinds (build_engine_signals tz snap names now)"
proof -
  have sub: "kinds_in engine_kinds sgs" if "kinds_in K sgs" "K \<subseteq> engine_kinds" for K sgs
    using that by (auto simp: kinds_in_def)
  have "kinds_in engine_kinds (missed_call_recommendations tz eps cs names now)" for eps cs
    by (rule sub [OF kinds_missed]) (simp add: engine_kinds_def)
  moreover have "kinds_in engine_kinds (rhythm_insights cs now)" for cs
    by (rule sub [OF kinds_rhythm]) (simp add: engine_kinds_def)
  ultimately show ?thesis
    by (simp add: build_engine_signals_def operational_insights_def operational_moments_def Let_def
        kinds_insights kinds_moments kinds_security adaptive_volume_moments_def)
qed

lemma kind_call_signal:
  "sg_kind (call_signal names labels roles numbers c) =
     (if on_trunk roles c then ''trunk_call_active'' else ''call_active'')"
  by (simp add: call_signal_def trunk_call_signal_def person_call_signal_def Let_def)

lemma kinds_trunk_signals: "kinds_in {''trunk_unavailable'', ''trunk_active''} (trunk_signals e names)"
  by (simp add: trunk_signals_def Let_def)

lemma kinds_activity:
  "\<forall>e \<in> set evs. a_kind e \<in> activity_kinds \<Longrightarrow>
    kinds_in (insert ''pbx_live_calls_activity'' activity_kinds) (activity_signals active now hours evs)"
  unfolding activity_signals_def
  by (rule kinds_in_mono [OF _ set_take_subset]) (auto simp: kinds_in_def event_signal_def)

lemma unavailable_signal_sel [simp]:
  "sg_kind (unavailable_signal names ids e) = ''endpoint_unavailable''"
  "sg_id (unavailable_signal names ids e) = endpoint_signal_id (ep_extension e)"
  "importance (unavailable_signal names ids e) = ''attention''"
  "technical (unavailable_signal names ids e) = [(''extension'', ep_extension e), (''device_state'', device_state e)]"
  "notification_id (unavailable_signal names ids e) = Some (opt_or (ids (ep_extension e)) (endpoint_signal_id (ep_extension e)))"
  by (simp_all add: unavailable_signal_def mk_signal_def)

text \<open>The phone Signals of a payload are those of the endpoints.\<close>

lemma phone_signals_of_build:
  assumes "\<forall>e \<in> set evs. a_kind e \<in> activity_kinds" and "reachable snap"
  shows "s \<in> set (build_signals snap active names labels roles numbers now hours evs (Some P) ids T)
      \<and> sg_kind s = ''endpoint_unavailable'' \<longleftrightarrow>
    (\<exists>e \<in> set (endpoints snap). \<not> is_trunk e \<and> endpoint_unavailable e \<and> ep_extension e \<in> P \<and>
      s = unavailable_signal names ids e)"
proof -
  let ?calls = "map (call_signal names labels roles numbers) (take 5 active)"
  let ?act = "activity_signals active now hours evs"
  let ?A = "set (map channel_endpoint (filter (on_trunk roles) (take 5 active)))"
  have c: "x \<notin> set ?calls" if "sg_kind x = ''endpoint_unavailable''" for x
    using that by (auto simp: kind_call_signal split: if_splits)
  have a: "x \<notin> set ?act" if "sg_kind x = ''endpoint_unavailable''" for x
    using that kinds_activity [OF assms(1), of active now hours] by (auto simp: kinds_in_def)
  have t: "x \<notin> set (trunk_signals e names)" if "sg_kind x = ''endpoint_unavailable''" for x e
    using that kinds_trunk_signals [of e names] by (auto simp: kinds_in_def)
  have e: "x \<in> set (endpoint_signals names (Some P) ids T A e) \<and> sg_kind x = ''endpoint_unavailable'' \<longleftrightarrow>
      \<not> is_trunk e \<and> endpoint_unavailable e \<and> ep_extension e \<in> P \<and> x = unavailable_signal names ids e" for x A e
    using t [of x e] by (auto simp: endpoint_signals_def split: option.splits)
  have "s \<in> set (build_signals snap active names labels roles numbers now hours evs (Some P) ids T)
      \<and> sg_kind s = ''endpoint_unavailable'' \<longleftrightarrow>
    (\<exists>x \<in> set (endpoints snap). s \<in> set (endpoint_signals names (Some P) ids T ?A x)) \<and>
      sg_kind s = ''endpoint_unavailable''"
    using c [of s] a [of s] assms(2) by (auto simp: build_signals_def Let_def)
  then show ?thesis using e [of s ?A] by blast
qed

lemma phone_signals_of_payload:
  assumes "\<forall>e \<in> set evs. a_kind e \<in> activity_kinds" and "reachable snap"
  shows "s \<in> set (hp_signals (build_home_payload cfg snap now hours evs (Some P) T ids la))
      \<and> sg_kind s = ''endpoint_unavailable'' \<longleftrightarrow>
    (\<exists>e \<in> set (endpoints snap). \<not> is_trunk e \<and> endpoint_unavailable e \<and> ep_extension e \<in> P \<and>
      s = unavailable_signal (extension_names cfg) ids e)"
proof -
  have "sg_kind x \<noteq> ''endpoint_unavailable''" if "x \<in> set (build_engine_signals tz snap names now)" for x tz names
    using that kinds_engine [of tz snap names now] by (auto simp: kinds_in_def engine_kinds_def)
  then have "s \<in> set (hp_signals (build_home_payload cfg snap now hours evs (Some P) T ids la))
      \<and> sg_kind s = ''endpoint_unavailable'' \<longleftrightarrow>
    s \<in> set (build_signals snap (dedupe_call_channels (filter is_active_channel (channels snap)))
      (extension_names cfg) (endpoint_dict ep_label (filter (\<lambda>e. ep_label e \<noteq> []) (endpoints snap)))
      (endpoint_dict role (endpoints snap)) (endpoint_dict ep_number (filter (\<lambda>e. ep_number e \<noteq> []) (endpoints snap)))
      now (valid_moment_hours hours) evs (Some P) ids T)
      \<and> sg_kind s = ''endpoint_unavailable''"
    by (auto simp: build_home_payload_def Let_def)
  with phone_signals_of_build [OF assms] show ?thesis by simp
qed

lemma phone_signals_of_state:
  assumes "\<forall>e \<in> set (hs_events hs). a_kind e \<in> activity_kinds" and "reachable (hs_snapshot hs)"
  shows "s \<in> set (hp_signals (home_payload_from_state cfg hs hours)) \<and> sg_kind s = ''endpoint_unavailable'' \<longleftrightarrow>
    (\<exists>e \<in> set (endpoints (hs_snapshot hs)). \<not> is_trunk e \<and> endpoint_unavailable e \<and>
      ep_extension e \<in> hs_confirmed hs \<and> s = unavailable_signal (extension_names cfg) (hs_ids hs) e)"
proof -
  let ?all = "set (hp_signals (build_home_payload cfg (hs_snapshot hs) (hs_observed_at hs) hours (hs_events hs)
    (Some (hs_confirmed hs)) (Some (hs_trunks hs)) (hs_ids hs) (hs_last_active hs)))"
  have ids: "sg_id (unavailable_signal names ids d) \<noteq> tip_id" for names ids d
    by (simp add: endpoint_signal_id_def tip_id_def)
  have "s \<in> set (hp_signals (home_payload_from_state cfg hs hours)) \<longleftrightarrow>
      s \<in> ?all \<and> (hs_tip hs \<or> sg_id s \<noteq> tip_id)"
    by (auto simp: home_payload_from_state_def Let_def)
  with phone_signals_of_payload [OF assms, of s cfg "hs_observed_at hs" hours "hs_confirmed hs"
      "Some (hs_trunks hs)" "hs_ids hs" "hs_last_active hs"] ids
  show ?thesis by metis
qed

lemma unavailable_signals_exist:
  assumes "\<And>s. s \<in> S \<and> sg_kind s = ''endpoint_unavailable'' \<longleftrightarrow>
      (\<exists>d \<in> D. \<not> is_trunk d \<and> endpoint_unavailable d \<and> ep_extension d \<in> P \<and> s = unavailable_signal names ids d)"
  shows "(\<exists>s \<in> S. sg_kind s = ''endpoint_unavailable'' \<and> dget (technical s) ''extension'' [] = x \<and>
      notification_id s = Some i) \<longleftrightarrow>
    (\<exists>d \<in> D. \<not> is_trunk d \<and> endpoint_unavailable d \<and> ep_extension d \<in> P \<and> ep_extension d = x \<and>
      i = opt_or (ids (ep_extension d)) (endpoint_signal_id (ep_extension d)))"
proof -
  have t: "dget (technical (unavailable_signal names ids d)) ''extension'' [] = ep_extension d" for d
    by (simp add: dget_def)
  have "(\<exists>s \<in> S. sg_kind s = ''endpoint_unavailable'' \<and> dget (technical s) ''extension'' [] = x \<and>
      notification_id s = Some i) \<longleftrightarrow>
    (\<exists>s. (s \<in> S \<and> sg_kind s = ''endpoint_unavailable'') \<and> dget (technical s) ''extension'' [] = x \<and>
      notification_id s = Some i)"
    by blast
  then show ?thesis unfolding assms using t by (auto simp del: unavailable_signal_sel(4))
qed

section \<open>Phones\<close>

lemma view_of_listed:
  assumes "e \<in> set (endpoints snap)" and "\<not> is_trunk e" and "tr_role tc = ''extension''"
    and "\<And>d. d \<in> set (endpoints snap) \<Longrightarrow> \<not> is_trunk d \<Longrightarrow> ep_extension d = ep_extension e \<Longrightarrow> d = e"
  shows "endpoint_view tc (ep_extension e) snap = Some e"
proof -
  let ?es = "filter (\<lambda>d. \<not> is_trunk d) (endpoints snap)"
  have "map_of (tracked_endpoints ''extension'' (endpoints snap)) (ep_extension e) =
      foldl (\<lambda>_ d. Some d) None (filter (\<lambda>d. ep_extension d = ep_extension e) ?es)"
    using ad.fold_lookup [of ep_extension "\<lambda>_ d. d" "[]" ?es "ep_extension e"]
    by (simp add: tracked_endpoints_def)
  also have "filter (\<lambda>d. ep_extension d = ep_extension e) ?es \<noteq> []"
    using assms(1,2) by (auto simp: filter_empty_conv)
  then have "foldl (\<lambda>_ d. Some d) None (filter (\<lambda>d. ep_extension d = ep_extension e) ?es) =
      Some (last (filter (\<lambda>d. ep_extension d = ep_extension e) ?es))"
    by (induction "filter (\<lambda>d. ep_extension d = ep_extension e) ?es" rule: rev_induct) (simp, metis foldl_Nil foldl_append foldl_Cons last_snoc)
  also have "last (filter (\<lambda>d. ep_extension d = ep_extension e) ?es) = e"
    using last_in_set [OF \<open>filter (\<lambda>d. ep_extension d = ep_extension e) ?es \<noteq> []\<close>] assms(4) by auto
  finally show ?thesis using assms(3) by (simp add: endpoint_view_def)
qed

lemma outage_history_last:
  assumes "reachable snap" and "run_start (outage_history tc x (obs @ [(snap, now)])) = Some t0"
  shows "down (endpoint_view tc x snap)"
  using assms by (simp add: outage_history_def run_start_snoc split: if_splits)

text \<open>
  C1. What the user sees of a phone: after any history of snapshots with non-decreasing times, the
  Home payload for the last, reachable snapshot contains an unavailability Signal for a listed phone
  exactly when the phone has been listed as unavailable in every reachable snapshot since some
  \<open>t0\<close> at least the confirmation period ago; the Signal then carries the occurrence id of \<open>t0\<close>. (The
  phone's extension is listed once among the phones.)
\<close>

theorem home_shows_confirmed_outages:
  assumes "sorted (map snd (obs @ [(snap, now)]))" and "reachable snap"
    and "e \<in> set (endpoints snap)" and "\<not> is_trunk e" and "tr_role (oc_endpoints oc) = ''extension''"
    and "\<And>d. d \<in> set (endpoints snap) \<Longrightarrow> \<not> is_trunk d \<Longrightarrow> ep_extension d = ep_extension e \<Longrightarrow> d = e"
  shows "(\<exists>s \<in> set (hp_signals (home_payload_from_state cfg (home_after oc la obs snap now) hours)).
      sg_kind s = ''endpoint_unavailable'' \<and> dget (technical s) ''extension'' [] = ep_extension e \<and>
      notification_id s = Some i) \<longleftrightarrow>
    (\<exists>t0. run_start (outage_history (oc_endpoints oc) (ep_extension e) (obs @ [(snap, now)])) = Some t0 \<and>
      tr_outage_confirmation (oc_endpoints oc) \<le> now - t0 \<and>
      i = outage_notification_id (tr_tz (oc_endpoints oc)) (ep_extension e) t0)"
proof -
  let ?tc = "oc_endpoints oc" let ?x = "ep_extension e"
  let ?hs = "home_after oc la obs snap now"
  let ?P = "snd (tracker_run ?tc (obs @ [(snap, now)]))"
  let ?ids = "notification_ids (fst (tracker_run ?tc (obs @ [(snap, now)])))"
  let ?sgs = "hp_signals (home_payload_from_state cfg ?hs hours)"
  have r: "reachable (hs_snapshot ?hs)" using assms(2) by (simp only: home_after_parts)
  have kinds: "\<forall>ev \<in> set (hs_events ?hs). a_kind ev \<in> activity_kinds"
    unfolding home_after_parts set_rev using activity_run_kinds by blast
  have "s \<in> set ?sgs \<and> sg_kind s = ''endpoint_unavailable'' \<longleftrightarrow>
      (\<exists>d \<in> set (endpoints snap). \<not> is_trunk d \<and> endpoint_unavailable d \<and> ep_extension d \<in> ?P \<and>
        s = unavailable_signal (extension_names cfg) ?ids d)" for s
    using phone_signals_of_state [OF kinds r, of s cfg hours] unfolding home_after_parts .
  then have "(\<exists>s \<in> set ?sgs. sg_kind s = ''endpoint_unavailable'' \<and> dget (technical s) ''extension'' [] = ?x
        \<and> notification_id s = Some i) \<longleftrightarrow>
      (\<exists>d \<in> set (endpoints snap). \<not> is_trunk d \<and> endpoint_unavailable d \<and> ep_extension d \<in> ?P \<and>
        ep_extension d = ?x \<and> i = opt_or (?ids (ep_extension d)) (endpoint_signal_id (ep_extension d)))"
    by (rule unavailable_signals_exist [where S = "set ?sgs" and D = "set (endpoints snap)" and P = ?P
          and names = "extension_names cfg" and ids = ?ids])
  also have "\<dots> \<longleftrightarrow> endpoint_unavailable e \<and> ?x \<in> ?P \<and> i = opt_or (?ids ?x) (endpoint_signal_id ?x)"
    (is "?L \<longleftrightarrow> ?R")
  proof
    assume ?L
    then obtain d where d: "d \<in> set (endpoints snap)" "\<not> is_trunk d" "endpoint_unavailable d" "ep_extension d \<in> ?P"
      "ep_extension d = ?x" "i = opt_or (?ids (ep_extension d)) (endpoint_signal_id (ep_extension d))" by blast
    from assms(6) [OF d(1,2,5)] d show ?R by simp
  next
    assume ?R
    with assms(3,4) show ?L by blast
  qed
  also have "\<dots> \<longleftrightarrow> (\<exists>t0. run_start (outage_history ?tc ?x (obs @ [(snap, now)])) = Some t0 \<and>
      tr_outage_confirmation ?tc \<le> now - t0 \<and> i = outage_notification_id (tr_tz ?tc) ?x t0)"
  proof -
    have v: "endpoint_view ?tc ?x snap = Some e"
      by (rule view_of_listed [OF assms(3,4,5)]) (rule assms(6))
    have un: "endpoint_unavailable e" if "run_start (outage_history ?tc ?x (obs @ [(snap, now)])) = Some t0" for t0
      using outage_history_last [OF assms(2) that] unfolding v down_def by simp
    have "snd (last (views ?tc ?x (obs @ [(snap, now)]))) = now"
      using assms(2) by simp
    then show ?thesis
      using visible_iff [OF assms(1,2), of ?x ?tc] notification_ids_eq [OF assms(1), of ?tc ?x] un
      by (auto split: option.splits)
  qed
  finally show ?thesis .
qed

definition demo_observers :: observer_config where
  "demo_observers = \<lparr>oc_activity = demo_activity_cfg, oc_endpoints = demo_cfg,
     oc_trunks = demo_cfg\<lparr>tr_role := ''trunk''\<rparr>, oc_delay = 180 * sec, oc_persist = True\<rparr>"

definition demo_home :: home_config where
  "demo_home = \<lparr>display_name = ''Office'', extension_names = [], hc_fmt = isoformat, hc_tz = id\<rparr>"

definition nothing_saved :: last_active_state where
  "nothing_saved = \<lparr>la_last_active = Map.empty, la_was_available = Map.empty, la_saved = Map.empty\<rparr>"

theorem home_shows_confirmed_outages_witness:
  "\<exists>s \<in> set (hp_signals (home_payload_from_state demo_home
      (home_after demo_observers nothing_saved demo_obs (demo_snapshot ''Unreachable'') 15000000) 24)).
     sg_kind s = ''endpoint_unavailable'' \<and> dget (technical s) ''extension'' [] = ''200'' \<and>
     notification_id s = Some (outage_notification_id id ''200'' 10000000)"
proof -
  let ?e = "default_endpoint\<lparr>ep_extension := ''200'', device_state := ''Unreachable''\<rparr>"
  have s: "sorted (map snd (demo_obs @ [(demo_snapshot ''Unreachable'', 15000000)]))"
    by (simp add: demo_obs_def)
  have e: "?e \<in> set (endpoints (demo_snapshot ''Unreachable''))" by (simp add: demo_snapshot_def)
  have t: "\<not> is_trunk ?e" by (simp add: is_trunk_def default_endpoint_def)
  have c: "oc_endpoints demo_observers = demo_cfg" by (simp add: demo_observers_def)
  have r: "tr_role (oc_endpoints demo_observers) = ''extension''" by (simp add: c) (simp add: demo_cfg_def)
  have u: "d = ?e" if "d \<in> set (endpoints (demo_snapshot ''Unreachable''))" for d
    using that by (simp add: demo_snapshot_def)
  have x: "ep_extension ?e = ''200''" by simp
  have "(\<exists>t0. run_start (outage_history demo_cfg ''200'' (demo_obs @ [(demo_snapshot ''Unreachable'', 15000000)])) = Some t0 \<and>
      tr_outage_confirmation demo_cfg \<le> 15000000 - t0 \<and>
      outage_notification_id id ''200'' 10000000 = outage_notification_id (tr_tz demo_cfg) ''200'' t0)"
    unfolding demo_history by simp
  with home_shows_confirmed_outages [OF s demo_snapshot_reachable e t r, of demo_home nothing_saved 24
      "outage_notification_id id ''200'' 10000000", OF u] show ?thesis
    unfolding c x by blast
qed

section \<open>One payload\<close>

text \<open>
  While the PBX is unreachable the payload says so and nothing else about its devices: the first
  Signal is the reconnecting one, all others come from the local call history, no phone, trunk,
  live-call or Activity Signal is present, and the mood and the connection report the reconnection.
\<close>

theorem unreachable_home_reports_only_reconnection:
  assumes "\<not> reachable snap"
  shows "let p = build_home_payload cfg snap now hours evs confirmed trunks ids la in
    hp_signals p = reconnecting_signal snap # build_engine_signals (hc_tz cfg) snap (extension_names cfg) now \<and>
    (\<forall>s \<in> set (tl (hp_signals p)). sg_kind s \<in> engine_kinds) \<and>
    hp_mood p = ''PBXSense is trying to reach the PBX.'' \<and> cn_kind (hp_connection p) = ''reconnecting''"
  using assms kinds_engine [of "hc_tz cfg" snap "extension_names cfg" now]
  by (simp add: build_home_payload_def build_signals_def mood_of_def kinds_in_def Let_def)

definition down_snapshot :: ami_snapshot where
  "down_snapshot = default_snapshot\<lparr>reachable := False, error := Some ''timed out''\<rparr>"

theorem unreachable_home_reports_only_reconnection_witness:
  "hd (hp_signals (build_home_payload demo_home down_snapshot 0 24 [] None None Map.empty Map.empty)) =
     reconnecting_signal down_snapshot"
proof -
  have "\<not> reachable down_snapshot" by (simp add: down_snapshot_def)
  from unreachable_home_reports_only_reconnection [OF this, of demo_home 0 24 "[]" None None Map.empty Map.empty]
  show ?thesis by (simp add: Let_def)
qed

text \<open>
  For a reachable PBX the Signals are bounded by what the snapshot lists: at most five live-call
  Signals, at most one per endpoint, at most five Activity Signals; and every Activity Signal other
  than the live-call summary belongs to an event inside the selected window.
\<close>

theorem home_signals_bounded:
  assumes "reachable snap"
  shows "length (build_signals snap active names labels roles numbers now hours evs confirmed ids trunks)
      \<le> 10 + length (endpoints snap) \<and>
    (\<forall>s \<in> set (activity_signals active now hours evs). sg_id s \<noteq> ''sig_activity_live_calls'' \<longrightarrow>
      (\<exists>ev \<in> set evs. s = event_signal now ev \<and> now - hours * hour_us \<le> observed_at ev))"
proof
  have e: "length (endpoint_signals names confirmed ids trunks A e) \<le> 1" for A e
    by (simp add: endpoint_signals_def trunk_signals_def Let_def)
  have "length (concat (map (endpoint_signals names confirmed ids trunks A) es)) \<le> length es" for A es
  proof (induction es)
    case (Cons a es)
    with e [of A a] show ?case by simp
  qed simp
  from this [of "set (map channel_endpoint (filter (on_trunk roles) (take 5 active)))" "endpoints snap"]
  moreover have "length (activity_signals active now hours evs) \<le> 5" by (simp add: activity_signals_def)
  moreover have "length (take 5 active) \<le> 5" by simp
  ultimately show "length (build_signals snap active names labels roles numbers now hours evs confirmed ids trunks)
      \<le> 10 + length (endpoints snap)"
    using assms by (simp only: build_signals_def Let_def length_append length_map not_True_eq_False if_False)
next
  show "\<forall>s \<in> set (activity_signals active now hours evs). sg_id s \<noteq> ''sig_activity_live_calls'' \<longrightarrow>
      (\<exists>ev \<in> set evs. s = event_signal now ev \<and> now - hours * hour_us \<le> observed_at ev)"
    unfolding activity_signals_def by (auto simp: not_less dest!: in_set_takeD split: if_splits)
qed

theorem home_signals_bounded_witness:
  "length (build_signals two_down [] [] [] [] [] 0 24 [] None Map.empty None) \<le> 12"
proof -
  have "reachable two_down" by (simp add: two_down_def default_snapshot_def)
  from home_signals_bounded [OF this, of "[]" "[]" "[]" "[]" "[]" 0 24 "[]" None Map.empty None] show ?thesis
    by (simp add: two_down_def)
qed

text \<open>
  The mood is computed before the multi-phone tip is filtered out: two phones that have just
  become unavailable are neither shown nor tipped yet, no Signal of the payload needs attention, but
  the mood already says that something is worth watching.
\<close>

definition no_attention :: "home_payload \<Rightarrow> bool" where
  "no_attention p = list_all (\<lambda>s. importance s \<notin> {''attention'', ''important''}) (hp_signals p)"

definition two_unavailable :: ami_snapshot where
  "two_unavailable = phones_snapshot [(''200'', ''Unavailable''), (''201'', ''Unavailable'')]"

theorem mood_reports_hidden_tip:
  "let p = home_payload_from_state demo_home (home_after demo_observers nothing_saved [] two_unavailable 0) 24 in
   no_attention p \<and> hp_mood p = ''There is something worth watching.''"
  by code_simp

end
