(* ===== verification/EngineLaws.thy ===== *)
theory EngineLaws
  imports Engine
begin

text \<open>What the derived Signals of \<open>pbxsense_agent/engine.py\<close> promise about the calls they count.\<close>

section \<open>Missed-call ranking\<close>

text \<open>The distinct missed attempts that targeted \<open>d\<close>.\<close>

definition attempts :: "(datetime \<Rightarrow> int) \<Rightarrow> string pydict \<Rightarrow> cdr_call list \<Rightarrow> string \<Rightarrow> (string \<times> string) set" where
  "attempts tz labels cs d = {call_attempt_key tz c | c. c \<in> set cs \<and>
     interpreted_call_kind c = ''missed'' \<and> d \<in> set (missed_call_targets c labels)}"

lemma missed_pairs_iff: "(d, k) \<in> set (missed_pairs tz labels cs) \<longleftrightarrow> k \<in> attempts tz labels cs d"
  by (auto simp: missed_pairs_def missed_calls_def attempts_def)

lemma missed_by_destination_items:
  assumes "(d, ks) \<in> set (missed_by_destination tz labels cs)"
  shows "set ks = attempts tz labels cs d" and "length ks = card (attempts tz labels cs d)"
proof -
  from assms obtain ps where ps: "(d, ps) \<in> set (group_by fst (missed_pairs tz labels cs))"
    and ks: "ks = remdups (map snd ps)"
    by (auto simp: missed_by_destination_def)
  have "ps = filter (\<lambda>x. fst x = d) (missed_pairs tz labels cs)" by (rule group_by_items(1) [OF ps])
  then show s: "set ks = attempts tz labels cs d"
    using missed_pairs_iff [of d _ tz labels cs] by (force simp: ks)
  have "distinct ks" by (simp add: ks)
  then show "length ks = card (attempts tz labels cs d)" by (simp add: s [symmetric] distinct_card)
qed

lemma missed_by_destination_keys:
  "map fst (missed_by_destination tz labels cs) = first_keys fst (missed_pairs tz labels cs)"
proof -
  have "map fst (missed_by_destination tz labels cs) = map fst (group_by fst (missed_pairs tz labels cs))"
    by (simp add: missed_by_destination_def case_prod_beta comp_def)
  then show ?thesis by simp
qed

text \<open>The general fact behind every "top n" list of the engine: of distinct keyed items in
  descending order of rank, the first \<open>n\<close> that pass a threshold leave out only items below the
  threshold or, when \<open>n\<close> are shown, items that rank no higher than any shown one.\<close>

lemma top_n_complete:
  fixes f :: "'a \<Rightarrow> nat"
  assumes s: "sorted_wrt (\<lambda>x y. f y \<le> f x) xs" and x: "x \<in> set xs" and t: "k \<le> f x"
    and n: "x \<notin> set (filter (\<lambda>y. k \<le> f y) (take n xs))"
  shows "length (filter (\<lambda>y. k \<le> f y) (take n xs)) = n \<and> (\<forall>y \<in> set (take n xs). f x \<le> f y)"
proof -
  have "x \<notin> set (take n xs)" using n t by simp
  with x have d: "x \<in> set (drop n xs)" by (metis Un_iff append_take_drop_id set_append)
  from s have "sorted_wrt (\<lambda>x y. f y \<le> f x) (take n xs @ drop n xs)" by simp
  with d have le: "\<forall>y \<in> set (take n xs). f x \<le> f y" unfolding sorted_wrt_append by blast
  with t have "filter (\<lambda>y. k \<le> f y) (take n xs) = take n xs" by (intro filter_True) fastforce
  moreover have "n < length xs" using d by (metis drop_eq_Nil empty_iff empty_set leI)
  ultimately show ?thesis using le by simp
qed

definition shown_destinations :: "signal list \<Rightarrow> string list" where
  "shown_destinations sgs = map (\<lambda>s. dget (technical s) ''extension'' []) sgs"

lemma shown_missed:
  "shown_destinations (missed_call_recommendations tz eps cs names now) =
     map fst (filter (\<lambda>item. 2 \<le> length (snd item))
       (take 3 (ranked_destinations tz (person_endpoint_labels eps) cs)))"
  by (simp add: shown_destinations_def missed_call_recommendations_def missed_signal_def Let_def
      case_prod_beta dget_def comp_def mk_signal_def)

lemma ranked_set [simp]:
  "set (ranked_destinations tz labels cs) = set (missed_by_destination tz labels cs)"
  by (simp add: ranked_destinations_def)

lemma distinct_ranked: "distinct (map fst (ranked_destinations tz labels cs))"
proof -
  have "distinct (map fst (missed_by_destination tz labels cs))"
    unfolding missed_by_destination_keys by simp
  then show ?thesis by (simp add: distinct_map ranked_destinations_def sort_desc_def)
qed

text \<open>
  C31. The missed-call recommendation names at most three phones, each at most once, each with at least
  two distinct missed attempts, the count it quotes is the number of those attempts, and the choice is
  the top of the ranking: a phone with two or more attempts is left out only when three others with
  at least as many are shown.
\<close>

theorem missed_recommendations_are_top_ranked:
  "let sgs = missed_call_recommendations tz eps cs names now; shown = shown_destinations sgs;
       n = (\<lambda>d. card (attempts tz (person_endpoint_labels eps) cs d)) in
   length shown \<le> 3 \<and> distinct shown \<and>
   (\<forall>s \<in> set sgs. 2 \<le> n (dget (technical s) ''extension'' []) \<and>
      dget (technical s) ''missed_calls'' [] = show_nat (n (dget (technical s) ''extension'' []))) \<and>
   (\<forall>d. d \<notin> set shown \<longrightarrow> 2 \<le> n d \<longrightarrow> length shown = 3 \<and> (\<forall>e \<in> set shown. n d \<le> n e))"
proof -
  let ?labels = "person_endpoint_labels eps"
  let ?R = "ranked_destinations tz ?labels cs"
  let ?F = "filter (\<lambda>item. 2 \<le> length (snd item)) (take 3 ?R)"
  let ?n = "\<lambda>d. card (attempts tz ?labels cs d)"
  have item: "length (snd i) = ?n (fst i)" if "i \<in> set ?R" for i
    using that missed_by_destination_items(2) [of "fst i" "snd i" tz ?labels cs] by simp
  have sub: "set ?F \<subseteq> set ?R" by (auto dest: in_set_takeD)
  have "length ?F \<le> length (take 3 ?R)" by (rule length_filter_le)
  then have 1: "length (map fst ?F) \<le> 3" by simp
  have "distinct (map fst (take 3 ?R))" using distinct_ranked [of tz ?labels cs] by (simp add: take_map [symmetric])
  then have 2: "distinct (map fst ?F)" by (simp add: distinct_map_filter)
  have 3: "2 \<le> ?n (dget (technical s) ''extension'' []) \<and>
      dget (technical s) ''missed_calls'' [] = show_nat (?n (dget (technical s) ''extension'' []))"
    if s: "s \<in> set (missed_call_recommendations tz eps cs names now)" for s
  proof -
    from s obtain i where i: "i \<in> set ?F" "s = missed_signal ?labels names (history_window cs now) i"
      by (auto simp: missed_call_recommendations_def Let_def)
    with sub item have "length (snd i) = ?n (fst i)" by blast
    with i show ?thesis by (auto simp: missed_signal_def Let_def dget_def split: prod.splits)
  qed
  have 4: "length (map fst ?F) = 3 \<and> (\<forall>e \<in> set (map fst ?F). ?n d \<le> ?n e)"
    if d: "d \<notin> set (map fst ?F)" "2 \<le> ?n d" for d
  proof -
    have "attempts tz ?labels cs d \<noteq> {}" using d(2) by auto
    then obtain k where "(d, k) \<in> set (missed_pairs tz ?labels cs)" using missed_pairs_iff by blast
    then have "d \<in> fst ` set (missed_by_destination tz ?labels cs)"
      using missed_by_destination_keys [of tz ?labels cs] by (metis fst_conv image_eqI set_first_keys set_map)
    then obtain ks where x: "(d, ks) \<in> set ?R" by auto
    have t: "2 \<le> length (snd (d, ks))" using item [OF x] d(2) by simp
    have srt: "sorted_wrt (\<lambda>x y. length (snd y) \<le> length (snd x)) ?R"
      unfolding ranked_destinations_def by (rule sorted_sort_desc)
    have "(d, ks) \<notin> set ?F" using d(1) by force
    from top_n_complete [OF srt x t this]
    have "length ?F = 3" and le: "\<forall>y \<in> set (take 3 ?R). length (snd (d, ks)) \<le> length (snd y)" by blast+
    moreover have "?n d \<le> ?n e" if "e \<in> set (map fst ?F)" for e
      using that le item [OF x] item by (fastforce dest: in_set_takeD)
    ultimately show ?thesis by simp
  qed
  from 1 2 3 4 show ?thesis unfolding Let_def shown_missed by blast
qed

definition demo_call :: "string \<Rightarrow> string \<Rightarrow> string \<Rightarrow> datetime \<Rightarrow> cdr_call" where
  "demo_call src dst disp t = default_call\<lparr>source := src, destination := dst, disposition := disp,
     started_at := Some t, destination_channel := ''PJSIP/'' @ dst @ ''-01''\<rparr>"

definition demo_phone :: ami_endpoint where
  "demo_phone = default_endpoint\<lparr>ep_extension := ''200'', ep_label := ''Reception''\<rparr>"

definition demo_calls :: "cdr_call list" where
  "demo_calls = [demo_call ''301'' ''200'' ''NO ANSWER'' 0, demo_call ''302'' ''200'' ''BUSY'' (20 * second_us),
     demo_call ''302'' ''200'' ''BUSY'' (21 * second_us)]"

theorem missed_recommendations_are_top_ranked_witness:
  "shown_destinations (missed_call_recommendations id [demo_phone] demo_calls [] (30 * second_us)) = [''200''] \<and>
   list_all (\<lambda>s. 2 \<le> card (attempts id (person_endpoint_labels [demo_phone]) demo_calls
       (dget (technical s) ''extension'' [])))
     (missed_call_recommendations id [demo_phone] demo_calls [] (30 * second_us))"
proof
  show "shown_destinations (missed_call_recommendations id [demo_phone] demo_calls [] (30 * second_us)) = [''200'']"
    by code_simp
  show "list_all (\<lambda>s. 2 \<le> card (attempts id (person_endpoint_labels [demo_phone]) demo_calls
       (dget (technical s) ''extension'' [])))
     (missed_call_recommendations id [demo_phone] demo_calls [] (30 * second_us))"
    using missed_recommendations_are_top_ranked [of id "[demo_phone]" demo_calls "[]" "30 * second_us"]
    unfolding Let_def list_all_iff by blast
qed

section \<open>Counting\<close>

lemma missed_calls_Cons:
  "missed_calls (c # cs) = (if interpreted_call_kind c = ''missed'' then c # missed_calls cs else missed_calls cs)"
  by (simp add: missed_calls_def)

text \<open>
  Call legs of one attempt count once: two missed records of the same caller whose start times
  fall into the same ten-second bucket add one missed attempt, so the missed count never exceeds the
  number of missed records and is zero only when there is none.
\<close>

theorem missed_count_dedupes_attempts:
  "missed_count tz cs \<le> length (missed_calls cs) \<and>
   (missed_count tz cs = 0 \<longleftrightarrow> (\<forall>c \<in> set cs. interpreted_call_kind c \<noteq> ''missed'')) \<and>
   (call_attempt_key tz c = call_attempt_key tz d \<longrightarrow>
      missed_count tz (c # d # cs) = missed_count tz (if interpreted_call_kind d = ''missed'' then d # cs else c # cs))"
proof (intro conjI impI)
  show "missed_count tz cs = 0 \<longleftrightarrow> (\<forall>c \<in> set cs. interpreted_call_kind c \<noteq> ''missed'')"
    unfolding missed_count_0_iff by (simp add: missed_calls_def filter_empty_conv)
  assume "call_attempt_key tz c = call_attempt_key tz d"
  then show "missed_count tz (c # d # cs) =
      missed_count tz (if interpreted_call_kind d = ''missed'' then d # cs else c # cs)"
    by (simp add: missed_count_card missed_calls_Cons)
qed (rule missed_count_le)

theorem missed_count_dedupes_attempts_witness:
  "missed_count id demo_calls = 2 \<and> missed_count id demo_calls \<le> length (missed_calls demo_calls)"
proof
  show "missed_count id demo_calls = 2" by code_simp
  show "missed_count id demo_calls \<le> length (missed_calls demo_calls)"
    using missed_count_dedupes_attempts [of id demo_calls] by blast
qed

definition classified :: "(datetime \<Rightarrow> int) \<Rightarrow> cdr_call list \<Rightarrow> voicemail_message list \<Rightarrow> nat" where
  "classified tz cs vms = kind_count ''answered'' cs + missed_count tz cs + kind_count ''ivr_reached'' cs + length vms"

lemma count_Nil [simp]: "kind_count k [] = 0" "missed_count tz [] = 0"
  by (simp_all add: kind_count_def missed_count_def missed_calls_def)

lemma classified_0_iff: "classified tz cs vms = 0 \<longleftrightarrow> vms = [] \<and> (\<forall>c \<in> set cs. interpreted_call_kind c = [])"
proof -
  have k: "kind_count k cs = 0 \<longleftrightarrow> (\<forall>c \<in> set cs. interpreted_call_kind c \<noteq> k)" for k
    by (auto simp: kind_count_def filter_empty_conv)
  have m: "missed_count tz cs = 0 \<longleftrightarrow> (\<forall>c \<in> set cs. interpreted_call_kind c \<noteq> ''missed'')"
    unfolding missed_count_0_iff by (simp add: missed_calls_def filter_empty_conv)
  have "interpreted_call_kind c = [] \<longleftrightarrow> interpreted_call_kind c \<noteq> ''answered'' \<and>
      interpreted_call_kind c \<noteq> ''missed'' \<and> interpreted_call_kind c \<noteq> ''ivr_reached''" for c
    using interpreted_call_kind_cases [of c] by auto
  then show ?thesis unfolding classified_def add_is_0 k m length_0_conv by blast
qed

definition mix_text :: "(datetime \<Rightarrow> int) \<Rightarrow> cdr_call list \<Rightarrow> voicemail_message list \<Rightarrow> string \<times> string" where
  "mix_text tz cs vms = call_mix_text (kind_count ''answered'' cs) (missed_count tz cs)
     (kind_count ''ivr_reached'' cs) (length vms)"

lemma call_mix_cases:
  "call_mix_insights tz cs vms now = [] \<and> classified tz cs vms = 0 \<or>
   classified tz cs vms \<noteq> 0 \<and>
     (\<exists>s. call_mix_insights tz cs vms now = [s] \<and> sg_title s = fst (mix_text tz cs vms))"
proof (cases "classified tz cs vms = 0")
  case True
  then have "call_mix_insights tz cs vms now = []"
    unfolding call_mix_insights_def classified_def by (simp add: case_prod_beta)
  with True show ?thesis by simp
next
  case False
  then have "\<not> (cs = [] \<and> vms = [])" by (auto simp: classified_0_iff)
  with False show ?thesis
    unfolding call_mix_insights_def classified_def mix_text_def Let_def case_prod_beta by auto
qed

text \<open>
  The call-mix insight appears exactly when there is something to report: at least one record
  that reads as answered, missed or IVR-reached, or at least one voicemail; it is a single Signal and
  its text says that missed calls exceed answered ones only when the attempts really do.
\<close>

theorem call_mix_reports_history:
  "(call_mix_insights tz cs vms now \<noteq> [] \<longleftrightarrow> vms \<noteq> [] \<or> (\<exists>c \<in> set cs. interpreted_call_kind c \<noteq> [])) \<and>
   length (call_mix_insights tz cs vms now) \<le> 1 \<and>
   (\<forall>s \<in> set (call_mix_insights tz cs vms now).
      sg_title s = ''Missed calls are higher than answered calls.'' \<longrightarrow>
      kind_count ''answered'' cs < missed_count tz cs)"
proof (intro conjI)
  show "call_mix_insights tz cs vms now \<noteq> [] \<longleftrightarrow> vms \<noteq> [] \<or> (\<exists>c \<in> set cs. interpreted_call_kind c \<noteq> [])"
    using call_mix_cases [of tz cs vms now] classified_0_iff [of tz cs vms] by auto
  show "length (call_mix_insights tz cs vms now) \<le> 1"
    using call_mix_cases [of tz cs vms now] by auto
  have "kind_count ''answered'' cs < missed_count tz cs"
    if "fst (mix_text tz cs vms) = ''Missed calls are higher than answered calls.''"
    using that by (simp add: mix_text_def call_mix_text_def split: if_splits)
  then show "\<forall>s \<in> set (call_mix_insights tz cs vms now).
      sg_title s = ''Missed calls are higher than answered calls.'' \<longrightarrow> kind_count ''answered'' cs < missed_count tz cs"
    using call_mix_cases [of tz cs vms now] by auto
qed

theorem call_mix_reports_history_witness:
  "list_all (\<lambda>s. sg_title s = ''Missed calls are higher than answered calls.'' \<and> kind_count ''answered'' demo_calls < 2)
     (call_mix_insights id demo_calls [] 0)"
proof -
  have t: "list_all (\<lambda>s. sg_title s = ''Missed calls are higher than answered calls.'') (call_mix_insights id demo_calls [] 0)"
    by code_simp
  have "missed_count id demo_calls = 2" by code_simp
  with t call_mix_reports_history [of id demo_calls "[]" 0] show ?thesis
    by (auto simp: list_all_iff)
qed

section \<open>Adaptive volume\<close>

lemma sum_list_nat_bounds:
  assumes "\<forall>b \<in> set bs. m \<le> b \<and> b \<le> (M::nat)"
  shows "m * length bs \<le> sum_list bs \<and> sum_list bs \<le> M * length bs"
  using assms by (induction bs) auto

lemma ceil_rat_bounds: "of_int a \<le> x \<Longrightarrow> a \<le> ceil_rat x" "x \<le> of_int b \<Longrightarrow> ceil_rat x \<le> b"
proof -
  have c: "ceil_rat x = \<lceil>x\<rceil>" by (simp add: ceil_rat_def ceiling_def)
  show "of_int a \<le> x \<Longrightarrow> a \<le> ceil_rat x" unfolding c by (metis ceiling_mono ceiling_of_int)
  show "x \<le> of_int b \<Longrightarrow> ceil_rat x \<le> b" unfolding c by (simp add: ceiling_le_iff)
qed

lemma volume_target_bounds:
  assumes "bs \<noteq> []" and "\<forall>b \<in> set bs. m \<le> b \<and> b \<le> M" and "M < 2 ^ 53"
  shows "max 1 (int m) \<le> volume_target bs \<and> volume_target bs \<le> max 1 (int M)"
proof -
  let ?q = "of_int (int (sum_list bs)) / of_int (int (length bs)) :: rat"
  have l: "(0::rat) < of_int (int (length bs))" using assms(1) by simp
  have sums: "m * length bs \<le> sum_list bs" "sum_list bs \<le> M * length bs"
    using sum_list_nat_bounds [OF assms(2)] by auto
  from sums(1) have "of_nat (m * length bs) \<le> (of_nat (sum_list bs) :: rat)" by (simp only: of_nat_le_iff)
  then have lo: "of_int (int m) \<le> ?q" using l by (simp add: field_simps)
  from sums(2) have "of_nat (sum_list bs) \<le> (of_nat (M * length bs) :: rat)" by (simp only: of_nat_le_iff)
  then have hi: "?q \<le> of_int (int M)" using l by (simp add: field_simps)
  have "(of_nat M :: rat) < of_nat (2 ^ 53)" using assms(3) by (simp only: of_nat_less_iff)
  then have "?q < 2 ^ 53" using hi by simp
  moreover have "0 \<le> ?q" by simp
  ultimately have "of_int (int m) \<le> volume_average bs \<and> volume_average bs \<le> of_int (int M)"
    unfolding volume_average_def int_div_fl_def using fl_bounds lo hi by blast
  with ceil_rat_bounds(1) [of "int m" "volume_average bs"] ceil_rat_bounds(2) [of "volume_average bs" "int M"]
  show ?thesis by (auto simp: volume_target_def max_def)
qed

text \<open>
  The adaptive volume target stays inside the PBX's own experience, floating-point rounding
  included: with at least one baseline period and counts below \<open>2 ^ 53\<close>, a period that matches the
  best baseline (and has a call) always reaches the target, and one below the worst baseline, or
  without any call, never does.
\<close>

theorem adaptive_target_within_experience:
  assumes "bs \<noteq> []" and "\<forall>b \<in> set bs. m \<le> b \<and> b \<le> M" and "M < 2 ^ 53"
  shows "(max 1 M \<le> current \<longrightarrow> average_volume_moment period current bs n \<noteq> []) \<and>
    (current < max 1 m \<longrightarrow> average_volume_moment period current bs n = [])"
  using volume_target_bounds [OF assms]
  by (auto simp: average_volume_moment_def Let_def)

theorem adaptive_target_within_experience_witness:
  "average_volume_moment ''daily'' 9 [4, 9, 7] 3 \<noteq> [] \<and> average_volume_moment ''daily'' 3 [4, 9, 7] 3 = []"
  using adaptive_target_within_experience [of "[4, 9, 7]" 4 9 9 "''daily''" 3]
    adaptive_target_within_experience [of "[4, 9, 7]" 4 9 3 "''daily''" 3] by simp

section \<open>Streaks\<close>

lemma dated_calls_iff: "(c, t) \<in> set (dated_calls cs) \<longleftrightarrow> c \<in> set cs \<and> started_at c = Some t"
  by (auto simp: dated_calls_def in_set_map_filter)

lemma call_dates_iff: "d \<in> set (call_dates (dated_calls cs)) \<longleftrightarrow>
    (\<exists>c \<in> set cs. \<exists>t. started_at c = Some t \<and> date_of t = d)"
  using dated_calls_iff [of _ _ cs] by (force simp: call_dates_def)

lemma calls_on_iff: "c \<in> set (calls_on cs d) \<longleftrightarrow> c \<in> set cs \<and> (\<exists>t. started_at c = Some t \<and> date_of t = d)"
proof -
  have "set (opt_or (map_of (group_by (\<lambda>ct. date_of (snd ct)) (dated_calls cs)) d) []) =
      {ct \<in> set (dated_calls cs). date_of (snd ct) = d}"
    by (auto simp: group_by_lookup intro: rev_image_eqI)
  then show ?thesis using dated_calls_iff [of c _ cs] by (force simp: calls_on_def)
qed

text \<open>A day with at least one dated call and no missed one, and a day with a dated call and no
  voicemail.\<close>

definition clean_day :: "cdr_call list \<Rightarrow> int \<Rightarrow> bool" where
  "clean_day cs d \<longleftrightarrow> (\<exists>c \<in> set (calls_on cs d). True) \<and>
     (\<forall>c \<in> set (calls_on cs d). interpreted_call_kind c \<noteq> ''missed'')"

definition voicemail_free_day :: "cdr_call list \<Rightarrow> voicemail_message list \<Rightarrow> int \<Rightarrow> bool" where
  "voicemail_free_day cs vms d \<longleftrightarrow> (\<exists>c \<in> set (calls_on cs d). True) \<and>
     (\<forall>m \<in> set vms. \<forall>t. created_at m = Some t \<longrightarrow> date_of t \<noteq> d)"

text \<open>
  C33. The two streak counters are exactly the length of the longest run of good days that ends at the
  starting day, which for the clean streak is today only once the working day is over (17:00): a day
  without calls ends both.
\<close>

theorem streaks_are_maximal_runs:
  "(clean_streak tz cs now = n \<longleftrightarrow>
     (let start = if hour_of now < 17 then date_of now - 1 else date_of now in
      (\<forall>i. 0 \<le> i \<and> i < int n \<longrightarrow> clean_day cs (start - i)) \<and> \<not> clean_day cs (start - int n))) \<and>
   (voicemail_free_streak cs vms now = m \<longleftrightarrow>
      (\<forall>i. 0 \<le> i \<and> i < int m \<longrightarrow> voicemail_free_day cs vms (date_of now - i)) \<and>
      \<not> voicemail_free_day cs vms (date_of now - int m))"
proof -
  have has: "d \<in> set (call_dates (dated_calls cs)) \<longleftrightarrow> (\<exists>c \<in> set (calls_on cs d). True)" for d
    by (auto simp: call_dates_iff calls_on_iff)
  have clean: "d \<in> set (call_dates (dated_calls cs)) \<and> missed_count tz (calls_on cs d) = 0 \<longleftrightarrow> clean_day cs d" for d
    unfolding has clean_day_def missed_count_0_iff by (simp add: missed_calls_def filter_empty_conv)
  have vm: "d \<notin> set (voicemail_dates vms) \<longleftrightarrow> (\<forall>m \<in> set vms. \<forall>t. created_at m = Some t \<longrightarrow> date_of t \<noteq> d)" for d
    by (force simp: voicemail_dates_def in_set_map_filter)
  have free: "d \<in> set (call_dates (dated_calls cs)) \<and> d \<notin> set (voicemail_dates vms) \<longleftrightarrow> voicemail_free_day cs vms d" for d
    unfolding has vm voicemail_free_day_def by simp
  show ?thesis
    unfolding clean_streak_def voicemail_free_streak_def streak_iff Let_def clean free by simp
qed

text \<open>Three clean days, asked in the evening.\<close>

definition streak_calls :: "cdr_call list" where
  "streak_calls = map (\<lambda>d. demo_call ''301'' ''200'' ''ANSWERED'' (d * day_us)) [5, 6, 7]"

theorem streaks_are_maximal_runs_witness:
  "clean_streak id streak_calls (7 * day_us + 18 * hour_us) = 3 \<and> \<not> clean_day streak_calls (8 - 3)"
proof -
  have s: "clean_streak id streak_calls (7 * day_us + 18 * hour_us) = 3" by code_simp
  have d: "date_of (7 * day_us + 18 * hour_us) = 8" "\<not> hour_of (7 * day_us + 18 * hour_us) < 17" by code_simp+
  from streaks_are_maximal_runs [of id streak_calls "7 * day_us + 18 * hour_us" 3] s show ?thesis
    by (simp add: d Let_def)
qed

section \<open>Patterns and clusters\<close>

text \<open>
  The busiest hour of the rhythm insight is a real hour of the day with at least four calls, the
  count is the number of dated calls in it, and no other hour has more.
\<close>

theorem busiest_hour_is_maximal:
  assumes "busiest_hour (dated_calls cs) = Some (h, n)"
  shows "0 \<le> h \<and> h \<le> 23 \<and> 4 \<le> n \<and>
    n = length (filter (\<lambda>ct. hour_of (snd ct) = h) (dated_calls cs)) \<and>
    (\<forall>k. length (filter (\<lambda>ct. hour_of (snd ct) = k) (dated_calls cs)) \<le> n)"
proof -
  let ?hs = "map (\<lambda>ct. hour_of (snd ct)) (dated_calls cs)"
  have len: "length (filter (\<lambda>ct. hour_of (snd ct) = k) (dated_calls cs)) = count_list ?hs k" for k
    by (simp add: count_list_filter filter_map comp_def)
  from assms have max: "first_max snd (counter ?hs) = Some (h, n)" and n: "4 \<le> n"
    by (auto simp: busiest_hour_def split: option.splits prod.splits if_splits)
  from first_max_Some [OF max] have "(h, n) \<in> set (counter ?hs)" and le: "\<forall>y \<in> set (counter ?hs). snd y \<le> n" by auto
  then have h: "h \<in> set ?hs" "n = count_list ?hs h" by (auto simp: counter_in_set)
  have "count_list ?hs k \<le> n" for k
  proof (cases "k \<in> set ?hs")
    case True
    then have "(k, count_list ?hs k) \<in> set (counter ?hs)" by (simp add: counter_in_set)
    with le show ?thesis by fastforce
  qed (simp add: count_list_0_iff)
  moreover have "0 \<le> h \<and> h \<le> 23" using h(1) hour_of_range by auto
  ultimately show ?thesis using n h(2) by (simp add: len)
qed

definition hour_calls :: "cdr_call list" where
  "hour_calls = map (\<lambda>d. demo_call ''301'' ''200'' ''ANSWERED'' (d * day_us + 9 * hour_us)) [1, 2, 3, 4]"

theorem busiest_hour_is_maximal_witness:
  "busiest_hour (dated_calls hour_calls) = Some (9, 4) \<and>
   (\<forall>k. length (filter (\<lambda>ct. hour_of (snd ct) = k) (dated_calls hour_calls)) \<le> 4)"
proof -
  have b: "busiest_hour (dated_calls hour_calls) = Some (9, 4)" by code_simp
  from busiest_hour_is_maximal [OF b] b show ?thesis by blast
qed

text \<open>
  Security Signals need a cluster inside the last fifteen minutes: each of the four kinds is
  present exactly when its threshold is reached by events (or failed calls) that are dated no more
  than fifteen minutes before now.
\<close>

definition events_since :: "string set \<Rightarrow> datetime \<Rightarrow> security_event list \<Rightarrow> nat" where
  "events_since K now evs = length (filter (\<lambda>e. ev_kind e \<in> K \<and>
     (\<exists>t. occurred_at e = Some t \<and> now - 15 * minute_us \<le> t)) evs)"

theorem security_signals_iff_clusters:
  "((\<exists>s \<in> set (security_signals cs evs now). sg_kind s = ''failed_call_cluster'') \<longleftrightarrow>
      3 \<le> length (filter (\<lambda>c. upper (disposition c) \<in> {''FAILED'', ''CONGESTION''} \<and>
        (\<exists>t. started_at c = Some t \<and> now - 15 * minute_us \<le> t)) cs)) \<and>
   ((\<exists>s \<in> set (security_signals cs evs now). sg_kind s = ''authentication_failure_cluster'') \<longleftrightarrow>
      3 \<le> events_since {''InvalidAccountID'', ''InvalidPassword'', ''ChallengeResponseFailed''} now evs) \<and>
   ((\<exists>s \<in> set (security_signals cs evs now). sg_kind s = ''acl_failure_cluster'') \<longleftrightarrow>
      2 \<le> events_since {''FailedACL''} now evs) \<and>
   ((\<exists>s \<in> set (security_signals cs evs now). sg_kind s = ''malformed_request_cluster'') \<longleftrightarrow>
      3 \<le> events_since {''RequestBadFormat''} now evs)"
proof -
  have recent: "length (filter (\<lambda>e. ev_kind e \<in> set ks) (recent_security_events evs now)) = events_since (set ks) now evs" for ks
    unfolding recent_security_events_def events_since_def filter_filter security_cutoff_def
    by (intro arg_cong [where f = length] filter_cong refl) (auto split: option.splits)
  have cluster: "(\<exists>s \<in> set (event_cluster ks n i k t b f (recent_security_events evs now)). sg_kind s = k') \<longleftrightarrow>
      k' = k \<and> n \<le> events_since (set ks) now evs" for ks n i k t b f k'
    by (auto simp: event_cluster_def Let_def recent)
  have failed: "failed_calls cs now = filter (\<lambda>c. upper (disposition c) \<in> {''FAILED'', ''CONGESTION''} \<and>
        (\<exists>t. started_at c = Some t \<and> now - 15 * minute_us \<le> t)) cs"
    unfolding failed_calls_def security_cutoff_def by (intro filter_cong refl) (auto split: option.splits)
  have fc: "(\<exists>s \<in> set (failed_call_signal cs now). sg_kind s = k') \<longleftrightarrow>
      k' = ''failed_call_cluster'' \<and> 3 \<le> length (failed_calls cs now)" for k'
    by (auto simp: failed_call_signal_def Let_def)
  show ?thesis
    unfolding failed [symmetric] security_signals_def Let_def
    by (simp only: set_append bex_Un fc cluster) simp
qed

section \<open>The multi-phone tip\<close>

lemma set_spaced: "replace_char a b s = map (\<lambda>x. if x = a then b else x) s"
  by (simp add: replace_char_def)

lemma contains_map: "contains p s \<Longrightarrow> contains (map f p) (map f s)"
  by (force simp: contains_iff)

lemma contains_dropWhile:
  assumes "contains p s" and "\<forall>c \<in> set p. \<not> P c" and "p \<noteq> []"
  shows "contains p (dropWhile P s)"
  using assms
proof (induction s)
  case (Cons c s)
  show ?case
  proof (cases "P c")
    case True
    with Cons.prems have "\<not> prefix p (c # s)" by (cases p) auto
    with Cons.prems have "contains p s" by simp
    with Cons True show ?thesis by simp
  qed (use Cons in simp)
qed simp

lemma contains_rev: "contains (rev p) (rev s) \<longleftrightarrow> contains p s"
proof -
  have "contains p s \<Longrightarrow> contains (rev p) (rev s)" for p s :: string
    by (force simp: contains_iff)
  from this [of p s] this [of "rev p" "rev s"] show ?thesis by auto
qed

lemma contains_strip:
  assumes "contains p s" and "\<forall>c \<in> set p. \<not> is_space c" and "p \<noteq> []"
  shows "contains p (strip s)"
proof -
  have 1: "contains p (dropWhile is_space s)" by (rule contains_dropWhile [OF assms])
  then have "contains (rev p) (rev (dropWhile is_space s))" by (simp add: contains_rev)
  then have "contains (rev p) (dropWhile is_space (rev (dropWhile is_space s)))"
    by (rule contains_dropWhile) (use assms in auto)
  then show ?thesis
    using contains_rev [of p "rev (dropWhile is_space (rev (dropWhile is_space s)))"]
    by (simp add: strip_def strip_chars_def rstrip_chars_def)
qed

lemma lower_char_space: "is_space c \<Longrightarrow> lower_char c = c"
  by (auto simp: is_space_def lower_char_def Let_def)

lemma spaced_map: "spaced s = map (\<lambda>c. if (if c = CHR ''_'' then CHR '' '' else c) = CHR ''-'' then CHR '' ''
    else (if c = CHR ''_'' then CHR '' '' else c)) s"
  by (simp add: spaced_def replace_char_def comp_def)

lemma marker_survives_normalization:
  assumes "contains p (lower ds)" and "p \<noteq> []" and "\<forall>c \<in> set p. \<not> is_space c" and "spaced p = p"
  shows "contains p (spaced (lower (strip ds)))"
proof -
  from assms(1) obtain a b where ab: "map lower_char ds = a @ (p @ b)"
    unfolding contains_iff lower_def by (elim exE)
  obtain a' r where ds: "ds = a' @ r" and r: "p @ b = map lower_char r"
    using iffD1 [OF map_eq_append_conv ab] by (elim exE conjE)
  obtain q b' where "r = q @ b'" and "p = map lower_char q"
    using iffD1 [OF map_eq_append_conv r [symmetric]] by (elim exE conjE)
  then have qp: "map lower_char q = p" and "ds = a' @ q @ b'" using ds by simp_all
  then have "contains q ds" unfolding contains_iff by (intro exI)
  with qp have q: "contains q ds" "lower q = p" by (simp_all add: lower_def)
  have "\<not> is_space c" if "c \<in> set q" for c
  proof
    assume "is_space c"
    then have "lower_char c = c" by (rule lower_char_space)
    moreover from that have "lower_char c \<in> set p" unfolding qp [symmetric] by simp
    ultimately show False using assms(3) \<open>is_space c\<close> by simp
  qed
  moreover have "q \<noteq> []" using qp assms(2) by (cases q) simp_all
  ultimately have "contains q (strip ds)" by (intro contains_strip [OF q(1)] ballI)
  then have "contains (map lower_char q) (map lower_char (strip ds))" by (rule contains_map)
  then have "contains p (lower (strip ds))" unfolding qp lower_def .
  then have "contains (spaced p) (spaced (lower (strip ds)))" unfolding spaced_map by (rule contains_map)
  then show ?thesis unfolding assms(4) .
qed

lemma marker_shape:
  "\<forall>c \<in> set ''unavailable''. \<not> is_space c" "spaced ''unavailable'' = ''unavailable''"
  "\<forall>c \<in> set ''unreachable''. \<not> is_space c" "spaced ''unreachable'' = ''unreachable''"
  by code_simp+

lemma engine_unavailable_home_unavailable:
  assumes "engine_endpoint_unavailable e"
  shows "endpoint_unavailable e"
proof -
  have "contains ''unavailable'' (spaced (lower (strip (device_state e))))"
    if "contains ''unavailable'' (lower (device_state e))"
    by (rule marker_survives_normalization [OF that]) (simp, rule marker_shape, rule marker_shape)
  moreover have "contains ''unreachable'' (spaced (lower (strip (device_state e))))"
    if "contains ''unreachable'' (lower (device_state e))"
    by (rule marker_survives_normalization [OF that]) (simp, rule marker_shape, rule marker_shape)
  moreover have "any_marker unavailable_markers s" if "m \<in> set unavailable_markers" "contains m s" for m s
    using that by (auto simp: any_marker_def list_ex_iff)
  moreover have "''unavailable'' \<in> set unavailable_markers" "''unreachable'' \<in> set unavailable_markers"
    by (simp_all add: unavailable_markers_def)
  ultimately show ?thesis
    using assms unfolding engine_endpoint_unavailable_def endpoint_unavailable_def device_state_is_unavailable_def Let_def
    by blast
qed

lemma tip_empty: "length (unavailable_persons eps) < 2 \<Longrightarrow> endpoint_recommendations eps names = []"
  by (simp add: endpoint_recommendations_def)

text \<open>
  The engine's tip about several unavailable phones is sound for the Home view: when it is shown,
  at least two phones are unavailable there too, so the tip never contradicts the People list. The
  engine recognizes fewer device states than the Home view: a state such as Unregistered makes a
  phone unavailable there and does not count here.
\<close>

theorem multi_phone_tip_sound:
  "(endpoint_recommendations eps names \<noteq> [] \<longrightarrow>
     2 \<le> length (filter (\<lambda>e. \<not> is_trunk e \<and> endpoint_unavailable e) eps)) \<and>
   endpoint_unavailable (default_endpoint\<lparr>device_state := ''Unregistered''\<rparr>) \<and>
   \<not> engine_endpoint_unavailable (default_endpoint\<lparr>device_state := ''Unregistered''\<rparr>)"
proof (intro conjI impI)
  assume "endpoint_recommendations eps names \<noteq> []"
  then have "2 \<le> length (unavailable_persons eps)"
    using tip_empty by (metis not_le)
  also have "unavailable_persons eps =
      filter engine_endpoint_unavailable (filter (\<lambda>e. \<not> is_trunk e \<and> endpoint_unavailable e) eps)"
    unfolding unavailable_persons_def filter_filter
    by (rule filter_cong [OF refl]) (use engine_unavailable_home_unavailable in blast)
  also have "length \<dots> \<le> length (filter (\<lambda>e. \<not> is_trunk e \<and> endpoint_unavailable e) eps)"
    by (rule length_filter_le)
  finally show "2 \<le> length (filter (\<lambda>e. \<not> is_trunk e \<and> endpoint_unavailable e) eps)" .
qed (code_simp, code_simp)

theorem multi_phone_tip_sound_witness:
  "2 \<le> length (filter (\<lambda>e. \<not> is_trunk e \<and> endpoint_unavailable e)
     [default_endpoint\<lparr>device_state := ''Unavailable''\<rparr>, default_endpoint\<lparr>device_state := ''UNREACHABLE''\<rparr>])"
proof -
  have "endpoint_recommendations
      [default_endpoint\<lparr>device_state := ''Unavailable''\<rparr>, default_endpoint\<lparr>device_state := ''UNREACHABLE''\<rparr>] [] \<noteq> []"
    by code_simp
  with multi_phone_tip_sound show ?thesis by blast
qed

end
