(* ===== verification/Live.thy ===== *)
theory Live
  imports PulseHome
begin

text \<open>
  \<open>pbxsense_agent/live.py\<close> and the loop of the live socket in \<open>main.py\<close>: the events that turn one
  Home payload into the next. The payloads compared are those of \<open>PulseHome\<close>, so the type checks of
  the code on lists, dicts and keys always succeed and equality of records is equality of dicts.
\<close>

datatype live_event =
    ConnectionUpdated connection_view
  | CallUpdated call_entry
  | SignalCreated signal
  | SignalUpdated signal
  | SignalRemoved string
  | CallsUpdated "call_entry list"
  | PersonUpdated person
  | TrunkUpdated trunk_view
  | QueueUpdated queue_view

section \<open>Collections\<close>

text \<open>The dict comprehension over the items that have a key; a later item wins.\<close>

definition by_key :: "('a \<Rightarrow> string) \<Rightarrow> 'a list \<Rightarrow> (string \<times> 'a) list" where
  "by_key key items = foldl (\<lambda>d x. AList.update (key x) x d) [] (filter (\<lambda>x. key x \<noteq> []) items)"

definition collection_event :: "('a \<Rightarrow> string) \<Rightarrow> ('a \<Rightarrow> 'e) \<Rightarrow> ('a \<Rightarrow> 'e) \<Rightarrow> (string \<times> 'a) list \<Rightarrow> 'a \<Rightarrow> 'e option" where
  "collection_event key created updated previous_by_key x =
    (if key x = [] then None
     else case map_of previous_by_key (key x) of
         None \<Rightarrow> Some (created x)
       | Some p \<Rightarrow> if p \<noteq> x then Some (updated x) else None)"

definition collection_events :: "('a \<Rightarrow> string) \<Rightarrow> ('a \<Rightarrow> 'e) \<Rightarrow> ('a \<Rightarrow> 'e) \<Rightarrow> 'a list \<Rightarrow> 'a list \<Rightarrow> 'e list" where
  "collection_events key created updated previous current =
     List.map_filter (collection_event key created updated (by_key key previous)) current"

definition removed_collection_events :: "('a \<Rightarrow> string) \<Rightarrow> (string \<Rightarrow> 'e) \<Rightarrow> 'a list \<Rightarrow> 'a list \<Rightarrow> 'e list" where
  "removed_collection_events key removed previous current =
    (let current_keys = map key (filter (\<lambda>x. key x \<noteq> []) current) in
     map removed (filter (\<lambda>k. k \<notin> set current_keys) (map key (filter (\<lambda>x. key x \<noteq> []) previous))))"

section \<open>home_live_events\<close>

definition home_live_events :: "home_payload \<Rightarrow> home_payload \<Rightarrow> live_event list" where
  "home_live_events previous current =
     (if hp_connection previous \<noteq> hp_connection current then [ConnectionUpdated (hp_connection current)] else [])
   @ (if hp_now previous \<noteq> hp_now current then [CallUpdated (hp_now current)] else [])
   @ collection_events sg_id SignalCreated SignalUpdated (hp_signals previous) (hp_signals current)
   @ removed_collection_events sg_id SignalRemoved (hp_signals previous) (hp_signals current)
   @ (if hp_calls previous \<noteq> hp_calls current then [CallsUpdated (hp_calls current)] else [])
   @ collection_events p_extension PersonUpdated PersonUpdated (hp_people previous) (hp_people current)
   @ collection_events t_endpoint TrunkUpdated TrunkUpdated (hp_trunks previous) (hp_trunks current)
   @ collection_events v_queue QueueUpdated QueueUpdated (hp_queues previous) (hp_queues current)"

section \<open>The socket loop\<close>

datatype live_message = HomeSnapshot home_payload | LiveEvent live_event | Heartbeat

record live_state =
  lv_previous :: home_payload
  lv_last_message_at :: rat

definition live_heartbeat_interval :: rat where
  "live_heartbeat_interval = 10"

text \<open>One iteration after the sleep: \<open>monotonic\<close> is the clock during the iteration.\<close>

definition live_tick :: "home_payload \<Rightarrow> rat \<Rightarrow> live_state \<Rightarrow> live_message list \<times> live_state" where
  "live_tick current monotonic s =
    (let events = home_live_events (lv_previous s) current in
     if current \<noteq> lv_previous s then
       (if events \<noteq> [] then map LiveEvent events else [HomeSnapshot current],
        \<lparr>lv_previous = current, lv_last_message_at = monotonic\<rparr>)
     else
       let sent = map LiveEvent events;
           last = (if events \<noteq> [] then monotonic else lv_last_message_at s)
       in if monotonic - last \<ge> live_heartbeat_interval
          then (sent @ [Heartbeat], \<lparr>lv_previous = current, lv_last_message_at = monotonic\<rparr>)
          else (sent, \<lparr>lv_previous = current, lv_last_message_at = last\<rparr>))"

section \<open>What a client can reconstruct\<close>

text \<open>A client keeps each collection by key and applies the events to it.\<close>

definition keyed :: "('a \<Rightarrow> string) \<Rightarrow> 'a list \<Rightarrow> (string \<rightharpoonup> 'a)" where
  "keyed key items k = map_of (by_key key items) k"

fun apply_signal_event :: "(string \<rightharpoonup> signal) \<Rightarrow> live_event \<Rightarrow> (string \<rightharpoonup> signal)" where
  "apply_signal_event m (SignalCreated s) = m(sg_id s \<mapsto> s)"
| "apply_signal_event m (SignalUpdated s) = m(sg_id s \<mapsto> s)"
| "apply_signal_event m (SignalRemoved k) = m(k := None)"
| "apply_signal_event m _ = m"

fun apply_person_event :: "(string \<rightharpoonup> person) \<Rightarrow> live_event \<Rightarrow> (string \<rightharpoonup> person)" where
  "apply_person_event m (PersonUpdated p) = m(p_extension p \<mapsto> p)"
| "apply_person_event m _ = m"

definition keys_distinct :: "('a \<Rightarrow> string) \<Rightarrow> 'a list \<Rightarrow> bool" where
  "keys_distinct key items = distinct (map key (filter (\<lambda>x. key x \<noteq> []) items))"

lemma keyed_eq_find:
  assumes "keys_distinct key items"
  shows "keyed key items k = (if k = [] then None else find (\<lambda>x. key x = k) items)"
proof (cases "k = []")
  case True
  have "map fst (by_key key items) = first_keys key (filter (\<lambda>x. key x \<noteq> []) items)"
    using ad.fold_keys [of key "\<lambda>_ x. x" "filter (\<lambda>x. key x \<noteq> []) items"] by (simp add: by_key_def)
  then have "fst ` set (by_key key items) = key ` set (filter (\<lambda>x. key x \<noteq> []) items)"
    by (metis list.set_map set_first_keys)
  then have "map_of (by_key key items) [] = None" by (auto simp: map_of_eq_None_iff)
  with True show ?thesis by (simp add: keyed_def)
next
  case False
  let ?xs = "filter (\<lambda>x. key x \<noteq> []) items"
  have l: "keyed key items k = foldl (\<lambda>_ x. Some x) None (filter (\<lambda>x. key x = k) ?xs)"
    using ad.fold_lookup [of key "\<lambda>_ x. x" "[]" ?xs k] by (simp add: by_key_def keyed_def)
  show ?thesis
  proof (cases "find (\<lambda>x. key x = k) items")
    case None
    then have "filter (\<lambda>x. key x = k) ?xs = []" by (auto simp: find_None_iff filter_empty_conv)
    with None l False show ?thesis by simp
  next
    case (Some y)
    then have y: "y \<in> set items" "key y = k" by (auto dest: find_SomeD)
    with False have "y \<in> set ?xs" by simp
    from filter_inj_key [OF assms [unfolded keys_distinct_def] this] y(2)
    have "filter (\<lambda>x. key x = k) ?xs = [y]" by (simp only:)
    with l Some False show ?thesis by simp
  qed
qed

text \<open>The contract of a client that stores a collection by key.\<close>

locale collection_client =
  fixes apply_event :: "(string \<rightharpoonup> 'a) \<Rightarrow> 'e \<Rightarrow> (string \<rightharpoonup> 'a)"
    and key :: "'a \<Rightarrow> string"
    and created :: "'a \<Rightarrow> 'e"
    and updated :: "'a \<Rightarrow> 'e"
  assumes created: "apply_event m (created x) = m(key x \<mapsto> x)"
    and updated: "apply_event m (updated x) = m(key x \<mapsto> x)"
begin

lemma apply_collection:
  assumes "keys_distinct key current"
  shows "foldl apply_event m (List.map_filter (collection_event key created updated d) current) k =
    (if k = [] then m k else case find (\<lambda>x. key x = k) current of None \<Rightarrow> m k
      | Some y \<Rightarrow> if map_of d k = Some y then m k else Some y)"
  using assms
proof (induction current arbitrary: m)
  case (Cons x xs)
  have dx: "keys_distinct key xs" using Cons.prems by (simp add: keys_distinct_def split: if_splits)
  have nf: "find (\<lambda>y. key y = key x) xs = None" if "key x \<noteq> []"
  proof -
    have "key x \<notin> key ` {y \<in> set xs. key y \<noteq> []}" using Cons.prems that by (simp add: keys_distinct_def)
    with that have "\<not> (\<exists>y. y \<in> set xs \<and> key y = key x)" by (auto simp: image_iff)
    then show ?thesis unfolding find_None_iff .
  qed
  show ?case
  proof (cases "collection_event key created updated d x")
    case None
    then have "key x = [] \<or> map_of d (key x) = Some x"
      by (auto simp: collection_event_def split: if_splits option.splits)
    moreover have "List.map_filter (collection_event key created updated d) (x # xs) =
        List.map_filter (collection_event key created updated d) xs"
      using None by (simp add: List.map_filter_simps)
    ultimately show ?thesis using Cons.IH [OF dx, of m] nf by auto
  next
    case (Some e)
    then have e: "key x \<noteq> []" "map_of d (key x) \<noteq> Some x" "e = created x \<or> e = updated x"
      by (auto simp: collection_event_def split: if_splits option.splits)
    define m' where "m' = m(key x \<mapsto> x)"
    have "apply_event m e = m'" using e(3) created updated by (auto simp: m'_def)
    with Some have eq: "foldl apply_event m (List.map_filter (collection_event key created updated d) (x # xs)) =
        foldl apply_event m' (List.map_filter (collection_event key created updated d) xs)"
      by (simp add: List.map_filter_simps)
    show ?thesis unfolding eq Cons.IH [OF dx, of m'] using nf [OF e(1)] e(1,2) by (auto simp: m'_def split: option.split)
  qed
qed (simp add: List.map_filter_simps)

lemma apply_collection_events:
  assumes "keys_distinct key current"
  shows "foldl apply_event (keyed key previous) (collection_events key created updated previous current) =
    keyed key previous ++ keyed key current"
proof
  fix k
  show "foldl apply_event (keyed key previous) (collection_events key created updated previous current) k =
      (keyed key previous ++ keyed key current) k"
    unfolding collection_events_def apply_collection [OF assms] map_add_def keyed_eq_find [OF assms]
    by (auto simp: keyed_def split: option.split)
qed

lemma foldl_ignored: "(\<And>m e. e \<in> set es \<Longrightarrow> apply_event m e = m) \<Longrightarrow> foldl apply_event m es = m"
  by (induction es arbitrary: m) auto

end

interpretation live_signals: collection_client apply_signal_event sg_id SignalCreated SignalUpdated
  by unfold_locales simp_all

interpretation live_people: collection_client apply_person_event p_extension PersonUpdated PersonUpdated
  by unfold_locales simp_all

lemma set_collection_events:
  "set (collection_events key created updated previous current) \<subseteq> created ` set current \<union> updated ` set current"
proof
  fix e assume "e \<in> set (collection_events key created updated previous current)"
  then obtain x where x: "x \<in> set current" "collection_event key created updated (by_key key previous) x = Some e"
    unfolding collection_events_def in_set_map_filter by blast
  then have "e = created x \<or> e = updated x"
    by (auto simp: collection_event_def split: if_splits option.splits)
  with x(1) show "e \<in> created ` set current \<union> updated ` set current" by blast
qed

lemma set_removed_events:
  "e \<in> set (removed_collection_events key removed previous current) \<longleftrightarrow>
    (\<exists>x \<in> set previous. key x \<noteq> [] \<and> e = removed (key x) \<and> (\<forall>y \<in> set current. key y \<noteq> key x))"
proof -
  have "k \<notin> set (map key (filter (\<lambda>x. key x \<noteq> []) current)) \<longleftrightarrow> (\<forall>y \<in> set current. key y \<noteq> k)"
    if "k \<noteq> []" for k using that by (auto simp: image_iff)
  then show ?thesis
    unfolding removed_collection_events_def Let_def set_map set_filter by (auto simp: image_iff)
qed

lemma apply_removed:
  "foldl apply_signal_event m (removed_collection_events sg_id SignalRemoved previous current) k =
    (if SignalRemoved k \<in> set (removed_collection_events sg_id SignalRemoved previous current) then None else m k)"
proof -
  have "foldl apply_signal_event m (map SignalRemoved ks) k = (if k \<in> set ks then None else m k)" for ks
    by (induction ks arbitrary: m) auto
  then show ?thesis by (auto simp: removed_collection_events_def)
qed


lemma keyed_dom: "dom (keyed key items) = {key x | x. x \<in> set items \<and> key x \<noteq> []}"
proof -
  have "map fst (by_key key items) = first_keys key (filter (\<lambda>x. key x \<noteq> []) items)"
    using ad.fold_keys [of key "\<lambda>_ x. x" "filter (\<lambda>x. key x \<noteq> []) items"] by (simp add: by_key_def)
  then have "fst ` set (by_key key items) = key ` set (filter (\<lambda>x. key x \<noteq> []) items)"
    by (metis list.set_map set_first_keys)
  moreover have "dom (keyed key items) = fst ` set (by_key key items)"
    unfolding keyed_def [abs_def] dom_map_of_conv_image_fst [symmetric] by (simp add: dom_def)
  ultimately show ?thesis by auto
qed

lemma keyed_Some_iff:
  assumes "keys_distinct key items"
  shows "keyed key items k = Some x \<longleftrightarrow> k \<noteq> [] \<and> x \<in> set items \<and> key x = k"
proof -
  have one: "x = y" if "x \<in> set items" "key x = k" "y \<in> set items" "key y = k" "k \<noteq> []" for y
    using assms that by (auto simp: keys_distinct_def distinct_map inj_on_def)
  show ?thesis
  proof (cases "find (\<lambda>x. key x = k) items")
    case None
    then have "\<forall>y \<in> set items. key y \<noteq> k" by (auto simp: find_None_iff)
    with None show ?thesis by (auto simp: keyed_eq_find [OF assms])
  next
    case (Some y)
    from find_SomeD [OF Some] one [of y] Some show ?thesis by (auto simp: keyed_eq_find [OF assms])
  qed
qed

lemma signals_after_events:
  assumes "keys_distinct sg_id (hp_signals current)"
  shows "foldl apply_signal_event (keyed sg_id (hp_signals previous)) (home_live_events previous current) =
    keyed sg_id (hp_signals current)"
proof -
  let ?P = "hp_signals previous" let ?C = "hp_signals current"
  let ?R = "removed_collection_events sg_id SignalRemoved ?P ?C"
  have ign: "foldl apply_signal_event m es = m"
    if "\<forall>e \<in> set es. (\<exists>c. e = ConnectionUpdated c) \<or> (\<exists>c. e = CallUpdated c) \<or> (\<exists>c. e = CallsUpdated c) \<or>
      (\<exists>c. e = PersonUpdated c) \<or> (\<exists>c. e = TrunkUpdated c) \<or> (\<exists>c. e = QueueUpdated c)" for m es
    using that by (intro live_signals.foldl_ignored) auto
  have people: "foldl apply_signal_event m (collection_events p_extension PersonUpdated PersonUpdated xs ys) = m" for m xs ys
    by (rule ign) (use set_collection_events [of p_extension PersonUpdated PersonUpdated xs ys] in blast)
  have trunks: "foldl apply_signal_event m (collection_events t_endpoint TrunkUpdated TrunkUpdated xs ys) = m" for m xs ys
    by (rule ign) (use set_collection_events [of t_endpoint TrunkUpdated TrunkUpdated xs ys] in blast)
  have queues: "foldl apply_signal_event m (collection_events v_queue QueueUpdated QueueUpdated xs ys) = m" for m xs ys
    by (rule ign) (use set_collection_events [of v_queue QueueUpdated QueueUpdated xs ys] in blast)
  have "foldl apply_signal_event (keyed sg_id ?P) (home_live_events previous current) =
      foldl apply_signal_event (keyed sg_id ?P ++ keyed sg_id ?C) ?R"
    by (simp add: home_live_events_def people trunks queues live_signals.apply_collection_events [OF assms])
  also have "\<dots> = keyed sg_id ?C"
  proof
    fix k
    have "keyed sg_id ?C k = None \<longleftrightarrow> k = [] \<or> (\<forall>y \<in> set ?C. sg_id y \<noteq> k)"
      unfolding keyed_eq_find [OF assms] by (auto simp: find_None_iff)
    moreover have "keyed sg_id ?P k \<noteq> None \<longleftrightarrow> k \<noteq> [] \<and> (\<exists>x \<in> set ?P. sg_id x = k)"
      using keyed_dom [of sg_id ?P] by (auto simp: dom_def set_eq_iff)
    moreover have "SignalRemoved k \<in> set ?R \<longleftrightarrow> k \<noteq> [] \<and> (\<exists>x \<in> set ?P. sg_id x = k) \<and> (\<forall>y \<in> set ?C. sg_id y \<noteq> k)"
      by (auto simp: set_removed_events)
    ultimately show "foldl apply_signal_event (keyed sg_id ?P ++ keyed sg_id ?C) ?R k = keyed sg_id ?C k"
      unfolding apply_removed by (auto simp: map_add_def split: option.split)
  qed
  finally show ?thesis .
qed

lemma people_after_events:
  assumes "keys_distinct p_extension (hp_people current)"
  shows "foldl apply_person_event (keyed p_extension (hp_people previous)) (home_live_events previous current) =
    keyed p_extension (hp_people previous) ++ keyed p_extension (hp_people current)"
proof -
  have ign: "foldl apply_person_event m es = m" if "\<forall>e \<in> set es. \<forall>p. e \<noteq> PersonUpdated p" for m es
  proof (rule live_people.foldl_ignored)
    fix m e assume "e \<in> set es"
    with that show "apply_person_event m e = m" by (cases e) auto
  qed
  have signals: "foldl apply_person_event m (collection_events sg_id SignalCreated SignalUpdated xs ys) = m" for m xs ys
    by (rule ign) (use set_collection_events [of sg_id SignalCreated SignalUpdated xs ys] in blast)
  have removed: "foldl apply_person_event m (removed_collection_events sg_id SignalRemoved xs ys) = m" for m xs ys
    by (rule ign) (auto simp: set_removed_events)
  have trunks: "foldl apply_person_event m (collection_events t_endpoint TrunkUpdated TrunkUpdated xs ys) = m" for m xs ys
    by (rule ign) (use set_collection_events [of t_endpoint TrunkUpdated TrunkUpdated xs ys] in blast)
  have queues: "foldl apply_person_event m (collection_events v_queue QueueUpdated QueueUpdated xs ys) = m" for m xs ys
    by (rule ign) (use set_collection_events [of v_queue QueueUpdated QueueUpdated xs ys] in blast)
  show ?thesis
    by (simp add: home_live_events_def signals removed trunks queues live_people.apply_collection_events [OF assms])
qed

text \<open>
  C18. The live events are enough to follow the Signals: a client that holds the Signals of the previous
  payload by id and applies the events holds exactly the Signals of the current payload. People are
  only ever added or replaced: after the events the client holds the current people and, in addition,
  every person of the previous payload that is no longer listed. (Ids are distinct in the current
  payload.)
\<close>

theorem live_events_reconstruct_signals:
  assumes "keys_distinct sg_id (hp_signals current)" and "keys_distinct p_extension (hp_people current)"
  shows "foldl apply_signal_event (keyed sg_id (hp_signals previous)) (home_live_events previous current) =
      keyed sg_id (hp_signals current) \<and>
    foldl apply_person_event (keyed p_extension (hp_people previous)) (home_live_events previous current) =
      keyed p_extension (hp_people previous) ++ keyed p_extension (hp_people current)"
  using signals_after_events [OF assms(1)] people_after_events [OF assms(2)] by simp

definition empty_payload :: home_payload where
  "empty_payload = \<lparr>hp_greeting = [], hp_mood = [], hp_connection = \<lparr>cn_kind = ''local'', cn_label = [], cn_detail = [],
     cn_agent_version = [], cn_last_contact = []\<rparr>, hp_now = quiet_now default_snapshot, hp_signals = [],
     hp_calls = [], hp_people = [], hp_trunks = [], hp_queues = []\<rparr>"

definition one_person :: person where
  "one_person = person_of isoformat [] [] Map.empty (phone ''200'' ''Reachable'')"

theorem live_events_reconstruct_signals_witness:
  "foldl apply_person_event (keyed p_extension [one_person])
     (home_live_events (empty_payload\<lparr>hp_people := [one_person]\<rparr>) empty_payload) ''200'' = Some one_person"
proof -
  have d: "keys_distinct sg_id (hp_signals empty_payload)" "keys_distinct p_extension (hp_people empty_payload)"
    by (simp_all add: empty_payload_def keys_distinct_def)
  have k: "keyed p_extension [one_person] ''200'' = Some one_person" by code_simp
  have "keyed p_extension (hp_people empty_payload) ''200'' = None"
    by (simp add: empty_payload_def keyed_def by_key_def)
  with k live_events_reconstruct_signals [OF d, of "empty_payload\<lparr>hp_people := [one_person]\<rparr>"] show ?thesis
    by (simp add: map_add_def)
qed

section \<open>The socket loop sends every change\<close>

lemma collection_events_same:
  assumes "keys_distinct key items"
  shows "collection_events key created updated items items = []"
proof -
  have "collection_event key created updated (by_key key items) x = None" if x: "x \<in> set items" for x
  proof (cases "key x = []")
    case False
    with x keyed_Some_iff [OF assms, of "key x" x] have "map_of (by_key key items) (key x) = Some x"
      by (simp add: keyed_def)
    then show ?thesis by (simp add: collection_event_def)
  qed (simp add: collection_event_def)
  then have "\<forall>e. e \<notin> set (collection_events key created updated items items)"
    unfolding collection_events_def in_set_map_filter by auto
  then show ?thesis by (simp add: last_in_set)
qed

definition payload_keys_distinct :: "home_payload \<Rightarrow> bool" where
  "payload_keys_distinct p = (keys_distinct sg_id (hp_signals p) \<and> keys_distinct p_extension (hp_people p) \<and>
     keys_distinct t_endpoint (hp_trunks p) \<and> keys_distinct v_queue (hp_queues p))"

lemma home_live_events_same: "payload_keys_distinct p \<Longrightarrow> home_live_events p p = []"
  by (simp add: home_live_events_def payload_keys_distinct_def collection_events_same
      removed_collection_events_def filter_empty_conv)

text \<open>
  No change of the payload goes by in silence and no silence lasts: an iteration that sees a
  changed payload sends at least one message; an unchanged payload with distinct ids sends nothing
  but the heartbeat, and the heartbeat is sent exactly when ten seconds have passed since the last
  message.
\<close>

lemma live_tick_sends:
  "(current \<noteq> lv_previous s \<longrightarrow> fst (live_tick current t s) \<noteq> [] \<and> lv_last_message_at (snd (live_tick current t s)) = t) \<and>
   (current = lv_previous s \<and> payload_keys_distinct current \<longrightarrow>
      fst (live_tick current t s) = (if t - lv_last_message_at s \<ge> 10 then [Heartbeat] else [])) \<and>
   lv_previous (snd (live_tick current t s)) = current"
  using home_live_events_same [of current]
  by (auto simp: live_tick_def Let_def live_heartbeat_interval_def)

end
