(* ===== verification/PyJson.thy ===== *)
theory PyJson
  imports PyBase
begin

text \<open>
  The part of Python's \<open>json\<close> module the Agent's relay client uses: the decoded values and
  \<open>json.dumps(value, sort_keys=True, separators=(",", ":"))\<close> with its ASCII escapes. Numbers are
  whole numbers; the objects that are written out have distinct keys, as a dict has.
\<close>

datatype json = JNull | JBool bool | JInt int | JStr string | JList "json list" | JObj "(string \<times> json) list"

text \<open>\<open>bool(value)\<close> and \<open>str(value)\<close>; \<open>repr\<close> is \<open>str\<close> of a list or dict.\<close>

fun truthy :: "json \<Rightarrow> bool" where
  "truthy JNull = False"
| "truthy (JBool b) = b"
| "truthy (JInt i) = (i \<noteq> 0)"
| "truthy (JStr s) = (s \<noteq> [])"
| "truthy (JList xs) = (xs \<noteq> [])"
| "truthy (JObj kvs) = (kvs \<noteq> [])"

fun str_json :: "(json \<Rightarrow> string) \<Rightarrow> json \<Rightarrow> string" where
  "str_json repr JNull = ''None''"
| "str_json repr (JBool b) = (if b then ''True'' else ''False'')"
| "str_json repr (JInt i) = show_int i"
| "str_json repr (JStr s) = s"
| "str_json repr j = repr j"

section \<open>String literals\<close>

definition hex_digit :: "nat \<Rightarrow> char" where
  "hex_digit d = (if d < 10 then digit_char d else char_of (87 + d))"

text \<open>One character of a literal: the short escapes, \<open>\u00xx\<close> outside the printable ASCII range.\<close>

definition json_escape :: "char \<Rightarrow> string" where
  "json_escape c = (let n = code_point c in
     if n = 34 then [CHR 0x5C, CHR 0x22]
     else if n = 92 then [CHR 0x5C, CHR 0x5C]
     else if n = 10 then [CHR 0x5C, CHR ''n'']
     else if n = 13 then [CHR 0x5C, CHR ''r'']
     else if n = 9 then [CHR 0x5C, CHR ''t'']
     else if n = 12 then [CHR 0x5C, CHR ''f'']
     else if n = 8 then [CHR 0x5C, CHR ''b'']
     else if 32 \<le> n \<and> n \<le> 126 then [c]
     else [CHR 0x5C, CHR ''u'', CHR ''0'', CHR ''0'', hex_digit (n div 16), hex_digit (n mod 16)])"

definition json_string :: "string \<Rightarrow> string" where
  "json_string s = [CHR 0x22] @ concat (map json_escape s) @ [CHR 0x22]"

text \<open>A reader of literals, the inverse.\<close>

definition hex_val :: "char \<Rightarrow> nat" where
  "hex_val c = (if code_point c < 58 then code_point c - 48 else code_point c - 87)"

definition unescape_short :: "char \<Rightarrow> char" where
  "unescape_short c = (if c = CHR ''n'' then char_of (10::nat) else if c = CHR ''r'' then char_of (13::nat)
     else if c = CHR ''t'' then char_of (9::nat) else if c = CHR ''f'' then char_of (12::nat)
     else if c = CHR ''b'' then char_of (8::nat) else c)"

function read_body :: "string \<Rightarrow> (string \<times> string) option" where
  "read_body [] = None"
| "read_body (c # s) =
    (if c = CHR 0x22 then Some ([], s)
     else if c = CHR 0x5C then
       (case s of [] \<Rightarrow> None
        | e # s1 \<Rightarrow>
            if e = CHR ''u'' then
              map_option (\<lambda>(w, rest). (char_of (16 * hex_val (s1 ! 2) + hex_val (s1 ! 3)) # w, rest)) (read_body (drop 4 s1))
            else map_option (\<lambda>(w, rest). (unescape_short e # w, rest)) (read_body s1))
     else map_option (\<lambda>(w, rest). (c # w, rest)) (read_body s))"
  by pat_completeness auto
termination by (relation "measure length") auto

declare read_body.simps [simp del]

definition read_json_string :: "string \<Rightarrow> (string \<times> string) option" where
  "read_json_string s = (case s of [] \<Rightarrow> None | c # s1 \<Rightarrow> if c = CHR 0x22 then read_body s1 else None)"

lemma hex_val_digit: "d < 16 \<Longrightarrow> hex_val (hex_digit d) = d"
  by (simp add: hex_val_def hex_digit_def digit_char_def code_point_def)

lemma char_code: "char_of (code_point c) = c"
  by (simp add: code_point_def)

lemma code_point_lt: "code_point c < 256"
  by (simp add: code_point_def)

lemma char_from_code: "code_point c = n \<Longrightarrow> c = char_of n"
  by (auto simp: code_point_def)

lemma code_point_eq: "code_point c = code_point d \<longleftrightarrow> c = d"
  by (simp add: code_point_def)

text \<open>Reading undoes escaping, one character at a time.\<close>

lemma read_escape: "read_body (json_escape c @ s) = map_option (\<lambda>(w, rest). (c # w, rest)) (read_body s)"
proof -
  let ?n = "code_point c"
  have u: "char_of (16 * hex_val (hex_digit (?n div 16)) + hex_val (hex_digit (?n mod 16))) = c"
    using code_point_lt [of c] by (simp add: hex_val_digit less_mult_imp_div_less char_code)
  consider (quote) "c = CHR 0x22" | (backslash) "c = CHR 0x5C" | (nl) "c = char_of (10::nat)" | (cr) "c = char_of (13::nat)"
    | (tab) "c = char_of (9::nat)" | (ff) "c = char_of (12::nat)" | (bs) "c = char_of (8::nat)"
    | (plain) "c \<noteq> CHR 0x22" "c \<noteq> CHR 0x5C" "json_escape c = [c]"
    | (hex) "json_escape c = [CHR 0x5C, CHR ''u'', CHR ''0'', CHR ''0'', hex_digit (?n div 16), hex_digit (?n mod 16)]"
  proof -
    have "c = CHR 0x22" if "?n = 34"
      using that code_point_eq [of c "CHR 0x22"] by (simp add: code_point_def)
    moreover have "c = CHR 0x5C" if "?n = 92"
      using that code_point_eq [of c "CHR 0x5C"] by (simp add: code_point_def)
    ultimately show ?thesis
      using that char_from_code [of c] unfolding json_escape_def Let_def
      by (smt (verit, best) char_from_code)
  qed
  then show ?thesis
  proof cases
    case plain
    then show ?thesis by (simp add: read_body.simps)
  next
    case hex
    with u show ?thesis by (simp add: read_body.simps)
  qed (simp_all add: json_escape_def code_point_def read_body.simps unescape_short_def)
qed

lemma read_escapes: "read_body (concat (map json_escape s) @ CHR 0x22 # r) = Some (s, r)"
proof (induction s)
  case Nil
  show ?case by (simp add: read_body.simps)
next
  case (Cons c s)
  then show ?case by (simp add: read_escape del: read_body.simps)
qed

theorem json_string_round_trip: "read_json_string (json_string s @ r) = Some (s, r)"
  using read_escapes [of s r] by (simp add: read_json_string_def json_string_def)

section \<open>Documents\<close>

text \<open>\<open>json.dumps\<close> with compact separators; \<open>sort_keys\<close> orders every object by its keys first.\<close>

fun json_text :: "json \<Rightarrow> string" where
  "json_text JNull = ''null''"
| "json_text (JBool b) = (if b then ''true'' else ''false'')"
| "json_text (JInt i) = show_int i"
| "json_text (JStr s) = json_string s"
| "json_text (JList xs) = ''['' @ join '','' (map json_text xs) @ '']''"
| "json_text (JObj kvs) = ''{'' @ join '','' (map (\<lambda>(k, v). json_string k @ '':'' @ json_text v) kvs) @ ''}''"

fun sort_keys :: "json \<Rightarrow> json" where
  "sort_keys (JList xs) = JList (map sort_keys xs)"
| "sort_keys (JObj kvs) = JObj (sort_key fst (map (\<lambda>(k, v). (k, sort_keys v)) kvs))"
| "sort_keys j = j"

definition json_dumps :: "json \<Rightarrow> string" where
  "json_dumps j = json_text (sort_keys j)"

text \<open>A list of items between separators can be read back, when the texts of the items can: each
  item's text tells where it ends, and neither the separator nor the bracket starts an item.\<close>

definition bracketed :: "('a \<Rightarrow> string) \<Rightarrow> char \<Rightarrow> 'a list \<Rightarrow> string \<Rightarrow> string" where
  "bracketed t c xs r = join '','' (map t xs) @ c # r"

lemma bracketed_simps [simp]:
  "bracketed t c [] r = c # r"
  "bracketed t c (x # xs) r = t x @ (case xs of [] \<Rightarrow> c # r | _ \<Rightarrow> CHR '','' # bracketed t c xs r)"
  by (simp_all add: bracketed_def split: list.split)

definition self_delimiting :: "('a \<Rightarrow> string) \<Rightarrow> 'a \<Rightarrow> 'a \<Rightarrow> bool" where
  "self_delimiting t x y = (\<forall>r s. t x @ r = t y @ s \<longrightarrow> x = y \<and> r = s)"

lemma self_delimitingD: "self_delimiting t x y \<Longrightarrow> t x @ r = t y @ s \<Longrightarrow> x = y \<and> r = s"
  by (simp add: self_delimiting_def)

lemma head_differs: "u \<noteq> [] \<Longrightarrow> hd u \<noteq> c \<Longrightarrow> c # r \<noteq> u @ z"
  by (cases u) auto

lemma bracketed_inj:
  assumes "\<forall>x \<in> set xs. \<forall>y \<in> set ys. self_delimiting t x y"
    and "\<forall>x \<in> set xs \<union> set ys. t x \<noteq> [] \<and> hd (t x) \<noteq> c" and "c \<noteq> CHR '',''"
    and "bracketed t c xs r = bracketed t c ys s"
  shows "xs = ys \<and> r = s"
  using assms
proof (induction xs arbitrary: ys)
  case Nil
  show ?case
  proof (cases ys)
    case (Cons y ys')
    with Nil.prems(2) have "t y \<noteq> []" "hd (t y) \<noteq> c" by simp_all
    from head_differs [OF this] Nil.prems(4) show ?thesis unfolding Cons bracketed_simps by blast
  qed (use Nil.prems in simp)
next
  case (Cons x xs)
  show ?case
  proof (cases ys)
    case Nil
    from Cons.prems(2) have "t x \<noteq> []" "hd (t x) \<noteq> c" by simp_all
    from head_differs [OF this] Cons.prems(4) [symmetric] show ?thesis unfolding Nil bracketed_simps by blast
  next
    case ys: (Cons y ys')
    have "self_delimiting t x y" using Cons.prems(1) ys by simp
    from self_delimitingD [OF this, OF Cons.prems(4) [unfolded ys bracketed_simps]]
    have xy: "x = y" and tl: "(case xs of [] \<Rightarrow> c # r | _ \<Rightarrow> CHR '','' # bracketed t c xs r) =
        (case ys' of [] \<Rightarrow> c # s | _ \<Rightarrow> CHR '','' # bracketed t c ys' s)" by blast+
    show ?thesis
    proof (cases "xs = [] \<or> ys' = []")
      case True
      then have "xs = [] \<and> ys' = [] \<and> r = s" using tl Cons.prems(3) by (cases xs; cases ys') simp_all
      with xy ys show ?thesis by simp
    next
      case False
      with tl have "bracketed t c xs r = bracketed t c ys' s" by (cases xs; cases ys') simp_all
      with Cons.IH [of ys'] Cons.prems(1-3) ys have "xs = ys' \<and> r = s" by simp
      with xy ys show ?thesis by simp
    qed
  qed
qed

lemma json_string_delimiting: "self_delimiting json_string k l"
  unfolding self_delimiting_def by (metis json_string_round_trip option.inject prod.inject)

text \<open>The documents without numbers are unambiguous.\<close>

fun number_free :: "json \<Rightarrow> bool" where
  "number_free (JInt i) = False"
| "number_free (JList xs) = list_all number_free xs"
| "number_free (JObj kvs) = list_all (\<lambda>(k, v). number_free v) kvs"
| "number_free j = True"

lemma hd_json_string [simp]: "json_string s \<noteq> []" "hd (json_string s) = CHR 0x22"
  by (simp_all add: json_string_def)

lemma json_string_starts: "\<exists>w. json_string s = CHR 0x22 # w"
  by (simp add: json_string_def)

lemma json_text_start: "number_free j \<Longrightarrow> json_text j \<noteq> [] \<and> hd (json_text j) \<noteq> CHR '']''"
  by (cases j) auto

lemma json_text_delimiting:
  "number_free x \<Longrightarrow> number_free y \<Longrightarrow> self_delimiting json_text x y"
proof (induction x arbitrary: y)
  case (JStr a)
  show ?case
  proof (cases y)
    case (JStr b)
    then show ?thesis using json_string_delimiting [of a b]
      by (simp add: self_delimiting_def)
  qed (use JStr.prems in \<open>auto simp: self_delimiting_def json_string_def\<close>)
next
  case (JList xs)
  show ?case
  proof (cases y)
    case (JList ys)
    have "xs = ys \<and> r = s" if "bracketed json_text (CHR '']'') xs r = bracketed json_text (CHR '']'') ys s" for r s
      using JList.IH JList.prems that json_text_start unfolding JList
      by (intro bracketed_inj [of xs ys json_text "CHR '']''"]) (auto simp: list_all_iff)
    then show ?thesis unfolding JList by (auto simp: self_delimiting_def bracketed_def)
  qed (use JList.prems in \<open>auto simp: self_delimiting_def json_string_def\<close>)
next
  case (JObj kvs)
  let ?t = "\<lambda>(k, v). json_string k @ '':'' @ json_text v"
  show ?case
  proof (cases y)
    case (JObj lws)
    have sd: "self_delimiting ?t p q" if "p \<in> set kvs" "q \<in> set lws" for p q
    proof -
      obtain k v where p: "p = (k, v)" by force
      obtain l w where q: "q = (l, w)" by force
      have v: "v \<in> Basic_BNFs.snds (k, v)" by (simp add: snds.simps)
      have "number_free v" "number_free w"
        using JObj.prems that unfolding JObj p q by (auto simp: list_all_iff)
      from JObj.IH [OF that(1) [unfolded p] v this] have vw: "self_delimiting json_text v w" .
      show ?thesis unfolding self_delimiting_def p q
      proof (intro allI impI)
        fix r s assume "?t (k, v) @ r = ?t (l, w) @ s"
        then have "json_string k @ '':'' @ json_text v @ r = json_string l @ '':'' @ json_text w @ s" by simp
        from self_delimitingD [OF json_string_delimiting this]
        have "k = l" "json_text v @ r = json_text w @ s" by simp_all
        with self_delimitingD [OF vw] show "(k, v) = (l, w) \<and> r = s" by blast
      qed
    qed
    have "kvs = lws \<and> r = s" if "bracketed ?t (CHR ''}'') kvs r = bracketed ?t (CHR ''}'') lws s" for r s
      by (rule bracketed_inj [OF _ _ _ that]) (use sd in auto)
    then show ?thesis unfolding JObj by (auto simp: self_delimiting_def bracketed_def)
  qed (use JObj.prems in \<open>auto simp: self_delimiting_def json_string_def\<close>)
next
  case (JBool b)
  then show ?case by (cases y) (auto simp: self_delimiting_def json_string_def)
next
  case JNull
  then show ?case by (cases y) (auto simp: self_delimiting_def json_string_def)
qed auto

lemma json_text_inj: "number_free x \<Longrightarrow> number_free y \<Longrightarrow> json_text x = json_text y \<Longrightarrow> x = y"
  using self_delimitingD [OF json_text_delimiting, of x y "[]" "[]"] by simp

lemma number_free_sort_keys: "number_free (sort_keys j) = number_free j"
  by (induction j rule: sort_keys.induct) (auto simp: list_all_iff)

theorem json_dumps_eq_iff:
  assumes "number_free x" and "number_free y"
  shows "json_dumps x = json_dumps y \<longleftrightarrow> sort_keys x = sort_keys y"
  using json_text_inj [of "sort_keys x" "sort_keys y"] assms
  by (auto simp: json_dumps_def number_free_sort_keys)

end
