(* ===== verification/Relay.thy ===== *)
theory Relay
  imports PbxTypes PyJson
begin

text \<open>
  \<open>pbxsense_agent/relay.py\<close>: the relay client. It keeps a small durable state (identity, pairing
  capability, outbox, delivered fingerprints) and talks to the push relay.

  The network is a parameter \<open>net\<close>: the reply to the n-th request the Agent sends, whatever it is.
  The fields of a decoded answer are given as the code reads them: the truth value of a flag, \<open>str\<close>
  of a text (empty when it is false), \<open>int\<close> of \<open>stored\<close> or the message of the error it raises. A request that cannot be signed or sent is \<open>NetworkDown\<close>. The
  state keeps, beside the values of \<open>_state\<close> and the attributes, the contents of the identity file
  and the requests sent with their replies; writing the file succeeds. Signatures and the private key
  are not part of the model.
\<close>

section \<open>Requests and replies\<close>

record registration =
  fcm_token :: string
  meaningful_enabled :: bool
  activity_enabled :: bool
  rg_platform :: string
  rg_app_version :: string
  rg_device_model :: string
  rg_device_name :: string
  rg_os_version :: string
  rg_relay_device_id :: "string option"
  rg_encryption_key :: "string option"

record relay_event =
  re_id :: string
  re_signal_id :: string
  re_title :: string
  re_body :: string
  re_category :: string
  re_importance :: string

datatype outbox_item = DeviceItem registration | EventItem relay_event

record envelope =
  ev_device_id :: string
  ev_sequence :: int
  ev_ciphertext :: string

datatype relay_body =
    ActivationSecret string
  | ActivationRequest string string "string option"
  | OutboxBody outbox_item
  | RevokeDevice string "string option"
  | EmptyBody
  | ExchangeBody json
  | SnapshotBody "envelope list"

record request =
  rq_path :: string
  rq_body :: relay_body
  rq_signed :: bool
  rq_replay_protected :: bool

text \<open>An entry of a device list that is not a dict is \<open>None\<close>.\<close>

record relay_device =
  rd_id :: string
  rd_encryption_key :: string

record answer =
  an_claimed :: bool
  an_agent_id :: string
  an_expired :: bool
  an_activation_id :: string
  an_activation_secret :: string
  an_expires_at :: string
  an_devices :: "relay_device option list option"
  an_stored :: "string + int"
  an_json :: json

datatype reply = Answer answer | AnswerNotObject | HttpError nat string | NetworkDown string | NotJson string

text \<open>What \<open>_request\<close> raises: \<open>RelayRequestError\<close> and the other \<open>OSError\<close>s; a body that is not JSON raises
  a \<open>ValueError\<close>, which the handlers of \<open>OSError\<close> do not catch.\<close>

datatype relay_error = RelayRequestError nat string | OsError string | ValueErr string

fun is_os_error :: "relay_error \<Rightarrow> bool" where
  "is_os_error (ValueErr m) = False"
| "is_os_error e = True"

definition retryable :: "nat \<Rightarrow> bool" where
  "retryable status = (status \<in> {408, 425, 429} \<or> status \<ge> 500)"

type_synonym network = "nat \<Rightarrow> request \<Rightarrow> reply"

section \<open>State\<close>

record activation =
  ac_id :: string
  ac_secret :: string
  ac_expires_at :: rat

record rejected_item =
  rj_kind :: string
  rj_status :: nat
  rj_at :: int

text \<open>\<open>_state\<close>: a missing key has the default the code reads.\<close>

record relay_store =
  st_agent_id :: string
  st_activation :: "activation option"
  st_outbox :: "outbox_item list"
  st_rejected :: "rejected_item list"
  st_last_error :: string
  st_delivered :: "string pydict"
  st_attempt_revision :: int
  st_registration_revision :: int
  st_snapshot_sequence :: int
  st_snapshot_fingerprint :: "string option"

record relay =
  rl_url :: string
  rl_display_name :: string
  rl_ticket :: string
  rl_state :: relay_store
  rl_file :: relay_store
  rl_last_heartbeat :: rat
  rl_secure_devices :: "relay_device list"
  rl_refreshed_at :: rat
  rl_log :: "(request \<times> reply) list"

abbreviation upd_state :: "(relay_store \<Rightarrow> relay_store) \<Rightarrow> relay \<Rightarrow> relay" where
  "upd_state f r \<equiv> r\<lparr>rl_state := f (rl_state r)\<rparr>"

definition save :: "relay \<Rightarrow> relay" where
  "save r = r\<lparr>rl_file := rl_state r\<rparr>"

definition configured :: "relay \<Rightarrow> bool" where
  "configured r = (rl_url r \<noteq> [] \<and> st_agent_id (rl_state r) \<noteq> [])"

record relay_status =
  rs_configured :: bool
  rs_enrolled :: bool
  rs_agent_id :: string
  rs_queued :: nat
  rs_attempt_revision :: int
  rs_registration_revision :: int
  rs_rejected_items :: nat
  rs_last_outbox_error :: string

definition status :: "relay \<Rightarrow> relay_status" where
  "status r = (let s = rl_state r in
     \<lparr>rs_configured = rl_url r \<noteq> [], rs_enrolled = st_agent_id s \<noteq> [], rs_agent_id = st_agent_id s,
      rs_queued = length (st_outbox s), rs_attempt_revision = st_attempt_revision s,
      rs_registration_revision = st_registration_revision s, rs_rejected_items = length (st_rejected s),
      rs_last_outbox_error = st_last_error s\<rparr>)"

section \<open>_request\<close>

definition empty_answer :: answer where
  "empty_answer = \<lparr>an_claimed = False, an_agent_id = [], an_expired = False, an_activation_id = [],
     an_activation_secret = [], an_expires_at = [], an_devices = Some [], an_stored = Inr 0, an_json = JObj []\<rparr>"

definition http_message :: "nat \<Rightarrow> string \<Rightarrow> string" where
  "http_message code detail = ''Relay returned HTTP '' @ show_nat code
     @ (if take 200 detail \<noteq> [] then '': '' @ take 200 detail else [])"

definition request :: "network \<Rightarrow> string \<Rightarrow> relay_body \<Rightarrow> bool \<Rightarrow> bool \<Rightarrow> relay \<Rightarrow> (relay_error + answer) \<times> relay" where
  "request net path body signed replay r =
    (let q = \<lparr>rq_path = path, rq_body = body, rq_signed = signed, rq_replay_protected = replay\<rparr>;
         a = net (length (rl_log r)) q;
         r' = r\<lparr>rl_log := rl_log r @ [(q, a)]\<rparr>
     in (case a of
           Answer x \<Rightarrow> Inr x
         | AnswerNotObject \<Rightarrow> Inr empty_answer
         | HttpError code detail \<Rightarrow> Inl (RelayRequestError code (http_message code detail))
         | NetworkDown m \<Rightarrow> Inl (OsError m)
         | NotJson m \<Rightarrow> Inl (ValueErr m), r'))"

lemma request_store [simp]: "rl_state (snd (request net p b sg rp r)) = rl_state r"
  "rl_file (snd (request net p b sg rp r)) = rl_file r" "rl_url (snd (request net p b sg rp r)) = rl_url r"
  "rl_secure_devices (snd (request net p b sg rp r)) = rl_secure_devices r"
  "rl_refreshed_at (snd (request net p b sg rp r)) = rl_refreshed_at r"
  by (simp_all add: request_def Let_def)

definition agent_path :: "relay \<Rightarrow> string \<Rightarrow> string" where
  "agent_path r tail = ''/v1/agents/'' @ st_agent_id (rl_state r) @ tail"

section \<open>Enrollment\<close>

definition adopt_claimed_activation :: "answer \<Rightarrow> relay \<Rightarrow> bool \<times> relay" where
  "adopt_claimed_activation x r =
    (if \<not> an_claimed x \<or> an_agent_id x = [] then (False, r)
     else (True, save (upd_state (\<lambda>s. s\<lparr>st_agent_id := an_agent_id x, st_activation := None\<rparr>) r)))"

definition forget_activation :: "relay \<Rightarrow> relay" where
  "forget_activation r = save (upd_state (\<lambda>s. s\<lparr>st_activation := None\<rparr>) r)"

definition activation_status :: "network \<Rightarrow> activation \<Rightarrow> relay \<Rightarrow> (relay_error + answer) \<times> relay" where
  "activation_status net a r =
     request net (''/v1/activations/'' @ ac_id a @ ''/status'') (ActivationSecret (ac_secret a)) False False r"

text \<open>\<open>isinstance(activation, dict) and activation.get("id") and activation.get("secret")\<close>\<close>

definition usable_activation :: "relay \<Rightarrow> activation option" where
  "usable_activation r = (case st_activation (rl_state r) of
       Some a \<Rightarrow> if ac_id a \<noteq> [] \<and> ac_secret a \<noteq> [] then Some a else None
     | None \<Rightarrow> None)"

definition ensure_enrolled :: "network \<Rightarrow> relay \<Rightarrow> (relay_error + bool) \<times> relay" where
  "ensure_enrolled net r =
    (if rl_url r = [] then (Inr False, r)
     else if st_agent_id (rl_state r) \<noteq> [] then (Inr True, r)
     else case usable_activation r of
         None \<Rightarrow> (Inr False, r)
       | Some a \<Rightarrow>
          (case activation_status net a r of
             (Inl e, r1) \<Rightarrow> (if is_os_error e then (Inr False, r1) else (Inl e, r1))
           | (Inr x, r1) \<Rightarrow>
              (case adopt_claimed_activation x r1 of
                 (True, r2) \<Rightarrow> (Inr True, r2)
               | (False, r2) \<Rightarrow> (Inr False, if an_expired x then forget_activation r2 else r2))))"

section \<open>The outbox\<close>

fun is_device_item :: "outbox_item \<Rightarrow> bool" where
  "is_device_item (DeviceItem g) = True"
| "is_device_item (EventItem e) = False"

fun item_kind :: "outbox_item \<Rightarrow> string" where
  "item_kind (DeviceItem g) = ''devices''"
| "item_kind (EventItem e) = ''events''"

text \<open>\<open>item.get("kind") == "devices" and str(item["payload"]["fcmToken"]) == token\<close>\<close>

fun registers_token :: "string \<Rightarrow> outbox_item \<Rightarrow> bool" where
  "registers_token token (DeviceItem g) = (fcm_token g = token)"
| "registers_token token (EventItem e) = False"

fun queue_item :: "outbox_item \<Rightarrow> relay \<Rightarrow> relay" where
  "queue_item (DeviceItem g) r = save (upd_state (\<lambda>s. s\<lparr>st_outbox :=
     filter (\<lambda>i. \<not> registers_token (fcm_token g) i) (st_outbox s) @ [DeviceItem g]\<rparr>) r)"
| "queue_item (EventItem e) r = save (upd_state (\<lambda>s. s\<lparr>st_outbox := st_outbox s @ [EventItem e]\<rparr>) r)"

text \<open>\<open>outbox.pop(0)\<close> after a refusal that will not change: the item is recorded among the last twenty
  rejected ones.\<close>

definition reject_head :: "int \<Rightarrow> nat \<Rightarrow> string \<Rightarrow> outbox_item \<Rightarrow> relay \<Rightarrow> relay" where
  "reject_head now code message i r = save (upd_state (\<lambda>s. s\<lparr>
     st_outbox := drop 1 (st_outbox s),
     st_rejected := last_n 20 (st_rejected s @ [\<lparr>rj_kind = item_kind i, rj_status = code, rj_at = now\<rparr>]),
     st_last_error := take 240 message\<rparr>) r)"

definition deliver_head :: "outbox_item \<Rightarrow> relay \<Rightarrow> relay" where
  "deliver_head i r = save (upd_state (\<lambda>s. s\<lparr>st_outbox := drop 1 (st_outbox s),
     st_registration_revision := st_registration_revision s + (if is_device_item i then 1 else 0)\<rparr>) r)"

text \<open>The loop over the outbox; \<open>items\<close> is its content on entry, \<open>now\<close> is \<open>int(time.time())\<close>.\<close>

fun flush_loop :: "network \<Rightarrow> int \<Rightarrow> outbox_item list \<Rightarrow> relay \<Rightarrow> relay_error option \<times> relay" where
  "flush_loop net now [] r = (None, r)"
| "flush_loop net now (i # items) r =
    (case request net (agent_path r (CHR ''/'' # item_kind i)) (OutboxBody i) True False r of
       (Inr x, r1) \<Rightarrow> flush_loop net now items (deliver_head i r1)
     | (Inl (RelayRequestError code message), r1) \<Rightarrow>
         (if retryable code then (None, r1)
          else flush_loop net now items (reject_head now code message i r1))
     | (Inl (OsError m), r1) \<Rightarrow> (None, r1)
     | (Inl (ValueErr m), r1) \<Rightarrow> (Some (ValueErr m), r1))"

definition flush :: "network \<Rightarrow> int \<Rightarrow> relay \<Rightarrow> relay_error option \<times> relay" where
  "flush net now r = flush_loop net now (st_outbox (rl_state r)) r"

section \<open>observe\<close>

definition feed_only_live_call_kinds :: "string list" where
  "feed_only_live_call_kinds = [''call_active'', ''pbx_live_calls_activity'', ''trunk_active'', ''trunk_call_active'']"

definition should_relay :: "signal \<Rightarrow> bool" where
  "should_relay s =
    (if sg_state s \<noteq> ''active'' \<or> category s = ''recommendation'' then False
     else if sg_kind s \<in> set feed_only_live_call_kinds then False
     else if category s = ''activity'' then True
     else importance s \<in> {''attention'', ''important''})"

text \<open>A Signal as the dict the Home payload holds.\<close>

definition signal_json :: "signal \<Rightarrow> (string \<times> json) list" where
  "signal_json s =
    [(''id'', JStr (sg_id s)), (''kind'', JStr (sg_kind s)), (''category'', JStr (category s)),
     (''importance'', JStr (importance s)), (''state'', JStr (sg_state s)), (''title'', JStr (sg_title s)),
     (''body'', JStr (sg_body s)), (''timeLabel'', JStr (time_label s)),
     (''actionLabel'', case action_label s of None \<Rightarrow> JNull | Some a \<Rightarrow> JStr a),
     (''why'', JList (map JStr (why s))),
     (''technical'', JObj (map (\<lambda>(k, v). (k, JStr v)) (technical s)))]
    @ (case notification_id s of None \<Rightarrow> [] | Some n \<Rightarrow> [(''notificationId'', JStr n)])"

definition fingerprint :: "signal \<Rightarrow> string" where
  "fingerprint s = json_dumps (JObj (filter (\<lambda>(k, v). k \<noteq> ''notificationId'') (signal_json s)))"

definition event_of_signal :: "signal \<Rightarrow> relay_event" where
  "event_of_signal s = \<lparr>re_id = opt_or (notification_id s) (sg_id s), re_signal_id = sg_id s, re_title = sg_title s,
     re_body = sg_body s, re_category = category s, re_importance = importance s\<rparr>"

definition observe_signal :: "signal \<Rightarrow> relay \<Rightarrow> relay" where
  "observe_signal s r =
    (if \<not> should_relay s then r
     else if map_of (st_delivered (rl_state r)) (sg_id s) = Some (fingerprint s) then r
     else queue_item (EventItem (event_of_signal s))
       (upd_state (\<lambda>t. t\<lparr>st_delivered := AList.update (sg_id s) (fingerprint s) (st_delivered t)\<rparr>) r))"

definition active_ids :: "signal list \<Rightarrow> string list" where
  "active_ids signals = map sg_id (filter (\<lambda>s. sg_state s = ''active'') signals)"

text \<open>The part of \<open>observe\<close> before the flush.\<close>

definition observe_queue :: "signal list \<Rightarrow> relay \<Rightarrow> relay" where
  "observe_queue signals r = save (foldl (\<lambda>r s. observe_signal s r)
     (upd_state (\<lambda>t. t\<lparr>st_delivered := filter (\<lambda>(k, v). k \<in> set (active_ids signals)) (st_delivered t)\<rparr>) r) signals)"

definition observe :: "network \<Rightarrow> int \<Rightarrow> signal list \<Rightarrow> relay \<Rightarrow> relay_error option \<times> relay" where
  "observe net now signals r =
    (case ensure_enrolled net r of
       (Inl e, r1) \<Rightarrow> (Some e, r1)
     | (Inr False, r1) \<Rightarrow> (None, r1)
     | (Inr True, r1) \<Rightarrow> flush net now (observe_queue signals r1))"

end
