(* ===== verification/RelayDevices.thy ===== *)
theory RelayDevices
  imports Relay
begin

text \<open>
  \<open>relay.py\<close>, the operations on paired apps: registering, listing and removing them, the pairing
  capability (\<open>activation\<close>), the heartbeat and the secure exchange. \<open>sha\<close> is the hex digest of
  SHA-256, \<open>iso_secs\<close> is \<open>_iso_timestamp\<close>; the clock readings are arguments.
\<close>

section \<open>The pairing capability\<close>

definition issue_activation :: "network \<Rightarrow> (string \<Rightarrow> rat) \<Rightarrow> string \<Rightarrow> relay \<Rightarrow> (relay_error + (string \<times> string) option) \<times> relay" where
  "issue_activation net iso_secs public_key r =
    (let ticket = (if rl_ticket r \<noteq> [] \<and> st_agent_id (rl_state r) = [] then Some (rl_ticket r) else None) in
     case request net ''/v1/activations'' (ActivationRequest public_key (rl_display_name r) ticket) True False r of
       (Inl e, r1) \<Rightarrow> (if is_os_error e then (Inr None, r1) else (Inl e, r1))
     | (Inr x, r1) \<Rightarrow>
        (if an_activation_id x = [] \<or> an_activation_secret x = [] then (Inr None, r1)
         else (Inr (Some (an_activation_id x, an_activation_secret x)),
           save (upd_state (\<lambda>s. s\<lparr>st_activation := Some \<lparr>ac_id = an_activation_id x,
             ac_secret = an_activation_secret x, ac_expires_at = iso_secs (an_expires_at x)\<rparr>\<rparr>) r1))))"

definition activation_locked :: "network \<Rightarrow> (string \<Rightarrow> rat) \<Rightarrow> string \<Rightarrow> rat \<Rightarrow> relay \<Rightarrow> (relay_error + (string \<times> string) option) \<times> relay" where
  "activation_locked net iso_secs public_key now r =
    (if rl_url r = [] then (Inr None, r)
     else case usable_activation r of
         None \<Rightarrow> issue_activation net iso_secs public_key r
       | Some a \<Rightarrow>
          (if ac_expires_at a > now + 30 then
             (case activation_status net a r of
                (Inl e, r1) \<Rightarrow> (if is_os_error e then (Inr (Some (ac_id a, ac_secret a)), r1) else (Inl e, r1))
              | (Inr x, r1) \<Rightarrow>
                 (case adopt_claimed_activation x r1 of
                    (True, r2) \<Rightarrow> issue_activation net iso_secs public_key r2
                  | (False, r2) \<Rightarrow>
                     (if an_expired x then issue_activation net iso_secs public_key (forget_activation r2)
                      else (Inr (Some (ac_id a, ac_secret a)), r2))))
           else issue_activation net iso_secs public_key (forget_activation r)))"

text \<open>\<open>activation\<close>: an error never reaches the pairing page.\<close>

definition activation :: "network \<Rightarrow> (string \<Rightarrow> rat) \<Rightarrow> string \<Rightarrow> rat \<Rightarrow> relay \<Rightarrow> (string \<times> string) option \<times> relay" where
  "activation net iso_secs public_key now r =
    (case activation_locked net iso_secs public_key now r of (Inr a, r1) \<Rightarrow> (a, r1) | (Inl e, r1) \<Rightarrow> (None, r1))"

section \<open>Registering an app\<close>

record device_request =
  dr_token :: string
  dr_meaningful :: bool
  dr_activity :: bool
  dr_platform :: string
  dr_app_version :: string
  dr_device_model :: string
  dr_device_name :: string
  dr_os_version :: string
  dr_relay_device_id :: string
  dr_encryption_key :: string

definition registration_of :: "device_request \<Rightarrow> registration" where
  "registration_of d = \<lparr>fcm_token = strip (dr_token d), meaningful_enabled = dr_meaningful d,
     activity_enabled = dr_activity d, rg_platform = or_str (strip (dr_platform d)) ''android'',
     rg_app_version = strip (dr_app_version d), rg_device_model = strip (dr_device_model d),
     rg_device_name = strip (dr_device_name d), rg_os_version = strip (dr_os_version d),
     rg_relay_device_id = (if strip (dr_relay_device_id d) \<noteq> [] then Some (strip (dr_relay_device_id d)) else None),
     rg_encryption_key = (if strip (dr_encryption_key d) \<noteq> [] then Some (strip (dr_encryption_key d)) else None)\<rparr>"

definition list_devices :: "network \<Rightarrow> relay \<Rightarrow> (relay_error + answer) \<times> relay" where
  "list_devices net r = request net (agent_path r ''/devices/list'') EmptyBody True False r"

definition device_is_listed :: "network \<Rightarrow> (string \<Rightarrow> string) \<Rightarrow> string \<Rightarrow> string \<Rightarrow> relay \<Rightarrow> (relay_error + bool) \<times> relay" where
  "device_is_listed net sha token device_id r =
    (let expected_id = or_str device_id (take 12 (sha token)) in
     case list_devices net r of
       (Inl e, r1) \<Rightarrow> (if is_os_error e then Inr False else Inl e, r1)
     | (Inr x, r1) \<Rightarrow> (Inr (case an_devices x of None \<Rightarrow> False
         | Some ds \<Rightarrow> list_ex (\<lambda>d. case d of None \<Rightarrow> False | Some v \<Rightarrow> rd_id v = expected_id) ds), r1))"

record registration_result =
  rr_configured :: bool
  rr_queued :: bool
  rr_delivered :: bool

text \<open>The answer of \<open>register_device\<close> once the outbox has been flushed.\<close>

definition registration_outcome :: "network \<Rightarrow> (string \<Rightarrow> string) \<Rightarrow> device_request \<Rightarrow> bool \<Rightarrow> relay \<Rightarrow> (relay_error + registration_result) \<times> relay" where
  "registration_outcome net sha d enrolled r =
    (let token = strip (dr_token d);
         accepted = (enrolled \<and> \<not> list_ex (registers_token token) (st_outbox (rl_state r)));
         r1 = (if accepted \<and> strip (dr_relay_device_id d) \<noteq> [] \<and> strip (dr_encryption_key d) \<noteq> []
               then r\<lparr>rl_refreshed_at := 0\<rparr> else r)
     in case (if accepted then device_is_listed net sha token (strip (dr_relay_device_id d)) r1 else (Inr False, r1)) of
          (Inl e, r2) \<Rightarrow> (Inl e, r2)
        | (Inr delivered, r2) \<Rightarrow>
            (Inr \<lparr>rr_configured = enrolled, rr_queued = \<not> delivered, rr_delivered = delivered\<rparr>, r2))"

definition queue_registration :: "device_request \<Rightarrow> relay \<Rightarrow> relay" where
  "queue_registration d r = queue_item (DeviceItem (registration_of d))
     (upd_state (\<lambda>s. s\<lparr>st_attempt_revision := st_attempt_revision s + 1\<rparr>) r)"

definition register_device :: "network \<Rightarrow> (string \<Rightarrow> string) \<Rightarrow> int \<Rightarrow> device_request \<Rightarrow> relay \<Rightarrow> (relay_error + registration_result) \<times> relay" where
  "register_device net sha now d r =
    (if strip (dr_token d) = [] then (Inr \<lparr>rr_configured = configured r, rr_queued = False, rr_delivered = False\<rparr>, r)
     else case ensure_enrolled net (queue_registration d r) of
         (Inl e, r1) \<Rightarrow> (Inl e, r1)
       | (Inr False, r1) \<Rightarrow> registration_outcome net sha d False r1
       | (Inr True, r1) \<Rightarrow>
          (case flush net now r1 of
             (Some e, r2) \<Rightarrow> (Inl e, r2)
           | (None, r2) \<Rightarrow> registration_outcome net sha d True r2))"

section \<open>Listing and removing apps\<close>

datatype device_list = NotEnrolled | Unavailable | Available "relay_device option list"

definition devices :: "network \<Rightarrow> relay \<Rightarrow> (relay_error + device_list) \<times> relay" where
  "devices net r =
    (case ensure_enrolled net r of
       (Inl e, r1) \<Rightarrow> (Inl e, r1)
     | (Inr False, r1) \<Rightarrow> (Inr NotEnrolled, r1)
     | (Inr True, r1) \<Rightarrow>
        (case list_devices net r1 of
           (Inl e, r2) \<Rightarrow> (if is_os_error e then Inr Unavailable else Inl e, r2)
         | (Inr x, r2) \<Rightarrow> (Inr (Available (opt_or (an_devices x) [])), r2)))"

definition remove_device :: "network \<Rightarrow> (string \<Rightarrow> rat) \<Rightarrow> string \<Rightarrow> rat \<Rightarrow> string \<Rightarrow> string \<Rightarrow> relay \<Rightarrow> (relay_error + bool) \<times> relay" where
  "remove_device net iso_secs public_key now token device_id r =
    (if strip token = [] \<and> strip device_id = [] then (Inr False, r)
     else case ensure_enrolled net r of
         (Inl e, r1) \<Rightarrow> (Inl e, r1)
       | (Inr False, r1) \<Rightarrow> (Inr False, r1)
       | (Inr True, r1) \<Rightarrow>
          (case request net (agent_path r1 ''/devices/revoke'')
              (RevokeDevice (strip token) (if strip device_id \<noteq> [] then Some (strip device_id) else None)) True False r1 of
             (Inl e, r2) \<Rightarrow> (if is_os_error e then Inr False else Inl e, r2)
           | (Inr x, r2) \<Rightarrow> (Inr True, snd (activation_locked net iso_secs public_key now (r2\<lparr>rl_refreshed_at := 0\<rparr>)))))"

section \<open>Heartbeat and exchange\<close>

definition presence_heartbeat_interval :: rat where
  "presence_heartbeat_interval = 30"

text \<open>\<open>t0\<close> and \<open>t1\<close> are the readings of the monotonic clock before and after the request.\<close>

definition heartbeat :: "network \<Rightarrow> rat \<Rightarrow> rat \<Rightarrow> relay \<Rightarrow> relay_error option \<times> relay" where
  "heartbeat net t0 t1 r =
    (case ensure_enrolled net r of
       (Inl e, r1) \<Rightarrow> (Some e, r1)
     | (Inr enrolled, r1) \<Rightarrow>
        (if \<not> enrolled \<or> t0 - rl_last_heartbeat r1 < presence_heartbeat_interval then (None, r1)
         else case request net (agent_path r1 ''/heartbeat'') EmptyBody True False r1 of
             (Inl e, r2) \<Rightarrow> (if is_os_error e then None else Some e, r2)
           | (Inr x, r2) \<Rightarrow> (None, r2\<lparr>rl_last_heartbeat := t1\<rparr>)))"

definition secure_exchange :: "network \<Rightarrow> json \<Rightarrow> relay \<Rightarrow> (relay_error + json) \<times> relay" where
  "secure_exchange net payload r =
    (case ensure_enrolled net r of
       (Inl e, r1) \<Rightarrow> (Inl e, r1)
     | (Inr False, r1) \<Rightarrow> (Inl (OsError ''Relay enrollment is not ready''), r1)
     | (Inr True, r1) \<Rightarrow>
        (case request net (agent_path r1 ''/secure/exchange'') (ExchangeBody payload) True True r1 of
           (Inl e, r2) \<Rightarrow> (Inl e, r2)
         | (Inr x, r2) \<Rightarrow> (Inr (an_json x), r2)))"

end
