(* ===== verification/RelaySecure.thy ===== *)
theory RelaySecure
  imports Relay
begin

text \<open>
  \<open>relay.py\<close>, the snapshots for the apps: what of the Home payload leaves the site
  (\<open>_secure_snapshot_projection\<close>) and \<open>publish_secure_snapshot\<close>. Encryption is the third-party
  package's: a parameter that gives the envelope of a device or raises; \<open>sha\<close> is the hex digest of
  SHA-256.
\<close>

section \<open>The projection\<close>

definition pop_keys :: "string list \<Rightarrow> 'v pydict \<Rightarrow> 'v pydict" where
  "pop_keys ks d = filter (\<lambda>(k, v). k \<notin> set ks) d"

definition modify_key :: "string \<Rightarrow> ('v \<Rightarrow> 'v) \<Rightarrow> 'v pydict \<Rightarrow> 'v pydict" where
  "modify_key k f d = (case map_of d k of None \<Rightarrow> d | Some v \<Rightarrow> AList.update k (f v) d)"

fun project_connection :: "json \<Rightarrow> json" where
  "project_connection (JObj c) = JObj (AList.update ''label'' (JStr ''Connected securely'')
     (AList.update ''kind'' (JStr ''internetRelay'') (pop_keys [''pbxHost'', ''pbxPort'', ''pushRelayAgentId''] c)))"
| "project_connection j = j"

fun project_call :: "json \<Rightarrow> json" where
  "project_call (JObj c) = JObj (pop_keys [''recording''] c)"
| "project_call j = j"

fun project_calls :: "json \<Rightarrow> json" where
  "project_calls (JList cs) = JList (map project_call cs)"
| "project_calls j = j"

fun project_relay_status :: "(json \<Rightarrow> string) \<Rightarrow> json \<Rightarrow> json" where
  "project_relay_status repr (JObj s) = JObj
     [(''enabled'', JBool (truthy (opt_or (map_of s ''enabled'') JNull))),
      (''connected'', JBool (truthy (opt_or (map_of s ''connected'') JNull))),
      (''lastError'', JStr (take 240 (str_json repr (opt_or (map_of s ''lastError'') (JStr [])))))]"
| "project_relay_status repr j = j"

definition secure_snapshot_projection :: "(json \<Rightarrow> string) \<Rightarrow> json pydict \<Rightarrow> json pydict" where
  "secure_snapshot_projection repr snapshot =
     modify_key ''internetRelay'' (project_relay_status repr)
       (modify_key ''calls'' project_calls
         (modify_key ''connection'' project_connection snapshot))"

section \<open>publish_secure_snapshot\<close>

type_synonym encryption = "string \<Rightarrow> string \<Rightarrow> relay_device \<Rightarrow> int \<Rightarrow> relay_error + envelope"

fun encrypt_all :: "encryption \<Rightarrow> string \<Rightarrow> string \<Rightarrow> int \<Rightarrow> relay_device list \<Rightarrow> relay_error + envelope list" where
  "encrypt_all encrypt raw agent n [] = Inr []"
| "encrypt_all encrypt raw agent n (d # ds) =
    (case encrypt raw agent d n of
       Inl e \<Rightarrow> Inl e
     | Inr v \<Rightarrow> (case encrypt_all encrypt raw agent n ds of Inl e \<Rightarrow> Inl e | Inr vs \<Rightarrow> Inr (v # vs)))"

definition encrypted_devices :: "relay_device list \<Rightarrow> relay_device list" where
  "encrypted_devices ds = filter (\<lambda>d. rd_encryption_key d \<noteq> []) ds"

definition snapshot_fingerprint :: "(string \<Rightarrow> string) \<Rightarrow> string \<Rightarrow> relay_device list \<Rightarrow> string" where
  "snapshot_fingerprint sha raw ds = sha (raw @ json_text (JList (map JStr
     (sort (map (\<lambda>d. rd_id d @ '':'' @ rd_encryption_key d) (encrypted_devices ds))))))"

text \<open>The list of devices, read again after five minutes; \<open>None\<close> is the early return for an answer
  without a list.\<close>

definition refresh_devices :: "network \<Rightarrow> rat \<Rightarrow> rat \<Rightarrow> relay \<Rightarrow> (relay_error + bool) \<times> relay" where
  "refresh_devices net t0 t1 r =
    (if rl_refreshed_at r = 0 \<or> t0 - rl_refreshed_at r \<ge> 300 then
       (case request net (agent_path r ''/devices/list'') EmptyBody True False r of
          (Inl e, r1) \<Rightarrow> (Inl e, r1)
        | (Inr x, r1) \<Rightarrow>
           (case an_devices x of
              None \<Rightarrow> (Inr False, r1)
            | Some ds \<Rightarrow> (Inr True, r1\<lparr>rl_secure_devices := List.map_filter (\<lambda>d. d) ds, rl_refreshed_at := t1\<rparr>)))
     else (Inr True, r))"

definition send_snapshot :: "network \<Rightarrow> (string \<Rightarrow> string) \<Rightarrow> encryption \<Rightarrow> string \<Rightarrow> relay \<Rightarrow> (relay_error + int) \<times> relay" where
  "send_snapshot net sha encrypt raw r =
    (let fp = snapshot_fingerprint sha raw (rl_secure_devices r);
         n = st_snapshot_sequence (rl_state r) + 1
     in if st_snapshot_fingerprint (rl_state r) = Some fp then (Inr 0, r)
        else case encrypt_all encrypt raw (st_agent_id (rl_state r)) n (encrypted_devices (rl_secure_devices r)) of
            Inl e \<Rightarrow> (Inl e, r)
          | Inr [] \<Rightarrow> (Inr 0, r)
          | Inr (v # vs) \<Rightarrow>
             (case request net (agent_path r ''/secure/snapshots'') (SnapshotBody (v # vs)) True True r of
                (Inl e, r1) \<Rightarrow> (Inl e, r1)
              | (Inr x, r1) \<Rightarrow>
                 (case an_stored x of
                    Inl m \<Rightarrow> (Inl (ValueErr m), r1)
                  | Inr stored \<Rightarrow>
                     (Inr stored, if stored \<noteq> 0
                       then save (upd_state (\<lambda>s. s\<lparr>st_snapshot_sequence := n, st_snapshot_fingerprint := Some fp\<rparr>) r1)
                       else r1))))"

definition publish_secure_snapshot :: "network \<Rightarrow> (string \<Rightarrow> string) \<Rightarrow> encryption \<Rightarrow> (json \<Rightarrow> string) \<Rightarrow> rat \<Rightarrow> rat \<Rightarrow> json pydict \<Rightarrow> relay
    \<Rightarrow> (relay_error + int) \<times> relay" where
  "publish_secure_snapshot net sha encrypt repr t0 t1 snapshot r =
    (case ensure_enrolled net r of
       (Inl e, r1) \<Rightarrow> (Inl e, r1)
     | (Inr False, r1) \<Rightarrow> (Inl (OsError ''Relay enrollment is not ready''), r1)
     | (Inr True, r1) \<Rightarrow>
        (case refresh_devices net t0 t1 r1 of
           (Inl e, r2) \<Rightarrow> (Inl e, r2)
         | (Inr False, r2) \<Rightarrow> (Inr 0, r2)
         | (Inr True, r2) \<Rightarrow>
            send_snapshot net sha encrypt (json_dumps (JObj (secure_snapshot_projection repr snapshot))) r2))"

section \<open>What leaves the site\<close>

lemma map_of_modify_key: "map_of (modify_key k f d) l = (if l = k then map_option f (map_of d k) else map_of d l)"
  by (auto simp: modify_key_def update_conv' split: option.split)

lemma map_of_pop_keys: "map_of (pop_keys ks d) k = (if k \<in> set ks then None else map_of d k)"
  unfolding pop_keys_def by (induction d) auto

lemma projection_lookup:
  "map_of (secure_snapshot_projection repr s) k =
    (if k = ''internetRelay'' then map_option (project_relay_status repr) (map_of s k)
     else if k = ''calls'' then map_option project_calls (map_of s k)
     else if k = ''connection'' then map_option project_connection (map_of s k)
     else map_of s k)"
  unfolding secure_snapshot_projection_def map_of_modify_key by simp

text \<open>A path into a document: the value behind a list of keys.\<close>

fun at_path :: "string list \<Rightarrow> json \<Rightarrow> json option" where
  "at_path [] j = Some j"
| "at_path (k # ks) (JObj kvs) = (case map_of kvs k of None \<Rightarrow> None | Some v \<Rightarrow> at_path ks v)"
| "at_path (k # ks) j = None"

lemma project_call_lookup: "at_path [k] (project_call c) = (if k = ''recording'' then None else at_path [k] c)"
  by (cases c) (auto simp: map_of_pop_keys)

lemma project_connection_lookup:
  "at_path [k] (project_connection c) =
    (if k \<in> {''pbxHost'', ''pbxPort'', ''pushRelayAgentId''} then None
     else if (\<exists>d. c = JObj d) \<and> k = ''label'' then Some (JStr ''Connected securely'')
     else if (\<exists>d. c = JObj d) \<and> k = ''kind'' then Some (JStr ''internetRelay'') else at_path [k] c)"
  by (cases c) (auto simp: map_of_pop_keys update_conv')

lemma project_calls_JList: "project_calls j = JList cs \<Longrightarrow> \<exists>ds. cs = map project_call ds"
  by (cases j) auto

lemma project_relay_status_JObj: "project_relay_status repr j = JObj st \<Longrightarrow> map fst st = [''enabled'', ''connected'', ''lastError'']"
  by (cases j) auto



section \<open>The sequence of the snapshots\<close>

lemma send_snapshot_steps:
  "(if (\<exists>n. fst (send_snapshot net sha encrypt raw r) = Inr n \<and> n \<noteq> 0)
    then rl_state (snd (send_snapshot net sha encrypt raw r)) = (rl_state r)\<lparr>
        st_snapshot_sequence := st_snapshot_sequence (rl_state r) + 1,
        st_snapshot_fingerprint := Some (snapshot_fingerprint sha raw (rl_secure_devices r))\<rparr> \<and>
      rl_file (snd (send_snapshot net sha encrypt raw r)) = rl_state (snd (send_snapshot net sha encrypt raw r))
    else rl_state (snd (send_snapshot net sha encrypt raw r)) = rl_state r \<and>
      rl_file (snd (send_snapshot net sha encrypt raw r)) = rl_file r) \<and>
    rl_url (snd (send_snapshot net sha encrypt raw r)) = rl_url r \<and>
    rl_secure_devices (snd (send_snapshot net sha encrypt raw r)) = rl_secure_devices r \<and>
    rl_refreshed_at (snd (send_snapshot net sha encrypt raw r)) = rl_refreshed_at r"
proof (cases "st_snapshot_fingerprint (rl_state r) = Some (snapshot_fingerprint sha raw (rl_secure_devices r))")
  case False
  let ?n = "st_snapshot_sequence (rl_state r) + 1"
  show ?thesis
  proof (cases "encrypt_all encrypt raw (st_agent_id (rl_state r)) ?n (encrypted_devices (rl_secure_devices r))")
    case (Inr es)
    show ?thesis
    proof (cases es)
      case (Cons v vs)
      define q where "q = request net (agent_path r ''/secure/snapshots'') (SnapshotBody (v # vs)) True True r"
      have st: "rl_state (snd q) = rl_state r" "rl_file (snd q) = rl_file r" "rl_url (snd q) = rl_url r"
        "rl_secure_devices (snd q) = rl_secure_devices r" "rl_refreshed_at (snd q) = rl_refreshed_at r" by (simp_all add: q_def)
      obtain a r1 where qr: "q = (a, r1)" by force
      with False Inr Cons have sn: "send_snapshot net sha encrypt raw r = (case q of
          (Inl e, r1) \<Rightarrow> (Inl e, r1)
        | (Inr x, r1) \<Rightarrow> (case an_stored x of
              Inl m \<Rightarrow> (Inl (ValueErr m), r1)
            | Inr stored \<Rightarrow> (Inr stored, if stored \<noteq> 0
                 then save (upd_state (\<lambda>s. s\<lparr>st_snapshot_sequence := ?n,
                   st_snapshot_fingerprint := Some (snapshot_fingerprint sha raw (rl_secure_devices r))\<rparr>) r1) else r1)))"
        by (simp add: send_snapshot_def Let_def q_def)
      show ?thesis
      proof (cases a)
        case (Inr x)
        with sn qr st show ?thesis by (cases "an_stored x") (simp_all add: save_def)
      qed (use sn qr st in simp)
    qed (use False Inr in \<open>simp add: send_snapshot_def Let_def\<close>)
  qed (use False in \<open>simp add: send_snapshot_def Let_def\<close>)
qed (simp add: send_snapshot_def)

end
