(* ===== verification/RelayLaws.thy ===== *)
theory RelayLaws
  imports RelayDevices RelaySecure
begin

text \<open>
  Laws of the relay client. A locale states what a property of the client's state must satisfy to be
  kept by the primitive changes; inside it every operation is shown to keep it, hence every reachable
  state has it. Three interpretations give the bounds of the store, one pending registration per app
  and the durability of the store.
\<close>

section \<open>Reachable states\<close>

text \<open>\<open>__init__\<close> after \<open>_load\<close>: the store read from the identity file.\<close>

definition loaded :: "relay \<Rightarrow> bool" where
  "loaded r = (rl_file r = rl_state r \<and> rl_log r = [] \<and> rl_secure_devices r = [] \<and>
     rl_last_heartbeat r = 0 \<and> rl_refreshed_at r = 0)"

definition fresh_store :: relay_store where
  "fresh_store = \<lparr>st_agent_id = [], st_activation = None, st_outbox = [], st_rejected = [], st_last_error = [],
     st_delivered = [], st_attempt_revision = 0, st_registration_revision = 0, st_snapshot_sequence = 0,
     st_snapshot_fingerprint = None\<rparr>"

text \<open>The states a client reaches from a stored file with property \<open>P\<close>, whatever the network answers
  and in whatever order the operations are called; an operation that raises leaves the state it had
  reached.\<close>

inductive relay_reachable :: "network \<Rightarrow> (relay_store \<Rightarrow> bool) \<Rightarrow> relay \<Rightarrow> bool" for net P where
  start: "loaded r \<Longrightarrow> P (rl_state r) \<Longrightarrow> relay_reachable net P r"
| observed: "relay_reachable net P r \<Longrightarrow> relay_reachable net P (snd (observe net now signals r))"
| registered: "relay_reachable net P r \<Longrightarrow> relay_reachable net P (snd (register_device net sha now d r))"
| listed: "relay_reachable net P r \<Longrightarrow> relay_reachable net P (snd (devices net r))"
| removed: "relay_reachable net P r \<Longrightarrow> relay_reachable net P (snd (remove_device net iso_secs pk now token device_id r))"
| activated: "relay_reachable net P r \<Longrightarrow> relay_reachable net P (snd (activation net iso_secs pk now r))"
| beaten: "relay_reachable net P r \<Longrightarrow> relay_reachable net P (snd (heartbeat net t0 t1 r))"
| exchanged: "relay_reachable net P r \<Longrightarrow> relay_reachable net P (snd (secure_exchange net payload r))"
| published: "relay_reachable net P r \<Longrightarrow> relay_reachable net P (snd (publish_secure_snapshot net sha encrypt repr t0 t1 snapshot r))"

locale relay_invariant =
  fixes I :: "relay \<Rightarrow> bool"
  assumes log: "I r \<Longrightarrow> I (r\<lparr>rl_log := l\<rparr>)"
    and beat: "I r \<Longrightarrow> I (r\<lparr>rl_last_heartbeat := t\<rparr>)"
    and refreshed: "I r \<Longrightarrow> I (r\<lparr>rl_refreshed_at := t\<rparr>)"
    and cached: "I r \<Longrightarrow> I (r\<lparr>rl_secure_devices := ds\<rparr>)"
    and adopt: "I r \<Longrightarrow> I (save (upd_state (\<lambda>s. s\<lparr>st_agent_id := a, st_activation := None\<rparr>) r))"
    and capability: "I r \<Longrightarrow> I (save (upd_state (\<lambda>s. s\<lparr>st_activation := c\<rparr>) r))"
    and reject: "I r \<Longrightarrow> I (reject_head now code m i r)"
    and deliver: "I r \<Longrightarrow> I (deliver_head i r)"
    and snapshot: "I r \<Longrightarrow> I (save (upd_state (\<lambda>s. s\<lparr>st_snapshot_sequence := n, st_snapshot_fingerprint := f\<rparr>) r))"
    and registration: "I r \<Longrightarrow> I (queue_registration d r)"
    and observation: "I r \<Longrightarrow> I (observe_queue signals r)"
begin

text \<open>One rule per kind of branch of the operations.\<close>

lemma branch_pair: "I (snd p) \<Longrightarrow> (\<And>x r. I r \<Longrightarrow> I (snd (f x r))) \<Longrightarrow> I (snd (case p of (x, r) \<Rightarrow> f x r))"
  by (cases p) simp

lemma branch_sum: "(\<And>e. I (snd (f e))) \<Longrightarrow> (\<And>y. I (snd (g y))) \<Longrightarrow> I (snd (case x of Inl e \<Rightarrow> f e | Inr y \<Rightarrow> g y))"
  by (cases x) simp_all

lemma branch_bool: "I (snd p) \<Longrightarrow> I (snd q) \<Longrightarrow> I (snd (case b of True \<Rightarrow> p | False \<Rightarrow> q))"
  by (cases b) simp_all

lemma branch_option: "I (snd p) \<Longrightarrow> (\<And>y. I (snd (g y))) \<Longrightarrow> I (snd (case x of None \<Rightarrow> p | Some y \<Rightarrow> g y))"
  by (cases x) simp_all

lemma branch_list: "I (snd p) \<Longrightarrow> (\<And>y ys. I (snd (g y ys))) \<Longrightarrow> I (snd (case x of [] \<Rightarrow> p | y # ys \<Rightarrow> g y ys))"
  by (cases x) simp_all

lemma branch_if: "I (snd p) \<Longrightarrow> I (snd q) \<Longrightarrow> I (snd (if b then p else q))"
  by simp

lemma branch_error: "(\<And>c m. I (snd (f c m))) \<Longrightarrow> (\<And>m. I (snd (g m))) \<Longrightarrow> (\<And>m. I (snd (h m))) \<Longrightarrow>
    I (snd (case e of RelayRequestError c m \<Rightarrow> f c m | OsError m \<Rightarrow> g m | ValueErr m \<Rightarrow> h m))"
  by (cases e) simp_all

lemma branch_value: "I r \<Longrightarrow> I (snd (x, r))"
  by simp

lemma value_if: "I p \<Longrightarrow> I q \<Longrightarrow> I (if b then p else q)"
  by simp

lemmas branches = branch_pair branch_sum branch_bool branch_option branch_list branch_if branch_error branch_value value_if

text \<open>The steps the operations share.\<close>

lemma request: "I r \<Longrightarrow> I (snd (request net p b sg rp r))"
  by (simp add: request_def Let_def log)

lemma adopted: "I r \<Longrightarrow> I (snd (adopt_claimed_activation x r))"
  by (simp add: adopt_claimed_activation_def adopt)

lemma forgotten: "I r \<Longrightarrow> I (forget_activation r)"
  unfolding forget_activation_def by (rule capability)

lemma status: "I r \<Longrightarrow> I (snd (activation_status net a r))"
  unfolding activation_status_def by (rule request)

lemma enrolled: "I r \<Longrightarrow> I (snd (ensure_enrolled net r))"
  unfolding ensure_enrolled_def by (intro branches status adopted forgotten)

lemma flushed_loop: "I r \<Longrightarrow> I (snd (flush_loop net now items r))"
proof (induction items arbitrary: r)
  case (Cons i items)
  then show ?case unfolding flush_loop.simps by (intro branches request Cons.IH reject deliver)
qed simp

lemma flushed: "I r \<Longrightarrow> I (snd (flush net now r))"
  unfolding flush_def by (rule flushed_loop)

lemma issued: "I r \<Longrightarrow> I (snd (issue_activation net iso_secs pk r))"
  unfolding issue_activation_def Let_def by (intro branches request capability)

lemma activated: "I r \<Longrightarrow> I (snd (activation_locked net iso_secs pk now r))"
  unfolding activation_locked_def by (intro branches status adopted forgotten issued)

lemma listing: "I r \<Longrightarrow> I (snd (list_devices net r))"
  unfolding list_devices_def by (rule request)

lemma outcome: "I r \<Longrightarrow> I (snd (registration_outcome net sha d b r))"
  unfolding registration_outcome_def device_is_listed_def Let_def
  by (intro branches listing refreshed)

lemma refreshing: "I r \<Longrightarrow> I (snd (refresh_devices net t0 t1 r))"
  unfolding refresh_devices_def by (intro branches request cached refreshed)

lemma sending: "I r \<Longrightarrow> I (snd (send_snapshot net sha encrypt raw r))"
  unfolding send_snapshot_def Let_def by (intro branches request snapshot)

text \<open>The operations.\<close>

lemma after_observe: "I r \<Longrightarrow> I (snd (observe net now signals r))"
  unfolding observe_def by (intro branches enrolled flushed observation)

lemma after_register: "I r \<Longrightarrow> I (snd (register_device net sha now d r))"
  unfolding register_device_def by (intro branches enrolled flushed outcome registration)

lemma after_devices: "I r \<Longrightarrow> I (snd (devices net r))"
  unfolding devices_def by (intro branches enrolled listing)

lemma after_remove: "I r \<Longrightarrow> I (snd (remove_device net iso_secs pk now token i r))"
  unfolding remove_device_def by (intro branches enrolled request activated refreshed)

lemma after_activation: "I r \<Longrightarrow> I (snd (activation net iso_secs pk now r))"
  unfolding activation_def by (intro branches activated)

lemma after_heartbeat: "I r \<Longrightarrow> I (snd (heartbeat net t0 t1 r))"
  unfolding heartbeat_def by (intro branches enrolled request beat)

lemma after_exchange: "I r \<Longrightarrow> I (snd (secure_exchange net payload r))"
  unfolding secure_exchange_def by (intro branches enrolled request)

lemma after_publish: "I r \<Longrightarrow> I (snd (publish_secure_snapshot net sha encrypt repr t0 t1 snapshot r))"
  unfolding publish_secure_snapshot_def by (intro branches enrolled refreshing sending)

lemma reachable:
  assumes "relay_reachable net P r" and "\<And>r. loaded r \<Longrightarrow> P (rl_state r) \<Longrightarrow> I r"
  shows "I r"
  using assms(1) by induction
    (auto intro: assms(2) after_observe after_register after_devices after_remove after_activation after_heartbeat
      after_exchange after_publish)

end

section \<open>Bounds, one pending registration per app, durability\<close>

lemma observe_signal_store:
  "st_rejected (rl_state (observe_signal s r)) = st_rejected (rl_state r)"
  "filter is_device_item (st_outbox (rl_state (observe_signal s r))) = filter is_device_item (st_outbox (rl_state r))"
  "st_last_error (rl_state (observe_signal s r)) = st_last_error (rl_state r)"
  by (simp_all add: observe_signal_def save_def)

lemma observe_queue_store:
  "st_rejected (rl_state (observe_queue signals r)) = st_rejected (rl_state r)"
  "filter is_device_item (st_outbox (rl_state (observe_queue signals r))) = filter is_device_item (st_outbox (rl_state r))"
  "st_last_error (rl_state (observe_queue signals r)) = st_last_error (rl_state r)"
  "rl_file (observe_queue signals r) = rl_state (observe_queue signals r)"
proof -
  have "st_rejected (rl_state (foldl (\<lambda>r s. observe_signal s r) q ss)) = st_rejected (rl_state q) \<and>
      filter is_device_item (st_outbox (rl_state (foldl (\<lambda>r s. observe_signal s r) q ss))) =
      filter is_device_item (st_outbox (rl_state q)) \<and>
      st_last_error (rl_state (foldl (\<lambda>r s. observe_signal s r) q ss)) = st_last_error (rl_state q)" for q ss
    by (induction ss arbitrary: q) (simp_all add: observe_signal_store)
  then show "st_rejected (rl_state (observe_queue signals r)) = st_rejected (rl_state r)"
    "filter is_device_item (st_outbox (rl_state (observe_queue signals r))) = filter is_device_item (st_outbox (rl_state r))"
    "st_last_error (rl_state (observe_queue signals r)) = st_last_error (rl_state r)"
    by (simp_all add: observe_queue_def save_def)
qed (simp add: observe_queue_def save_def)

definition rejects_bounded :: "relay_store \<Rightarrow> bool" where
  "rejects_bounded s = (length (st_rejected s) \<le> 20 \<and> length (st_last_error s) \<le> 240)"

definition pending_tokens :: "outbox_item list \<Rightarrow> string list" where
  "pending_tokens items = List.map_filter (\<lambda>i. case i of DeviceItem g \<Rightarrow> Some (fcm_token g) | EventItem e \<Rightarrow> None) items"

definition one_pending_per_app :: "relay_store \<Rightarrow> bool" where
  "one_pending_per_app s = distinct (pending_tokens (st_outbox s))"

lemma pending_tokens_simps [simp]:
  "pending_tokens [] = []" "pending_tokens (DeviceItem g # items) = fcm_token g # pending_tokens items"
  "pending_tokens (EventItem e # items) = pending_tokens items"
  "pending_tokens (xs @ ys) = pending_tokens xs @ pending_tokens ys"
  by (simp_all add: pending_tokens_def List.map_filter_def)

lemma pending_tokens_devices: "pending_tokens (filter is_device_item items) = pending_tokens items"
proof (induction items)
  case (Cons i items)
  then show ?case by (cases i) simp_all
qed simp

lemma pending_after_drop: "distinct (pending_tokens items) \<Longrightarrow> distinct (pending_tokens (drop 1 items))"
proof (cases items)
  case (Cons i rest)
  then show "distinct (pending_tokens items) \<Longrightarrow> ?thesis" by (cases i) simp_all
qed simp

lemma pending_after_filter:
  "pending_tokens (filter (\<lambda>i. \<not> registers_token t i) items) = filter (\<lambda>u. u \<noteq> t) (pending_tokens items)"
proof (induction items)
  case (Cons i items)
  then show ?case by (cases i) simp_all
qed simp

lemma pending_cong: "filter is_device_item xs = filter is_device_item ys \<Longrightarrow> pending_tokens xs = pending_tokens ys"
  by (metis pending_tokens_devices)

interpretation bounded: relay_invariant "\<lambda>r. rejects_bounded (rl_state r)"
  by unfold_locales (simp_all add: rejects_bounded_def reject_head_def deliver_head_def queue_registration_def
      save_def observe_queue_store(1,3))

interpretation single: relay_invariant "\<lambda>r. one_pending_per_app (rl_state r)"
proof unfold_locales
  fix r :: relay and signals assume "one_pending_per_app (rl_state r)"
  then show "one_pending_per_app (rl_state (observe_queue signals r))"
    unfolding one_pending_per_app_def pending_cong [OF observe_queue_store(2)] .
next
  fix r :: relay and d assume "one_pending_per_app (rl_state r)"
  then show "one_pending_per_app (rl_state (queue_registration d r))"
    by (simp add: one_pending_per_app_def queue_registration_def save_def pending_after_filter)
qed (simp_all add: one_pending_per_app_def reject_head_def deliver_head_def save_def pending_after_drop [unfolded One_nat_def])

interpretation durable: relay_invariant "\<lambda>r. rl_file r = rl_state r"
proof unfold_locales
  fix r :: relay and d show "rl_file (queue_registration d r) = rl_state (queue_registration d r)"
    by (simp add: queue_registration_def save_def)
qed (simp_all add: save_def reject_head_def deliver_head_def observe_queue_store(4))


definition relay_start :: relay where
  "relay_start = \<lparr>rl_url = ''https://push'', rl_display_name = ''Office'', rl_ticket = [],
     rl_state = fresh_store\<lparr>st_agent_id := ''a1''\<rparr>, rl_file = fresh_store\<lparr>st_agent_id := ''a1''\<rparr>,
     rl_last_heartbeat = 0, rl_secure_devices = [], rl_refreshed_at = 0, rl_log = []\<rparr>"

definition phone_request :: device_request where
  "phone_request = \<lparr>dr_token = ''tok'', dr_meaningful = True, dr_activity = False, dr_platform = [], dr_app_version = [],
     dr_device_model = [], dr_device_name = [], dr_os_version = [], dr_relay_device_id = ''d1'', dr_encryption_key = []\<rparr>"


end
