(* ===== verification/RelayOutbox.thy ===== *)
theory RelayOutbox
  imports RelayLaws
begin

text \<open>
  What the outbox delivers and what \<open>observe\<close> puts into it: the order of delivery, which Signals become
  push events, and when two Signals count as the same.
\<close>

section \<open>Delivery in order\<close>

text \<open>The replies after which an item leaves the outbox.\<close>

fun settles :: "reply \<Rightarrow> bool" where
  "settles (Answer x) = True"
| "settles AnswerNotObject = True"
| "settles (HttpError code d) = (\<not> retryable code)"
| "settles (NetworkDown m) = False"
| "settles (NotJson m) = False"

definition item_request :: "string \<Rightarrow> outbox_item \<Rightarrow> request" where
  "item_request agent i = \<lparr>rq_path = ''/v1/agents/'' @ agent @ ''/'' @ item_kind i, rq_body = OutboxBody i,
     rq_signed = True, rq_replay_protected = False\<rparr>"

definition delivery :: "string \<Rightarrow> outbox_item list \<Rightarrow> outbox_item list \<Rightarrow> (request \<times> reply) list \<Rightarrow> bool" where
  "delivery agent items rest sent =
    (let settled = takeWhile (\<lambda>e. settles (snd e)) sent in
     map fst sent = map (item_request agent) (take (length sent) items) \<and>
     rest = drop (length settled) items \<and>
     (list_all (\<lambda>e. settles (snd e)) sent \<and> length sent = length items \<or> length sent = Suc (length settled)))"

lemma delivery_Nil: "delivery agent [] [] []"
  by (simp add: delivery_def)

lemma delivery_stop: "\<not> settles a \<Longrightarrow> delivery agent (i # items) (i # items) [(item_request agent i, a)]"
  by (simp add: delivery_def)

lemma delivery_Cons: "settles a \<Longrightarrow> delivery agent items rest sent \<Longrightarrow>
    delivery agent (i # items) rest ((item_request agent i, a) # sent)"
  by (auto simp: delivery_def Let_def)

lemma deliver_head_store [simp]:
  "st_outbox (rl_state (deliver_head i r)) = drop 1 (st_outbox (rl_state r))"
  "st_agent_id (rl_state (deliver_head i r)) = st_agent_id (rl_state r)" "rl_log (deliver_head i r) = rl_log r"
  "st_outbox (rl_state (reject_head now c m i r)) = drop 1 (st_outbox (rl_state r))"
  "st_agent_id (rl_state (reject_head now c m i r)) = st_agent_id (rl_state r)" "rl_log (reject_head now c m i r) = rl_log r"
  by (simp_all add: deliver_head_def reject_head_def save_def)

lemma flush_loop_delivers:
  "st_outbox (rl_state r) = items \<Longrightarrow>
    \<exists>sent. rl_log (snd (flush_loop net now items r)) = rl_log r @ sent \<and>
      delivery (st_agent_id (rl_state r)) items (st_outbox (rl_state (snd (flush_loop net now items r)))) sent"
proof (induction items arbitrary: r)
  case Nil
  then show ?case by (simp add: delivery_Nil)
next
  case (Cons i items)
  define q where "q = item_request (st_agent_id (rl_state r)) i"
  define a where "a = net (length (rl_log r)) q"
  define r1 where "r1 = r\<lparr>rl_log := rl_log r @ [(q, a)]\<rparr>"
  have req: "request net (agent_path r (CHR ''/'' # item_kind i)) (OutboxBody i) True False r =
      (case a of Answer x \<Rightarrow> Inr x | AnswerNotObject \<Rightarrow> Inr empty_answer
       | HttpError code detail \<Rightarrow> Inl (RelayRequestError code (http_message code detail))
       | NetworkDown m \<Rightarrow> Inl (OsError m) | NotJson m \<Rightarrow> Inl (ValueErr m), r1)"
    by (simp add: request_def Let_def a_def r1_def q_def item_request_def agent_path_def)
  show ?case
  proof (cases "settles a")
    case False
    then have "snd (flush_loop net now (i # items) r) = r1" using req by (cases a) auto
    with False Cons.prems show ?thesis
      by (auto simp: r1_def q_def intro!: exI [of _ "[(q, a)]"] delivery_stop)
  next
    case True
    then obtain r2 where fl: "flush_loop net now (i # items) r = flush_loop net now items r2"
      and r2: "(\<exists>c m. r2 = reject_head now c m i r1) \<or> r2 = deliver_head i r1"
      using req by (cases a) auto
    then have s: "st_outbox (rl_state r2) = items" "st_agent_id (rl_state r2) = st_agent_id (rl_state r)"
      "rl_log r2 = rl_log r @ [(q, a)]"
      using Cons.prems by (auto simp: r1_def)
    from Cons.IH [OF s(1)] obtain sent where
      l: "rl_log (snd (flush_loop net now items r2)) = rl_log r2 @ sent" and
      d: "delivery (st_agent_id (rl_state r2)) items (st_outbox (rl_state (snd (flush_loop net now items r2)))) sent"
      by blast
    from delivery_Cons [OF True d, of i] l s show ?thesis
      unfolding fl by (intro exI [of _ "(q, a) # sent"]) (simp add: q_def)
  qed
qed

text \<open>
  C4. The outbox is delivered in order and nothing is skipped: a flush sends the items from the front,
  one request each, an item leaves the outbox exactly when the relay accepted it or refused it for
  good, and the flush ends with an empty outbox or behind the first item that got neither (which stays
  first in the outbox).
\<close>

theorem flush_delivers_in_order:
  "\<exists>sent. rl_log (snd (flush net now r)) = rl_log r @ sent \<and>
     map fst sent = map (item_request (st_agent_id (rl_state r))) (take (length sent) (st_outbox (rl_state r))) \<and>
     st_outbox (rl_state (snd (flush net now r))) =
       drop (length (takeWhile (\<lambda>e. settles (snd e)) sent)) (st_outbox (rl_state r)) \<and>
     (list_all (\<lambda>e. settles (snd e)) sent \<and> length sent = length (st_outbox (rl_state r)) \<or>
      length sent = Suc (length (takeWhile (\<lambda>e. settles (snd e)) sent)))"
proof -
  obtain sent where "rl_log (snd (flush net now r)) = rl_log r @ sent"
    and d: "delivery (st_agent_id (rl_state r)) (st_outbox (rl_state r)) (st_outbox (rl_state (snd (flush net now r)))) sent"
    using flush_loop_delivers [OF refl, of net now r] unfolding flush_def by blast
  then show ?thesis
    by (intro exI [of _ sent]) (auto simp: delivery_def Let_def)
qed

section \<open>When two Signals are the same\<close>

lemma sort_key_map_fst: "sort_key fst (map (\<lambda>(k, v). (k, f v)) xs) = map (\<lambda>(k, v). (k, f v)) (sort_key fst xs)"
proof -
  have ins: "insort_key fst (k, f v) (map (\<lambda>(k, v). (k, f v)) ys) = map (\<lambda>(k, v). (k, f v)) (insort_key fst (k, v) ys)"
    for k v ys by (induction ys) auto
  show ?thesis by (induction xs) (auto simp: ins)
qed

lemma sort_key_fst_inj:
  assumes "map fst xs = map fst ys" and "distinct (map fst xs)"
  shows "sort_key fst xs = sort_key fst ys \<longleftrightarrow> xs = ys"
proof
  assume "sort_key fst xs = sort_key fst ys"
  then have "set (sort_key fst xs) = set (sort_key fst ys)" by simp
  then have s: "set xs = set ys" by simp
  show "xs = ys"
  proof (rule nth_equalityI)
    show "length xs = length ys" using assms(1) by (metis length_map)
    fix i assume i: "i < length xs"
    with \<open>length xs = length ys\<close> s have "ys ! i \<in> set xs" by (metis nth_mem)
    then obtain j where j: "j < length xs" "xs ! j = ys ! i" by (auto simp: in_set_conv_nth)
    then have "fst (xs ! j) = fst (xs ! i)" using assms(1) i \<open>length xs = length ys\<close> by (metis nth_map)
    then have "j = i" using assms(2) i j by (metis length_map nth_eq_iff_index_eq nth_map)
    with j show "xs ! i = ys ! i" by simp
  qed
qed simp

definition semantic_json :: "signal \<Rightarrow> (string \<times> json) list" where
  "semantic_json s =
    [(''id'', JStr (sg_id s)), (''kind'', JStr (sg_kind s)), (''category'', JStr (category s)),
     (''importance'', JStr (importance s)), (''state'', JStr (sg_state s)), (''title'', JStr (sg_title s)),
     (''body'', JStr (sg_body s)), (''timeLabel'', JStr (time_label s)),
     (''actionLabel'', case action_label s of None \<Rightarrow> JNull | Some a \<Rightarrow> JStr a),
     (''why'', JList (map JStr (why s))),
     (''technical'', JObj (map (\<lambda>(k, v). (k, JStr v)) (technical s)))]"

lemma fingerprint_semantic: "fingerprint s = json_dumps (JObj (semantic_json s))"
  by (cases "notification_id s") (simp_all add: fingerprint_def signal_json_def semantic_json_def)

lemma number_free_semantic: "number_free (JObj (semantic_json s))"
  by (auto simp: semantic_json_def list_all_iff split: option.split)

lemma sorted_semantic: "map (\<lambda>(k, v). (k, sort_keys v)) (semantic_json s) = semantic_json (s\<lparr>technical := sort_key fst (technical s)\<rparr>)"
proof -
  have "sort_keys (JObj (map (\<lambda>(k, v). (k, JStr v)) t)) = JObj (map (\<lambda>(k, v). (k, JStr v)) (sort_key fst t))" for t
    using sort_key_map_fst [of JStr t] by (simp add: comp_def case_prod_unfold)
  then show ?thesis
    by (simp add: semantic_json_def comp_def split: option.split)
qed

lemma semantic_keys: "map fst (semantic_json s) = map fst (semantic_json t)" "distinct (map fst (semantic_json s))"
  by (simp_all add: semantic_json_def)

lemma semantic_json_inj: "semantic_json s = semantic_json t \<longleftrightarrow> s\<lparr>notification_id := None\<rparr> = t\<lparr>notification_id := None\<rparr>"
proof -
  have "map (\<lambda>(k, v). (k, JStr v)) a = map (\<lambda>(k, v). (k, JStr v)) b \<longleftrightarrow> a = b" for a b
    by (rule inj_map_eq_map) (auto simp: inj_def)
  moreover have "map JStr a = map JStr b \<longleftrightarrow> a = b" for a b by (rule inj_map_eq_map) (auto simp: inj_def)
  ultimately show ?thesis
    by (cases s; cases t) (auto simp: semantic_json_def split: option.splits)
qed

text \<open>
  C34. Two Signals have the same fingerprint exactly when they agree in everything but the occurrence
  id (and the order of the technical details): no two different Signals are confused, and a new
  occurrence id alone changes nothing.
\<close>

theorem fingerprint_is_content:
  "fingerprint s = fingerprint t \<longleftrightarrow>
    s\<lparr>technical := sort_key fst (technical s), notification_id := None\<rparr> =
    t\<lparr>technical := sort_key fst (technical t), notification_id := None\<rparr>"
proof -
  let ?c = "\<lambda>s. s\<lparr>technical := sort_key fst (technical s)\<rparr>"
  have "fingerprint s = fingerprint t \<longleftrightarrow>
      sort_key fst (semantic_json (?c s)) = sort_key fst (semantic_json (?c t))"
    unfolding fingerprint_semantic json_dumps_eq_iff [OF number_free_semantic number_free_semantic]
      sort_keys.simps sorted_semantic by simp
  also have "\<dots> \<longleftrightarrow> semantic_json (?c s) = semantic_json (?c t)"
    by (rule sort_key_fst_inj [OF semantic_keys])
  also have "\<dots> \<longleftrightarrow> (?c s)\<lparr>notification_id := None\<rparr> = (?c t)\<lparr>notification_id := None\<rparr>"
    by (rule semantic_json_inj)
  finally show ?thesis by simp
qed

section \<open>What observe queues\<close>

definition new_content :: "string pydict \<Rightarrow> signal \<Rightarrow> bool" where
  "new_content delivered s = (should_relay s \<and> map_of delivered (sg_id s) \<noteq> Some (fingerprint s))"

definition relayed_ids_distinct :: "signal list \<Rightarrow> bool" where
  "relayed_ids_distinct ss = distinct (map sg_id (filter should_relay ss))"

lemma observe_signal_cases:
  "observe_signal s r = (if new_content (st_delivered (rl_state r)) s
     then queue_item (EventItem (event_of_signal s))
       (upd_state (\<lambda>t. t\<lparr>st_delivered := AList.update (sg_id s) (fingerprint s) (st_delivered t)\<rparr>) r)
     else r)"
  by (simp add: observe_signal_def new_content_def)

lemma observe_signals_store:
  assumes "relayed_ids_distinct ss"
  shows "st_outbox (rl_state (foldl (\<lambda>r s. observe_signal s r) r ss)) = st_outbox (rl_state r) @
      map (\<lambda>s. EventItem (event_of_signal s)) (filter (new_content (st_delivered (rl_state r))) ss) \<and>
    map_of (st_delivered (rl_state (foldl (\<lambda>r s. observe_signal s r) r ss))) k =
      (case find (\<lambda>s. should_relay s \<and> sg_id s = k) ss of Some s \<Rightarrow> Some (fingerprint s)
       | None \<Rightarrow> map_of (st_delivered (rl_state r)) k)"
  using assms
proof (induction ss arbitrary: r)
  case (Cons s ss)
  let ?d = "st_delivered (rl_state r)" and ?r = "observe_signal s r"
  from Cons.prems have rest: "relayed_ids_distinct ss" by (simp add: relayed_ids_distinct_def split: if_splits)
  have later: "sg_id t \<noteq> sg_id s" if "t \<in> set ss" "should_relay t" "should_relay s" for t
  proof -
    from that(1,2) have "sg_id t \<in> sg_id ` {x \<in> set ss. should_relay x}" by blast
    with Cons.prems that(3) show ?thesis by (simp add: relayed_ids_distinct_def) metis
  qed
  have same: "map_of (st_delivered (rl_state ?r)) k = map_of ?d k" if "k \<noteq> sg_id s" for k
    using that by (simp add: observe_signal_cases save_def update_conv')
  have fil: "filter (new_content (st_delivered (rl_state ?r))) ss = filter (new_content ?d) ss"
  proof (rule filter_cong [OF refl])
    fix t assume t: "t \<in> set ss"
    show "new_content (st_delivered (rl_state ?r)) t = new_content ?d t"
    proof (cases "should_relay s \<and> should_relay t")
      case True
      with same later t show ?thesis by (simp add: new_content_def)
    next
      case False
      then show ?thesis by (auto simp: new_content_def observe_signal_def)
    qed
  qed
  have at: "map_of (st_delivered (rl_state ?r)) (sg_id s) =
      (if should_relay s then Some (fingerprint s) else map_of ?d (sg_id s))"
    by (simp add: observe_signal_def save_def update_conv')
  have none: "find (\<lambda>t. should_relay t \<and> sg_id t = sg_id s) ss = None" if "should_relay s"
    using later that by (auto simp: find_None_iff)
  have out: "st_outbox (rl_state ?r) = st_outbox (rl_state r) @ (if new_content ?d s then [EventItem (event_of_signal s)] else [])"
    by (simp add: observe_signal_cases save_def)
  show ?case
    using Cons.IH [OF rest, of ?r] fil at none out same [of k]
    by (cases "k = sg_id s") (auto split: option.split)
qed simp

lemma map_of_filter_keys: "map_of (filter (\<lambda>(k, v). k \<in> A) d) k = (if k \<in> A then map_of d k else None)"
  by (induction d) auto

lemma should_relay_active: "should_relay s \<Longrightarrow> s \<in> set ss \<Longrightarrow> sg_id s \<in> set (active_ids ss)"
  by (auto simp: should_relay_def active_ids_def split: if_splits)

lemma observe_queue_outbox:
  assumes "relayed_ids_distinct ss"
  shows "st_outbox (rl_state (observe_queue ss r)) = st_outbox (rl_state r) @
    map (\<lambda>s. EventItem (event_of_signal s)) (filter (new_content (st_delivered (rl_state r))) ss)"
proof -
  let ?a = "upd_state (\<lambda>t. t\<lparr>st_delivered := filter (\<lambda>(k, v). k \<in> set (active_ids ss)) (st_delivered t)\<rparr>) r"
  have "filter (new_content (st_delivered (rl_state ?a))) ss = filter (new_content (st_delivered (rl_state r))) ss"
    by (rule filter_cong) (auto simp: new_content_def map_of_filter_keys should_relay_active)
  with observe_signals_store [OF assms, of ?a] show ?thesis
    by (simp add: observe_queue_def save_def)
qed

lemma observe_queue_delivered:
  assumes "relayed_ids_distinct ss"
  shows "map_of (st_delivered (rl_state (observe_queue ss r))) k =
    (case find (\<lambda>s. should_relay s \<and> sg_id s = k) ss of Some s \<Rightarrow> Some (fingerprint s)
     | None \<Rightarrow> if k \<in> set (active_ids ss) then map_of (st_delivered (rl_state r)) k else None)"
  using observe_signals_store [OF assms,
      of "upd_state (\<lambda>t. t\<lparr>st_delivered := filter (\<lambda>(k, v). k \<in> set (active_ids ss)) (st_delivered t)\<rparr>) r" k]
  by (simp add: observe_queue_def save_def map_of_filter_keys split: option.split)


definition outage_signal :: "string \<Rightarrow> signal" where
  "outage_signal occurrence = \<lparr>sg_id = ''sig_endpoint_200_unavailable'', sg_kind = ''endpoint_unavailable'', category = ''health'',
     importance = ''attention'', sg_state = ''active'', sg_title = ''Ann looks unavailable.'', sg_body = [], time_label = ''Just now'',
     action_label = None, why = [], technical = [], notification_id = Some occurrence\<rparr>"


text \<open>
  The time label is part of the content: a relayable Signal that is observed again with another
  label, as an event of the Activity feed is every minute, is queued a second time, as the same event.
\<close>

theorem activity_event_requeued_when_label_changes:
  assumes "should_relay s" and "map_of (st_delivered (rl_state r)) (sg_id s) \<noteq> Some (fingerprint s)"
    and "time_label s \<noteq> l"
  shows "st_outbox (rl_state (observe_queue [s\<lparr>time_label := l\<rparr>] (observe_queue [s] r))) =
    st_outbox (rl_state r) @ [EventItem (event_of_signal s), EventItem (event_of_signal s)]"
proof -
  let ?s = "s\<lparr>time_label := l\<rparr>"
  have d: "relayed_ids_distinct [t]" for t by (simp add: relayed_ids_distinct_def)
  have "fingerprint s \<noteq> fingerprint ?s"
  proof
    assume "fingerprint s = fingerprint ?s"
    then have "semantic_json (s\<lparr>technical := sort_key fst (technical s)\<rparr>) =
        semantic_json (?s\<lparr>technical := sort_key fst (technical ?s)\<rparr>)"
      unfolding fingerprint_semantic json_dumps_eq_iff [OF number_free_semantic number_free_semantic]
        sort_keys.simps sorted_semantic using sort_key_fst_inj [OF semantic_keys] by simp
    with assms(3) show False by (simp add: semantic_json_def)
  qed
  moreover have "should_relay ?s" "event_of_signal ?s = event_of_signal s"
    using assms(1) by (simp_all add: should_relay_def event_of_signal_def split: if_splits)
  ultimately show ?thesis
    using assms(1,2) by (simp add: observe_queue_outbox [OF d] observe_queue_delivered [OF d] new_content_def)
qed

definition feed_signal :: signal where
  "feed_signal = (outage_signal ''o'')\<lparr>sg_id := ''sig_moment_1'', category := ''activity'', importance := ''feed''\<rparr>"

theorem activity_event_requeued_when_label_changes_witness:
  "length (st_outbox (rl_state (observe_queue [feed_signal\<lparr>time_label := ''1m ago''\<rparr>] (observe_queue [feed_signal] relay_start)))) = 2"
proof -
  have "should_relay feed_signal"
    by (simp add: feed_signal_def outage_signal_def should_relay_def feed_only_live_call_kinds_def)
  moreover have "map_of (st_delivered (rl_state relay_start)) (sg_id feed_signal) \<noteq> Some (fingerprint feed_signal)"
    by (simp add: relay_start_def fresh_store_def)
  moreover have "time_label feed_signal \<noteq> ''1m ago''" by (simp add: feed_signal_def outage_signal_def)
  ultimately show ?thesis
    using activity_event_requeued_when_label_changes [of feed_signal relay_start "''1m ago''"]
    by (simp add: relay_start_def fresh_store_def)
qed

end
