(* ===== verification/RelayPairing.thy ===== *)
theory RelayPairing
  imports RelayLaws
begin

text \<open>
  What the relay client promises the pairing page and the apps: when a registration counts as
  delivered, which pairing capability is handed out, and how the sequence of the encrypted snapshots
  advances.
\<close>

section \<open>Enrollment touches only the identity\<close>

lemma activation_status_store [simp]:
  "rl_state (snd (activation_status net a r)) = rl_state r" "rl_url (snd (activation_status net a r)) = rl_url r"
  by (simp_all add: activation_status_def)

definition same_work :: "relay_store \<Rightarrow> relay_store \<Rightarrow> bool" where
  "same_work s t = (st_outbox s = st_outbox t \<and> st_snapshot_sequence s = st_snapshot_sequence t \<and>
     st_snapshot_fingerprint s = st_snapshot_fingerprint t \<and> st_delivered s = st_delivered t)"

lemma same_work_refl [simp]: "same_work s s"
  by (simp add: same_work_def)

lemma ensure_enrolled_keeps:
  assumes "ensure_enrolled net r = (x, r')"
  shows "same_work (rl_state r') (rl_state r) \<and> rl_url r' = rl_url r \<and>
    (x = Inr True \<longrightarrow> rl_url r' \<noteq> [] \<and> st_agent_id (rl_state r') \<noteq> [])"
proof (cases "rl_url r = [] \<or> st_agent_id (rl_state r) \<noteq> []")
  case True
  with assms show ?thesis by (auto simp: ensure_enrolled_def split: if_splits)
next
  case new: False
  show ?thesis
  proof (cases "usable_activation r")
    case None
    with assms new show ?thesis by (simp add: ensure_enrolled_def) auto
  next
    case (Some a)
    obtain y r1 where st: "activation_status net a r = (y, r1)" by (cases "activation_status net a r")
    with activation_status_store [of net a r] have r1: "rl_state r1 = rl_state r" "rl_url r1 = rl_url r" by simp_all
    show ?thesis
    proof (cases y)
      case (Inl e)
      with assms new Some st r1 show ?thesis by (auto simp: ensure_enrolled_def split: if_splits)
    next
      case (Inr z)
      with assms new Some st r1 show ?thesis
        by (auto simp: ensure_enrolled_def adopt_claimed_activation_def forget_activation_def save_def
            same_work_def split: if_splits)
    qed
  qed
qed

lemma enrolled_stays: "rl_url r \<noteq> [] \<Longrightarrow> st_agent_id (rl_state r) \<noteq> [] \<Longrightarrow> ensure_enrolled net r = (Inr True, r)"
  by (simp add: ensure_enrolled_def)

section \<open>Registrations\<close>

text \<open>The relay's last answer lists the expected id.\<close>

definition last_answer_lists :: "string \<Rightarrow> relay \<Rightarrow> bool" where
  "last_answer_lists i r = (\<exists>l q x ds v. rl_log r = l @ [(q, Answer x)] \<and> rq_path q = agent_path r ''/devices/list'' \<and>
     an_devices x = Some ds \<and> Some v \<in> set ds \<and> rd_id v = i)"

lemma device_is_listed_True:
  assumes "device_is_listed net sha token i r = (Inr True, r')"
  shows "last_answer_lists (or_str i (take 12 (sha token))) r' \<and> rl_state r' = rl_state r"
proof -
  define q where "q = \<lparr>rq_path = agent_path r ''/devices/list'', rq_body = EmptyBody, rq_signed = True, rq_replay_protected = False\<rparr>"
  define a where "a = net (length (rl_log r)) q"
  define r1 where "r1 = r\<lparr>rl_log := rl_log r @ [(q, a)]\<rparr>"
  note simps = device_is_listed_def list_devices_def Let_def
  have req: "request net (agent_path r ''/devices/list'') EmptyBody True False r =
      (case a of Answer x \<Rightarrow> Inr x | AnswerNotObject \<Rightarrow> Inr empty_answer
       | HttpError code detail \<Rightarrow> Inl (RelayRequestError code (http_message code detail))
       | NetworkDown m \<Rightarrow> Inl (OsError m) | NotJson m \<Rightarrow> Inl (ValueErr m), r1)"
    by (simp add: request_def Let_def a_def r1_def q_def)
  have path: "agent_path r1 t = agent_path r t" for t by (simp add: agent_path_def r1_def)
  show ?thesis
  proof (cases a)
    case (Answer x)
    with assms have "r' = r1" and "\<exists>ds v. an_devices x = Some ds \<and> Some v \<in> set ds \<and> rd_id v = or_str i (take 12 (sha token))"
      by (auto simp: simps req list_ex_iff split: option.splits)
    moreover have "rl_log r1 = rl_log r @ [(q, Answer x)]" "rq_path q = agent_path r1 ''/devices/list''" "rl_state r1 = rl_state r"
      using Answer path by (simp_all add: r1_def q_def)
    ultimately show ?thesis unfolding last_answer_lists_def by blast
  qed (use assms in \<open>simp_all add: simps req empty_answer_def\<close>)
qed

lemma registration_outcome_Inr:
  assumes "registration_outcome net sha d b r = (Inr res, r')"
  shows "rr_configured res = b \<and> rr_queued res = (\<not> rr_delivered res) \<and>
    (rr_delivered res \<longrightarrow> \<not> list_ex (registers_token (strip (dr_token d))) (st_outbox (rl_state r')) \<and>
      last_answer_lists (or_str (strip (dr_relay_device_id d)) (take 12 (sha (strip (dr_token d))))) r') \<and>
    (\<not> b \<longrightarrow> r' = r)"
proof -
  let ?t = "strip (dr_token d)" and ?i = "strip (dr_relay_device_id d)"
  define acc where "acc = (b \<and> \<not> list_ex (registers_token ?t) (st_outbox (rl_state r)))"
  define r1 where "r1 = (if acc \<and> ?i \<noteq> [] \<and> strip (dr_encryption_key d) \<noteq> [] then r\<lparr>rl_refreshed_at := 0\<rparr> else r)"
  have r1: "rl_state r1 = rl_state r" by (simp add: r1_def)
  show ?thesis
  proof (cases acc)
    case True
    obtain x r2 where dl: "device_is_listed net sha ?t ?i r1 = (x, r2)" by (cases "device_is_listed net sha ?t ?i r1")
    have eq: "registration_outcome net sha d b r = (case x of Inl e \<Rightarrow> (Inl e, r2)
        | Inr dlv \<Rightarrow> (Inr \<lparr>rr_configured = b, rr_queued = \<not> dlv, rr_delivered = dlv\<rparr>, r2))"
      using True dl unfolding registration_outcome_def Let_def acc_def [symmetric] r1_def [symmetric] by simp
    with assms obtain dlv where x: "x = Inr dlv" "r' = r2" "res = \<lparr>rr_configured = b, rr_queued = \<not> dlv, rr_delivered = dlv\<rparr>"
      by (cases x) auto
    show ?thesis
    proof (cases dlv)
      case True
      with device_is_listed_True [of net sha ?t ?i r1 r2] dl x
      have "last_answer_lists (or_str ?i (take 12 (sha ?t))) r2" "rl_state r2 = rl_state r1" by simp_all
      with x True \<open>acc\<close> r1 show ?thesis by (simp add: acc_def)
    qed (use x \<open>acc\<close> in \<open>simp add: acc_def\<close>)
  next
    case False
    then have "registration_outcome net sha d b r = (Inr \<lparr>rr_configured = b, rr_queued = True, rr_delivered = False\<rparr>, r1)"
      unfolding registration_outcome_def Let_def acc_def [symmetric] r1_def [symmetric] by simp
    with assms False show ?thesis by (auto simp: r1_def)
  qed
qed

text \<open>
  A registration is reported delivered only when it is: no registration of that token is waiting
  any more and the relay's last answer lists the app under its id; otherwise the app is told that it is
  queued. While the Agent is not enrolled the registration stays in the outbox and in the identity
  file.
\<close>

theorem registration_delivered_when_listed:
  assumes "register_device net sha now d r = (Inr res, r')" and "strip (dr_token d) \<noteq> []"
  shows "rr_queued res = (\<not> rr_delivered res) \<and>
    (rr_delivered res \<longrightarrow> \<not> list_ex (registers_token (strip (dr_token d))) (st_outbox (rl_state r')) \<and>
      last_answer_lists (or_str (strip (dr_relay_device_id d)) (take 12 (sha (strip (dr_token d))))) r') \<and>
    (\<not> rr_configured res \<longrightarrow> DeviceItem (registration_of d) \<in> set (st_outbox (rl_state r')) \<and> rl_file r' = rl_state r')"
proof -
  let ?q = "queue_registration d r"
  obtain x r1 where en: "ensure_enrolled net ?q = (x, r1)" by (cases "ensure_enrolled net ?q")
  have sync: "rl_file r1 = rl_state r1"
    using durable.enrolled [of ?q net] en by (simp add: queue_registration_def save_def)
  have "DeviceItem (registration_of d) \<in> set (st_outbox (rl_state ?q))" by (simp add: queue_registration_def save_def)
  with ensure_enrolled_keeps [OF en] have kept: "DeviceItem (registration_of d) \<in> set (st_outbox (rl_state r1))"
    by (simp add: same_work_def)
  show ?thesis
  proof (cases x)
    case (Inl e)
    with assms en show ?thesis by (simp add: register_device_def)
  next
    case (Inr b)
    show ?thesis
    proof (cases b)
      case False
      with assms en Inr have "registration_outcome net sha d False r1 = (Inr res, r')" by (simp add: register_device_def)
      from registration_outcome_Inr [OF this] kept sync show ?thesis by auto
    next
      case True
      obtain e r2 where fl: "flush net now r1 = (e, r2)" by (cases "flush net now r1")
      with assms en Inr True have "registration_outcome net sha d True r2 = (Inr res, r')"
        by (cases e) (simp_all add: register_device_def)
      from registration_outcome_Inr [OF this] show ?thesis by simp
    qed
  qed
qed

definition listing_network :: network where
  "listing_network n q = Answer (empty_answer\<lparr>an_devices := Some [Some \<lparr>rd_id = ''d1'', rd_encryption_key = []\<rparr>]\<rparr>)"

theorem registration_delivered_when_listed_witness:
  "rr_delivered (projr (fst (register_device listing_network (\<lambda>s. s) 7 phone_request relay_start))) \<and>
   rr_queued (projr (fst (register_device listing_network (\<lambda>s. s) 7 phone_request relay_start))) = False"
proof -
  obtain res r' where e: "register_device listing_network (\<lambda>s. s) 7 phone_request relay_start = (Inr res, r')"
    and "rr_delivered res"
  proof -
    have "rr_delivered (projr (fst (register_device listing_network (\<lambda>s. s) 7 phone_request relay_start))) \<and>
        isl (fst (register_device listing_network (\<lambda>s. s) 7 phone_request relay_start)) = False" by code_simp
    then show thesis
      by (cases "register_device listing_network (\<lambda>s. s) 7 phone_request relay_start"; cases "fst (register_device listing_network (\<lambda>s. s) 7 phone_request relay_start)")
        (auto intro: that)
  qed
  moreover have "strip (dr_token phone_request) \<noteq> []" by code_simp
  ultimately show ?thesis using registration_delivered_when_listed [OF e] by simp
qed

text \<open>A refusal for good leaves nothing in the outbox, and the app is still told that it is queued.\<close>

lemma refused_registration_reported_queued:
  "let (res, r') = register_device (\<lambda>_ _. HttpError 400 ''bad token'') (\<lambda>s. s) 7 phone_request relay_start
   in rr_queued (projr res) \<and> st_outbox (rl_state r') = []"
  by code_simp

section \<open>The pairing capability\<close>

lemma issue_activation_Some:
  assumes "issue_activation net iso_secs pk r = (Inr (Some (i, sec)), r')"
  shows "i \<noteq> [] \<and> sec \<noteq> [] \<and> (\<exists>a. st_activation (rl_state r') = Some a \<and> ac_id a = i \<and> ac_secret a = sec) \<and>
    (\<exists>l q x. rl_log r' = l @ [(q, Answer x)] \<and> rq_path q = ''/v1/activations'' \<and> an_activation_id x = i \<and> an_activation_secret x = sec)"
proof -
  define b where "b = ActivationRequest pk (rl_display_name r) (if rl_ticket r \<noteq> [] \<and> st_agent_id (rl_state r) = [] then Some (rl_ticket r) else None)"
  define q where "q = \<lparr>rq_path = ''/v1/activations'', rq_body = b, rq_signed = True, rq_replay_protected = False\<rparr>"
  define a where "a = net (length (rl_log r)) q"
  have req: "request net ''/v1/activations'' b True False r =
      (case a of Answer x \<Rightarrow> Inr x | AnswerNotObject \<Rightarrow> Inr empty_answer
       | HttpError code detail \<Rightarrow> Inl (RelayRequestError code (http_message code detail))
       | NetworkDown m \<Rightarrow> Inl (OsError m) | NotJson m \<Rightarrow> Inl (ValueErr m), r\<lparr>rl_log := rl_log r @ [(q, a)]\<rparr>)"
    by (simp add: request_def Let_def a_def q_def)
  show ?thesis
  proof (cases a)
    case (Answer x)
    with assms show ?thesis
      unfolding issue_activation_def Let_def b_def [symmetric] req by (auto simp: save_def q_def split: if_splits)
  qed (use assms in \<open>unfold issue_activation_def Let_def b_def [symmetric] req, auto simp: empty_answer_def\<close>)
qed

text \<open>The relay's answer about a capability leaves it usable: it is neither claimed nor expired, or the
  relay could not be asked.\<close>

fun leaves_usable :: "reply \<Rightarrow> bool" where
  "leaves_usable (Answer x) = (\<not> (an_claimed x \<and> an_agent_id x \<noteq> []) \<and> \<not> an_expired x)"
| "leaves_usable (NotJson m) = False"
| "leaves_usable a = True"

definition status_request :: "activation \<Rightarrow> request" where
  "status_request a = \<lparr>rq_path = ''/v1/activations/'' @ ac_id a @ ''/status'', rq_body = ActivationSecret (ac_secret a),
     rq_signed = False, rq_replay_protected = False\<rparr>"

text \<open>
  The pairing page shows a capability that can be used: it has an id and a secret, it is the one the
  client has stored, and it is either the relay's newest answer or the stored one, with more than
  thirty seconds left and not reported claimed or expired by the relay just now.
\<close>

theorem shown_capability_is_usable:
  assumes "activation net iso_secs pk now r = (Some (i, sec), r')"
  shows "i \<noteq> [] \<and> sec \<noteq> [] \<and> (\<exists>a. st_activation (rl_state r') = Some a \<and> ac_id a = i \<and> ac_secret a = sec) \<and>
    ((\<exists>l q x. rl_log r' = l @ [(q, Answer x)] \<and> rq_path q = ''/v1/activations'' \<and> an_activation_id x = i \<and> an_activation_secret x = sec)
     \<or> (\<exists>a. st_activation (rl_state r) = Some a \<and> ac_id a = i \<and> ac_secret a = sec \<and> ac_expires_at a > now + 30 \<and>
          leaves_usable (net (length (rl_log r)) (status_request a))))"
proof -
  from assms have l: "activation_locked net iso_secs pk now r = (Inr (Some (i, sec)), r')"
    by (auto simp: activation_def split: prod.splits sum.splits)
  then have url: "rl_url r \<noteq> []" by (auto simp: activation_locked_def split: if_splits)
  show ?thesis
  proof (cases "\<exists>q. issue_activation net iso_secs pk q = (Inr (Some (i, sec)), r')")
    case True
    then show ?thesis using issue_activation_Some by blast
  next
    case False
    then obtain a where a: "usable_activation r = Some a" "ac_expires_at a > now + 30"
      using l url by (auto simp: activation_locked_def split: option.splits if_splits)
    then have st: "st_activation (rl_state r) = Some a" "ac_id a \<noteq> []" "ac_secret a \<noteq> []"
      by (auto simp: usable_activation_def split: option.splits if_splits)
    define p where "p = net (length (rl_log r)) (status_request a)"
    define r1 where "r1 = r\<lparr>rl_log := rl_log r @ [(status_request a, p)]\<rparr>"
    have req: "activation_status net a r =
        (case p of Answer x \<Rightarrow> Inr x | AnswerNotObject \<Rightarrow> Inr empty_answer
         | HttpError code detail \<Rightarrow> Inl (RelayRequestError code (http_message code detail))
         | NetworkDown m \<Rightarrow> Inl (OsError m) | NotJson m \<Rightarrow> Inl (ValueErr m), r1)"
      by (simp add: activation_status_def request_def Let_def p_def r1_def status_request_def)
    have "i = ac_id a \<and> sec = ac_secret a \<and> r' = r1 \<and> leaves_usable p"
      using l url a False req
      by (cases p) (auto simp: activation_locked_def adopt_claimed_activation_def empty_answer_def split: if_splits)
    with st a(2) show ?thesis by (auto simp: p_def r1_def)
  qed
qed

definition offering_network :: network where
  "offering_network n q = Answer (empty_answer\<lparr>an_activation_id := ''act'', an_activation_secret := ''key''\<rparr>)"

theorem shown_capability_is_usable_witness:
  "\<exists>a. st_activation (rl_state (snd (activation offering_network (\<lambda>_. 100) ''pk'' 0 relay_start))) = Some a \<and> ac_secret a = ''key''"
proof -
  have "fst (activation offering_network (\<lambda>_. 100) ''pk'' 0 relay_start) = Some (''act'', ''key'')" by code_simp
  then obtain r' where e: "activation offering_network (\<lambda>_. 100) ''pk'' 0 relay_start = (Some (''act'', ''key''), r')"
    by (cases "activation offering_network (\<lambda>_. 100) ''pk'' 0 relay_start") auto
  from shown_capability_is_usable [OF e] e show ?thesis by auto
qed

section \<open>Snapshots\<close>

lemma refresh_devices_keeps:
  assumes "refresh_devices net t0 t1 r = (x, r')"
  shows "rl_state r' = rl_state r \<and> rl_url r' = rl_url r"
proof -
  obtain y r1 where q: "request net (agent_path r ''/devices/list'') EmptyBody True False r = (y, r1)"
    by (cases "request net (agent_path r ''/devices/list'') EmptyBody True False r")
  with request_store [of net "agent_path r ''/devices/list''" EmptyBody True False r]
  have "rl_state r1 = rl_state r" "rl_url r1 = rl_url r" by simp_all
  with assms q show ?thesis
    by (cases y) (auto simp: refresh_devices_def split: if_splits option.splits)
qed


definition storing_network :: network where
  "storing_network n q = Answer (empty_answer\<lparr>an_devices := Some [Some \<lparr>rd_id = ''d1'', rd_encryption_key = ''key''\<rparr>],
     an_stored := Inr 1\<rparr>)"

definition plain_envelope :: encryption where
  "plain_envelope raw agent d n = Inr \<lparr>ev_device_id = rd_id d, ev_sequence = n, ev_ciphertext = raw\<rparr>"

definition first_publication :: "(relay_error + int) \<times> relay" where
  "first_publication = publish_secure_snapshot storing_network (\<lambda>s. s) plain_envelope (\<lambda>_. []) 10 11 [(''greeting'', JStr ''Hi'')] relay_start"


end
