(* ===== verification/InternetRelay.thy ===== *)
theory InternetRelay
  imports RelayPairing
begin

text \<open>
  \<open>pbxsense_agent/internet_relay.py\<close>: the outbound control session. The two callables it is given are
  arguments acting on a state \<open>'w\<close> of their own: \<open>exchange\<close>, and the publication of a snapshot
  (\<open>None\<close> when there is none). \<open>main.py\<close> passes the relay client of \<open>Relay\<close>; that instance is
  \<open>agent_poll\<close>. The clock readings of one poll are \<open>now\<close> and \<open>command_now\<close>.
\<close>

datatype response = Pong string | Unsupported string

fun response_id :: "response \<Rightarrow> string" where
  "response_id (Pong i) = i"
| "response_id (Unsupported i) = i"

fun response_json :: "response \<Rightarrow> json" where
  "response_json (Pong i) = JObj [(''id'', JStr i), (''status'', JStr ''ok''), (''kind'', JStr ''pong'')]"
| "response_json (Unsupported i) = JObj [(''id'', JStr i), (''status'', JStr ''unsupported'')]"

record internet_relay =
  ir_enabled :: bool
  ir_agent_version :: string
  ir_session_id :: string
  ir_pending :: "response list"
  ir_connected :: bool
  ir_last_exchange :: rat
  ir_last_error :: string
  ir_exchange_seconds :: int

text \<open>\<open>__init__\<close>\<close>

definition internet_relay_init :: "bool \<Rightarrow> string \<Rightarrow> string \<Rightarrow> internet_relay" where
  "internet_relay_init enabled version session = \<lparr>ir_enabled = enabled, ir_agent_version = version,
     ir_session_id = session, ir_pending = [], ir_connected = False, ir_last_exchange = 0, ir_last_error = [],
     ir_exchange_seconds = 300\<rparr>"

section \<open>Commands and policy\<close>

text \<open>\<open>^[A-Za-z0-9_-]{1,96}$\<close>, matched against the whole string.\<close>

definition command_char :: "char \<Rightarrow> bool" where
  "command_char c = (let n = code_point c in
     (65 \<le> n \<and> n \<le> 90) \<or> (97 \<le> n \<and> n \<le> 122) \<or> (48 \<le> n \<and> n \<le> 57) \<or> n = 95 \<or> n = 45)"

definition command_id_ok :: "string \<Rightarrow> bool" where
  "command_id_ok s = (1 \<le> length s \<and> length s \<le> 96 \<and> list_all command_char s)"

text \<open>\<open>_integer\<close>: \<open>int(value)\<close>, 0 for what it refuses.\<close>

fun integer_of :: "json \<Rightarrow> int" where
  "integer_of (JInt i) = i"
| "integer_of (JBool b) = (if b then 1 else 0)"
| "integer_of (JStr s) = opt_or (py_int s) 0"
| "integer_of j = 0"

definition accept_policy :: "json \<Rightarrow> internet_relay \<Rightarrow> internet_relay" where
  "accept_policy raw_policy s = (case raw_policy of
       JObj p \<Rightarrow>
         let seconds = integer_of (opt_or (map_of p ''controlExchangeSeconds'') JNull) in
         if 60 \<le> seconds \<and> seconds \<le> 900 then s\<lparr>ir_exchange_seconds := seconds\<rparr> else s
     | _ \<Rightarrow> s)"

fun command_response :: "(json \<Rightarrow> string) \<Rightarrow> int \<Rightarrow> json \<Rightarrow> response option" where
  "command_response repr now (JObj raw) =
    (let command_id = str_json repr (opt_or (map_of raw ''id'') (JStr []));
         command_type = str_json repr (opt_or (map_of raw ''type'') (JStr []));
         expires_at = integer_of (opt_or (map_of raw ''expiresAt'') JNull)
     in if \<not> command_id_ok command_id \<or> expires_at < now then None
        else if command_type = ''ping'' then Some (Pong command_id) else Some (Unsupported command_id))"
| "command_response repr now j = None"

definition accept_commands :: "(json \<Rightarrow> string) \<Rightarrow> int \<Rightarrow> json \<Rightarrow> internet_relay \<Rightarrow> relay_error option \<times> internet_relay" where
  "accept_commands repr now raw_commands s = (case raw_commands of
       JList cs \<Rightarrow>
         if length cs > 20 then (Some (ValueErr ''Secure relay returned too many commands''), s)
         else (None, s\<lparr>ir_pending := ir_pending s @ List.map_filter (command_response repr now) cs\<rparr>)
     | _ \<Rightarrow> (Some (ValueErr ''Secure relay commands must be a list''), s))"

section \<open>poll\<close>

definition exchange_due :: "rat \<Rightarrow> internet_relay \<Rightarrow> bool" where
  "exchange_due now s = (ir_last_exchange s = 0 \<or> now - ir_last_exchange s \<ge> of_int (ir_exchange_seconds s) \<or> ir_pending s \<noteq> [])"

definition exchange_payload :: "internet_relay \<Rightarrow> json" where
  "exchange_payload s = JObj [(''protocolVersion'', JInt 1), (''sessionId'', JStr (ir_session_id s)),
     (''agentVersion'', JStr (ir_agent_version s)), (''capabilities'', JList [JStr ''ping'', JStr ''encryptedSnapshotV1'']),
     (''responses'', JList (map response_json (take 20 (ir_pending s))))]"

fun error_text :: "relay_error \<Rightarrow> string" where
  "error_text (RelayRequestError code m) = m"
| "error_text (OsError m) = m"
| "error_text (ValueErr m) = m"

definition poll_failed :: "relay_error \<Rightarrow> internet_relay \<Rightarrow> internet_relay" where
  "poll_failed e s = s\<lparr>ir_connected := False, ir_last_error := take 240 (error_text e)\<rparr>"

fun json_get :: "string \<Rightarrow> json \<Rightarrow> json \<Rightarrow> json" where
  "json_get k (JObj d) dflt = opt_or (map_of d k) dflt"
| "json_get k j dflt = dflt"

text \<open>The control exchange of one poll.\<close>

definition control_exchange :: "(json \<Rightarrow> 'w \<Rightarrow> (relay_error + json) \<times> 'w) \<Rightarrow> (json \<Rightarrow> string) \<Rightarrow> rat \<Rightarrow> int \<Rightarrow> internet_relay \<times> 'w
    \<Rightarrow> relay_error option \<times> internet_relay \<times> 'w" where
  "control_exchange exchange repr now command_now sw = (case sw of (s, w) \<Rightarrow>
     case exchange (exchange_payload s) w of
       (Inl e, w1) \<Rightarrow> (Some e, s, w1)
     | (Inr result, w1) \<Rightarrow>
        (case accept_commands repr command_now (json_get ''commands'' result (JList [])) (s\<lparr>ir_pending := []\<rparr>) of
           (Some e, s1) \<Rightarrow> (Some e, s1, w1)
         | (None, s1) \<Rightarrow> (None, (accept_policy (json_get ''policy'' result JNull) s1)\<lparr>ir_last_exchange := now\<rparr>, w1)))"

definition poll :: "(json \<Rightarrow> 'w \<Rightarrow> (relay_error + json) \<times> 'w) \<Rightarrow> ('w \<Rightarrow> (relay_error + int) \<times> 'w) option \<Rightarrow> (json \<Rightarrow> string)
    \<Rightarrow> rat \<Rightarrow> int \<Rightarrow> internet_relay \<times> 'w \<Rightarrow> internet_relay \<times> 'w" where
  "poll exchange publish repr now command_now sw =
    (if \<not> ir_enabled (fst sw) then sw
     else case (if exchange_due now (fst sw) then control_exchange exchange repr now command_now sw else (None, sw)) of
         (Some e, s, w) \<Rightarrow> (poll_failed e s, w)
       | (None, s, w) \<Rightarrow>
          (case (case publish of None \<Rightarrow> (Inr 0, w) | Some p \<Rightarrow> p w) of
             (Inl e, w1) \<Rightarrow> (poll_failed e s, w1)
           | (Inr n, w1) \<Rightarrow> (s\<lparr>ir_connected := True, ir_last_error := []\<rparr>, w1)))"

text \<open>\<open>status\<close>; the protocol version and the capabilities are constants.\<close>

record session_status =
  ss_enabled :: bool
  ss_connected :: bool
  ss_protocol_version :: int
  ss_session_id :: string
  ss_last_exchange_at :: rat
  ss_last_error :: string
  ss_capabilities :: "string list"
  ss_control_exchange_seconds :: int

definition session_status :: "internet_relay \<Rightarrow> session_status" where
  "session_status s = \<lparr>ss_enabled = ir_enabled s, ss_connected = ir_connected s, ss_protocol_version = 1,
     ss_session_id = (if ir_enabled s then ir_session_id s else []), ss_last_exchange_at = ir_last_exchange s,
     ss_last_error = ir_last_error s, ss_capabilities = [''ping'', ''encryptedSnapshotV1''],
     ss_control_exchange_seconds = ir_exchange_seconds s\<rparr>"

text \<open>The session as \<open>main.py\<close> wires it: both callables are the relay client's.\<close>

definition agent_poll :: "network \<Rightarrow> (string \<Rightarrow> string) \<Rightarrow> encryption \<Rightarrow> (json \<Rightarrow> string) \<Rightarrow> json pydict \<Rightarrow> rat \<Rightarrow> rat \<Rightarrow> rat \<Rightarrow> int
    \<Rightarrow> internet_relay \<times> relay \<Rightarrow> internet_relay \<times> relay" where
  "agent_poll net sha encrypt repr home t0 t1 now command_now =
     poll (secure_exchange net) (Some (publish_secure_snapshot net sha encrypt repr t0 t1 home)) repr now command_now"

section \<open>Bounds\<close>

definition session_ok :: "internet_relay \<Rightarrow> bool" where
  "session_ok s = (length (ir_pending s) \<le> 20 \<and> list_all (\<lambda>r. command_id_ok (response_id r)) (ir_pending s) \<and>
     60 \<le> ir_exchange_seconds s \<and> ir_exchange_seconds s \<le> 900 \<and> length (ir_last_error s) \<le> 240)"

lemma command_response_ok: "command_response repr now j = Some r \<Longrightarrow> command_id_ok (response_id r)"
  by (cases j) (auto simp: Let_def split: if_splits)

lemma length_map_filter_le: "length (List.map_filter f xs) \<le> length xs"
  by (induction xs) (simp_all add: List.map_filter_simps split: option.split)

lemma accept_commands_ok:
  assumes "accept_commands repr now cs s = (e, s')" and "session_ok s" and "ir_pending s = []"
  shows "session_ok s'"
proof (cases cs)
  case (JList xs)
  have "list_all (\<lambda>r. command_id_ok (response_id r)) (List.map_filter (command_response repr now) xs)"
    using command_response_ok by (auto simp: list_all_iff in_set_map_filter)
  with assms JList length_map_filter_le [of "command_response repr now" xs] show ?thesis
    by (auto simp: accept_commands_def session_ok_def split: if_splits)
qed (use assms in \<open>auto simp: accept_commands_def\<close>)

lemma accept_policy_ok: "session_ok s \<Longrightarrow> session_ok (accept_policy p s)"
  by (auto simp: accept_policy_def session_ok_def Let_def split: json.splits)

lemma control_exchange_ok:
  assumes "control_exchange exchange repr now cnow (s, w) = (e, s', w')" and "session_ok s"
  shows "session_ok s'"
proof -
  obtain x w1 where ex: "exchange (exchange_payload s) w = (x, w1)" by (cases "exchange (exchange_payload s) w")
  show ?thesis
  proof (cases x)
    case (Inr result)
    obtain e1 s1 where ac: "accept_commands repr cnow (json_get ''commands'' result (JList [])) (s\<lparr>ir_pending := []\<rparr>) = (e1, s1)"
      by (cases "accept_commands repr cnow (json_get ''commands'' result (JList [])) (s\<lparr>ir_pending := []\<rparr>)")
    have "session_ok s1" by (rule accept_commands_ok [OF ac]) (use assms(2) in \<open>simp_all add: session_ok_def\<close>)
    moreover from this have "session_ok ((accept_policy p s1)\<lparr>ir_last_exchange := t\<rparr>)" for p t
      using accept_policy_ok [of s1 p] by (simp add: session_ok_def)
    ultimately show ?thesis using assms(1) ex Inr ac by (cases e1) (auto simp: control_exchange_def)
  qed (use assms ex in \<open>simp add: control_exchange_def\<close>)
qed

lemma poll_ok:
  assumes "session_ok (fst sw)"
  shows "session_ok (fst (poll exchange publish repr now cnow sw))"
proof -
  obtain s w where sw: "sw = (s, w)" by (cases sw)
  define ce where "ce = (if exchange_due now s then control_exchange exchange repr now cnow (s, w) else (None, s, w))"
  obtain e s1 w1 where c: "ce = (e, s1, w1)" by (cases ce)
  have s1: "session_ok s1"
    using c assms control_exchange_ok [of exchange repr now cnow s w] by (auto simp: ce_def sw split: if_splits)
  have f: "session_ok (poll_failed er s1)" for er using s1 by (simp add: session_ok_def poll_failed_def)
  have o: "session_ok (s1\<lparr>ir_connected := True, ir_last_error := []\<rparr>)" using s1 by (simp add: session_ok_def)
  have "poll exchange publish repr now cnow sw = (if \<not> ir_enabled s then (s, w) else case e of Some er \<Rightarrow> (poll_failed er s1, w1)
      | None \<Rightarrow> (case (case publish of None \<Rightarrow> (Inr 0, w1) | Some p \<Rightarrow> p w1) of
             (Inl e, w1) \<Rightarrow> (poll_failed e s1, w1)
           | (Inr n, w1) \<Rightarrow> (s1\<lparr>ir_connected := True, ir_last_error := []\<rparr>, w1)))"
    using c unfolding poll_def sw fst_conv ce_def [symmetric] by (simp split: option.split)
  then show ?thesis using assms f o
    by (simp add: sw split: option.split sum.split prod.split)
qed

text \<open>A run of the session: one poll after another, with the publication and the clock of each.\<close>

definition session_run :: "(json \<Rightarrow> 'w \<Rightarrow> (relay_error + json) \<times> 'w) \<Rightarrow> (json \<Rightarrow> string)
    \<Rightarrow> (('w \<Rightarrow> (relay_error + int) \<times> 'w) option \<times> rat \<times> int) list \<Rightarrow> internet_relay \<times> 'w \<Rightarrow> internet_relay \<times> 'w" where
  "session_run exchange repr polls sw = foldl (\<lambda>sw (publish, now, cnow). poll exchange publish repr now cnow sw) sw polls"

text \<open>
  Whatever the relay answers over any number of polls, the session stays within its bounds: at most
  twenty responses wait, each for a well-formed command id, the exchange interval is between one and
  fifteen minutes and the error text has at most 240 characters.
\<close>

theorem session_stays_bounded:
  "session_ok (fst (session_run exchange repr polls (internet_relay_init enabled version session, w)))"
proof -
  have "session_ok (fst sw) \<Longrightarrow> session_ok (fst (session_run exchange repr polls sw))" for sw
    by (induction polls arbitrary: sw) (auto simp: session_run_def poll_ok split: prod.splits)
  then show ?thesis by (simp add: session_ok_def internet_relay_init_def)
qed

section \<open>Every command is answered once\<close>

lemma poll_pending:
  assumes "ir_enabled s" and "exchange_due now s" and "control_exchange exchange repr now cnow (s, w) = (e, s1, w1)"
  shows "ir_pending (fst (poll exchange publish repr now cnow (s, w))) = ir_pending s1 \<and>
    ir_last_exchange (fst (poll exchange publish repr now cnow (s, w))) = ir_last_exchange s1 \<and>
    (e \<noteq> None \<longrightarrow> \<not> ir_connected (fst (poll exchange publish repr now cnow (s, w))))"
  using assms by (cases e) (auto simp: poll_def poll_failed_def split: sum.split prod.split)

text \<open>
  C36. Commands and responses are matched: a due poll sends all waiting responses; when the exchange
  fails they stay waiting; when it succeeds they are gone and exactly the live, well-formed commands of
  the answer are answered next, in their order, a ping with a pong; an answer that is not a list of at
  most twenty commands leaves nothing waiting and does not count as an exchange.
\<close>

theorem poll_answers_commands:
  assumes "session_ok s" and "ir_enabled s" and "exchange_due now s"
    and "exchange (exchange_payload s) w = (x, w1)" and "poll exchange publish repr now cnow (s, w) = (s', w')"
  shows "json_get ''responses'' (exchange_payload s) JNull = JList (map response_json (ir_pending s)) \<and>
    (case x of
       Inl e \<Rightarrow> ir_pending s' = ir_pending s \<and> ir_last_exchange s' = ir_last_exchange s \<and> \<not> ir_connected s'
     | Inr result \<Rightarrow>
        (\<forall>cs. json_get ''commands'' result (JList []) = JList cs \<and> length cs \<le> 20 \<longrightarrow>
          ir_pending s' = List.map_filter (command_response repr cnow) cs \<and> ir_last_exchange s' = now) \<and>
        ((\<nexists>cs. json_get ''commands'' result (JList []) = JList cs \<and> length cs \<le> 20) \<longrightarrow>
          ir_pending s' = [] \<and> ir_last_exchange s' = ir_last_exchange s \<and> \<not> ir_connected s'))"
proof
  show "json_get ''responses'' (exchange_payload s) JNull = JList (map response_json (ir_pending s))"
    using assms(1) by (simp add: exchange_payload_def session_ok_def)
next
  obtain e s1 w2 where ce: "control_exchange exchange repr now cnow (s, w) = (e, s1, w2)"
    by (cases "control_exchange exchange repr now cnow (s, w)")
  note p = poll_pending [OF assms(2,3) ce, of publish, unfolded assms(5) fst_conv]
  show "case x of
       Inl e \<Rightarrow> ir_pending s' = ir_pending s \<and> ir_last_exchange s' = ir_last_exchange s \<and> \<not> ir_connected s'
     | Inr result \<Rightarrow>
        (\<forall>cs. json_get ''commands'' result (JList []) = JList cs \<and> length cs \<le> 20 \<longrightarrow>
          ir_pending s' = List.map_filter (command_response repr cnow) cs \<and> ir_last_exchange s' = now) \<and>
        ((\<nexists>cs. json_get ''commands'' result (JList []) = JList cs \<and> length cs \<le> 20) \<longrightarrow>
          ir_pending s' = [] \<and> ir_last_exchange s' = ir_last_exchange s \<and> \<not> ir_connected s')"
  proof (cases x)
    case (Inl er)
    with ce assms(4) p show ?thesis by (auto simp: control_exchange_def)
  next
    case (Inr result)
    have pol: "ir_pending (accept_policy j t) = ir_pending t" for j t
      by (simp add: accept_policy_def Let_def split: json.split)
    define j where "j = json_get ''commands'' result (JList [])"
    have c: "control_exchange exchange repr now cnow (s, w) =
        (case accept_commands repr cnow j (s\<lparr>ir_pending := []\<rparr>) of
           (Some e, s1) \<Rightarrow> (Some e, s1, w1)
         | (None, s1) \<Rightarrow> (None, (accept_policy (json_get ''policy'' result JNull) s1)\<lparr>ir_last_exchange := now\<rparr>, w1))"
      using Inr assms(4) by (simp add: control_exchange_def j_def)
    show ?thesis
    proof (cases "\<exists>cs. j = JList cs \<and> length cs \<le> 20")
      case True
      then obtain cs where "j = JList cs" "length cs \<le> 20" by blast
      with c ce p Inr pol show ?thesis by (auto simp: accept_commands_def j_def [symmetric])
    next
      case False
      then have "\<exists>er. accept_commands repr cnow j (s\<lparr>ir_pending := []\<rparr>) = (Some er, s\<lparr>ir_pending := []\<rparr>)"
        by (cases j) (auto simp: accept_commands_def)
      with c ce p Inr False show ?thesis by (auto simp: j_def [symmetric])
    qed
  qed
qed

definition ping_answer :: "json \<Rightarrow> unit \<Rightarrow> (relay_error + json) \<times> unit" where
  "ping_answer payload w = (Inr (JObj [(''commands'', JList [JObj [(''id'', JStr ''c1''), (''type'', JStr ''ping''), (''expiresAt'', JInt 9)]])]), w)"

theorem poll_answers_commands_witness:
  "ir_pending (fst (poll ping_answer None (\<lambda>_. []) 5 5 (internet_relay_init True ''1'' ''s'', ()))) = [Pong ''c1'']"
proof -
  let ?s = "internet_relay_init True ''1'' ''s''"
  let ?cs = "[JObj [(''id'', JStr ''c1''), (''type'', JStr ''ping''), (''expiresAt'', JInt 9)]]"
  have s: "session_ok ?s" "ir_enabled ?s" "exchange_due 5 ?s"
    by (simp_all add: session_ok_def internet_relay_init_def exchange_due_def)
  have x: "ping_answer (exchange_payload ?s) () = (Inr (JObj [(''commands'', JList ?cs)]), ())"
    by (simp add: ping_answer_def)
  obtain s' where p: "poll ping_answer None (\<lambda>_. []) 5 5 (?s, ()) = (s', ())"
    by (cases "poll ping_answer None (\<lambda>_. []) 5 5 (?s, ())") auto
  have "json_get ''commands'' (JObj [(''commands'', JList ?cs)]) (JList []) = JList ?cs \<and> length ?cs \<le> 20" by simp
  with poll_answers_commands [OF s x p] have "ir_pending s' = List.map_filter (command_response (\<lambda>_. []) 5) ?cs"
    by (simp only: sum.case)
  also have "\<dots> = [Pong ''c1'']" by code_simp
  finally show ?thesis using p by simp
qed

end
