(* ===== verification/Socket.thy ===== *)
theory Socket
  imports PyBase
begin

text \<open>
  A stream socket as the connectors use it: what arrives is a list of pieces of any size, a stall is a
  wait that runs into the timeout, the end of the list is the peer closing the connection. Bytes are
  characters. \<open>recv\<close> returns what the first piece has, at most the size asked for; with
  \<open>MSG_PEEK\<close> nothing is consumed, and a TLS socket refuses the flag with a \<open>ValueError\<close>, as
  Python's \<open>ssl\<close> does. Sending succeeds; a connection that broke shows at the next read.
\<close>

datatype arrival = Data string | Stall | Broken string

datatype conn_error = TimeoutError | ConnError string | ConnValueError string

record sock =
  sk_in :: "arrival list"
  sk_out :: "string list"
  sk_tls :: bool

text \<open>The bytes until the first stall, break or close, and what comes then.\<close>

fun available :: "arrival list \<Rightarrow> string" where
  "available (Data bs # as) = bs @ available as"
| "available as = []"

fun ending :: "arrival list \<Rightarrow> arrival list" where
  "ending (Data bs # as) = ending as"
| "ending as = as"

fun weight :: "arrival \<Rightarrow> nat" where
  "weight (Data bs) = length bs"
| "weight Stall = 1"
| "weight (Broken m) = 1"

definition stream_size :: "arrival list \<Rightarrow> nat" where
  "stream_size as = sum_list (map weight as)"

section \<open>recv\<close>

fun recv_peek :: "nat \<Rightarrow> arrival list \<Rightarrow> (conn_error + string) \<times> arrival list" where
  "recv_peek n [] = (Inr [], [])"
| "recv_peek n (Stall # as) = (Inl TimeoutError, as)"
| "recv_peek n (Broken m # as) = (Inl (ConnError m), as)"
| "recv_peek n (Data bs # as) = (if bs = [] then recv_peek n as else (Inr (take n bs), Data bs # as))"

fun recv :: "nat \<Rightarrow> arrival list \<Rightarrow> (conn_error + string) \<times> arrival list" where
  "recv n [] = (Inr [], [])"
| "recv n (Stall # as) = (Inl TimeoutError, as)"
| "recv n (Broken m # as) = (Inl (ConnError m), as)"
| "recv n (Data bs # as) = (if bs = [] then recv n as else (Inr (take n bs), Data (drop n bs) # as))"

lemma recv_Inr:
  assumes "recv n as = (Inr c, as')"
  shows "available as = c @ available as' \<and> ending as' = ending as \<and> stream_size as = length c + stream_size as' \<and> length c \<le> n \<and>
    (c = [] \<and> n > 0 \<longrightarrow> available as = [] \<and> ending as = [] \<and> as' = [])"
  using assms by (induction n as rule: recv.induct) (auto simp: stream_size_def split: if_splits)

lemma recv_Inl:
  assumes "recv n as = (Inl e, as')"
  shows "available as = [] \<and> as' = tl (ending as) \<and> (ending as = Stall # as' \<and> e = TimeoutError \<or> (\<exists>m. ending as = Broken m # as' \<and> e = ConnError m))
    \<and> stream_size as' < stream_size as"
  using assms by (induction n as rule: recv.induct) (auto simp: stream_size_def split: if_splits)

lemma recv_peek_Inr:
  assumes "recv_peek n as = (Inr c, as')"
  shows "available as' = available as \<and> ending as' = ending as \<and> stream_size as' = stream_size as \<and>
    (\<exists>more. available as = c @ more) \<and> (c = [] \<and> n > 0 \<longrightarrow> available as = [] \<and> ending as = [] \<and> as' = []) \<and>
    (c \<noteq> [] \<longrightarrow> (\<forall>k. k \<le> length c \<longrightarrow> fst (recv k as') = Inr (take k c)))"
  using assms
proof (induction n as rule: recv_peek.induct)
  case (4 n bs as)
  show ?case
  proof (cases "bs = []")
    case True
    with 4 show ?thesis by (simp add: stream_size_def)
  next
    case False
    with 4(2) have "c = take n bs" "as' = Data bs # as" by auto
    with False show ?thesis
      by (auto simp: min_def intro: exI [of _ "drop n bs @ available as"])
  qed
qed (simp_all add: stream_size_def)

lemma recv_peek_Inl:
  assumes "recv_peek n as = (Inl e, as')"
  shows "available as = [] \<and> (ending as = Stall # as' \<and> e = TimeoutError \<or> (\<exists>m. ending as = Broken m # as' \<and> e = ConnError m))
    \<and> stream_size as' < stream_size as"
  using assms by (induction n as rule: recv_peek.induct) (auto simp: stream_size_def split: if_splits)

section \<open>Searching for a delimiter\<close>

text \<open>\<open>s.find(m)\<close>: the first position where \<open>m\<close> occurs.\<close>

fun find_sub :: "string \<Rightarrow> string \<Rightarrow> nat option" where
  "find_sub m [] = (if m = [] then Some 0 else None)"
| "find_sub m (c # s) = (if prefix m (c # s) then Some 0 else map_option Suc (find_sub m s))"

definition occurs_at :: "string \<Rightarrow> string \<Rightarrow> nat \<Rightarrow> bool" where
  "occurs_at m s i = (\<exists>a b. s = a @ m @ b \<and> length a = i)"

lemma occurs_at_0: "occurs_at m s 0 \<longleftrightarrow> prefix m s"
  by (auto simp: occurs_at_def prefix_def)

lemma occurs_at_Suc: "occurs_at m (c # s) (Suc i) \<longleftrightarrow> occurs_at m s i"
proof
  assume "occurs_at m (c # s) (Suc i)"
  then obtain a b where "c # s = a @ m @ b" "length a = Suc i" by (auto simp: occurs_at_def)
  then show "occurs_at m s i" unfolding occurs_at_def by (cases a) auto
next
  assume "occurs_at m s i"
  then obtain a b where "s = a @ m @ b" "length a = i" by (auto simp: occurs_at_def)
  then show "occurs_at m (c # s) (Suc i)" unfolding occurs_at_def by (intro exI [of _ "c # a"] exI [of _ b]) simp
qed

lemma find_sub_Some: "find_sub m s = Some i \<longleftrightarrow> occurs_at m s i \<and> (\<forall>j < i. \<not> occurs_at m s j)"
proof (induction s arbitrary: i)
  case Nil
  show ?case by (cases i) (auto simp: occurs_at_def)
next
  case (Cons c s)
  show ?case
  proof (cases i)
    case 0
    then show ?thesis by (auto simp: occurs_at_0)
  next
    case (Suc k)
    have "find_sub m (c # s) = Some i \<longleftrightarrow> \<not> prefix m (c # s) \<and> find_sub m s = Some k" using Suc by auto
    also have "\<dots> \<longleftrightarrow> occurs_at m (c # s) i \<and> (\<forall>j < i. \<not> occurs_at m (c # s) j)"
      unfolding Cons.IH Suc occurs_at_Suc All_less_Suc2 occurs_at_0 by (auto simp: occurs_at_Suc)
    finally show ?thesis .
  qed
qed

lemma find_sub_None: "find_sub m s = None \<longleftrightarrow> (\<forall>i. \<not> occurs_at m s i)"
proof (induction s)
  case Nil
  show ?case by (auto simp: occurs_at_def)
next
  case (Cons c s)
  have "(\<forall>i. \<not> occurs_at m (c # s) i) \<longleftrightarrow> \<not> prefix m (c # s) \<and> (\<forall>i. \<not> occurs_at m s i)"
    by (metis not0_implies_Suc occurs_at_0 occurs_at_Suc)
  with Cons.IH show ?case by simp
qed

lemma occurs_at_take: "occurs_at m s i \<longleftrightarrow> i + length m \<le> length s \<and> take (length m) (drop i s) = m"
proof
  assume "i + length m \<le> length s \<and> take (length m) (drop i s) = m"
  then have "s = take i s @ m @ drop (length m) (drop i s)" and "i \<le> length s"
    by (metis append_take_drop_id, linarith)
  then have "s = take i s @ m @ drop (length m) (drop i s)" "length (take i s) = i" by simp_all
  then show "occurs_at m s i" unfolding occurs_at_def by blast
qed (auto simp: occurs_at_def)

lemma occurs_at_append_left: "length h \<le> k \<Longrightarrow> occurs_at m (h @ s) k \<longleftrightarrow> occurs_at m s (k - length h)"
  by (auto simp: occurs_at_take)

lemma occurs_at_append_right: "k + length m \<le> length s \<Longrightarrow> occurs_at m (s @ r) k \<longleftrightarrow> occurs_at m s k"
  by (simp add: occurs_at_take)

lemma occurs_at_bound: "occurs_at m s k \<Longrightarrow> k + length m \<le> length s"
  by (simp add: occurs_at_take)

text \<open>Only the end of what was searched can take part in a later occurrence.\<close>

lemma occurs_after_search:
  assumes "\<forall>i. \<not> occurs_at m (h @ t) i" and "length t = length m - 1 \<or> h = []" and "m \<noteq> []"
  shows "occurs_at m (h @ t @ av) k \<longleftrightarrow> length h \<le> k \<and> occurs_at m (t @ av) (k - length h)"
proof (cases "length h \<le> k")
  case True
  then show ?thesis by (simp add: occurs_at_append_left)
next
  case False
  with assms(2) have "k + length m \<le> length (h @ t)" by (cases m) (use assms(3) in auto)
  with occurs_at_append_right [OF this, of av] assms(1) False show ?thesis by simp
qed

lemma find_after_search:
  assumes "find_sub m (h @ t) = None" and "length t = length m - 1 \<or> h = []" and "m \<noteq> []"
  shows "find_sub m (h @ t @ av) = map_option (\<lambda>j. length h + j) (find_sub m (t @ av))"
proof -
  have none: "\<forall>i. \<not> occurs_at m (h @ t) i" using assms(1) unfolding find_sub_None .
  note step = occurs_after_search [OF none assms(2,3), of av]
  show ?thesis
  proof (cases "find_sub m (t @ av)")
    case None
    then have "\<forall>i. \<not> occurs_at m (t @ av) i" unfolding find_sub_None .
    with step have "find_sub m (h @ t @ av) = None" unfolding find_sub_None by simp
    with None show ?thesis by simp
  next
    case (Some j)
    then have "occurs_at m (t @ av) j" "\<forall>i < j. \<not> occurs_at m (t @ av) i" unfolding find_sub_Some by simp_all
    then have "find_sub m (h @ t @ av) = Some (length h + j)" unfolding find_sub_Some step by auto
    with Some show ?thesis by simp
  qed
qed

lemma find_sub_prefix:
  assumes "find_sub m s = Some i"
  shows "find_sub m (s @ r) = Some i"
proof -
  from assms have at: "occurs_at m s i" "\<forall>j < i. \<not> occurs_at m s j" unfolding find_sub_Some by simp_all
  from occurs_at_bound [OF at(1)] have "j + length m \<le> length s" if "j \<le> i" for j using that by simp
  with at show ?thesis unfolding find_sub_Some by (auto simp: occurs_at_append_right)
qed

lemma find_sub_bound: "find_sub m s = Some i \<Longrightarrow> i + length m \<le> length s"
  by (auto simp: find_sub_Some dest: occurs_at_bound)

end
