(* ===== verification/Framing.thy ===== *)
theory Framing
  imports Socket
begin

text \<open>
  Reading up to a delimiter: \<open>_recv_through\<close> of \<open>ami.py\<close>, which peeks and then consumes exactly
  through the delimiter, and \<open>_read_until\<close> of \<open>freeswitch.py\<close>, which reads byte by byte. The locale
  \<open>framing\<close> is what the protocol layers rely on; both readers interpret it.
\<close>

section \<open>_recv_through\<close>

text \<open>\<open>tail\<close>, \<open>marker_index\<close> and \<open>read_size\<close> of one round.\<close>

definition search_tail :: "string \<Rightarrow> string \<Rightarrow> string" where
  "search_tail marker chunks = (if length marker > 1 then last_n (length marker - 1) chunks else [])"

definition marker_index :: "string \<Rightarrow> string \<Rightarrow> string \<Rightarrow> nat option" where
  "marker_index marker chunks avail = find_sub marker (search_tail marker chunks @ avail)"

definition read_size :: "string \<Rightarrow> string \<Rightarrow> string \<Rightarrow> nat" where
  "read_size marker chunks avail = (case marker_index marker chunks avail of
       Some i \<Rightarrow> i + length marker - length (search_tail marker chunks)
     | None \<Rightarrow> length avail)"

text \<open>One round of the loop: what has been read and whether the loop is done, and the rest of the stream.\<close>

definition recv_round :: "string \<Rightarrow> nat \<Rightarrow> string \<Rightarrow> arrival list \<Rightarrow> (conn_error + string \<times> bool) \<times> arrival list" where
  "recv_round marker chunk_size chunks as =
    (case recv_peek chunk_size as of
       (Inl e, as1) \<Rightarrow> (Inl e, as1)
     | (Inr avail, as1) \<Rightarrow>
        if avail = [] then (Inr (chunks, True), as1)
        else case recv (read_size marker chunks avail) as1 of
               (Inl e, as2) \<Rightarrow> (Inl e, as2)
             | (Inr chunk, as2) \<Rightarrow>
                if chunk = [] then (Inr (chunks, True), as2)
                else (Inr (chunks @ chunk, marker_index marker chunks avail \<noteq> None), as2))"

lemma recv_round_decreases:
  assumes "recv_round m n chunks as = (Inr (chunks', False), as')"
  shows "stream_size as' < stream_size as"
proof -
  obtain x as1 where p: "recv_peek n as = (x, as1)" by (cases "recv_peek n as")
  with assms obtain avail where x: "x = Inr avail" "avail \<noteq> []" by (cases x) (auto simp: recv_round_def split: if_splits)
  have s1: "stream_size as1 = stream_size as" using recv_peek_Inr [of n as avail as1] p x by simp
  obtain y as2 where r: "recv (read_size m chunks avail) as1 = (y, as2)" by (cases "recv (read_size m chunks avail) as1")
  with assms p x obtain chunk where "y = Inr chunk" "chunk \<noteq> []" "as' = as2"
    by (cases y) (auto simp: recv_round_def split: if_splits)
  with recv_Inr [of "read_size m chunks avail" as1 chunk as2] r s1 show ?thesis by (cases chunk) auto
qed

function recv_loop :: "string \<Rightarrow> nat \<Rightarrow> string \<Rightarrow> arrival list \<Rightarrow> (conn_error + string) \<times> arrival list" where
  "recv_loop marker chunk_size chunks as =
    (case recv_round marker chunk_size chunks as of
       (Inl e, as') \<Rightarrow> (Inl e, as')
     | (Inr (chunks', True), as') \<Rightarrow> (Inr chunks', as')
     | (Inr (chunks', False), as') \<Rightarrow> recv_loop marker chunk_size chunks' as')"
  by pat_completeness auto
termination by (relation "measure (\<lambda>(m, n, c, as). stream_size as)") (auto simp: recv_round_decreases dest: sym)

declare recv_loop.simps [simp del]

definition recv_through :: "string \<Rightarrow> arrival list \<Rightarrow> (conn_error + string) \<times> arrival list" where
  "recv_through marker as = recv_loop marker 4096 [] as"

section \<open>_read_until\<close>

function read_until_loop :: "string \<Rightarrow> string \<Rightarrow> arrival list \<Rightarrow> (conn_error + string) \<times> arrival list" where
  "read_until_loop marker chunks as =
    (case recv 1 as of
       (Inl e, as') \<Rightarrow> (Inl e, as')
     | (Inr chunk, as') \<Rightarrow>
        if chunk = [] then (Inr chunks, as')
        else if suffix marker (chunks @ chunk) then (Inr (chunks @ chunk), as')
        else read_until_loop marker (chunks @ chunk) as')"
  by pat_completeness auto
termination by (relation "measure (\<lambda>(m, c, as). stream_size as)") (auto dest!: sym [of "(_, _)"] recv_Inr)

declare read_until_loop.simps [simp del]

definition read_until :: "string \<Rightarrow> arrival list \<Rightarrow> (conn_error + string) \<times> arrival list" where
  "read_until marker as = read_until_loop marker [] as"

lemma recv_loop_size:
  "recv_loop m n chunks as = (Inr c, as') \<Longrightarrow> length chunks + stream_size as = length c + stream_size as'"
proof (induction m n chunks as rule: recv_loop.induct)
  case (1 m n chunks as)
  obtain x as1 where rd: "recv_round m n chunks as = (x, as1)" by (cases "recv_round m n chunks as")
  with 1(2) obtain chunks' d where x: "x = Inr (chunks', d)" by (cases x) (auto simp: recv_loop.simps [of m n chunks as])
  have s: "length chunks + stream_size as = length chunks' + stream_size as1"
  proof -
    obtain y as2 where p: "recv_peek n as = (y, as2)" by (cases "recv_peek n as")
    with rd x obtain av where y: "y = Inr av" by (cases y) (auto simp: recv_round_def)
    from recv_peek_Inr [of n as av as2] p y have s2: "stream_size as2 = stream_size as" by simp
    obtain z as3 where r: "recv (read_size m chunks av) as2 = (z, as3)" by (cases "recv (read_size m chunks av) as2")
    show ?thesis
    proof (cases z)
      case (Inl e)
      with rd x p y r s2 show ?thesis by (auto simp: recv_round_def split: if_splits)
    next
      case (Inr ch)
      with recv_Inr [of "read_size m chunks av" as2 ch as3] r have "stream_size as2 = length ch + stream_size as3" by simp
      with Inr rd x p y r s2 show ?thesis by (auto simp: recv_round_def split: if_splits)
    qed
  qed
  show ?case
  proof (cases d)
    case True
    with 1(2) rd x s show ?thesis by (simp add: recv_loop.simps [of m n chunks as])
  next
    case False
    with 1(2) rd x have "recv_loop m n chunks' as1 = (Inr c, as')" by (simp add: recv_loop.simps [of m n chunks as])
    with 1(1) [OF rd [symmetric]] x False s show ?thesis by simp
  qed
qed

lemma recv_through_size: "recv_through m as = (Inr c, as') \<Longrightarrow> stream_size as = length c + stream_size as'"
  using recv_loop_size [of m 4096 "[]" as c as'] by (simp add: recv_through_def)

section \<open>The framing contract\<close>

text \<open>A reader that has already read \<open>chunks\<close> returns the stream through the first delimiter and leaves what follows; without a
  delimiter it returns everything when the peer has closed, and otherwise fails as the stream does.\<close>

definition frame_result :: "string \<Rightarrow> string \<Rightarrow> arrival list \<Rightarrow> (conn_error + string) \<times> arrival list \<Rightarrow> bool" where
  "frame_result m chunks as res = (case find_sub m (chunks @ available as) of
       Some i \<Rightarrow> fst res = Inr (take (i + length m) (chunks @ available as)) \<and>
         available (snd res) = drop (i + length m) (chunks @ available as) \<and> ending (snd res) = ending as
     | None \<Rightarrow> (case ending as of
           [] \<Rightarrow> fst res = Inr (chunks @ available as) \<and> snd res = []
         | Stall # r \<Rightarrow> fst res = Inl TimeoutError \<and> snd res = r
         | Broken e # r \<Rightarrow> fst res = Inl (ConnError e) \<and> snd res = r
         | Data d # r \<Rightarrow> False))"

locale framing =
  fixes read :: "string \<Rightarrow> arrival list \<Rightarrow> (conn_error + string) \<times> arrival list"
  assumes reads: "m \<noteq> [] \<Longrightarrow> frame_result m [] as (read m as)"
begin

lemma read_found:
  assumes "m \<noteq> []" and "find_sub m (available as) = Some i"
  obtains as' where "read m as = (Inr (take (i + length m) (available as)), as')"
    "available as' = drop (i + length m) (available as)" "ending as' = ending as"
  using reads [OF assms(1), of as] assms(2) by (cases "read m as") (auto simp: frame_result_def)

text \<open>How the bytes were cut into pieces makes no difference.\<close>

lemma read_pieces:
  assumes "m \<noteq> []" and "available as = available bs" and "ending as = ending bs"
  shows "fst (read m as) = fst (read m bs) \<and> available (snd (read m as)) = available (snd (read m bs)) \<and>
    ending (snd (read m as)) = ending (snd (read m bs))"
  using reads [OF assms(1), of as] reads [OF assms(1), of bs] assms(2,3)
  by (auto simp: frame_result_def split: option.splits list.splits arrival.splits)

end

lemma frame_result_ended:
  assumes "find_sub m chunks = None" and "available as = []"
    and "(ending as = [] \<and> res = (Inr chunks, [])) \<or> (\<exists>r. ending as = Stall # r \<and> res = (Inl TimeoutError, r)) \<or>
      (\<exists>e r. ending as = Broken e # r \<and> res = (Inl (ConnError e), r))"
  shows "frame_result m chunks as res"
  using assms by (auto simp: frame_result_def)

lemma frame_result_shift:
  assumes "available as = c @ available bs" and "ending bs = ending as"
  shows "frame_result m chunks as res = frame_result m (chunks @ c) bs res"
  unfolding frame_result_def assms append_assoc by (rule refl)

lemma search_tail_split:
  obtains h where "chunks = h @ search_tail m chunks" "length (search_tail m chunks) = length m - 1 \<or> h = []"
proof (cases "length m > 1 \<and> length m - 1 < length chunks")
  case True
  then have "chunks = take (length chunks - (length m - 1)) chunks @ search_tail m chunks"
    "length (search_tail m chunks) = length m - 1"
    by (auto simp: search_tail_def last_n_def)
  then show ?thesis using that by blast
next
  case False
  then show ?thesis using that [of "[]"] that [of chunks] by (cases "length m > 1") (auto simp: search_tail_def last_n_def)
qed

lemma recv_loop_frames:
  "m \<noteq> [] \<Longrightarrow> n > 0 \<Longrightarrow> find_sub m chunks = None \<Longrightarrow> frame_result m chunks as (recv_loop m n chunks as)"
proof (induction m n chunks as rule: recv_loop.induct)
  case (1 m n chunks as)
  obtain x as1 where p: "recv_peek n as = (x, as1)" by (cases "recv_peek n as")
  show ?case
  proof (cases x)
    case (Inl e)
    with p have "recv_loop m n chunks as = (Inl e, as1)" by (simp add: recv_loop.simps [of m n chunks as] recv_round_def)
    with recv_peek_Inl [of n as e as1] p Inl 1(4) show ?thesis by (auto intro!: frame_result_ended)
  next
    case (Inr avail)
    from recv_peek_Inr [of n as avail as1] p Inr have pk: "available as1 = available as" "ending as1 = ending as"
      "\<exists>more. available as = avail @ more" "avail = [] \<Longrightarrow> available as = [] \<and> ending as = [] \<and> as1 = []"
      "\<And>k. avail \<noteq> [] \<Longrightarrow> k \<le> length avail \<Longrightarrow> fst (recv k as1) = Inr (take k avail)" using 1(3) by auto
    show ?thesis
    proof (cases "avail = []")
      case True
      with p Inr have "recv_loop m n chunks as = (Inr chunks, as1)" by (simp add: recv_loop.simps [of m n chunks as] recv_round_def)
      with pk(4) True 1(4) show ?thesis by (auto intro!: frame_result_ended)
    next
      case False
      let ?t = "search_tail m chunks" and ?k = "read_size m chunks avail"
      obtain h where h: "chunks = h @ ?t" "length ?t = length m - 1 \<or> h = []" by (rule search_tail_split)
      have "find_sub m (h @ ?t) = None" using 1(4) h(1) by simp
      from find_after_search [OF this h(2) 1(2), of avail]
      have find: "find_sub m (chunks @ avail) = map_option (\<lambda>j. length h + j) (marker_index m chunks avail)"
        unfolding append_assoc [symmetric] h(1) [symmetric] marker_index_def .
      have lc: "length chunks = length h + length ?t" using arg_cong [OF h(1), of length] unfolding length_append .
      have lt: "length ?t < length m" using h(2) 1(2) by (cases m) (auto simp: search_tail_def)
      have k: "?k \<le> length avail" "?k > 0"
      proof -
        show "?k > 0" using False lt by (auto simp: read_size_def split: option.split)
        show "?k \<le> length avail"
          using find_sub_bound [of m "?t @ avail"] by (auto simp: read_size_def marker_index_def split: option.split)
      qed
      obtain as2 where r: "recv ?k as1 = (Inr (take ?k avail), as2)"
        using pk(5) [OF False k(1)] by (cases "recv ?k as1") simp
      from recv_Inr [OF r] pk(1,2) have s: "available as = take ?k avail @ available as2" "ending as2 = ending as" by simp_all
      have ne: "take ?k avail \<noteq> []" using False k(2) by simp
      have rd: "recv_round m n chunks as = (Inr (chunks @ take ?k avail, marker_index m chunks avail \<noteq> None), as2)"
        using p Inr False r ne by (simp add: recv_round_def)
      show ?thesis
      proof (cases "marker_index m chunks avail")
        case None
        then have all: "take ?k avail = avail" by (simp add: read_size_def)
        from rd None have lp: "recv_loop m n chunks as = recv_loop m n (chunks @ avail) as2"
          by (simp add: recv_loop.simps [of m n chunks as] all)
        have "frame_result m (chunks @ avail) as2 (recv_loop m n (chunks @ avail) as2)"
          using 1(1) [OF rd [symmetric] refl] 1(2,3) find None by (simp add: all)
        with frame_result_shift [OF s, of m chunks] all show ?thesis unfolding lp by simp
      next
        case (Some j)
        from rd Some have lp: "recv_loop m n chunks as = (Inr (chunks @ take ?k avail), as2)"
          by (simp add: recv_loop.simps [of m n chunks as])
        have "find_sub m (chunks @ avail) = Some (length h + j)" using find Some by simp
        have "?k = j + length m - length ?t" using Some by (simp add: read_size_def)
        with lc lt have "length h + j + length m = length chunks + ?k" by linarith
        moreover have "find_sub m (chunks @ available as) = Some (length h + j)"
        proof -
          obtain more where "available as = avail @ more" using pk(3) by blast
          then show ?thesis using find_sub_prefix [OF \<open>find_sub m (chunks @ avail) = Some (length h + j)\<close>, of more] by simp
        qed
        ultimately show ?thesis using s k(1) unfolding lp by (simp add: frame_result_def)
      qed
    qed
  qed
qed

lemma find_sub_snoc:
  assumes "find_sub m s = None" and "m \<noteq> []"
  shows "find_sub m (s @ [c]) = (if suffix m (s @ [c]) then Some (length s + 1 - length m) else None)"
proof -
  have none: "\<not> occurs_at m s i" for i using assms(1) unfolding find_sub_None by blast
  have occ: "occurs_at m (s @ [c]) i \<longleftrightarrow> suffix m (s @ [c]) \<and> i = length s + 1 - length m" for i
  proof
    assume o: "occurs_at m (s @ [c]) i"
    have "\<not> i + length m \<le> length s" using o none [of i] by (auto simp: occurs_at_append_right)
    with occurs_at_bound [OF o] have i: "i + length m = length s + 1" by simp
    from o obtain a b where ab: "s @ [c] = a @ m @ b" "length a = i" by (auto simp: occurs_at_def)
    have "length (s @ [c]) = length (a @ m @ b)" by (rule arg_cong [OF ab(1)])
    with i ab(2) have "b = []" unfolding length_append by simp
    with ab i show "suffix m (s @ [c]) \<and> i = length s + 1 - length m" by (auto simp: suffix_def)
  next
    assume s: "suffix m (s @ [c]) \<and> i = length s + 1 - length m"
    then obtain a where "s @ [c] = a @ m" by (auto simp: suffix_def)
    moreover have "length (s @ [c]) = length (a @ m)" by (rule arg_cong [OF calculation])
    then have "length a = i" using s unfolding length_append by simp
    ultimately have "s @ [c] = a @ m @ []" "length a = i" by simp_all
    then show "occurs_at m (s @ [c]) i" unfolding occurs_at_def by blast
  qed
  show ?thesis
  proof (cases "suffix m (s @ [c])")
    case True
    with occ have "find_sub m (s @ [c]) = Some (length s + 1 - length m)" unfolding find_sub_Some by auto
    with True show ?thesis by simp
  next
    case False
    with occ have "find_sub m (s @ [c]) = None" unfolding find_sub_None by auto
    with False show ?thesis by simp
  qed
qed

lemma read_until_loop_frames:
  "m \<noteq> [] \<Longrightarrow> find_sub m chunks = None \<Longrightarrow> frame_result m chunks as (read_until_loop m chunks as)"
proof (induction m chunks as rule: read_until_loop.induct)
  case (1 m chunks as)
  obtain x as1 where r: "recv 1 as = (x, as1)" by (cases "recv 1 as")
  note lp = read_until_loop.simps [of m chunks as]
  show ?case
  proof (cases x)
    case (Inl e)
    with r have "read_until_loop m chunks as = (Inl e, as1)" by (simp add: lp)
    with recv_Inl [of 1 as e as1] r Inl 1(3) show ?thesis by (auto intro!: frame_result_ended)
  next
    case (Inr chunk)
    note rc = recv_Inr [OF r [unfolded Inr]]
    show ?thesis
    proof (cases "chunk = []")
      case True
      with r Inr have "read_until_loop m chunks as = (Inr chunks, as1)" by (simp add: lp)
      with rc True 1(3) show ?thesis by (auto intro!: frame_result_ended)
    next
      case False
      with rc obtain c where c: "chunk = [c]" by (cases chunk) auto
      note fs = find_sub_snoc [OF 1(3,2), of c]
      show ?thesis
      proof (cases "suffix m (chunks @ [c])")
        case True
        with r Inr c have e: "read_until_loop m chunks as = (Inr (chunks @ [c]), as1)" by (simp add: lp)
        from True have "length m \<le> length chunks + 1" using suffix_length_le by fastforce
        with find_sub_prefix [of m "chunks @ [c]" "length chunks + 1 - length m" "available as1"] fs True rc c
        show ?thesis unfolding e by (simp add: frame_result_def)
      next
        case False
        with r Inr c have e: "read_until_loop m chunks as = read_until_loop m (chunks @ [c]) as1" by (auto simp: lp)
        have "frame_result m (chunks @ [c]) as1 (read_until_loop m (chunks @ [c]) as1)"
          using 1(1) [OF r [symmetric] Inr] 1(2) False fs c by simp
        with frame_result_shift [of as "[c]" as1 m chunks] rc c show ?thesis unfolding e by simp
      qed
    qed
  qed
qed

interpretation ami_frames: framing recv_through
proof
  fix m :: string and as assume "m \<noteq> []"
  then show "frame_result m [] as (recv_through m as)"
    unfolding recv_through_def by (intro recv_loop_frames) simp_all
qed

interpretation esl_frames: framing read_until
proof
  fix m :: string and as assume "m \<noteq> []"
  then show "frame_result m [] as (read_until m as)"
    unfolding read_until_def by (intro read_until_loop_frames) simp_all
qed

end
