(* ===== verification/Ami.thy ===== *)
theory Ami
  imports Framing PulseText
begin

text \<open>
  \<open>pbxsense_agent/ami.py\<close>, the protocol: packets, login, the actions of one snapshot and the
  diagnostics of the Asterisk connector, and of the Grandstream connector (\<open>grandstream.py\<close>), which is
  the same client on a plain or a TLS socket. \<open>decode\<close> is the UTF-8 decoding of a packet and \<open>conn\<close>
  the outcome of opening (and, for TLS, wrapping) the socket.
\<close>

record ami_event =
  ae_name :: string
  ae_fields :: "string pydict"

record ami_settings =
  as_host :: string
  as_port :: int
  as_username :: string
  as_password :: string

text \<open>\<open>str(exc)\<close>\<close>

fun conn_text :: "conn_error \<Rightarrow> string" where
  "conn_text TimeoutError = ''timed out''"
| "conn_text (ConnError m) = m"
| "conn_text (ConnValueError m) = m"

text \<open>\<open>isinstance(exc, OSError)\<close>\<close>

fun conn_os_error :: "conn_error \<Rightarrow> bool" where
  "conn_os_error (ConnValueError m) = False"
| "conn_os_error e = True"

definition crlf :: string where
  "crlf = [char_of (13::nat), char_of (10::nat)]"

section \<open>Packets\<close>

definition add_header :: "string pydict \<Rightarrow> string \<Rightarrow> string pydict" where
  "add_header d line = (if CHR '':'' \<notin> set line then d
     else AList.update (strip (before (CHR '':'') line)) (strip (after (CHR '':'') line)) d)"

definition header_fields :: "string \<Rightarrow> string pydict" where
  "header_fields raw = foldl add_header [] (splitlines raw)"

definition recv_frame :: "string \<Rightarrow> sock \<Rightarrow> (conn_error + string) \<times> sock" where
  "recv_frame marker s =
    (if sk_tls s then (Inl (ConnValueError ''non-zero flags not allowed in calls to recv()''), s)
     else case recv_through marker (sk_in s) of (x, rest) \<Rightarrow> (x, s\<lparr>sk_in := rest\<rparr>))"

definition read_packet :: "(string \<Rightarrow> string) \<Rightarrow> string \<Rightarrow> sock \<Rightarrow> (conn_error + string pydict) \<times> sock" where
  "read_packet decode phase s =
    (case recv_frame (crlf @ crlf) s of
       (Inl e, s1) \<Rightarrow> (Inl (if e = TimeoutError then ConnError (phase @ '' timed out'') else e), s1)
     | (Inr packet, s1) \<Rightarrow>
        if packet = [] then (Inl (ConnError (phase @ '' connection closed before the response completed'')), s1)
        else (Inr (header_fields (decode packet)), s1))"

definition action_text :: "string pydict \<Rightarrow> string" where
  "action_text fs = concat (map (\<lambda>(k, v). k @ '': '' @ v @ crlf) fs) @ crlf"

definition send_action :: "string pydict \<Rightarrow> sock \<Rightarrow> sock" where
  "send_action fs s = s\<lparr>sk_out := sk_out s @ [action_text fs]\<rparr>"

text \<open>\<open>_read_optional_banner\<close>: only the timeout becomes a warning.\<close>

definition read_optional_banner :: "(string \<Rightarrow> string) \<Rightarrow> sock \<Rightarrow> (conn_error + string \<times> string option) \<times> sock" where
  "read_optional_banner decode s =
    (case recv_frame [char_of (10::nat)] s of
       (Inl e, s1) \<Rightarrow> (if e = TimeoutError then Inr ([], Some ''AMI banner timed out'') else Inl e, s1)
     | (Inr raw, s1) \<Rightarrow> (Inr (strip (decode raw), None), s1))"

lemma read_packet_shrinks:
  assumes "read_packet decode phase s = (Inr fs, s1)"
  shows "stream_size (sk_in s1) < stream_size (sk_in s)"
proof -
  obtain x rest where r: "recv_through (crlf @ crlf) (sk_in s) = (x, rest)" by (cases "recv_through (crlf @ crlf) (sk_in s)")
  with assms obtain p where p: "x = Inr p" "p \<noteq> []" "s1 = s\<lparr>sk_in := rest\<rparr>"
    by (cases x) (auto simp: read_packet_def recv_frame_def split: if_splits)
  from recv_through_size [OF r [unfolded p(1)]] p(2,3) show ?thesis by (cases p) auto
qed

section \<open>Login and actions\<close>

function read_until_response :: "(string \<Rightarrow> string) \<Rightarrow> string \<Rightarrow> sock \<Rightarrow> (conn_error + string pydict) \<times> sock" where
  "read_until_response decode phase s =
    (case read_packet decode phase s of
       (Inl e, s1) \<Rightarrow> (Inl e, s1)
     | (Inr packet, s1) \<Rightarrow>
        if ''Response'' \<in> set (map fst packet) then (Inr packet, s1) else read_until_response decode phase s1)"
  by pat_completeness auto
termination by (relation "measure (\<lambda>(d, p, s). stream_size (sk_in s))") (auto intro!: read_packet_shrinks dest: sym)

definition login :: "(string \<Rightarrow> string) \<Rightarrow> ami_settings \<Rightarrow> sock \<Rightarrow> (conn_error + string pydict) \<times> sock" where
  "login decode cfg s =
    (case read_until_response decode ''AMI login'' (send_action [(''Action'', ''Login''), (''Username'', as_username cfg),
        (''Secret'', as_password cfg), (''Events'', ''off'')] s) of
       (Inl e, s1) \<Rightarrow> (Inl e, s1)
     | (Inr response, s1) \<Rightarrow>
        if dget response ''Response'' [] \<noteq> ''Success''
        then (Inl (ConnError (''AMI login failed: '' @ dget response ''Message'' ''unknown AMI login error'')), s1)
        else (Inr response, s1))"

function collect_loop :: "(string \<Rightarrow> string) \<Rightarrow> string \<Rightarrow> string \<Rightarrow> ami_event list \<Rightarrow> sock \<Rightarrow> (conn_error + ami_event list) \<times> sock" where
  "collect_loop decode action until events s =
    (case read_packet decode action s of
       (Inl e, s1) \<Rightarrow> (Inl e, s1)
     | (Inr packet, s1) \<Rightarrow>
        let name = dget packet ''Event'' [] in
        if packet = [] then collect_loop decode action until events s1
        else if name = until then (Inr events, s1)
        else if name \<noteq> [] then collect_loop decode action until (events @ [\<lparr>ae_name = name, ae_fields = packet\<rparr>]) s1
        else collect_loop decode action until events s1)"
  by pat_completeness auto
termination by (relation "measure (\<lambda>(d, a, c, e, s). stream_size (sk_in s))") (auto intro!: read_packet_shrinks dest: sym)

declare read_until_response.simps [simp del] collect_loop.simps [simp del]

definition collect_action_events :: "(string \<Rightarrow> string) \<Rightarrow> string \<Rightarrow> string \<Rightarrow> sock \<Rightarrow> (conn_error + ami_event list) \<times> sock" where
  "collect_action_events decode action until s =
     collect_loop decode action until [] (send_action [(''Action'', action)] s)"

definition collect_optional_action_events :: "(string \<Rightarrow> string) \<Rightarrow> string \<Rightarrow> string \<Rightarrow> sock \<Rightarrow> (conn_error + ami_event list) \<times> sock" where
  "collect_optional_action_events decode action until s =
    (case collect_action_events decode action until s of
       (Inl e, s1) \<Rightarrow> (if conn_os_error e then Inr [] else Inl e, s1)
     | (Inr events, s1) \<Rightarrow> (Inr events, s1))"

definition optional_actions :: "(string \<times> string) list" where
  "optional_actions = [(''PJSIPShowEndpoints'', ''EndpointListComplete''), (''PJSIPShowContacts'', ''ContactListComplete''),
     (''QueueStatus'', ''QueueStatusComplete''), (''SIPpeers'', ''PeerlistComplete'')]"

text \<open>The optional actions one after another, each extending the events.\<close>

fun collect_optional :: "(string \<Rightarrow> string) \<Rightarrow> (string \<times> string) list \<Rightarrow> ami_event list \<Rightarrow> sock \<Rightarrow> (conn_error + ami_event list) \<times> sock" where
  "collect_optional decode [] events s = (Inr events, s)"
| "collect_optional decode ((action, until) # rest) events s =
    (case collect_optional_action_events decode action until s of
       (Inl e, s1) \<Rightarrow> (Inl e, s1)
     | (Inr found, s1) \<Rightarrow> collect_optional decode rest (events @ found) s1)"

definition read_events :: "(string \<Rightarrow> string) \<Rightarrow> ami_settings \<Rightarrow> sock \<Rightarrow> (conn_error + ami_event list) \<times> sock" where
  "read_events decode cfg s =
    (case read_optional_banner decode s of
       (Inl e, s1) \<Rightarrow> (Inl e, s1)
     | (Inr b, s1) \<Rightarrow>
        (case login decode cfg s1 of
           (Inl e, s2) \<Rightarrow> (Inl e, s2)
         | (Inr response, s2) \<Rightarrow>
            (case collect_action_events decode ''CoreShowChannels'' ''CoreShowChannelsComplete'' s2 of
               (Inl e, s3) \<Rightarrow> (Inl e, s3)
             | (Inr events, s3) \<Rightarrow>
                (case collect_optional decode optional_actions events s3 of
                   (Inl e, s4) \<Rightarrow> (Inl e, s4)
                 | (Inr all, s4) \<Rightarrow> (Inr all, send_action [(''Action'', ''Logoff'')] s4)))))"

text \<open>\<open>_connect\<close>\<close>

definition ami_connect :: "ami_settings \<Rightarrow> conn_error + sock \<Rightarrow> conn_error + sock" where
  "ami_connect cfg conn =
    (let target = as_host cfg @ '':'' @ show_int (as_port cfg) in
     case conn of
       Inr s \<Rightarrow> Inr s
     | Inl TimeoutError \<Rightarrow> Inl (ConnError (''AMI TCP connect to '' @ target @ '' timed out''))
     | Inl (ConnError m) \<Rightarrow> Inl (ConnError (''AMI TCP connect to '' @ target @ '' failed: '' @ m))
     | Inl (ConnValueError m) \<Rightarrow> Inl (ConnValueError m))"

section \<open>Diagnostics\<close>

record ami_diagnostics =
  ad_tcp_connected :: bool
  ad_banner_received :: bool
  ad_banner :: string
  ad_banner_warning :: "string option"
  ad_login_accepted :: bool
  ad_login_response :: string
  ad_login_message :: string
  ad_error :: "string option"
  ad_ok :: bool

definition no_diagnostics :: ami_diagnostics where
  "no_diagnostics = \<lparr>ad_tcp_connected = False, ad_banner_received = False, ad_banner = [], ad_banner_warning = None,
     ad_login_accepted = False, ad_login_response = [], ad_login_message = [], ad_error = None, ad_ok = False\<rparr>"

text \<open>The steps inside the \<open>try\<close>; the last component is what they raise.\<close>

definition diagnose :: "(string \<Rightarrow> string) \<Rightarrow> ami_settings \<Rightarrow> conn_error + sock \<Rightarrow> ami_diagnostics \<times> conn_error option" where
  "diagnose decode cfg conn =
    (case ami_connect cfg conn of
       Inl e \<Rightarrow> (no_diagnostics, Some e)
     | Inr s \<Rightarrow>
        let d0 = no_diagnostics\<lparr>ad_tcp_connected := True\<rparr> in
        case read_optional_banner decode s of
          (Inl e, s1) \<Rightarrow> (d0, Some e)
        | (Inr (banner, warning), s1) \<Rightarrow>
            let d1 = d0\<lparr>ad_banner_received := (banner \<noteq> []), ad_banner := banner, ad_banner_warning := warning\<rparr> in
            (case login decode cfg s1 of
               (Inl e, s2) \<Rightarrow> (d1, Some e)
             | (Inr response, s2) \<Rightarrow>
                (d1\<lparr>ad_login_accepted := (dget response ''Response'' [] = ''Success''),
                    ad_login_response := dget response ''Response'' [], ad_login_message := dget response ''Message'' []\<rparr>, None)))"

definition ami_diagnostics_result :: "(string \<Rightarrow> string) \<Rightarrow> ami_settings \<Rightarrow> conn_error + sock \<Rightarrow> conn_error + ami_diagnostics" where
  "ami_diagnostics_result decode cfg conn =
    (case diagnose decode cfg conn of
       (d, None) \<Rightarrow> Inr (d\<lparr>ad_ok := ad_login_accepted d\<rparr>)
     | (d, Some e) \<Rightarrow> if conn_os_error e then Inr (d\<lparr>ad_error := Some (conn_text e), ad_ok := ad_login_accepted d\<rparr>) else Inl e)"

end
