(* ===== verification/AmiViews.thy ===== *)
theory AmiViews
  imports Ami
begin

text \<open>
  \<open>ami.py\<close>, from the events of one snapshot to its channels, endpoints and queues. The regular
  expressions are scanners over the same strings; on Latin-1 text \<open>\d\<close> is an ASCII digit.
\<close>

definition field :: "string pydict \<Rightarrow> string \<Rightarrow> string" where
  "field fs k = dget fs k []"

definition ami_int :: "string \<Rightarrow> int" where
  "ami_int raw = opt_or (py_int raw) 0"

definition strip_quotes :: "string \<Rightarrow> string" where
  "strip_quotes s = strip_chars (\<lambda>c. c = CHR 0x22) s"

definition clean_label :: "string \<Rightarrow> string" where
  "clean_label v = (if CHR ''<'' \<in> set v then strip_quotes (strip (before (CHR ''<'') v)) else strip_quotes (strip v))"

fun first_value :: "string pydict \<Rightarrow> string list \<Rightarrow> string" where
  "first_value fs [] = []"
| "first_value fs (k # ks) = (let v = strip (field fs k) in if v \<noteq> [] then clean_label v else first_value fs ks)"

section \<open>Channels\<close>

definition channel_of_event :: "ami_event \<Rightarrow> ami_channel" where
  "channel_of_event ev = (let fs = ae_fields ev in
     \<lparr>channel = field fs ''Channel'', extension = or_str (field fs ''Extension'') (field fs ''Exten''),
      caller = or_str (field fs ''CallerIDName'') (field fs ''CallerIDNum''),
      connected = or_str (field fs ''ConnectedLineName'') (field fs ''ConnectedLineNum''),
      chan_state = field fs ''ChannelStateDesc'', endpoint = endpoint_from_channel (field fs ''Channel''),
      caller_number = field fs ''CallerIDNum'', connected_number = field fs ''ConnectedLineNum'',
      duration = field fs ''Duration'', unique_id = field fs ''Uniqueid'', linked_id = field fs ''Linkedid''\<rparr>)"

definition channels_from_events :: "ami_event list \<Rightarrow> ami_channel list" where
  "channels_from_events events = map channel_of_event (filter (\<lambda>ev. ae_name ev = ''CoreShowChannel'') events)"

section \<open>Addresses\<close>

definition ip_char :: "char \<Rightarrow> bool" where
  "ip_char c = (is_decimal c \<or> c = CHR ''.'')"

text \<open>The maximal runs of digits and dots.\<close>

function ip_runs :: "string \<Rightarrow> string list" where
  "ip_runs s = (let t = dropWhile (\<lambda>c. \<not> ip_char c) s in
     if t = [] then [] else takeWhile ip_char t # ip_runs (dropWhile ip_char t))"
  by pat_completeness auto
termination
proof (relation "measure length")
  fix s t :: string
  assume t: "t = dropWhile (\<lambda>c. \<not> ip_char c) s" "t \<noteq> []"
  have "ip_char (hd t)" using t hd_dropWhile [of "\<lambda>c. \<not> ip_char c" s] by simp
  with t(2) obtain c r where cr: "t = c # r" "ip_char c" by (cases t) simp_all
  have "length (dropWhile ip_char r) \<le> length r" by (rule length_dropWhile_le)
  moreover have "length t \<le> length s" using t(1) length_dropWhile_le by simp
  ultimately show "(dropWhile ip_char t, s) \<in> measure length" using cr by simp
qed simp

declare ip_runs.simps [simp del]

definition is_dotted_quad :: "string \<Rightarrow> bool" where
  "is_dotted_quad r = (let parts = split_on (CHR ''.'') r in
     length parts = 4 \<and> list_all (\<lambda>p. 1 \<le> length p \<and> length p \<le> 3 \<and> list_all is_decimal p) parts)"

definition octets_ok :: "string \<Rightarrow> bool" where
  "octets_ok r = list_all (\<lambda>p. ami_int p \<le> 255) (split_on (CHR ''.'') r)"

text \<open>The first match of the regular expression in one value, when its four numbers are octets.\<close>

definition ip_in :: "string \<Rightarrow> string option" where
  "ip_in v = (case find is_dotted_quad (ip_runs v) of Some r \<Rightarrow> if octets_ok r then Some r else None | None \<Rightarrow> None)"

fun first_ip_address :: "string list \<Rightarrow> string" where
  "first_ip_address [] = []"
| "first_ip_address (v # vs) = (case ip_in v of Some r \<Rightarrow> r | None \<Rightarrow> first_ip_address vs)"

section \<open>Contacts\<close>

definition contact_endpoint :: "string pydict \<Rightarrow> string" where
  "contact_endpoint fs = strip (first_nonempty [field fs ''EndpointName'', field fs ''Endpoint'', field fs ''AOR'', field fs ''ObjectName''])"

definition contact_state :: "string pydict \<Rightarrow> string" where
  "contact_state fs = strip (first_nonempty [field fs ''Status'', field fs ''ContactStatus'', field fs ''UserAgent''])"

definition contact_states_from_events :: "ami_event list \<Rightarrow> (string \<times> string list) list" where
  "contact_states_from_events events = foldl (\<lambda>d ev.
     let e = contact_endpoint (ae_fields ev); st = contact_state (ae_fields ev) in
     if ae_name ev \<noteq> ''ContactList'' \<or> e = [] \<or> st = [] then d
     else AList.update e (opt_or (map_of d e) [] @ [st]) d) [] events"

definition contact_address :: "string pydict \<Rightarrow> string" where
  "contact_address fs = first_ip_address [field fs ''URI'', field fs ''Contact'', field fs ''Address'', field fs ''ViaAddress'', field fs ''RemoteAddress'']"

definition contact_addresses_from_events :: "ami_event list \<Rightarrow> (string \<times> string) list" where
  "contact_addresses_from_events events = foldl (\<lambda>d ev.
     let e = contact_endpoint (ae_fields ev); a = contact_address (ae_fields ev) in
     if ae_name ev \<noteq> ''ContactList'' \<or> e = [] \<or> a = [] then d else dsetdefault e a d) [] events"

definition contact_state_is_reachable :: "string \<Rightarrow> bool" where
  "contact_state_is_reachable s =
    ((contains ''reachable'' s \<and> \<not> contains ''unreachable'' s) \<or> (contains ''available'' s \<and> \<not> contains ''unavailable'' s)
     \<or> contains ''nonqualified'' s \<or> contains ''created'' s)"

definition contact_state_is_unreachable :: "string \<Rightarrow> bool" where
  "contact_state_is_unreachable s = (contains ''unreachable'' s \<or> contains ''unavailable'' s \<or> contains ''removed'' s)"

definition contact_device_state :: "string list \<Rightarrow> string" where
  "contact_device_state states = (case states of [] \<Rightarrow> []
     | s # _ \<Rightarrow>
        if list_ex (\<lambda>s. contact_state_is_reachable (lower s)) states then ''Reachable''
        else if list_ex (\<lambda>s. contact_state_is_unreachable (lower s)) states then ''Unreachable''
        else s)"

definition sip_peer_device_state :: "string \<Rightarrow> string" where
  "sip_peer_device_state st = (let n = lower (strip st) in
     if prefix ''ok'' n \<or> prefix ''lagged'' n then ''Reachable''
     else if any_marker [''unreachable'', ''unknown'', ''rejected''] n then ''Unreachable'' else st)"

section \<open>Numbers and roles\<close>

text \<open>\<open>sips?:([^@>;]+)\<close>, ignoring case: the first position that matches.\<close>

fun sip_uri_user :: "string \<Rightarrow> string option" where
  "sip_uri_user [] = None"
| "sip_uri_user (c # s) =
    (let low = lower (c # s);
         rest = (if prefix ''sips:'' low then drop 5 (c # s) else if prefix ''sip:'' low then drop 4 (c # s) else []);
         user = takeWhile (\<lambda>x. x \<notin> {CHR ''@'', CHR ''>'', CHR '';''}) rest
     in if user \<noteq> [] then Some user else sip_uri_user s)"

text \<open>\<open><([^>]+)>\<close>\<close>

fun angle_group :: "string \<Rightarrow> string option" where
  "angle_group [] = None"
| "angle_group (c # s) = (let g = takeWhile (\<lambda>x. x \<noteq> CHR ''>'') s in
     if c = CHR ''<'' \<and> g \<noteq> [] \<and> CHR ''>'' \<in> set s then Some g else angle_group s)"

lemma angle_group_shorter: "angle_group v = Some g \<Longrightarrow> length g < length v"
proof (induction v)
  case (Cons c s)
  then show ?case
    using length_takeWhile_le [of "\<lambda>x. x \<noteq> CHR ''>''" s] by (auto simp: Let_def split: if_splits)
qed simp

definition drop_scheme :: "string \<Rightarrow> string" where
  "drop_scheme s = (let low = lower s in
     if prefix ''tel:'' low \<or> prefix ''sip:'' low then drop 4 s else if prefix ''sips:'' low then drop 5 s else s)"

definition cleaned_number :: "string \<Rightarrow> string" where
  "cleaned_number cleaned =
    (let user = (case sip_uri_user cleaned of Some u \<Rightarrow> u
       | None \<Rightarrow> if CHR ''<'' \<in> set cleaned then strip_quotes (strip (before (CHR ''<'') cleaned)) else cleaned);
         bare = drop_scheme (strip (before (CHR ''@'') user));
         candidate = filter (\<lambda>c. is_decimal c \<or> c = CHR ''+'') bare
     in if length (filter is_decimal candidate) \<ge> 3 then candidate else [])"

function number_from_pjsip_value :: "string \<Rightarrow> string" where
  "number_from_pjsip_value v =
    (let cleaned = strip_quotes (strip v) in
     if cleaned = [] then []
     else case angle_group v of
         None \<Rightarrow> cleaned_number cleaned
       | Some g \<Rightarrow> or_str (number_from_pjsip_value g) (cleaned_number cleaned))"
  by pat_completeness auto
termination by (relation "measure length") (auto simp: angle_group_shorter)

declare number_from_pjsip_value.simps [simp del]

definition number_keys :: "string list" where
  "number_keys = [''FromUser'', ''CallerIDNum'', ''CallerID'', ''OutboundCallerID'', ''Contact'', ''Contacts'', ''ServerUri'',
     ''ClientUri'', ''Aor'', ''AOR'']"

definition endpoint_number :: "string pydict \<Rightarrow> string" where
  "endpoint_number fs = first_nonempty (map (\<lambda>k. number_from_pjsip_value (field fs k)) number_keys)"

definition trunk_markers :: "string list" where
  "trunk_markers = [''trunk'', ''provider'', ''carrier'', ''sipgate'', ''voip'', ''pstn'', ''itsp'', ''cosmote'', ''ote'',
     ''vodafone'', ''nova'', ''wind'', ''telekom'', ''twilio'', ''flowroute'', ''voipms'', ''voip.ms'', ''didww'', ''telnyx'',
     ''bandwidth'', ''siptrunk'']"

definition looks_like_trunk :: "string \<Rightarrow> string pydict \<Rightarrow> bool" where
  "looks_like_trunk name fs = any_marker trunk_markers (lower (join '' '' [lower (strip name), field fs ''Description'',
     field fs ''Aor'', field fs ''Auths'', field fs ''OutboundAuths'', field fs ''Transport'']))"

definition endpoint_role :: "string \<Rightarrow> string pydict \<Rightarrow> string" where
  "endpoint_role name fs = (if looks_like_trunk name fs then ''trunk'' else ''extension'')"

section \<open>Endpoints\<close>

definition endpoint_extension :: "string pydict \<Rightarrow> string" where
  "endpoint_extension fs = first_nonempty [field fs ''ObjectName'', field fs ''Endpoint'', field fs ''Peer'', field fs ''PeerName'']"

definition event_device_state :: "(string \<times> string list) list \<Rightarrow> ami_event \<Rightarrow> string" where
  "event_device_state states ev = (let fs = ae_fields ev in
     if ae_name ev = ''PeerEntry'' then sip_peer_device_state (field fs ''Status'')
     else first_nonempty [contact_device_state (opt_or (map_of states (endpoint_extension fs)) []),
       field fs ''DeviceState'', field fs ''Contacts'', field fs ''Status''])"

definition endpoint_of_event :: "(string \<times> string list) list \<Rightarrow> (string \<times> string) list \<Rightarrow> ami_event \<Rightarrow> ami_endpoint option" where
  "endpoint_of_event states addresses ev = (let fs = ae_fields ev; ext = endpoint_extension fs in
     if ae_name ev \<notin> {''EndpointList'', ''PeerEntry''} \<or> ext = [] then None
     else Some \<lparr>ep_extension = ext, device_state = event_device_state states ev,
       active_channels = ami_int (dget fs ''ActiveChannels'' ''0''),
       ep_label = first_value fs [''CallerIDName'', ''CalleridName'', ''CallerID'', ''Description'', ''DeviceName'', ''ObjectName''],
       role = endpoint_role ext fs, ep_number = endpoint_number fs,
       presence = first_value fs [''PresenceState'', ''Presence'', ''CustomPresence''],
       ip_address = or_str (dget addresses ext []) (first_ip_address [field fs ''Address-IP'', field fs ''IPaddress'', field fs ''Address''])\<rparr>)"

definition endpoints_from_events :: "ami_event list \<Rightarrow> ami_endpoint list" where
  "endpoints_from_events events = List.map_filter
     (endpoint_of_event (contact_states_from_events events) (contact_addresses_from_events events)) events"

section \<open>Queues\<close>

record member_counts =
  mc_available :: int
  mc_busy :: int
  mc_paused :: int
  mc_total :: int

definition no_members :: member_counts where
  "no_members = \<lparr>mc_available = 0, mc_busy = 0, mc_paused = 0, mc_total = 0\<rparr>"

record queue_tables =
  qt_params :: "(string \<times> string pydict) list"
  qt_entries :: "(string \<times> int) list"
  qt_waits :: "(string \<times> int) list"
  qt_members :: "(string \<times> member_counts) list"

definition count_member :: "string pydict \<Rightarrow> member_counts \<Rightarrow> member_counts" where
  "count_member fs c0 = (let c = c0\<lparr>mc_total := mc_total c0 + 1\<rparr>; st = ami_int (dget fs ''Status'' ''0'') in
     if lower (strip (field fs ''Paused'')) \<in> {''1'', ''yes'', ''true''} then c\<lparr>mc_paused := mc_paused c + 1\<rparr>
     else if st = 1 then c\<lparr>mc_available := mc_available c + 1\<rparr>
     else if st \<in> {2, 3, 6, 7, 8} then c\<lparr>mc_busy := mc_busy c + 1\<rparr>
     else c)"

definition queue_event :: "queue_tables \<Rightarrow> ami_event \<Rightarrow> queue_tables" where
  "queue_event t ev = (let fs = ae_fields ev; q = strip (field fs ''Queue'') in
     if q = [] then t
     else if ae_name ev = ''QueueParams'' then t\<lparr>qt_params := AList.update q fs (qt_params t)\<rparr>
     else if ae_name ev = ''QueueEntry'' then
       t\<lparr>qt_entries := AList.update q (dget (qt_entries t) q 0 + 1) (qt_entries t),
         qt_waits := AList.update q (max (dget (qt_waits t) q 0) (ami_int (dget fs ''Wait'' ''0''))) (qt_waits t)\<rparr>
     else if ae_name ev = ''QueueMember'' then
       t\<lparr>qt_members := AList.update q (count_member fs (dget (qt_members t) q no_members)) (qt_members t)\<rparr>
     else t)"

definition empty_tables :: queue_tables where
  "empty_tables = \<lparr>qt_params = [], qt_entries = [], qt_waits = [], qt_members = []\<rparr>"

definition queue_of_tables :: "queue_tables \<Rightarrow> string \<Rightarrow> ami_queue" where
  "queue_of_tables t q = (let m = dget (qt_members t) q no_members in
     \<lparr>q_name = q,
      waiting_callers = (case map_of (qt_entries t) q of Some n \<Rightarrow> n
        | None \<Rightarrow> ami_int (dget (dget (qt_params t) q []) ''Calls'' ''0'')),
      longest_wait_seconds = dget (qt_waits t) q 0, available_members = mc_available m, busy_members = mc_busy m,
      paused_members = mc_paused m, total_members = mc_total m\<rparr>)"

definition queues_from_events :: "ami_event list \<Rightarrow> ami_queue list" where
  "queues_from_events events = (let t = foldl queue_event empty_tables events in
     map (queue_of_tables t) (sorted_set (map fst (qt_params t) @ map fst (qt_entries t) @ map fst (qt_members t))))"

section \<open>The snapshot\<close>

definition agent_version_string :: string where
  "agent_version_string = ''0.5.20-beta''"

text \<open>\<open>snapshot\<close>; what is not an \<open>OSError\<close> escapes.\<close>

definition ami_snapshot_of :: "(string \<Rightarrow> string) \<Rightarrow> ami_settings \<Rightarrow> conn_error + sock \<Rightarrow> conn_error + ami_snapshot" where
  "ami_snapshot_of decode cfg conn =
    (case (case ami_connect cfg conn of Inl e \<Rightarrow> Inl e | Inr s \<Rightarrow> fst (read_events decode cfg s)) of
       Inr events \<Rightarrow> Inr (default_snapshot\<lparr>reachable := True, agent_version := agent_version_string,
         channels := channels_from_events events, endpoints := endpoints_from_events events,
         queues := queues_from_events events\<rparr>)
     | Inl e \<Rightarrow>
         if conn_os_error e then Inr (default_snapshot\<lparr>reachable := False, agent_version := agent_version_string,
           error := Some (conn_text e)\<rparr>)
         else Inl e)"

end
