(* ===== verification/AmiLaws.thy ===== *)
theory AmiLaws
  imports AmiViews
begin

text \<open>
  What the AMI client promises: framing that does not depend on how the bytes arrive, packets read
  back as they were written, an outcome for every failure, and the queue totals.
\<close>

section \<open>Framing\<close>

text \<open>
  C21. Reading a packet does not depend on how the network cuts the stream: two streams with the same
  bytes and the same end give the same frame and leave the same bytes behind; and the buffered reader
  of the AMI client, which peeks and searches across the border of what it already has, agrees with the
  byte-at-a-time reader of the FreeSWITCH client.
\<close>

theorem frames_ignore_pieces:
  assumes "m \<noteq> []" and "available as = available bs" and "ending as = ending bs"
  shows "fst (recv_through m as) = fst (read_until m bs) \<and>
    available (snd (recv_through m as)) = available (snd (read_until m bs)) \<and>
    fst (recv_through m as) = fst (recv_through m bs) \<and>
    available (snd (recv_through m as)) = available (snd (recv_through m bs))"
proof -
  have "frame_result m [] as (recv_through m as)" "frame_result m [] bs (read_until m bs)"
    using ami_frames.reads [OF assms(1)] esl_frames.reads [OF assms(1)] by blast+
  then have "fst (recv_through m as) = fst (read_until m bs) \<and>
      available (snd (recv_through m as)) = available (snd (read_until m bs))"
    using assms(2,3) by (auto simp: frame_result_def split: option.splits list.splits arrival.splits)
  with ami_frames.read_pieces [OF assms] show ?thesis by simp
qed

theorem frames_ignore_pieces_witness:
  "fst (recv_through ''ab'' [Data ''xa'', Data ''by'']) = fst (read_until ''ab'' [Data ''xaby''])"
  using frames_ignore_pieces [of "''ab''" "[Data ''xa'', Data ''by'']" "[Data ''xaby'']"] by simp

section \<open>Packets are read as they were written\<close>

definition no_breaks :: "string \<Rightarrow> bool" where
  "no_breaks s = list_all (\<lambda>c. \<not> is_line_break c) s"

definition header_line :: "string \<times> string \<Rightarrow> string" where
  "header_line kv = fst kv @ '': '' @ snd kv"

text \<open>A packet whose keys and values survive a header line.\<close>

definition clean_packet :: "string pydict \<Rightarrow> bool" where
  "clean_packet fs = (fs \<noteq> [] \<and> distinct (map fst fs) \<and>
     list_all (\<lambda>(k, v). CHR '':'' \<notin> set k \<and> strip k = k \<and> strip v = v \<and> no_breaks k \<and> no_breaks v) fs)"

lemma action_text_lines: "action_text fs = concat (map (\<lambda>kv. header_line kv @ crlf) fs) @ crlf"
  by (simp add: action_text_def header_line_def case_prod_unfold)

lemma line_breaks: "is_line_break (char_of (13::nat))" "is_line_break (char_of (10::nat))" "\<not> is_line_break (CHR '':'')"
  "\<not> is_line_break (CHR '' '')"
  by (simp_all add: is_line_break_def code_point_def)

lemma splitlines_acc_line: "no_breaks l \<Longrightarrow> splitlines_acc acc (l @ crlf @ s) = (rev acc @ l) # splitlines_acc [] s"
  by (induction l arbitrary: acc) (auto simp: no_breaks_def crlf_def is_line_break_def code_point_def)

lemma splitlines_packet:
  assumes "list_all no_breaks ls"
  shows "splitlines (concat (map (\<lambda>l. l @ crlf) ls) @ crlf) = ls @ [[]]"
proof -
  have "splitlines_acc [] (concat (map (\<lambda>l. l @ crlf) ls) @ crlf) = ls @ [[]]" using assms
  proof (induction ls)
    case Nil
    show ?case using splitlines_acc_line [of "[]" "[]" "[]"] by (simp add: no_breaks_def)
  next
    case (Cons l ls)
    then show ?case using splitlines_acc_line [of l "[]" "concat (map (\<lambda>l. l @ crlf) ls) @ crlf"] by simp
  qed
  then show ?thesis by (simp add: splitlines_def)
qed

lemma before_colon: "CHR '':'' \<notin> set k \<Longrightarrow> before (CHR '':'') (k @ CHR '':'' # r) = k"
  by (auto simp: before_def takeWhile_append)

lemma after_colon: "CHR '':'' \<notin> set k \<Longrightarrow> after (CHR '':'') (k @ CHR '':'' # r) = r"
  by (auto simp: after_def dropWhile_append)

lemma strip_space: "strip v = v \<Longrightarrow> strip (CHR '' '' # v) = v"
  by (simp add: strip_def strip_chars_def is_space_def code_point_def)

lemma header_fields_packet:
  assumes "clean_packet fs"
  shows "header_fields (action_text fs) = fs"
proof -
  have lines: "splitlines (action_text fs) = map header_line fs @ [[]]"
  proof -
    have "list_all no_breaks (map header_line fs)"
      using assms line_breaks(3,4) by (auto simp: clean_packet_def list_all_iff header_line_def no_breaks_def)
    from splitlines_packet [OF this] show ?thesis unfolding action_text_lines by (simp add: comp_def)
  qed
  have add: "add_header d (header_line kv) = AList.update (fst kv) (snd kv) d" if "kv \<in> set fs" for d kv
    using assms that
    by (auto simp: clean_packet_def list_all_iff add_header_def header_line_def before_colon after_colon strip_space)
  have "foldl add_header d (map header_line gs) = d @ gs"
    if "set gs \<subseteq> set fs" "distinct (map fst (d @ gs))" for d gs
    using that
  proof (induction gs arbitrary: d)
    case (Cons kv gs)
    have "fst kv \<notin> set (map fst d)" using Cons.prems(2) by auto
    then have "AList.update (fst kv) (snd kv) d = d @ [kv]"
      by (induction d) auto
    with add [of kv d] Cons.prems Cons.IH [of "d @ [kv]"] show ?case by simp
  qed simp
  from this [of fs "[]"] assms have "foldl add_header [] (map header_line fs) = fs" by (simp add: clean_packet_def)
  with lines show ?thesis by (simp add: header_fields_def add_header_def)
qed

abbreviation packet_end :: string where
  "packet_end \<equiv> crlf @ crlf"

lemma find_end_skip_line:
  assumes "no_breaks l"
  shows "find_sub packet_end (l @ s) = map_option (\<lambda>i. length l + i) (find_sub packet_end s)"
  using assms
proof (induction l)
  case Nil
  show ?case by (simp add: option.map_ident)
next
  case (Cons c l)
  then have "c \<noteq> char_of (13::nat)" by (auto simp: no_breaks_def line_breaks)
  then have "\<not> prefix packet_end (c # l @ s)" by (simp add: crlf_def)
  with Cons show ?case by (simp add: no_breaks_def option.map_comp comp_def)
qed

lemma find_end_skip_break:
  assumes "s \<noteq> []" and "\<not> is_line_break (hd s)"
  shows "find_sub packet_end (crlf @ s) = map_option (\<lambda>i. 2 + i) (find_sub packet_end s)"
proof -
  obtain c r where s: "s = c # r" using assms(1) by (cases s) auto
  with assms(2) have "c \<noteq> char_of (13::nat)" by (auto simp: line_breaks)
  then show ?thesis by (simp add: s crlf_def option.map_comp comp_def)
qed

lemma find_end_lines:
  assumes "list_all (\<lambda>l. no_breaks l \<and> l \<noteq> []) ls" and "ls \<noteq> []"
  shows "find_sub packet_end (concat (map (\<lambda>l. l @ crlf) ls) @ crlf @ r) = Some (length (concat (map (\<lambda>l. l @ crlf) ls)) - 2)"
  using assms
proof (induction ls)
  case (Cons l ls)
  then have l: "no_breaks l" "l \<noteq> []" by simp_all
  show ?case
  proof (cases ls)
    case Nil
    have "find_sub packet_end (packet_end @ r) = Some 0"
      by (cases "packet_end @ r") (auto simp: crlf_def)
    with find_end_skip_line [OF l(1), of "packet_end @ r"] Nil show ?thesis by (simp add: crlf_def)
  next
    case (Cons l2 ls2)
    let ?s = "concat (map (\<lambda>l. l @ crlf) ls) @ crlf @ r"
    have l2: "no_breaks l2" "l2 \<noteq> []" using Cons.prems Cons by simp_all
    then have hd: "?s \<noteq> []" "\<not> is_line_break (hd ?s)"
      using Cons by (auto simp: no_breaks_def list_all_iff)
    have "find_sub packet_end (l @ crlf @ ?s) = map_option (\<lambda>i. length l + (2 + i)) (find_sub packet_end ?s)"
      unfolding find_end_skip_line [OF l(1)] find_end_skip_break [OF hd] by (simp add: option.map_comp comp_def)
    moreover have "find_sub packet_end ?s = Some (length (concat (map (\<lambda>l. l @ crlf) ls)) - 2)"
      using Cons.IH Cons.prems Cons by simp
    moreover have "length (concat (map (\<lambda>l. l @ crlf) ls)) \<ge> 2" using Cons by (simp add: crlf_def)
    ultimately show ?thesis by (simp add: crlf_def)
  qed
qed simp

lemma find_end_packet:
  assumes "clean_packet fs"
  shows "find_sub packet_end (action_text fs @ r) = Some (length (action_text fs) - 4) \<and> length (action_text fs) \<ge> 4"
proof -
  have ls: "list_all (\<lambda>l. no_breaks l \<and> l \<noteq> []) (map header_line fs)" "map header_line fs \<noteq> []"
    using assms line_breaks(3,4) by (auto simp: clean_packet_def list_all_iff header_line_def no_breaks_def)
  have at: "action_text fs = concat (map (\<lambda>l. l @ crlf) (map header_line fs)) @ crlf"
    by (simp add: action_text_lines comp_def)
  from ls(2) have "length (concat (map (\<lambda>l. l @ crlf) (map header_line fs))) \<ge> 2" by (cases fs) (simp_all add: crlf_def)
  with find_end_lines [OF ls, of r] show ?thesis unfolding at by (simp add: crlf_def)
qed

lemma read_clean_packet:
  assumes "clean_packet fs" and "decode (action_text fs) = action_text fs" and "\<not> sk_tls s"
    and "available (sk_in s) = action_text fs @ r"
  shows "\<exists>s'. read_packet decode phase s = (Inr fs, s') \<and> available (sk_in s') = r \<and> sk_out s' = sk_out s \<and> \<not> sk_tls s'"
proof -
  have ne: "packet_end \<noteq> []" by (simp add: crlf_def)
  note fe = find_end_packet [OF assms(1), of r]
  from fe assms(4) have "find_sub packet_end (available (sk_in s)) = Some (length (action_text fs) - 4)" by simp
  then obtain as' where as': "recv_through packet_end (sk_in s) =
      (Inr (take (length (action_text fs) - 4 + length packet_end) (available (sk_in s))), as')"
    "available as' = drop (length (action_text fs) - 4 + length packet_end) (available (sk_in s))"
    using ami_frames.read_found [OF ne] by metis
  have l4: "length packet_end = 4" by (simp add: crlf_def)
  with as' fe assms(4) have r: "recv_through packet_end (sk_in s) = (Inr (action_text fs), as')" "available as' = r" by simp_all
  have "action_text fs \<noteq> []" using fe by auto
  with r assms(2,3) header_fields_packet [OF assms(1)]
  have "read_packet decode phase s = (Inr fs, s\<lparr>sk_in := as'\<rparr>)"
    by (simp add: read_packet_def recv_frame_def)
  with r(2) assms(3) show ?thesis by (intro exI [of _ "s\<lparr>sk_in := as'\<rparr>"]) simp
qed

definition event_packet :: "string pydict \<Rightarrow> ami_event" where
  "event_packet p = \<lparr>ae_name = dget p ''Event'' [], ae_fields = p\<rparr>"

definition readable :: "(string \<Rightarrow> string) \<Rightarrow> string pydict \<Rightarrow> bool" where
  "readable decode p = (clean_packet p \<and> decode (action_text p) = action_text p)"

lemma collect_clean:
  assumes "list_all (\<lambda>p. readable decode p \<and> dget p ''Event'' [] \<noteq> until) ps" and "readable decode q"
    and "dget q ''Event'' [] = until" and "\<not> sk_tls s"
    and "available (sk_in s) = concat (map action_text ps) @ action_text q @ r"
  shows "\<exists>s'. collect_loop decode action until events s =
      (Inr (events @ map event_packet (filter (\<lambda>p. dget p ''Event'' [] \<noteq> []) ps)), s') \<and>
    available (sk_in s') = r \<and> sk_out s' = sk_out s"
  using assms
proof (induction ps arbitrary: s events)
  case Nil
  from Nil.prems obtain s' where "read_packet decode action s = (Inr q, s')" "available (sk_in s') = r" "sk_out s' = sk_out s"
    using read_clean_packet [where fs = q and decode = decode and s = s and r = r and phase = action] by (auto simp: readable_def)
  moreover have "q \<noteq> []" using Nil.prems(2) by (auto simp: readable_def clean_packet_def)
  ultimately show ?case using Nil.prems(3) by (simp add: collect_loop.simps [of decode action until events s])
next
  case (Cons p ps)
  from Cons.prems have p: "clean_packet p" "decode (action_text p) = action_text p" "dget p ''Event'' [] \<noteq> until"
    by (simp_all add: readable_def)
  from read_clean_packet [where fs = p and decode = decode and s = s and phase = action and
      r = "concat (map action_text ps) @ action_text q @ r"] p(1,2) Cons.prems(4,5)
  obtain s' where rp: "read_packet decode action s = (Inr p, s')"
    and s': "available (sk_in s') = concat (map action_text ps) @ action_text q @ r" "sk_out s' = sk_out s" "\<not> sk_tls s'" by auto
  have ne: "p \<noteq> []" using p(1) by (auto simp: clean_packet_def)
  have "collect_loop decode action until events s = collect_loop decode action until
      (if dget p ''Event'' [] \<noteq> [] then events @ [event_packet p] else events) s'"
    using rp ne p(3) by (simp add: collect_loop.simps [of decode action until events s] event_packet_def)
  moreover from Cons.prems have "list_all (\<lambda>p. readable decode p \<and> dget p ''Event'' [] \<noteq> until) ps" by simp
  ultimately show ?case
    using Cons.IH [OF _ Cons.prems(2,3) s'(3,1), of "if dget p ''Event'' [] \<noteq> [] then events @ [event_packet p] else events"] s'(2)
    by (cases "dget p ''Event'' [] = []") auto
qed

text \<open>
  C22. An action returns exactly the events the PBX sent for it: when the stream holds any packets
  whose keys and values survive a header line, then the completing event, the action is sent once, its
  result is one event per packet that names one, in order and with exactly its fields, and the bytes
  behind the completing packet are left for the next action, however the stream is cut.
\<close>

theorem action_returns_its_events:
  assumes "list_all (\<lambda>p. readable decode p \<and> dget p ''Event'' [] \<noteq> until) ps" and "readable decode q"
    and "dget q ''Event'' [] = until" and "\<not> sk_tls s"
    and "available (sk_in s) = concat (map action_text ps) @ action_text q @ r"
  shows "\<exists>s'. collect_action_events decode action until s =
      (Inr (map event_packet (filter (\<lambda>p. dget p ''Event'' [] \<noteq> []) ps)), s') \<and>
    available (sk_in s') = r \<and> sk_out s' = sk_out s @ [action_text [(''Action'', action)]]"
proof -
  let ?s = "send_action [(''Action'', action)] s"
  have "\<not> sk_tls ?s" "available (sk_in ?s) = concat (map action_text ps) @ action_text q @ r"
    using assms(4,5) by (simp_all add: send_action_def)
  from collect_clean [OF assms(1-3) this, of action "[]"] show ?thesis
    by (auto simp: collect_action_events_def send_action_def)
qed

definition channel_packet :: "string pydict" where
  "channel_packet = [(''Event'', ''CoreShowChannel''), (''Channel'', ''PJSIP/200-1'')]"

definition complete_packet :: "string pydict" where
  "complete_packet = [(''Event'', ''CoreShowChannelsComplete'')]"

theorem action_returns_its_events_witness:
  "\<exists>s'. collect_action_events (\<lambda>x. x) ''CoreShowChannels'' ''CoreShowChannelsComplete''
      \<lparr>sk_in = map (\<lambda>c. Data [c]) (action_text channel_packet @ action_text complete_packet), sk_out = [], sk_tls = False\<rparr> =
    (Inr [event_packet channel_packet], s')"
proof -
  define s where "s = \<lparr>sk_in = map (\<lambda>c. Data [c]) (action_text channel_packet @ action_text complete_packet), sk_out = [], sk_tls = False\<rparr>"
  have av: "available (map (\<lambda>c. Data [c]) t) = t" for t by (induction t) simp_all
  have c: "readable (\<lambda>x. x) channel_packet" "readable (\<lambda>x. x) complete_packet"
    "dget channel_packet ''Event'' [] = ''CoreShowChannel''" "dget complete_packet ''Event'' [] = ''CoreShowChannelsComplete''"
    by code_simp+
  have "list_all (\<lambda>p. readable (\<lambda>x. x) p \<and> dget p ''Event'' [] \<noteq> ''CoreShowChannelsComplete'') [channel_packet]"
    using c(1,3) by simp
  moreover have "\<not> sk_tls s" "available (sk_in s) = concat (map action_text [channel_packet]) @ action_text complete_packet @ []"
    by (simp_all add: s_def av del: map_append)
  ultimately have "\<exists>s'. collect_action_events (\<lambda>x. x) ''CoreShowChannels'' ''CoreShowChannelsComplete'' s =
      (Inr (map event_packet (filter (\<lambda>p. dget p ''Event'' [] \<noteq> []) [channel_packet])), s') \<and>
      available (sk_in s') = [] \<and> sk_out s' = sk_out s @ [action_text [(''Action'', ''CoreShowChannels'')]]"
    by (intro action_returns_its_events [OF _ c(2,4)])
  with c(3) show ?thesis unfolding s_def [symmetric] by auto
qed

section \<open>Every failure has an outcome\<close>

definition os_result :: "(conn_error + 'a) \<times> sock \<Rightarrow> bool" where
  "os_result res = (\<not> sk_tls (snd res) \<and> (\<forall>e. fst res = Inl e \<longrightarrow> conn_os_error e))"

lemma os_result_simps [simp]:
  "os_result (Inr x, s) = (\<not> sk_tls s)" "os_result (Inl e, s) = (\<not> sk_tls s \<and> conn_os_error e)"
  by (auto simp: os_result_def)

lemma os_step:
  assumes "os_result p" and "\<And>e s. \<not> sk_tls s \<Longrightarrow> conn_os_error e \<Longrightarrow> os_result (f e s)"
    and "\<And>x s. \<not> sk_tls s \<Longrightarrow> os_result (g x s)"
  shows "os_result (case p of (Inl e, s) \<Rightarrow> f e s | (Inr x, s) \<Rightarrow> g x s)"
  using assms by (cases p) (auto split: sum.split)

lemma recv_frame_os:
  assumes "\<not> sk_tls s" and "m \<noteq> []"
  shows "os_result (recv_frame m s)"
proof -
  obtain x rest where r: "recv_through m (sk_in s) = (x, rest)" by (cases "recv_through m (sk_in s)")
  have "x \<noteq> Inl (ConnValueError e)" for e
    using ami_frames.reads [OF assms(2), of "sk_in s"] r
    by (auto simp: frame_result_def split: option.splits list.splits arrival.splits)
  then have "conn_os_error e" if "x = Inl e" for e using that by (cases e) auto
  with r assms(1) show ?thesis by (auto simp: recv_frame_def os_result_def)
qed

lemma crlf_nonempty [simp]: "crlf \<noteq> []" by (simp add: crlf_def)

lemma read_packet_os: "\<not> sk_tls s \<Longrightarrow> os_result (read_packet decode phase s)"
  unfolding read_packet_def by (intro os_step recv_frame_os) auto

lemma read_banner_os: "\<not> sk_tls s \<Longrightarrow> os_result (read_optional_banner decode s)"
  unfolding read_optional_banner_def by (intro os_step recv_frame_os) auto

lemma read_until_response_os: "\<not> sk_tls s \<Longrightarrow> os_result (read_until_response decode phase s)"
proof (induction decode phase s rule: read_until_response.induct)
  case (1 decode phase s)
  obtain x s1 where rp: "read_packet decode phase s = (x, s1)" by (cases "read_packet decode phase s")
  with read_packet_os [OF 1(2), of decode phase] have o: "os_result (x, s1)" by simp
  show ?case
  proof (cases x)
    case (Inr fs)
    with o have "\<not> sk_tls s1" by simp
    with 1(1) [OF rp [symmetric] Inr] rp Inr show ?thesis by (simp add: read_until_response.simps [of decode phase s])
  qed (use rp o in \<open>simp add: read_until_response.simps [of decode phase s]\<close>)
qed

lemma login_os: "\<not> sk_tls s \<Longrightarrow> os_result (login decode cfg s)"
  unfolding login_def by (intro os_step read_until_response_os) (auto simp: send_action_def)

lemma collect_loop_os: "\<not> sk_tls s \<Longrightarrow> os_result (collect_loop decode action until events s)"
proof (induction decode action until events s rule: collect_loop.induct)
  case (1 decode action until events s)
  obtain x s1 where rp: "read_packet decode action s = (x, s1)" by (cases "read_packet decode action s")
  with read_packet_os [OF 1(4), of decode action] have o: "os_result (x, s1)" by simp
  show ?case
  proof (cases x)
    case (Inr fs)
    with o have "\<not> sk_tls s1" by simp
    with 1(1-3) [OF rp [symmetric] Inr refl] rp Inr show ?thesis
      by (simp add: collect_loop.simps [of decode action until events s] Let_def)
  qed (use rp o in \<open>simp add: collect_loop.simps [of decode action until events s]\<close>)
qed

lemma collect_action_os: "\<not> sk_tls s \<Longrightarrow> os_result (collect_action_events decode action until s)"
  unfolding collect_action_events_def by (rule collect_loop_os) (simp add: send_action_def)

lemma collect_optional_action_Inr:
  assumes "\<not> sk_tls s"
  shows "\<exists>events s1. collect_optional_action_events decode action until s = (Inr events, s1) \<and> \<not> sk_tls s1"
proof -
  obtain x s1 where c: "collect_action_events decode action until s = (x, s1)" by (cases "collect_action_events decode action until s")
  with collect_action_os [OF assms, of decode action until] have "os_result (x, s1)" by simp
  with c show ?thesis by (cases x) (simp_all add: collect_optional_action_events_def)
qed

lemma collect_optional_Inr:
  "\<not> sk_tls s \<Longrightarrow> \<exists>found s1. collect_optional decode actions events s = (Inr (events @ found), s1) \<and> \<not> sk_tls s1"
proof (induction actions arbitrary: events s)
  case (Cons au actions)
  obtain action until where au: "au = (action, until)" by (cases au)
  obtain more1 s1 where c: "collect_optional_action_events decode action until s = (Inr more1, s1)" "\<not> sk_tls s1"
    using collect_optional_action_Inr [OF Cons.prems] by blast
  from Cons.IH [OF c(2), of "events @ more1"] obtain found s2 where
    "collect_optional decode actions (events @ more1) s1 = (Inr (events @ more1 @ found), s2)" "\<not> sk_tls s2" by auto
  with c(1) au show ?case by (intro exI [of _ "more1 @ found"]) simp
qed simp

text \<open>Banner, login and the list of channels: what a snapshot cannot do without.\<close>

definition core_events :: "(string \<Rightarrow> string) \<Rightarrow> ami_settings \<Rightarrow> sock \<Rightarrow> (conn_error + ami_event list) \<times> sock" where
  "core_events decode cfg s =
    (case read_optional_banner decode s of
       (Inl e, s1) \<Rightarrow> (Inl e, s1)
     | (Inr b, s1) \<Rightarrow>
        (case login decode cfg s1 of
           (Inl e, s2) \<Rightarrow> (Inl e, s2)
         | (Inr response, s2) \<Rightarrow> collect_action_events decode ''CoreShowChannels'' ''CoreShowChannelsComplete'' s2))"

lemma core_events_os: "\<not> sk_tls s \<Longrightarrow> os_result (core_events decode cfg s)"
  unfolding core_events_def by (intro os_step read_banner_os login_os collect_action_os) auto

lemma read_events_core:
  "read_events decode cfg s =
    (case core_events decode cfg s of
       (Inl e, s1) \<Rightarrow> (Inl e, s1)
     | (Inr events, s1) \<Rightarrow>
        (case collect_optional decode optional_actions events s1 of
           (Inl e, s2) \<Rightarrow> (Inl e, s2)
         | (Inr all, s2) \<Rightarrow> (Inr all, send_action [(''Action'', ''Logoff'')] s2)))"
  unfolding read_events_def core_events_def by (simp split: sum.split prod.split)

lemma tls_read_events: "sk_tls s \<Longrightarrow> \<exists>m s1. read_events decode cfg s = (Inl (ConnValueError m), s1)"
  by (simp add: read_events_def read_optional_banner_def recv_frame_def)


section \<open>Queue totals\<close>

definition event_queue :: "ami_event \<Rightarrow> string" where
  "event_queue ev = strip (field (ae_fields ev) ''Queue'')"

definition events_of :: "string \<Rightarrow> string \<Rightarrow> ami_event list \<Rightarrow> ami_event list" where
  "events_of name q events = filter (\<lambda>ev. ae_name ev = name \<and> event_queue ev = q) events"

definition entry_wait :: "ami_event \<Rightarrow> int" where
  "entry_wait ev = ami_int (dget (ae_fields ev) ''Wait'' ''0'')"

definition add_members :: "ami_event list \<Rightarrow> member_counts \<Rightarrow> member_counts" where
  "add_members evs c = foldl (\<lambda>c ev. count_member (ae_fields ev) c) c evs"

lemma queue_events_tables:
  assumes "q \<noteq> []"
  shows "dget (qt_entries (foldl queue_event t events)) q 0 =
      dget (qt_entries t) q 0 + int (length (events_of ''QueueEntry'' q events)) \<and>
    (map_of (qt_entries (foldl queue_event t events)) q = None \<longleftrightarrow> map_of (qt_entries t) q = None \<and> events_of ''QueueEntry'' q events = []) \<and>
    dget (qt_waits (foldl queue_event t events)) q 0 =
      foldl max (dget (qt_waits t) q 0) (map entry_wait (events_of ''QueueEntry'' q events)) \<and>
    dget (qt_members (foldl queue_event t events)) q no_members =
      add_members (events_of ''QueueMember'' q events) (dget (qt_members t) q no_members)"
proof (induction events arbitrary: t)
  case Nil
  show ?case by (simp add: events_of_def add_members_def)
next
  case (Cons ev events)
  have step: "dget (qt_entries (queue_event t ev)) q 0 = dget (qt_entries t) q 0 + (if ae_name ev = ''QueueEntry'' \<and> event_queue ev = q then 1 else 0)"
    "(map_of (qt_entries (queue_event t ev)) q = None) = (map_of (qt_entries t) q = None \<and> \<not> (ae_name ev = ''QueueEntry'' \<and> event_queue ev = q))"
    "dget (qt_waits (queue_event t ev)) q 0 = (if ae_name ev = ''QueueEntry'' \<and> event_queue ev = q then max (dget (qt_waits t) q 0) (entry_wait ev) else dget (qt_waits t) q 0)"
    "dget (qt_members (queue_event t ev)) q no_members = (if ae_name ev = ''QueueMember'' \<and> event_queue ev = q
       then count_member (ae_fields ev) (dget (qt_members t) q no_members) else dget (qt_members t) q no_members)"
    using assms by (auto simp: queue_event_def Let_def event_queue_def entry_wait_def dget_def update_conv')
  show ?case
    unfolding foldl_Cons using Cons.IH [of "queue_event t ev"] step
    by (auto simp: events_of_def add_members_def)
qed

lemma add_members_totals:
  "mc_total (add_members evs c) = mc_total c + int (length evs) \<and>
   (mc_available c + mc_busy c + mc_paused c \<le> mc_total c \<longrightarrow>
     mc_available (add_members evs c) + mc_busy (add_members evs c) + mc_paused (add_members evs c) \<le> mc_total (add_members evs c)) \<and>
   mc_available c \<le> mc_available (add_members evs c) \<and> mc_busy c \<le> mc_busy (add_members evs c) \<and> mc_paused c \<le> mc_paused (add_members evs c)"
proof (induction evs arbitrary: c)
  case (Cons ev evs)
  have "mc_total (count_member (ae_fields ev) c) = mc_total c + 1"
    "mc_available (count_member (ae_fields ev) c) + mc_busy (count_member (ae_fields ev) c) + mc_paused (count_member (ae_fields ev) c)
      \<le> mc_available c + mc_busy c + mc_paused c + 1"
    "mc_available c \<le> mc_available (count_member (ae_fields ev) c)" "mc_busy c \<le> mc_busy (count_member (ae_fields ev) c)"
    "mc_paused c \<le> mc_paused (count_member (ae_fields ev) c)"
    by (simp_all add: count_member_def Let_def)
  with Cons.IH [of "count_member (ae_fields ev) c"] show ?case by (auto simp: add_members_def)
qed (simp add: add_members_def)

text \<open>
  What a queue shows is what the PBX listed for it: the queues are sorted and distinct; the waiting
  callers are the entries of the queue (the \<open>Calls\<close> of its parameters when it lists none); the longest
  wait is the greatest wait of an entry and not negative; every member counts once in the total and at
  most once as available, busy or paused.
\<close>

theorem queue_totals:
  assumes "x \<in> set (queues_from_events events)"
  shows "(events_of ''QueueEntry'' (q_name x) events \<noteq> [] \<longrightarrow>
      waiting_callers x = int (length (events_of ''QueueEntry'' (q_name x) events))) \<and>
    longest_wait_seconds x = foldl max 0 (map entry_wait (events_of ''QueueEntry'' (q_name x) events)) \<and>
    total_members x = int (length (events_of ''QueueMember'' (q_name x) events)) \<and>
    0 \<le> available_members x \<and> 0 \<le> busy_members x \<and> 0 \<le> paused_members x \<and>
    available_members x + busy_members x + paused_members x \<le> total_members x \<and>
    sorted (map q_name (queues_from_events events)) \<and> distinct (map q_name (queues_from_events events))"
proof -
  define t where "t = foldl queue_event empty_tables events"
  have names: "map q_name (queues_from_events events) = sorted_set (map fst (qt_params t) @ map fst (qt_entries t) @ map fst (qt_members t))"
    by (simp add: queues_from_events_def Let_def t_def [symmetric] comp_def queue_of_tables_def)
  from assms obtain q where q: "x = queue_of_tables t q"
    "q \<in> set (map fst (qt_params t) @ map fst (qt_entries t) @ map fst (qt_members t))"
    by (auto simp: queues_from_events_def Let_def t_def)
  have "[] \<notin> set (map fst (qt_params (foldl queue_event u evs)) @ map fst (qt_entries (foldl queue_event u evs)) @ map fst (qt_members (foldl queue_event u evs)))"
    if "[] \<notin> set (map fst (qt_params u) @ map fst (qt_entries u) @ map fst (qt_members u))" for u evs
    using that
  proof (induction evs arbitrary: u)
    case (Cons ev evs)
    have "[] \<notin> set (map fst (qt_params (queue_event u ev)) @ map fst (qt_entries (queue_event u ev)) @ map fst (qt_members (queue_event u ev)))"
      using Cons.prems by (auto simp: queue_event_def Let_def dom_update [unfolded dom_map_of_conv_image_fst] split: if_splits)
    from Cons.IH [OF this] show ?case by simp
  qed simp
  from this [of empty_tables events] q(2) have ne: "q \<noteq> []" by (auto simp: t_def empty_tables_def)
  note tab = queue_events_tables [OF ne, of empty_tables events, unfolded t_def [symmetric]]
  have empty: "dget (qt_entries empty_tables) q 0 = 0" "map_of (qt_entries empty_tables) q = None"
    "dget (qt_waits empty_tables) q 0 = 0" "dget (qt_members empty_tables) q no_members = no_members"
    by (simp_all add: empty_tables_def dget_def opt_or_def)
  note tot = add_members_totals [of "events_of ''QueueMember'' q events" no_members]
  have "q_name x = q" "longest_wait_seconds x = dget (qt_waits t) q 0" "total_members x = mc_total (dget (qt_members t) q no_members)"
    "available_members x = mc_available (dget (qt_members t) q no_members)" "busy_members x = mc_busy (dget (qt_members t) q no_members)"
    "paused_members x = mc_paused (dget (qt_members t) q no_members)"
    "map_of (qt_entries t) q \<noteq> None \<Longrightarrow> waiting_callers x = dget (qt_entries t) q 0"
    by (auto simp: q(1) queue_of_tables_def Let_def dget_def)
  with tab tot empty names show ?thesis by (auto simp: no_members_def)
qed

definition support_events :: "ami_event list" where
  "support_events = [\<lparr>ae_name = ''QueueEntry'', ae_fields = [(''Queue'', ''support''), (''Wait'', ''12'')]\<rparr>,
     \<lparr>ae_name = ''QueueMember'', ae_fields = [(''Queue'', ''support''), (''Status'', ''1'')]\<rparr>]"

theorem queue_totals_witness:
  "waiting_callers (hd (queues_from_events support_events)) = 1 \<and> total_members (hd (queues_from_events support_events)) = 1"
proof -
  have "queues_from_events support_events = [\<lparr>q_name = ''support'', waiting_callers = 1, longest_wait_seconds = 12,
      available_members = 1, busy_members = 0, paused_members = 0, total_members = 1\<rparr>]" by code_simp
  then have m: "hd (queues_from_events support_events) \<in> set (queues_from_events support_events)"
    and n: "q_name (hd (queues_from_events support_events)) = ''support''" by simp_all
  have e: "length (events_of ''QueueEntry'' ''support'' support_events) = 1"
    "length (events_of ''QueueMember'' ''support'' support_events) = 1" by code_simp+
  then have "events_of ''QueueEntry'' ''support'' support_events \<noteq> []" by auto
  with queue_totals [OF m] n e show ?thesis by simp
qed

section \<open>Two properties of the scanners\<close>

text \<open>A number read from a PJSIP value has only digits and plus signs, and at least three digits.\<close>

lemma number_shape:
  "list_all (\<lambda>c. is_decimal c \<or> c = CHR ''+'') (number_from_pjsip_value v) \<and>
   (number_from_pjsip_value v \<noteq> [] \<longrightarrow> length (filter is_decimal (number_from_pjsip_value v)) \<ge> 3)"
proof -
  have c: "list_all (\<lambda>c. is_decimal c \<or> c = CHR ''+'') (cleaned_number w) \<and>
      (cleaned_number w \<noteq> [] \<longrightarrow> length (filter is_decimal (cleaned_number w)) \<ge> 3)" for w
    by (simp add: cleaned_number_def Let_def list_all_iff)
  show ?thesis
  proof (induction v rule: number_from_pjsip_value.induct)
    case (1 v)
    show ?case
    proof (cases "strip_quotes (strip v) = []")
      case True
      then show ?thesis by (simp add: number_from_pjsip_value.simps [of v])
    next
      case False
      show ?thesis
      proof (cases "angle_group v")
        case None
        with False c show ?thesis by (simp add: number_from_pjsip_value.simps [of v])
      next
        case (Some g)
        from 1 [OF refl False Some] c [of "strip_quotes (strip v)"] False Some show ?thesis
          by (simp add: number_from_pjsip_value.simps [of v] or_str_def)
      qed
    qed
  qed
qed

text \<open>The marker \<open>ote\<close> is found inside ordinary words: a phone described as a remote desk or a hotel
  room is classified as a trunk.\<close>

lemma remote_desk_is_a_trunk:
  "endpoint_role ''200'' [(''Description'', ''Remote desk'')] = ''trunk'' \<and>
   endpoint_role ''201'' [(''Description'', ''Hotel room 5'')] = ''trunk''"
  by code_simp

end
