(* ===== verification/FreeSwitch.thy ===== *)
theory FreeSwitch
  imports Ami PyJson
begin

text \<open>
  \<open>pbxsense_agent/freeswitch.py\<close>: the event-socket client (replies, authentication, \<open>api\<close> commands), the
  channels, endpoints and queues of a snapshot, and the JSON call records. \<open>loads\<close> is \<open>json.loads\<close>
  (\<open>None\<close> for a \<open>JSONDecodeError\<close>), \<open>repr\<close> is \<open>str\<close> of a list or dict, \<open>decode\<close> the UTF-8 decoding.
  Each of the three queries opens its own connection.
\<close>

record esl_reply =
  er_headers :: "string pydict"
  er_body :: string

record esl_settings =
  es_host :: string
  es_port :: int
  es_password :: string

section \<open>Replies\<close>

text \<open>\<open>_parse_headers\<close>: as the AMI packets, with lower-case keys.\<close>

definition add_esl_header :: "string pydict \<Rightarrow> string \<Rightarrow> string pydict" where
  "add_esl_header d line = (if CHR '':'' \<notin> set line then d
     else AList.update (lower (strip (before (CHR '':'') line))) (strip (after (CHR '':'') line)) d)"

definition parse_headers :: "string \<Rightarrow> string pydict" where
  "parse_headers raw = foldl add_esl_header [] (splitlines raw)"

definition esl_error :: "string \<Rightarrow> conn_error \<Rightarrow> conn_error" where
  "esl_error m e = (if e = TimeoutError then ConnError m else e)"

definition esl_read_until :: "string \<Rightarrow> string \<Rightarrow> sock \<Rightarrow> (conn_error + string) \<times> sock" where
  "esl_read_until marker phase s = (case read_until marker (sk_in s) of
       (Inl e, rest) \<Rightarrow> (Inl (esl_error (phase @ '' timed out'') e), s\<lparr>sk_in := rest\<rparr>)
     | (Inr raw, rest) \<Rightarrow> (Inr raw, s\<lparr>sk_in := rest\<rparr>))"

text \<open>\<open>_read_exact\<close>: the loop over \<open>recv(remaining)\<close>.\<close>

function read_exact_loop :: "nat \<Rightarrow> string \<Rightarrow> arrival list \<Rightarrow> (conn_error + string) \<times> arrival list" where
  "read_exact_loop remaining chunks as =
    (if remaining = 0 then (Inr chunks, as)
     else case recv remaining as of
         (Inl e, as1) \<Rightarrow> (Inl e, as1)
       | (Inr chunk, as1) \<Rightarrow>
          if chunk = [] then (Inr chunks, as1)
          else read_exact_loop (remaining - length chunk) (chunks @ chunk) as1)"
  by pat_completeness auto
termination by (relation "measure (\<lambda>(n, c, as). n)") auto

declare read_exact_loop.simps [simp del]

definition read_exact :: "int \<Rightarrow> string \<Rightarrow> sock \<Rightarrow> (conn_error + string) \<times> sock" where
  "read_exact n phase s = (case read_exact_loop (nat n) [] (sk_in s) of
       (Inl e, rest) \<Rightarrow> (Inl (esl_error (phase @ '' body timed out'') e), s\<lparr>sk_in := rest\<rparr>)
     | (Inr raw, rest) \<Rightarrow> (Inr raw, s\<lparr>sk_in := rest\<rparr>))"

definition double_newline :: string where
  "double_newline = [char_of (10::nat), char_of (10::nat)]"

text \<open>A content length that is not a number raises a \<open>ValueError\<close>.\<close>

definition read_reply :: "(string \<Rightarrow> string) \<Rightarrow> string \<Rightarrow> sock \<Rightarrow> (conn_error + esl_reply) \<times> sock" where
  "read_reply decode phase s =
    (case esl_read_until double_newline phase s of
       (Inl e, s1) \<Rightarrow> (Inl e, s1)
     | (Inr raw, s1) \<Rightarrow>
        let headers = parse_headers (decode raw) in
        case py_int (or_str (dget headers ''content-length'' ''0'') ''0'') of
          None \<Rightarrow> (Inl (ConnValueError ''invalid literal for int() with base 10''), s1)
        | Some n \<Rightarrow>
            (case (if n \<noteq> 0 then read_exact n phase s1 else (Inr [], s1)) of
               (Inl e, s2) \<Rightarrow> (Inl e, s2)
             | (Inr body, s2) \<Rightarrow> (Inr \<lparr>er_headers = headers, er_body = strip (decode body)\<rparr>, s2)))"

definition esl_send :: "string \<Rightarrow> sock \<Rightarrow> sock" where
  "esl_send command s = s\<lparr>sk_out := sk_out s @ [command @ double_newline]\<rparr>"

definition authenticate :: "(string \<Rightarrow> string) \<Rightarrow> esl_settings \<Rightarrow> sock \<Rightarrow> (conn_error + unit) \<times> sock" where
  "authenticate decode cfg s =
    (case read_reply decode ''FreeSWITCH ESL greeting'' s of
       (Inl e, s1) \<Rightarrow> (Inl e, s1)
     | (Inr hello, s1) \<Rightarrow>
        if lower (dget (er_headers hello) ''content-type'' []) \<noteq> ''auth/request''
        then (Inl (ConnError ''FreeSWITCH ESL did not request authentication''), s1)
        else if es_password cfg = [] then (Inl (ConnError ''FreeSWITCH ESL password is not configured''), s1)
        else case read_reply decode ''FreeSWITCH ESL auth'' (esl_send (''auth '' @ es_password cfg) s1) of
            (Inl e, s2) \<Rightarrow> (Inl e, s2)
          | (Inr reply, s2) \<Rightarrow>
              if \<not> contains ''+OK'' (er_body reply) then (Inl (ConnError ''FreeSWITCH ESL authentication failed''), s2)
              else (Inr (), s2))"

definition api :: "(string \<Rightarrow> string) \<Rightarrow> string \<Rightarrow> sock \<Rightarrow> (conn_error + string) \<times> sock" where
  "api decode command s =
    (case read_reply decode (''FreeSWITCH ESL api '' @ command) (esl_send (''api '' @ command) s) of
       (Inl e, s1) \<Rightarrow> (Inl e, s1)
     | (Inr reply, s1) \<Rightarrow>
        (if prefix ''-ERR'' (er_body reply) then Inl (ConnError (er_body reply)) else Inr (er_body reply), s1))"

definition esl_connect :: "esl_settings \<Rightarrow> conn_error + sock \<Rightarrow> conn_error + sock" where
  "esl_connect cfg conn =
    (let target = ''FreeSWITCH ESL TCP connect to '' @ es_host cfg @ '':'' @ show_int (es_port cfg) in
     case conn of
       Inr s \<Rightarrow> Inr s
     | Inl TimeoutError \<Rightarrow> Inl (ConnError (target @ '' timed out''))
     | Inl (ConnError m) \<Rightarrow> Inl (ConnError (target @ '' failed: '' @ m))
     | Inl (ConnValueError m) \<Rightarrow> Inl (ConnValueError m))"

text \<open>The common start of the queries: a new connection, authenticated.\<close>

definition esl_session :: "(string \<Rightarrow> string) \<Rightarrow> esl_settings \<Rightarrow> conn_error + sock \<Rightarrow> conn_error + sock" where
  "esl_session decode cfg conn =
    (case esl_connect cfg conn of
       Inl e \<Rightarrow> Inl e
     | Inr s \<Rightarrow> (case authenticate decode cfg s of (Inl e, s1) \<Rightarrow> Inl e | (Inr u, s1) \<Rightarrow> Inr s1))"

section \<open>Rows\<close>

definition json_object :: "(string \<Rightarrow> json option) \<Rightarrow> string \<Rightarrow> json pydict" where
  "json_object loads raw = (case loads raw of Some (JObj d) \<Rightarrow> d | _ \<Rightarrow> [])"

definition rows :: "json pydict \<Rightarrow> json pydict list" where
  "rows data = (case map_of data ''rows'' of
       Some (JList rs) \<Rightarrow> List.map_filter (\<lambda>r. case r of JObj d \<Rightarrow> Some d | _ \<Rightarrow> None) rs
     | _ \<Rightarrow> [])"

text \<open>\<open>_string(row, *keys)\<close>: the first key whose value is not \<open>None\<close> and not blank.\<close>

fun row_string :: "(json \<Rightarrow> string) \<Rightarrow> json pydict \<Rightarrow> string list \<Rightarrow> string" where
  "row_string repr row [] = []"
| "row_string repr row (k # ks) =
    (let v = opt_or (map_of row k) JNull; w = strip (str_json repr v) in
     if v \<noteq> JNull \<and> w \<noteq> [] then w else row_string repr row ks)"

definition esl_endpoint_of_channel :: "string \<Rightarrow> string" where
  "esl_endpoint_of_channel v = (if CHR ''/'' \<notin> set v then v
     else before (CHR ''-'') (before (CHR ''@'') (after_last (CHR ''/'') v)))"

definition channel_from_row :: "(json \<Rightarrow> string) \<Rightarrow> json pydict \<Rightarrow> ami_channel" where
  "channel_from_row repr row =
    (let name = row_string repr row [''name'', ''uuid''];
         ep = esl_endpoint_of_channel name;
         number = row_string repr row [''cid_num'', ''cid_number'', ''caller_id_number''];
         who = row_string repr row [''cid_name'', ''caller_id_name'', ''cid_num''];
         dest = row_string repr row [''dest'', ''callee_num'', ''presence_id'']
     in \<lparr>channel = name, extension = or_str dest ep, caller = or_str who number, connected = dest,
         chan_state = row_string repr row [''state'', ''callstate''], endpoint = ep, caller_number = number,
         connected_number = dest, duration = row_string repr row [''duration'', ''call_created_epoch''],
         unique_id = row_string repr row [''uuid''], linked_id = row_string repr row [''bleg_uuid'', ''call_uuid'', ''uuid'']\<rparr>)"

section \<open>Endpoints\<close>

definition count_channel :: "(string \<times> ami_endpoint) list \<Rightarrow> ami_channel \<Rightarrow> (string \<times> ami_endpoint) list" where
  "count_channel d c = (let ep = or_str (endpoint c) (extension c) in
     if ep = [] then d
     else AList.update ep (default_endpoint\<lparr>ep_extension := ep, device_state := ''Reachable'',
       active_channels := (case map_of d ep of Some x \<Rightarrow> active_channels x | None \<Rightarrow> 0) + 1,
       ep_label := (if caller c \<noteq> ep then caller c else []), role := ''extension''\<rparr>) d)"

definition endpoints_from_channels :: "ami_channel list \<Rightarrow> (string \<times> ami_endpoint) list" where
  "endpoints_from_channels cs = foldl count_channel [] cs"

definition add_registration :: "(json \<Rightarrow> string) \<Rightarrow> (string \<times> ami_endpoint) list \<Rightarrow> (string \<times> ami_endpoint) list \<Rightarrow> json pydict
    \<Rightarrow> (string \<times> ami_endpoint) list" where
  "add_registration repr active d row = (let ext = row_string repr row [''reg_user'', ''user'', ''username''] in
     if ext = [] then d
     else AList.update ext (default_endpoint\<lparr>ep_extension := ext, device_state := ''Reachable'',
       active_channels := (case map_of active ext of Some x \<Rightarrow> active_channels x | None \<Rightarrow> 0),
       ep_label := row_string repr row [''display_name'', ''name''],
       ip_address := row_string repr row [''network_ip'', ''network-ip'', ''ip_address'', ''ip'']\<rparr>) d)"

definition esl_endpoints :: "(string \<Rightarrow> string) \<Rightarrow> (string \<Rightarrow> json option) \<Rightarrow> (json \<Rightarrow> string) \<Rightarrow> esl_settings \<Rightarrow> ami_channel list
    \<Rightarrow> conn_error + sock \<Rightarrow> conn_error + ami_endpoint list" where
  "esl_endpoints decode loads repr cfg cs conn =
    (let active = endpoints_from_channels cs in
     case (case esl_session decode cfg conn of Inl e \<Rightarrow> Inl e | Inr s \<Rightarrow> fst (api decode ''show registrations as json'' s)) of
       Inl e \<Rightarrow> (if conn_os_error e then Inr (map snd active) else Inl e)
     | Inr raw \<Rightarrow> Inr (map snd (foldl (add_registration repr active) active (rows (json_object loads raw)))))"

section \<open>Queues\<close>

definition pipe_first_column :: "string \<Rightarrow> string list" where
  "pipe_first_column raw = List.map_filter (\<lambda>line.
     let v = strip (before (CHR ''|'') line) in
     if v = [] \<or> lower v \<in> {''name'', ''queue'', ''+ok''} \<or> prefix ''-'' v then None else Some v) (splitlines raw)"

text \<open>\<open>s.replace("+OK", "")\<close> and \<open>s.split()\<close>.\<close>

function remove_ok :: "string \<Rightarrow> string" where
  "remove_ok s = (case s of [] \<Rightarrow> [] | c # r \<Rightarrow> if prefix ''+OK'' s then remove_ok (drop 3 s) else c # remove_ok r)"
  by pat_completeness auto
termination by (relation "measure length") auto

declare remove_ok.simps [simp del]

fun words_acc :: "string \<Rightarrow> string \<Rightarrow> string list" where
  "words_acc acc [] = (if acc = [] then [] else [rev acc])"
| "words_acc acc (c # s) = (if is_space c then (if acc = [] then words_acc [] s else rev acc # words_acc [] s)
     else words_acc (c # acc) s)"

definition first_integer :: "string \<Rightarrow> int" where
  "first_integer raw = (case List.map_filter py_int (words_acc [] (remove_ok raw)) of [] \<Rightarrow> 0 | n # _ \<Rightarrow> max 0 n)"

fun count_queues :: "(string \<Rightarrow> string) \<Rightarrow> string list \<Rightarrow> sock \<Rightarrow> conn_error + ami_queue list" where
  "count_queues decode [] s = Inr []"
| "count_queues decode (name # names) s =
    (case api decode (''callcenter_config queue count members '' @ name) s of
       (Inl e, s1) \<Rightarrow> Inl e
     | (Inr raw, s1) \<Rightarrow> (case count_queues decode names s1 of
           Inl e \<Rightarrow> Inl e
         | Inr qs \<Rightarrow> Inr (default_queue\<lparr>q_name := name, waiting_callers := first_integer raw\<rparr> # qs)))"

definition esl_queues :: "(string \<Rightarrow> string) \<Rightarrow> esl_settings \<Rightarrow> conn_error + sock \<Rightarrow> conn_error + ami_queue list" where
  "esl_queues decode cfg conn =
    (case (case esl_session decode cfg conn of
        Inl e \<Rightarrow> Inl e
      | Inr s \<Rightarrow> (case api decode ''callcenter_config queue list'' s of
            (Inl e, s1) \<Rightarrow> Inl e
          | (Inr raw, s1) \<Rightarrow> count_queues decode (pipe_first_column raw) s1)) of
       Inl e \<Rightarrow> if conn_os_error e then Inr [] else Inl e
     | Inr qs \<Rightarrow> Inr qs)"

definition esl_channels :: "(string \<Rightarrow> string) \<Rightarrow> (string \<Rightarrow> json option) \<Rightarrow> (json \<Rightarrow> string) \<Rightarrow> esl_settings
    \<Rightarrow> conn_error + sock \<Rightarrow> conn_error + ami_channel list" where
  "esl_channels decode loads repr cfg conn =
    (case (case esl_session decode cfg conn of Inl e \<Rightarrow> Inl e | Inr s \<Rightarrow> fst (api decode ''show channels as json'' s)) of
       Inl e \<Rightarrow> Inl e
     | Inr raw \<Rightarrow> Inr (map (channel_from_row repr) (rows (json_object loads raw))))"

section \<open>Call records and voicemails\<close>

text \<open>
  The files of the directories are the inputs, newest first: the text of a file, \<open>None\<close> where reading
  fails. \<open>from_ts\<close> is \<open>datetime.fromtimestamp\<close>, \<open>from_iso\<close> is \<open>datetime.fromisoformat\<close> without the
  time zone, \<open>float_int\<close> is \<open>int(float(text))\<close> with 0 for a \<open>ValueError\<close>. An \<open>OverflowError\<close> of the
  first or the last is caught nowhere: the outer \<open>None\<close>.
\<close>

definition flatten_entry :: "json pydict \<Rightarrow> string \<times> json \<Rightarrow> json pydict" where
  "flatten_entry d kv = (case snd kv of
       JObj inner \<Rightarrow> foldl (\<lambda>d (nk, nv). dsetdefault (fst kv @ ''_'' @ nk) nv (dsetdefault nk nv d)) d inner
     | v \<Rightarrow> AList.update (fst kv) v d)"

definition update_all :: "json pydict \<Rightarrow> json pydict \<Rightarrow> json pydict" where
  "update_all d kvs = foldl (\<lambda>d (k, v). AList.update k v d) d kvs"

definition first_callflow :: "json pydict \<Rightarrow> json option" where
  "first_callflow data = (case map_of data ''callflow'' of Some (JList (JObj f # _)) \<Rightarrow> Some (JObj f) | _ \<Rightarrow> None)"

lemma first_callflow_size: "first_callflow data = Some j \<Longrightarrow> size j < size (JObj data)"
proof -
  assume "first_callflow data = Some j"
  then obtain f fs where m: "map_of data ''callflow'' = Some (JList (JObj f # fs))" and j: "j = JObj f"
    by (auto simp: first_callflow_def split: option.splits json.splits list.splits)
  from map_of_SomeD [OF m] have "size_prod (\<lambda>_. 0) size (''callflow'', JList (JObj f # fs)) \<le> size_list (size_prod (\<lambda>_. 0) size) data"
    by (intro size_list_estimation' [where x = "(''callflow'', JList (JObj f # fs))"]) simp_all
  with j show ?thesis by simp
qed

function flatten_json_cdr :: "json \<Rightarrow> json pydict" where
  "flatten_json_cdr j = (case j of
       JObj data \<Rightarrow>
         let flat = foldl flatten_entry [] data;
             with_vars = (case map_of data ''variables'' of Some (JObj vars) \<Rightarrow> update_all flat vars | _ \<Rightarrow> flat)
         in (case first_callflow data of None \<Rightarrow> with_vars | Some f \<Rightarrow> update_all with_vars (flatten_json_cdr f))
     | _ \<Rightarrow> [])"
  by pat_completeness auto
termination
proof (relation "measure size")
  fix j :: json and data x xa f
  assume "j = JObj data" "first_callflow data = Some f"
  then show "(f, j) \<in> measure size" using first_callflow_size [of data f] by simp
qed simp

declare flatten_json_cdr.simps [simp del]

definition cdr_disposition :: "(json \<Rightarrow> string) \<Rightarrow> json pydict \<Rightarrow> string" where
  "cdr_disposition repr row = (let n = lower (row_string repr row [''hangup_cause'', ''disposition'', ''status'']) in
     if any_marker [''no_answer'', ''no answer'', ''originator_cancel''] n then ''NO ANSWER''
     else if contains ''busy'' n then ''BUSY''
     else if any_marker [''fail'', ''error'', ''unallocated''] n then ''FAILED''
     else ''ANSWERED'')"

definition esl_datetime :: "(int \<Rightarrow> ts_result) \<Rightarrow> (string \<Rightarrow> datetime option) \<Rightarrow> string \<Rightarrow> datetime option option" where
  "esl_datetime from_ts from_iso raw = (let v = strip raw in
     if v = [] then Some None
     else if str_isdigit v then parse_timestamp from_ts v
     else case from_iso (concat (map (\<lambda>c. if c = CHR ''Z'' then ''+00:00'' else [c]) v)) of
         Some t \<Rightarrow> Some (Some t)
       | None \<Rightarrow> Some (parse_datetime_text v))"

definition esl_recording_filename :: "string \<Rightarrow> string" where
  "esl_recording_filename v = after_last (CHR ''/'') (replace_char (CHR 0x5C) (CHR ''/'') v)"

definition esl_call_of_row :: "(json \<Rightarrow> string) \<Rightarrow> (int \<Rightarrow> ts_result) \<Rightarrow> (string \<Rightarrow> datetime option) \<Rightarrow> (string \<Rightarrow> int option)
    \<Rightarrow> json pydict \<Rightarrow> cdr_call option" where
  "esl_call_of_row repr from_ts from_iso float_int row =
    (case (esl_datetime from_ts from_iso (row_string repr row [''start_stamp'', ''created_time'', ''start_epoch'']),
           float_int (strip (row_string repr row [''duration'', ''billsec'', ''billsec_seconds'']))) of
       (Some t, Some n) \<Rightarrow> Some (default_call\<lparr>
          source := row_string repr row [''caller_id_number'', ''cid_num'', ''caller'', ''from''],
          destination := row_string repr row [''destination_number'', ''dest'', ''callee'', ''to''],
          disposition := cdr_disposition repr row, started_at := t, duration_seconds := n,
          cdr_context := row_string repr row [''context'', ''dialplan'', ''section''],
          cdr_channel := row_string repr row [''channel_name'', ''uuid''],
          destination_channel := row_string repr row [''bridge_uuid'', ''bleg_uuid''],
          last_app := row_string repr row [''last_app'', ''application''],
          last_data := row_string repr row [''last_arg'', ''application_data''],
          recording_id := esl_recording_filename (row_string repr row [''recording_file'', ''record_file'', ''record_path''])\<rparr>)
     | _ \<Rightarrow> None)"

definition read_json_cdr_calls :: "(string \<Rightarrow> json option) \<Rightarrow> (json \<Rightarrow> string) \<Rightarrow> (int \<Rightarrow> ts_result) \<Rightarrow> (string \<Rightarrow> datetime option)
    \<Rightarrow> (string \<Rightarrow> int option) \<Rightarrow> nat \<Rightarrow> string option list option \<Rightarrow> cdr_call list option" where
  "read_json_cdr_calls loads repr from_ts from_iso float_int limit files =
    (case files of
       None \<Rightarrow> Some []
     | Some fs \<Rightarrow>
        let docs = List.map_filter (\<lambda>f. case f of None \<Rightarrow> None | Some t \<Rightarrow> loads t) (take (limit * 3) fs) in
        map_option (\<lambda>calls. take limit (sort_desc call_sort_key calls))
          (those (map (\<lambda>j. esl_call_of_row repr from_ts from_iso float_int (flatten_json_cdr j)) docs)))"

definition key_value_file :: "string option \<Rightarrow> string pydict" where
  "key_value_file content = (case content of None \<Rightarrow> []
     | Some t \<Rightarrow> foldl (\<lambda>d line. if CHR ''='' \<notin> set line then d
         else AList.update (strip (before (CHR ''='') line))
           (strip_chars (\<lambda>c. c = CHR 0x22) (strip (after (CHR ''='') line))) d) [] (splitlines t))"

text \<open>A voicemail file comes with the name of its directory.\<close>

definition esl_voicemail :: "(int \<Rightarrow> ts_result) \<Rightarrow> (string \<Rightarrow> datetime option) \<Rightarrow> string \<times> string option \<Rightarrow> voicemail_message option" where
  "esl_voicemail from_ts from_iso file =
    (let meta = map (\<lambda>(k, v). (k, JStr v)) (key_value_file (snd file)); s = row_string (\<lambda>_. []) meta in
     map_option (\<lambda>t. \<lparr>mailbox = or_str (s [''username'', ''mailbox'', ''extension'']) (fst file),
       vm_caller = or_str (s [''caller_id_name'', ''caller_id_number'', ''caller'']) ''A caller'', created_at = t\<rparr>)
       (esl_datetime from_ts from_iso (s [''created_epoch'', ''created'', ''timestamp''])))"

definition esl_read_voicemails :: "(int \<Rightarrow> ts_result) \<Rightarrow> (string \<Rightarrow> datetime option) \<Rightarrow> nat \<Rightarrow> (string \<times> string option) list option
    \<Rightarrow> voicemail_message list option" where
  "esl_read_voicemails from_ts from_iso limit files = (case files of None \<Rightarrow> Some []
     | Some fs \<Rightarrow> those (map (esl_voicemail from_ts from_iso) (take limit fs)))"

section \<open>The snapshot\<close>

text \<open>\<open>snapshot\<close>: an \<open>OSError\<close> of the channel query makes it unreachable; a \<open>ValueError\<close> and the
  \<open>OverflowError\<close> of a record (\<open>calls\<close> or \<open>mails\<close> is \<open>None\<close>) escape.\<close>

definition esl_snapshot :: "(string \<Rightarrow> string) \<Rightarrow> (string \<Rightarrow> json option) \<Rightarrow> (json \<Rightarrow> string) \<Rightarrow> esl_settings \<Rightarrow> conn_error + sock \<Rightarrow> conn_error + sock
    \<Rightarrow> conn_error + sock \<Rightarrow> cdr_call list option \<Rightarrow> voicemail_message list option \<Rightarrow> conn_error + ami_snapshot" where
  "esl_snapshot decode loads repr cfg conn1 conn2 conn3 calls mails =
    (let unreachable = (\<lambda>e. if conn_os_error e then Inr (default_snapshot\<lparr>reachable := False,
           agent_version := ''0.5.20-beta'', error := Some (conn_text e)\<rparr>) else Inl e)
     in case esl_channels decode loads repr cfg conn1 of
          Inl e \<Rightarrow> unreachable e
        | Inr cs \<Rightarrow>
           (case esl_endpoints decode loads repr cfg cs conn2 of
              Inl e \<Rightarrow> unreachable e
            | Inr eps \<Rightarrow>
               (case esl_queues decode cfg conn3 of
                  Inl e \<Rightarrow> unreachable e
                | Inr qs \<Rightarrow>
                   (case (calls, mails) of
                      (Some c, Some v) \<Rightarrow> Inr (default_snapshot\<lparr>reachable := True, agent_version := ''0.5.20-beta'',
                         channels := cs, endpoints := eps, queues := qs, recent_calls := c, voicemails := v\<rparr>)
                    | _ \<Rightarrow> Inl (ConnValueError ''OverflowError'')))))"

section \<open>Replies are read exactly\<close>

lemma read_exact_loop_reads:
  "length (available as) \<ge> n \<Longrightarrow>
    \<exists>as'. read_exact_loop n chunks as = (Inr (chunks @ take n (available as)), as') \<and>
      available as' = drop n (available as) \<and> ending as' = ending as"
proof (induction n chunks as rule: read_exact_loop.induct)
  case (1 n chunks as)
  show ?case
  proof (cases "n = 0")
    case True
    then show ?thesis by (simp add: read_exact_loop.simps [of 0 chunks as])
  next
    case False
    with 1(2) have ne: "available as \<noteq> []" by auto
    obtain x as1 where r: "recv n as = (x, as1)" by (cases "recv n as")
    from ne recv_Inl [of n as _ as1] r obtain chunk where x: "x = Inr chunk" by (cases x) auto
    note rc = recv_Inr [OF r [unfolded x]]
    with ne False have chunk: "chunk \<noteq> []" "length chunk \<le> n" by auto
    with 1(2) rc have "n - length chunk \<le> length (available as1)" by simp
    from 1(1) [OF False r [symmetric] x chunk(1) this] obtain as' where
      as': "read_exact_loop (n - length chunk) (chunks @ chunk) as1 =
        (Inr ((chunks @ chunk) @ take (n - length chunk) (available as1)), as')"
      "available as' = drop (n - length chunk) (available as1)" "ending as' = ending as1" by blast
    have "read_exact_loop n chunks as = read_exact_loop (n - length chunk) (chunks @ chunk) as1"
      using False r x chunk(1) by (simp add: read_exact_loop.simps [of n chunks as])
    with as' rc chunk(2) show ?thesis by (intro exI [of _ as']) simp
  qed
qed

lemma reply_read_exactly:
  assumes "available (sk_in s) = h @ body @ r" and "find_sub double_newline h = Some (length h - 2)" and "length h \<ge> 2"
    and "py_int (or_str (dget (parse_headers (decode h)) ''content-length'' ''0'') ''0'') = Some (int (length body))"
  shows "\<exists>s'. read_reply decode phase s = (Inr \<lparr>er_headers = parse_headers (decode h), er_body = strip (decode body)\<rparr>, s') \<and>
    available (sk_in s') = r \<and> sk_out s' = sk_out s"
proof -
  have ne: "double_newline \<noteq> []" "length double_newline = 2" by (simp_all add: double_newline_def)
  from find_sub_prefix [OF assms(2), of "body @ r"] assms(1)
  have "find_sub double_newline (available (sk_in s)) = Some (length h - 2)" by simp
  from esl_frames.read_found [OF ne(1) this] obtain as1 where
    "read_until double_newline (sk_in s) = (Inr (take (length h - 2 + length double_newline) (available (sk_in s))), as1)"
    "available as1 = drop (length h - 2 + length double_newline) (available (sk_in s))" by metis
  with assms(1,3) ne(2) have ru: "read_until double_newline (sk_in s) = (Inr h, as1)" "available as1 = body @ r" by simp_all
  show ?thesis
  proof (cases "body = []")
    case True
    with ru assms(4) show ?thesis by (simp add: read_reply_def esl_read_until_def Let_def)
  next
    case False
    have "length body \<le> length (available as1)" using ru(2) by simp
    from read_exact_loop_reads [OF this, of "[]"] ru(2) obtain as2 where
      re: "read_exact_loop (length body) [] as1 = (Inr body, as2)" "available as2 = r" by auto
    with ru assms(4) False show ?thesis by (simp add: read_reply_def esl_read_until_def read_exact_def Let_def)
  qed
qed

text \<open>
  A reply of the event socket is read exactly: whatever way the bytes arrive, the header block up to
  the empty line and then as many bytes as its content length says make the reply, and the bytes behind
  it are left for the next one.
\<close>

theorem esl_reply_is_exact:
  assumes "available (sk_in s) = h @ body @ r" and "find_sub double_newline h = Some (length h - 2)" and "length h \<ge> 2"
    and "py_int (or_str (dget (parse_headers (decode h)) ''content-length'' ''0'') ''0'') = Some (int (length body))"
  shows "\<exists>s'. read_reply decode phase s = (Inr \<lparr>er_headers = parse_headers (decode h), er_body = strip (decode body)\<rparr>, s') \<and>
    available (sk_in s') = r \<and> sk_out s' = sk_out s"
  using assms by (rule reply_read_exactly)

definition status_block :: string where
  "status_block = ''Content-Type: api/response'' @ [char_of (10::nat)] @ ''Content-Length: 2'' @ double_newline"

theorem esl_reply_is_exact_witness:
  "\<exists>hs s'. read_reply (\<lambda>x. x) ''api'' \<lparr>sk_in = [Data (status_block @ ''U''), Data ''Pnext''], sk_out = [], sk_tls = False\<rparr> =
     (Inr \<lparr>er_headers = hs, er_body = ''UP''\<rparr>, s') \<and> available (sk_in s') = ''next''"
proof -
  define s where "s = \<lparr>sk_in = [Data (status_block @ ''U''), Data ''Pnext''], sk_out = [], sk_tls = False\<rparr>"
  have f: "find_sub double_newline status_block = Some (length status_block - 2)" "length status_block \<ge> 2"
    "py_int (or_str (dget (parse_headers ((\<lambda>x. x) status_block)) ''content-length'' ''0'') ''0'') = Some (int (length ''UP''))"
    "strip ''UP'' = ''UP''"
    by code_simp+
  have "available (sk_in s) = status_block @ ''UP'' @ ''next''" by (simp add: s_def)
  from esl_reply_is_exact [where s = s and h = status_block and body = "''UP''" and r = "''next''" and
      decode = "\<lambda>x. x" and phase = "''api''", OF this f(1-3)] f(4) show ?thesis unfolding s_def [symmetric] by auto
qed

section \<open>Authentication\<close>

definition greeting_block :: string where
  "greeting_block = ''Content-Type: auth/request'' @ double_newline"

text \<open>The answer of the event socket to a correct password: the verdict is a header, and there is no
  body.\<close>

definition accepted_block :: string where
  "accepted_block = ''Content-Type: command/reply'' @ [char_of (10::nat)] @ ''Reply-Text: +OK accepted'' @ double_newline"

text \<open>
  C30. The client does not accept the event socket's acceptance: it looks for \<open>+OK\<close> in the body of the
  reply to \<open>auth\<close>, while the event socket sends the verdict in the \<open>Reply-Text\<close> header and no body. With
  a configured password and a server that accepts it, every session fails with \<open>authentication failed\<close>
  and the snapshot is unreachable, whatever follows on the stream.
\<close>

theorem accepted_login_is_rejected:
  assumes "es_password cfg \<noteq> []" and "available (sk_in s) = greeting_block @ accepted_block @ r"
    and "decode greeting_block = greeting_block" and "decode accepted_block = accepted_block" and "decode [] = []"
  shows "esl_snapshot decode loads repr cfg (Inr s) conn2 conn3 calls mails =
    Inr (default_snapshot\<lparr>reachable := False, agent_version := ''0.5.20-beta'',
      error := Some ''FreeSWITCH ESL authentication failed''\<rparr>)"
proof -
  have g: "find_sub double_newline greeting_block = Some (length greeting_block - 2)" "length greeting_block \<ge> 2"
    "py_int (or_str (dget (parse_headers greeting_block) ''content-length'' ''0'') ''0'') = Some 0"
    "lower (dget (parse_headers greeting_block) ''content-type'' []) = ''auth/request''"
    by code_simp+
  have a: "find_sub double_newline accepted_block = Some (length accepted_block - 2)" "length accepted_block \<ge> 2"
    "py_int (or_str (dget (parse_headers accepted_block) ''content-length'' ''0'') ''0'') = Some 0"
    by code_simp+
  have b: "\<not> contains ''+OK'' (strip [])" by code_simp
  have "available (sk_in s) = greeting_block @ [] @ accepted_block @ r" using assms(2) by simp
  from reply_read_exactly [where s = s and h = greeting_block and body = "[]" and r = "accepted_block @ r" and
      decode = decode and phase = "''FreeSWITCH ESL greeting''", OF this g(1,2)] g(3) assms(3,5)
  obtain s1 where s1: "read_reply decode ''FreeSWITCH ESL greeting'' s =
      (Inr \<lparr>er_headers = parse_headers greeting_block, er_body = strip []\<rparr>, s1)" "available (sk_in s1) = accepted_block @ r"
    by auto
  let ?s2 = "esl_send (''auth '' @ es_password cfg) s1"
  have "available (sk_in ?s2) = accepted_block @ [] @ r" using s1(2) by (simp add: esl_send_def)
  from reply_read_exactly [where s = ?s2 and h = accepted_block and body = "[]" and r = r and
      decode = decode and phase = "''FreeSWITCH ESL auth''", OF this a(1,2)] a(3) assms(4,5)
  obtain s3 where s3: "read_reply decode ''FreeSWITCH ESL auth'' ?s2 =
      (Inr \<lparr>er_headers = parse_headers accepted_block, er_body = strip []\<rparr>, s3)" by auto
  have "authenticate decode cfg s = (Inl (ConnError ''FreeSWITCH ESL authentication failed''), s3)"
    using s1(1) s3 g(4) b assms(1) by (simp add: authenticate_def)
  then show ?thesis
    by (simp add: esl_snapshot_def esl_channels_def esl_session_def esl_connect_def Let_def)
qed

theorem accepted_login_is_rejected_witness:
  "esl_snapshot (\<lambda>x. x) (\<lambda>_. None) (\<lambda>_. []) \<lparr>es_host = ''pbx'', es_port = 8021, es_password = ''ClueCon''\<rparr>
     (Inr \<lparr>sk_in = [Data greeting_block, Data accepted_block], sk_out = [], sk_tls = False\<rparr>) (Inl TimeoutError) (Inl TimeoutError)
     (Some []) (Some []) =
   Inr (default_snapshot\<lparr>reachable := False, agent_version := ''0.5.20-beta'', error := Some ''FreeSWITCH ESL authentication failed''\<rparr>)"
  by (rule accepted_login_is_rejected [where r = "[]"]) simp_all

end
