(* ===== verification/PyFloatOrder.thy ===== *)
theory PyFloatOrder
  imports PyNum
begin

text \<open>
  The order of floats: rounding is monotone, so comparing rounded differences of clock readings never
  reverses the order of the readings.
\<close>

lemma pow2_powi: "pow2 e = 2 powi e"
  by (cases "0 \<le> e") (simp_all add: pow2_def power_int_def power_inverse inverse_eq_divide power_one_over)

lemma pow2_pos [simp]: "0 < pow2 e" "pow2 e \<noteq> 0"
  by (simp_all add: pow2_powi)

lemma pow2_add: "pow2 (a + b) = pow2 a * pow2 b"
  by (simp add: pow2_powi power_int_add)

lemma pow2_mono: "a \<le> b \<Longrightarrow> pow2 a \<le> pow2 b"
  by (simp add: pow2_powi power_int_increasing)

lemma pow2_nat: "pow2 (int n) = 2 ^ n"
  by (simp add: pow2_def)

lemma pow2_shift: "pow2 (e + 52) = pow2 e * 2 ^ 52" "pow2 (e + 53) = pow2 e * 2 ^ 53"
  using pow2_nat [of 52] pow2_nat [of 53] by (simp_all add: pow2_add)

lemma int_pow2: "0 \<le> n \<Longrightarrow> of_int (2 ^ nat n) = pow2 n"
  by (simp add: pow2_def)

lemma round_half_even_mono:
  assumes "x \<le> y"
  shows "round_half_even x \<le> round_half_even y"
proof (cases "\<lfloor>x\<rfloor> = \<lfloor>y\<rfloor>")
  case True
  with assms show ?thesis by (auto simp: round_half_even_def Let_def)
next
  case False
  with assms have "\<lfloor>x\<rfloor> + 1 \<le> \<lfloor>y\<rfloor>" using floor_mono [OF assms] by linarith
  moreover have "round_half_even x \<le> \<lfloor>x\<rfloor> + 1" "\<lfloor>y\<rfloor> \<le> round_half_even y"
    by (simp_all add: round_half_even_def Let_def)
  ultimately show ?thesis by linarith
qed

lemma round_half_even_uminus: "round_half_even (- y) = - round_half_even y"
proof (cases "y = of_int \<lfloor>y\<rfloor>")
  case True
  then obtain n where "y = of_int n" by blast
  then show ?thesis by (simp add: round_half_even_def)
next
  case False
  then have c: "\<lfloor>- y\<rfloor> = - \<lfloor>y\<rfloor> - 1"
    by (simp add: floor_minus ceiling_altdef)
  show ?thesis unfolding round_half_even_def Let_def c using False by auto
qed

lemma fl_uminus: "fl (- x) = - fl x"
proof (cases "x = 0")
  case False
  obtain p q where pq: "quotient_of x = (p, q)" by force
  then have "quotient_of (- x) = (- p, q)" by (simp add: rat_uminus_code)
  with pq False show ?thesis by (simp add: fl_def Let_def round_half_even_uminus)
qed simp

text \<open>The exponent \<open>fl\<close> chooses is the one that leaves 53 significant bits.\<close>

lemma fl_exponent:
  assumes "0 < x"
  obtains e where "pow2 (e + 52) \<le> x" and "x < pow2 (e + 53)"
    and "fl x = of_int (round_half_even (x / pow2 e)) * pow2 e"
proof -
  obtain p q where pq: "quotient_of x = (p, q)" by force
  have q: "0 < q" and x: "x = of_int p / of_int q"
    using quotient_of_denom_pos [OF pq] quotient_of_div [OF pq] by auto
  with assms have p: "0 < p" by (simp add: zero_less_divide_iff)
  define e0 where "e0 = bits \<bar>p\<bar> - bits q - 53"
  define e where "e = (if 2 ^ 53 \<le> \<bar>x\<bar> / pow2 e0 then e0 + 1 else e0)"
  note bp = bits_bounds [OF p] and bq = bits_bounds [OF q]
  have pb: "0 \<le> bits p" "0 \<le> bits p - 1" using bp by simp_all
  have "of_int (2 ^ nat (bits p - 1)) \<le> (of_int p :: rat)" "(of_int p :: rat) < of_int (2 ^ nat (bits p))"
    using bp by (simp_all only: of_int_le_iff of_int_less_iff)
  then have P: "pow2 (bits p - 1) \<le> of_int p" "of_int p < pow2 (bits p)"
    unfolding int_pow2 [OF pb(1)] int_pow2 [OF pb(2)] by blast+
  have qb: "0 \<le> bits q" "0 \<le> bits q - 1" using bq by simp_all
  have "of_int (2 ^ nat (bits q - 1)) \<le> (of_int q :: rat)" "(of_int q :: rat) < of_int (2 ^ nat (bits q))"
    using bq by (simp_all only: of_int_le_iff of_int_less_iff)
  then have Q: "pow2 (bits q - 1) \<le> of_int q" "of_int q < pow2 (bits q)"
    unfolding int_pow2 [OF qb(1)] int_pow2 [OF qb(2)] by blast+
  have e0: "pow2 e0 * 2 ^ 53 * pow2 (bits q) = pow2 (bits p)"
    using p pow2_shift(2) [of e0] pow2_add [of "e0 + 53" "bits q"] by (simp add: e0_def)
  have dp: "pow2 (bits p) = 2 * pow2 (bits p - 1)" using pow2_add [of 1 "bits p - 1"] by (simp add: pow2_def)
  have dq: "pow2 (bits q) = 2 * pow2 (bits q - 1)" using pow2_add [of 1 "bits q - 1"] by (simp add: pow2_def)
  have low: "pow2 e0 * 2 ^ 52 \<le> x"
  proof -
    have "pow2 e0 * 2 ^ 52 * of_int q \<le> pow2 e0 * 2 ^ 52 * pow2 (bits q)" using Q by simp
    also have "\<dots> = pow2 (bits p - 1)" using e0 dp by simp
    also note P(1)
    finally show ?thesis using q by (simp add: x pos_le_divide_eq)
  qed
  have high: "x < pow2 e0 * 2 ^ 54"
  proof -
    have "of_int p < pow2 (bits p)" by (rule P)
    also have "\<dots> = pow2 e0 * 2 ^ 54 * pow2 (bits q - 1)" using e0 dq by simp
    also have "\<dots> \<le> pow2 e0 * 2 ^ 54 * of_int q" using Q by simp
    finally show ?thesis using q by (simp add: x pos_divide_less_eq)
  qed
  have "pow2 (e0 + 1) = 2 * pow2 e0" using pow2_add [of e0 1] pow2_nat [of 1] by simp
  with low high have "pow2 (e + 52) \<le> x" "x < pow2 (e + 53)"
    using assms pow2_shift [of e] by (auto simp: e_def field_simps split: if_splits)
  moreover have "fl x = of_int (round_half_even (x / pow2 e)) * pow2 e"
    using assms by (simp add: fl_def pq e_def e0_def Let_def)
  ultimately show thesis by (rule that)
qed

lemma fl_mono_pos:
  assumes "0 < x" and "x \<le> y"
  shows "fl x \<le> fl y"
proof -
  from assms(1) obtain d where d: "pow2 (d + 52) \<le> x" "x < pow2 (d + 53)"
    "fl x = of_int (round_half_even (x / pow2 d)) * pow2 d" by (rule fl_exponent)
  from assms have "0 < y" by simp
  then obtain e where e: "pow2 (e + 52) \<le> y" "y < pow2 (e + 53)"
    "fl y = of_int (round_half_even (y / pow2 e)) * pow2 e" by (rule fl_exponent)
  consider "d < e" | "d = e" | "e < d" by linarith
  then show ?thesis
  proof cases
    case 1
    have "x / pow2 d \<le> of_int (2 ^ 53)" using d(2) by (simp add: pow2_shift field_simps)
    from round_half_even_le [OF this] have "(of_int (round_half_even (x / pow2 d)) :: rat) \<le> of_int (2 ^ 53)"
      by (simp only: of_int_le_iff)
    then have "fl x \<le> of_int (2 ^ 53) * pow2 d" unfolding d(3) by (intro mult_right_mono) (auto simp: less_imp_le)
    also have "\<dots> = pow2 (d + 53)" by (simp add: pow2_shift)
    also have "\<dots> \<le> pow2 (e + 52)" using 1 by (intro pow2_mono) simp
    also have "\<dots> = of_int (2 ^ 52) * pow2 e" by (simp add: pow2_shift)
    also have "\<dots> \<le> fl y"
    proof -
      have "of_int (2 ^ 52) \<le> y / pow2 e" using e(1) by (simp add: pow2_shift field_simps)
      from round_half_even_ge [OF this] have "(of_int (2 ^ 52) :: rat) \<le> of_int (round_half_even (y / pow2 e))"
        by (simp only: of_int_le_iff)
      then show ?thesis unfolding e(3) by (intro mult_right_mono) (auto simp: less_imp_le)
    qed
    finally show ?thesis .
  next
    case 2
    have "x / pow2 d \<le> y / pow2 e" using assms(2) 2 by (simp add: divide_right_mono less_imp_le)
    from round_half_even_mono [OF this] show ?thesis unfolding d(3) e(3) 2 by (simp add: mult_right_mono less_imp_le)
  next
    case 3
    then have "pow2 (e + 53) \<le> pow2 (d + 52)" by (intro pow2_mono) simp
    with d(1) e(2) assms(2) show ?thesis by simp
  qed
qed

lemma fl_nonneg: "0 \<le> x \<Longrightarrow> 0 \<le> fl x"
proof (cases "x = 0")
  case False
  moreover assume "0 \<le> x"
  ultimately have "0 < x" by simp
  then obtain e where "fl x = of_int (round_half_even (x / pow2 e)) * pow2 e" by (rule fl_exponent)
  moreover have "0 \<le> round_half_even (x / pow2 e)"
    using \<open>0 < x\<close> by (intro round_half_even_ge) (simp add: less_imp_le)
  ultimately show ?thesis by (simp add: less_imp_le)
qed simp

theorem fl_mono:
  assumes "x \<le> y"
  shows "fl x \<le> fl y"
proof -
  consider "0 < x" | "y < 0" | "x \<le> 0" "0 \<le> y" by linarith
  then show ?thesis
  proof cases
    case 1
    from this assms show ?thesis by (rule fl_mono_pos)
  next
    case 2
    with fl_mono_pos [of "- y" "- x"] assms show ?thesis by (simp add: fl_uminus)
  next
    case 3
    with fl_nonneg [of y] fl_nonneg [of "- x"] show ?thesis by (simp add: fl_uminus)
  qed
qed

end
