(* ===== verification/PyBase64.thy ===== *)
theory PyBase64
  imports PyBase
begin

text \<open>
  The part of Python's \<open>base64\<close> and \<open>str.encode\<close> the push relay uses: bytes are strings of code
  points below 256. \<open>urlsafe_b64decode\<close> is the lenient decoder of \<open>binascii\<close>: characters outside the
  alphabet are skipped, a complete padding ends the input, and a group left open is an error.
\<close>

section \<open>UTF-8\<close>

definition utf8_char :: "char \<Rightarrow> string" where
  "utf8_char c = (let n = code_point c in
     if n < 128 then [c] else [char_of (192 + n div 64), char_of (128 + n mod 64)])"

definition utf8 :: "string \<Rightarrow> string" where
  "utf8 s = concat (map utf8_char s)"

definition is_ascii :: "string \<Rightarrow> bool" where
  "is_ascii s = list_all (\<lambda>c. code_point c < 128) s"

lemma utf8_ascii: "is_ascii s \<Longrightarrow> utf8 s = s"
  by (induction s) (simp_all add: utf8_def utf8_char_def is_ascii_def Let_def)

section \<open>The alphabet\<close>

definition b64_char :: "nat \<Rightarrow> char" where
  "b64_char v = (if v < 26 then char_of (65 + v) else if v < 52 then char_of (71 + v)
     else if v < 62 then char_of (v - 4) else if v = 62 then CHR ''-'' else CHR ''_'')"

text \<open>The value of a character: the URL-safe characters are translated to \<open>+\<close> and \<open>/\<close> first, so both
  spellings are read.\<close>

definition b64_value :: "char \<Rightarrow> nat option" where
  "b64_value c = (let n = code_point c in
     if 65 \<le> n \<and> n \<le> 90 then Some (n - 65) else if 97 \<le> n \<and> n \<le> 122 then Some (n - 71)
     else if 48 \<le> n \<and> n \<le> 57 then Some (n + 4) else if n = 45 \<or> n = 43 then Some 62
     else if n = 95 \<or> n = 47 then Some 63 else None)"

lemma b64_value_char: "v < 64 \<Longrightarrow> b64_value (b64_char v) = Some v"
  by (auto simp: b64_value_def b64_char_def code_point_def Let_def)

lemma b64_char_no_pad: "v < 64 \<Longrightarrow> b64_char v \<noteq> CHR ''=''"
  using b64_value_char [of v] by (auto simp: b64_value_def code_point_def)

section \<open>Encoding\<close>

text \<open>The groups of six bits, without padding.\<close>

fun b64_groups :: "nat list \<Rightarrow> nat list" where
  "b64_groups [] = []"
| "b64_groups [a] = [a div 4, a mod 4 * 16]"
| "b64_groups [a, b] = [a div 4, a mod 4 * 16 + b div 16, b mod 16 * 4]"
| "b64_groups (a # b # c # bs) = [a div 4, a mod 4 * 16 + b div 16, b mod 16 * 4 + c div 64, c mod 64] @ b64_groups bs"

definition b64_text :: "string \<Rightarrow> string" where
  "b64_text s = map b64_char (b64_groups (map code_point s))"

definition equals_signs :: "nat \<Rightarrow> string" where
  "equals_signs n = replicate ((4 - n mod 4) mod 4) (CHR ''='')"

definition urlsafe_b64encode :: "string \<Rightarrow> string" where
  "urlsafe_b64encode s = b64_text s @ equals_signs (length (b64_text s))"

section \<open>Decoding\<close>

text \<open>The decoder's state: the position in the group, the bits left over and the padding characters
  seen in it. \<open>None\<close> is the error.\<close>

fun b64_loop :: "nat \<Rightarrow> nat \<Rightarrow> nat \<Rightarrow> string \<Rightarrow> string option" where
  "b64_loop q l p [] = (if q = 0 then Some [] else None)"
| "b64_loop q l p (c # cs) =
    (if c = CHR ''='' then
       (if 2 \<le> q \<and> 4 \<le> q + (p + 1) then Some [] else b64_loop q l (if 2 \<le> q then p + 1 else p) cs)
     else (case b64_value c of
       None \<Rightarrow> b64_loop q l p cs
     | Some v \<Rightarrow>
         if q = 0 then b64_loop 1 v 0 cs
         else if q = 1 then map_option ((#) (char_of (l * 4 + v div 16))) (b64_loop 2 (v mod 16) 0 cs)
         else if q = 2 then map_option ((#) (char_of (l * 16 + v div 4))) (b64_loop 3 (v mod 4) 0 cs)
         else map_option ((#) (char_of (l * 64 + v))) (b64_loop 0 0 0 cs)))"

text \<open>A string that is not ASCII is refused before decoding.\<close>

definition urlsafe_b64decode :: "string \<Rightarrow> string option" where
  "urlsafe_b64decode s = (if is_ascii s then b64_loop 0 0 0 s else None)"

text \<open>\<open>_padding\<close>: \<open>"=" * (-len(value) % 4)\<close>.\<close>

definition padding :: "string \<Rightarrow> string" where
  "padding s = s @ equals_signs (length s)"

section \<open>Round trip\<close>

lemma b64_groups_bound: "\<forall>n \<in> set bs. n < 256 \<Longrightarrow> \<forall>v \<in> set (b64_groups bs). v < 64"
proof (induction bs rule: b64_groups.induct)
  case (4 a b c bs)
  then have "a < 256" "b < 256" "c < 256" "\<forall>n \<in> set bs. n < 256" by simp_all
  with 4(1) show ?case by (auto simp: less_mult_imp_div_less)
qed (auto simp: less_mult_imp_div_less)

lemma loop_pads:
  "b64_loop 2 l 0 [CHR ''='', CHR ''=''] = Some []" "b64_loop 3 l 0 [CHR ''=''] = Some []"
  by simp_all

lemma loop_char:
  assumes "v < 64"
  shows "b64_loop 0 l p (b64_char v # cs) = b64_loop (Suc 0) v 0 cs"
    and "b64_loop (Suc 0) l p (b64_char v # cs) = map_option ((#) (char_of (l * 4 + v div 16))) (b64_loop 2 (v mod 16) 0 cs)"
    and "b64_loop 2 l p (b64_char v # cs) = map_option ((#) (char_of (l * 16 + v div 4))) (b64_loop 3 (v mod 4) 0 cs)"
    and "b64_loop 3 l p (b64_char v # cs) = map_option ((#) (char_of (l * 64 + v))) (b64_loop 0 0 0 cs)"
  using b64_value_char [OF assms] b64_char_no_pad [OF assms] by simp_all

declare b64_loop.simps(2) [simp del]

lemma equals_signs_simps [simp]: "equals_signs 0 = []" "equals_signs (Suc (Suc 0)) = [CHR ''='', CHR ''='']"
  "equals_signs (Suc (Suc (Suc 0))) = [CHR ''='']" "equals_signs (Suc (Suc (Suc (Suc n)))) = equals_signs n"
  by (simp_all add: equals_signs_def numeral_2_eq_2)

lemma decode_groups:
  assumes "\<forall>n \<in> set bs. n < 256"
  shows "b64_loop 0 0 0 (map b64_char (b64_groups bs) @ equals_signs (length (b64_groups bs))) = Some (map char_of bs)"
  using assms
proof (induction bs rule: b64_groups.induct)
  case (2 a)
  then have "a div 4 < 64" "a mod 4 * 16 < 64" by (simp_all add: less_mult_imp_div_less)
  then show ?case by (simp add: loop_char loop_pads)
next
  case (3 a b)
  then have v: "a div 4 < 64" "a mod 4 * 16 + b div 16 < 64" "b mod 16 * 4 < 64" by auto
  have "b div 16 mod 16 = b div 16" using 3 by (simp add: mod_less less_mult_imp_div_less)
  with v 3 show ?case by (simp add: loop_char loop_pads)
next
  case (4 a b c bs)
  then have v: "a div 4 < 64" "a mod 4 * 16 + b div 16 < 64" "b mod 16 * 4 + c div 64 < 64" "c mod 64 < 64" by auto
  have "(a mod 4 * 16 + b div 16) mod 16 * 16 + (b mod 16 * 4 + c div 64) div 4 = b"
    "(b mod 16 * 4 + c div 64) mod 4 * 64 + c mod 64 = c"
    "b div 16 div 16 = 0" "c div 64 div 4 = 0" using 4 by auto
  with v 4 show ?case by (simp add: loop_char loop_pads)
qed simp

lemma is_ascii_char: "v < 64 \<Longrightarrow> code_point (b64_char v) < 128"
  by (auto simp: b64_char_def code_point_def)

lemma b64_text_values: "\<exists>vs. b64_text s = map b64_char vs \<and> (\<forall>v \<in> set vs. v < 64)"
  using b64_groups_bound [of "map code_point s"] unfolding b64_text_def by (auto simp: code_point_def)

lemma b64_text_ascii: "is_ascii (b64_text s)"
  using b64_text_values [of s] is_ascii_char by (auto simp: is_ascii_def list_all_iff)

lemma b64_text_no_pad: "CHR ''='' \<notin> set (b64_text s)"
  using b64_text_values [of s] b64_char_no_pad by force

lemma b64_text_no_dot: "CHR ''.'' \<notin> set (b64_text s)"
proof -
  have "b64_char v \<noteq> CHR ''.''" if "v < 64" for v
    using b64_value_char [OF that] by (auto simp: b64_value_def code_point_def)
  with b64_text_values [of s] show ?thesis by force
qed

lemma rstrip_replicate: "CHR ''='' \<notin> set s \<Longrightarrow> rstrip_chars (\<lambda>c. c = CHR ''='') (s @ replicate n (CHR ''='')) = s"
  by (cases "rev s") (auto simp: rstrip_chars_def dropWhile_append3)

lemma encode_rstrip: "rstrip_chars (\<lambda>c. c = CHR ''='') (urlsafe_b64encode s) = b64_text s"
  unfolding urlsafe_b64encode_def equals_signs_def by (rule rstrip_replicate [OF b64_text_no_pad])

theorem b64_round_trip: "urlsafe_b64decode (padding (b64_text s)) = Some s"
proof -
  have "is_ascii (padding (b64_text s))"
    using b64_text_ascii [of s] by (auto simp: padding_def is_ascii_def equals_signs_def code_point_def list_all_iff)
  moreover have "map char_of (map code_point s) = s" by (simp add: code_point_def comp_def)
  ultimately show ?thesis
    using decode_groups [of "map code_point s"]
    by (simp add: urlsafe_b64decode_def padding_def b64_text_def code_point_def)
qed

end
