(* ===== verification/PushText.thy ===== *)
theory PushText
  imports PyFloatOrder PyJson PyBase64
begin

text \<open>
  \<open>push_relay/app.py\<close>: the settings of the service, the checks on text and base64 values of a request
  and the ends of a request. A request that raises \<open>HTTPException\<close> is \<open>Refused\<close> with its status and
  detail; any other exception ends it as \<open>Crashed\<close> (status 500). Numbers given as text have fewer than
  4,300 digits, the limit above which \<open>int\<close> refuses them.
\<close>

datatype refusal = Refused nat string | Crashed

section \<open>Settings\<close>

definition clamp :: "int \<Rightarrow> int \<Rightarrow> int \<Rightarrow> int" where
  "clamp lo hi n = max lo (min hi n)"

lemma clamp_range [simp]: "lo \<le> hi \<Longrightarrow> lo \<le> clamp lo hi n" "lo \<le> hi \<Longrightarrow> clamp lo hi n \<le> hi"
  by (simp_all add: clamp_def)

lemma clamp_id: "lo \<le> n \<Longrightarrow> n \<le> hi \<Longrightarrow> clamp lo hi n = n"
  by (simp add: clamp_def)

record relay_config =
  cf_admin_token :: string
  cf_ticket_secret :: string
  cf_enrollment_mode :: string
  cf_require_signed :: bool
  cf_max_devices :: int
  cf_max_snapshot_bytes :: int
  cf_max_events_per_hour :: int
  cf_remote_poll_seconds :: int
  cf_control_exchange_seconds :: int

definition getenv :: "(string \<rightharpoonup> string) \<Rightarrow> string \<Rightarrow> string \<Rightarrow> string" where
  "getenv env name d = opt_or (env name) d"

definition env_limit :: "(string \<rightharpoonup> string) \<Rightarrow> string \<Rightarrow> string \<Rightarrow> int \<Rightarrow> int \<Rightarrow> int option" where
  "env_limit env name d lo hi = map_option (clamp lo hi) (py_int (getenv env name d))"

text \<open>The module's settings; \<open>None\<close> when importing it raises.\<close>

definition relay_config_of :: "(string \<rightharpoonup> string) \<Rightarrow> relay_config option" where
  "relay_config_of env =
    (let admin = strip (getenv env ''PBXSENSE_RELAY_ADMIN_TOKEN'' []);
         secret = strip (getenv env ''PBXSENSE_RELAY_TICKET_SECRET'' admin);
         mode = lower (strip (getenv env ''PBXSENSE_RELAY_ENROLLMENT_MODE'' ''open''));
         signed = lower (strip (getenv env ''PBXSENSE_RELAY_REQUIRE_SIGNED_EXISTING_ACTIVATIONS''
           (if mode \<in> {''ticket'', ''closed''} then ''true'' else ''false'')))
     in if mode \<notin> {''open'', ''ticket'', ''closed''} then None
        else (case env_limit env ''PBXSENSE_RELAY_MAX_DEVICES_PER_AGENT'' ''10'' 1 50 of None \<Rightarrow> None
          | Some devices \<Rightarrow>
        (case env_limit env ''PBXSENSE_RELAY_MAX_SNAPSHOT_BYTES'' ''2097152'' 65536 5242880 of None \<Rightarrow> None
          | Some bytes \<Rightarrow>
        (case env_limit env ''PBXSENSE_RELAY_MAX_EVENTS_PER_AGENT_HOUR'' ''60'' 1 1000 of None \<Rightarrow> None
          | Some events \<Rightarrow>
        (case env_limit env ''PBXSENSE_RELAY_REMOTE_APP_POLL_SECONDS'' ''60'' 15 300 of None \<Rightarrow> None
          | Some poll \<Rightarrow>
        (case env_limit env ''PBXSENSE_RELAY_CONTROL_EXCHANGE_SECONDS'' ''300'' 60 900 of None \<Rightarrow> None
          | Some exchange \<Rightarrow>
           Some \<lparr>cf_admin_token = admin, cf_ticket_secret = secret, cf_enrollment_mode = mode,
             cf_require_signed = signed \<in> {''1'', ''true'', ''yes'', ''on''}, cf_max_devices = devices,
             cf_max_snapshot_bytes = bytes, cf_max_events_per_hour = events,
             cf_remote_poll_seconds = poll, cf_control_exchange_seconds = exchange\<rparr>))))))"

definition agent_loss_timeout_seconds :: int where
  "agent_loss_timeout_seconds = 90"

record relay_policy =
  rp_agent_presence_seconds :: int
  rp_agent_loss_seconds :: int
  rp_control_exchange_seconds :: int
  rp_remote_poll_seconds :: int

definition relay_policy_of :: "relay_config \<Rightarrow> relay_policy" where
  "relay_policy_of C = \<lparr>rp_agent_presence_seconds = 30, rp_agent_loss_seconds = agent_loss_timeout_seconds,
     rp_control_exchange_seconds = cf_control_exchange_seconds C,
     rp_remote_poll_seconds = cf_remote_poll_seconds C\<rparr>"

definition config_ok :: "relay_config \<Rightarrow> bool" where
  "config_ok C \<longleftrightarrow> 1 \<le> cf_max_devices C \<and> cf_max_devices C \<le> 50 \<and>
     65536 \<le> cf_max_snapshot_bytes C \<and> cf_max_snapshot_bytes C \<le> 5242880 \<and>
     1 \<le> cf_max_events_per_hour C \<and> cf_max_events_per_hour C \<le> 1000 \<and>
     15 \<le> cf_remote_poll_seconds C \<and> cf_remote_poll_seconds C \<le> 300 \<and>
     60 \<le> cf_control_exchange_seconds C \<and> cf_control_exchange_seconds C \<le> 900 \<and>
     cf_enrollment_mode C \<in> {''open'', ''ticket'', ''closed''}"

lemma env_limit_range: "env_limit env name d lo hi = Some n \<Longrightarrow> lo \<le> hi \<Longrightarrow> lo \<le> n \<and> n \<le> hi"
  by (auto simp: env_limit_def)

lemma relay_config_ok:
  assumes "relay_config_of env = Some C"
  shows "config_ok C"
proof -
  from assms obtain d b e p x where
    "env_limit env ''PBXSENSE_RELAY_MAX_DEVICES_PER_AGENT'' ''10'' 1 50 = Some d"
    "env_limit env ''PBXSENSE_RELAY_MAX_SNAPSHOT_BYTES'' ''2097152'' 65536 5242880 = Some b"
    "env_limit env ''PBXSENSE_RELAY_MAX_EVENTS_PER_AGENT_HOUR'' ''60'' 1 1000 = Some e"
    "env_limit env ''PBXSENSE_RELAY_REMOTE_APP_POLL_SECONDS'' ''60'' 15 300 = Some p"
    "env_limit env ''PBXSENSE_RELAY_CONTROL_EXCHANGE_SECONDS'' ''300'' 60 900 = Some x"
    and C: "cf_max_devices C = d" "cf_max_snapshot_bytes C = b" "cf_max_events_per_hour C = e"
      "cf_remote_poll_seconds C = p" "cf_control_exchange_seconds C = x"
      "cf_enrollment_mode C \<in> {''open'', ''ticket'', ''closed''}"
    unfolding relay_config_of_def Let_def by (auto split: option.splits if_splits)
  from this(1-5) [THEN env_limit_range] C(6) show ?thesis unfolding config_ok_def C by simp
qed

section \<open>Text of a request\<close>

text \<open>\<open>str(value or "").strip()\<close>.\<close>

definition text_of :: "(json \<Rightarrow> string) \<Rightarrow> json \<Rightarrow> string" where
  "text_of repr v = strip (if truthy v then str_json repr v else [])"

definition clean_text :: "(json \<Rightarrow> string) \<Rightarrow> json \<Rightarrow> string \<Rightarrow> refusal + string" where
  "clean_text repr v name =
    (let t = text_of repr v in if t = [] then Inl (Refused 400 (name @ '' is required'')) else Inr t)"

definition bounded_text :: "(json \<Rightarrow> string) \<Rightarrow> json \<Rightarrow> string \<Rightarrow> nat \<Rightarrow> refusal + string" where
  "bounded_text repr v name limit =
    (case clean_text repr v name of
       Inl e \<Rightarrow> Inl e
     | Inr t \<Rightarrow> if limit < length t then Inl (Refused 400 (name @ '' is too long'')) else Inr t)"

definition optional_text :: "(json \<Rightarrow> string) \<Rightarrow> json \<Rightarrow> nat \<Rightarrow> string" where
  "optional_text repr v limit = take limit (text_of repr v)"

text \<open>\<open>text.replace("-", "")...isalnum()\<close>.\<close>

definition identifier_text :: "char list \<Rightarrow> string \<Rightarrow> bool" where
  "identifier_text marks t = str_isalnum (filter (\<lambda>c. c \<notin> set marks) t)"

definition bounded_identifier :: "(json \<Rightarrow> string) \<Rightarrow> json \<Rightarrow> string \<Rightarrow> refusal + string" where
  "bounded_identifier repr v field =
    (case clean_text repr v field of
       Inl e \<Rightarrow> Inl e
     | Inr t \<Rightarrow> if 96 < length t \<or> \<not> identifier_text ''-_.'' t then Inl (Refused 400 (''Invalid '' @ field)) else Inr t)"

definition optional_identifier :: "(json \<Rightarrow> string) \<Rightarrow> json \<Rightarrow> string" where
  "optional_identifier repr v = (case bounded_identifier repr v ''identifier'' of Inl e \<Rightarrow> [] | Inr t \<Rightarrow> t)"

lemma text_of_str [simp]: "text_of repr (JStr s) = strip s"
  by (simp add: text_of_def strip_def strip_chars_def rstrip_chars_def)

lemma bounded_identifierD:
  assumes "bounded_identifier repr v field = Inr t"
  shows "t = text_of repr v" and "t \<noteq> []" and "length t \<le> 96" and "identifier_text ''-_.'' t"
  using assms by (auto simp: bounded_identifier_def clean_text_def Let_def split: sum.splits if_splits)

text \<open>An identifier has no slash, so it is one segment of a document path.\<close>

lemma identifier_no_slash: "identifier_text ''-_.'' t \<Longrightarrow> CHR ''/'' \<notin> set t"
  by (auto simp: identifier_text_def str_isalnum_def list_all_iff is_alnum_def is_alpha_def is_digit_char_def
    is_decimal_def code_point_def Let_def)

lemma bounded_textD:
  assumes "bounded_text repr v name limit = Inr t"
  shows "t = text_of repr v" and "t \<noteq> []" and "length t \<le> limit"
  using assms by (auto simp: bounded_text_def clean_text_def Let_def split: sum.splits if_splits)

text \<open>\<open>int(value)\<close> of a decoded value; \<open>None\<close> is \<open>ValueError\<close> or \<open>TypeError\<close>.\<close>

fun int_of_json :: "json \<Rightarrow> int option" where
  "int_of_json (JInt i) = Some i"
| "int_of_json (JBool b) = Some (if b then 1 else 0)"
| "int_of_json (JStr s) = py_int s"
| "int_of_json j = None"

section \<open>Base64 values and keys\<close>

text \<open>\<open>_decode_public_key\<close>: an Ed25519 key has 32 bytes; \<open>None\<close> is the \<open>ValueError\<close>.\<close>

definition decode_public_key :: "string \<Rightarrow> string option" where
  "decode_public_key s = (case urlsafe_b64decode (padding s) of
     None \<Rightarrow> None | Some bs \<Rightarrow> if length bs = 32 then Some bs else None)"

definition decode_signature :: "string \<Rightarrow> string option" where
  "decode_signature s = urlsafe_b64decode (padding s)"

definition decode_bytes :: "string \<Rightarrow> refusal + string" where
  "decode_bytes s = (case urlsafe_b64decode (padding s) of
     None \<Rightarrow> Inl (Refused 400 ''Invalid base64 value'') | Some bs \<Rightarrow> Inr bs)"

definition bounded_base64 :: "(json \<Rightarrow> string) \<Rightarrow> json \<Rightarrow> string \<Rightarrow> nat \<Rightarrow> refusal + string" where
  "bounded_base64 repr v field limit =
    (case clean_text repr v field of
       Inl e \<Rightarrow> Inl e
     | Inr t \<Rightarrow> if limit < length t then Inl (Refused 400 (''Invalid '' @ field))
         else (case decode_bytes t of Inl e \<Rightarrow> Inl e | Inr _ \<Rightarrow> Inr t))"

text \<open>\<open>hmac.compare_digest\<close> of two texts raises \<open>TypeError\<close> (\<open>None\<close>) unless both are ASCII.\<close>

definition compare_digest :: "string \<Rightarrow> string \<Rightarrow> bool option" where
  "compare_digest a b = (if is_ascii a \<and> is_ascii b then Some (a = b) else None)"

text \<open>\<open>abs(time.time() - issued_at)\<close>: an integer too large for a float raises \<open>OverflowError\<close>.\<close>

definition float_of_int :: "int \<Rightarrow> rat option" where
  "float_of_int n = (let x = fl (of_int n) in if \<bar>x\<bar> < 2 ^ 1024 then Some x else None)"

definition clock_distance :: "rat \<Rightarrow> int \<Rightarrow> rat option" where
  "clock_distance t issued = map_option (\<lambda>x. \<bar>fl (t - x)\<bar>) (float_of_int issued)"

end
