(* ===== verification/PushGate.thy ===== *)
theory PushGate
  imports PushText
begin

text \<open>
  The first line of defence of \<open>push_relay/app.py\<close>: the limits on size and rate that every request
  meets before it can reach the database. \<open>_request_windows\<close> and \<open>_event_windows\<close> are dicts of deques
  of monotonic clock readings, in insertion order. A request carries its headers by lower-case name.
\<close>

record http_request =
  hq_method :: string
  hq_path :: string
  hq_headers :: "string pydict"
  hq_cookies :: "string pydict"
  hq_body :: string
  hq_host :: "string option"

definition header :: "http_request \<Rightarrow> string \<Rightarrow> string" where
  "header q name = dget (hq_headers q) name []"

type_synonym windows = "rat list pydict"

section \<open>Operations\<close>

text \<open>\<open>_consume_window\<close>: whether the call is admitted, and the deque afterwards.\<close>

definition window_cutoff :: "rat \<Rightarrow> int \<Rightarrow> rat" where
  "window_cutoff now seconds = fl (now - of_int seconds)"

definition consume_window :: "rat \<Rightarrow> int \<Rightarrow> int \<Rightarrow> rat list \<Rightarrow> bool \<times> rat list" where
  "consume_window now limit seconds window =
    (let live = dropWhile (\<lambda>t. t \<le> window_cutoff now seconds) window
     in if limit \<le> int (length live) then (False, live) else (True, live @ [now]))"

text \<open>\<open>_client_key\<close>\<close>

definition client_key :: "http_request \<Rightarrow> string" where
  "client_key q =
    (let forwarded = header q ''x-forwarded-for'';
         candidate = (if forwarded \<noteq> [] then strip (before (CHR '','') forwarded) else [])
     in if candidate \<noteq> [] then take 64 candidate
        else take 64 (case hq_host q of None \<Rightarrow> ''unknown'' | Some h \<Rightarrow> h))"

text \<open>\<open>_client_window\<close>: the key of the deque to use, which exists afterwards.\<close>

definition idle_clients :: "rat \<Rightarrow> windows \<Rightarrow> string list" where
  "idle_clients now tbl = map fst (filter (\<lambda>(k, w). w = [] \<or> last w \<le> window_cutoff now 60) tbl)"

definition evict :: "string list \<Rightarrow> windows \<Rightarrow> windows" where
  "evict ks tbl = filter (\<lambda>(k, w). k \<notin> set ks) tbl"

definition client_window :: "rat \<Rightarrow> string \<Rightarrow> windows \<Rightarrow> string \<times> windows" where
  "client_window now client tbl =
    (if client \<notin> fst ` set tbl \<and> 10000 \<le> length tbl then
       (let tbl' = evict (take 2000 (idle_clients now tbl)) tbl
        in if 10000 \<le> length tbl' then (''overflow'', dsetdefault ''overflow'' [] tbl')
           else (client, dsetdefault client [] tbl'))
     else (client, dsetdefault client [] tbl))"

text \<open>\<open>bound_public_requests\<close>: the refusal, if any, and the windows. The clock is read once by
  \<open>_client_window\<close> and once by \<open>_consume_window\<close>.\<close>

definition body_limit :: "relay_config \<Rightarrow> http_request \<Rightarrow> int" where
  "body_limit C q = (if suffix ''/secure/snapshots'' (hq_path q) then cf_max_snapshot_bytes C else 1024 * 1024)"

definition content_length_check :: "relay_config \<Rightarrow> http_request \<Rightarrow> refusal option" where
  "content_length_check C q =
    (let n = header q ''content-length''
     in if str_isdigit n then
          (case py_int n of None \<Rightarrow> Some Crashed
           | Some k \<Rightarrow> if body_limit C q < k then Some (Refused 413 ''Request body is too large'') else None)
        else None)"

definition request_limit :: "http_request \<Rightarrow> int" where
  "request_limit q = (if hq_path q = ''/v1/activations'' then 6 else 120)"

definition bound_public_requests :: "relay_config \<Rightarrow> rat \<Rightarrow> rat \<Rightarrow> http_request \<Rightarrow> windows \<Rightarrow> refusal option \<times> windows" where
  "bound_public_requests C t0 t1 q tbl =
    (case content_length_check C q of
       Some e \<Rightarrow> (Some e, tbl)
     | None \<Rightarrow>
         (let (key, tbl1) = client_window t0 (client_key q) tbl;
              (admitted, window) = consume_window t1 (request_limit q) 60 (dget tbl1 key []);
              tbl2 = AList.update key window tbl1
          in if admitted then (None, tbl2) else (Some (Refused 429 ''Request rate limit exceeded''), tbl2)))"

section \<open>Windows\<close>

abbreviation newer :: "rat \<Rightarrow> rat list \<Rightarrow> rat list" where
  "newer c \<equiv> filter (\<lambda>t. c < t)"

lemma window_cutoff_mono: "s \<le> t \<Longrightarrow> window_cutoff s n \<le> window_cutoff t n"
  by (simp add: window_cutoff_def fl_mono)

lemma dropWhile_sorted: "sorted w \<Longrightarrow> dropWhile (\<lambda>t. t \<le> c) w = newer c w"
proof (induction w)
  case (Cons t w)
  show ?case
  proof (cases "t \<le> c")
    case False
    then have "newer c w = w" using Cons.prems by (auto simp: filter_id_conv)
    with False show ?thesis by simp
  qed (use Cons in simp)
qed simp

lemma within_mono: "c \<le> d \<Longrightarrow> newer d (newer c w) = newer d w"
  by (induction w) auto

text \<open>A deque that holds the sorted readings \<open>w\<close> agrees with the admitted calls \<open>h\<close> on what is younger than
  the cutoff; then so it does after the next call, and the window is newer the limit.\<close>

definition tracks :: "rat \<Rightarrow> rat list \<Rightarrow> rat list \<Rightarrow> bool" where
  "tracks c w h \<longleftrightarrow> sorted w \<and> newer c w = newer c h"

lemma tracks_later: "tracks c w h \<Longrightarrow> c \<le> d \<Longrightarrow> tracks d w h"
  unfolding tracks_def by (metis within_mono)

lemma sorted_newer: "sorted w \<Longrightarrow> sorted (newer c w)"
  using sorted_filter [of id w] by simp

lemma tracks_prune: "tracks c w h \<Longrightarrow> tracks c (newer c w) h"
  using sorted_newer [of w c] by (simp add: tracks_def)

lemma consume_window_admitted:
  assumes "tracks (window_cutoff now n) w h" and "\<forall>t \<in> set w. t \<le> now"
    and "consume_window now limit n w = (True, w')"
  shows "w' = newer (window_cutoff now n) w @ [now]" and "tracks (window_cutoff now n) w' (h @ [now])"
    and "int (length (newer (window_cutoff now n) (h @ [now]))) \<le> limit"
proof -
  from assms(1) have s: "sorted w" and e: "newer (window_cutoff now n) w = newer (window_cutoff now n) h"
    by (simp_all add: tracks_def)
  from assms(3) show w': "w' = newer (window_cutoff now n) w @ [now]"
    by (simp add: consume_window_def dropWhile_sorted [OF s] Let_def split: if_splits)
  show "tracks (window_cutoff now n) w' (h @ [now])"
    using assms(2) sorted_newer [OF s] e [symmetric] by (auto simp: tracks_def w' sorted_append)
  show "int (length (newer (window_cutoff now n) (h @ [now]))) \<le> limit"
    using assms(3) e by (auto simp: consume_window_def dropWhile_sorted [OF s] Let_def split: if_splits)
qed

lemma consume_window_refused:
  assumes "tracks (window_cutoff now n) w h" and "consume_window now limit n w = (False, w')"
  shows "w' = newer (window_cutoff now n) w" and "tracks (window_cutoff now n) w' h"
    and "limit \<le> int (length (newer (window_cutoff now n) h))"
proof -
  from assms(1) have s: "sorted w" and e: "newer (window_cutoff now n) w = newer (window_cutoff now n) h"
    by (simp_all add: tracks_def)
  from assms(2) have "w' = newer (window_cutoff now n) w \<and> limit \<le> int (length w')"
    by (simp add: consume_window_def dropWhile_sorted [OF s] Let_def split: if_splits)
  then show w': "w' = newer (window_cutoff now n) w" and "limit \<le> int (length (newer (window_cutoff now n) h))"
    by (auto simp flip: e)
  show "tracks (window_cutoff now n) w' h" unfolding w' by (rule tracks_prune [OF assms(1)])
qed

section \<open>The table of clients\<close>

lemma map_of_dsetdefault: "map_of (dsetdefault k v d) j = (if map_of d k = None \<and> j = k then Some v else map_of d j)"
  by (auto simp: dsetdefault_def map_add_def split: option.splits)

lemma dget_dsetdefault_Nil [simp]: "dget (dsetdefault k [] d) j [] = dget d j []"
  by (simp add: dget_def map_of_dsetdefault opt_or_def split: option.splits)

lemma mem_keys: "k \<in> fst ` set d \<longleftrightarrow> map_of d k \<noteq> None"
  by (simp add: map_of_eq_None_iff)

lemma length_evict: "length (evict ks tbl) \<le> length tbl"
  by (simp add: evict_def)

lemma map_of_evict: "map_of (evict ks tbl) k = (if k \<in> set ks then None else map_of tbl k)"
  by (induction tbl) (auto simp: evict_def)

lemma idle_clientsD:
  assumes "distinct (map fst tbl)" and "k \<in> set (idle_clients now tbl)" and "sorted (dget tbl k [])"
  shows "newer (window_cutoff now 60) (dget tbl k []) = []"
proof -
  from assms(2) obtain w where w: "(k, w) \<in> set tbl" "w = [] \<or> last w \<le> window_cutoff now 60"
    by (auto simp: idle_clients_def)
  with assms(1) have e: "dget tbl k [] = w" by (simp add: dget_def opt_or_def)
  show ?thesis
  proof (cases "w = []")
    case False
    have "t \<le> last w" if "t \<in> set w" for t
    proof -
      have s: "sorted (butlast w @ [last w])" using assms(3) e False by simp
      from that False have "t \<in> set (butlast w @ [last w])" by simp
      with s show ?thesis by (auto simp: sorted_append)
    qed
    with w(2) False show ?thesis by (force simp: e filter_empty_conv)
  qed (simp add: e)
qed

lemma length_dsetdefault: "length (dsetdefault k v d) \<le> Suc (length d)"
  "k \<in> dom (map_of d) \<Longrightarrow> dsetdefault k v d = d"
  by (auto simp: dsetdefault_def split: option.splits)

lemma distinct_dsetdefault: "distinct (map fst d) \<Longrightarrow> distinct (map fst (dsetdefault k v d))"
  by (auto simp: dsetdefault_def map_of_eq_None_iff split: option.splits)

lemma distinct_evict: "distinct (map fst tbl) \<Longrightarrow> distinct (map fst (evict ks tbl))"
  unfolding evict_def by (induction tbl) auto

lemma length_update: "length (AList.update k v d) \<le> Suc (length d)"
  "k \<in> fst ` set d \<Longrightarrow> length (AList.update k v d) = length d"
  by (induction d) auto

text \<open>What a run of requests leaves: the admitted calls by the key they were counted under.\<close>

type_synonym admissions = "(string \<times> rat) list"

definition admitted_for :: "string \<Rightarrow> admissions \<Rightarrow> rat list" where
  "admitted_for k adm = map snd (filter (\<lambda>(j, t). j = k) adm)"

definition gate_ok :: "rat \<Rightarrow> windows \<Rightarrow> admissions \<Rightarrow> bool" where
  "gate_ok now tbl adm \<longleftrightarrow> distinct (map fst tbl) \<and> (\<forall>k. tracks (window_cutoff now 60) (dget tbl k []) (admitted_for k adm)) \<and>
     (\<forall>k. \<forall>t \<in> set (dget tbl k []). t \<le> now)"

lemma gate_ok_later: "gate_ok s tbl adm \<Longrightarrow> s \<le> t \<Longrightarrow> gate_ok t tbl adm"
  unfolding gate_ok_def using tracks_later window_cutoff_mono by (metis order_trans)

lemma client_window_ok:
  assumes "gate_ok t0 tbl adm" and "client_window t0 c tbl = (key, tbl1)"
  shows "gate_ok t0 tbl1 adm" and "key \<in> fst ` set tbl1"
proof -
  let ?ks = "take 2000 (idle_clients t0 tbl)"
  have d: "distinct (map fst tbl)" and tr: "tracks (window_cutoff t0 60) (dget tbl k []) (admitted_for k adm)"
    and le: "\<forall>t \<in> set (dget tbl k []). t \<le> t0" for k
    using assms(1) by (simp_all add: gate_ok_def)
  have "tracks (window_cutoff t0 60) (dget (evict ?ks tbl) k []) (admitted_for k adm) \<and>
      (\<forall>t \<in> set (dget (evict ?ks tbl) k []). t \<le> t0)" for k
  proof (cases "k \<in> set ?ks")
    case True
    then have k: "k \<in> set (idle_clients t0 tbl)" by (rule in_set_takeD)
    have "newer (window_cutoff t0 60) (dget tbl k []) = []"
      using idle_clientsD [OF d k] tr [of k] by (simp add: tracks_def)
    with tr [of k] True show ?thesis by (simp add: dget_def map_of_evict tracks_def opt_or_def)
  next
    case False
    with tr [of k] le [of k] show ?thesis by (simp add: dget_def map_of_evict)
  qed
  then have ev: "gate_ok t0 (evict ?ks tbl) adm" by (simp add: gate_ok_def distinct_evict d)
  have def: "gate_ok t0 (dsetdefault j [] tb) adm" if "gate_ok t0 tb adm" for j tb
    using that by (simp add: gate_ok_def distinct_dsetdefault)
  from assms(2) def [OF ev] def [OF assms(1)] show "gate_ok t0 tbl1 adm"
    unfolding client_window_def Let_def by (auto split: if_splits)
  have "j \<in> fst ` set (dsetdefault j v tb)" for j and v :: "rat list" and tb
    unfolding mem_keys by (simp add: map_of_dsetdefault)
  with assms(2) show "key \<in> fst ` set tbl1"
    unfolding client_window_def Let_def by (auto split: if_splits)
qed

section \<open>A run of requests\<close>

text \<open>Requests with the clock readings of each, in order; the result lists the admitted ones.\<close>

fun gate_run :: "relay_config \<Rightarrow> (rat \<times> rat \<times> http_request) list \<Rightarrow> windows \<Rightarrow> (http_request \<times> string \<times> rat) list \<times> windows" where
  "gate_run C [] tbl = ([], tbl)"
| "gate_run C ((t0, t1, q) # qs) tbl =
    (let (refused, tbl') = bound_public_requests C t0 t1 q tbl;
         key = fst (client_window t0 (client_key q) tbl);
         (rest, tbl'') = gate_run C qs tbl'
     in (if refused = None then (q, key, t1) # rest else rest, tbl''))"

fun clocked :: "rat \<Rightarrow> (rat \<times> rat \<times> http_request) list \<Rightarrow> bool" where
  "clocked now [] = True"
| "clocked now ((t0, t1, q) # qs) = (now \<le> t0 \<and> t0 \<le> t1 \<and> clocked t1 qs)"

definition recent_requests :: "string \<Rightarrow> rat \<Rightarrow> admissions \<Rightarrow> nat" where
  "recent_requests k t adm = length (newer (window_cutoff t 60) (admitted_for k adm))"

lemma admitted_for_simps [simp]: "admitted_for k [] = []"
  "admitted_for k (adm @ [(j, t)]) = (if j = k then admitted_for k adm @ [t] else admitted_for k adm)"
  by (simp_all add: admitted_for_def)

lemma gate_ok_empty: "gate_ok t [] []"
  by (simp add: gate_ok_def dget_def opt_or_def tracks_def)

lemma dget_update [simp]: "dget (AList.update k v d) j e = (if j = k then v else dget d j e)"
  by (simp add: dget_def update_conv' opt_or_def)

lemma gate_ok_step:
  assumes ok: "gate_ok now tbl adm" and t: "now \<le> t0" "t0 \<le> t1"
    and r: "bound_public_requests C t0 t1 q tbl = (refused, tbl')"
    and key: "key = fst (client_window t0 (client_key q) tbl)"
  shows "gate_ok t1 tbl' (if refused = None then adm @ [(key, t1)] else adm)"
    and "refused = None \<Longrightarrow> int (recent_requests key t1 (adm @ [(key, t1)])) \<le> request_limit q"
proof -
  obtain tbl1 where cw: "client_window t0 (client_key q) tbl = (key, tbl1)" using key by (metis prod.collapse)
  have ok1: "gate_ok t1 tbl1 adm"
    using client_window_ok(1) [OF gate_ok_later [OF ok t(1)] cw] t(2) by (rule gate_ok_later)
  then have d: "distinct (map fst tbl1)" and le: "\<forall>t \<in> set (dget tbl1 k []). t \<le> t1"
    and tr: "tracks (window_cutoff t1 60) (dget tbl1 k []) (admitted_for k adm)" for k
    by (simp_all add: gate_ok_def)
  obtain b w where cs: "consume_window t1 (request_limit q) 60 (dget tbl1 key []) = (b, w)" by force
  have "gate_ok t1 tbl' (if refused = None then adm @ [(key, t1)] else adm) \<and>
    (refused = None \<longrightarrow> int (recent_requests key t1 (adm @ [(key, t1)])) \<le> request_limit q)"
  proof (cases "content_length_check C q")
    case (Some e)
    with r have "refused = Some e" "tbl' = tbl" by (simp_all add: bound_public_requests_def)
    with gate_ok_later [OF ok, of t1] t show ?thesis by simp
  next
    case None
    with r cw cs have res: "refused = (if b then None else Some (Refused 429 ''Request rate limit exceeded''))"
      "tbl' = AList.update key w tbl1"
      by (auto simp: bound_public_requests_def Let_def split: if_splits)
    show ?thesis
    proof (cases b)
      case True
      from cs True have "consume_window t1 (request_limit q) 60 (dget tbl1 key []) = (True, w)" by simp
      note c = consume_window_admitted [OF tr [of key] le [of key] this]
      show ?thesis using True c(2,3) tr le d
        by (auto simp: gate_ok_def res recent_requests_def c(1) distinct_update)
    next
      case False
      from cs False have "consume_window t1 (request_limit q) 60 (dget tbl1 key []) = (False, w)" by simp
      note c = consume_window_refused [OF tr [of key] this]
      show ?thesis using False c(2) tr le d
        by (auto simp: gate_ok_def res c(1) distinct_update)
    qed
  qed
  then show "gate_ok t1 tbl' (if refused = None then adm @ [(key, t1)] else adm)"
    and "refused = None \<Longrightarrow> int (recent_requests key t1 (adm @ [(key, t1)])) \<le> request_limit q" by simp_all
qed

lemma gate_run_bounded:
  assumes "gate_ok now tbl adm" and "clocked now qs" and "fst (gate_run C qs tbl) = pre @ (q, k, t) # post"
  shows "int (recent_requests k t (adm @ map snd (pre @ [(q, k, t)]))) \<le> request_limit q"
  using assms
proof (induction qs arbitrary: now tbl adm pre)
  case (Cons e qs)
  obtain t0 t1 q1 where e: "e = (t0, t1, q1)" by (cases e)
  obtain refused tbl' where r: "bound_public_requests C t0 t1 q1 tbl = (refused, tbl')" by force
  let ?key = "fst (client_window t0 (client_key q1) tbl)"
  let ?adm = "if refused = None then adm @ [(?key, t1)] else adm"
  from Cons.prems(2) have t: "now \<le> t0" "t0 \<le> t1" "clocked t1 qs" by (simp_all add: e)
  note step = gate_ok_step [OF Cons.prems(1) t(1,2) r refl]
  obtain rest tbl'' where g: "gate_run C qs tbl' = (rest, tbl'')" by force
  from Cons.prems(3) have l: "(if refused = None then (q1, ?key, t1) # rest else rest) = pre @ (q, k, t) # post"
    by (simp add: e r g Let_def split: prod.splits if_splits)
  show ?case
  proof (cases "refused = None \<and> pre = []")
    case True
    with l have "q = q1" "k = ?key" "t = t1" by auto
    with step(2) True show ?thesis by simp
  next
    case False
    obtain pre' where p: "rest = pre' @ (q, k, t) # post" "pre = (if refused = None then (q1, ?key, t1) # pre' else pre')"
      using l False by (cases pre) (auto split: if_splits)
    from Cons.IH [OF step(1) t(3), of pre'] p(1) g
    have "int (recent_requests k t (?adm @ map snd (pre' @ [(q, k, t)]))) \<le> request_limit q" by simp
    with p(2) show ?thesis by (cases "refused = None") simp_all
  qed
qed simp

section \<open>The size of the table\<close>

text \<open>At most 10,000 clients and the shared \<open>overflow\<close> window.\<close>

definition table_bounded :: "windows \<Rightarrow> bool" where
  "table_bounded tbl \<longleftrightarrow> length tbl \<le> 10000 \<or> length tbl = 10001 \<and> ''overflow'' \<in> fst ` set tbl"

lemma dsetdefault_mem: "k \<in> fst ` set d \<Longrightarrow> dsetdefault k v d = d"
  by (simp add: mem_keys dsetdefault_def split: option.splits)

lemma dsetdefault_new: "k \<notin> fst ` set d \<Longrightarrow> dsetdefault k v d = d @ [(k, v)]"
  by (simp add: mem_keys dsetdefault_def)

lemma evict_same: "length (evict ks tbl) = length tbl \<Longrightarrow> evict ks tbl = tbl"
  unfolding evict_def by (metis filter_id_conv length_filter_less nat_neq_iff)

lemma client_window_bounded:
  assumes "table_bounded tbl" and "client_window t0 c tbl = (key, tbl1)"
  shows "table_bounded tbl1"
proof -
  let ?tbl = "evict (take 2000 (idle_clients t0 tbl)) tbl"
  consider "c \<in> fst ` set tbl" | "c \<notin> fst ` set tbl" "length tbl < 10000"
    | "c \<notin> fst ` set tbl" "10000 \<le> length tbl" "10000 \<le> length ?tbl"
    | "c \<notin> fst ` set tbl" "10000 \<le> length tbl" "length ?tbl < 10000" by linarith
  then show ?thesis
  proof cases
    case 3
    with assms(2) have tbl1: "tbl1 = dsetdefault ''overflow'' [] ?tbl" by (auto simp: client_window_def Let_def)
    show ?thesis
    proof (cases "''overflow'' \<in> fst ` set ?tbl")
      case True
      with length_evict [of "take 2000 (idle_clients t0 tbl)" tbl] assms(1) show ?thesis
        by (auto simp: tbl1 dsetdefault_mem table_bounded_def)
    next
      case False
      with 3 length_evict [of "take 2000 (idle_clients t0 tbl)" tbl] assms(1) evict_same [of "take 2000 (idle_clients t0 tbl)" tbl]
      have "length ?tbl = 10000" by (auto simp: table_bounded_def)
      with False show ?thesis by (simp add: tbl1 dsetdefault_new table_bounded_def)
    qed
  next
    case 4
    with assms(2) length_dsetdefault(1) [of c "[]" ?tbl] show ?thesis
      by (auto simp: client_window_def Let_def table_bounded_def)
  next
    case 1
    with assms show ?thesis by (auto simp: client_window_def Let_def dsetdefault_mem)
  next
    case 2
    with assms(2) length_dsetdefault(1) [of c "[]" tbl] show ?thesis
      by (auto simp: client_window_def Let_def table_bounded_def)
  qed
qed

lemma fst_set_update: "fst ` set (AList.update k v d) = insert k (fst ` set d)"
  by (simp add: dom_update)

lemma gate_step_bounded:
  assumes "table_bounded tbl" and "bound_public_requests C t0 t1 q tbl = (refused, tbl')"
  shows "table_bounded tbl'"
proof (cases "content_length_check C q")
  case None
  obtain key tbl1 where cw: "client_window t0 (client_key q) tbl = (key, tbl1)" by force
  have "key \<in> fst ` set tbl1"
    using cw unfolding client_window_def Let_def mem_keys by (auto simp: map_of_dsetdefault split: if_splits)
  then have l: "length (AList.update key w tbl1) = length tbl1" "fst ` set (AList.update key w tbl1) = fst ` set tbl1" for w
    by (auto simp: length_update fst_set_update)
  from None assms(2) cw obtain w where "tbl' = AList.update key w tbl1"
    by (auto simp: bound_public_requests_def Let_def split: prod.splits if_splits)
  with client_window_bounded [OF assms(1) cw] show ?thesis by (simp add: table_bounded_def l)
qed (use assms in \<open>simp add: bound_public_requests_def\<close>)

lemma gate_run_table_bounded: "table_bounded tbl \<Longrightarrow> table_bounded (snd (gate_run C qs tbl))"
proof (induction qs arbitrary: tbl)
  case (Cons e qs)
  obtain t0 t1 q where e: "e = (t0, t1, q)" by (cases e)
  obtain refused tbl' where r: "bound_public_requests C t0 t1 q tbl = (refused, tbl')" by force
  from Cons.IH [OF gate_step_bounded [OF Cons.prems r]] show ?case
    by (cases "gate_run C qs tbl'") (simp add: e r Let_def)
qed simp

section \<open>What the gate promises\<close>

lemma client_window_key: "fst (client_window t c tbl) \<in> {c, ''overflow''}"
  by (simp add: client_window_def Let_def)

lemma gate_run_key: "(q, k, t) \<in> set (fst (gate_run C qs tbl)) \<Longrightarrow> k \<in> {client_key q, ''overflow''}"
proof (induction qs arbitrary: tbl)
  case (Cons e qs)
  obtain t0 t1 q1 where e: "e = (t0, t1, q1)" by (cases e)
  obtain refused tbl' where r: "bound_public_requests C t0 t1 q1 tbl = (refused, tbl')" by force
  from Cons.IH [of tbl'] Cons.prems client_window_key [of t0 "client_key q1" tbl] show ?case
    by (cases "gate_run C qs tbl'") (auto simp: e r Let_def split: if_splits)
qed simp


definition probe :: "string \<Rightarrow> http_request" where
  "probe path = \<lparr>hq_method = ''POST'', hq_path = path, hq_headers = [], hq_cookies = [],
     hq_body = [], hq_host = Some ''10.0.0.7''\<rparr>"

lemma probe_path [simp]: "hq_path (probe path) = path"
  by (simp add: probe_def)

definition open_config :: relay_config where
  "open_config = \<lparr>cf_admin_token = ''operator'', cf_ticket_secret = ''operator'', cf_enrollment_mode = ''open'',
     cf_require_signed = False, cf_max_devices = 10, cf_max_snapshot_bytes = 2097152,
     cf_max_events_per_hour = 60, cf_remote_poll_seconds = 60, cf_control_exchange_seconds = 300\<rparr>"


lemma gate_run_ok:
  "gate_ok now tbl adm \<Longrightarrow> clocked now qs \<Longrightarrow> gate_run C qs tbl = (l, tbl') \<Longrightarrow>
    \<exists>t. gate_ok t tbl' (adm @ map snd l) \<and> (\<forall>t0. clocked now (qs @ [(t0, t0, q)]) \<longrightarrow> t \<le> t0)"
proof (induction qs arbitrary: now tbl adm l)
  case (Cons e qs)
  obtain t0 t1 q1 where e: "e = (t0, t1, q1)" by (cases e)
  obtain refused tbl1 where r: "bound_public_requests C t0 t1 q1 tbl = (refused, tbl1)" by force
  from Cons.prems(2) have t: "now \<le> t0" "t0 \<le> t1" "clocked t1 qs" by (simp_all add: e)
  obtain rest where g: "gate_run C qs tbl1 = (rest, tbl')"
    using Cons.prems(3) by (cases "gate_run C qs tbl1") (simp add: e r Let_def)
  note step = gate_ok_step(1) [OF Cons.prems(1) t(1,2) r refl]
  from Cons.IH [OF step t(3) g] Cons.prems(3) show ?case by (auto simp: e r g Let_def split: if_splits)
qed auto

text \<open>
  The limit for new activations counts every request of the source, not its activations alone: after
  six admitted requests of any kind within the last minute, a request for a new activation is refused.
\<close>

theorem activation_limit_counts_all_requests:
  assumes "clocked now (qs @ [(t0, t0, q)])" and "hq_path q = ''/v1/activations''" and "content_length_check C q = None"
    and "6 \<le> recent_requests (client_key q) t0 (map snd (fst (gate_run C qs [])))"
  shows "fst (bound_public_requests C t0 t0 q (snd (gate_run C qs []))) = Some (Refused 429 ''Request rate limit exceeded'')"
proof -
  obtain l tbl where g: "gate_run C qs [] = (l, tbl)" by force
  have c: "clocked now qs" using assms(1)
    by (induction qs arbitrary: now) auto
  from gate_run_ok [OF gate_ok_empty c g, of q] assms(1) obtain t where "gate_ok t tbl (map snd l)" "t \<le> t0" by auto
  then have ok: "gate_ok t0 tbl (map snd l)" by (rule gate_ok_later)
  then have tr: "tracks (window_cutoff t0 60) (dget tbl (client_key q) []) (admitted_for (client_key q) (map snd l))"
    by (simp add: gate_ok_def)
  have n: "6 \<le> length (newer (window_cutoff t0 60) (dget tbl (client_key q) []))"
    using assms(4) tr by (simp add: g recent_requests_def tracks_def)
  have "client_key q \<in> fst ` set tbl"
  proof (rule ccontr)
    assume "client_key q \<notin> fst ` set tbl"
    then have "dget tbl (client_key q) [] = []" by (simp add: mem_keys dget_def opt_or_def)
    with n show False by simp
  qed
  then have cw: "client_window t0 (client_key q) tbl = (client_key q, tbl)"
    by (simp add: client_window_def dsetdefault_mem)
  have "sorted (dget tbl (client_key q) [])" using tr by (simp add: tracks_def)
  then have "fst (consume_window t0 (request_limit q) 60 (dget tbl (client_key q) [])) = False"
    using n by (simp add: consume_window_def dropWhile_sorted Let_def request_limit_def assms(2))
  then show ?thesis using assms(3) cw
    by (cases "consume_window t0 (request_limit q) 60 (dget tbl (client_key q) [])")
       (simp add: g bound_public_requests_def Let_def)
qed

theorem activation_limit_counts_all_requests_witness:
  "fst (bound_public_requests open_config 7 7 (probe ''/v1/activations'')
     (snd (gate_run open_config (map (\<lambda>n. (of_nat n, of_nat n, probe ''/health'')) [0..<6]) [])))
   = Some (Refused 429 ''Request rate limit exceeded'')"
proof (rule activation_limit_counts_all_requests [where now = 0])
  show "clocked 0 (map (\<lambda>n. (of_nat n, of_nat n, probe ''/health'')) [0..<6] @ [(7, 7, probe ''/v1/activations'')])"
    by code_simp
  show "hq_path (probe ''/v1/activations'') = ''/v1/activations''" by simp
  show "content_length_check open_config (probe ''/v1/activations'') = None" by code_simp
  show "6 \<le> recent_requests (client_key (probe ''/v1/activations'')) 7
      (map snd (fst (gate_run open_config (map (\<lambda>n. (of_nat n, of_nat n, probe ''/health'')) [0..<6]) [])))"
    by code_simp
qed

end
