(* ===== verification/PushStore.thy ===== *)
theory PushStore
  imports PushGate
begin

text \<open>
  What \<open>push_relay/app.py\<close> runs on. Firestore, Firebase Cloud Messaging, Ed25519 and SHA-256 are
  parameters, the fields of a \<open>platform\<close>; the \<open>firestore\<close> locale states what Google documents of
  Firestore: a batch of writes applies all of them or none, \<open>create\<close> fails on a document that exists,
  \<open>update\<close> on one that does not, and a query lists every document of the collection that matches once.

  An operation takes the state of the service to a result and a state; a raised exception keeps the
  writes made before it. Inside one instance a handler awaits nothing after the body has been read, so
  it is one step. A handler reads each clock once.
\<close>

section \<open>Documents\<close>

datatype fval = FNull | FBool bool | FInt int | FStr string | FTime datetime | FStrs "string list"
  | FMap "(string \<times> fval) list"

type_synonym fdoc = "string \<rightharpoonup> fval"

text \<open>A reference is its segments: collection, document, collection, ...\<close>

type_synonym fref = "string list"
type_synonym fview = "fref \<Rightarrow> fdoc option"

definition ref_path :: "fref \<Rightarrow> string" where
  "ref_path r = join ''/'' r"

definition path_ref :: "string \<Rightarrow> fref" where
  "path_ref p = split_on (CHR ''/'') p"

text \<open>\<open>Bump m k n\<close> is the field path \<open>m.k\<close> with \<open>Increment(n)\<close>.\<close>

datatype fupdate = Put string fval | Bump string string int

datatype fwrite = Create fref fdoc | SetDoc fref fdoc | Merge fref fdoc | Update fref "fupdate list" | Delete fref

datatype fserror = AlreadyExists | NotFound

datatype fquery = Everything | FieldIs string fval | FieldBefore string datetime

fun map_fields :: "fval option \<Rightarrow> (string \<times> fval) list" where
  "map_fields (Some (FMap kvs)) = kvs"
| "map_fields _ = []"

fun count_of :: "fval option \<Rightarrow> int" where
  "count_of (Some (FInt i)) = i"
| "count_of _ = 0"

fun apply_update :: "fdoc \<Rightarrow> fupdate \<Rightarrow> fdoc" where
  "apply_update d (Put k v) = d(k \<mapsto> v)"
| "apply_update d (Bump m k n) =
     (let kvs = map_fields (d m) in d(m \<mapsto> FMap (AList.update k (FInt (count_of (map_of kvs k) + n)) kvs)))"

definition apply_updates :: "fdoc \<Rightarrow> fupdate list \<Rightarrow> fdoc" where
  "apply_updates d us = foldl apply_update d us"

fun apply_write :: "fwrite \<Rightarrow> fview \<Rightarrow> fserror + fview" where
  "apply_write (Create r d) v = (if v r = None then Inr (v(r \<mapsto> d)) else Inl AlreadyExists)"
| "apply_write (SetDoc r d) v = Inr (v(r \<mapsto> d))"
| "apply_write (Merge r d) v = Inr (v(r \<mapsto> (case v r of None \<Rightarrow> d | Some e \<Rightarrow> e ++ d)))"
| "apply_write (Update r us) v = (case v r of None \<Rightarrow> Inl NotFound | Some e \<Rightarrow> Inr (v(r \<mapsto> apply_updates e us)))"
| "apply_write (Delete r) v = Inr (v(r := None))"

fun apply_writes :: "fwrite list \<Rightarrow> fview \<Rightarrow> fserror + fview" where
  "apply_writes [] v = Inr v"
| "apply_writes (w # ws) v = (case apply_write w v of Inl e \<Rightarrow> Inl e | Inr v' \<Rightarrow> apply_writes ws v')"

fun matches :: "fquery \<Rightarrow> fdoc \<Rightarrow> bool" where
  "matches Everything d = True"
| "matches (FieldIs k v) d = (d k = Some v)"
| "matches (FieldBefore k t) d = (case d k of Some (FTime u) \<Rightarrow> u < t | _ \<Rightarrow> False)"

section \<open>The platform\<close>

text \<open>What \<open>json.loads\<close> does with the bytes of a body: a value, \<open>JSONDecodeError\<close> or \<open>UnicodeDecodeError\<close>.\<close>

datatype loaded_json = Loaded json | BadJson | BadText

text \<open>A multicast message and the answer for each of its tokens.\<close>

record push =
  pu_tokens :: "string list"
  pu_title :: string
  pu_body :: string
  pu_data :: "string pydict"
  pu_tag :: "string option"

datatype token_result = Delivered | Unregistered | FailedToSend

record 'db platform =
  pf_get :: "'db \<Rightarrow> fref \<Rightarrow> fdoc option"
  pf_query :: "'db \<Rightarrow> fref \<Rightarrow> fquery \<Rightarrow> (string \<times> fdoc) list"
  pf_commit :: "'db \<Rightarrow> fwrite list \<Rightarrow> fserror + 'db"
  pf_sha :: "string \<Rightarrow> string"
  pf_mac :: "string \<Rightarrow> string \<Rightarrow> string"
  pf_verify :: "string \<Rightarrow> string \<Rightarrow> string \<Rightarrow> bool"
  pf_loads :: "string \<Rightarrow> loaded_json"
  pf_repr :: "json \<Rightarrow> string"
  pf_show :: "fval \<Rightarrow> string"
  pf_send :: "nat \<Rightarrow> push \<Rightarrow> token_result list option"

text \<open>The n-th message gets the answer \<open>pf_send n\<close>; \<open>None\<close> is an exception of the messaging client.\<close>

record clock =
  ck_now :: datetime
  ck_server :: datetime
  ck_time :: rat
  ck_mono :: rat

record 'db server =
  sv_db :: 'db
  sv_requests :: windows
  sv_events :: windows
  sv_sent :: "(push \<times> token_result list option) list"

section \<open>Operations\<close>

type_synonym ('s, 'a) handler = "'s \<Rightarrow> (refusal + 'a) \<times> 's"

definition ret :: "'a \<Rightarrow> ('s, 'a) handler" where
  "ret x s = (Inr x, s)"

definition fail :: "refusal \<Rightarrow> ('s, 'a) handler" where
  "fail e s = (Inl e, s)"

definition lift :: "refusal + 'a \<Rightarrow> ('s, 'a) handler" where
  "lift r s = (r, s)"

definition then_do :: "('s, 'a) handler \<Rightarrow> ('a \<Rightarrow> ('s, 'b) handler) \<Rightarrow> ('s, 'b) handler" where
  "then_do m f s = (case m s of (Inl e, t) \<Rightarrow> (Inl e, t) | (Inr x, t) \<Rightarrow> f x t)"

fun for_each :: "'a list \<Rightarrow> ('a \<Rightarrow> ('s, unit) handler) \<Rightarrow> ('s, unit) handler" where
  "for_each [] f = ret ()"
| "for_each (x # xs) f = then_do (f x) (\<lambda>_. for_each xs f)"

text \<open>\<open>require b e\<close>: raise \<open>e\<close> unless \<open>b\<close>.\<close>

definition require :: "bool \<Rightarrow> refusal \<Rightarrow> ('s, unit) handler" where
  "require b e = (if b then ret () else fail e)"

definition fetch :: "'db platform \<Rightarrow> fref \<Rightarrow> ('db server, fdoc option) handler" where
  "fetch P r s = (Inr (pf_get P (sv_db s) r), s)"

definition select :: "'db platform \<Rightarrow> fref \<Rightarrow> fquery \<Rightarrow> ('db server, (string \<times> fdoc) list) handler" where
  "select P c f s = (Inr (pf_query P (sv_db s) c f), s)"

text \<open>A batch, whose failure the caller may handle; and a single write, whose failure nobody handles.\<close>

definition commit :: "'db platform \<Rightarrow> fwrite list \<Rightarrow> ('db server, fserror option) handler" where
  "commit P ws s = (case pf_commit P (sv_db s) ws of Inl e \<Rightarrow> (Inr (Some e), s) | Inr db \<Rightarrow> (Inr None, s\<lparr>sv_db := db\<rparr>))"

definition write_doc :: "'db platform \<Rightarrow> fwrite \<Rightarrow> ('db server, unit) handler" where
  "write_doc P w = then_do (commit P [w]) (\<lambda>r. if r = None then ret () else fail Crashed)"

section \<open>Fields\<close>

fun fval_truthy :: "fval \<Rightarrow> bool" where
  "fval_truthy FNull = False"
| "fval_truthy (FBool b) = b"
| "fval_truthy (FInt i) = (i \<noteq> 0)"
| "fval_truthy (FStr s) = (s \<noteq> [])"
| "fval_truthy (FTime t) = True"
| "fval_truthy (FStrs xs) = (xs \<noteq> [])"
| "fval_truthy (FMap kvs) = (kvs \<noteq> [])"

text \<open>\<open>bool(d.get(k, default))\<close> and \<open>str(d.get(k, default))\<close>.\<close>

definition field_true :: "fdoc \<Rightarrow> string \<Rightarrow> bool \<Rightarrow> bool" where
  "field_true d k dflt = (case d k of None \<Rightarrow> dflt | Some v \<Rightarrow> fval_truthy v)"

fun str_fval :: "(fval \<Rightarrow> string) \<Rightarrow> fval \<Rightarrow> string" where
  "str_fval sh (FStr s) = s"
| "str_fval sh v = sh v"

definition field_text :: "'db platform \<Rightarrow> fdoc \<Rightarrow> string \<Rightarrow> string \<Rightarrow> string" where
  "field_text P d k dflt = (case d k of None \<Rightarrow> dflt | Some v \<Rightarrow> str_fval (pf_show P) v)"

fun time_of :: "fval option \<Rightarrow> datetime option" where
  "time_of (Some (FTime t)) = Some t"
| "time_of _ = None"

text \<open>Times are UTC: \<open>isoformat()\<close>, \<open>datetime.fromtimestamp(n, timezone.utc)\<close> (\<open>None\<close> outside the years
  1 to 9999) and \<open>_timestamp_text\<close>.\<close>

definition utc_isoformat :: "datetime \<Rightarrow> string" where
  "utc_isoformat t = isoformat t @ ''+00:00''"

definition unix_epoch :: datetime where
  "unix_epoch = 719162 * day_us"

definition utc_from_timestamp :: "int \<Rightarrow> datetime option" where
  "utc_from_timestamp n = (if - 62135596800 \<le> n \<and> n \<le> 253402300799 then Some (unix_epoch + n * second_us) else None)"


definition timestamp_text :: "fval option \<Rightarrow> string" where
  "timestamp_text v = (case time_of v of None \<Rightarrow> [] | Some t \<Rightarrow> utc_isoformat t)"

text \<open>\<open>body.get(k)\<close>; a missing key is \<open>None\<close>.\<close>

definition jget :: "json pydict \<Rightarrow> string \<Rightarrow> json" where
  "jget b k = dget b k JNull"

definition sha_text :: "'db platform \<Rightarrow> string \<Rightarrow> string" where
  "sha_text P s = pf_sha P (utf8 s)"

definition agent_ref :: "string \<Rightarrow> fref" where
  "agent_ref a = [''agents'', a]"

definition devices_ref :: "string \<Rightarrow> fref" where
  "devices_ref a = [''agents'', a, ''devices'']"

definition device_ref :: "string \<Rightarrow> string \<Rightarrow> fref" where
  "device_ref a d = [''agents'', a, ''devices'', d]"

definition token_ref :: "'db platform \<Rightarrow> string \<Rightarrow> fref" where
  "token_ref P token = [''deviceTokens'', sha_text P token]"

definition in_days :: "clock \<Rightarrow> int \<Rightarrow> fval" where
  "in_days ck n = FTime (ck_now ck + n * day_us)"

definition server_time :: "clock \<Rightarrow> fval" where
  "server_time ck = FTime (ck_server ck)"

section \<open>Bodies\<close>

text \<open>\<open>_json_body\<close>\<close>

definition json_body :: "'db platform \<Rightarrow> http_request \<Rightarrow> refusal + json pydict" where
  "json_body P q =
    (if 64 * 1024 < length (hq_body q) then Inl (Refused 413 ''Request body is too large'')
     else (case pf_loads P (hq_body q) of
       BadJson \<Rightarrow> Inl (Refused 400 ''JSON body required'')
     | BadText \<Rightarrow> Inl (Refused 400 ''JSON body required'')
     | Loaded (JObj b) \<Rightarrow> Inr b
     | Loaded _ \<Rightarrow> Inl (Refused 400 ''JSON object required'')))"

section \<open>Who is asking\<close>

definition newline :: char where "newline = char_of (10::nat)"

text \<open>The checks of a signed timestamp: the text is an integer, within five minutes of the clock.\<close>

definition fresh_timestamp :: "clock \<Rightarrow> string \<Rightarrow> refusal \<Rightarrow> refusal \<Rightarrow> refusal + unit" where
  "fresh_timestamp ck ts invalid expired =
    (case py_int ts of
       None \<Rightarrow> Inl invalid
     | Some issued \<Rightarrow>
         (case clock_distance (ck_time ck) issued of
            None \<Rightarrow> Inl Crashed
          | Some d \<Rightarrow> if 300 < d then Inl expired else Inr ()))"

text \<open>\<open>_decode_public_key(key).verify(_decode_signature(signature), message)\<close>, where every failure is
  the same refusal. A key that is not text raises a \<open>TypeError\<close>.\<close>

definition check_signature :: "'db platform \<Rightarrow> string \<Rightarrow> string \<Rightarrow> string \<Rightarrow> refusal \<Rightarrow> refusal + unit" where
  "check_signature P key signature message bad =
    (case decode_public_key key of
       None \<Rightarrow> Inl bad
     | Some k \<Rightarrow>
         (case decode_signature signature of
            None \<Rightarrow> Inl bad
          | Some sig \<Rightarrow> if pf_verify P k sig message then Inr () else Inl bad))"

definition check_agent_signature :: "'db platform \<Rightarrow> fdoc \<Rightarrow> string \<Rightarrow> string \<Rightarrow> refusal \<Rightarrow> refusal + unit" where
  "check_agent_signature P agent signature message bad =
    (case agent ''publicKey'' of
       None \<Rightarrow> Inl bad
     | Some (FStr key) \<Rightarrow> check_signature P key signature message bad
     | Some _ \<Rightarrow> Inl Crashed)"

definition signed_message :: "http_request \<Rightarrow> string" where
  "signed_message q = utf8 (header q ''x-pbxsense-timestamp'' @ [newline] @ hq_path q @ [newline]) @ hq_body q"

text \<open>\<open>_authenticate_agent\<close>: the decoded body and the Agent's document. The identifier in the path is
  checked and looked up without surrounding white space.\<close>

definition known_agent :: "'db platform \<Rightarrow> clock \<Rightarrow> http_request \<Rightarrow> fdoc option \<Rightarrow> refusal + fdoc" where
  "known_agent P ck q a =
    (case a of
       None \<Rightarrow> Inl (Refused 401 ''Unknown Agent'')
     | Some agent \<Rightarrow>
         if field_true agent ''revoked'' False then Inl (Refused 401 ''Agent has been revoked'')
         else (case fresh_timestamp ck (header q ''x-pbxsense-timestamp'')
                 (Refused 401 ''Invalid request timestamp'') (Refused 401 ''Expired signed request'') of
           Inl e \<Rightarrow> Inl e
         | Inr _ \<Rightarrow>
             (case check_agent_signature P agent (header q ''x-pbxsense-signature'') (signed_message q)
                 (Refused 401 ''Invalid Agent signature'') of
                Inl e \<Rightarrow> Inl e
              | Inr _ \<Rightarrow> Inr agent)))"

definition agent_body :: "'db platform \<Rightarrow> relay_config \<Rightarrow> http_request \<Rightarrow> refusal + json pydict" where
  "agent_body P C q =
    (if body_limit C q < int (length (hq_body q)) then Inl (Refused 413 ''Request body is too large'')
     else (case pf_loads P (hq_body q) of
       BadJson \<Rightarrow> Inl (Refused 400 ''JSON body required'')
     | BadText \<Rightarrow> Inl Crashed
     | Loaded (JObj b) \<Rightarrow> Inr b
     | Loaded _ \<Rightarrow> Inl (Refused 400 ''JSON object required'')))"

definition authenticate_agent :: "'db platform \<Rightarrow> relay_config \<Rightarrow> clock \<Rightarrow> string \<Rightarrow> http_request \<Rightarrow> bool \<Rightarrow>
    ('db server, json pydict \<times> fdoc) handler" where
  "authenticate_agent P C ck agent_id q touch =
    then_do (lift (bounded_identifier (pf_repr P) (JStr agent_id) ''agentId'')) (\<lambda>a.
    then_do (lift (agent_body P C q)) (\<lambda>body.
    then_do (fetch P (agent_ref a)) (\<lambda>found.
    then_do (lift (known_agent P ck q found)) (\<lambda>agent.
    then_do (if touch then write_doc P (Update (agent_ref a) [Put ''lastSeenAt'' (server_time ck)]) else ret ()) (\<lambda>_.
    ret (body, agent))))))"

text \<open>\<open>_require_replay_protected_signature\<close>\<close>

definition nonce_ref :: "string \<Rightarrow> string \<Rightarrow> fref" where
  "nonce_ref a n = [''agents'', a, ''secureNonces'', n]"

definition nonce_ok :: "string \<Rightarrow> bool" where
  "nonce_ok n \<longleftrightarrow> 16 \<le> length n \<and> length n \<le> 96 \<and> identifier_text ''-_'' n"

definition replay_message :: "'db platform \<Rightarrow> http_request \<Rightarrow> string" where
  "replay_message P q = utf8 (header q ''x-pbxsense-timestamp'' @ [newline] @ header q ''x-pbxsense-nonce'' @ [newline]
     @ upper (hq_method q) @ [newline] @ hq_path q @ [newline] @ pf_sha P (hq_body q))"

definition require_replay_protected :: "'db platform \<Rightarrow> clock \<Rightarrow> string \<Rightarrow> fdoc \<Rightarrow> http_request \<Rightarrow> ('db server, unit) handler" where
  "require_replay_protected P ck agent_id agent q =
    then_do (require (nonce_ok (header q ''x-pbxsense-nonce'')) (Refused 401 ''Invalid secure request nonce'')) (\<lambda>_.
    then_do (lift (check_agent_signature P agent (header q ''x-pbxsense-signature-v2'') (replay_message P q)
      (Refused 401 ''Invalid secure Agent signature''))) (\<lambda>_.
    then_do (commit P [Create (nonce_ref agent_id (header q ''x-pbxsense-nonce''))
      [''createdAt'' \<mapsto> server_time ck, ''expiresAt'' \<mapsto> FTime (ck_now ck + 10 * minute_us)]]) (\<lambda>r.
    case r of None \<Rightarrow> ret () | Some AlreadyExists \<Rightarrow> fail (Refused 409 ''Replayed secure Agent request'')
      | Some NotFound \<Rightarrow> fail Crashed)))"

text \<open>\<open>_authenticate_relay_device\<close>: the bearer token of a device.\<close>

definition bearer_token :: "http_request \<Rightarrow> string" where
  "bearer_token q = (let supplied = header q ''authorization''
     in if prefix ''bearer '' (lower supplied) then strip (drop 7 supplied) else [])"

definition check_device_token :: "'db platform \<Rightarrow> fdoc \<Rightarrow> http_request \<Rightarrow> refusal + unit" where
  "check_device_token P device q =
    (let token = bearer_token q; expected = field_text P device ''accessTokenHash'' []
     in if token = [] \<or> expected = [] then Inl (Refused 401 ''Invalid device credential'')
        else (case compare_digest (sha_text P token) expected of
          None \<Rightarrow> Inl Crashed
        | Some b \<Rightarrow> if b then Inr () else Inl (Refused 401 ''Invalid device credential'')))"

definition device_expired :: "clock \<Rightarrow> fdoc \<Rightarrow> bool" where
  "device_expired ck device = (case time_of (device ''expiresAt'') of None \<Rightarrow> False | Some t \<Rightarrow> t < ck_now ck)"

definition authenticate_relay_device :: "'db platform \<Rightarrow> clock \<Rightarrow> string \<Rightarrow> string \<Rightarrow> http_request \<Rightarrow>
    ('db server, fref \<times> fdoc) handler" where
  "authenticate_relay_device P ck agent_id device_id q =
    then_do (lift (bounded_identifier (pf_repr P) (JStr agent_id) ''agentId'')) (\<lambda>a.
    then_do (lift (bounded_identifier (pf_repr P) (JStr device_id) ''deviceId'')) (\<lambda>d.
    then_do (fetch P (device_ref a d)) (\<lambda>found.
    case found of
      None \<Rightarrow> fail (Refused 401 ''Unknown device'')
    | Some device \<Rightarrow>
        then_do (require (\<not> device_expired ck device) (Refused 401 ''Device credential expired'')) (\<lambda>_.
        then_do (lift (check_device_token P device q)) (\<lambda>_.
        ret (device_ref a d, device))))))"

text \<open>\<open>_verify_public_key_request\<close>\<close>

definition verify_public_key_request :: "'db platform \<Rightarrow> clock \<Rightarrow> string \<Rightarrow> http_request \<Rightarrow> refusal + unit" where
  "verify_public_key_request P ck key q =
    (case fresh_timestamp ck (header q ''x-pbxsense-timestamp'')
        (Refused 401 ''Signed activation request required'') (Refused 401 ''Expired activation request'') of
       Inl e \<Rightarrow> Inl e
     | Inr _ \<Rightarrow> check_signature P key (header q ''x-pbxsense-signature'') (signed_message q)
         (Refused 401 ''Invalid activation signature''))"

text \<open>\<open>_require_admin\<close>, \<open>_admin_authenticated\<close>\<close>

definition require_admin :: "relay_config \<Rightarrow> http_request \<Rightarrow> refusal + unit" where
  "require_admin C q =
    (if cf_admin_token C = [] then Inl (Refused 401 ''Relay administrator token required'')
     else (case compare_digest (header q ''x-pbxsense-admin-token'') (cf_admin_token C) of
       None \<Rightarrow> Inl Crashed
     | Some b \<Rightarrow> if b then Inr () else Inl (Refused 401 ''Relay administrator token required'')))"

definition admin_cookie :: string where "admin_cookie = ''pbxsense_relay_admin''"

definition admin_authenticated :: "relay_config \<Rightarrow> http_request \<Rightarrow> refusal + bool" where
  "admin_authenticated C q =
    (let supplied = header q ''x-pbxsense-admin-token'';
         supplied = (if supplied = [] then dget (hq_cookies q) admin_cookie [] else supplied)
     in if cf_admin_token C = [] then Inr False
        else (case compare_digest supplied (cf_admin_token C) of None \<Rightarrow> Inl Crashed | Some b \<Rightarrow> Inr b))"

end
