(* ===== verification/PushDevices.thy ===== *)
theory PushDevices
  imports PushStore
begin

text \<open>
  The paired apps of an Agent (\<open>push_relay/app.py\<close>): registration by the Agent or by the app itself,
  listing, revocation, and the pointer from each FCM token to the one document that holds it.
\<close>

section \<open>Capacity and removal\<close>

definition require_device_capacity :: "'db platform \<Rightarrow> relay_config \<Rightarrow> string \<Rightarrow> ('db server, unit) handler" where
  "require_device_capacity P C agent_id =
    then_do (select P (devices_ref agent_id) Everything) (\<lambda>devices.
      let n = int (length (take (nat (cf_max_devices C)) devices))
      in require (n < cf_max_devices C)
        (Refused 409 (''This Agent has reached its '' @ show_int (cf_max_devices C) @ ''-app limit'')))"

text \<open>\<open>_delete_device_registration\<close>; without a document the stored one is read first.\<close>

definition drop_token_pointer :: "'db platform \<Rightarrow> string \<Rightarrow> fref \<Rightarrow> ('db server, unit) handler" where
  "drop_token_pointer P token ref =
    then_do (fetch P (token_ref P token)) (\<lambda>pointer.
      case pointer of
        None \<Rightarrow> ret ()
      | Some d \<Rightarrow> if field_text P d ''devicePath'' [] = ref_path ref then write_doc P (Delete (token_ref P token)) else ret ())"

definition delete_device_registration :: "'db platform \<Rightarrow> string \<Rightarrow> string \<Rightarrow> fdoc option \<Rightarrow> ('db server, unit) handler" where
  "delete_device_registration P agent_id device_id device =
    (let ref = device_ref agent_id device_id in
     then_do (case device of Some d \<Rightarrow> ret d
              | None \<Rightarrow> then_do (fetch P ref) (\<lambda>found. ret (case found of None \<Rightarrow> Map.empty | Some d \<Rightarrow> d))) (\<lambda>d.
     let token = field_text P d ''fcmToken'' [] in
     then_do (write_doc P (Delete ref)) (\<lambda>_.
     if token = [] then ret () else drop_token_pointer P token ref)))"

section \<open>Registration\<close>

text \<open>The fields both registrations write, in the order their values are checked.\<close>

definition flag_of :: "json pydict \<Rightarrow> string \<Rightarrow> fval" where
  "flag_of body k = FBool (truthy (dget body k (JBool True)))"

definition note_of :: "'db platform \<Rightarrow> json pydict \<Rightarrow> string \<Rightarrow> fval" where
  "note_of P body k = FStr (optional_text (pf_repr P) (jget body k) 120)"

definition registration_doc :: "'db platform \<Rightarrow> clock \<Rightarrow> json pydict \<Rightarrow> string \<Rightarrow> refusal + fdoc" where
  "registration_doc P ck body token =
    (case bounded_text (pf_repr P) (dget body ''platform'' (JStr ''android'')) ''platform'' 32 of
       Inl e \<Rightarrow> Inl e
     | Inr platform \<Rightarrow> Inr
        [''fcmToken'' \<mapsto> FStr token, ''meaningfulEnabled'' \<mapsto> flag_of body ''meaningfulEnabled'',
         ''activityEnabled'' \<mapsto> flag_of body ''activityEnabled'', ''platform'' \<mapsto> FStr platform,
         ''appVersion'' \<mapsto> note_of P body ''appVersion'', ''deviceModel'' \<mapsto> note_of P body ''deviceModel'',
         ''deviceName'' \<mapsto> note_of P body ''deviceName'', ''osVersion'' \<mapsto> note_of P body ''osVersion'',
         ''updatedAt'' \<mapsto> server_time ck, ''lastConnectedAt'' \<mapsto> server_time ck, ''expiresAt'' \<mapsto> in_days ck 30])"

text \<open>The ownership pointer of a token: the document it named before is deleted. A stored path with an odd
  number of segments names no document, which raises.\<close>

definition claim_token :: "'db platform \<Rightarrow> clock \<Rightarrow> string \<Rightarrow> fref \<Rightarrow> ('db server, unit) handler" where
  "claim_token P ck token ref =
    then_do (fetch P (token_ref P token)) (\<lambda>previous.
    let previous_path = (case previous of None \<Rightarrow> [] | Some d \<Rightarrow> field_text P d ''devicePath'' []);
        previous_ref = path_ref previous_path in
    then_do (if previous_path \<noteq> [] \<and> previous_path \<noteq> ref_path ref then
        then_do (require (even (length previous_ref)) Crashed) (\<lambda>_.
        then_do (fetch P previous_ref) (\<lambda>found.
        if found \<noteq> None then write_doc P (Delete previous_ref) else ret ()))
      else ret ()) (\<lambda>_.
    write_doc P (SetDoc (token_ref P token) [''devicePath'' \<mapsto> FStr (ref_path ref), ''updatedAt'' \<mapsto> server_time ck])))"

definition optional_key :: "string \<Rightarrow> fdoc" where
  "optional_key key = (if key = [] then Map.empty else [''encryptionPublicKey'' \<mapsto> FStr key])"

text \<open>The registration is written, then the token is claimed for its document.\<close>

definition install_token :: "'db platform \<Rightarrow> clock \<Rightarrow> string \<Rightarrow> fref \<Rightarrow> fdoc \<Rightarrow> ('db server, unit) handler" where
  "install_token P ck token ref d = then_do (write_doc P (Merge ref d)) (\<lambda>_. claim_token P ck token ref)"

text \<open>\<open>register_device\<close>: the device identifier of the answer.\<close>

definition store_registration :: "'db platform \<Rightarrow> relay_config \<Rightarrow> clock \<Rightarrow> string \<Rightarrow> string \<Rightarrow> json pydict \<Rightarrow> fdoc \<Rightarrow> string \<Rightarrow> ('db server, unit) handler" where
  "store_registration P C ck agent_id device_id body agent token =
    (let key = optional_text (pf_repr P) (jget body ''encryptionPublicKey'') 100; ref = device_ref agent_id device_id in
    then_do (fetch P ref) (\<lambda>found.
    then_do (if found = None then require_device_capacity P C agent_id else ret ()) (\<lambda>_.
    then_do (lift (registration_doc P ck body token)) (\<lambda>d.
    case agent ''siteId'' of
      None \<Rightarrow> fail Crashed
    | Some site \<Rightarrow> install_token P ck token ref (d(''siteId'' \<mapsto> site) ++ optional_key key)))))"

definition register_device_route :: "'db platform \<Rightarrow> relay_config \<Rightarrow> clock \<Rightarrow> string \<Rightarrow> http_request \<Rightarrow> ('db server, string) handler" where
  "register_device_route P C ck agent_id q =
    then_do (authenticate_agent P C ck agent_id q True) (\<lambda>(body, agent).
    then_do (lift (bounded_text (pf_repr P) (jget body ''fcmToken'') ''fcmToken'' 4096)) (\<lambda>token.
    let requested = optional_identifier (pf_repr P) (jget body ''relayDeviceId'');
        device_id = (if requested \<noteq> [] then requested else sha_text P token) in
    then_do (store_registration P C ck agent_id device_id body agent token) (\<lambda>_.
    ret device_id)))"

text \<open>\<open>register_own_device\<close>\<close>

definition register_own_device_route :: "'db platform \<Rightarrow> clock \<Rightarrow> string \<Rightarrow> string \<Rightarrow> http_request \<Rightarrow> ('db server, string) handler" where
  "register_own_device_route P ck agent_id device_id q =
    then_do (authenticate_relay_device P ck agent_id device_id q) (\<lambda>(ref, device).
    then_do (lift (json_body P q)) (\<lambda>body.
    then_do (lift (bounded_text (pf_repr P) (jget body ''fcmToken'') ''fcmToken'' 4096)) (\<lambda>token.
    let previous = field_text P device ''fcmToken'' [] in
    then_do (if previous \<noteq> [] \<and> previous \<noteq> token then drop_token_pointer P previous ref else ret ()) (\<lambda>_.
    then_do (lift (registration_doc P ck body token)) (\<lambda>d.
    then_do (install_token P ck token ref d) (\<lambda>_.
    ret device_id))))))"

section \<open>Listing\<close>

record device_row =
  dr_id :: string
  dr_revoke_id :: string
  dr_platform :: string
  dr_app_version :: string
  dr_device_model :: string
  dr_device_name :: string
  dr_os_version :: string
  dr_meaningful_enabled :: bool
  dr_activity_enabled :: bool
  dr_updated_at :: string
  dr_last_connected_at :: string
  dr_connected_now :: bool
  dr_expires_at :: string
  dr_encryption_public_key :: string

definition device_row_of :: "'db platform \<Rightarrow> clock \<Rightarrow> string \<times> fdoc \<Rightarrow> device_row" where
  "device_row_of P ck = (\<lambda>(i, d). \<lparr>
     dr_id = (if field_true d ''accessTokenHash'' False then i else take 12 i), dr_revoke_id = i,
     dr_platform = field_text P d ''platform'' ''unknown'', dr_app_version = field_text P d ''appVersion'' [],
     dr_device_model = field_text P d ''deviceModel'' [], dr_device_name = field_text P d ''deviceName'' [],
     dr_os_version = field_text P d ''osVersion'' [],
     dr_meaningful_enabled = field_true d ''meaningfulEnabled'' True,
     dr_activity_enabled = field_true d ''activityEnabled'' True,
     dr_updated_at = timestamp_text (d ''updatedAt''), dr_last_connected_at = timestamp_text (d ''lastConnectedAt''),
     dr_connected_now = (case time_of (d ''lastConnectedAt'') of None \<Rightarrow> False | Some t \<Rightarrow> ck_now ck - 90 * second_us \<le> t),
     dr_expires_at = timestamp_text (d ''expiresAt''),
     dr_encryption_public_key = field_text P d ''encryptionPublicKey'' []\<rparr>)"

text \<open>\<open>list_devices\<close>\<close>

definition list_devices_route :: "'db platform \<Rightarrow> relay_config \<Rightarrow> clock \<Rightarrow> string \<Rightarrow> http_request \<Rightarrow> ('db server, device_row list) handler" where
  "list_devices_route P C ck agent_id q =
    then_do (authenticate_agent P C ck agent_id q False) (\<lambda>_.
    then_do (select P (devices_ref agent_id) Everything) (\<lambda>ds.
    ret (sort_desc dr_updated_at (map (device_row_of P ck) ds))))"

section \<open>Removal\<close>

text \<open>\<open>revoke_device\<close>, by the Agent\<close>

definition revoke_device_route :: "'db platform \<Rightarrow> relay_config \<Rightarrow> clock \<Rightarrow> string \<Rightarrow> http_request \<Rightarrow> ('db server, unit) handler" where
  "revoke_device_route P C ck agent_id q =
    then_do (authenticate_agent P C ck agent_id q True) (\<lambda>(body, _).
    let requested = optional_identifier (pf_repr P) (jget body ''relayDeviceId'');
        token = optional_text (pf_repr P) (jget body ''fcmToken'') 120 in
    then_do (require (requested \<noteq> [] \<or> token \<noteq> []) (Refused 400 ''Device identity is required'')) (\<lambda>_.
    delete_device_registration P agent_id (if requested \<noteq> [] then requested else sha_text P token) None))"

text \<open>\<open>remove_device\<close>, by the Agent and the token\<close>

definition remove_device_route :: "'db platform \<Rightarrow> relay_config \<Rightarrow> clock \<Rightarrow> string \<Rightarrow> http_request \<Rightarrow> ('db server, unit) handler" where
  "remove_device_route P C ck agent_id q =
    then_do (authenticate_agent P C ck agent_id q False) (\<lambda>(body, _).
    then_do (lift (bounded_text (pf_repr P) (jget body ''fcmToken'') ''fcmToken'' 4096)) (\<lambda>token.
    delete_device_registration P agent_id (sha_text P token) None))"

text \<open>\<open>revoke_own_device\<close>, by the app\<close>

definition revoke_own_device_route :: "'db platform \<Rightarrow> string \<Rightarrow> string \<Rightarrow> http_request \<Rightarrow> ('db server, unit) handler" where
  "revoke_own_device_route P agent_id device_id q =
    then_do (fetch P (device_ref agent_id device_id)) (\<lambda>found.
    case found of
      None \<Rightarrow> ret ()
    | Some device \<Rightarrow>
        then_do (lift (check_device_token P device q)) (\<lambda>_.
        delete_device_registration P agent_id device_id (Some device)))"

end
