(* ===== verification/PushUsage.thy ===== *)
theory PushUsage
  imports PushDevices
begin

text \<open>
  Usage counters (\<open>push_relay/app.py\<close>): each Agent and app document carries the counters of one UTC day;
  the first write of a later day, or the operator's report, files the finished day under
  \<open>usageDaily\<close> once.
\<close>

section \<open>Counters of a document\<close>

definition date_text :: "datetime \<Rightarrow> string" where
  "date_text t = take 10 (isoformat t)"

text \<open>\<open>datetime.strptime(s, "%Y-%m-%d")\<close> succeeds.\<close>

definition strptime_date :: "string \<Rightarrow> int option" where
  "strptime_date s = do {
     (y, r1) \<leftarrow> take_year s;
     r2 \<leftarrow> expect (CHR ''-'') r1;
     (m, r3) \<leftarrow> take_field 1 12 r2;
     r4 \<leftarrow> expect (CHR ''-'') r3;
     (d, r5) \<leftarrow> take_day r4;
     if r5 \<noteq> [] \<or> y < 1 \<or> days_in_month y m < d then None else Some (ordinal y m d) }"

text \<open>The values that are numbers and not negative; a \<open>bool\<close> is a number.\<close>

fun number_of :: "fval \<Rightarrow> int option" where
  "number_of (FInt i) = (if 0 \<le> i then Some i else None)"
| "number_of (FBool b) = Some (if b then 1 else 0)"
| "number_of v = None"

definition numbers :: "(string \<times> fval) list \<Rightarrow> int pydict" where
  "numbers kvs = concat (map (\<lambda>(k, v). case number_of v of None \<Rightarrow> [] | Some n \<Rightarrow> [(k, n)]) kvs)"

text \<open>\<open>_current_usage\<close>\<close>

definition current_usage :: "fdoc \<Rightarrow> string \<Rightarrow> int pydict" where
  "current_usage d today = (if d ''usageDate'' \<noteq> Some (FStr today) then [] else numbers (map_fields (d ''usage'')))"

definition counters :: "int pydict \<Rightarrow> fval" where
  "counters us = FMap (map (\<lambda>(k, n). (k, FInt n)) us)"

definition entity_key :: "'db platform \<Rightarrow> string \<Rightarrow> string \<Rightarrow> string" where
  "entity_key P kind i = take 24 (sha_text P (kind @ '':'' @ i))"

definition entity_ref :: "'db platform \<Rightarrow> string \<Rightarrow> string \<Rightarrow> string \<Rightarrow> fref" where
  "entity_ref P day kind i = [''usageDaily'', day, ''entities'', entity_key P kind i]"

text \<open>The finished day a document still has to file, with its counters.\<close>

definition finished_day :: "fdoc \<Rightarrow> string \<Rightarrow> (string \<times> int pydict) option" where
  "finished_day d today =
    (case d ''usageDate'' of
       Some (FStr day) \<Rightarrow>
         if day = today \<or> d ''usageArchivedDate'' = Some (FStr day) \<or> strptime_date day = None then None
         else (case current_usage d day of [] \<Rightarrow> None | us \<Rightarrow> Some (day, us))
     | _ \<Rightarrow> None)"

text \<open>\<open>_archive_usage\<close>\<close>

definition archive_usage :: "'db platform \<Rightarrow> clock \<Rightarrow> fref \<Rightarrow> fdoc \<Rightarrow> string \<Rightarrow> string \<Rightarrow> string \<Rightarrow> ('db server, unit) handler" where
  "archive_usage P ck ref d kind i today =
    (case finished_day d today of
       None \<Rightarrow> ret ()
     | Some (day, us) \<Rightarrow>
         then_do (write_doc P (SetDoc (entity_ref P day kind i)
           [''kind'' \<mapsto> FStr kind, ''usage'' \<mapsto> counters us, ''archivedAt'' \<mapsto> server_time ck, ''expiresAt'' \<mapsto> in_days ck 90])) (\<lambda>_.
         write_doc P (Update ref [Put ''usageArchivedDate'' (FStr day)])))"

text \<open>\<open>_usage_update\<close>: the updates to add to the caller's own write.\<close>

definition usage_update :: "'db platform \<Rightarrow> clock \<Rightarrow> fref \<Rightarrow> fdoc \<Rightarrow> string \<Rightarrow> string \<Rightarrow> int pydict \<Rightarrow> ('db server, fupdate list) handler" where
  "usage_update P ck ref d kind i increments =
    (let today = date_text (ck_now ck); clean = filter (\<lambda>(k, n). 0 < n) increments in
     then_do (archive_usage P ck ref d kind i today) (\<lambda>_.
     ret (if d ''usageDate'' \<noteq> Some (FStr today) then [Put ''usageDate'' (FStr today), Put ''usage'' (counters clean)]
          else map (\<lambda>(k, n). Bump ''usage'' k n) clean)))"

section \<open>The operator's report\<close>

definition add_counts :: "int pydict \<Rightarrow> int pydict \<Rightarrow> int pydict" where
  "add_counts totals us = foldl (\<lambda>acc (k, n). AList.update k (dget acc k 0 + n) acc) totals us"

record usage_row =
  ur_agent :: string
  ur_active :: bool
  ur_registered :: nat
  ur_connected :: nat
  ur_usage :: "int pydict"

record usage_sums =
  us_totals :: "int pydict"
  us_rows :: "usage_row list"
  us_registered :: nat
  us_connected :: nat
  us_active :: nat
  us_agents :: nat
  us_apps :: nat

definition no_usage :: usage_sums where
  "no_usage = \<lparr>us_totals = [], us_rows = [], us_registered = 0, us_connected = 0, us_active = 0, us_agents = 0, us_apps = 0\<rparr>"

definition seen_since :: "datetime \<Rightarrow> fdoc \<Rightarrow> string \<Rightarrow> bool" where
  "seen_since t d k = (case time_of (d k) of None \<Rightarrow> False | Some u \<Rightarrow> t \<le> u)"

text \<open>The apps of one Agent: how many, how many connected, how many with counters, and the totals.\<close>

fun report_devices :: "'db platform \<Rightarrow> clock \<Rightarrow> string \<Rightarrow> string \<Rightarrow> (string \<times> fdoc) list \<Rightarrow> nat \<times> nat \<times> nat \<times> int pydict \<Rightarrow>
    ('db server, nat \<times> nat \<times> nat \<times> int pydict) handler" where
  "report_devices P ck today agent_id [] acc = ret acc"
| "report_devices P ck today agent_id ((i, d) # ds) (apps, near, used, totals) =
    then_do (archive_usage P ck (device_ref agent_id i) d ''app'' (agent_id @ ''/'' @ i) today) (\<lambda>_.
    let us = current_usage d today in
    report_devices P ck today agent_id ds
      (Suc apps, near + (if seen_since (ck_now ck - 120 * second_us) d ''lastConnectedAt'' then 1 else 0),
       used + (if us \<noteq> [] then 1 else 0), add_counts totals us))"

fun report_agents :: "'db platform \<Rightarrow> clock \<Rightarrow> string \<Rightarrow> (string \<times> fdoc) list \<Rightarrow> usage_sums \<Rightarrow> ('db server, usage_sums) handler" where
  "report_agents P ck today [] acc = ret acc"
| "report_agents P ck today ((i, a) # rest) acc =
    then_do (archive_usage P ck (agent_ref i) a ''agent'' i today) (\<lambda>_.
    let us = current_usage a today;
        active = seen_since (ck_now ck - agent_loss_timeout_seconds * second_us) a ''lastSeenAt'' in
    then_do (select P (devices_ref i) Everything) (\<lambda>ds.
    then_do (report_devices P ck today i ds (0, 0, 0, add_counts (us_totals acc) us)) (\<lambda>(apps, near, used, totals).
    report_agents P ck today rest
      \<lparr>us_totals = totals,
       us_rows = us_rows acc @ [\<lparr>ur_agent = take 12 (sha_text P i), ur_active = active, ur_registered = apps,
         ur_connected = near, ur_usage = us\<rparr>],
       us_registered = us_registered acc + apps, us_connected = us_connected acc + near,
       us_active = us_active acc + (if active then 1 else 0),
       us_agents = us_agents acc + (if us \<noteq> [] then 1 else 0), us_apps = us_apps acc + used\<rparr>)))"

record rollup =
  ro_date :: string
  ro_agents :: nat
  ro_apps :: nat
  ro_totals :: "int pydict"
  ro_complete :: bool

definition sort_items :: "int pydict \<Rightarrow> int pydict" where
  "sort_items d = sort_key fst d"

definition of_kind :: "string \<Rightarrow> string \<times> fdoc \<Rightarrow> bool" where
  "of_kind k = (\<lambda>(i, d). d ''kind'' = Some (FStr k))"

definition day_rollup :: "string \<Rightarrow> (string \<times> fdoc) list \<Rightarrow> rollup" where
  "day_rollup day es = \<lparr>ro_date = day, ro_agents = length (filter (of_kind ''agent'') es),
     ro_apps = length (filter (of_kind ''app'') es),
     ro_totals = sort_items (foldl add_counts [] (map (\<lambda>(i, d). numbers (map_fields (d ''usage''))) es)), ro_complete = True\<rparr>"

text \<open>\<open>_daily_usage\<close>\<close>

definition date_before :: "clock \<Rightarrow> nat \<Rightarrow> string" where
  "date_before ck n = date_text (ck_now ck - int n * day_us)"

fun daily_rollups :: "'db platform \<Rightarrow> clock \<Rightarrow> usage_sums \<Rightarrow> nat list \<Rightarrow> ('db server, rollup list) handler" where
  "daily_rollups P ck acc [] = ret []"
| "daily_rollups P ck acc (n # ns) =
    then_do (if date_before ck n = date_text (ck_now ck)
       then ret \<lparr>ro_date = date_before ck n, ro_agents = us_agents acc, ro_apps = us_apps acc,
         ro_totals = sort_items (us_totals acc), ro_complete = False\<rparr>
       else then_do (select P [''usageDaily'', date_before ck n, ''entities''] Everything) (\<lambda>es. ret (day_rollup (date_before ck n) es))) (\<lambda>r.
    then_do (daily_rollups P ck acc ns) (\<lambda>rs. ret (r # rs)))"

definition daily_usage :: "'db platform \<Rightarrow> clock \<Rightarrow> int \<Rightarrow> usage_sums \<Rightarrow> ('db server, rollup list) handler" where
  "daily_usage P ck days acc = daily_rollups P ck acc [0..<nat (clamp 1 31 days)]"

record usage_report =
  rep_generated_at :: string
  rep_usage_date :: string
  rep_registered_agents :: nat
  rep_sums :: usage_sums
  rep_totals :: "int pydict"
  rep_daily :: "rollup list"
  rep_policy :: relay_policy
  rep_agents :: "usage_row list"
  rep_truncated :: bool

text \<open>\<open>_usage_report\<close>\<close>

definition usage_report_of :: "'db platform \<Rightarrow> relay_config \<Rightarrow> clock \<Rightarrow> int \<Rightarrow> ('db server, usage_report) handler" where
  "usage_report_of P C ck days =
    then_do (select P [''agents''] Everything) (\<lambda>as.
    let agents = take 1000 as; today = date_text (ck_now ck) in
    then_do (report_agents P ck today agents no_usage) (\<lambda>acc.
    let rows = sort_desc (\<lambda>r. sum_list (map snd (ur_usage r))) (us_rows acc) in
    then_do (daily_usage P ck days acc) (\<lambda>daily.
    ret \<lparr>rep_generated_at = utc_isoformat (ck_now ck), rep_usage_date = today, rep_registered_agents = length agents,
         rep_sums = acc, rep_totals = sort_items (us_totals acc), rep_daily = daily, rep_policy = relay_policy_of C,
         rep_agents = take 100 rows, rep_truncated = 100 < length rows\<rparr>)))"

text \<open>\<open>relay_usage\<close>\<close>

definition relay_usage_route :: "'db platform \<Rightarrow> relay_config \<Rightarrow> clock \<Rightarrow> http_request \<Rightarrow> ('db server, usage_report) handler" where
  "relay_usage_route P C ck q =
    then_do (lift (require_admin C q)) (\<lambda>_. usage_report_of P C ck 7)"

end
