(* ===== verification/PushEvents.thy ===== *)
theory PushEvents
  imports PushUsage
begin

text \<open>
  Notifications (\<open>push_relay/app.py\<close>): which devices an event or a change of the Agent's presence is sent
  to, the record that makes a delivery idempotent, the heartbeat and the sweep for silent Agents.
\<close>

section \<open>Recipients\<close>

text \<open>\<open>_device_wants_event\<close>\<close>

definition device_wants_event :: "fdoc \<Rightarrow> string \<Rightarrow> string \<Rightarrow> bool" where
  "device_wants_event d category importance =
    (if \<not> field_true d ''meaningfulEnabled'' True then False
     else if category = ''activity'' then field_true d ''activityEnabled'' True
     else importance \<in> {''attention'', ''important''})"

text \<open>\<open>device.get("expiresAt", now) >= now\<close> raises a \<open>TypeError\<close> on a value that is not a time.\<close>

definition not_expired :: "clock \<Rightarrow> fdoc \<Rightarrow> bool option" where
  "not_expired ck d = (case d ''expiresAt'' of None \<Rightarrow> Some True | Some (FTime t) \<Rightarrow> Some (ck_now ck \<le> t) | Some _ \<Rightarrow> None)"

fun live_devices :: "clock \<Rightarrow> (fdoc \<Rightarrow> bool) \<Rightarrow> (string \<times> fdoc) list \<Rightarrow> refusal + (string \<times> fdoc) list" where
  "live_devices ck wants [] = Inr []"
| "live_devices ck wants ((i, d) # ds) =
    (if \<not> wants d then live_devices ck wants ds
     else (case not_expired ck d of
       None \<Rightarrow> Inl Crashed
     | Some b \<Rightarrow>
         (case live_devices ck wants ds of
            Inl e \<Rightarrow> Inl e
          | Inr rest \<Rightarrow> Inr (if b \<and> field_true d ''fcmToken'' False then (i, d) # rest else rest))))"

text \<open>\<open>_unique_devices_by_token\<close>: one device for each token, the last one in the place of the first.\<close>

definition by_token :: "'db platform \<Rightarrow> (string \<times> string \<times> fdoc) list \<Rightarrow> string \<times> fdoc \<Rightarrow> (string \<times> string \<times> fdoc) list" where
  "by_token P acc x = (let token = field_text P (snd x) ''fcmToken'' []
     in if token = [] then acc else AList.update token x acc)"

definition unique_devices_by_token :: "'db platform \<Rightarrow> (string \<times> fdoc) list \<Rightarrow> (string \<times> fdoc) list" where
  "unique_devices_by_token P ds = map snd (foldl (by_token P) [] ds)"

definition eligible_devices :: "'db platform \<Rightarrow> clock \<Rightarrow> (fdoc \<Rightarrow> bool) \<Rightarrow> (string \<times> fdoc) list \<Rightarrow> refusal + (string \<times> fdoc) list" where
  "eligible_devices P ck wants ds = map_sum id (unique_devices_by_token P) (live_devices ck wants ds)"

definition tokens_of :: "'db platform \<Rightarrow> (string \<times> fdoc) list \<Rightarrow> string list" where
  "tokens_of P ds = map (\<lambda>(i, d). field_text P d ''fcmToken'' []) ds"

section \<open>Sending\<close>

definition send_multicast :: "'db platform \<Rightarrow> push \<Rightarrow> ('db server, token_result list option) handler" where
  "send_multicast P m s = (let r = pf_send P (length (sv_sent s)) m in (Inr r, s\<lparr>sv_sent := sv_sent s @ [(m, r)]\<rparr>))"

text \<open>\<open>_remove_invalid_tokens\<close>: \<open>zip(..., strict=True)\<close> raises when an answer is missing or left over.\<close>

fun remove_invalid_tokens :: "'db platform \<Rightarrow> string \<Rightarrow> (string \<times> fdoc) list \<Rightarrow> token_result list \<Rightarrow> ('db server, nat) handler" where
  "remove_invalid_tokens P agent_id [] [] = ret 0"
| "remove_invalid_tokens P agent_id ((i, d) # ds) (r # rs) =
    (if r \<noteq> Unregistered \<or> i = [] then remove_invalid_tokens P agent_id ds rs
     else then_do (delete_device_registration P agent_id i (Some d)) (\<lambda>_.
       then_do (remove_invalid_tokens P agent_id ds rs) (\<lambda>n. ret (Suc n))))"
| "remove_invalid_tokens P agent_id _ _ = fail Crashed"

definition delivered :: "token_result list \<Rightarrow> nat" where
  "delivered rs = length (filter (\<lambda>r. r = Delivered) rs)"

text \<open>\<open>_send_agent_status\<close>\<close>

definition status_push :: "string list \<Rightarrow> string \<Rightarrow> string \<Rightarrow> string \<Rightarrow> push" where
  "status_push tokens agent_id title body = \<lparr>pu_tokens = tokens, pu_title = title, pu_body = body,
     pu_data = [(''kind'', ''agent_connection''), (''agentId'', agent_id)], pu_tag = None\<rparr>"

definition send_agent_status :: "'db platform \<Rightarrow> clock \<Rightarrow> string \<Rightarrow> string \<Rightarrow> string \<Rightarrow> ('db server, unit) handler" where
  "send_agent_status P ck agent_id title body =
    then_do (select P (devices_ref agent_id) Everything) (\<lambda>ds.
    then_do (lift (eligible_devices P ck (\<lambda>d. field_true d ''meaningfulEnabled'' True) ds)) (\<lambda>eligible.
    if tokens_of P eligible = [] then ret ()
    else then_do (send_multicast P (status_push (tokens_of P eligible) agent_id title body)) (\<lambda>r.
      case r of
        None \<Rightarrow> fail Crashed
      | Some rs \<Rightarrow> then_do (remove_invalid_tokens P agent_id eligible rs) (\<lambda>_. ret ()))))"

section \<open>Presence\<close>

text \<open>\<open>heartbeat\<close>\<close>

definition heartbeat_route :: "'db platform \<Rightarrow> relay_config \<Rightarrow> clock \<Rightarrow> string \<Rightarrow> http_request \<Rightarrow> ('db server, relay_policy) handler" where
  "heartbeat_route P C ck agent_id q =
    then_do (authenticate_agent P C ck agent_id q False) (\<lambda>(_, agent).
    then_do (if field_true agent ''lostAt'' False
       then send_agent_status P ck agent_id ''PBXSense Agent is reachable again.'' ''Live PBX updates have resumed.''
       else ret ()) (\<lambda>_.
    then_do (usage_update P ck (agent_ref agent_id) agent ''agent'' agent_id [(''heartbeats'', 1)]) (\<lambda>us.
    then_do (write_doc P (Update (agent_ref agent_id) ([Put ''lastSeenAt'' (server_time ck), Put ''lostAt'' FNull] @ us))) (\<lambda>_.
    ret (relay_policy_of C)))))"

text \<open>\<open>sweep_agent_heartbeats\<close>: the Agents that are silent, in the order of the query; the result counts
  the newly lost ones.\<close>

fun sweep_agents :: "'db platform \<Rightarrow> clock \<Rightarrow> (string \<times> fdoc) list \<Rightarrow> ('db server, nat) handler" where
  "sweep_agents P ck [] = ret 0"
| "sweep_agents P ck ((i, agent) # as) =
    (if field_true agent ''revoked'' False \<or> field_true agent ''lostAt'' False then sweep_agents P ck as
     else then_do (send_agent_status P ck i ''PBXSense lost the Agent.''
            ''Live PBX updates are paused until the Agent is reachable again.'') (\<lambda>_.
          then_do (write_doc P (Update (agent_ref i) [Put ''lostAt'' (server_time ck)])) (\<lambda>_.
          then_do (sweep_agents P ck as) (\<lambda>n. ret (Suc n)))))"

definition loss_cutoff :: "clock \<Rightarrow> datetime" where
  "loss_cutoff ck = ck_now ck - agent_loss_timeout_seconds * second_us"

definition sweep_route :: "'db platform \<Rightarrow> relay_config \<Rightarrow> clock \<Rightarrow> http_request \<Rightarrow> ('db server, nat) handler" where
  "sweep_route P C ck q =
    then_do (lift (require_admin C q)) (\<lambda>_.
    then_do (select P [''agents''] (FieldBefore ''lastSeenAt'' (loss_cutoff ck))) (sweep_agents P ck))"

section \<open>Events\<close>

datatype event_answer = Ignored | Duplicate | NoRecipients | Sent nat nat

definition consume_event_window :: "relay_config \<Rightarrow> clock \<Rightarrow> string \<Rightarrow> ('db server, bool) handler" where
  "consume_event_window C ck agent_id s =
    (let (b, w) = consume_window (ck_mono ck) (cf_max_events_per_hour C) (60 * 60) (dget (sv_events s) agent_id [])
     in (Inr b, s\<lparr>sv_events := AList.update agent_id w (sv_events s)\<rparr>))"

definition event_ref :: "string \<Rightarrow> string \<Rightarrow> fref" where
  "event_ref site event_id = [''sites'', site, ''events'', event_id]"

record push_event =
  pe_id :: string
  pe_signal_id :: string
  pe_title :: string
  pe_body :: string
  pe_category :: string
  pe_importance :: string

definition push_event_of :: "'db platform \<Rightarrow> json pydict \<Rightarrow> refusal + push_event" where
  "push_event_of P b =
    (case bounded_identifier (pf_repr P) (jget b ''id'') ''id'' of Inl e \<Rightarrow> Inl e | Inr i \<Rightarrow>
    (case bounded_identifier (pf_repr P) (dget b ''signalId'' (JStr i)) ''signalId'' of Inl e \<Rightarrow> Inl e | Inr sig \<Rightarrow>
    (case bounded_text (pf_repr P) (jget b ''title'') ''title'' 256 of Inl e \<Rightarrow> Inl e | Inr title \<Rightarrow>
    (case bounded_text (pf_repr P) (jget b ''body'') ''body'' 2048 of Inl e \<Rightarrow> Inl e | Inr text \<Rightarrow>
    (case bounded_text (pf_repr P) (jget b ''category'') ''category'' 64 of Inl e \<Rightarrow> Inl e | Inr category \<Rightarrow>
    (case bounded_text (pf_repr P) (jget b ''importance'') ''importance'' 32 of Inl e \<Rightarrow> Inl e | Inr importance \<Rightarrow>
     Inr \<lparr>pe_id = i, pe_signal_id = sig, pe_title = title, pe_body = text, pe_category = category,
       pe_importance = importance\<rparr>))))))"

definition event_push :: "push_event \<Rightarrow> string \<Rightarrow> string list \<Rightarrow> push" where
  "event_push e site tokens = \<lparr>pu_tokens = tokens, pu_title = pe_title e, pu_body = pe_body e,
     pu_data = [(''signalId'', pe_signal_id e), (''notificationId'', pe_id e), (''siteId'', site),
       (''category'', pe_category e), (''importance'', pe_importance e)], pu_tag = Some (pe_id e)\<rparr>"

text \<open>After the event has been recorded: a messaging failure forgets the record, so that the Agent's retry
  is sent.\<close>

definition deliver_event :: "'db platform \<Rightarrow> clock \<Rightarrow> string \<Rightarrow> string \<Rightarrow> push_event \<Rightarrow> ('db server, event_answer) handler" where
  "deliver_event P ck agent_id site e =
    then_do (select P (devices_ref agent_id) Everything) (\<lambda>ds.
    then_do (lift (eligible_devices P ck (\<lambda>d. device_wants_event d (pe_category e) (pe_importance e)) ds)) (\<lambda>eligible.
    if tokens_of P eligible = [] then ret NoRecipients
    else then_do (send_multicast P (event_push e site (tokens_of P eligible))) (\<lambda>r.
      case r of
        None \<Rightarrow> then_do (write_doc P (Delete (event_ref site (pe_id e)))) (\<lambda>_. fail Crashed)
      | Some rs \<Rightarrow> then_do (remove_invalid_tokens P agent_id eligible rs) (\<lambda>_.
          ret (Sent (delivered rs) (length rs - delivered rs))))))"

definition event_doc :: "clock \<Rightarrow> string \<Rightarrow> push_event \<Rightarrow> fdoc" where
  "event_doc ck agent_id e = [''agentId'' \<mapsto> FStr agent_id, ''category'' \<mapsto> FStr (pe_category e),
     ''importance'' \<mapsto> FStr (pe_importance e), ''createdAt'' \<mapsto> server_time ck, ''expiresAt'' \<mapsto> in_days ck 2]"

text \<open>\<open>publish_event\<close>. A site identifier that is not text raises a \<open>TypeError\<close>.\<close>

definition publish_event_route :: "'db platform \<Rightarrow> relay_config \<Rightarrow> clock \<Rightarrow> string \<Rightarrow> http_request \<Rightarrow> ('db server, event_answer) handler" where
  "publish_event_route P C ck agent_id q =
    then_do (authenticate_agent P C ck agent_id q False) (\<lambda>(body, agent).
    then_do (consume_event_window C ck agent_id) (\<lambda>admitted.
    then_do (require admitted (Refused 429 ''Agent notification rate limit exceeded'')) (\<lambda>_.
    then_do (lift (push_event_of P body)) (\<lambda>e.
    if pe_category e = ''recommendation'' then ret Ignored
    else (case agent ''siteId'' of
      Some (FStr site) \<Rightarrow>
        then_do (commit P [Create (event_ref site (pe_id e)) (event_doc ck agent_id e)]) (\<lambda>r.
        case r of
          Some AlreadyExists \<Rightarrow> ret Duplicate
        | Some NotFound \<Rightarrow> fail Crashed
        | None \<Rightarrow> deliver_event P ck agent_id site e)
    | _ \<Rightarrow> fail Crashed)))))"

end
