(* ===== verification/PushEnroll.thy ===== *)
theory PushEnroll
  imports PushDevices
begin

text \<open>
  Enrollment (\<open>push_relay/app.py\<close>): signed tickets, the short-lived activation in an Agent's QR code and
  its claim by the first app. The random identifiers and secrets are arguments, drawn by the caller.
\<close>

section \<open>Tickets\<close>

record ticket =
  tk_id :: string
  tk_account :: string
  tk_expires_at :: int

definition ticket_json :: "ticket \<Rightarrow> json" where
  "ticket_json t = JObj [(''accountId'', JStr (tk_account t)), (''expiresAt'', JInt (tk_expires_at t)), (''id'', JStr (tk_id t))]"

definition no_equals :: "string \<Rightarrow> string" where
  "no_equals s = rstrip_chars (\<lambda>c. c = CHR ''='') s"

definition ticket_signature :: "'db platform \<Rightarrow> relay_config \<Rightarrow> string \<Rightarrow> string" where
  "ticket_signature P C encoded = no_equals (urlsafe_b64encode (pf_mac P (utf8 (cf_ticket_secret C)) encoded))"

text \<open>\<open>_sign_enrollment_ticket\<close>\<close>

definition sign_enrollment_ticket :: "'db platform \<Rightarrow> relay_config \<Rightarrow> ticket \<Rightarrow> refusal + string" where
  "sign_enrollment_ticket P C t =
    (if cf_ticket_secret C = [] then Inl (Refused 503 ''Enrollment ticket signing is unavailable'')
     else (let encoded = no_equals (urlsafe_b64encode (utf8 (json_dumps (ticket_json t))))
           in Inr (encoded @ ''.'' @ ticket_signature P C encoded)))"

text \<open>\<open>_verify_enrollment_ticket\<close>: a payload that is not an object raises an \<open>AttributeError\<close>, and an
  identifier that is not well formed keeps its own refusal.\<close>

definition bad_ticket :: refusal where
  "bad_ticket = Refused 401 ''Invalid enrollment ticket''"

definition ticket_payload :: "'db platform \<Rightarrow> relay_config \<Rightarrow> string \<Rightarrow> refusal + json" where
  "ticket_payload P C text =
    (if CHR ''.'' \<notin> set text then Inl bad_ticket
     else (let encoded = before (CHR ''.'') text; supplied = after (CHR ''.'') text in
       if \<not> is_ascii encoded \<or> compare_digest supplied (ticket_signature P C encoded) \<noteq> Some True then Inl bad_ticket
       else (case urlsafe_b64decode (padding encoded) of
               None \<Rightarrow> Inl bad_ticket
             | Some bytes \<Rightarrow> (case pf_loads P bytes of Loaded v \<Rightarrow> Inr v | _ \<Rightarrow> Inl bad_ticket))))"

fun ticket_of_json :: "'db platform \<Rightarrow> json \<Rightarrow> refusal + ticket" where
  "ticket_of_json P (JObj b) =
    (case bounded_identifier (pf_repr P) (jget b ''id'') ''ticketId'' of
       Inl e \<Rightarrow> Inl e
     | Inr i \<Rightarrow>
        (case bounded_identifier (pf_repr P) (jget b ''accountId'') ''accountId'' of
           Inl e \<Rightarrow> Inl e
         | Inr a \<Rightarrow>
            (case int_of_json (dget b ''expiresAt'' (JInt 0)) of
               None \<Rightarrow> Inl bad_ticket
             | Some n \<Rightarrow> Inr \<lparr>tk_id = i, tk_account = a, tk_expires_at = n\<rparr>)))"
| "ticket_of_json P v = Inl Crashed"

definition verify_enrollment_ticket :: "'db platform \<Rightarrow> relay_config \<Rightarrow> clock \<Rightarrow> string \<Rightarrow> refusal + ticket" where
  "verify_enrollment_ticket P C ck text =
    (if cf_ticket_secret C = [] then Inl (Refused 503 ''Enrollment ticket validation is unavailable'')
     else (case ticket_payload P C text of
       Inl e \<Rightarrow> Inl e
     | Inr v \<Rightarrow>
        (case ticket_of_json P v of
           Inl e \<Rightarrow> Inl e
         | Inr t \<Rightarrow> if tk_expires_at t \<le> trunc_rat (ck_time ck) then Inl (Refused 401 ''Enrollment ticket expired'') else Inr t)))"

text \<open>\<open>create_enrollment_ticket\<close>: the ticket and when it expires.\<close>

definition create_enrollment_ticket_route :: "'db platform \<Rightarrow> relay_config \<Rightarrow> clock \<Rightarrow> string \<Rightarrow> http_request \<Rightarrow> ('db server, string \<times> string) handler" where
  "create_enrollment_ticket_route P C ck random q =
    then_do (lift (require_admin C q)) (\<lambda>_.
    then_do (lift (json_body P q)) (\<lambda>body.
    then_do (lift (bounded_identifier (pf_repr P) (jget body ''accountId'') ''accountId'')) (\<lambda>account.
    case int_of_json (dget body ''lifetimeMinutes'' (JInt 30)) of
      None \<Rightarrow> fail Crashed
    | Some minutes \<Rightarrow>
        let expires = trunc_rat (ck_time ck) + clamp 5 (24 * 60) minutes * 60;
            t = \<lparr>tk_id = ''ticket_'' @ random, tk_account = account, tk_expires_at = expires\<rparr> in
        then_do (lift (sign_enrollment_ticket P C t)) (\<lambda>text.
        case utc_from_timestamp expires of None \<Rightarrow> fail Crashed | Some when \<Rightarrow> ret (text, utc_isoformat when)))))"

section \<open>Activations\<close>

definition activation_ref :: "string \<Rightarrow> fref" where
  "activation_ref i = [''activations'', i]"

definition agents_with_key :: "'db platform \<Rightarrow> fval \<Rightarrow> ('db server, (string \<times> fdoc) list) handler" where
  "agents_with_key P key = then_do (select P [''agents''] (FieldIs ''publicKey'' key)) (\<lambda>as. ret (take 1 as))"

text \<open>Whether the request may open an activation: a ticket, when one was needed.\<close>

definition admit_activation :: "'db platform \<Rightarrow> relay_config \<Rightarrow> clock \<Rightarrow> http_request \<Rightarrow> json pydict \<Rightarrow> string \<Rightarrow> bool \<Rightarrow> refusal + ticket option" where
  "admit_activation P C ck q body key known =
    (if known \<and> cf_require_signed C then map_sum id (\<lambda>_. None) (verify_public_key_request P ck key q)
     else if cf_enrollment_mode C = ''closed'' then Inl (Refused 503 ''New relay enrollment is paused'')
     else if cf_enrollment_mode C = ''ticket'' then
       (case bounded_text (pf_repr P) (jget body ''enrollmentTicket'') ''enrollmentTicket'' 2048 of
          Inl e \<Rightarrow> Inl e
        | Inr text \<Rightarrow> map_sum id Some (verify_enrollment_ticket P C ck text))
     else Inr None)"

definition ticket_fields :: "ticket option \<Rightarrow> fdoc option" where
  "ticket_fields t = (case t of None \<Rightarrow> Some Map.empty
     | Some t \<Rightarrow> map_option (\<lambda>when. [''enrollmentTicketId'' \<mapsto> FStr (tk_id t), ''accountId'' \<mapsto> FStr (tk_account t),
         ''enrollmentTicketExpiresAt'' \<mapsto> FTime when]) (utc_from_timestamp (tk_expires_at t)))"

text \<open>\<open>create_activation\<close>: the identifier, the secret and when they expire.\<close>

definition create_activation_route :: "'db platform \<Rightarrow> relay_config \<Rightarrow> clock \<Rightarrow> string \<Rightarrow> string \<Rightarrow> http_request \<Rightarrow>
    ('db server, string \<times> string \<times> string) handler" where
  "create_activation_route P C ck random secret q =
    then_do (lift (json_body P q)) (\<lambda>body.
    then_do (lift (bounded_text (pf_repr P) (jget body ''publicKey'') ''publicKey'' 200)) (\<lambda>key.
    then_do (lift (bounded_text (pf_repr P) (jget body ''displayName'') ''displayName'' 120)) (\<lambda>name.
    then_do (require (decode_public_key key \<noteq> None) Crashed) (\<lambda>_.
    then_do (agents_with_key P (FStr key)) (\<lambda>existing.
    then_do (lift (admit_activation P C ck q body key (existing \<noteq> []))) (\<lambda>t.
    case ticket_fields t of None \<Rightarrow> fail Crashed | Some extra \<Rightarrow>
    let expires = ck_now ck + 10 * minute_us in
    then_do (write_doc P (Create (activation_ref (''activate_'' @ random))
      ([''secretHash'' \<mapsto> FStr (sha_text P secret), ''publicKey'' \<mapsto> FStr key, ''displayName'' \<mapsto> FStr name,
        ''expiresAt'' \<mapsto> FTime expires, ''claimedAt'' \<mapsto> FNull] ++ extra))) (\<lambda>_.
    ret (''activate_'' @ random, secret, utc_isoformat expires))))))))"

text \<open>\<open>_create_relay_device\<close>\<close>

definition create_relay_device :: "'db platform \<Rightarrow> relay_config \<Rightarrow> clock \<Rightarrow> string \<Rightarrow> string \<Rightarrow> string \<Rightarrow> string \<Rightarrow> string \<Rightarrow> ('db server, unit) handler" where
  "create_relay_device P C ck agent_id site_id device_id token key =
    then_do (require_device_capacity P C agent_id) (\<lambda>_.
    write_doc P (Create (device_ref agent_id device_id)
      ([''siteId'' \<mapsto> FStr site_id, ''accessTokenHash'' \<mapsto> FStr (sha_text P token)] ++ optional_key key ++
       [''createdAt'' \<mapsto> server_time ck, ''updatedAt'' \<mapsto> server_time ck, ''lastConnectedAt'' \<mapsto> server_time ck,
        ''expiresAt'' \<mapsto> in_days ck 30, ''meaningfulEnabled'' \<mapsto> FBool True, ''activityEnabled'' \<mapsto> FBool True])))"

text \<open>A stored value where a decoded one is expected (\<open>body.get("siteName", activation.get(...))\<close>).\<close>

fun json_of_fval :: "(fval \<Rightarrow> string) \<Rightarrow> fval \<Rightarrow> json" where
  "json_of_fval sh FNull = JNull"
| "json_of_fval sh (FBool b) = JBool b"
| "json_of_fval sh (FInt i) = JInt i"
| "json_of_fval sh (FStr s) = JStr s"
| "json_of_fval sh v = (if fval_truthy v then JStr (sh v) else JNull)"

definition opt_json :: "'db platform \<Rightarrow> fval option \<Rightarrow> json" where
  "opt_json P v = (case v of None \<Rightarrow> JNull | Some x \<Rightarrow> json_of_fval (pf_show P) x)"

text \<open>The random values of a claim, in the order they are drawn.\<close>

record claim_random =
  cr_device :: string
  cr_access_token :: string
  cr_site :: string
  cr_agent :: string

definition unused_activation :: "'db platform \<Rightarrow> clock \<Rightarrow> string \<Rightarrow> fdoc \<Rightarrow> refusal + unit" where
  "unused_activation P ck secret act =
    (case compare_digest (field_text P act ''secretHash'' []) (sha_text P secret) of
       None \<Rightarrow> Inl Crashed
     | Some valid \<Rightarrow>
         if \<not> valid \<or> field_true act ''claimedAt'' False \<or> (case time_of (act ''expiresAt'') of None \<Rightarrow> True | Some t \<Rightarrow> t < ck_now ck)
         then Inl (Refused 401 ''Expired or used activation'') else Inr ())"

definition check_encryption_key :: "string \<Rightarrow> refusal + unit" where
  "check_encryption_key key =
    (if key = [] then Inr ()
     else (case decode_bytes key of Inl e \<Rightarrow> Inl e
       | Inr bs \<Rightarrow> if length bs \<noteq> 32 then Inl (Refused 400 ''Invalid encryptionPublicKey'') else Inr ()))"

text \<open>The answer of a claim.\<close>

record claimed =
  cl_agent :: string
  cl_site :: string
  cl_device :: string
  cl_access_token :: string

text \<open>The Agent is known: the activation is used up, then the app is added.\<close>

definition claim_existing :: "'db platform \<Rightarrow> relay_config \<Rightarrow> clock \<Rightarrow> claim_random \<Rightarrow> string \<Rightarrow> string \<Rightarrow> string \<times> fdoc \<Rightarrow> ('db server, claimed) handler" where
  "claim_existing P C ck R activation_id key = (\<lambda>(agent_id, agent).
    let site = field_text P agent ''siteId'' []; device = ''device_'' @ cr_device R in
    then_do (require (\<not> field_true agent ''revoked'' False) (Refused 403 ''This Agent identity has been revoked'')) (\<lambda>_.
    then_do (require (site \<noteq> []) (Refused 500 ''Existing Agent has no site identity'')) (\<lambda>_.
    then_do (write_doc P (Update (activation_ref activation_id)
      [Put ''claimedAt'' (server_time ck), Put ''agentId'' (FStr agent_id), Put ''siteId'' (FStr site), Put ''reusedAgent'' (FBool True)])) (\<lambda>_.
    then_do (create_relay_device P C ck agent_id site device (cr_access_token R) key) (\<lambda>_.
    ret \<lparr>cl_agent = agent_id, cl_site = site, cl_device = device, cl_access_token = cr_access_token R\<rparr>)))))"

text \<open>The Agent is new: its site and document, the use of the activation and of the ticket are one batch.\<close>

definition ticket_use :: "'db platform \<Rightarrow> relay_config \<Rightarrow> clock \<Rightarrow> fdoc \<Rightarrow> refusal + fwrite list" where
  "ticket_use P C ck act =
    (if cf_enrollment_mode C = ''ticket'' then
       (let ticket_id = field_text P act ''enrollmentTicketId'' [] in
        case time_of (act ''enrollmentTicketExpiresAt'') of
          None \<Rightarrow> Inl (Refused 401 ''Enrollment ticket expired'')
        | Some t \<Rightarrow>
            if ticket_id = [] \<or> t < ck_now ck then Inl (Refused 401 ''Enrollment ticket expired'')
            else Inr [Create [''enrollmentTickets'', ticket_id]
              [''accountId'' \<mapsto> (case act ''accountId'' of None \<Rightarrow> FStr [] | Some v \<Rightarrow> v), ''usedAt'' \<mapsto> server_time ck, ''expiresAt'' \<mapsto> FTime t]])
     else Inr [])"

definition new_agent_doc :: "clock \<Rightarrow> string \<Rightarrow> string \<Rightarrow> fval \<Rightarrow> fval \<Rightarrow> fdoc \<Rightarrow> fdoc" where
  "new_agent_doc ck site_id site_name name key act =
     [''tenantId'' \<mapsto> FStr site_id, ''siteId'' \<mapsto> FStr site_id, ''siteName'' \<mapsto> FStr site_name, ''displayName'' \<mapsto> name,
      ''publicKey'' \<mapsto> key, ''enrolledAt'' \<mapsto> server_time ck, ''lastSeenAt'' \<mapsto> server_time ck, ''revoked'' \<mapsto> FBool False]
     ++ (if field_true act ''accountId'' False then [''accountId'' \<mapsto> the (act ''accountId'')] else Map.empty)"

definition claim_new :: "'db platform \<Rightarrow> relay_config \<Rightarrow> clock \<Rightarrow> claim_random \<Rightarrow> string \<Rightarrow> string \<Rightarrow> json pydict \<Rightarrow> fdoc \<Rightarrow> ('db server, claimed) handler" where
  "claim_new P C ck R activation_id key body act =
    then_do (lift (bounded_text (pf_repr P) (dget body ''siteName'' (opt_json P (act ''displayName''))) ''siteName'' 120)) (\<lambda>site_name.
    let site_id = ''site_'' @ cr_site R; agent_id = ''agent_'' @ cr_agent R; device = ''device_'' @ cr_device R in
    case (act ''displayName'', act ''publicKey'') of
      (Some name, Some pk) \<Rightarrow>
        then_do (lift (ticket_use P C ck act)) (\<lambda>use.
        then_do (commit P
          ([Create [''sites'', site_id] [''name'' \<mapsto> FStr site_name, ''createdAt'' \<mapsto> server_time ck],
            Create (agent_ref agent_id) (new_agent_doc ck site_id site_name name pk act),
            Update (activation_ref activation_id)
              [Put ''claimedAt'' (server_time ck), Put ''agentId'' (FStr agent_id), Put ''siteId'' (FStr site_id)]] @ use)) (\<lambda>r.
        case r of
          Some AlreadyExists \<Rightarrow> fail (Refused 401 ''Enrollment ticket was already used'')
        | Some NotFound \<Rightarrow> fail Crashed
        | None \<Rightarrow>
            then_do (create_relay_device P C ck agent_id site_id device (cr_access_token R) key) (\<lambda>_.
            ret \<lparr>cl_agent = agent_id, cl_site = site_id, cl_device = device, cl_access_token = cr_access_token R\<rparr>)))
    | _ \<Rightarrow> fail Crashed)"

text \<open>\<open>claim_activation\<close>\<close>

definition claim_activation_route :: "'db platform \<Rightarrow> relay_config \<Rightarrow> clock \<Rightarrow> claim_random \<Rightarrow> string \<Rightarrow> http_request \<Rightarrow> ('db server, claimed) handler" where
  "claim_activation_route P C ck R activation_id q =
    then_do (lift (json_body P q)) (\<lambda>body.
    then_do (lift (bounded_text (pf_repr P) (jget body ''activationSecret'') ''activationSecret'' 200)) (\<lambda>secret.
    then_do (fetch P (activation_ref activation_id)) (\<lambda>found.
    case found of
      None \<Rightarrow> fail (Refused 401 ''Unknown activation'')
    | Some act \<Rightarrow>
        then_do (lift (unused_activation P ck secret act)) (\<lambda>_.
        let key = optional_text (pf_repr P) (jget body ''encryptionPublicKey'') 100 in
        then_do (lift (check_encryption_key key)) (\<lambda>_.
        case act ''publicKey'' of
          None \<Rightarrow> fail Crashed
        | Some pk \<Rightarrow>
            then_do (agents_with_key P pk) (\<lambda>existing.
            case existing of
              e # _ \<Rightarrow> claim_existing P C ck R activation_id key e
            | [] \<Rightarrow> claim_new P C ck R activation_id key body act))))))"

text \<open>\<open>activation_status\<close>: claimed, the Agent and whether the activation has expired.\<close>

definition activation_status_route :: "'db platform \<Rightarrow> clock \<Rightarrow> string \<Rightarrow> http_request \<Rightarrow> ('db server, bool \<times> fval \<times> bool) handler" where
  "activation_status_route P ck activation_id q =
    then_do (lift (json_body P q)) (\<lambda>body.
    then_do (lift (bounded_text (pf_repr P) (jget body ''activationSecret'') ''activationSecret'' 200)) (\<lambda>secret.
    then_do (fetch P (activation_ref activation_id)) (\<lambda>found.
    let unknown = Refused 401 ''Unknown activation'' in
    case found of
      None \<Rightarrow> fail unknown
    | Some act \<Rightarrow>
        then_do (require (act \<noteq> Map.empty) unknown) (\<lambda>_.
        case compare_digest (field_text P act ''secretHash'' []) (sha_text P secret) of
          None \<Rightarrow> fail Crashed
        | Some valid \<Rightarrow>
            then_do (require valid unknown) (\<lambda>_.
            ret (field_true act ''claimedAt'' False,
                 (case act ''agentId'' of None \<Rightarrow> FStr [] | Some v \<Rightarrow> v),
                 (case time_of (act ''expiresAt'') of None \<Rightarrow> False | Some t \<Rightarrow> t < ck_now ck)))))))"

end
