(* ===== verification/PushSecure.thy ===== *)
theory PushSecure
  imports PushEvents PushEnroll
begin

text \<open>
  The Internet relay's server side (\<open>push_relay/app.py\<close>): the control session of an Agent with its queue
  of commands, and the encrypted snapshots an Agent leaves for each app.
\<close>

section \<open>The control session\<close>

definition command_ref :: "string \<Rightarrow> string \<Rightarrow> fref" where
  "command_ref a c = [''agents'', a, ''secureCommands'', c]"

definition commands_ref :: "string \<Rightarrow> fref" where
  "commands_ref a = [''agents'', a, ''secureCommands'']"

fun bounded_identifiers :: "'db platform \<Rightarrow> string \<Rightarrow> json list \<Rightarrow> refusal + string list" where
  "bounded_identifiers P field [] = Inr []"
| "bounded_identifiers P field (v # vs) =
    (case bounded_identifier (pf_repr P) v field of
       Inl e \<Rightarrow> Inl e
     | Inr t \<Rightarrow> map_sum id ((#) t) (bounded_identifiers P field vs))"

definition short_list :: "json \<Rightarrow> string \<Rightarrow> refusal + json list" where
  "short_list v name = (case v of
     JList xs \<Rightarrow> if 20 < length xs then Inl (Refused 400 (''Invalid '' @ name)) else Inr xs
   | _ \<Rightarrow> Inl (Refused 400 (''Invalid '' @ name)))"

record exchange_request =
  xr_session :: string
  xr_capabilities :: "string list"
  xr_responses :: "json list"

text \<open>The version is compared with \<open>1\<close>, which \<open>True\<close> equals.\<close>

definition exchange_request_of :: "'db platform \<Rightarrow> json pydict \<Rightarrow> refusal + exchange_request" where
  "exchange_request_of P b =
    (if jget b ''protocolVersion'' \<notin> {JInt 1, JBool True} then Inl (Refused 400 ''Unsupported secure relay protocol'')
     else (case bounded_identifier (pf_repr P) (jget b ''sessionId'') ''sessionId'' of Inl e \<Rightarrow> Inl e | Inr session \<Rightarrow>
     (case short_list (dget b ''capabilities'' (JList [])) ''capabilities'' of Inl e \<Rightarrow> Inl e | Inr caps \<Rightarrow>
     (case short_list (dget b ''responses'' (JList [])) ''responses'' of Inl e \<Rightarrow> Inl e | Inr responses \<Rightarrow>
     (case bounded_identifiers P ''capability'' caps of Inl e \<Rightarrow> Inl e | Inr safe \<Rightarrow>
      Inr \<lparr>xr_session = session, xr_capabilities = safe, xr_responses = responses\<rparr>)))))"

text \<open>A response closes its command; an entry without a usable identifier is skipped.\<close>

definition response_target :: "'db platform \<Rightarrow> json \<Rightarrow> (string \<times> json pydict) option" where
  "response_target P r = (case r of
     JObj b \<Rightarrow> (let i = optional_identifier (pf_repr P) (jget b ''id'') in if i = [] then None else Some (i, b))
   | _ \<Rightarrow> None)"

definition complete_command :: "'db platform \<Rightarrow> clock \<Rightarrow> string \<Rightarrow> json \<Rightarrow> ('db server, unit) handler" where
  "complete_command P ck agent_id r = (case response_target P r of
     None \<Rightarrow> ret ()
   | Some (i, b) \<Rightarrow> write_doc P (Merge (command_ref agent_id i)
       [''state'' \<mapsto> FStr ''completed'',
        ''responseStatus'' \<mapsto> FStr (take 32 (optional_text (pf_repr P) (jget b ''status'') 120)),
        ''responseKind'' \<mapsto> FStr (take 32 (optional_text (pf_repr P) (jget b ''kind'') 120)),
        ''completedAt'' \<mapsto> server_time ck]))"

record command =
  cm_id :: string
  cm_type :: string
  cm_expires_at :: int

datatype command_fate = ExpireCommand | SkipCommand | DeliverCommand command

definition fate_of :: "'db platform \<Rightarrow> clock \<Rightarrow> string \<times> fdoc \<Rightarrow> command_fate" where
  "fate_of P ck = (\<lambda>(i, d). case time_of (d ''expiresAt'') of
     None \<Rightarrow> ExpireCommand
   | Some t \<Rightarrow>
       if t \<le> ck_now ck then ExpireCommand
       else (let kind = optional_identifier (pf_repr P) (opt_json P (d ''type''))
             in if kind = [] then SkipCommand
                else DeliverCommand \<lparr>cm_id = i, cm_type = kind, cm_expires_at = ts_seconds (t - unix_epoch)\<rparr>))"

fun deliver_commands :: "'db platform \<Rightarrow> clock \<Rightarrow> string \<Rightarrow> string \<Rightarrow> (string \<times> fdoc) list \<Rightarrow> ('db server, command list) handler" where
  "deliver_commands P ck agent_id session [] = ret []"
| "deliver_commands P ck agent_id session (c # cs) =
    (case fate_of P ck c of
       ExpireCommand \<Rightarrow> then_do (write_doc P (Merge (command_ref agent_id (fst c)) [''state'' \<mapsto> FStr ''expired'']))
         (\<lambda>_. deliver_commands P ck agent_id session cs)
     | SkipCommand \<Rightarrow> deliver_commands P ck agent_id session cs
     | DeliverCommand m \<Rightarrow>
         then_do (write_doc P (Merge (command_ref agent_id (fst c))
           [''deliveredAt'' \<mapsto> server_time ck, ''sessionId'' \<mapsto> FStr session])) (\<lambda>_.
         then_do (deliver_commands P ck agent_id session cs) (\<lambda>ms. ret (m # ms))))"

text \<open>\<open>secure_exchange\<close>, after the two signatures have been checked and as a whole.\<close>

definition exchange_frames :: "'db platform \<Rightarrow> relay_config \<Rightarrow> clock \<Rightarrow> string \<Rightarrow> fdoc \<Rightarrow> json pydict \<Rightarrow>
    ('db server, command list \<times> relay_policy) handler" where
  "exchange_frames P C ck agent_id agent body =
    then_do (lift (exchange_request_of P body)) (\<lambda>x.
    then_do (usage_update P ck (agent_ref agent_id) agent ''agent'' agent_id [(''controlExchanges'', 1)]) (\<lambda>us.
    then_do (write_doc P (Update (agent_ref agent_id)
      ([Put ''secureRelaySessionId'' (FStr (xr_session x)), Put ''secureRelayProtocolVersion'' (FInt 1),
        Put ''secureRelayCapabilities'' (FStrs (xr_capabilities x)),
        Put ''secureRelayLastSeenAt'' (server_time ck)] @ us))) (\<lambda>_.
    then_do (for_each (xr_responses x) (complete_command P ck agent_id)) (\<lambda>_.
    then_do (select P (commands_ref agent_id) (FieldIs ''state'' (FStr ''queued''))) (\<lambda>cs.
    then_do (deliver_commands P ck agent_id (xr_session x) (take 20 cs)) (\<lambda>ms.
    ret (ms, relay_policy_of C)))))))"

definition secure_exchange_route :: "'db platform \<Rightarrow> relay_config \<Rightarrow> clock \<Rightarrow> string \<Rightarrow> http_request \<Rightarrow>
    ('db server, command list \<times> relay_policy) handler" where
  "secure_exchange_route P C ck agent_id q =
    then_do (authenticate_agent P C ck agent_id q False) (\<lambda>(body, agent).
    then_do (require_replay_protected P ck agent_id agent q) (\<lambda>_.
    exchange_frames P C ck agent_id agent body))"

text \<open>\<open>queue_secure_ping\<close>\<close>

definition queue_secure_ping_route :: "'db platform \<Rightarrow> relay_config \<Rightarrow> clock \<Rightarrow> string \<Rightarrow> string \<Rightarrow> http_request \<Rightarrow> ('db server, string) handler" where
  "queue_secure_ping_route P C ck random agent_id q =
    then_do (lift (require_admin C q)) (\<lambda>_.
    then_do (fetch P (agent_ref agent_id)) (\<lambda>found.
    then_do (require (case found of None \<Rightarrow> False | Some agent \<Rightarrow> \<not> field_true agent ''revoked'' False)
      (Refused 404 ''Unknown Agent'')) (\<lambda>_.
    then_do (write_doc P (Create (command_ref agent_id (''ping_'' @ random))
      [''type'' \<mapsto> FStr ''ping'', ''state'' \<mapsto> FStr ''queued'', ''createdAt'' \<mapsto> server_time ck,
       ''expiresAt'' \<mapsto> FTime (ck_now ck + minute_us)])) (\<lambda>_.
    ret (''ping_'' @ random)))))"

section \<open>Encrypted snapshots\<close>

definition snapshot_ref :: "string \<Rightarrow> string \<Rightarrow> fref" where
  "snapshot_ref a d = [''agents'', a, ''devices'', d, ''secureSnapshots'', ''latest'']"

definition safe_envelope :: "'db platform \<Rightarrow> clock \<Rightarrow> json pydict \<Rightarrow> string \<Rightarrow> refusal + fdoc" where
  "safe_envelope P ck e ciphertext =
    (case int_of_json (dget e ''sequence'' (JInt 0)) of None \<Rightarrow> Inl Crashed | Some n \<Rightarrow>
    (case clean_text (pf_repr P) (jget e ''createdAt'') ''createdAt'' of Inl r \<Rightarrow> Inl r | Inr created \<Rightarrow>
    (case bounded_base64 (pf_repr P) (jget e ''ephemeralPublicKey'') ''ephemeralPublicKey'' 100 of Inl r \<Rightarrow> Inl r | Inr key \<Rightarrow>
    (case bounded_base64 (pf_repr P) (jget e ''salt'') ''salt'' 80 of Inl r \<Rightarrow> Inl r | Inr salt \<Rightarrow>
    (case bounded_base64 (pf_repr P) (jget e ''nonce'') ''nonce'' 80 of Inl r \<Rightarrow> Inl r | Inr nonce \<Rightarrow>
     Inr [''protocolVersion'' \<mapsto> FInt 1, ''sequence'' \<mapsto> FInt n, ''createdAt'' \<mapsto> FStr (take 40 created),
       ''ephemeralPublicKey'' \<mapsto> FStr key, ''salt'' \<mapsto> FStr salt, ''nonce'' \<mapsto> FStr nonce,
       ''ciphertext'' \<mapsto> FStr ciphertext, ''updatedAt'' \<mapsto> server_time ck])))))"

text \<open>One envelope: whether it was stored.\<close>

definition store_envelope :: "'db platform \<Rightarrow> clock \<Rightarrow> string \<Rightarrow> json \<Rightarrow> ('db server, bool) handler" where
  "store_envelope P ck agent_id v = (case v of
     JObj e \<Rightarrow>
       then_do (lift (bounded_identifier (pf_repr P) (jget e ''deviceId'') ''deviceId'')) (\<lambda>d.
       then_do (fetch P (device_ref agent_id d)) (\<lambda>found.
       case found of
         None \<Rightarrow> ret False
       | Some device \<Rightarrow>
           then_do (lift (clean_text (pf_repr P) (jget e ''ciphertext'') ''ciphertext'')) (\<lambda>ciphertext.
           then_do (require (length ciphertext \<le> 900000) (Refused 413 ''Encrypted snapshot is too large'')) (\<lambda>_.
           then_do (lift (safe_envelope P ck e ciphertext)) (\<lambda>envelope.
           then_do (write_doc P (SetDoc (snapshot_ref agent_id d) envelope)) (\<lambda>_.
           then_do (usage_update P ck (device_ref agent_id d) device ''app'' (agent_id @ ''/'' @ d)
             [(''encryptedSnapshotsPublished'', 1), (''encryptedSnapshotBytes'', int (length ciphertext))]) (\<lambda>us.
           then_do (write_doc P (Update (device_ref agent_id d) us)) (\<lambda>_. ret True))))))))
   | _ \<Rightarrow> ret False)"

fun store_envelopes :: "'db platform \<Rightarrow> clock \<Rightarrow> string \<Rightarrow> json list \<Rightarrow> ('db server, nat) handler" where
  "store_envelopes P ck agent_id [] = ret 0"
| "store_envelopes P ck agent_id (v # vs) =
    then_do (store_envelope P ck agent_id v) (\<lambda>b.
    then_do (store_envelopes P ck agent_id vs) (\<lambda>n. ret (if b then Suc n else n)))"

text \<open>\<open>publish_secure_snapshots\<close>, after the two signatures have been checked and as a whole: how many were
  stored.\<close>

definition publish_envelopes :: "'db platform \<Rightarrow> clock \<Rightarrow> string \<Rightarrow> json pydict \<Rightarrow> ('db server, nat) handler" where
  "publish_envelopes P ck agent_id body =
    then_do (lift (short_list (dget body ''envelopes'' (JList [])) ''secure envelopes'')) (\<lambda>vs.
    store_envelopes P ck agent_id vs)"

definition publish_secure_snapshots_route :: "'db platform \<Rightarrow> relay_config \<Rightarrow> clock \<Rightarrow> string \<Rightarrow> http_request \<Rightarrow> ('db server, nat) handler" where
  "publish_secure_snapshots_route P C ck agent_id q =
    then_do (authenticate_agent P C ck agent_id q False) (\<lambda>(body, agent).
    then_do (require_replay_protected P ck agent_id agent q) (\<lambda>_.
    publish_envelopes P ck agent_id body))"

datatype snapshot_answer = AgentOffline | NoSnapshot | Snapshot string fdoc relay_policy

text \<open>\<open>read_secure_snapshot\<close>: nothing is shown once the Agent has been silent for the loss timeout.\<close>

definition latest_snapshot :: "'db platform \<Rightarrow> relay_config \<Rightarrow> clock \<Rightarrow> string \<Rightarrow> fref \<Rightarrow> ('db server, snapshot_answer) handler" where
  "latest_snapshot P C ck agent_id ref =
    then_do (fetch P (agent_ref agent_id)) (\<lambda>found.
    case time_of (case found of None \<Rightarrow> None | Some agent \<Rightarrow> agent ''lastSeenAt'') of
      None \<Rightarrow> ret AgentOffline
    | Some seen \<Rightarrow>
        if seen < loss_cutoff ck then ret AgentOffline
        else then_do (fetch P (ref @ [''secureSnapshots'', ''latest''])) (\<lambda>latest.
          case latest of
            None \<Rightarrow> ret NoSnapshot
          | Some envelope \<Rightarrow> ret (Snapshot (utc_isoformat seen) (envelope(''updatedAt'' := None)) (relay_policy_of C))))"

definition read_secure_snapshot_route :: "'db platform \<Rightarrow> relay_config \<Rightarrow> clock \<Rightarrow> string \<Rightarrow> string \<Rightarrow> http_request \<Rightarrow> ('db server, snapshot_answer) handler" where
  "read_secure_snapshot_route P C ck agent_id device_id q =
    then_do (authenticate_relay_device P ck agent_id device_id q) (\<lambda>(ref, device).
    then_do (usage_update P ck ref device ''app'' (agent_id @ ''/'' @ device_id) [(''remoteSnapshotReads'', 1)]) (\<lambda>us.
    then_do (write_doc P (Update ref ([Put ''lastConnectedAt'' (server_time ck)] @ us))) (\<lambda>_.
    latest_snapshot P C ck agent_id ref)))"

end
