(* ===== verification/PushFirestore.thy ===== *)
theory PushFirestore
  imports PushSecure
begin

text \<open>
  The contract of the document store as a locale, the rules by which a property of the state is carried
  through a handler, and a store that satisfies the contract.
\<close>

section \<open>The contract\<close>

locale firestore =
  fixes P :: "'db platform"
  assumes commit_law: "(case pf_commit P db ws of
      Inl e \<Rightarrow> apply_writes ws (pf_get P db) = Inl e
    | Inr db' \<Rightarrow> apply_writes ws (pf_get P db) = Inr (pf_get P db'))"
    and query_distinct: "distinct (map fst (pf_query P db c f))"
    and query_set: "set (pf_query P db c f) = {(i, d). pf_get P db (c @ [i]) = Some d \<and> matches f d}"
begin

lemma commit_Inr: "pf_commit P db ws = Inr db' \<Longrightarrow> apply_writes ws (pf_get P db) = Inr (pf_get P db')"
  using commit_law [where db = db and ws = ws] by simp

lemma commit_Inl: "pf_commit P db ws = Inl e \<Longrightarrow> apply_writes ws (pf_get P db) = Inl e"
  using commit_law [where db = db and ws = ws] by simp

lemma commit_iff: "(\<exists>db'. pf_commit P db ws = Inr db') \<longleftrightarrow> (\<exists>v. apply_writes ws (pf_get P db) = Inr v)"
  using commit_law [where db = db and ws = ws] by (cases "pf_commit P db ws") auto

text \<open>A single write that succeeds changes the one document.\<close>

lemma write_views:
  "pf_commit P db [Create r d] = Inr db' \<Longrightarrow> pf_get P db r = None \<and> pf_get P db' = (pf_get P db)(r \<mapsto> d)"
  "pf_commit P db [SetDoc r d] = Inr db' \<Longrightarrow> pf_get P db' = (pf_get P db)(r \<mapsto> d)"
  "pf_commit P db [Merge r d] = Inr db' \<Longrightarrow>
     pf_get P db' = (pf_get P db)(r \<mapsto> (case pf_get P db r of None \<Rightarrow> d | Some e \<Rightarrow> e ++ d))"
  "pf_commit P db [Update r us] = Inr db' \<Longrightarrow>
     \<exists>e. pf_get P db r = Some e \<and> pf_get P db' = (pf_get P db)(r \<mapsto> apply_updates e us)"
  "pf_commit P db [Delete r] = Inr db' \<Longrightarrow> pf_get P db' = (pf_get P db)(r := None)"
  by (auto dest!: commit_Inr split: if_splits option.splits)

lemma write_succeeds:
  "pf_get P db r = None \<Longrightarrow> \<exists>db'. pf_commit P db [Create r d] = Inr db'"
  "\<exists>db'. pf_commit P db [SetDoc r d] = Inr db'"
  "\<exists>db'. pf_commit P db [Merge r d] = Inr db'"
  "pf_get P db r \<noteq> None \<Longrightarrow> \<exists>db'. pf_commit P db [Update r us] = Inr db'"
  "\<exists>db'. pf_commit P db [Delete r] = Inr db'"
  by (auto simp: commit_iff)

lemma create_exists: "pf_get P db r \<noteq> None \<Longrightarrow> pf_commit P db [Create r d] = Inl AlreadyExists"
  using commit_law [where db = db and ws = "[Create r d]"] by (auto split: sum.splits)

lemma query_mem: "(i, d) \<in> set (pf_query P db c f) \<longleftrightarrow> pf_get P db (c @ [i]) = Some d \<and> matches f d"
  by (simp add: query_set)

end

section \<open>A store in memory\<close>

text \<open>A list of documents in the order they were written is such a store; it shows that the contract can be
  met, and the concrete runs below use it.\<close>

type_synonym memory = "(fref \<times> fdoc) list"

fun memory_write :: "memory \<Rightarrow> fwrite \<Rightarrow> fserror + memory" where
  "memory_write m (Create r d) = (if map_of m r = None then Inr (m @ [(r, d)]) else Inl AlreadyExists)"
| "memory_write m (SetDoc r d) = Inr (AList.update r d m)"
| "memory_write m (Merge r d) = Inr (AList.update r (case map_of m r of None \<Rightarrow> d | Some e \<Rightarrow> e ++ d) m)"
| "memory_write m (Update r us) = (case map_of m r of None \<Rightarrow> Inl NotFound | Some e \<Rightarrow> Inr (AList.update r (apply_updates e us) m))"
| "memory_write m (Delete r) = Inr (AList.delete r m)"

fun memory_commit :: "memory \<Rightarrow> fwrite list \<Rightarrow> fserror + memory" where
  "memory_commit m [] = Inr m"
| "memory_commit m (w # ws) = (case memory_write m w of Inl e \<Rightarrow> Inl e | Inr m' \<Rightarrow> memory_commit m' ws)"

definition memory_query :: "memory \<Rightarrow> fref \<Rightarrow> fquery \<Rightarrow> (string \<times> fdoc) list" where
  "memory_query m c f = map (\<lambda>(r, d). (last r, d))
     (filter (\<lambda>(r, d). r \<noteq> [] \<and> butlast r = c \<and> matches f d) (AList.clearjunk m))"

text \<open>Its digest is the hexadecimal text of the bytes.\<close>

definition hex_text :: "string \<Rightarrow> string" where
  "hex_text s = concat (map (\<lambda>c. [hex_digit (code_point c div 16), hex_digit (code_point c mod 16)]) s)"

definition memory_platform :: "(nat \<Rightarrow> push \<Rightarrow> token_result list option) \<Rightarrow> (string \<Rightarrow> string \<Rightarrow> string) \<Rightarrow>
    (string \<Rightarrow> string \<Rightarrow> string \<Rightarrow> bool) \<Rightarrow> (string \<Rightarrow> loaded_json) \<Rightarrow> memory platform" where
  "memory_platform send mac verify loads = \<lparr>pf_get = map_of, pf_query = memory_query, pf_commit = memory_commit,
     pf_sha = hex_text, pf_mac = mac, pf_verify = verify, pf_loads = loads, pf_repr = (\<lambda>v. []), pf_show = (\<lambda>v. []), pf_send = send\<rparr>"

lemma memory_write_law:
  "(case memory_write m w of Inl e \<Rightarrow> apply_write w (map_of m) = Inl e | Inr m' \<Rightarrow> apply_write w (map_of m) = Inr (map_of m'))"
  by (cases w) (auto simp: update_conv' delete_conv' map_add_def fun_eq_iff split: option.splits)

lemma memory_commit_law:
  "(case memory_commit m ws of Inl e \<Rightarrow> apply_writes ws (map_of m) = Inl e | Inr m' \<Rightarrow> apply_writes ws (map_of m) = Inr (map_of m'))"
proof (induction ws arbitrary: m)
  case (Cons w ws)
  show ?case
  proof (cases "memory_write m w")
    case (Inr m')
    with memory_write_law [where m = m and w = w] Cons.IH [of m'] show ?thesis by (cases "memory_commit m' ws") simp_all
  qed (use memory_write_law [where m = m and w = w] in simp)
qed simp

lemma memory_query_set: "set (memory_query m c f) = {(i, d). map_of m (c @ [i]) = Some d \<and> matches f d}"
proof -
  have "(r, d) \<in> set (AList.clearjunk m) \<longleftrightarrow> map_of m r = Some d" for r d
    using distinct_clearjunk [of m] by (metis map_of_clearjunk map_of_eq_Some_iff)
  moreover have "r \<noteq> [] \<and> butlast r = c \<longleftrightarrow> (\<exists>i. r = c @ [i])" for r
    by (metis append_butlast_last_id butlast_snoc snoc_eq_iff_butlast)
  ultimately show ?thesis by (fastforce simp: memory_query_def image_iff)
qed

lemma memory_query_distinct: "distinct (map fst (memory_query m c f))"
proof -
  let ?xs = "filter (\<lambda>(r, d). r \<noteq> [] \<and> butlast r = c \<and> matches f d) (AList.clearjunk m)"
  have "distinct (map fst ?xs)" by (simp add: distinct_map_filter distinct_clearjunk)
  moreover have "inj_on last (fst ` set ?xs)"
    by (rule inj_onI) (auto, metis append_butlast_last_id)
  ultimately have "distinct (map last (map fst ?xs))" by (subst distinct_map) simp
  then show ?thesis by (simp add: memory_query_def comp_def split_def)
qed

interpretation memory: firestore "memory_platform send mac verify loads"
proof
  show "case pf_commit (memory_platform send mac verify loads) m ws of
      Inl e \<Rightarrow> apply_writes ws (pf_get (memory_platform send mac verify loads) m) = Inl e
    | Inr m' \<Rightarrow> apply_writes ws (pf_get (memory_platform send mac verify loads) m) = Inr (pf_get (memory_platform send mac verify loads) m')" for m ws
    using memory_commit_law [where m = m and ws = ws] by (simp add: memory_platform_def cong: sum.case_cong)
qed (simp_all add: memory_platform_def memory_query_set memory_query_distinct)

section \<open>Handlers\<close>

lemma then_do_simps [simp]: "then_do (ret x) f s = f x s" "then_do (fail e) f s = (Inl e, s)"
  "then_do (lift r) f s = (case r of Inl e \<Rightarrow> (Inl e, s) | Inr x \<Rightarrow> f x s)"
  by (simp_all add: then_do_def ret_def fail_def lift_def split: sum.splits)

lemma handler_simps [simp]: "ret x s = (Inr x, s)" "fail e s = (Inl e, s)" "lift r s = (r, s)"
  by (simp_all add: ret_def fail_def lift_def)

lemma fetch_simps [simp]: "then_do (fetch P r) f s = f (pf_get P (sv_db s) r) s"
  "then_do (select P c q) g s = g (pf_query P (sv_db s) c q) s"
  by (simp_all add: then_do_def fetch_def select_def)

lemma then_do_require [simp]: "then_do (require b e) f s = (if b then f () s else (Inl e, s))"
  by (simp add: require_def)

lemma then_do_assoc: "then_do (then_do m f) g s = then_do m (\<lambda>x. then_do (f x) g) s"
  by (simp add: then_do_def split: prod.split sum.split)

lemma then_do_InrE:
  assumes "then_do m f s = (Inr y, u)"
  obtains x t where "m s = (Inr x, t)" and "f x t = (Inr y, u)"
  using assms by (auto simp: then_do_def split: prod.splits sum.splits)

lemma then_do_cases:
  assumes "then_do m f s = (r, u)"
  obtains (error) e where "m s = (Inl e, u)" "r = Inl e"
  | (result) x t where "m s = (Inr x, t)" "f x t = (r, u)"
  using assms by (auto simp: then_do_def split: prod.splits sum.splits)

text \<open>\<open>keeps I m\<close>: the handler keeps the property, however it ends.\<close>

definition keeps :: "('s \<Rightarrow> bool) \<Rightarrow> ('s, 'a) handler \<Rightarrow> bool" where
  "keeps I m \<longleftrightarrow> (\<forall>s. I s \<longrightarrow> I (snd (m s)))"

lemma keepsI: "(\<And>s. I s \<Longrightarrow> I (snd (m s))) \<Longrightarrow> keeps I m"
  by (simp add: keeps_def)

lemma keepsD: "keeps I m \<Longrightarrow> I s \<Longrightarrow> I (snd (m s))"
  by (simp add: keeps_def)

lemma keeps_then: "keeps I m \<Longrightarrow> (\<And>x. keeps I (f x)) \<Longrightarrow> keeps I (then_do m f)"
  by (auto simp: keeps_def then_do_def split: prod.split sum.split dest: spec)

text \<open>With what is known of the result of the first step.\<close>

lemma keeps_then_result:
  "keeps I m \<Longrightarrow> (\<And>x s t. m s = (Inr x, t) \<Longrightarrow> I t \<Longrightarrow> I (snd (f x t))) \<Longrightarrow> keeps I (then_do m f)"
  by (auto simp: keeps_def then_do_def split: prod.split sum.split dest: spec)

lemma keeps_read: "(\<And>x. keeps I (f x)) \<Longrightarrow> keeps I (then_do (fetch P r) f)"
  "(\<And>xs. keeps I (g xs)) \<Longrightarrow> keeps I (then_do (select P c h) g)"
  by (simp_all add: keeps_def)

lemma keeps_lift: "(\<And>x. r = Inr x \<Longrightarrow> keeps I (f x)) \<Longrightarrow> keeps I (then_do (lift r) f)"
  by (cases r) (simp_all add: keeps_def)

lemma keeps_require: "(b \<Longrightarrow> keeps I (f ())) \<Longrightarrow> keeps I (then_do (require b e) f)"
  by (simp add: keeps_def)

lemma keeps_end: "keeps I (ret x)" "keeps I (fail e)" "keeps I (lift r)"
  by (simp_all add: keeps_def)

lemma keeps_if: "(b \<Longrightarrow> keeps I m) \<Longrightarrow> (\<not> b \<Longrightarrow> keeps I n) \<Longrightarrow> keeps I (if b then m else n)"
  by simp

lemma keeps_option: "(x = None \<Longrightarrow> keeps I m) \<Longrightarrow> (\<And>y. x = Some y \<Longrightarrow> keeps I (f y)) \<Longrightarrow>
    keeps I (case x of None \<Rightarrow> m | Some y \<Rightarrow> f y)"
  by (cases x) simp_all

lemma keeps_prod: "(\<And>a b. x = (a, b) \<Longrightarrow> keeps I (f a b)) \<Longrightarrow> keeps I (case x of (a, b) \<Rightarrow> f a b)"
  by (cases x) simp

lemma keeps_error: "keeps I m \<Longrightarrow> keeps I n \<Longrightarrow> keeps I (case x of AlreadyExists \<Rightarrow> m | NotFound \<Rightarrow> n)"
  by (cases x) simp_all

lemma keeps_commit:
  "(\<And>s db. I s \<Longrightarrow> pf_commit P (sv_db s) ws = Inr db \<Longrightarrow> I (s\<lparr>sv_db := db\<rparr>)) \<Longrightarrow> keeps I (commit P ws)"
  by (auto simp: keeps_def commit_def split: sum.split)

lemma keeps_write: "keeps I (commit P [w]) \<Longrightarrow> keeps I (write_doc P w)"
  unfolding write_doc_def by (intro keeps_then keeps_if keeps_end)

lemma keeps_for_each: "(\<And>x. x \<in> set xs \<Longrightarrow> keeps I (f x)) \<Longrightarrow> keeps I (for_each xs f)"
  by (induction xs) (simp_all add: keeps_end keeps_then)

lemmas keeps_intros = keeps_read keeps_lift keeps_require keeps_end keeps_if keeps_option keeps_prod keeps_error keeps_then

lemma write_doc_eq: "write_doc P w s = (case pf_commit P (sv_db s) [w] of Inl e \<Rightarrow> (Inl Crashed, s) | Inr db \<Rightarrow> (Inr (), s\<lparr>sv_db := db\<rparr>))"
  by (simp add: write_doc_def then_do_def commit_def split: sum.split)

lemma then_do_commit: "then_do (commit P ws) f s = (case pf_commit P (sv_db s) ws of
    Inl e \<Rightarrow> f (Some e) s | Inr db \<Rightarrow> f None (s\<lparr>sv_db := db\<rparr>))"
  by (simp add: then_do_def commit_def split: sum.split)

end
