(* ===== verification/PushLaws.thy ===== *)
theory PushLaws
  imports PushFirestore
begin

text \<open>
  Laws of the push relay. The \<open>push_service\<close> locale states what a property of the service's state must
  satisfy to be kept by the changes the handlers are made of; inside it every route is shown to keep it,
  whatever the request, the clock and the random values are and however the handler ends. Hence every
  state the service reaches has it.
\<close>

section \<open>Changes\<close>

definition view :: "'db platform \<Rightarrow> 'db server \<Rightarrow> fview" where
  "view P s = pf_get P (sv_db s)"

lemma view_simps [simp]: "view P (s\<lparr>sv_db := db\<rparr>) = pf_get P db" "view P (s\<lparr>sv_events := w\<rparr>) = view P s"
  "view P (s\<lparr>sv_sent := l\<rparr>) = view P s" "view P (s\<lparr>sv_requests := w\<rparr>) = view P s"
  by (simp_all add: view_def)

definition slash_free :: "string \<Rightarrow> bool" where
  "slash_free t \<longleftrightarrow> CHR ''/'' \<notin> set t"

text \<open>The collections a reference goes through.\<close>

fun kind_of :: "fref \<Rightarrow> string list" where
  "kind_of (c # i # r) = c # kind_of r"
| "kind_of _ = []"

fun update_key :: "fupdate \<Rightarrow> string" where
  "update_key (Put k v) = k"
| "update_key (Bump m k n) = m"

definition bookkeeping_keys :: "string list" where
  "bookkeeping_keys = [''lastSeenAt'', ''lostAt'', ''lastConnectedAt'', ''usageDate'', ''usage'', ''usageArchivedDate'',
     ''secureRelaySessionId'', ''secureRelayProtocolVersion'', ''secureRelayCapabilities'', ''secureRelayLastSeenAt'']"

definition bookkeeping :: "fupdate list \<Rightarrow> bool" where
  "bookkeeping us \<longleftrightarrow> (\<forall>u \<in> set us. update_key u \<in> set bookkeeping_keys)"

definition claiming :: "fupdate list \<Rightarrow> bool" where
  "claiming us \<longleftrightarrow> (\<exists>t us'. us = Put ''claimedAt'' (FTime t) # us' \<and>
     (\<forall>u \<in> set us'. update_key u \<in> {''agentId'', ''siteId'', ''reusedAgent''}))"

text \<open>The writes that touch neither the apps' registrations nor their tokens, and delete nothing.\<close>

fun housekeeping :: "fwrite \<Rightarrow> bool" where
  "housekeeping (Create r d) =
     (kind_of r \<in> {[''activations''], [''enrollmentTickets''], [''sites''], [''agents'', ''secureNonces''],
        [''agents'', ''secureCommands''], [''sites'', ''events'']} \<or> (\<exists>a. r = agent_ref a \<and> slash_free a))"
| "housekeeping (SetDoc r d) = (kind_of r \<in> {[''usageDaily'', ''entities''], [''agents'', ''devices'', ''secureSnapshots'']})"
| "housekeeping (Merge r d) = (kind_of r = [''agents'', ''secureCommands''])"
| "housekeeping (Update r us) = ((kind_of r = [''agents''] \<or> kind_of r = [''agents'', ''devices'']) \<and> bookkeeping us \<or>
     kind_of r = [''activations''] \<and> claiming us)"
| "housekeeping (Delete r) = False"

lemma kinds [simp]: "kind_of (agent_ref a) = [''agents'']" "kind_of (device_ref a d) = [''agents'', ''devices'']"
  "kind_of (activation_ref i) = [''activations'']" "kind_of (nonce_ref a n) = [''agents'', ''secureNonces'']"
  "kind_of (command_ref a c) = [''agents'', ''secureCommands'']" "kind_of (event_ref site e) = [''sites'', ''events'']"
  "kind_of (snapshot_ref a d) = [''agents'', ''devices'', ''secureSnapshots'']"
  "kind_of (entity_ref P day k i) = [''usageDaily'', ''entities'']" "kind_of (token_ref P t) = [''deviceTokens'']"
  by (simp_all add: agent_ref_def device_ref_def activation_ref_def nonce_ref_def command_ref_def event_ref_def
    snapshot_ref_def entity_ref_def token_ref_def)

lemma agent_ref_kind: "agent_ref a = r \<Longrightarrow> kind_of r = [''agents'']"
  by auto

lemma device_ref_inject [simp]: "device_ref a d = device_ref b e \<longleftrightarrow> a = b \<and> d = e"
  "agent_ref a = agent_ref b \<longleftrightarrow> a = b" "devices_ref a @ [d] = device_ref a d"
  by (auto simp: device_ref_def agent_ref_def devices_ref_def)

text \<open>A document path names one reference when its segments have no slash.\<close>

lemma split_on_app: "CHR ''/'' \<notin> set w \<Longrightarrow> split_on (CHR ''/'') (w @ CHR ''/'' # s) = w # split_on (CHR ''/'') s"
  by (induction w) auto

lemma split_on_single: "CHR ''/'' \<notin> set w \<Longrightarrow> split_on (CHR ''/'') w = [w]"
  by (induction w) auto

lemma path_ref_device: "slash_free a \<Longrightarrow> slash_free d \<Longrightarrow> path_ref (ref_path (device_ref a d)) = device_ref a d"
  by (simp add: path_ref_def ref_path_def device_ref_def slash_free_def split_on_app split_on_single
      split_on_app [of "''agents''", simplified] split_on_app [of "''devices''", simplified])

lemma ref_path_nonempty [simp]: "ref_path (device_ref a d) \<noteq> []"
  by (simp add: ref_path_def device_ref_def)

section \<open>Shape of the store\<close>

text \<open>Agents and apps have identifiers without a slash, and every ownership pointer names an app.\<close>

definition names_app :: "fdoc \<Rightarrow> bool" where
  "names_app p \<longleftrightarrow> (\<exists>a d. slash_free a \<and> slash_free d \<and> p ''devicePath'' = Some (FStr (ref_path (device_ref a d))))"

definition store_shape :: "fview \<Rightarrow> bool" where
  "store_shape v \<longleftrightarrow> (\<forall>a. v (agent_ref a) \<noteq> None \<longrightarrow> slash_free a) \<and>
     (\<forall>a d. v (device_ref a d) \<noteq> None \<longrightarrow> slash_free a \<and> slash_free d) \<and>
     (\<forall>h p. v [''deviceTokens'', h] = Some p \<longrightarrow> names_app p)"

section \<open>The locale\<close>

definition device_room :: "'db platform \<Rightarrow> relay_config \<Rightarrow> 'db server \<Rightarrow> string \<Rightarrow> bool" where
  "device_room P C s a \<longleftrightarrow> int (length (pf_query P (sv_db s) (devices_ref a) Everything)) < cf_max_devices C"

text \<open>An app that registers itself with a new token gives up the pointer of the old one first; the
  registration is complete when its platform is acceptable.\<close>

definition usable_platform :: "'db platform \<Rightarrow> http_request \<Rightarrow> bool" where
  "usable_platform P q \<longleftrightarrow> (\<forall>body. json_body P q = Inr body \<longrightarrow>
     (\<exists>t. bounded_text (pf_repr P) (dget body ''platform'' (JStr ''android'')) ''platform'' 32 = Inr t))"

text \<open>Every registration of an app carries the time it expires.\<close>

definition timed :: "fdoc \<Rightarrow> bool" where
  "timed dd \<longleftrightarrow> (\<exists>t. dd ''expiresAt'' = Some (FTime t))"

locale push_service = firestore P for P :: "'db platform" +
  fixes C :: relay_config and I :: "'db server \<Rightarrow> bool"
  assumes digest: "slash_free (pf_sha P b)"
    and shape: "I s \<Longrightarrow> store_shape (view P s)"
    and quiet: "I s \<Longrightarrow> list_all housekeeping ws \<Longrightarrow> pf_commit P (sv_db s) ws = Inr db \<Longrightarrow> I (s\<lparr>sv_db := db\<rparr>)"
    and forgotten: "I s0 \<Longrightarrow> view P s0 (event_ref site e) = None \<Longrightarrow> I s \<Longrightarrow>
      pf_commit P (sv_db s) [Delete (event_ref site e)] = Inr db \<Longrightarrow> I (s\<lparr>sv_db := db\<rparr>)"
    and memory: "I s \<Longrightarrow> I (s\<lparr>sv_events := w\<rparr>)" "I s \<Longrightarrow> I (s\<lparr>sv_requests := w\<rparr>)" "I s \<Longrightarrow> I (s\<lparr>sv_sent := l\<rparr>)"
    and device_added: "I s \<Longrightarrow> device_room P C s a \<Longrightarrow> slash_free a \<Longrightarrow> slash_free d \<Longrightarrow> dd ''fcmToken'' = None \<Longrightarrow> timed dd \<Longrightarrow>
      pf_commit P (sv_db s) [Create (device_ref a d) dd] = Inr db \<Longrightarrow> I (s\<lparr>sv_db := db\<rparr>)"
    and device_removed: "keeps I (delete_device_registration P a d dev)"
    and registered: "I s \<Longrightarrow> slash_free a \<Longrightarrow> slash_free d \<Longrightarrow> token \<noteq> [] \<Longrightarrow> dd ''fcmToken'' = Some (FStr token) \<Longrightarrow> timed dd \<Longrightarrow>
      view P s (device_ref a d) \<noteq> None \<or> device_room P C s a \<Longrightarrow>
      I (snd (install_token P ck token (device_ref a d) dd s))"
    and reregistered: "I s \<Longrightarrow> view P s (device_ref a d) = Some device \<Longrightarrow> previous = field_text P device ''fcmToken'' [] \<Longrightarrow>
      token \<noteq> [] \<Longrightarrow> dd ''fcmToken'' = Some (FStr token) \<Longrightarrow> timed dd \<Longrightarrow>
      I (snd (then_do (drop_token_pointer P previous (device_ref a d)) (\<lambda>_. install_token P ck token (device_ref a d) dd) s))"
begin

lemma quiet_write: "housekeeping w \<Longrightarrow> keeps I (write_doc P w)"
  by (intro keeps_write keeps_commit) (auto intro: quiet [where ws = "[w]"])

lemma quiet_commit: "list_all housekeeping ws \<Longrightarrow> keeps I (commit P ws)"
  by (intro keeps_commit) (rule quiet)

text \<open>Authentication changes at most the time the Agent was last seen.\<close>

lemma authenticated: "keeps I (authenticate_agent P C ck a q touch)"
  unfolding authenticate_agent_def
  by (intro keeps_intros quiet_write) (simp add: bookkeeping_def bookkeeping_keys_def)

lemma device_authenticated: "keeps I (authenticate_relay_device P ck a d q)"
  unfolding authenticate_relay_device_def by (intro keeps_intros)

lemma replay_protected: "keeps I (require_replay_protected P ck a agent q)"
  unfolding require_replay_protected_def by (intro keeps_intros quiet_commit) simp

section \<open>Counters\<close>

lemma archived: "kind_of r = [''agents''] \<or> kind_of r = [''agents'', ''devices''] \<Longrightarrow> keeps I (archive_usage P ck r d k i today)"
  unfolding archive_usage_def
  by (intro keeps_intros quiet_write) (auto simp: bookkeeping_def bookkeeping_keys_def)

lemma usage_updated: "kind_of r = [''agents''] \<or> kind_of r = [''agents'', ''devices''] \<Longrightarrow> keeps I (usage_update P ck r d k i inc)"
  unfolding usage_update_def Let_def by (intro keeps_intros archived)

lemma report_devices: "keeps I (report_devices P ck today a ds acc)"
proof (induction ds arbitrary: acc)
  case (Cons e ds)
  obtain i d where e: "e = (i, d)" by (cases e)
  obtain x y z u where acc: "acc = (x, y, z, u)" by (cases acc)
  show ?case unfolding e acc report_devices.simps Let_def by (intro keeps_intros archived Cons.IH) simp
qed (simp add: keeps_end)

lemma report_agents: "keeps I (report_agents P ck today xs acc)"
proof (induction xs arbitrary: acc)
  case (Cons e xs)
  obtain i d where e: "e = (i, d)" by (cases e)
  show ?case unfolding e report_agents.simps Let_def by (intro keeps_intros archived Cons.IH report_devices) simp
qed (simp add: keeps_end)

lemma daily_rollups: "keeps I (daily_rollups P ck acc ns)"
proof (induction ns)
  case (Cons n ns)
  show ?case unfolding daily_rollups.simps by (intro keeps_intros Cons.IH)
qed (unfold daily_rollups.simps, intro keeps_intros)

lemma usage_read: "keeps I (relay_usage_route P C ck q)"
  unfolding relay_usage_route_def usage_report_of_def daily_usage_def Let_def
  by (intro keeps_intros report_agents daily_rollups)

lemma bookkeeping_simps [simp]: "bookkeeping (us @ vs) = (bookkeeping us \<and> bookkeeping vs)"
  "bookkeeping (u # us) = (update_key u \<in> set bookkeeping_keys \<and> bookkeeping us)" "bookkeeping []"
  by (auto simp: bookkeeping_def)

lemma usage_bookkeeping: "usage_update P ck r d k i inc s = (Inr us, t) \<Longrightarrow> bookkeeping us"
  by (auto simp: usage_update_def Let_def bookkeeping_def bookkeeping_keys_def elim!: then_do_InrE split: if_splits)

lemma counted:
  assumes "kind_of r = [''agents''] \<or> kind_of r = [''agents'', ''devices'']" and "bookkeeping pre" and "\<And>x. keeps I (f x)"
  shows "keeps I (then_do (usage_update P ck r d k i inc) (\<lambda>us. then_do (write_doc P (Update r (pre @ us))) f))"
proof (rule keeps_then_result [OF usage_updated [OF assms(1)]])
  fix us s t assume "usage_update P ck r d k i inc s = (Inr us, t)" and t: "I t"
  then have "housekeeping (Update r (pre @ us))" using assms(1,2) usage_bookkeeping by simp
  from keepsD [OF keeps_then [OF quiet_write [OF this] assms(3)] t]
  show "I (snd (then_do (write_doc P (Update r (pre @ us))) f t))" .
qed

section \<open>Enrollment\<close>

lemma ticket_created: "keeps I (create_enrollment_ticket_route P C ck r q)"
  unfolding create_enrollment_ticket_route_def Let_def by (intro keeps_intros)

lemma activation_created: "keeps I (create_activation_route P C ck r secret q)"
  unfolding create_activation_route_def agents_with_key_def Let_def by (intro keeps_intros quiet_write) simp

lemma activation_read: "keeps I (activation_status_route P ck i q)"
  unfolding activation_status_route_def Let_def by (intro keeps_intros)

lemma app_created:
  assumes "slash_free a" and "slash_free d"
  shows "keeps I (create_relay_device P C ck a site d token key)"
proof (rule keepsI)
  fix s assume s: "I s"
  let ?dd = "[''siteId'' \<mapsto> FStr site, ''accessTokenHash'' \<mapsto> FStr (sha_text P token)] ++ optional_key key ++
       [''createdAt'' \<mapsto> server_time ck, ''updatedAt'' \<mapsto> server_time ck, ''lastConnectedAt'' \<mapsto> server_time ck,
        ''expiresAt'' \<mapsto> in_days ck 30, ''meaningfulEnabled'' \<mapsto> FBool True, ''activityEnabled'' \<mapsto> FBool True]"
  have none: "?dd ''fcmToken'' = None" "timed ?dd" by (simp_all add: optional_key_def map_add_def timed_def in_days_def)
  have "create_relay_device P C ck a site d token key s =
      (if device_room P C s a then write_doc P (Create (device_ref a d) ?dd) s
       else (Inl (Refused 409 (''This Agent has reached its '' @ show_int (cf_max_devices C) @ ''-app limit'')), s))"
    by (auto simp: create_relay_device_def require_device_capacity_def then_do_assoc Let_def device_room_def)
  then show "I (snd (create_relay_device P C ck a site d token key s))"
    using s device_added [where s = s and dd = ?dd, OF s _ assms none] by (auto simp: write_doc_eq split: sum.split)
qed

lemma claim_existing:
  assumes "slash_free (fst e)" and "slash_free (cr_device R)"
  shows "keeps I (claim_existing P C ck R i key e)"
proof -
  have "slash_free (''device_'' @ cr_device R)" using assms(2) by (simp add: slash_free_def)
  with assms(1) show ?thesis
    unfolding claim_existing_def Let_def
    by (cases e) (auto intro!: keeps_intros quiet_write app_created simp: claiming_def server_time_def)
qed

lemma ticket_use_quiet: "ticket_use P C ck act = Inr ws \<Longrightarrow> list_all housekeeping ws"
  by (auto simp: ticket_use_def Let_def split: if_splits option.splits)

lemma claim_new:
  assumes "slash_free (cr_agent R)" and "slash_free (cr_device R)"
  shows "keeps I (claim_new P C ck R i key body act)"
proof -
  have "slash_free (''device_'' @ cr_device R)" "slash_free (''agent_'' @ cr_agent R)" using assms by (simp_all add: slash_free_def)
  then show ?thesis
    unfolding claim_new_def Let_def
    by (auto intro!: keeps_intros quiet_commit app_created dest: ticket_use_quiet split: option.split
      simp: claiming_def server_time_def)
qed

lemma claimed:
  assumes "slash_free (cr_agent R)" and "slash_free (cr_device R)"
  shows "keeps I (claim_activation_route P C ck R i q)"
proof -
  have c: "keeps I (then_do (agents_with_key P pk) (\<lambda>es. case es of e # _ \<Rightarrow> claim_existing P C ck R i key e
      | [] \<Rightarrow> claim_new P C ck R i key body act))" for pk key body act
  proof (rule keepsI)
    fix s assume s: "I s"
    have sf: "slash_free (fst e)" if "e \<in> set (pf_query P (sv_db s) [''agents''] f)" for e f
    proof -
      obtain i d where e: "e = (i, d)" by (cases e)
      with that query_mem have "pf_get P (sv_db s) (agent_ref i) = Some d" by (simp add: agent_ref_def)
      with shape [OF s] show ?thesis by (simp add: e store_shape_def view_def)
    qed
    show "I (snd (then_do (agents_with_key P pk) (\<lambda>es. case es of e # _ \<Rightarrow> claim_existing P C ck R i key e
        | [] \<Rightarrow> claim_new P C ck R i key body act) s))"
    proof (cases "pf_query P (sv_db s) [''agents''] (FieldIs ''publicKey'' pk)")
      case Nil
      with keepsD [OF claim_new [OF assms] s] show ?thesis by (simp add: agents_with_key_def then_do_assoc)
    next
      case (Cons e es)
      then have "slash_free (fst e)" using sf by (metis list.set_intros(1))
      from keepsD [OF claim_existing [OF this assms(2)] s] Cons show ?thesis by (simp add: agents_with_key_def then_do_assoc)
    qed
  qed
  show ?thesis unfolding claim_activation_route_def Let_def by (intro keeps_intros c)
qed

section \<open>Apps\<close>

lemma authenticated_slash_free:
  assumes "authenticate_agent P C ck a q touch s = (Inr x, t)"
  shows "slash_free a"
proof -
  from assms obtain b where "bounded_identifier (pf_repr P) (JStr a) ''agentId'' = Inr b"
    unfolding authenticate_agent_def by (auto split: sum.splits)
  then have "CHR ''/'' \<notin> set (strip a)"
    using bounded_identifierD(1,4) identifier_no_slash by (metis text_of_str)
  moreover have "CHR ''/'' \<in> set (strip w)" if "CHR ''/'' \<in> set w" for w
  proof -
    have ns: "\<not> is_space (CHR ''/'')" by (simp add: is_space_def code_point_def)
    have d: "CHR ''/'' \<in> set (dropWhile is_space u)" if "CHR ''/'' \<in> set u" for u
      using that ns by (metis Un_iff set_append set_takeWhileD takeWhile_dropWhile_id)
    show ?thesis unfolding strip_def strip_chars_def rstrip_chars_def using d [of "rev (dropWhile is_space w)"] d [of w] that by simp
  qed
  ultimately show ?thesis unfolding slash_free_def by blast
qed

lemma capacity: "keeps I (require_device_capacity P C a)"
  unfolding require_device_capacity_def Let_def require_def by (intro keeps_intros)

lemma capacity_room: "require_device_capacity P C a s = (Inr u, t) \<Longrightarrow> t = s \<and> device_room P C s a"
  by (auto simp: require_device_capacity_def Let_def device_room_def require_def split: if_splits)

lemma registration_token:
  "registration_doc P ck body token = Inr d \<Longrightarrow> d ''fcmToken'' = Some (FStr token)"
  "registration_doc P ck body token = Inr d \<Longrightarrow> timed d"
  by (auto simp: registration_doc_def timed_def in_days_def split: sum.splits)

lemma registration_stored:
  assumes "slash_free a" and "slash_free d" and "token \<noteq> []"
  shows "keeps I (store_registration P C ck a d body agent token)"
proof (rule keepsI)
  fix s assume s: "I s"
  let ?ref = "device_ref a d"
  let ?key = "optional_text (pf_repr P) (jget body ''encryptionPublicKey'') 100"
  have inst: "I (snd (install_token P ck token ?ref (dd(''siteId'' \<mapsto> site) ++ optional_key ?key) s))"
    if "view P s ?ref \<noteq> None \<or> device_room P C s a" and "registration_doc P ck body token = Inr dd" for dd site
    by (rule registered [OF s assms _ _ that(1)])
      (use registration_token [OF that(2)] in \<open>simp_all add: timed_def optional_key_def map_add_def\<close>)
  show "I (snd (store_registration P C ck a d body agent token s))"
  proof (cases "view P s ?ref = None")
    case True
    obtain y u where c: "require_device_capacity P C a s = (y, u)" by force
    with keepsD [OF capacity s, of a] have u: "I u" by simp
    show ?thesis
    proof (cases y)
      case Inl
      with c True u show ?thesis
        by (simp add: store_registration_def Let_def view_def then_do_def [of "require_device_capacity P C a"])
    next
      case (Inr z)
      with capacity_room c have "u = s" "device_room P C s a" by blast+
      with c Inr True s inst show ?thesis
        by (cases "registration_doc P ck body token"; cases "agent ''siteId''")
          (simp_all add: store_registration_def Let_def view_def then_do_def [of "require_device_capacity P C a"])
    qed
  next
    case False
    with s inst show ?thesis
      by (cases "registration_doc P ck body token"; cases "agent ''siteId''")
        (auto simp add: store_registration_def Let_def view_def)
  qed
qed

lemma device_id_slash_free:
  "slash_free (if optional_identifier (pf_repr P) v \<noteq> [] then optional_identifier (pf_repr P) v else sha_text P token)"
  using identifier_no_slash digest
  by (auto simp: optional_identifier_def slash_free_def sha_text_def split: sum.splits dest: bounded_identifierD(4))

lemma device_registered: "keeps I (register_device_route P C ck a q)"
  unfolding register_device_route_def Let_def
proof (rule keeps_then_result [OF authenticated])
  fix x s t assume x: "authenticate_agent P C ck a q True s = (Inr x, t)" and t: "I t"
  obtain body agent where b: "x = (body, agent)" by (cases x)
  from authenticated_slash_free [OF x] t b
  show "I (snd ((case x of (body, agent) \<Rightarrow> then_do (lift (bounded_text (pf_repr P) (jget body ''fcmToken'') ''fcmToken'' 4096))
      (\<lambda>token. then_do (store_registration P C ck a (if optional_identifier (pf_repr P) (jget body ''relayDeviceId'') \<noteq> []
          then optional_identifier (pf_repr P) (jget body ''relayDeviceId'') else sha_text P token) body agent token)
        (\<lambda>_. ret (if optional_identifier (pf_repr P) (jget body ''relayDeviceId'') \<noteq> []
          then optional_identifier (pf_repr P) (jget body ''relayDeviceId'') else sha_text P token)))) t))"
    unfolding b prod.case
    by (intro keepsD [of I] keeps_intros registration_stored device_id_slash_free) (auto dest: bounded_textD(2))
qed

lemma device_authenticated_Inr:
  assumes "authenticate_relay_device P ck a d q s = (Inr (ref, device), t)"
  shows "t = s" and "\<exists>b c. ref = device_ref b c \<and> view P s ref = Some device"
  using assms unfolding authenticate_relay_device_def
  by (auto simp: view_def split: sum.splits option.splits if_splits)

lemma device_reregistered:
  assumes "usable_platform P q"
  shows "keeps I (register_own_device_route P ck a d q)"
  unfolding register_own_device_route_def Let_def
proof (rule keeps_then_result [OF device_authenticated])
  fix x s t assume x: "authenticate_relay_device P ck a d q s = (Inr x, t)" and t: "I t"
  obtain ref device where b: "x = (ref, device)" by (cases x)
  from device_authenticated_Inr [OF x [unfolded b]] obtain e f where
    ts: "t = s" and ref: "ref = device_ref e f" "view P s ref = Some device" by auto
  have fresh: "I (snd (then_do (if field_text P device ''fcmToken'' [] \<noteq> [] \<and> field_text P device ''fcmToken'' [] \<noteq> token
        then drop_token_pointer P (field_text P device ''fcmToken'' []) ref else ret ())
      (\<lambda>_. then_do (lift (registration_doc P ck body token)) (\<lambda>dd. then_do (install_token P ck token ref dd) (\<lambda>_. ret d))) t))"
    if body: "json_body P q = Inr body"
      and token: "bounded_text (pf_repr P) (jget body ''fcmToken'') ''fcmToken'' 4096 = Inr token" for body token
  proof -
    from assms body obtain dd where dd: "registration_doc P ck body token = Inr dd"
      by (fastforce simp: usable_platform_def registration_doc_def split: sum.splits)
    note tok = bounded_textD(2) [OF token] registration_token [OF dd]
    have "view P t (device_ref e f) \<noteq> None" using ref ts by simp
    with shape [OF t] have sf: "slash_free e" "slash_free f" unfolding store_shape_def by blast+
    have snd_ret: "snd (then_do m (\<lambda>_. ret y) u) = snd (m u)" for m :: "('db server, unit) handler" and y :: string and u
      by (simp add: then_do_def split: prod.split sum.split)
    show ?thesis
    proof (cases "field_text P device ''fcmToken'' [] \<noteq> [] \<and> field_text P device ''fcmToken'' [] \<noteq> token")
      case True
      from reregistered [where s = t and a = e and d = f and device = device and dd = dd and ck = ck, OF t _ refl tok] ref ts True dd show ?thesis
        by (simp add: then_do_def [of "drop_token_pointer _ _ _"] snd_ret split: prod.splits sum.splits)
    next
      case False
      from registered [where s = t and a = e and d = f and dd = dd and ck = ck, OF t sf tok] ref ts dd show ?thesis
        unfolding if_not_P [OF False] by (simp add: snd_ret)
    qed
  qed
  show "I (snd ((case x of (ref, device) \<Rightarrow> then_do (lift (json_body P q)) (\<lambda>body.
      then_do (lift (bounded_text (pf_repr P) (jget body ''fcmToken'') ''fcmToken'' 4096)) (\<lambda>token.
      then_do (if field_text P device ''fcmToken'' [] \<noteq> [] \<and> field_text P device ''fcmToken'' [] \<noteq> token
        then drop_token_pointer P (field_text P device ''fcmToken'' []) ref else ret ()) (\<lambda>_.
      then_do (lift (registration_doc P ck body token)) (\<lambda>dd.
      then_do (install_token P ck token ref dd) (\<lambda>_. ret d)))))) t))"
    unfolding b prod.case using t fresh
    by (cases "json_body P q"; cases "bounded_text (pf_repr P) (jget (projr (json_body P q)) ''fcmToken'') ''fcmToken'' 4096") simp_all
qed

lemma devices_listed: "keeps I (list_devices_route P C ck a q)"
  unfolding list_devices_route_def by (intro keeps_intros authenticated)

lemma device_revoked: "keeps I (revoke_device_route P C ck a q)"
  unfolding revoke_device_route_def Let_def by (intro keeps_intros authenticated device_removed)

lemma device_unregistered: "keeps I (remove_device_route P C ck a q)"
  unfolding remove_device_route_def by (intro keeps_intros authenticated device_removed)

lemma device_self_revoked: "keeps I (revoke_own_device_route P a d q)"
  unfolding revoke_own_device_route_def by (intro keeps_intros device_removed)

section \<open>Notifications\<close>

lemma sent: "keeps I (send_multicast P m)"
  by (simp add: keeps_def send_multicast_def Let_def memory)

lemma invalid_removed: "keeps I (remove_invalid_tokens P a ds rs)"
proof (induction ds rs rule: list_induct2')
  case (4 d ds r rs)
  show ?case by (cases d) (simp only: remove_invalid_tokens.simps, intro keeps_intros device_removed 4)
qed (simp_all only: remove_invalid_tokens.simps keeps_end)

lemma status_sent: "keeps I (send_agent_status P ck a title text)"
  unfolding send_agent_status_def by (intro keeps_intros sent invalid_removed)

lemma heartbeat: "keeps I (heartbeat_route P C ck a q)"
  unfolding heartbeat_route_def
  by (intro keeps_prod keeps_then [OF authenticated] keeps_then [OF keeps_if] counted keeps_intros status_sent)
    (simp_all add: bookkeeping_keys_def)

lemma agents_swept: "keeps I (sweep_agents P ck xs)"
proof (induction xs)
  case (Cons x xs)
  show ?case
    by (cases x) (simp only: sweep_agents.simps, intro keeps_intros Cons.IH status_sent quiet_write, simp add: bookkeeping_keys_def)
qed (simp only: sweep_agents.simps keeps_end)

lemma swept: "keeps I (sweep_route P C ck q)"
  unfolding sweep_route_def by (intro keeps_intros agents_swept)

lemma window_consumed: "keeps I (consume_event_window C ck a)"
  by (auto simp: keeps_def consume_event_window_def memory split: prod.split)

lemma event_delivered:
  assumes s0: "I s0" and none: "view P s0 (event_ref site (pe_id e)) = None" and s: "I s"
  shows "I (snd (deliver_event P ck a site e s))"
proof -
  have del: "keeps I (write_doc P (Delete (event_ref site (pe_id e))))"
    by (intro keeps_write keeps_commit) (rule forgotten [OF s0 none])
  have "keeps I (deliver_event P ck a site e)"
    unfolding deliver_event_def by (intro keeps_intros sent invalid_removed del)
  from keepsD [OF this s] show ?thesis .
qed

lemma event_published: "keeps I (publish_event_route P C ck a q)"
proof -
  have "keeps I (then_do (commit P [Create (event_ref site (pe_id e)) (event_doc ck a e)]) (\<lambda>r.
        case r of Some AlreadyExists \<Rightarrow> ret Duplicate | Some NotFound \<Rightarrow> fail Crashed
        | None \<Rightarrow> deliver_event P ck a site e))" for site e
  proof (rule keepsI)
    fix s assume s: "I s"
    let ?w = "Create (event_ref site (pe_id e)) (event_doc ck a e)"
    show "I (snd (then_do (commit P [?w]) (\<lambda>r. case r of Some AlreadyExists \<Rightarrow> ret Duplicate | Some NotFound \<Rightarrow> fail Crashed
        | None \<Rightarrow> deliver_event P ck a site e) s))"
    proof (cases "pf_commit P (sv_db s) [?w]")
      case (Inl x)
      with s show ?thesis by (cases x) (simp_all add: then_do_commit)
    next
      case (Inr db)
      have "view P s (event_ref site (pe_id e)) = None" using write_views(1) [OF Inr] by (simp add: view_def)
      moreover have "I (s\<lparr>sv_db := db\<rparr>)" by (rule quiet [OF s _ Inr]) simp
      ultimately show ?thesis using event_delivered [OF s] Inr by (simp add: then_do_commit)
    qed
  qed
  note core = this
  have "keeps I (case v of FStr site \<Rightarrow> then_do (commit P [Create (event_ref site (pe_id e)) (event_doc ck a e)]) (\<lambda>r.
        case r of Some AlreadyExists \<Rightarrow> ret Duplicate | Some NotFound \<Rightarrow> fail Crashed
        | None \<Rightarrow> deliver_event P ck a site e) | _ \<Rightarrow> fail Crashed)" for v e
    by (cases v) (simp_all only: fval.case keeps_end core)
  then show ?thesis unfolding publish_event_route_def
    by (intro keeps_intros authenticated window_consumed)
qed

section \<open>The Internet relay\<close>

lemma command_completed: "keeps I (complete_command P ck a r)"
  unfolding complete_command_def by (intro keeps_intros quiet_write) simp

lemma commands_delivered: "keeps I (deliver_commands P ck a session cs)"
proof (induction cs)
  case (Cons c cs)
  have w: "keeps I (write_doc P (Merge (command_ref a (fst c)) d))" for d by (rule quiet_write) simp
  show ?case
    by (cases "fate_of P ck c") (simp_all only: deliver_commands.simps command_fate.case keeps_then w Cons.IH keeps_end)
qed (simp only: deliver_commands.simps keeps_end)

lemma frames_exchanged: "keeps I (exchange_frames P C ck a agent body)"
  unfolding exchange_frames_def
  by (intro keeps_lift counted keeps_intros keeps_for_each command_completed commands_delivered) (simp_all add: bookkeeping_keys_def)

lemma exchanged: "keeps I (secure_exchange_route P C ck a q)"
  unfolding secure_exchange_route_def by (intro keeps_intros authenticated replay_protected frames_exchanged)

lemma ping_queued: "keeps I (queue_secure_ping_route P C ck r a q)"
  unfolding queue_secure_ping_route_def by (intro keeps_intros quiet_write) simp

lemma envelope_stored: "keeps I (store_envelope P ck a v)"
proof -
  have c: "keeps I (then_do (usage_update P ck (device_ref a d) x k i inc) (\<lambda>us.
      then_do (write_doc P (Update (device_ref a d) us)) (\<lambda>_. ret True)))" for d x k i inc
    using counted [where pre = "[]" and r = "device_ref a d" and f = "\<lambda>_. ret True"] by (simp del: handler_simps add: keeps_end)
  show ?thesis unfolding store_envelope_def
    by (cases v) (simp_all only: json.case keeps_end, intro keeps_intros quiet_write c, simp)
qed

lemma envelopes_stored: "keeps I (store_envelopes P ck a vs)"
  by (induction vs) (simp_all only: store_envelopes.simps keeps_end, intro keeps_intros envelope_stored)

lemma published_envelopes: "keeps I (publish_envelopes P ck a body)"
  unfolding publish_envelopes_def by (intro keeps_intros envelopes_stored)

lemma snapshots_published: "keeps I (publish_secure_snapshots_route P C ck a q)"
  unfolding publish_secure_snapshots_route_def
  by (intro keeps_intros authenticated replay_protected published_envelopes)

lemma snapshot_read: "keeps I (read_secure_snapshot_route P C ck a d q)"
  unfolding read_secure_snapshot_route_def
proof (rule keeps_then_result [OF device_authenticated])
  fix x s t assume x: "authenticate_relay_device P ck a d q s = (Inr x, t)" and t: "I t"
  obtain ref device where b: "x = (ref, device)" by (cases x)
  from device_authenticated_Inr [OF x [unfolded b]] have k: "kind_of ref = [''agents'', ''devices'']" by auto
  have "keeps I (latest_snapshot P C ck a ref)" unfolding latest_snapshot_def by (intro keeps_intros)
  then have "keeps I (then_do (usage_update P ck ref device ''app'' (a @ ''/'' @ d) [(''remoteSnapshotReads'', 1)]) (\<lambda>us.
      then_do (write_doc P (Update ref ([Put ''lastConnectedAt'' (server_time ck)] @ us))) (\<lambda>_. latest_snapshot P C ck a ref)))"
    using k by (intro counted) (simp_all add: bookkeeping_keys_def)
  from keepsD [OF this t] show "I (snd ((case x of (ref, device) \<Rightarrow>
      then_do (usage_update P ck ref device ''app'' (a @ ''/'' @ d) [(''remoteSnapshotReads'', 1)]) (\<lambda>us.
      then_do (write_doc P (Update ref ([Put ''lastConnectedAt'' (server_time ck)] @ us))) (\<lambda>_. latest_snapshot P C ck a ref))) t))"
    by (simp add: b)
qed

end

section \<open>Runs\<close>

text \<open>One request to the service, whatever the clock, the random values and the request are. The router
  gives path parameters without a slash, and random values are URL-safe text. A self-registration has a
  usable platform.\<close>

inductive served :: "'db platform \<Rightarrow> relay_config \<Rightarrow> 'db server \<Rightarrow> 'db server \<Rightarrow> bool" for P C where
  gate: "served P C s (s\<lparr>sv_requests := snd (bound_public_requests C t0 t1 q (sv_requests s))\<rparr>)"
| usage: "served P C s (snd (relay_usage_route P C ck q s))"
| ticket: "served P C s (snd (create_enrollment_ticket_route P C ck r q s))"
| activation: "served P C s (snd (create_activation_route P C ck r secret q s))"
| claim: "slash_free (cr_agent R) \<Longrightarrow> slash_free (cr_device R) \<Longrightarrow> served P C s (snd (claim_activation_route P C ck R i q s))"
| status: "served P C s (snd (activation_status_route P ck i q s))"
| registration: "served P C s (snd (register_device_route P C ck a q s))"
| self_registration: "usable_platform P q \<Longrightarrow> served P C s (snd (register_own_device_route P ck a d q s))"
| listing: "served P C s (snd (list_devices_route P C ck a q s))"
| revocation: "served P C s (snd (revoke_device_route P C ck a q s))"
| removal: "served P C s (snd (remove_device_route P C ck a q s))"
| self_revocation: "served P C s (snd (revoke_own_device_route P a d q s))"
| heartbeat: "served P C s (snd (heartbeat_route P C ck a q s))"
| sweep: "served P C s (snd (sweep_route P C ck q s))"
| event: "served P C s (snd (publish_event_route P C ck a q s))"
| exchange: "served P C s (snd (secure_exchange_route P C ck a q s))"
| ping: "served P C s (snd (queue_secure_ping_route P C ck r a q s))"
| publication: "served P C s (snd (publish_secure_snapshots_route P C ck a q s))"
| reading: "served P C s (snd (read_secure_snapshot_route P C ck a d q s))"

inductive runs :: "'db platform \<Rightarrow> relay_config \<Rightarrow> 'db server \<Rightarrow> 'db server \<Rightarrow> bool" for P C s where
  here: "runs P C s s"
| further: "runs P C s t \<Longrightarrow> served P C t u \<Longrightarrow> runs P C s u"

context push_service
begin

lemma served_keeps: "served P C s t \<Longrightarrow> I s \<Longrightarrow> I t"
proof (induction rule: served.induct)
  case (gate s t0 t1 q)
  then show ?case by (simp add: memory)
qed (simp_all add: keepsD usage_read ticket_created activation_created claimed activation_read device_registered
  device_reregistered devices_listed device_revoked device_unregistered device_self_revoked heartbeat swept
  event_published exchanged ping_queued snapshots_published snapshot_read)

lemma runs_keep: "runs P C s t \<Longrightarrow> I s \<Longrightarrow> I t"
  by (induction rule: runs.induct) (auto dest: served_keeps)

end

text \<open>The service as it starts: an empty store.\<close>

definition fresh_service :: "'db platform \<Rightarrow> 'db server \<Rightarrow> bool" where
  "fresh_service P s \<longleftrightarrow> pf_get P (sv_db s) = Map.empty"

lemma runs_trans: "runs P C s t \<Longrightarrow> runs P C t u \<Longrightarrow> runs P C s u"
  by (rotate_tac, induction rule: runs.induct) (auto intro: runs.intros)

end
