(* ===== verification/PushInvariants.thy ===== *)
theory PushInvariants
  imports PushLaws
begin

text \<open>
  What the changes of the push relay do to the store, and the properties they keep: the shape of the store,
  records that never go away (nonces, tickets, events, claimed activations, the identity of an Agent), one
  owner for each FCM token, and the number of apps of an Agent.
\<close>

section \<open>Housekeeping\<close>

lemma apply_updates_other: "bookkeeping us \<Longrightarrow> k \<notin> set bookkeeping_keys \<Longrightarrow> apply_updates d us k = d k"
  unfolding apply_updates_def
proof (induction us arbitrary: d)
  case (Cons u us)
  from Cons.prems have "apply_update d u k = d k" by (cases u) (auto simp: Let_def bookkeeping_def)
  with Cons show ?case by (simp add: bookkeeping_def)
qed simp

lemma claiming_claimed: "claiming us \<Longrightarrow> \<exists>t. apply_updates d us ''claimedAt'' = Some (FTime t)"
proof -
  assume "claiming us"
  then obtain t us' where us: "us = Put ''claimedAt'' (FTime t) # us'" "\<forall>u \<in> set us'. update_key u \<in> {''agentId'', ''siteId'', ''reusedAgent''}"
    by (auto simp: claiming_def)
  have "apply_updates d us' ''claimedAt'' = d ''claimedAt''" if "\<forall>u \<in> set us'. update_key u \<in> {''agentId'', ''siteId'', ''reusedAgent''}" for d
    using that unfolding apply_updates_def
  proof (induction us' arbitrary: d)
    case (Cons u us')
    then have "apply_update d u ''claimedAt'' = d ''claimedAt''" by (cases u) (auto simp: Let_def)
    with Cons show ?case by simp
  qed simp
  from this [OF us(2)] us(1) show ?thesis by (simp add: apply_updates_def)
qed

lemma quiet_cases:
  assumes "housekeeping w" and "apply_write w v = Inr v'"
  obtains (new) r d where "v r = None" "v' = v(r \<mapsto> d)"
      "kind_of r \<notin> {[''agents''], [''agents'', ''devices''], [''deviceTokens'']} \<or> (\<exists>a. r = agent_ref a \<and> slash_free a)"
  | (side) r d where "v' = v(r \<mapsto> d)" "kind_of r \<in> {[''usageDaily'', ''entities''],
      [''agents'', ''devices'', ''secureSnapshots''], [''agents'', ''secureCommands'']}"
  | (count) r d us where "v r = Some d" "v' = v(r \<mapsto> apply_updates d us)" "bookkeeping us"
      "kind_of r \<in> {[''agents''], [''agents'', ''devices'']}"
  | (claim) r d us where "v r = Some d" "v' = v(r \<mapsto> apply_updates d us)" "claiming us" "kind_of r = [''activations'']"
proof (cases w)
  case (Create r d)
  with assms show ?thesis by (intro new [of r d]) (auto split: if_splits)
next
  case (SetDoc r d)
  with assms show ?thesis by (intro side [of r d]) auto
next
  case (Merge r d)
  with assms show ?thesis by (intro side [of r "case v r of None \<Rightarrow> d | Some e \<Rightarrow> e ++ d"]) auto
next
  case (Update r us)
  with assms obtain d where d: "v r = Some d" "v' = v(r \<mapsto> apply_updates d us)" by (auto split: option.splits)
  from assms(1) Update have "bookkeeping us \<and> kind_of r \<in> {[''agents''], [''agents'', ''devices'']} \<or>
      claiming us \<and> kind_of r = [''activations'']" by auto
  then show ?thesis using count [OF d] claim [OF d] by blast
qed (use assms in simp)

lemma quiet_other:
  assumes "housekeeping w" and "apply_write w v = Inr v'"
  shows quiet_pointer: "kind_of r = [''deviceTokens''] \<Longrightarrow> v' r = v r"
    and quiet_record: "kind_of r \<in> {[''agents''], [''agents'', ''devices'']} \<Longrightarrow> v r = Some d \<Longrightarrow>
      \<exists>us. bookkeeping us \<and> v' r = Some (apply_updates d us)"
    and quiet_device: "kind_of r = [''agents'', ''devices''] \<Longrightarrow> v r = None \<Longrightarrow> v' r = None"
    and quiet_agent: "v (agent_ref a) = None \<Longrightarrow> v' (agent_ref a) \<noteq> None \<Longrightarrow> slash_free a"
    and quiet_exists: "v r \<noteq> None \<Longrightarrow> v' r \<noteq> None"
    and quiet_activation: "kind_of r = [''activations''] \<Longrightarrow> v r = Some d \<Longrightarrow> v' r = Some d \<or> (\<exists>us. claiming us \<and> v' r = Some (apply_updates d us))"
proof -
  have nil: "bookkeeping [] \<and> apply_updates d [] = d" for d by (simp add: apply_updates_def bookkeeping_def)
  show "kind_of r = [''deviceTokens''] \<Longrightarrow> v' r = v r" using assms by (cases rule: quiet_cases) auto
  show "kind_of r \<in> {[''agents''], [''agents'', ''devices'']} \<Longrightarrow> v r = Some d \<Longrightarrow>
      \<exists>us. bookkeeping us \<and> v' r = Some (apply_updates d us)"
    using assms
  proof (cases rule: quiet_cases)
    case (count r' d' us)
    assume "v r = Some d"
    with count nil show ?thesis by (intro exI [of _ "if r = r' then us else []"]) auto
  next
    case (new r' d')
    assume "v r = Some d" "kind_of r \<in> {[''agents''], [''agents'', ''devices'']}"
    with new nil show ?thesis by (intro exI [of _ "[]"]) auto
  qed (use nil in \<open>auto intro!: exI [of _ "[]"]\<close>)
  show "kind_of r = [''agents'', ''devices''] \<Longrightarrow> v r = None \<Longrightarrow> v' r = None" using assms by (cases rule: quiet_cases) auto
  show "v (agent_ref a) = None \<Longrightarrow> v' (agent_ref a) \<noteq> None \<Longrightarrow> slash_free a"
    using assms by (cases rule: quiet_cases) (auto split: if_splits)
  show "v r \<noteq> None \<Longrightarrow> v' r \<noteq> None" using assms by (cases rule: quiet_cases) auto
  show "kind_of r = [''activations''] \<Longrightarrow> v r = Some d \<Longrightarrow> v' r = Some d \<or> (\<exists>us. claiming us \<and> v' r = Some (apply_updates d us))"
    using assms by (cases rule: quiet_cases) auto
qed

text \<open>A property kept by every housekeeping write is kept by a batch of them.\<close>

lemma quiet_batch:
  assumes "list_all housekeeping ws" and "apply_writes ws v = Inr v'" and "J v"
    and step: "\<And>w v v'. housekeeping w \<Longrightarrow> apply_write w v = Inr v' \<Longrightarrow> J v \<Longrightarrow> J v'"
  shows "J v'"
  using assms(1-3)
proof (induction ws arbitrary: v)
  case (Cons w ws)
  then show ?case by (auto split: sum.splits dest: step)
qed simp

lemma store_shapeI:
  assumes "\<And>a. v (agent_ref a) \<noteq> None \<Longrightarrow> slash_free a"
    and "\<And>a d. v (device_ref a d) \<noteq> None \<Longrightarrow> slash_free a \<and> slash_free d"
    and "\<And>h p. v [''deviceTokens'', h] = Some p \<Longrightarrow> names_app p"
  shows "store_shape v"
  unfolding store_shape_def by (intro conjI allI impI) (rule assms(1), assumption, erule assms(2) [THEN conjunct1],
    erule assms(2) [THEN conjunct2], erule assms(3))

lemma store_shapeD:
  assumes "store_shape v"
  shows "v (agent_ref a) \<noteq> None \<Longrightarrow> slash_free a"
    and "v (device_ref a d) \<noteq> None \<Longrightarrow> slash_free a" and "v (device_ref a d) \<noteq> None \<Longrightarrow> slash_free d"
    and "v [''deviceTokens'', h] = Some p \<Longrightarrow> names_app p"
proof -
  note a = assms [unfolded store_shape_def]
  show "v (agent_ref a) \<noteq> None \<Longrightarrow> slash_free a" by (rule a [THEN conjunct1, rule_format])
  show "v (device_ref a d) \<noteq> None \<Longrightarrow> slash_free a" "v (device_ref a d) \<noteq> None \<Longrightarrow> slash_free d"
    using a [THEN conjunct2, THEN conjunct1, rule_format, of a d] by simp_all
  show "v [''deviceTokens'', h] = Some p \<Longrightarrow> names_app p"
    by (rule a [THEN conjunct2, THEN conjunct2, rule_format])
qed

lemma shape_quiet:
  assumes "housekeeping w" and "apply_write w v = Inr v'" and "store_shape v"
  shows "store_shape v'"
proof (rule store_shapeI)
  note q = assms(1,2)
  show "slash_free a" if "v' (agent_ref a) \<noteq> None" for a
  proof (cases "v (agent_ref a) = None")
    case True
    from quiet_agent [OF q True that] show ?thesis .
  qed (rule store_shapeD(1) [OF assms(3)])
  show "slash_free a \<and> slash_free d" if "v' (device_ref a d) \<noteq> None" for a d
  proof (cases "v (device_ref a d) = None")
    case True
    from quiet_device [OF q _ True] that show ?thesis by simp
  qed (use store_shapeD(2,3) [OF assms(3)] in simp)
  show "names_app p"
    if "v' [''deviceTokens'', h] = Some p" for h p
    using that quiet_pointer [OF q, of "[''deviceTokens'', h]"] store_shapeD(4) [OF assms(3)] by simp
qed

section \<open>Registrations\<close>

locale digest_store = firestore P for P :: "'db platform" +
  assumes digest: "slash_free (pf_sha P b)"
begin

lemma write_effects:
  "write_doc P (Merge r d) s = (Inr (), snd (write_doc P (Merge r d) s))"
  "write_doc P (SetDoc r d) s = (Inr (), snd (write_doc P (SetDoc r d) s))"
  "write_doc P (Delete r) s = (Inr (), snd (write_doc P (Delete r) s))"
  using write_succeeds(2) [of "sv_db s" r d] write_succeeds(3) [of "sv_db s" r d] write_succeeds(5) [of "sv_db s" r]
  by (auto simp: write_doc_eq)

lemma fst_writes [simp]: "fst (write_doc P (Merge r d) s) = Inr ()" "fst (write_doc P (SetDoc r d) s) = Inr ()"
  "fst (write_doc P (Delete r) s) = Inr ()"
  by (metis write_effects fst_conv)+

lemma view_writes [simp]:
  "view P (snd (write_doc P (Merge r d) s)) = (view P s)(r \<mapsto> (case view P s r of None \<Rightarrow> d | Some e \<Rightarrow> e ++ d))"
  "view P (snd (write_doc P (SetDoc r d) s)) = (view P s)(r \<mapsto> d)"
  "view P (snd (write_doc P (Delete r) s)) = (view P s)(r := None)"
proof -
  obtain db1 where "pf_commit P (sv_db s) [Merge r d] = Inr db1" using write_succeeds(3) by blast
  from this write_views(3) [OF this]
  show "view P (snd (write_doc P (Merge r d) s)) = (view P s)(r \<mapsto> (case view P s r of None \<Rightarrow> d | Some e \<Rightarrow> e ++ d))"
    by (simp add: write_doc_eq view_def)
  obtain db2 where "pf_commit P (sv_db s) [SetDoc r d] = Inr db2" using write_succeeds(2) by blast
  from this write_views(2) [OF this] show "view P (snd (write_doc P (SetDoc r d) s)) = (view P s)(r \<mapsto> d)"
    by (simp add: write_doc_eq view_def)
  obtain db3 where "pf_commit P (sv_db s) [Delete r] = Inr db3" using write_succeeds(5) by blast
  from this write_views(5) [OF this] show "view P (snd (write_doc P (Delete r) s)) = (view P s)(r := None)"
    by (simp add: write_doc_eq view_def)
qed

lemma then_write [simp]:
  "then_do (write_doc P (Merge r d)) f s = f () (snd (write_doc P (Merge r d) s))"
  "then_do (write_doc P (SetDoc r d)) f s = f () (snd (write_doc P (SetDoc r d) s))"
  "then_do (write_doc P (Delete r)) f s = f () (snd (write_doc P (Delete r) s))"
  by (subst then_do_def, subst write_effects, simp)+

lemma then_do_if: "then_do (\<lambda>u. (if b u then m else n) u) f s = (if b s then then_do m f s else then_do n f s)"
  by (simp add: then_do_def)

lemma fetch_view: "then_do (fetch P r) f s = f (view P s r) s"
  by (simp add: view_def)

end

text \<open>What an ownership pointer says, what removing an app does, and what registering a token does.\<close>

definition owner_path :: "'db platform \<Rightarrow> fview \<Rightarrow> string \<Rightarrow> string" where
  "owner_path P v token = (case v (token_ref P token) of None \<Rightarrow> [] | Some p \<Rightarrow> field_text P p ''devicePath'' [])"

definition without_pointer :: "'db platform \<Rightarrow> string \<Rightarrow> fref \<Rightarrow> fview \<Rightarrow> fview" where
  "without_pointer P token ref v = (if v (token_ref P token) \<noteq> None \<and> owner_path P v token = ref_path ref
     then v(token_ref P token := None) else v)"

definition without_device :: "'db platform \<Rightarrow> fref \<Rightarrow> string \<Rightarrow> fview \<Rightarrow> fview" where
  "without_device P ref token v = (if token = [] then v(ref := None) else without_pointer P token ref (v(ref := None)))"

definition merged :: "fref \<Rightarrow> fdoc \<Rightarrow> fview \<Rightarrow> fview" where
  "merged ref dd v = v(ref \<mapsto> (case v ref of None \<Rightarrow> dd | Some e \<Rightarrow> e ++ dd))"

definition claimed_by :: "'db platform \<Rightarrow> clock \<Rightarrow> string \<Rightarrow> fref \<Rightarrow> fview \<Rightarrow> fview" where
  "claimed_by P ck token ref v =
    (let path = owner_path P v token;
         v' = (if path \<noteq> [] \<and> path \<noteq> ref_path ref then v(path_ref path := None) else v)
     in v'(token_ref P token \<mapsto> [''devicePath'' \<mapsto> FStr (ref_path ref), ''updatedAt'' \<mapsto> server_time ck]))"

lemma pointer_shape:
  assumes "store_shape v" and "v (token_ref P token) = Some p"
  obtains a d where "slash_free a" "slash_free d" "owner_path P v token = ref_path (device_ref a d)"
    "path_ref (owner_path P v token) = device_ref a d"
proof -
  from assms obtain a d where ad: "slash_free a" "slash_free d" "p ''devicePath'' = Some (FStr (ref_path (device_ref a d)))"
    unfolding token_ref_def using store_shapeD(4) by (metis names_app_def)
  then have o: "owner_path P v token = ref_path (device_ref a d)" using assms(2) by (simp add: owner_path_def field_text_def)
  show thesis by (rule that [OF ad(1,2) o]) (simp add: o path_ref_device ad)
qed

context digest_store
begin

lemma drop_pointer_view:
  "fst (drop_token_pointer P token ref s) = Inr ()"
  "view P (snd (drop_token_pointer P token ref s)) = without_pointer P token ref (view P s)"
  unfolding drop_token_pointer_def fetch_view
  by (auto simp: without_pointer_def owner_path_def split: option.split)

lemma delete_view:
  obtains token where "fst (delete_device_registration P a d dev s) = Inr ()"
    "view P (snd (delete_device_registration P a d dev s)) = without_device P (device_ref a d) token (view P s)"
proof -
  define D where "D = (case dev of Some D \<Rightarrow> D | None \<Rightarrow> (case view P s (device_ref a d) of None \<Rightarrow> Map.empty | Some D \<Rightarrow> D))"
  have e: "delete_device_registration P a d dev s = (if field_text P D ''fcmToken'' [] = [] then ret () else
      drop_token_pointer P (field_text P D ''fcmToken'' []) (device_ref a d)) (snd (write_doc P (Delete (device_ref a d)) s))"
    by (cases dev) (simp_all add: delete_device_registration_def then_do_assoc fetch_view D_def Let_def view_def [symmetric])
  show thesis
    by (rule that [of "field_text P D ''fcmToken'' []"]) (simp_all add: e without_device_def drop_pointer_view)
qed

lemma install_view:
  assumes "store_shape (view P s)" and "slash_free a" and "slash_free d"
  shows "fst (install_token P ck token (device_ref a d) dd s) = Inr ()"
    and "view P (snd (install_token P ck token (device_ref a d) dd s)) = claimed_by P ck token (device_ref a d) (merged (device_ref a d) dd (view P s))"
proof -
  let ?ref = "device_ref a d"
  define t where "t = snd (write_doc P (Merge ?ref dd) s)"
  have vt: "view P t = merged ?ref dd (view P s)" by (simp add: t_def merged_def)
  have tk: "view P t (token_ref P token) = view P s (token_ref P token)"
    by (simp add: vt merged_def token_ref_def device_ref_def)
  have e: "install_token P ck token ?ref dd s = claim_token P ck token ?ref t"
    by (simp add: install_token_def t_def)
  have "fst (claim_token P ck token ?ref t) = Inr () \<and>
      view P (snd (claim_token P ck token ?ref t)) = claimed_by P ck token ?ref (view P t)"
  proof (cases "view P t (token_ref P token)")
    case None
    then show ?thesis unfolding claim_token_def fetch_view by (simp add: claimed_by_def owner_path_def)
  next
    case (Some p)
    then obtain b e where o: "slash_free b" "slash_free e" "owner_path P (view P s) token = ref_path (device_ref b e)"
      using tk pointer_shape [OF assms(1)] by metis
    have op: "owner_path P (view P t) token = ref_path (device_ref b e)" using o(3) tk by (simp add: owner_path_def)
    then have path: "field_text P p ''devicePath'' [] = ref_path (device_ref b e)" using Some by (simp add: owner_path_def)
    have even: "even (length (device_ref b e))" by (simp add: device_ref_def)
    have none: "(view P t)(device_ref b e := None) = view P t" if "view P t (device_ref b e) = None" using that by auto
    show ?thesis unfolding claim_token_def fetch_view Some option.case Let_def path path_ref_device [OF o(1,2)]
      using even none
      by (auto simp: claimed_by_def op Let_def path_ref_device [OF o(1,2)] fetch_view then_do_assoc then_do_if split: option.split)
  qed
  then show "fst (install_token P ck token ?ref dd s) = Inr ()"
    "view P (snd (install_token P ck token ?ref dd s)) = claimed_by P ck token ?ref (merged ?ref dd (view P s))"
    unfolding e vt by simp_all
qed

end

section \<open>The shape is kept\<close>

lemma shape_delete: "store_shape v \<Longrightarrow> store_shape (v(r := None))"
  by (rule store_shapeI) (auto dest: store_shapeD split: if_splits)

lemma shape_pointer:
  assumes "store_shape v" and "names_app p"
  shows "store_shape (v(token_ref P token \<mapsto> p))"
proof (rule store_shapeI)
  show "slash_free a" if "(v(token_ref P token \<mapsto> p)) (agent_ref a) \<noteq> None" for a
    using that store_shapeD(1) [OF assms(1)] by (simp add: token_ref_def agent_ref_def)
  show "slash_free a \<and> slash_free d" if "(v(token_ref P token \<mapsto> p)) (device_ref a d) \<noteq> None" for a d
    using that store_shapeD(2,3) [OF assms(1)] by (simp add: token_ref_def device_ref_def)
  show "names_app p'" if "(v(token_ref P token \<mapsto> p)) [''deviceTokens'', h] = Some p'" for h p'
    using that store_shapeD(4) [OF assms(1)] assms(2) by (auto split: if_splits)
qed

lemma shape_device:
  assumes "store_shape v" and "slash_free a" and "slash_free d"
  shows "store_shape (v(device_ref a d \<mapsto> dd))"
proof (rule store_shapeI)
  show "slash_free b" if "(v(device_ref a d \<mapsto> dd)) (agent_ref b) \<noteq> None" for b
    using that store_shapeD(1) [OF assms(1)] by (simp add: device_ref_def agent_ref_def)
  show "slash_free b \<and> slash_free e" if "(v(device_ref a d \<mapsto> dd)) (device_ref b e) \<noteq> None" for b e
    using that store_shapeD(2,3) [OF assms(1)] assms(2,3) by (auto split: if_splits)
  show "names_app p" if "(v(device_ref a d \<mapsto> dd)) [''deviceTokens'', h] = Some p" for h p
    using that store_shapeD(4) [OF assms(1)] by (simp add: device_ref_def)
qed

lemma shape_without: "store_shape v \<Longrightarrow> store_shape (without_pointer P token ref v)"
  "store_shape v \<Longrightarrow> store_shape (without_device P ref token v)"
  by (simp_all add: without_pointer_def without_device_def shape_delete)

lemma shape_merged: "store_shape v \<Longrightarrow> slash_free a \<Longrightarrow> slash_free d \<Longrightarrow> store_shape (merged (device_ref a d) dd v)"
  unfolding merged_def by (rule shape_device)

lemma shape_claimed:
  assumes "store_shape v" and "slash_free a" and "slash_free d"
  shows "store_shape (claimed_by P ck token (device_ref a d) v)"
proof -
  have "store_shape (if owner_path P v token \<noteq> [] \<and> owner_path P v token \<noteq> ref_path (device_ref a d) then v(path_ref (owner_path P v token) := None) else v)"
    using assms(1) shape_delete by simp
  then show ?thesis unfolding claimed_by_def Let_def by (rule shape_pointer) (use assms(2,3) in \<open>auto simp: names_app_def\<close>)
qed

section \<open>What registrations do not touch\<close>

definition registry_ref :: "fref \<Rightarrow> bool" where
  "registry_ref r \<longleftrightarrow> kind_of r \<in> {[''agents'', ''devices''], [''deviceTokens'']}"

lemma registry_refs [simp]: "registry_ref (device_ref a d)" "registry_ref (token_ref P token)" "\<not> registry_ref (agent_ref a)"
  "\<not> registry_ref (activation_ref i)" "\<not> registry_ref (event_ref site e)" "\<not> registry_ref (nonce_ref a n)"
  "\<not> registry_ref (command_ref a c)"
  by (simp_all add: registry_ref_def)

lemma without_other: "registry_ref ref \<Longrightarrow> \<not> registry_ref r \<Longrightarrow> without_pointer P token ref v r = v r"
  "registry_ref ref \<Longrightarrow> \<not> registry_ref r \<Longrightarrow> without_device P ref token v r = v r"
  by (auto simp: without_pointer_def without_device_def)

lemma merged_other: "registry_ref ref \<Longrightarrow> \<not> registry_ref r \<Longrightarrow> merged ref dd v r = v r"
  by (auto simp: merged_def)

lemma owner_ref:
  assumes "store_shape v" and "owner_path P v token \<noteq> []"
  obtains a d where "slash_free a" "slash_free d" "owner_path P v token = ref_path (device_ref a d)"
    "path_ref (owner_path P v token) = device_ref a d"
proof -
  from assms(2) obtain p where "v (token_ref P token) = Some p" by (auto simp: owner_path_def split: option.splits)
  from pointer_shape [OF assms(1) this] that show thesis by blast
qed

lemma claimed_other:
  assumes "store_shape v" and "registry_ref ref" and "\<not> registry_ref r"
  shows "claimed_by P ck token ref v r = v r"
proof (cases "owner_path P v token = []")
  case True
  with assms(2,3) show ?thesis by (auto simp: claimed_by_def)
next
  case False
  obtain a d where "path_ref (owner_path P v token) = device_ref a d" using owner_ref [OF assms(1) False] by blast
  with assms(2,3) show ?thesis by (auto simp: claimed_by_def Let_def)
qed

lemma event_other: "registry_ref r \<Longrightarrow> (v(event_ref site e := None)) r = v r"
  by auto

section \<open>Records beside the registrations\<close>

context digest_store
begin

text \<open>The steps of the service as changes of the view.\<close>

lemma then_drop: "then_do (drop_token_pointer P token ref) f s = f () (snd (drop_token_pointer P token ref s))"
  using drop_pointer_view(1) [of token ref s] by (cases "drop_token_pointer P token ref s") (simp add: then_do_def)

lemma reinstall_view:
  assumes "store_shape (view P s)" and "slash_free a" and "slash_free d"
  shows "view P (snd (then_do (drop_token_pointer P previous (device_ref a d)) (\<lambda>_. install_token P ck token (device_ref a d) dd) s))
    = claimed_by P ck token (device_ref a d) (merged (device_ref a d) dd (without_pointer P previous (device_ref a d) (view P s)))"
  unfolding then_drop using install_view(2) [of "snd (drop_token_pointer P previous (device_ref a d) s)" a d]
  by (simp add: drop_pointer_view assms shape_without)

lemma view_create: "pf_commit P (sv_db s) [Create r d] = Inr db \<Longrightarrow> view P s r = None \<and> pf_get P db = (view P s)(r \<mapsto> d)"
  using write_views(1) by (simp add: view_def)

lemma view_delete: "pf_commit P (sv_db s) [Delete r] = Inr db \<Longrightarrow> pf_get P db = (view P s)(r := None)"
  using write_views(5) by (simp add: view_def)

lemma shape_batch: "store_shape (view P s) \<Longrightarrow> list_all housekeeping ws \<Longrightarrow> pf_commit P (sv_db s) ws = Inr db \<Longrightarrow> store_shape (pf_get P db)"
  using quiet_batch [of ws "view P s" "pf_get P db" store_shape] shape_quiet commit_Inr by (simp add: view_def)

end

section \<open>Properties of the store\<close>

text \<open>How many apps an Agent has, and whether there is room for one more.\<close>

definition apps :: "fview \<Rightarrow> string \<Rightarrow> string set" where
  "apps v a = {d. v (device_ref a d) \<noteq> None}"

definition room :: "relay_config \<Rightarrow> fview \<Rightarrow> string \<Rightarrow> bool" where
  "room C v a \<longleftrightarrow> int (card (apps v a)) < cf_max_devices C"

context digest_store
begin

lemma apps_query: "apps (view P s) a = fst ` set (pf_query P (sv_db s) (devices_ref a) Everything)"
  by (force simp: apps_def view_def query_set)

lemma finite_apps [simp]: "finite (apps (view P s) a)"
  by (simp add: apps_query)

lemma card_apps: "card (apps (view P s) a) = length (pf_query P (sv_db s) (devices_ref a) Everything)"
  unfolding apps_query using distinct_card [OF query_distinct] by (metis length_map set_map)

lemma device_room_iff: "device_room P C s a \<longleftrightarrow> room C (view P s) a"
  by (simp add: device_room_def room_def card_apps)

end

text \<open>A property of the store that survives housekeeping, a forgotten event, a new app, a removed app and a
  registered token survives every request.\<close>

locale registry_invariant = digest_store P for P :: "'db platform" +
  fixes C :: relay_config and J :: "fview \<Rightarrow> bool"
  assumes J_quiet: "housekeeping w \<Longrightarrow> apply_write w v = Inr v' \<Longrightarrow> J v \<Longrightarrow> J v'"
    and J_forgotten: "J v0 \<Longrightarrow> v0 (event_ref site e) = None \<Longrightarrow> J v \<Longrightarrow> J (v(event_ref site e := None))"
    and J_added: "J v \<Longrightarrow> v (device_ref a d) = None \<Longrightarrow> room C v a \<Longrightarrow> dd ''fcmToken'' = None \<Longrightarrow> timed dd \<Longrightarrow>
      J (v(device_ref a d \<mapsto> dd))"
    and J_removed: "J v \<Longrightarrow> store_shape v \<Longrightarrow> J (without_device P (device_ref a d) token v)"
    and J_registered: "J v \<Longrightarrow> store_shape v \<Longrightarrow> slash_free a \<Longrightarrow> slash_free d \<Longrightarrow> token \<noteq> [] \<Longrightarrow>
      dd ''fcmToken'' = Some (FStr token) \<Longrightarrow> timed dd \<Longrightarrow> v (device_ref a d) \<noteq> None \<or> room C v a \<Longrightarrow>
      J (claimed_by P ck token (device_ref a d) (merged (device_ref a d) dd v))"
    and J_reregistered: "J v \<Longrightarrow> store_shape v \<Longrightarrow> slash_free a \<Longrightarrow> slash_free d \<Longrightarrow> token \<noteq> [] \<Longrightarrow>
      dd ''fcmToken'' = Some (FStr token) \<Longrightarrow> timed dd \<Longrightarrow> v (device_ref a d) = Some device \<Longrightarrow>
      J (claimed_by P ck token (device_ref a d) (merged (device_ref a d) dd
        (without_pointer P (field_text P device ''fcmToken'' []) (device_ref a d) v)))"

sublocale registry_invariant \<subseteq> service: push_service P C "\<lambda>s. store_shape (view P s) \<and> J (view P s)"
proof
  let ?I = "\<lambda>s. store_shape (view P s) \<and> J (view P s)"
  show "?I (s\<lparr>sv_db := db\<rparr>)"
    if "?I s" "list_all housekeeping ws" "pf_commit P (sv_db s) ws = Inr db" for s ws db
    using that shape_batch [of s ws db] quiet_batch [of ws "view P s" "pf_get P db" J] J_quiet commit_Inr [OF that(3)]
    by (simp add: view_def)
  show "?I (s\<lparr>sv_db := db\<rparr>)"
    if "?I s0" "view P s0 (event_ref site e) = None" "?I s" "pf_commit P (sv_db s) [Delete (event_ref site e)] = Inr db" for s0 site e s db
    using that view_delete [OF that(4)] J_forgotten shape_delete by auto
  show "?I (s\<lparr>sv_db := db\<rparr>)"
    if "?I s" "device_room P C s a" "slash_free a" "slash_free d" "dd ''fcmToken'' = None" "timed dd"
      "pf_commit P (sv_db s) [Create (device_ref a d) dd] = Inr db" for s a d dd db
    using that view_create [OF that(7)] J_added shape_device by (simp add: device_room_iff)
  show "keeps ?I (delete_device_registration P a d dev)" for a d dev
  proof (rule keepsI)
    fix s assume s: "?I s"
    obtain token where "view P (snd (delete_device_registration P a d dev s)) = without_device P (device_ref a d) token (view P s)"
      by (rule delete_view)
    with s J_removed show "?I (snd (delete_device_registration P a d dev s))" by (simp add: shape_without)
  qed
  show "?I (snd (install_token P ck token (device_ref a d) dd s))"
    if "?I s" "slash_free a" "slash_free d" "token \<noteq> []" "dd ''fcmToken'' = Some (FStr token)" "timed dd"
      "view P s (device_ref a d) \<noteq> None \<or> device_room P C s a" for s a d ck token dd
    using that J_registered [of "view P s" a d token dd ck] by (simp add: install_view shape_claimed shape_merged device_room_iff)
  show "?I (snd (then_do (drop_token_pointer P previous (device_ref a d)) (\<lambda>_. install_token P ck token (device_ref a d) dd) s))"
    if s: "?I s" and v: "view P s (device_ref a d) = Some device" and p: "previous = field_text P device ''fcmToken'' []"
      and t: "token \<noteq> []" "dd ''fcmToken'' = Some (FStr token)" "timed dd" for s a d device previous ck token dd
  proof -
    have "slash_free a" "slash_free d" using store_shapeD(2,3) [of "view P s" a d] s v by simp_all
    with s t v J_reregistered [of "view P s" a d token dd device ck] show ?thesis
      by (simp add: p reinstall_view shape_claimed shape_merged shape_without)
  qed
qed (simp_all add: digest)

text \<open>A property of the records that are not registrations, kept by housekeeping and by forgetting an event
  that was not there, is kept by every request.\<close>

locale record_invariant = digest_store P for P :: "'db platform" +
  fixes J :: "fview \<Rightarrow> bool"
  assumes local: "J v \<Longrightarrow> (\<And>r. \<not> registry_ref r \<Longrightarrow> v' r = v r) \<Longrightarrow> J v'"
    and J_quiet: "housekeeping w \<Longrightarrow> apply_write w v = Inr v' \<Longrightarrow> J v \<Longrightarrow> J v'"
    and J_forgotten: "J v0 \<Longrightarrow> v0 (event_ref site e) = None \<Longrightarrow> J v \<Longrightarrow> J (v(event_ref site e := None))"

sublocale record_invariant \<subseteq> records: registry_invariant P C J for C
proof
  note l = local
  show "J (v(device_ref a d \<mapsto> dd))" if "J v" for v a d dd
    using that by (rule l) auto
  show "J (without_device P (device_ref a d) token v)" if "J v" for v a d token
    using that by (rule l) (simp add: without_other)
  show "J (claimed_by P ck token (device_ref a d) (merged (device_ref a d) dd v))"
    if "J v" "store_shape v" "slash_free a" "slash_free d" for v a d ck token dd
    using that(1) by (rule l) (simp add: that claimed_other merged_other shape_merged)
  show "J (claimed_by P ck token (device_ref a d) (merged (device_ref a d) dd
      (without_pointer P (field_text P device ''fcmToken'' []) (device_ref a d) v)))"
    if "J v" "store_shape v" "slash_free a" "slash_free d" for v a d ck token dd device
    using that(1) by (rule l) (simp add: that claimed_other merged_other without_other shape_merged shape_without)
qed (fact J_quiet J_forgotten)+

end
