(* ===== verification/PushRecords.thy ===== *)
theory PushRecords
  imports PushInvariants
begin

text \<open>
  Records of the push relay that stay: a nonce, a used ticket and a delivered event are never forgotten, a
  claimed activation stays claimed and an Agent keeps its key and its site. So a secure request, an
  activation, a ticket and an event are each good for one use.
\<close>

section \<open>What stays\<close>

definition permanent :: "fref \<Rightarrow> bool" where
  "permanent r \<longleftrightarrow> kind_of r \<in> {[''agents'', ''secureNonces''], [''enrollmentTickets''], [''sites'', ''events'']}"

lemma permanent_refs [simp]: "permanent (nonce_ref a n)" "permanent (event_ref site e)" "permanent [''enrollmentTickets'', k]"
  by (simp_all add: permanent_def)

lemma permanent_not_registry: "permanent r \<Longrightarrow> \<not> registry_ref r"
  by (auto simp: permanent_def registry_ref_def)

definition used_up :: "string \<Rightarrow> fview \<Rightarrow> bool" where
  "used_up i v \<longleftrightarrow> (\<exists>d. v (activation_ref i) = Some d \<and> field_true d ''claimedAt'' False)"

definition identity :: "string \<Rightarrow> fval option \<Rightarrow> fval option \<Rightarrow> fview \<Rightarrow> bool" where
  "identity a key site v \<longleftrightarrow> (\<exists>d. v (agent_ref a) = Some d \<and> d ''publicKey'' = key \<and> d ''siteId'' = site)"

sublocale digest_store \<subseteq> kept: record_invariant P "\<lambda>v. permanent r \<longrightarrow> v r \<noteq> None" for r
proof
  show "permanent r \<longrightarrow> v' r \<noteq> None" if "permanent r \<longrightarrow> v r \<noteq> None" "\<And>r. \<not> registry_ref r \<Longrightarrow> v' r = v r" for v v' :: fview
    using that permanent_not_registry by metis
  show "permanent r \<longrightarrow> v' r \<noteq> None" if "housekeeping w" "apply_write w v = Inr v'" "permanent r \<longrightarrow> v r \<noteq> None" for w v v'
    using that quiet_exists by blast
  show "permanent r \<longrightarrow> (v(event_ref site e := None)) r \<noteq> None"
    if "permanent r \<longrightarrow> v0 r \<noteq> None" "v0 (event_ref site e) = None" "permanent r \<longrightarrow> v r \<noteq> None" for v0 v :: fview and site e
    using that by auto
qed

sublocale digest_store \<subseteq> claims: record_invariant P "used_up i" for i
proof
  show "used_up i v'" if "used_up i v" "\<And>r. \<not> registry_ref r \<Longrightarrow> v' r = v r" for v v'
    using that by (simp add: used_up_def)
  show "used_up i v'" if q: "housekeeping w" "apply_write w v = Inr v'" and u: "used_up i v" for w v v'
  proof -
    from u obtain d where d: "v (activation_ref i) = Some d" "field_true d ''claimedAt'' False" by (auto simp: used_up_def)
    from quiet_activation [OF q _ d(1)] show ?thesis
    proof
      assume "\<exists>us. claiming us \<and> v' (activation_ref i) = Some (apply_updates d us)"
      then obtain us t where "v' (activation_ref i) = Some (apply_updates d us)" "apply_updates d us ''claimedAt'' = Some (FTime t)"
        using claiming_claimed [where d = d] by blast
      then show ?thesis by (simp add: used_up_def field_true_def)
    qed (use d in \<open>auto simp: used_up_def\<close>)
  qed
  show "used_up i (v(event_ref site e := None))" if "used_up i v" for v site e
    using that by (auto simp: used_up_def activation_ref_def event_ref_def)
qed

sublocale digest_store \<subseteq> identities: record_invariant P "identity a key site" for a key site
proof
  show "identity a key site v'" if "identity a key site v" "\<And>r. \<not> registry_ref r \<Longrightarrow> v' r = v r" for v v'
    using that by (simp add: identity_def)
  show "identity a key site v'" if q: "housekeeping w" "apply_write w v = Inr v'" and i: "identity a key site v" for w v v'
  proof -
    from i obtain d where d: "v (agent_ref a) = Some d" "d ''publicKey'' = key" "d ''siteId'' = site" by (auto simp: identity_def)
    from quiet_record [OF q _ d(1)] obtain us where "bookkeeping us" "v' (agent_ref a) = Some (apply_updates d us)" by auto
    with d show ?thesis by (simp add: identity_def apply_updates_other bookkeeping_keys_def)
  qed
  show "identity a key site (v(event_ref x e := None))" if "identity a key site v" for v x e
    using that by (auto simp: identity_def agent_ref_def event_ref_def)
qed

section \<open>Reachable states\<close>

definition reachable :: "'db platform \<Rightarrow> relay_config \<Rightarrow> 'db server \<Rightarrow> bool" where
  "reachable P C s \<longleftrightarrow> (\<exists>s0. fresh_service P s0 \<and> runs P C s0 s)"

lemma reachable_runs: "reachable P C s \<Longrightarrow> runs P C s t \<Longrightarrow> reachable P C t"
  unfolding reachable_def by (blast intro: runs_trans)

lemma fresh_shape: "fresh_service P s \<Longrightarrow> store_shape (view P s)"
  by (simp add: fresh_service_def view_def store_shape_def)

context digest_store
begin

lemma runs_shape: "runs P C s t \<Longrightarrow> store_shape (view P s) \<Longrightarrow> store_shape (view P t)"
  using kept.records.service.runs_keep [where r = "[]" and s = s and t = t] by (simp add: permanent_def)

lemma reachable_shape: "reachable P C s \<Longrightarrow> store_shape (view P s)"
  unfolding reachable_def using runs_shape fresh_shape by blast

lemma runs_kept: "runs P C s t \<Longrightarrow> store_shape (view P s) \<Longrightarrow> permanent r \<Longrightarrow> view P s r \<noteq> None \<Longrightarrow> view P t r \<noteq> None"
  using kept.records.service.runs_keep [where r = r and s = s and t = t] by simp

lemma runs_used_up: "runs P C s t \<Longrightarrow> store_shape (view P s) \<Longrightarrow> used_up i (view P s) \<Longrightarrow> used_up i (view P t)"
  using claims.records.service.runs_keep [where i = i and s = s and t = t] by simp

lemma runs_identity: "runs P C s t \<Longrightarrow> store_shape (view P s) \<Longrightarrow> identity a key site (view P s) \<Longrightarrow> identity a key site (view P t)"
  using identities.records.service.runs_keep [where a = a and key = key and site = site and s = s and t = t] by simp

section \<open>Secure requests\<close>

lemma protected_once:
  assumes "require_replay_protected P ck a agent q s = (Inr x, t)"
  shows "view P s (nonce_ref a (header q ''x-pbxsense-nonce'')) = None"
    and "view P t (nonce_ref a (header q ''x-pbxsense-nonce'')) \<noteq> None"
  using assms unfolding require_replay_protected_def
  by (auto simp: then_do_commit split: sum.splits option.splits fserror.splits if_splits dest!: write_views(1) simp: view_def)

lemma untouched: "snd (authenticate_agent P C ck a q False s) = s"
  unfolding authenticate_agent_def by (auto split: sum.split)

end

text \<open>A secure request of either kind that was answered.\<close>

definition secure_request :: "'db platform \<Rightarrow> relay_config \<Rightarrow> clock \<Rightarrow> string \<Rightarrow> http_request \<Rightarrow> 'db server \<Rightarrow> 'db server \<Rightarrow> bool" where
  "secure_request P C ck a q s t \<longleftrightarrow> (\<exists>x. secure_exchange_route P C ck a q s = (Inr x, t)) \<or>
     (\<exists>n. publish_secure_snapshots_route P C ck a q s = (Inr n, t))"

context digest_store
begin

lemma secure_request_nonce:
  assumes "store_shape (view P s)" and "secure_request P C ck a q s t"
  shows "view P s (nonce_ref a (header q ''x-pbxsense-nonce'')) = None" and "view P t (nonce_ref a (header q ''x-pbxsense-nonce'')) \<noteq> None"
proof -
  let ?r = "nonce_ref a (header q ''x-pbxsense-nonce'')"
  let ?I = "\<lambda>s. store_shape (view P s) \<and> (permanent ?r \<longrightarrow> view P s ?r \<noteq> None)"
  obtain body agent u where u: "require_replay_protected P ck a agent q s = (Inr (), u)"
    and rest: "t = snd (exchange_frames P C ck a agent body u) \<or> t = snd (publish_envelopes P ck a body u)"
    using assms(2) untouched [of C ck a q s] unfolding secure_request_def secure_exchange_route_def publish_secure_snapshots_route_def
    by (auto elim!: then_do_InrE) (metis snd_conv)+
  have sh: "store_shape (view P u)"
    using keepsD [OF kept.records.service.replay_protected [where r = "[]" and ck = ck and a = a and agent = agent and q = q], of s] assms(1) u
    by (simp add: permanent_def)
  note n = protected_once [OF u]
  from n(1) show "view P s ?r = None" .
  have "?I u" using sh n(2) by simp
  then have "?I t"
    using rest keepsD [OF kept.records.service.frames_exchanged [where r = ?r], of u] keepsD [OF kept.records.service.published_envelopes [where r = ?r], of u]
    by blast
  then show "view P t ?r \<noteq> None" by simp
qed

lemma secure_request_once:
  assumes "reachable P C s" and "secure_request P C ck a q s t" and "runs P C t u"
    and "header q' ''x-pbxsense-nonce'' = header q ''x-pbxsense-nonce''"
  shows "\<not> secure_request P C ck' a q' u v"
proof
  let ?r = "nonce_ref a (header q ''x-pbxsense-nonce'')"
  assume again: "secure_request P C ck' a q' u v"
  have sh: "store_shape (view P s)" by (rule reachable_shape [OF assms(1)])
  have st: "runs P C s t" using assms(2) unfolding secure_request_def
    by (metis served.exchange served.publication runs.here runs.further snd_conv)
  have sh': "store_shape (view P t)" by (rule runs_shape [OF st sh])
  have "view P u ?r \<noteq> None"
    by (rule runs_kept [OF assms(3) sh' _ secure_request_nonce(2) [OF sh assms(2)]]) simp
  moreover have "view P u ?r = None"
    using secure_request_nonce(1) [OF runs_shape [OF assms(3) sh'] again] assms(4) by simp
  ultimately show False by simp
qed

section \<open>Activations\<close>

lemma unused_not_used_up: "unused_activation P ck secret d = Inr u \<Longrightarrow> \<not> field_true d ''claimedAt'' False"
  by (auto simp: unused_activation_def split: option.splits if_splits)

lemma claim_needs_unused: "claim_activation_route P C ck R i q s = (Inr c, t) \<Longrightarrow> \<not> used_up i (view P s)"
  unfolding claim_activation_route_def
  by (auto simp: used_up_def view_def split: option.splits sum.splits dest: unused_not_used_up)

lemma slash_free_append: "slash_free (w @ u) \<longleftrightarrow> slash_free w \<and> slash_free u"
  by (auto simp: slash_free_def)

lemma apply_writes_append: "apply_writes (ws @ us) v = (case apply_writes ws v of Inl e \<Rightarrow> Inl e | Inr v' \<Rightarrow> apply_writes us v')"
  by (induction ws arbitrary: v) (auto split: sum.split)

lemma claimed_update:
  assumes "v (activation_ref i) = Some d" and "claiming us" and "apply_write (Update (activation_ref i) us) v = Inr v'"
  shows "used_up i v'"
  using assms claiming_claimed [OF assms(2), of d] by (auto simp: used_up_def field_true_def)

lemma claim_existing_uses_up:
  assumes sh: "store_shape (view P s)" and "slash_free (fst e)" and "slash_free (cr_device R)"
    and act: "view P s (activation_ref i) = Some act" and r: "claim_existing P C ck R i key e s = (Inr c, t)"
  shows "used_up i (view P t)"
proof -
  obtain a agent where e: "e = (a, agent)" by (cases e)
  let ?us = "[Put ''claimedAt'' (server_time ck), Put ''agentId'' (FStr a), Put ''siteId'' (FStr (field_text P agent ''siteId'' [])),
    Put ''reusedAgent'' (FBool True)]"
  have us: "claiming ?us" by (simp add: claiming_def server_time_def)
  from r obtain s1 where w: "write_doc P (Update (activation_ref i) ?us) s = (Inr (), s1)"
    and c: "t = snd (create_relay_device P C ck a (field_text P agent ''siteId'' []) (''device_'' @ cr_device R) (cr_access_token R) key s1)"
    unfolding claim_existing_def e Let_def by (auto elim!: then_do_InrE split: if_splits)
  from w obtain db where db: "pf_commit P (sv_db s) [Update (activation_ref i) ?us] = Inr db" and s1: "s1 = s\<lparr>sv_db := db\<rparr>"
    by (auto simp: write_doc_eq split: sum.splits)
  have "apply_write (Update (activation_ref i) ?us) (view P s) = Inr (view P s1)"
    using commit_Inr [OF db] act by (simp add: s1 view_def)
  with claimed_update [where v = "view P s" and us = ?us, OF act us] have "used_up i (view P s1)" by blast
  moreover have "store_shape (view P s1)" using shape_batch [OF sh _ db] us by (simp add: s1)
  ultimately show ?thesis
    using c keepsD [OF claims.records.service.app_created [where i = i], of a "''device_'' @ cr_device R" s1] assms(2,3)
    by (simp add: e slash_free_append) (simp add: slash_free_def)
qed

lemma claim_new_uses_up:
  assumes sh: "store_shape (view P s)" and "slash_free (cr_agent R)" and "slash_free (cr_device R)"
    and act: "view P s (activation_ref i) = Some d" and r: "claim_new P C ck R i key body act s = (Inr c, t)"
  shows "used_up i (view P t)"
proof -
  let ?us = "[Put ''claimedAt'' (server_time ck), Put ''agentId'' (FStr (''agent_'' @ cr_agent R)), Put ''siteId'' (FStr (''site_'' @ cr_site R))]"
  have us: "claiming ?us" by (simp add: claiming_def server_time_def)
  from r obtain sdoc adoc rest s1 where use: "ticket_use P C ck act = Inr rest"
    and w: "commit P ([Create [''sites'', ''site_'' @ cr_site R] sdoc, Create (agent_ref (''agent_'' @ cr_agent R)) adoc,
        Update (activation_ref i) ?us] @ rest) s = (Inr None, s1)"
    and c: "t = snd (create_relay_device P C ck (''agent_'' @ cr_agent R) (''site_'' @ cr_site R) (''device_'' @ cr_device R) (cr_access_token R) key s1)"
    unfolding claim_new_def Let_def
    by (auto elim!: then_do_InrE split: option.splits sum.splits fserror.splits)
  let ?ws = "[Create [''sites'', ''site_'' @ cr_site R] sdoc, Create (agent_ref (''agent_'' @ cr_agent R)) adoc, Update (activation_ref i) ?us]"
  from w obtain db where db: "pf_commit P (sv_db s) (?ws @ rest) = Inr db" and s1: "s1 = s\<lparr>sv_db := db\<rparr>"
    by (auto simp: commit_def split: sum.splits)
  have sf: "slash_free (''agent_'' @ cr_agent R)" "slash_free (''device_'' @ cr_device R)"
    using assms(2,3) by (simp_all add: slash_free_def)
  have hk: "list_all housekeeping (?ws @ rest)" using sf us kept.records.service.ticket_use_quiet [OF use] by auto
  from commit_Inr [OF db] obtain v where v: "apply_writes ?ws (view P s) = Inr v" "apply_writes rest v = Inr (view P s1)"
    unfolding apply_writes_append by (auto simp: s1 view_def split: sum.splits)
  have "used_up i v"
  proof -
    let ?v = "(view P s)([''sites'', ''site_'' @ cr_site R] \<mapsto> sdoc, agent_ref (''agent_'' @ cr_agent R) \<mapsto> adoc)"
    have "apply_write (Update (activation_ref i) ?us) ?v = Inr v" "?v (activation_ref i) = Some d"
      using v(1) act by (auto simp: agent_ref_def activation_ref_def split: if_splits option.splits)
    with claimed_update us show ?thesis by blast
  qed
  then have "used_up i (view P s1)"
    using quiet_batch [OF kept.records.service.ticket_use_quiet [OF use] v(2), of "used_up i"] claims.J_quiet by blast
  moreover have "store_shape (view P s1)" using shape_batch [OF sh hk db] by (simp add: s1)
  ultimately show ?thesis using c keepsD [OF claims.records.service.app_created [where i = i, OF sf], of s1] by simp
qed

lemma claim_uses_up:
  assumes "store_shape (view P s)" and "slash_free (cr_agent R)" and "slash_free (cr_device R)"
    and "claim_activation_route P C ck R i q s = (Inr c, t)"
  shows "used_up i (view P t)"
proof -
  obtain act pk body key where act: "view P s (activation_ref i) = Some act"
    and c: "then_do (agents_with_key P pk) (\<lambda>es. case es of e # _ \<Rightarrow> claim_existing P C ck R i key e
      | [] \<Rightarrow> claim_new P C ck R i key body act) s = (Inr c, t)"
    using assms(4) unfolding claim_activation_route_def
    by (auto simp: view_def Let_def split: option.splits sum.splits)
  show ?thesis
  proof (cases "pf_query P (sv_db s) [''agents''] (FieldIs ''publicKey'' pk)")
    case Nil
    with c claim_new_uses_up [OF assms(1-3) act] show ?thesis by (simp add: agents_with_key_def then_do_assoc)
  next
    case (Cons e es)
    then have "e \<in> set (pf_query P (sv_db s) [''agents''] (FieldIs ''publicKey'' pk))" by simp
    then have "view P s (agent_ref (fst e)) \<noteq> None"
      using query_mem [of "fst e" "snd e" "sv_db s" "[''agents'']" "FieldIs ''publicKey'' pk"] by (simp add: view_def agent_ref_def)
    from store_shapeD(1) [OF assms(1) this] Cons c claim_existing_uses_up [OF assms(1) _ assms(3) act]
    show ?thesis by (simp add: agents_with_key_def then_do_assoc)
  qed
qed

lemma claimed_once:
  assumes "reachable P C s" and "slash_free (cr_agent R)" and "slash_free (cr_device R)"
    and "claim_activation_route P C ck R i q s = (Inr c, t)" and "runs P C t u"
  shows "claim_activation_route P C ck' R' i q' u \<noteq> (Inr c', v)"
proof -
  have sh: "store_shape (view P s)" by (rule reachable_shape [OF assms(1)])
  have "runs P C s t" using assms(2-4) by (metis served.claim runs.here runs.further snd_conv)
  then have "store_shape (view P t)" using sh by (rule runs_shape)
  from runs_used_up [OF assms(5) this claim_uses_up [OF sh assms(2-4)]] show ?thesis
    using claim_needs_unused by blast
qed

end

end
