(* ===== verification/PushTokens.thy ===== *)
theory PushTokens
  imports PushRecords
begin

text \<open>
  Who holds an FCM token, and how many apps an Agent has: two more properties every request keeps.
\<close>

section \<open>Ownership of tokens\<close>

text \<open>The pointer of a token names the app that is registered with it; \<open>owned_except\<close> leaves one app out.\<close>

definition points_to :: "'db platform \<Rightarrow> fview \<Rightarrow> string \<Rightarrow> fref \<Rightarrow> bool" where
  "points_to P v token ref \<longleftrightarrow> (\<exists>p. v (token_ref P token) = Some p \<and> p ''devicePath'' = Some (FStr (ref_path ref)))"

definition holds_token :: "fview \<Rightarrow> fref \<Rightarrow> string \<Rightarrow> bool" where
  "holds_token v ref token \<longleftrightarrow> (\<exists>dd. v ref = Some dd \<and> dd ''fcmToken'' = Some (FStr token))"

definition owned_except :: "'db platform \<Rightarrow> fref \<Rightarrow> fview \<Rightarrow> bool" where
  "owned_except P ref v \<longleftrightarrow> (\<forall>a d token. device_ref a d \<noteq> ref \<longrightarrow> holds_token v (device_ref a d) token \<longrightarrow>
     points_to P v token (device_ref a d))"

definition owned :: "'db platform \<Rightarrow> fview \<Rightarrow> bool" where
  "owned P v \<longleftrightarrow> (\<forall>a d token. holds_token v (device_ref a d) token \<longrightarrow> points_to P v token (device_ref a d))"

lemma owned_exceptI: "owned P v \<Longrightarrow> owned_except P ref v"
  by (simp add: owned_def owned_except_def)

lemma owned_split: "owned P v \<longleftrightarrow> owned_except P (device_ref a d) v \<and> (\<forall>token. holds_token v (device_ref a d) token \<longrightarrow> points_to P v token (device_ref a d))"
  unfolding owned_def owned_except_def by (metis device_ref_inject(1))

lemma token_not_device [simp]: "token_ref P t \<noteq> device_ref a d" "device_ref a d \<noteq> token_ref P t"
  by (simp_all add: token_ref_def device_ref_def)

text \<open>Paths name one app when its identifiers have no slash.\<close>

lemma slashes_path: "length (filter (\<lambda>c. c = CHR ''/'') (ref_path (device_ref a d))) =
    3 + length (filter (\<lambda>c. c = CHR ''/'') a) + length (filter (\<lambda>c. c = CHR ''/'') d)"
  by (simp add: ref_path_def device_ref_def)

lemma slash_free_count: "slash_free a \<longleftrightarrow> length (filter (\<lambda>c. c = CHR ''/'') a) = 0"
  by (auto simp: slash_free_def filter_empty_conv)

lemma ref_path_inject:
  assumes "slash_free b" and "slash_free e"
  shows "ref_path (device_ref a d) = ref_path (device_ref b e) \<longleftrightarrow> device_ref a d = device_ref b e"
proof
  assume eq: "ref_path (device_ref a d) = ref_path (device_ref b e)"
  then have "slash_free a" "slash_free d"
    using assms slashes_path [of a d] slashes_path [of b e] by (simp_all add: slash_free_count)
  then show "device_ref a d = device_ref b e" using path_ref_device assms eq by metis
qed simp

lemma points_to_owner: "points_to P v token ref \<Longrightarrow> owner_path P v token = ref_path ref"
  by (auto simp: points_to_def owner_path_def field_text_def)

lemma holds_slash_free: "store_shape v \<Longrightarrow> holds_token v (device_ref a d) token \<Longrightarrow> slash_free a \<and> slash_free d"
  using store_shapeD(2,3) [of v a d] by (auto simp: holds_token_def)

lemma one_owner:
  assumes "store_shape v" and "owned P v" and "holds_token v (device_ref a d) token" and "holds_token v (device_ref b e) token"
  shows "a = b \<and> d = e"
proof -
  have "points_to P v token (device_ref a d)" "points_to P v token (device_ref b e)"
    using assms(2-4) by (simp_all add: owned_def)
  then have "ref_path (device_ref a d) = ref_path (device_ref b e)" by (metis points_to_owner)
  then show ?thesis
    using ref_path_inject holds_slash_free [OF assms(1,4)] by simp
qed

section \<open>Ownership is kept\<close>

text \<open>A change that leaves the other apps and their pointers.\<close>

lemma owned_except_frame:
  assumes "owned_except P ref v"
    and "\<And>a d. device_ref a d \<noteq> ref \<Longrightarrow> v' (device_ref a d) = v (device_ref a d)"
    and "\<And>a d token. device_ref a d \<noteq> ref \<Longrightarrow> holds_token v (device_ref a d) token \<Longrightarrow> v' (token_ref P token) = v (token_ref P token)"
  shows "owned_except P ref v'"
  using assms by (simp add: owned_except_def holds_token_def points_to_def)

lemma owned_without_pointer:
  assumes "store_shape v" and "owned_except P (device_ref a d) v"
  shows "owned_except P (device_ref a d) (without_pointer P token (device_ref a d) v)"
proof (rule owned_except_frame [OF assms(2)])
  fix b e t
  assume other: "device_ref b e \<noteq> device_ref a d" and h: "holds_token v (device_ref b e) t"
  have "points_to P v t (device_ref b e)" using assms(2) other h unfolding owned_except_def by blast
  then have "owner_path P v t = ref_path (device_ref b e)" by (rule points_to_owner)
  then have "owner_path P v t \<noteq> ref_path (device_ref a d)"
    using other ref_path_inject [of b e a d] holds_slash_free [OF assms(1) h] by metis
  moreover have "owner_path P v t = owner_path P v token" if "token_ref P t = token_ref P token" using that by (simp add: owner_path_def)
  ultimately show "without_pointer P token (device_ref a d) v (token_ref P t) = v (token_ref P t)"
    by (auto simp: without_pointer_def)
qed (simp add: without_pointer_def)

lemma owned_merged: "owned_except P (device_ref a d) v \<Longrightarrow> owned_except P (device_ref a d) (merged (device_ref a d) dd v)"
  by (erule owned_except_frame) (unfold merged_def fun_upd_other token_not_device, simp_all del: device_ref_inject)

lemma owned_deleted: "owned_except P (device_ref a d) v \<Longrightarrow> owned P (v(device_ref a d := None))"
  by (auto simp: owned_def owned_except_def holds_token_def points_to_def split: if_splits)

lemma owned_delete_any: "owned P v \<Longrightarrow> owned P (v(device_ref a d := None))"
  by (rule owned_deleted [OF owned_exceptI])

lemma owned_without_device:
  assumes "store_shape v" and "owned P v"
  shows "owned P (without_device P (device_ref a d) token v)"
proof -
  let ?v = "v(device_ref a d := None)"
  have o: "owned P ?v" by (rule owned_delete_any [OF assms(2)])
  have "owned_except P (device_ref a d) (without_pointer P token (device_ref a d) ?v)"
    by (rule owned_without_pointer [OF shape_delete [OF assms(1)] owned_exceptI [OF o]])
  then show ?thesis using o
    unfolding owned_split [of _ _ a d] by (auto simp: without_device_def without_pointer_def holds_token_def)
qed

text \<open>What claiming a token does to the app that held it, to the others and to the pointers.\<close>

lemma claimed_by_effect:
  assumes "store_shape v"
  obtains u where
    "claimed_by P ck token (device_ref a d) v = u(token_ref P token \<mapsto> [''devicePath'' \<mapsto> FStr (ref_path (device_ref a d)), ''updatedAt'' \<mapsto> server_time ck])"
    "\<And>t. u (token_ref P t) = v (token_ref P t)" "u (device_ref a d) = v (device_ref a d)"
    "\<And>b e. u (device_ref b e) \<noteq> None \<Longrightarrow> u (device_ref b e) = v (device_ref b e)"
    "\<And>b e. slash_free b \<Longrightarrow> slash_free e \<Longrightarrow> owner_path P v token = ref_path (device_ref b e) \<Longrightarrow>
      ref_path (device_ref b e) \<noteq> ref_path (device_ref a d) \<Longrightarrow> u (device_ref b e) = None"
proof (cases "owner_path P v token \<noteq> [] \<and> owner_path P v token \<noteq> ref_path (device_ref a d)")
  case True
  then obtain f g where fg: "owner_path P v token = ref_path (device_ref f g)" "path_ref (owner_path P v token) = device_ref f g"
    using owner_ref [OF assms, of P token] by metis
  with True have ne: "device_ref a d \<noteq> device_ref f g" by metis
  show thesis
  proof (rule that [of "v(device_ref f g := None)"])
    show "claimed_by P ck token (device_ref a d) v
        = (v(device_ref f g := None))(token_ref P token \<mapsto> [''devicePath'' \<mapsto> FStr (ref_path (device_ref a d)), ''updatedAt'' \<mapsto> server_time ck])"
      using True fg(2) by (simp only: claimed_by_def Let_def if_True simp_thms)
    show "(v(device_ref f g := None)) (device_ref a d) = v (device_ref a d)" using ne by (rule fun_upd_other)
    show "(v(device_ref f g := None)) (device_ref b e) = None"
      if "slash_free b" "slash_free e" "owner_path P v token = ref_path (device_ref b e)" for b e
      using path_ref_device [OF that(1,2)] that(3) fg(2) by simp
    show "(v(device_ref f g := None)) (device_ref b e) = v (device_ref b e)"
      if "(v(device_ref f g := None)) (device_ref b e) \<noteq> None" for b e
      using that by (metis fun_upd_apply)
  qed simp
next
  case False
  show thesis
  proof (rule that [of v])
    show "claimed_by P ck token (device_ref a d) v
        = v(token_ref P token \<mapsto> [''devicePath'' \<mapsto> FStr (ref_path (device_ref a d)), ''updatedAt'' \<mapsto> server_time ck])"
      using False by (simp only: claimed_by_def Let_def if_False)
    show "v (device_ref b e) = None"
      if "owner_path P v token = ref_path (device_ref b e)" "ref_path (device_ref b e) \<noteq> ref_path (device_ref a d)" for b e
      using False that ref_path_nonempty by metis
  qed (rule refl)+
qed

lemma owned_claimed:
  assumes s: "store_shape v" and o: "owned_except P (device_ref a d) v" and sf: "slash_free a" "slash_free d"
    and tok: "holds_token v (device_ref a d) token"
  shows "owned P (claimed_by P ck token (device_ref a d) v)"
proof -
  let ?ref = "device_ref a d"
  obtain u where
    c: "claimed_by P ck token ?ref v = u(token_ref P token \<mapsto> [''devicePath'' \<mapsto> FStr (ref_path ?ref), ''updatedAt'' \<mapsto> server_time ck])"
    and ptr: "\<And>t. u (token_ref P t) = v (token_ref P t)" and ref: "u ?ref = v ?ref"
    and dev: "\<And>b e. u (device_ref b e) \<noteq> None \<Longrightarrow> u (device_ref b e) = v (device_ref b e)"
    and gone: "\<And>b e. slash_free b \<Longrightarrow> slash_free e \<Longrightarrow> owner_path P v token = ref_path (device_ref b e) \<Longrightarrow>
      ref_path (device_ref b e) \<noteq> ref_path ?ref \<Longrightarrow> u (device_ref b e) = None"
    by (rule claimed_by_effect [OF s, of P ck token a d]) blast
  have "points_to P (claimed_by P ck token ?ref v) t (device_ref b e)"
    if h: "holds_token (claimed_by P ck token ?ref v) (device_ref b e) t" for b e t
  proof (cases "device_ref b e = ?ref")
    case True
    with h tok ref have "t = token" by (auto simp: c holds_token_def)
    with True show ?thesis by (auto simp: c points_to_def)
  next
    case False
    have hu: "holds_token u (device_ref b e) t" using h by (simp add: c holds_token_def)
    have h': "holds_token v (device_ref b e) t" using hu dev [of b e] unfolding holds_token_def by force
    have p: "points_to P v t (device_ref b e)" using o False h' unfolding owned_except_def by blast
    have sfe: "slash_free b" "slash_free e" using holds_slash_free [OF s h'] by simp_all
    have "token_ref P t \<noteq> token_ref P token"
    proof
      assume "token_ref P t = token_ref P token"
      then have "owner_path P v token = ref_path (device_ref b e)" using points_to_owner [OF p] by (simp add: owner_path_def)
      moreover have "ref_path (device_ref b e) \<noteq> ref_path ?ref" using False ref_path_inject [OF sf] by simp
      ultimately have "u (device_ref b e) = None" by (rule gone [OF sfe])
      with hu show False by (simp add: holds_token_def)
    qed
    with p ptr show ?thesis by (simp add: c points_to_def)
  qed
  then show ?thesis by (simp add: owned_def)
qed

lemma owned_quiet:
  assumes "housekeeping w" and "apply_write w v = Inr v'" and "owned P v"
  shows "owned P v'"
proof -
  have "points_to P v' token (device_ref a d)" if h: "holds_token v' (device_ref a d) token" for a d token
  proof -
    from h obtain dd where dd: "v' (device_ref a d) = Some dd" "dd ''fcmToken'' = Some (FStr token)" by (auto simp: holds_token_def)
    then have "v (device_ref a d) \<noteq> None" using quiet_device [OF assms(1,2), of "device_ref a d"] by auto
    then obtain e where e: "v (device_ref a d) = Some e" by blast
    then obtain us where us: "bookkeeping us" "v' (device_ref a d) = Some (apply_updates e us)"
      using quiet_record [OF assms(1,2), of "device_ref a d" e] by auto
    then have "e ''fcmToken'' = Some (FStr token)" using dd by (simp add: apply_updates_other bookkeeping_keys_def)
    with e assms(3) have "points_to P v token (device_ref a d)" by (simp add: owned_def holds_token_def)
    moreover have "v' (token_ref P token) = v (token_ref P token)" by (rule quiet_pointer [OF assms(1,2)]) simp
    ultimately show ?thesis by (simp add: points_to_def)
  qed
  then show ?thesis by (simp add: owned_def)
qed

lemma merged_holds: "dd ''fcmToken'' = Some (FStr token) \<Longrightarrow> holds_token (merged ref dd v) ref token"
  by (simp add: holds_token_def merged_def split: option.split)

sublocale digest_store \<subseteq> tokens: registry_invariant P C "owned P" for C
proof
  show "owned P (v(event_ref site e := None))" if "owned P v" for v site e
    using that by (simp add: owned_def holds_token_def points_to_def event_ref_def device_ref_def token_ref_def)
  show "owned P (v(device_ref a d \<mapsto> dd))" if "owned P v" "v (device_ref a d) = None" "dd ''fcmToken'' = None" for v a d dd
    using that by (auto simp: owned_def holds_token_def points_to_def)
  show "owned P (claimed_by P ck token (device_ref a d) (merged (device_ref a d) dd v))"
    if "owned P v" "store_shape v" "slash_free a" "slash_free d" "dd ''fcmToken'' = Some (FStr token)" for v a d token dd ck
    using that by (intro owned_claimed shape_merged owned_merged owned_exceptI merged_holds)
  show "owned P (claimed_by P ck token (device_ref a d) (merged (device_ref a d) dd
      (without_pointer P (field_text P device ''fcmToken'' []) (device_ref a d) v)))"
    if "owned P v" "store_shape v" "slash_free a" "slash_free d" "dd ''fcmToken'' = Some (FStr token)" for v a d token dd device ck
    using that by (intro owned_claimed shape_merged shape_without owned_merged owned_without_pointer owned_exceptI merged_holds)
qed (blast intro: owned_quiet owned_without_device)+

section \<open>Capacity\<close>

definition capacity :: "relay_config \<Rightarrow> fview \<Rightarrow> bool" where
  "capacity C v \<longleftrightarrow> (\<forall>a. finite (apps v a) \<and> int (card (apps v a)) \<le> cf_max_devices C)"

lemma capacity_subset:
  assumes "capacity C v" and "\<And>a. apps v' a \<subseteq> apps v a"
  shows "capacity C v'"
  unfolding capacity_def
proof (intro allI conjI)
  fix a
  have "finite (apps v a)" "int (card (apps v a)) \<le> cf_max_devices C" using assms(1) by (simp_all add: capacity_def)
  then show "finite (apps v' a)" "int (card (apps v' a)) \<le> cf_max_devices C"
    using assms(2) [of a] card_mono [of "apps v a" "apps v' a"] finite_subset by auto
qed

lemma capacity_insert:
  assumes "capacity C v" and "d \<in> apps v a \<or> room C v a" and "\<And>b. apps v' b \<subseteq> (if b = a then insert d (apps v b) else apps v b)"
  shows "capacity C v'"
  unfolding capacity_def
proof (intro allI conjI)
  fix b
  have f: "finite (apps v x)" "int (card (apps v x)) \<le> cf_max_devices C" for x using assms(1) by (simp_all add: capacity_def)
  then show "finite (apps v' b)" using assms(3) [of b] by (auto intro: finite_subset split: if_splits)
  have "int (card (insert d (apps v a))) \<le> cf_max_devices C"
    using assms(1,2) by (auto simp: capacity_def room_def card_insert_if insert_absorb)
  moreover have "card (apps v' b) \<le> card (if b = a then insert d (apps v b) else apps v b)"
    by (rule card_mono [OF _ assms(3)]) (use f in simp)
  ultimately show "int (card (apps v' b)) \<le> cf_max_devices C" using f(2) [of b] by (auto split: if_splits)
qed

lemma apps_registered:
  assumes "store_shape v" and "slash_free a" and "slash_free d"
  shows "apps (claimed_by P ck token (device_ref a d) (merged (device_ref a d) dd v)) b \<subseteq> (if b = a then insert d (apps v b) else apps v b)"
proof -
  obtain u where
    c: "claimed_by P ck token (device_ref a d) (merged (device_ref a d) dd v) = u(token_ref P token \<mapsto> [''devicePath'' \<mapsto> FStr (ref_path (device_ref a d)), ''updatedAt'' \<mapsto> server_time ck])"
    and dev: "\<And>b e. u (device_ref b e) \<noteq> None \<Longrightarrow> u (device_ref b e) = merged (device_ref a d) dd v (device_ref b e)"
    by (rule claimed_by_effect [OF shape_merged [OF assms], of P ck token a d]) blast
  have "v (device_ref b e) \<noteq> None \<or> b = a \<and> e = d" if "u (device_ref b e) \<noteq> None" for e
    using dev [OF that] that by (auto simp: merged_def split: if_splits)
  then show ?thesis by (auto simp: c apps_def)
qed

lemma apps_smaller: "apps (without_pointer P token ref v) a = apps v a" "apps (without_device P ref token v) a \<subseteq> apps v a"
  by (auto simp: apps_def without_pointer_def without_device_def)

lemma apps_quiet:
  assumes "housekeeping w" and "apply_write w v = Inr v'"
  shows "apps v' a \<subseteq> apps v a"
proof
  fix d assume "d \<in> apps v' a"
  then have "v' (device_ref a d) \<noteq> None" by (simp add: apps_def)
  then have "v (device_ref a d) \<noteq> None" using quiet_device [OF assms, of "device_ref a d"] by (cases "v (device_ref a d)") simp_all
  then show "d \<in> apps v a" by (simp add: apps_def)
qed

lemma capacity_quiet: "housekeeping w \<Longrightarrow> apply_write w v = Inr v' \<Longrightarrow> capacity C v \<Longrightarrow> capacity C v'"
  using apps_quiet by (blast intro: capacity_subset)

lemma capacity_registered:
  assumes "capacity C v" and "store_shape v" and "slash_free a" and "slash_free d" and "d \<in> apps v a \<or> room C v a"
  shows "capacity C (claimed_by P ck token (device_ref a d) (merged (device_ref a d) dd v))"
  using assms(1,5) by (rule capacity_insert) (rule apps_registered [OF assms(2-4)])

lemma mem_apps: "d \<in> apps v a \<longleftrightarrow> v (device_ref a d) \<noteq> None"
  by (simp add: apps_def)

sublocale digest_store \<subseteq> limits: registry_invariant P C "capacity C" for C
proof
  show "capacity C (v(event_ref site e := None))" if "capacity C v" for v site e
    using that by (rule capacity_subset) (simp add: subset_iff mem_apps)
  show "capacity C (v(device_ref a d \<mapsto> dd))" if "capacity C v" "room C v a" for v a d dd
    using that(1) disjI2 [OF that(2)] by (rule capacity_insert [where d = d]) (simp add: subset_iff mem_apps)
  show "capacity C (without_device P (device_ref a d) token v)" if "capacity C v" for v a d token
    using that apps_smaller(2) by (rule capacity_subset)
  show "capacity C (claimed_by P ck token (device_ref a d) (merged (device_ref a d) dd v))"
    if "capacity C v" "store_shape v" "slash_free a" "slash_free d" "v (device_ref a d) \<noteq> None \<or> room C v a" for v a d token dd ck
    using that(1-4) that(5) [folded mem_apps] by (rule capacity_registered)
  show "capacity C (claimed_by P ck token (device_ref a d) (merged (device_ref a d) dd
      (without_pointer P (field_text P device ''fcmToken'' []) (device_ref a d) v)))"
    if "capacity C v" "store_shape v" "slash_free a" "slash_free d" "v (device_ref a d) = Some device" for v a d token dd device ck
  proof (rule capacity_registered [OF _ shape_without(1) [OF that(2)] that(3,4)])
    show "capacity C (without_pointer P (field_text P device ''fcmToken'' []) (device_ref a d) v)"
      using that(1) by (simp add: capacity_def apps_smaller(1))
    show "d \<in> apps (without_pointer P (field_text P device ''fcmToken'' []) (device_ref a d) v) a \<or>
        room C (without_pointer P (field_text P device ''fcmToken'' []) (device_ref a d) v) a"
      using that(5) by (simp add: apps_smaller(1) mem_apps)
  qed
qed (fact capacity_quiet)

section \<open>Reachable states\<close>

lemma fresh_owned: "fresh_service P s \<Longrightarrow> owned P (view P s)"
  by (simp add: fresh_service_def view_def owned_def holds_token_def)

lemma fresh_capacity: "fresh_service P s \<Longrightarrow> 0 \<le> cf_max_devices C \<Longrightarrow> capacity C (view P s)"
  by (simp add: fresh_service_def view_def capacity_def apps_def)

context digest_store
begin

lemma reachable_owned:
  assumes "reachable P C s"
  shows "owned P (view P s)"
proof -
  from assms obtain s0 where s0: "fresh_service P s0" "runs P C s0 s" unfolding reachable_def by blast
  from tokens.service.runs_keep [OF s0(2)] fresh_shape [OF s0(1)] fresh_owned [OF s0(1)] show ?thesis by blast
qed

lemma reachable_capacity:
  assumes "reachable P C s" and "0 \<le> cf_max_devices C"
  shows "capacity C (view P s)"
proof -
  from assms obtain s0 where s0: "fresh_service P s0" "runs P C s0 s" unfolding reachable_def by blast
  from limits.service.runs_keep [OF s0(2)] fresh_shape [OF s0(1)] fresh_capacity [OF s0(1) assms(2)] show ?thesis by blast
qed

end

end
