(* ===== verification/PushDemo.thy ===== *)
theory PushDemo
  imports PushTokens
begin

text \<open>
  A service that runs: the store in memory, a digest that is the hexadecimal text, a signature check that
  accepts and one site whose Agent pairs, sends secure requests and events. The theorems about runs are
  applied to it.
\<close>

section \<open>The platform\<close>

lemma slash_free_hex: "slash_free (hex_text b)"
proof -
  have *: "hex_digit n \<noteq> CHR ''/''" if "n < 16" for n
  proof -
    have "code_point (hex_digit n) \<noteq> 47" using that by (simp add: hex_digit_def digit_char_def code_point_def)
    then show ?thesis by (auto simp: code_point_def)
  qed
  have "CHR ''/'' \<noteq> hex_digit (code_point c div 16)" "CHR ''/'' \<noteq> hex_digit (code_point c mod 16)" for c
  proof -
    have "code_point c div 16 < 16" using code_point_lt [of c] by presburger
    with * show "CHR ''/'' \<noteq> hex_digit (code_point c div 16)" "CHR ''/'' \<noteq> hex_digit (code_point c mod 16)" by (metis mod_less_divisor zero_less_numeral)+
  qed
  then show ?thesis by (simp add: slash_free_def hex_text_def)
qed

lemma memory_digest_store: "digest_store (memory_platform send mac verify loads)"
  by unfold_locales (simp add: memory_platform_def slash_free_hex)

interpretation stored: digest_store "memory_platform send mac verify loads"
  by (rule memory_digest_store)

section \<open>The requests\<close>

definition demo_bodies :: "(string \<times> json) list" where
  "demo_bodies =
    [(''pair'', JObj [(''publicKey'', JStr (replicate 43 CHR ''A'')), (''displayName'', JStr ''Office'')]),
     (''claim'', JObj [(''activationSecret'', JStr ''secret'')]),
     (''session'', JObj [(''protocolVersion'', JInt 1), (''sessionId'', JStr ''session_1'')]),
     (''register'', JObj [(''fcmToken'', JStr ''token1''), (''relayDeviceId'', JStr ''device_d'')]),
     (''event'', JObj [(''id'', JStr ''event_1''), (''title'', JStr ''T''), (''body'', JStr ''B''), (''category'', JStr ''phone''),
        (''importance'', JStr ''attention'')])]"

definition demo_loads :: "string \<Rightarrow> loaded_json" where
  "demo_loads t = (case map_of demo_bodies t of None \<Rightarrow> BadJson | Some v \<Rightarrow> Loaded v)"

definition demo_platform :: "memory platform" where
  "demo_platform = memory_platform (\<lambda>n m. if n = 0 then None else Some (map (\<lambda>_. Delivered) (pu_tokens m))) (\<lambda>k m. m) (\<lambda>k sig m. True) demo_loads"

definition demo_clock :: clock where
  "demo_clock = \<lparr>ck_now = unix_epoch + 1000 * second_us, ck_server = unix_epoch + 1000 * second_us, ck_time = 1000, ck_mono = 1000\<rparr>"

definition demo_random :: claim_random where
  "demo_random = \<lparr>cr_device = ''d'', cr_access_token = ''access'', cr_site = ''s'', cr_agent = ''a''\<rparr>"

definition signed :: "string \<Rightarrow> string \<Rightarrow> http_request" where
  "signed text nonce = \<lparr>hq_method = ''POST'', hq_path = ''/v1'', hq_headers = [(''x-pbxsense-timestamp'', ''1000''),
     (''x-pbxsense-nonce'', nonce)], hq_cookies = [], hq_body = text, hq_host = None\<rparr>"

definition empty_service :: "memory server" where
  "empty_service = \<lparr>sv_db = [], sv_requests = [], sv_events = [], sv_sent = []\<rparr>"

definition succeeds :: "(refusal + 'a) \<times> 's \<Rightarrow> bool" where
  "succeeds r = (case fst r of Inl _ \<Rightarrow> False | Inr _ \<Rightarrow> True)"

text \<open>Evaluation goes from step to step: the continuation waits for its argument.\<close>

lemma then_do_write: "then_do (write_doc P w) f s = (case pf_commit P (sv_db s) [w] of Inl e \<Rightarrow> (Inl Crashed, s) | Inr db \<Rightarrow> f () (s\<lparr>sv_db := db\<rparr>))"
  by (simp add: then_do_def write_doc_eq split: sum.split)

lemma then_do_cong: "m = m' \<Longrightarrow> s = s' \<Longrightarrow> then_do m f s = then_do m' f s'"
  by simp

lemma demo_values:
  "json_body demo_platform (signed ''pair'' []) = Inr [(''publicKey'', JStr (replicate 43 CHR ''A'')), (''displayName'', JStr ''Office'')]"
  "json_body demo_platform (signed ''claim'' []) = Inr [(''activationSecret'', JStr ''secret'')]"
proof -
  have "pf_loads demo_platform = demo_loads" by (simp add: demo_platform_def memory_platform_def)
  moreover have "hq_body (signed b n) = b" for b n by (simp add: signed_def)
  moreover have "demo_loads ''pair'' = Loaded (JObj [(''publicKey'', JStr (replicate 43 CHR ''A'')), (''displayName'', JStr ''Office'')])"
    "demo_loads ''claim'' = Loaded (JObj [(''activationSecret'', JStr ''secret'')])"
    by (simp_all add: demo_loads_def demo_bodies_def)
  ultimately show
    "json_body demo_platform (signed ''pair'' []) = Inr [(''publicKey'', JStr (replicate 43 CHR ''A'')), (''displayName'', JStr ''Office'')]"
    "json_body demo_platform (signed ''claim'' []) = Inr [(''activationSecret'', JStr ''secret'')]"
    by (simp_all add: json_body_def)
qed

lemma demo_texts:
  "bounded_text (pf_repr demo_platform) (JStr (replicate 43 CHR ''A'')) ''publicKey'' 200 = Inr (replicate 43 CHR ''A'')"
  "bounded_text (pf_repr demo_platform) (JStr ''Office'') ''displayName'' 120 = Inr ''Office''"
  "decode_public_key (replicate 43 CHR ''A'') = Some (replicate 32 (CHR 0x00))"
  by code_simp+

lemma demo_platform_simps [simp]:
  "pf_get demo_platform = map_of" "pf_query demo_platform = memory_query" "pf_commit demo_platform = memory_commit"
  by (simp_all add: demo_platform_def memory_platform_def)

definition demo_key :: string where
  "demo_key = replicate 43 (CHR ''A'')"

definition demo_activation :: fdoc where
  "demo_activation = [''secretHash'' \<mapsto> FStr (sha_text demo_platform ''secret''), ''publicKey'' \<mapsto> FStr (replicate 43 CHR ''A''),
     ''displayName'' \<mapsto> FStr ''Office'', ''expiresAt'' \<mapsto> FTime (ck_now demo_clock + 10 * minute_us), ''claimedAt'' \<mapsto> FNull]"

definition paired_service :: "memory server" where
  "paired_service = empty_service\<lparr>sv_db := [(activation_ref ''activate_r'', demo_activation)]\<rparr>"

lemma demo_pairs: "\<exists>x. create_activation_route demo_platform open_config demo_clock ''r'' ''secret'' (signed ''pair'' []) empty_service = (Inr x, paired_service)"
  unfolding create_activation_route_def
  by (simp cong: then_do_cong add: demo_values demo_texts jget_def dget_def agents_with_key_def then_do_assoc empty_service_def memory_query_def
   admit_activation_def open_config_def ticket_fields_def then_do_write Let_def paired_service_def demo_activation_def)

definition demo_site :: fdoc where
  "demo_site = [''name'' \<mapsto> FStr ''Office'', ''createdAt'' \<mapsto> server_time demo_clock]"

definition demo_agent :: fdoc where
  "demo_agent = new_agent_doc demo_clock ''site_s'' ''Office'' (FStr ''Office'') (FStr (replicate 43 CHR ''A'')) demo_activation"

definition demo_device :: fdoc where
  "demo_device = [''siteId'' \<mapsto> FStr ''site_s'', ''accessTokenHash'' \<mapsto> FStr (sha_text demo_platform ''access''),
     ''createdAt'' \<mapsto> server_time demo_clock, ''updatedAt'' \<mapsto> server_time demo_clock, ''lastConnectedAt'' \<mapsto> server_time demo_clock,
     ''expiresAt'' \<mapsto> in_days demo_clock 30, ''meaningfulEnabled'' \<mapsto> FBool True, ''activityEnabled'' \<mapsto> FBool True]"

definition claimed_service :: "memory server" where
  "claimed_service = empty_service\<lparr>sv_db :=
     [(activation_ref ''activate_r'', demo_activation(''claimedAt'' \<mapsto> server_time demo_clock, ''agentId'' \<mapsto> FStr ''agent_a'', ''siteId'' \<mapsto> FStr ''site_s'')),
      ([''sites'', ''site_s''], demo_site), (agent_ref ''agent_a'', demo_agent), (device_ref ''agent_a'' ''device_d'', demo_device)]\<rparr>"

lemma demo_claim_checks:
  "bounded_text (pf_repr demo_platform) (JStr ''secret'') ''activationSecret'' 200 = Inr ''secret''"
  "compare_digest (sha_text demo_platform ''secret'') (sha_text demo_platform ''secret'') = Some True"
  "optional_text (pf_repr demo_platform) JNull 100 = []"
  "bounded_text (pf_repr demo_platform) (JStr ''Office'') ''siteName'' 120 = Inr ''Office''"
  by code_simp+

lemma demo_claims: "\<exists>x. claim_activation_route demo_platform open_config demo_clock demo_random ''activate_r'' (signed ''claim'' []) paired_service
   = (Inr x, claimed_service)"
  unfolding claim_activation_route_def
  by (simp cong: then_do_cong add: demo_values demo_texts jget_def dget_def agents_with_key_def then_do_assoc empty_service_def memory_query_def
   unused_activation_def open_config_def then_do_write Let_def paired_service_def demo_activation_def demo_claim_checks
   check_encryption_key_def field_true_def field_text_def claim_new_def ticket_use_def then_do_commit create_relay_device_def
   require_device_capacity_def claimed_service_def activation_ref_def agent_ref_def device_ref_def devices_ref_def apply_updates_def
   demo_random_def write_doc_eq demo_site_def demo_agent_def demo_device_def optional_key_def opt_json_def minute_us_def)

lemma demo_agent_checks:
  "bounded_identifier (pf_repr demo_platform) (JStr ''agent_a'') ''agentId'' = Inr ''agent_a''"
  "fresh_timestamp demo_clock ''1000'' e f = Inr ()"
  "check_signature demo_platform (replicate 43 CHR ''A'') [] m e = Inr ()"
proof -
  show "bounded_identifier (pf_repr demo_platform) (JStr ''agent_a'') ''agentId'' = Inr ''agent_a''" by code_simp
  have "py_int ''1000'' = Some 1000" "fl 1000 = 1000" by code_simp+
  moreover from this(2) have "clock_distance (ck_time demo_clock) 1000 = Some 0"
    by (simp add: clock_distance_def float_of_int_def demo_clock_def)
  ultimately show "fresh_timestamp demo_clock ''1000'' e f = Inr ()" by (simp add: fresh_timestamp_def)
  have "decode_signature [] = Some []" by code_simp
  then show "check_signature demo_platform (replicate 43 CHR ''A'') [] m e = Inr ()"
    by (simp add: check_signature_def demo_texts) (simp add: demo_platform_def memory_platform_def)
qed

lemma demo_authenticated:
  assumes "map_of demo_bodies b = Some (JObj body)" and "length b \<le> 64" and "map_of (sv_db s) (agent_ref ''agent_a'') = Some agent"
    and "agent ''publicKey'' = Some (FStr (replicate 43 CHR ''A''))" and "\<not> field_true agent ''revoked'' False"
  shows "authenticate_agent demo_platform open_config demo_clock ''agent_a'' (signed b n) False s = (Inr (body, agent), s)"
proof -
  have loads: "pf_loads demo_platform b = Loaded (JObj body)"
    using assms(1) by (simp add: demo_platform_def memory_platform_def demo_loads_def)
  show ?thesis
  unfolding authenticate_agent_def
  by (simp cong: then_do_cong add: demo_agent_checks agent_body_def body_limit_def signed_def open_config_def assms loads known_agent_def
    header_def dget_def check_agent_signature_def) (use assms(2) in simp)
qed

definition exchanged_service :: "memory server" where
  "exchanged_service = snd (secure_exchange_route demo_platform open_config demo_clock ''agent_a'' (signed ''session'' ''nonce-0123456789ab'') claimed_service)"

lemma demo_exchanges: "\<exists>x. secure_exchange_route demo_platform open_config demo_clock ''agent_a'' (signed ''session'' ''nonce-0123456789ab'') claimed_service
  = (Inr x, exchanged_service)"
proof -
  have b: "map_of demo_bodies ''session'' = Some (JObj [(''protocolVersion'', JInt 1), (''sessionId'', JStr ''session_1'')])"
    by (simp add: demo_bodies_def)
  have n: "nonce_ok ''nonce-0123456789ab''" by code_simp
  have a: "map_of (sv_db claimed_service) (agent_ref ''agent_a'') = Some demo_agent"
    by (simp add: claimed_service_def agent_ref_def activation_ref_def)
  have k: "demo_agent ''publicKey'' = Some (FStr (replicate 43 CHR ''A''))" "\<not> field_true demo_agent ''revoked'' False"
    by (simp_all add: demo_agent_def new_agent_doc_def demo_activation_def field_true_def)
  have i: "exchange_request_of demo_platform [(''protocolVersion'', JInt 1), (''sessionId'', JStr ''session_1'')]
     = Inr \<lparr>xr_session = ''session_1'', xr_capabilities = [], xr_responses = []\<rparr>" by code_simp
  have u: "demo_agent ''usageDate'' = None"  by (simp_all add: demo_agent_def new_agent_doc_def demo_activation_def field_true_def)
  let ?q = "signed ''session'' ''nonce-0123456789ab''"
  note auth = demo_authenticated [where n = "''nonce-0123456789ab''", OF b _ a k, simplified]
  have f: "fst (exchange_frames demo_platform open_config demo_clock ''agent_a'' demo_agent [(''protocolVersion'', JInt 1), (''sessionId'', JStr ''session_1'')] (claimed_service\<lparr>sv_db := sv_db claimed_service @ [(nonce_ref ''agent_a'' ''nonce-0123456789ab'', d)]\<rparr>))
     = Inr ([], relay_policy_of open_config)" for d
    by (simp cong: then_do_cong add: then_do_assoc claimed_service_def exchange_frames_def i usage_update_def archive_usage_def finished_day_def u
     Let_def then_do_write memory_query_def commands_ref_def agent_ref_def activation_ref_def device_ref_def nonce_ref_def empty_service_def)
  have p: "require_replay_protected demo_platform demo_clock ''agent_a'' demo_agent ?q claimed_service = (Inr (), claimed_service\<lparr>sv_db := sv_db claimed_service @ [(nonce_ref ''agent_a'' ''nonce-0123456789ab'', [''createdAt'' \<mapsto> server_time demo_clock, ''expiresAt'' \<mapsto> FTime (ck_now demo_clock + 10 * minute_us)])]\<rparr>)"
   unfolding require_replay_protected_def 
   by (simp cong: then_do_cong add: then_do_assoc n header_def dget_def
     check_agent_signature_def k demo_agent_checks signed_def then_do_commit claimed_service_def nonce_ref_def agent_ref_def activation_ref_def device_ref_def empty_service_def)
  have "fst (secure_exchange_route demo_platform open_config demo_clock ''agent_a'' ?q claimed_service)
    = Inr ([], relay_policy_of open_config)"
    unfolding secure_exchange_route_def
    by (simp cong: then_do_cong add: then_do_def [of "authenticate_agent _ _ _ _ _ _"] then_do_def [of "require_replay_protected _ _ _ _ _"] auth p f)
  then show ?thesis unfolding exchanged_service_def by (metis prod.collapse)
qed

section \<open>The running service\<close>

lemma demo_fresh: "fresh_service demo_platform empty_service"
  by (simp add: fresh_service_def empty_service_def)

lemma demo_reachable: "reachable demo_platform open_config paired_service" "reachable demo_platform open_config claimed_service"
proof -
  have sf: "slash_free (cr_agent demo_random)" "slash_free (cr_device demo_random)" by (simp_all add: demo_random_def slash_free_def)
  obtain x where x: "create_activation_route demo_platform open_config demo_clock ''r'' ''secret'' (signed ''pair'' []) empty_service = (Inr x, paired_service)"
    using demo_pairs by blast
  have p: "runs demo_platform open_config empty_service paired_service"
    using runs.further [OF runs.here [of demo_platform open_config empty_service] served.activation [where q = "signed ''pair'' []" and ck = demo_clock and r = "''r''" and secret = "''secret''"]]
      x by simp
  obtain y where y: "claim_activation_route demo_platform open_config demo_clock demo_random ''activate_r'' (signed ''claim'' []) paired_service
     = (Inr y, claimed_service)" using demo_claims by blast
  have "runs demo_platform open_config empty_service claimed_service"
    using runs.further [OF p served.claim [OF sf, where q = "signed ''claim'' []" and ck = demo_clock and i = "''activate_r''"]] y by simp
  with p demo_fresh show "reachable demo_platform open_config paired_service" "reachable demo_platform open_config claimed_service"
    unfolding reachable_def by blast+
qed

lemma demo_digest_store: "digest_store demo_platform"
  unfolding demo_platform_def by (rule memory_digest_store)

text \<open>The Agent registers its app for notifications.\<close>

definition demo_registration :: fdoc where
  "demo_registration =
     [''fcmToken'' \<mapsto> FStr ''token1'', ''meaningfulEnabled'' \<mapsto> FBool True,
      ''activityEnabled'' \<mapsto> FBool True, ''platform'' \<mapsto> FStr ''android'',
      ''appVersion'' \<mapsto> FStr [], ''deviceModel'' \<mapsto> FStr [], ''deviceName'' \<mapsto> FStr [], ''osVersion'' \<mapsto> FStr [],
      ''updatedAt'' \<mapsto> server_time demo_clock, ''lastConnectedAt'' \<mapsto> server_time demo_clock, ''expiresAt'' \<mapsto> in_days demo_clock 30,
      ''siteId'' \<mapsto> FStr ''site_s'']"

definition registered_service :: "memory server" where
  "registered_service = empty_service\<lparr>sv_db :=
     [(activation_ref ''activate_r'', demo_activation(''claimedAt'' \<mapsto> server_time demo_clock, ''agentId'' \<mapsto> FStr ''agent_a'', ''siteId'' \<mapsto> FStr ''site_s'')),
      ([''sites'', ''site_s''], demo_site), (agent_ref ''agent_a'', demo_agent(''lastSeenAt'' \<mapsto> server_time demo_clock)),
      (device_ref ''agent_a'' ''device_d'', demo_device ++ demo_registration),
      (token_ref demo_platform ''token1'', [''devicePath'' \<mapsto> FStr (ref_path (device_ref ''agent_a'' ''device_d'')), ''updatedAt'' \<mapsto> server_time demo_clock])]\<rparr>"

lemma demo_registers:
  "register_device_route demo_platform open_config demo_clock ''agent_a'' (signed ''register'' []) claimed_service = (Inr ''device_d'', registered_service)"
proof -
  let ?body = "[(''fcmToken'', JStr ''token1''), (''relayDeviceId'', JStr ''device_d'')]"
  let ?s = "claimed_service\<lparr>sv_db := AList.update (agent_ref ''agent_a'') (demo_agent(''lastSeenAt'' \<mapsto> server_time demo_clock)) (sv_db claimed_service)\<rparr>"
  have b: "map_of demo_bodies ''register'' = Some (JObj ?body)"
    by (simp add: demo_bodies_def)
  have a: "map_of (sv_db claimed_service) (agent_ref ''agent_a'') = Some demo_agent"
    by (simp add: claimed_service_def agent_ref_def activation_ref_def)
  have k: "demo_agent ''publicKey'' = Some (FStr (replicate 43 CHR ''A''))" "\<not> field_true demo_agent ''revoked'' False"
    "demo_agent ''siteId'' = Some (FStr ''site_s'')"
    by (simp_all add: demo_agent_def new_agent_doc_def demo_activation_def field_true_def)
  note no = demo_authenticated [where n = "[]", OF b _ a k(1,2), simplified]
  have auth: "authenticate_agent demo_platform open_config demo_clock ''agent_a'' (signed ''register'' []) True claimed_service = (Inr (?body, demo_agent), ?s)"
  proof -
    have "authenticate_agent demo_platform open_config demo_clock ''agent_a'' (signed ''register'' []) True claimed_service =
      then_do (authenticate_agent demo_platform open_config demo_clock ''agent_a'' (signed ''register'' []) False)
        (\<lambda>x. then_do (write_doc demo_platform (Update (agent_ref ''agent_a'') [Put ''lastSeenAt'' (server_time demo_clock)])) (\<lambda>_. ret x)) claimed_service"
      unfolding authenticate_agent_def by (simp cong: then_do_cong add: then_do_assoc demo_agent_checks split: sum.split)
    then show ?thesis
      by (simp cong: then_do_cong add: then_do_def [of "authenticate_agent _ _ _ _ _ _"] no then_do_write a apply_updates_def)
  qed
  have t: "bounded_text (pf_repr demo_platform) (JStr ''token1'') ''fcmToken'' 4096 = Inr ''token1''"
    "bounded_text (pf_repr demo_platform) (JStr ''android'') ''platform'' 32 = Inr ''android''"
    "optional_identifier (pf_repr demo_platform) (JStr ''device_d'') = ''device_d''"
    "optional_text (pf_repr demo_platform) JNull 100 = []" "optional_text (pf_repr demo_platform) JNull 120 = []" by code_simp+
  have dd: "\<exists>dd. registration_doc demo_platform demo_clock ?body ''token1'' = Inr dd \<and> dd(''siteId'' \<mapsto> FStr ''site_s'') = demo_registration"
    by (simp add: registration_doc_def dget_def t flag_of_def note_of_def jget_def demo_registration_def)
  then obtain dd where dd: "registration_doc demo_platform demo_clock ?body ''token1'' = Inr dd" "dd(''siteId'' \<mapsto> FStr ''site_s'') = demo_registration"
    by blast
  have st: "store_registration demo_platform open_config demo_clock ''agent_a'' ''device_d'' ?body demo_agent ''token1'' ?s
    = install_token demo_platform demo_clock ''token1'' (device_ref ''agent_a'' ''device_d'') demo_registration ?s"
    unfolding store_registration_def Let_def
    by (simp cong: then_do_cong add: dd k(3) t jget_def dget_def optional_key_def claimed_service_def empty_service_def agent_ref_def activation_ref_def device_ref_def)
  have i: "install_token demo_platform demo_clock ''token1'' (device_ref ''agent_a'' ''device_d'') demo_registration ?s = (Inr (), registered_service)"
    unfolding install_token_def claim_token_def Let_def
    by (simp cong: then_do_cong add: then_do_write write_doc_eq claimed_service_def empty_service_def agent_ref_def activation_ref_def device_ref_def token_ref_def
      registered_service_def)
  show ?thesis
    unfolding register_device_route_def
    by (simp cong: then_do_cong add: then_do_def [of "authenticate_agent _ _ _ _ _ _"] then_do_def [of "store_registration _ _ _ _ _ _ _ _"] auth st i t jget_def dget_def Let_def)
qed

lemma demo_holds: "holds_token (view demo_platform registered_service) (device_ref ''agent_a'' ''device_d'') ''token1''"
  by (simp add: holds_token_def view_def registered_service_def device_ref_def agent_ref_def activation_ref_def demo_registration_def)

end
