(* ===== verification/PushAccess.thy ===== *)
theory PushAccess
  imports PushDemo
begin

text \<open>
  Who may do what: every route of the push relay that an Agent, an app or the operator calls changes nothing
  and answers nothing unless the request carries the proof the code asks for.
\<close>

section \<open>Proofs of identity\<close>

text \<open>A handler that refuses a request: an error, and the state as it was.\<close>

definition refuses :: "('s, 'a) handler \<Rightarrow> 's \<Rightarrow> bool" where
  "refuses m s \<longleftrightarrow> (\<exists>e. m s = (Inl e, s))"

text \<open>The request is signed with the key of the Agent it names, who is not revoked, within five minutes.\<close>

definition signed_with :: "'db platform \<Rightarrow> fdoc \<Rightarrow> string \<Rightarrow> string \<Rightarrow> bool" where
  "signed_with P agent signature message \<longleftrightarrow> (\<exists>key k sig. agent ''publicKey'' = Some (FStr key) \<and>
     decode_public_key key = Some k \<and> decode_signature signature = Some sig \<and> pf_verify P k sig message)"

definition fresh_request :: "clock \<Rightarrow> http_request \<Rightarrow> bool" where
  "fresh_request ck q \<longleftrightarrow> (\<exists>issued d. py_int (header q ''x-pbxsense-timestamp'') = Some issued \<and>
     clock_distance (ck_time ck) issued = Some d \<and> d \<le> 300)"

definition agent_signed :: "'db platform \<Rightarrow> clock \<Rightarrow> string \<Rightarrow> http_request \<Rightarrow> 'db server \<Rightarrow> bool" where
  "agent_signed P ck a q s \<longleftrightarrow> (\<exists>agent. view P s (agent_ref (strip a)) = Some agent \<and> \<not> field_true agent ''revoked'' False \<and>
     fresh_request ck q \<and> signed_with P agent (header q ''x-pbxsense-signature'') (signed_message q))"

definition replay_signed :: "'db platform \<Rightarrow> string \<Rightarrow> http_request \<Rightarrow> 'db server \<Rightarrow> bool" where
  "replay_signed P a q s \<longleftrightarrow> nonce_ok (header q ''x-pbxsense-nonce'') \<and> (\<exists>agent. view P s (agent_ref (strip a)) = Some agent \<and>
     signed_with P agent (header q ''x-pbxsense-signature-v2'') (replay_message P q))"

text \<open>The request carries the bearer token whose digest is stored with the app.\<close>

definition bears_token :: "'db platform \<Rightarrow> fdoc \<Rightarrow> http_request \<Rightarrow> bool" where
  "bears_token P device q \<longleftrightarrow> bearer_token q \<noteq> [] \<and> field_text P device ''accessTokenHash'' [] = sha_text P (bearer_token q)"

definition app_credential :: "'db platform \<Rightarrow> string \<Rightarrow> string \<Rightarrow> http_request \<Rightarrow> 'db server \<Rightarrow> bool" where
  "app_credential P a d q s \<longleftrightarrow> (\<exists>device. view P s (device_ref a d) = Some device \<and> bears_token P device q)"

section \<open>Checks\<close>

lemma check_agent_signature_Inr: "check_agent_signature P agent signature m e = Inr u \<Longrightarrow> signed_with P agent signature m"
  by (auto simp: check_agent_signature_def check_signature_def signed_with_def split: option.splits fval.splits if_splits)

lemma fresh_timestamp_Inr: "fresh_timestamp ck (header q ''x-pbxsense-timestamp'') e f = Inr u \<Longrightarrow> fresh_request ck q"
  by (auto simp: fresh_timestamp_def fresh_request_def split: option.splits if_splits)

lemma known_agent_Inr:
  assumes "known_agent P ck q found = Inr agent"
  shows "found = Some agent" and "\<not> field_true agent ''revoked'' False" and "fresh_request ck q"
    and "signed_with P agent (header q ''x-pbxsense-signature'') (signed_message q)"
  using assms
  by (auto simp: known_agent_def split: option.splits if_splits sum.splits dest: check_agent_signature_Inr fresh_timestamp_Inr)

lemma check_device_token_Inr: "check_device_token P device q = Inr u \<Longrightarrow> bears_token P device q"
  by (auto simp: check_device_token_def bears_token_def compare_digest_def Let_def split: if_splits option.splits)

lemma identifier_strip: "bounded_identifier (pf_repr P) (JStr a) f = Inr b \<Longrightarrow> b = strip a"
  using bounded_identifierD(1) text_of_str by metis

text \<open>What a successful authentication says.\<close>

lemma authenticate_agent_cases:
  obtains (refused) e where "authenticate_agent P C ck a q touch s = (Inl e, s)"
  | (known) body agent where "agent_body P C q = Inr body" "view P s (agent_ref (strip a)) = Some agent" "agent_signed P ck a q s"
      "authenticate_agent P C ck a q touch s =
        then_do (if touch then write_doc P (Update (agent_ref (strip a)) [Put ''lastSeenAt'' (server_time ck)]) else ret ())
          (\<lambda>_. ret (body, agent)) s"
proof (cases "bounded_identifier (pf_repr P) (JStr a) ''agentId''")
  case (Inl e)
  then show thesis by (intro refused [of e]) (simp add: authenticate_agent_def)
next
  case b: (Inr b)
  show thesis
  proof (cases "agent_body P C q")
    case (Inl e)
    with b show thesis by (intro refused [of e]) (simp add: authenticate_agent_def)
  next
    case body: (Inr body)
    show thesis
    proof (cases "known_agent P ck q (pf_get P (sv_db s) (agent_ref b))")
      case (Inl e)
      with b body show thesis by (intro refused [of e]) (simp add: authenticate_agent_def)
    next
      case (Inr agent)
      note k = known_agent_Inr [OF Inr]
      have ba: "b = strip a" by (rule identifier_strip [OF b])
      show thesis
      proof (rule known [OF body])
        show "view P s (agent_ref (strip a)) = Some agent" using k(1) ba by (simp add: view_def)
        with k show "agent_signed P ck a q s" unfolding agent_signed_def by blast
      qed (use b body Inr ba in \<open>simp add: authenticate_agent_def\<close>)
    qed
  qed
qed

lemma unsigned_refused: "\<not> agent_signed P ck a q s \<Longrightarrow> refuses (authenticate_agent P C ck a q touch) s"
  by (cases rule: authenticate_agent_cases [of P C ck a q touch s]) (auto simp: refuses_def)

lemma refuses_then: "refuses m s \<Longrightarrow> refuses (then_do m f) s"
  by (auto simp: refuses_def then_do_def)

lemma refuses_error: "refuses (fail e) s" "refuses (lift (Inl e)) s"
  by (simp_all add: refuses_def)

lemma untouched_agent:
  assumes "authenticate_agent P C ck a q False s = (Inr (body, agent), t)"
  shows "t = s" and "view P s (agent_ref (strip a)) = Some agent" and "agent_body P C q = Inr body" and "agent_signed P ck a q s"
  using assms by (cases rule: authenticate_agent_cases [of P C ck a q False s]; simp)+

lemma replay_refused:
  assumes "\<not> replay_signed P a q s" and "view P s (agent_ref (strip a)) = Some agent"
  shows "refuses (require_replay_protected P ck a agent q) s"
proof (cases "nonce_ok (header q ''x-pbxsense-nonce'')")
  case True
  with assms have "\<not> signed_with P agent (header q ''x-pbxsense-signature-v2'') (replay_message P q)"
    by (simp add: replay_signed_def)
  then obtain e where "check_agent_signature P agent (header q ''x-pbxsense-signature-v2'') (replay_message P q)
      (Refused 401 ''Invalid secure Agent signature'') = Inl e"
    using check_agent_signature_Inr by (metis sum.exhaust_sel sum.collapse)
  with True show ?thesis by (simp add: require_replay_protected_def refuses_def)
qed (simp add: require_replay_protected_def refuses_def)

lemma unreplayed_refused:
  assumes "\<not> replay_signed P a q s"
  shows "refuses (then_do (authenticate_agent P C ck a q False) (\<lambda>(body, agent). then_do (require_replay_protected P ck a agent q) (f body agent))) s"
proof (cases "fst (authenticate_agent P C ck a q False s)")
  case (Inl e)
  then show ?thesis by (cases rule: authenticate_agent_cases [of P C ck a q False s]) (simp_all add: refuses_def then_do_def)
next
  case (Inr x)
  then obtain body agent t where x: "authenticate_agent P C ck a q False s = (Inr (body, agent), t)" by (metis prod.exhaust fst_conv)
  note u = untouched_agent [OF x]
  have "refuses (then_do (require_replay_protected P ck a agent q) (f body agent)) s"
    by (rule refuses_then [OF replay_refused [OF assms u(2)]])
  then show ?thesis using x u(1) by (simp add: refuses_def then_do_def)
qed

lemma unsigned_then: "\<not> agent_signed P ck a q s \<Longrightarrow> refuses (then_do (authenticate_agent P C ck a q touch) f) s"
  by (rule refuses_then [OF unsigned_refused])

section \<open>The Agent's routes\<close>

text \<open>
  C11. Only the Agent speaks for itself. Unless a request is signed with the key stored for the Agent it
  names, within five minutes of the clock, and that Agent is known and not revoked, each of the Agent's
  routes refuses it and leaves the whole state as it was: no registration, revocation, heartbeat, event,
  snapshot or rate counter changes. The secure routes also refuse it without the second signature over the
  nonce, the method, the path and the digest of the body.
\<close>

theorem agent_routes_need_signature:
  "(\<not> agent_signed P ck a q s \<longrightarrow>
     refuses (register_device_route P C ck a q) s \<and> refuses (list_devices_route P C ck a q) s \<and>
     refuses (revoke_device_route P C ck a q) s \<and> refuses (remove_device_route P C ck a q) s \<and>
     refuses (heartbeat_route P C ck a q) s \<and> refuses (publish_event_route P C ck a q) s \<and>
     refuses (secure_exchange_route P C ck a q) s \<and> refuses (publish_secure_snapshots_route P C ck a q) s) \<and>
   (\<not> replay_signed P a q s \<longrightarrow>
     refuses (secure_exchange_route P C ck a q) s \<and> refuses (publish_secure_snapshots_route P C ck a q) s)"
  unfolding register_device_route_def list_devices_route_def revoke_device_route_def remove_device_route_def
    heartbeat_route_def publish_event_route_def secure_exchange_route_def publish_secure_snapshots_route_def
  by (intro conjI impI unsigned_then unreplayed_refused; assumption)

theorem agent_routes_need_signature_witness:
  "refuses (heartbeat_route demo_platform open_config demo_clock ''nobody'' (signed ''session'' [])) claimed_service \<and>
   refuses (secure_exchange_route demo_platform open_config demo_clock ''agent_a'' (signed ''session'' [])) claimed_service"
proof -
  have "view demo_platform claimed_service (agent_ref (strip ''nobody'')) = None"
    by (simp add: view_def claimed_service_def agent_ref_def activation_ref_def device_ref_def empty_service_def)
      (simp add: strip_def strip_chars_def rstrip_chars_def is_space_def code_point_def)
  then have "\<not> agent_signed demo_platform demo_clock ''nobody'' (signed ''session'' []) claimed_service"
    by (simp add: agent_signed_def)
  moreover have "\<not> replay_signed demo_platform ''agent_a'' (signed ''session'' []) claimed_service"
    by (simp add: replay_signed_def nonce_ok_def signed_def header_def dget_def)
  ultimately show ?thesis
    using agent_routes_need_signature [of demo_platform demo_clock "''nobody''" "signed ''session'' []" claimed_service open_config]
      agent_routes_need_signature [of demo_platform demo_clock "''agent_a''" "signed ''session'' []" claimed_service open_config] by blast
qed

section \<open>Apps and the operator\<close>

lemma relay_device_cases:
  obtains (refused) e where "authenticate_relay_device P ck a d q s = (Inl e, s)"
  | (known) device where "view P s (device_ref (strip a) (strip d)) = Some device" "bears_token P device q"
      "\<not> device_expired ck device" "authenticate_relay_device P ck a d q s = (Inr (device_ref (strip a) (strip d), device), s)"
proof (cases "bounded_identifier (pf_repr P) (JStr a) ''agentId''")
  case (Inl e)
  then show thesis by (intro refused [of e]) (simp add: authenticate_relay_device_def)
next
  case b: (Inr b)
  show thesis
  proof (cases "bounded_identifier (pf_repr P) (JStr d) ''deviceId''")
    case (Inl e)
    with b show thesis by (intro refused [of e]) (simp add: authenticate_relay_device_def)
  next
    case e: (Inr e)
    note be = b e identifier_strip [OF b] identifier_strip [OF e]
    show thesis
    proof (cases "view P s (device_ref b e)")
      case None
      then show thesis
        by (intro refused [of "Refused 401 ''Unknown device''"]) (simp add: be authenticate_relay_device_def view_def)
    next
      case (Some device)
      show thesis
      proof (cases "device_expired ck device")
        case True
        with Some show thesis
          by (intro refused [of "Refused 401 ''Device credential expired''"]) (simp add: be authenticate_relay_device_def view_def)
      next
        case False
        show thesis
        proof (cases "check_device_token P device q")
          case (Inl x)
          with Some False show thesis by (intro refused [of x]) (simp add: be authenticate_relay_device_def view_def)
        next
          case (Inr u)
          from check_device_token_Inr [OF this] Inr Some False show thesis
            by (intro known [of device]) (simp_all add: be authenticate_relay_device_def view_def)
        qed
      qed
    qed
  qed
qed

text \<open>
  C16. Only the app speaks for itself, and only the operator for the operator. The routes of an app refuse a
  request that does not carry the bearer token whose digest is stored with that app, and reading a snapshot
  and registering also refuse it after the credential has expired; a self-removal answers without the token
  only when there is no such app, and then removes nothing. The operator's routes refuse a request without
  the configured administrator token, and every request when none is configured. Each refusal leaves the
  state as it was.
\<close>

theorem app_and_operator_routes_need_credential:
  "(\<not> app_credential P (strip a) (strip d) q s \<longrightarrow>
     refuses (register_own_device_route P ck a d q) s \<and> refuses (read_secure_snapshot_route P C ck a d q) s) \<and>
   (\<not> app_credential P a d q s \<longrightarrow> snd (revoke_own_device_route P a d q s) = s \<and>
     (view P s (device_ref a d) \<noteq> None \<longrightarrow> refuses (revoke_own_device_route P a d q) s)) \<and>
   (cf_admin_token C = [] \<or> header q ''x-pbxsense-admin-token'' \<noteq> cf_admin_token C \<longrightarrow>
     refuses (create_enrollment_ticket_route P C ck r q) s \<and> refuses (queue_secure_ping_route P C ck r a q) s \<and>
     refuses (sweep_route P C ck q) s \<and> refuses (relay_usage_route P C ck q) s)"
proof (intro conjI impI)
  have own: "refuses (authenticate_relay_device P ck a d q) s" if "\<not> app_credential P (strip a) (strip d) q s"
    using that by (cases rule: relay_device_cases [of P ck a d q s]) (auto simp: refuses_def app_credential_def)
  show "refuses (register_own_device_route P ck a d q) s" "refuses (read_secure_snapshot_route P C ck a d q) s"
    if "\<not> app_credential P (strip a) (strip d) q s"
    unfolding register_own_device_route_def read_secure_snapshot_route_def by (rule refuses_then [OF own [OF that]])+
  have self: "\<exists>e. check_device_token P device q = Inl e" if "\<not> app_credential P a d q s" "view P s (device_ref a d) = Some device" for device
    using that check_device_token_Inr [of P device q] by (cases "check_device_token P device q") (auto simp: app_credential_def)
  show "snd (revoke_own_device_route P a d q s) = s" if "\<not> app_credential P a d q s"
    using self [OF that] by (auto simp: revoke_own_device_route_def view_def split: option.split)
  show "refuses (revoke_own_device_route P a d q) s" if "\<not> app_credential P a d q s" "view P s (device_ref a d) \<noteq> None"
    using self [OF that(1)] that(2) by (auto simp: revoke_own_device_route_def view_def refuses_def)
  have admin: "refuses (then_do (lift (require_admin C q)) f) s"
    if "cf_admin_token C = [] \<or> header q ''x-pbxsense-admin-token'' \<noteq> cf_admin_token C" for f :: "unit \<Rightarrow> ('a server, 'b) handler"
    using that by (auto simp: require_admin_def compare_digest_def refuses_def)
  show "refuses (create_enrollment_ticket_route P C ck r q) s" "refuses (queue_secure_ping_route P C ck r a q) s"
    "refuses (sweep_route P C ck q) s" "refuses (relay_usage_route P C ck q) s"
    if "cf_admin_token C = [] \<or> header q ''x-pbxsense-admin-token'' \<noteq> cf_admin_token C"
    unfolding create_enrollment_ticket_route_def queue_secure_ping_route_def sweep_route_def relay_usage_route_def
    by (rule admin [OF that])+
qed

theorem app_and_operator_routes_need_credential_witness:
  "refuses (read_secure_snapshot_route demo_platform open_config demo_clock ''agent_a'' ''device_d'' (probe ''/v1'')) claimed_service \<and>
   refuses (revoke_own_device_route demo_platform ''agent_a'' ''device_d'' (probe ''/v1'')) claimed_service \<and>
   refuses (sweep_route demo_platform open_config demo_clock (probe ''/v1'')) claimed_service"
proof -
  have "bearer_token (probe ''/v1'') = []" by code_simp
  then have "\<not> app_credential demo_platform a d (probe ''/v1'') claimed_service" for a d
    by (simp add: app_credential_def bears_token_def)
  moreover have "header (probe ''/v1'') ''x-pbxsense-admin-token'' \<noteq> cf_admin_token open_config"
    by (simp add: probe_def open_config_def header_def dget_def)
  moreover have "view demo_platform claimed_service (device_ref ''agent_a'' ''device_d'') \<noteq> None"
    by (simp add: view_def claimed_service_def agent_ref_def activation_ref_def device_ref_def)
  ultimately show ?thesis
    using app_and_operator_routes_need_credential [of demo_platform "''agent_a''" "''device_d''" "probe ''/v1''" claimed_service demo_clock open_config] by blast
qed

end
