(* ===== verification/PushSafety.thy ===== *)
theory PushSafety
  imports PushDemo
begin

text \<open>
  What the push relay promises over whole runs of the service: a secure request is accepted once, an
  activation is claimed once, a token belongs to one app and an Agent has a bounded number of apps.
\<close>

section \<open>Once\<close>





section \<open>Tokens and apps\<close>





end
