(* ===== verification/PushDelivery.thy ===== *)
theory PushDelivery
  imports PushAccess PushSafety
begin

text \<open>
  Notifications of the push relay: who receives one, that a recorded event is not sent again, and that an
  event the messaging service could not take is forgotten, so that the Agent's retry is sent.
\<close>

section \<open>Recipients\<close>

text \<open>The tokens a notification is for: those of the apps that want it and have not expired.\<close>

definition wanted_tokens :: "'db platform \<Rightarrow> clock \<Rightarrow> (fdoc \<Rightarrow> bool) \<Rightarrow> (string \<times> fdoc) list \<Rightarrow> string set" where
  "wanted_tokens P ck wants ds = {t. t \<noteq> [] \<and> (\<exists>(i, d) \<in> set ds. wants d \<and> not_expired ck d = Some True \<and>
     field_true d ''fcmToken'' False \<and> field_text P d ''fcmToken'' [] = t)}"

lemma live_devices_set:
  "live_devices ck wants ds = Inr es \<Longrightarrow>
    set es = {(i, d) \<in> set ds. wants d \<and> not_expired ck d = Some True \<and> field_true d ''fcmToken'' False}"
proof (induction ds arbitrary: es)
  case (Cons e ds)
  obtain i d where e: "e = (i, d)" by (cases e)
  from Cons show ?case by (auto simp: e split: if_splits option.splits sum.splits)
qed simp

definition keyed :: "'db platform \<Rightarrow> (string \<times> string \<times> fdoc) list \<Rightarrow> bool" where
  "keyed P acc \<longleftrightarrow> distinct (map fst acc) \<and> (\<forall>(t, i, d) \<in> set acc. t = field_text P d ''fcmToken'' [] \<and> t \<noteq> [])"

lemma keyed_step: "keyed P acc \<Longrightarrow> keyed P (by_token P acc x) \<and>
    fst ` set (by_token P acc x) = fst ` set acc \<union> ({field_text P (snd x) ''fcmToken'' []} - {[]}) \<and>
    snd ` set (by_token P acc x) \<subseteq> insert x (snd ` set acc)"
proof -
  assume k: "keyed P acc"
  let ?t = "field_text P (snd x) ''fcmToken'' []"
  have "set (AList.update ?t x acc) \<subseteq> insert (?t, x) (set acc)"
    by (induction acc) auto
  moreover have "distinct (map fst (AList.update ?t x acc))" using k by (simp add: keyed_def distinct_update)
  moreover have "fst ` set (AList.update ?t x acc) = insert ?t (fst ` set acc)" by (simp add: dom_update)
  ultimately show ?thesis using k by (cases x) (auto simp: by_token_def keyed_def Let_def)
qed

lemma keyed_fold:
  "keyed P acc \<Longrightarrow> keyed P (foldl (by_token P) acc ds) \<and>
    fst ` set (foldl (by_token P) acc ds) = fst ` set acc \<union> ((\<lambda>x. field_text P (snd x) ''fcmToken'' []) ` set ds - {[]}) \<and>
    snd ` set (foldl (by_token P) acc ds) \<subseteq> snd ` set acc \<union> set ds"
proof (induction ds arbitrary: acc)
  case (Cons x ds)
  have grow: "B \<subseteq> A \<union> set (x # ds)" if "X \<subseteq> insert x A" "B \<subseteq> X \<union> set ds" for A B X using that by auto
  note step = keyed_step [OF Cons.prems, of x]
  note rest = Cons.IH [OF step [THEN conjunct1]]
  show ?case
    unfolding foldl_Cons
    using rest [THEN conjunct1] rest [THEN conjunct2, THEN conjunct1] step [THEN conjunct2, THEN conjunct1]
      grow [OF step [THEN conjunct2, THEN conjunct2] rest [THEN conjunct2, THEN conjunct2]]
    by (intro conjI) (assumption, auto)
qed auto

lemma unique_devices:
  "distinct (tokens_of P (unique_devices_by_token P ds))"
  "set (tokens_of P (unique_devices_by_token P ds)) = (\<lambda>x. field_text P (snd x) ''fcmToken'' []) ` set ds - {[]}"
  "set (unique_devices_by_token P ds) \<subseteq> set ds"
proof -
  have "keyed P []" by (simp add: keyed_def)
  from keyed_fold [OF this, of ds] have k: "keyed P (foldl (by_token P) [] ds)"
    "fst ` set (foldl (by_token P) [] ds) = (\<lambda>x. field_text P (snd x) ''fcmToken'' []) ` set ds - {[]}"
    "snd ` set (foldl (by_token P) [] ds) \<subseteq> set ds" by auto
  have "tokens_of P (map snd acc) = map fst acc" if "keyed P acc" for acc
    using that by (induction acc) (auto simp: keyed_def tokens_of_def)
  from this [OF k(1)] k show "distinct (tokens_of P (unique_devices_by_token P ds))"
    "set (tokens_of P (unique_devices_by_token P ds)) = (\<lambda>x. field_text P (snd x) ''fcmToken'' []) ` set ds - {[]}"
    "set (unique_devices_by_token P ds) \<subseteq> set ds"
    by (simp_all add: unique_devices_by_token_def keyed_def)
qed

lemma eligible_tokens:
  assumes "eligible_devices P ck wants ds = Inr es"
  shows "distinct (tokens_of P es)" and "set (tokens_of P es) = wanted_tokens P ck wants ds" and "set es \<subseteq> set ds"
proof -
  from assms obtain ls where ls: "live_devices ck wants ds = Inr ls" and es: "es = unique_devices_by_token P ls"
    by (auto simp: eligible_devices_def map_sum_def split: sum.splits)
  note l = live_devices_set [OF ls]
  show "distinct (tokens_of P es)" unfolding es by (rule unique_devices(1))
  show "set (tokens_of P es) = wanted_tokens P ck wants ds"
    unfolding es unique_devices(2) l wanted_tokens_def by force
  show "set es \<subseteq> set ds" using unique_devices(3) [of P ls] l es by auto
qed

lemma wanted_tokens_cong: "set ds = set ds' \<Longrightarrow> wanted_tokens P ck wants ds = wanted_tokens P ck wants ds'"
  by (simp add: wanted_tokens_def)

section \<open>How a delivery ends\<close>

lemma sent_kept [simp]: "sv_sent (snd (write_doc P w s)) = sv_sent s"
  by (simp add: write_doc_eq split: sum.split)

lemma keeps_sent_removed: "keeps (\<lambda>s. sv_sent s = l) (remove_invalid_tokens P a ds rs)"
proof (induction ds rs rule: list_induct2')
  case (4 d ds r rs)
  have w: "keeps (\<lambda>s. sv_sent s = l) (write_doc P w)" for w by (simp add: keeps_def)
  have "keeps (\<lambda>s. sv_sent s = l) (delete_device_registration P a i dev)" for i dev
    unfolding delete_device_registration_def drop_token_pointer_def Let_def
    by (cases dev) (simp_all only: option.case, (intro keeps_intros w)+)
  then show ?case by (cases d) (simp only: remove_invalid_tokens.simps, intro keeps_intros 4)
qed (simp_all only: remove_invalid_tokens.simps keeps_end)

abbreviation interested :: "push_event \<Rightarrow> fdoc \<Rightarrow> bool" where
  "interested e d \<equiv> device_wants_event d (pe_category e) (pe_importance e)"

context digest_store
begin

lemma deliver_event_cases:
  obtains (crashed) x where "deliver_event P ck a site e w = (Inl x, w)"
  | (nobody) es where "eligible_devices P ck (interested e) (pf_query P (sv_db w) (devices_ref a) Everything) = Inr es"
      "tokens_of P es = []" "deliver_event P ck a site e w = (Inr NoRecipients, w)"
  | (sent) es rs y t where "eligible_devices P ck (interested e) (pf_query P (sv_db w) (devices_ref a) Everything) = Inr es"
      "tokens_of P es \<noteq> []" "pf_send P (length (sv_sent w)) (event_push e site (tokens_of P es)) = Some rs"
      "remove_invalid_tokens P a es rs (w\<lparr>sv_sent := sv_sent w @ [(event_push e site (tokens_of P es), Some rs)]\<rparr>) = (y, t)"
      "deliver_event P ck a site e w = (map_sum id (\<lambda>_. Sent (delivered rs) (length rs - delivered rs)) y, t)"
  | (failed) m t where "sv_sent t = sv_sent w @ [(m, None)]" "view P t = (view P w)(event_ref site (pe_id e) := None)"
      "deliver_event P ck a site e w = (Inl Crashed, t)"
proof (cases "eligible_devices P ck (interested e) (pf_query P (sv_db w) (devices_ref a) Everything)")
  case (Inl x)
  then show thesis by (intro crashed [of x]) (simp add: deliver_event_def)
next
  case (Inr es)
  show thesis
  proof (cases "tokens_of P es = []")
    case True
    with Inr show thesis by (intro nobody [of es]) (simp_all add: deliver_event_def)
  next
    case False
    let ?m = "event_push e site (tokens_of P es)"
    show thesis
    proof (cases "pf_send P (length (sv_sent w)) ?m")
      case None
      let ?w = "w\<lparr>sv_sent := sv_sent w @ [(?m, None)]\<rparr>"
      have "deliver_event P ck a site e w = (Inl Crashed, snd (write_doc P (Delete (event_ref site (pe_id e))) ?w))"
        using Inr False None by (simp add: deliver_event_def send_multicast_def Let_def then_do_def [of "send_multicast _ _"])
      then show thesis by (rule failed [rotated 2]) simp_all
    next
      case (Some rs)
      let ?w = "w\<lparr>sv_sent := sv_sent w @ [(?m, Some rs)]\<rparr>"
      obtain y t where r: "remove_invalid_tokens P a es rs ?w = (y, t)" by force
      have "deliver_event P ck a site e w = (map_sum id (\<lambda>_. Sent (delivered rs) (length rs - delivered rs)) y, t)"
        using Inr False Some r
        by (cases y) (simp_all add: deliver_event_def send_multicast_def Let_def then_do_def [of "send_multicast _ _"]
          then_do_def [of "remove_invalid_tokens _ _ _ _"])
      then show thesis by (rule sent [OF Inr False Some r])
    qed
  qed
qed

text \<open>How a request to publish an event ends.\<close>

lemma publish_event_cases:
  assumes "agent_body P C q = Inr body" and "push_event_of P body = Inr e"
  obtains (refused) x u where "publish_event_route P C ck a q s = (Inl x, u)" "view P u = view P s" "sv_sent u = sv_sent s"
  | (ignored) u where "publish_event_route P C ck a q s = (Inr Ignored, u)" "view P u = view P s" "sv_sent u = sv_sent s"
  | (known) agent site u where "view P s (agent_ref (strip a)) = Some agent" "agent ''siteId'' = Some (FStr site)"
      "view P s (event_ref site (pe_id e)) \<noteq> None" "publish_event_route P C ck a q s = (Inr Duplicate, u)"
      "view P u = view P s" "sv_sent u = sv_sent s"
  | (fresh) agent site w where "view P s (agent_ref (strip a)) = Some agent" "agent ''siteId'' = Some (FStr site)"
      "view P s (event_ref site (pe_id e)) = None" "view P w = (view P s)(event_ref site (pe_id e) \<mapsto> event_doc ck a e)"
      "sv_sent w = sv_sent s" "publish_event_route P C ck a q s = deliver_event P ck a site e w"
proof -
  note refuse = that(1) and ignore = that(2) and repeated = that(3) and recorded = that(4)
  obtain b w where c: "consume_event_window C ck a s = (Inr b, s\<lparr>sv_events := w\<rparr>)"
    by (cases "consume_window (ck_mono ck) (cf_max_events_per_hour C) (60 * 60) (dget (sv_events s) a [])")
      (simp add: consume_event_window_def)
  show thesis
  proof (cases rule: authenticate_agent_cases [of P C ck a q False s])
    case (refused x)
    then show thesis by (intro refuse [of x s]) (simp_all add: publish_event_route_def then_do_def [of "authenticate_agent _ _ _ _ _ _"])
  next
    case (known body' agent)
    with assms(1) have body: "body' = body" by simp
    let ?s = "s\<lparr>sv_events := w\<rparr>"
    have r: "publish_event_route P C ck a q s = (if \<not> b then (Inl (Refused 429 ''Agent notification rate limit exceeded''), ?s)
      else if pe_category e = ''recommendation'' then (Inr Ignored, ?s)
      else (case agent ''siteId'' of
        Some (FStr site) \<Rightarrow> then_do (commit P [Create (event_ref site (pe_id e)) (event_doc ck a e)]) (\<lambda>r.
          case r of Some AlreadyExists \<Rightarrow> ret Duplicate | Some NotFound \<Rightarrow> fail Crashed | None \<Rightarrow> deliver_event P ck a site e) ?s
      | _ \<Rightarrow> (Inl Crashed, ?s)))"
      using known(4) c assms(2)
      by (simp add: publish_event_route_def then_do_def [of "authenticate_agent _ _ _ _ _ _"]
        then_do_def [of "consume_event_window _ _ _"] body split: option.split fval.split)
    have error: thesis if "publish_event_route P C ck a q s = (Inl x, ?s)" for x
      using that by (rule refuse) simp_all
    show thesis
    proof (cases "b \<and> pe_category e \<noteq> ''recommendation''")
      case False
      then show thesis using r error by (cases b) (auto intro!: ignore [of ?s])
    next
      case True
      show thesis
      proof (cases "\<exists>site. agent ''siteId'' = Some (FStr site)")
        case False
        with True r have "publish_event_route P C ck a q s = (Inl Crashed, ?s)" by (auto split: option.split fval.split)
        then show thesis by (rule error)
      next
        case site: True
        then obtain site where site: "agent ''siteId'' = Some (FStr site)" ..
        let ?c = "[Create (event_ref site (pe_id e)) (event_doc ck a e)]"
        have p: "publish_event_route P C ck a q s = (case pf_commit P (sv_db s) ?c of
            Inl AlreadyExists \<Rightarrow> (Inr Duplicate, ?s) | Inl NotFound \<Rightarrow> (Inl Crashed, ?s)
          | Inr db \<Rightarrow> deliver_event P ck a site e (?s\<lparr>sv_db := db\<rparr>))"
          using r True site by (simp add: then_do_commit split: sum.split fserror.split)
        show thesis
        proof (cases "pf_commit P (sv_db s) ?c")
          case (Inl x)
          then have "x = AlreadyExists" "view P s (event_ref site (pe_id e)) \<noteq> None"
            using commit_Inl [OF Inl] by (auto simp: view_def split: if_splits)
          with Inl p known(2) site show thesis by (intro repeated [of agent site ?s]) simp_all
        next
          case (Inr db)
          from view_create [OF Inr] Inr p known(2) site show thesis
            by (intro recorded [of agent site "?s\<lparr>sv_db := db\<rparr>"]) simp_all
        qed
      qed
    qed
  qed
qed

text \<open>After an answer other than that the event is ignored, its record is there, and it stays.\<close>

lemma published_recorded:
  assumes sh: "store_shape (view P s)" and "agent_body P C q = Inr body" and "push_event_of P body = Inr e"
    and r: "publish_event_route P C ck a q s = (Inr x, t)" and "x \<noteq> Ignored"
  obtains agent site where "view P s (agent_ref (strip a)) = Some agent" "agent ''siteId'' = Some (FStr site)"
    "view P t (event_ref site (pe_id e)) \<noteq> None"
  using assms(2,3)
proof (cases rule: publish_event_cases [of C q body e ck a s])
  case (fresh agent site w)
  let ?r = "event_ref site (pe_id e)"
  let ?I = "\<lambda>s. store_shape (view P s) \<and> (permanent ?r \<longrightarrow> view P s ?r \<noteq> None)"
  have "store_shape (view P w)" unfolding fresh(4)
    by (rule store_shapeI) (use store_shapeD [OF sh] in \<open>auto simp: agent_ref_def device_ref_def event_ref_def\<close>)
  then have I: "?I w" by (simp add: fresh(4))
  have "view P t ?r \<noteq> None"
  proof (cases rule: deliver_event_cases [of ck a site e w])
    case (sent es rs y t')
    have "?I (snd (remove_invalid_tokens P a es rs (w\<lparr>sv_sent := sv_sent w @ [(event_push e site (tokens_of P es), Some rs)]\<rparr>)))"
      by (rule keepsD [OF kept.records.service.invalid_removed]) (use I in simp)
    then show ?thesis using sent fresh(6) r by simp
  qed (use I fresh(6) r in simp_all)
  then show thesis by (rule that [OF fresh(1,2)])
qed (use r assms(5) that in auto)

lemma published_once:
  assumes "reachable P C s" and "agent_body P C q = Inr body" and "push_event_of P body = Inr e"
    and r: "publish_event_route P C ck a q s = (Inr x, t)" and "x \<noteq> Ignored" and "runs P C t u"
    and "agent_body P C q' = Inr body'" and "push_event_of P body' = Inr e'" and "pe_id e' = pe_id e"
  shows "sv_sent (snd (publish_event_route P C ck' a q' u)) = sv_sent u"
    and "fst (publish_event_route P C ck' a q' u) = Inr y \<Longrightarrow> y \<in> {Duplicate, Ignored}"
proof -
  have sh: "store_shape (view P s)" by (rule reachable_shape [OF assms(1)])
  obtain agent site where agent: "view P s (agent_ref (strip a)) = Some agent" "agent ''siteId'' = Some (FStr site)"
    and rec: "view P t (event_ref site (pe_id e)) \<noteq> None"
    by (rule published_recorded [OF sh assms(2,3) r assms(5)])
  have st: "runs P C s t" using runs.further [OF runs.here served.event [where a = a and q = q and ck = ck]] r by (metis snd_conv)
  note sh' = runs_shape [OF st sh]
  have su: "runs P C s u" by (rule runs_trans [OF st assms(6)])
  have "identity (strip a) (agent ''publicKey'') (Some (FStr site)) (view P s)" using agent by (simp add: identity_def)
  from runs_identity [OF su sh this] have site: "\<And>d. view P u (agent_ref (strip a)) = Some d \<Longrightarrow> d ''siteId'' = Some (FStr site)"
    by (auto simp: identity_def)
  have there: "view P u (event_ref site (pe_id e)) \<noteq> None" by (rule runs_kept [OF assms(6) sh' _ rec]) simp
  have "sv_sent (snd (publish_event_route P C ck' a q' u)) = sv_sent u \<and>
    (fst (publish_event_route P C ck' a q' u) = Inr y \<longrightarrow> y \<in> {Duplicate, Ignored})"
    by (cases rule: publish_event_cases [OF assms(7,8), of ck' a u]) (use site there assms(9) in auto)
  then show "sv_sent (snd (publish_event_route P C ck' a q' u)) = sv_sent u"
    "fst (publish_event_route P C ck' a q' u) = Inr y \<Longrightarrow> y \<in> {Duplicate, Ignored}" by blast+
qed

text \<open>A messaging failure leaves the store as it was.\<close>

lemma failed_push:
  assumes "agent_body P C q = Inr body" and "push_event_of P body = Inr e"
    and r: "publish_event_route P C ck a q s = (y, t)" and "sv_sent t = sv_sent s @ [(m, None)]"
  shows "view P t = view P s" and "y = Inl Crashed" and "\<exists>agent site. view P s (agent_ref (strip a)) = Some agent \<and>
    agent ''siteId'' = Some (FStr site) \<and> view P s (event_ref site (pe_id e)) = None"
proof -
  have "view P t = view P s \<and> y = Inl Crashed \<and> (\<exists>agent site. view P s (agent_ref (strip a)) = Some agent \<and>
    agent ''siteId'' = Some (FStr site) \<and> view P s (event_ref site (pe_id e)) = None)"
    using assms(1,2)
  proof (cases rule: publish_event_cases [of C q body e ck a s])
    case (fresh agent site w)
    show ?thesis
    proof (cases rule: deliver_event_cases [of ck a site e w])
      case (sent es rs z t')
      have "sv_sent t' = sv_sent w @ [(event_push e site (tokens_of P es), Some rs)]"
        using keepsD [OF keeps_sent_removed [of "sv_sent w @ [(event_push e site (tokens_of P es), Some rs)]" P a es rs],
          of "w\<lparr>sv_sent := sv_sent w @ [(event_push e site (tokens_of P es), Some rs)]\<rparr>"] sent(4) by simp
      with sent(5) fresh(5,6) assms(3,4) show ?thesis by simp
    next
      case (failed m' t')
      with fresh r have "t = t'" "y = Inl Crashed" by simp_all
      moreover have "view P t' = view P s" using failed(2) fresh(3,4) by (simp add: fun_upd_idem)
      ultimately show ?thesis using fresh(1-3) by blast
    qed (use fresh(5,6) r assms(4) in simp_all)
  qed (use r assms(4) in simp_all)
  then show "view P t = view P s" "y = Inl Crashed" "\<exists>agent site. view P s (agent_ref (strip a)) = Some agent \<and>
    agent ''siteId'' = Some (FStr site) \<and> view P s (event_ref site (pe_id e)) = None" by blast+
qed

lemma new_event_not_duplicate:
  assumes "agent_body P C q = Inr body" and "push_event_of P body = Inr e" and "view P s (agent_ref (strip a)) = Some agent"
    and "agent ''siteId'' = Some (FStr site)" and "view P s (event_ref site (pe_id e)) = None"
  shows "fst (publish_event_route P C ck a q s) \<noteq> Inr Duplicate"
  using assms(1,2)
proof (cases rule: publish_event_cases [of C q body e ck a s])
  case (fresh agent' site' w)
  show ?thesis
  proof (cases rule: deliver_event_cases [of ck a site' e w])
    case (sent es rs y t)
    with fresh(6) show ?thesis by (cases y) simp_all
  qed (use fresh(6) in simp_all)
qed (use assms in auto)

text \<open>A notification that is sent goes to the apps that want it.\<close>

lemma sent_recipients:
  assumes "agent_body P C q = Inr body" and "push_event_of P body = Inr e"
    and r: "publish_event_route P C ck a q s = (Inr (Sent n k), t)"
  obtains site tokens rs where "sv_sent t = sv_sent s @ [(event_push e site tokens, Some rs)]" "distinct tokens"
    "set tokens = wanted_tokens P ck (interested e) (pf_query P (sv_db s) (devices_ref a) Everything)"
    "n = delivered rs" "n + k = length rs"
  using assms(1,2)
proof (cases rule: publish_event_cases [of C q body e ck a s])
  case (fresh agent site w)
  show thesis
  proof (cases rule: deliver_event_cases [of ck a site e w])
    case (sent es rs z t')
    have "sv_sent t' = sv_sent w @ [(event_push e site (tokens_of P es), Some rs)]"
      using keepsD [OF keeps_sent_removed [of "sv_sent w @ [(event_push e site (tokens_of P es), Some rs)]" P a es rs],
        of "w\<lparr>sv_sent := sv_sent w @ [(event_push e site (tokens_of P es), Some rs)]\<rparr>"] sent(4) by simp
    moreover have "Sent n k = Sent (delivered rs) (length rs - delivered rs)" "t = t'"
      using sent(5) fresh(6) r by (cases z; simp)+
    moreover have "delivered rs \<le> length rs" by (simp add: delivered_def)
    moreover have "set (pf_query P (sv_db w) (devices_ref a) Everything) = set (pf_query P (sv_db s) (devices_ref a) Everything)"
      using fresh(4) by (simp add: query_set view_def event_ref_def devices_ref_def)
    ultimately show thesis
      using that eligible_tokens(1,2) [OF sent(1)] fresh(5) wanted_tokens_cong by (metis event_answer.inject le_add_diff_inverse)
  qed (use fresh(6) r in simp_all)
qed (use r in simp_all)

end

section \<open>A delivery of the demonstration\<close>

definition demo_event :: push_event where
  "demo_event = \<lparr>pe_id = ''event_1'', pe_signal_id = ''event_1'', pe_title = ''T'', pe_body = ''B'', pe_category = ''phone'',
     pe_importance = ''attention''\<rparr>"

definition demo_event_body :: "json pydict" where
  "demo_event_body = [(''id'', JStr ''event_1''), (''title'', JStr ''T''), (''body'', JStr ''B''), (''category'', JStr ''phone''),
     (''importance'', JStr ''attention'')]"

definition failed_service :: "memory server" where
  "failed_service = registered_service\<lparr>sv_events := [(''agent_a'', [1000])],
     sv_sent := [(event_push demo_event ''site_s'' [''token1''], None)]\<rparr>"

definition delivered_service :: "memory server" where
  "delivered_service = registered_service\<lparr>sv_db := sv_db registered_service @ [(event_ref ''site_s'' ''event_1'', event_doc demo_clock ''agent_a'' demo_event)],
     sv_events := [(''agent_a'', [1000, 1000])],
     sv_sent := [(event_push demo_event ''site_s'' [''token1''], None), (event_push demo_event ''site_s'' [''token1''], Some [Delivered])]\<rparr>"

lemma demo_event_read:
  "agent_body demo_platform open_config (signed ''event'' n) = Inr demo_event_body" "push_event_of demo_platform demo_event_body = Inr demo_event"
proof -
  have "pf_loads demo_platform = demo_loads" by (simp add: demo_platform_def memory_platform_def)
  moreover have "demo_loads ''event'' = Loaded (JObj demo_event_body)"
    by (simp add: demo_loads_def demo_bodies_def demo_event_body_def)
  ultimately show "agent_body demo_platform open_config (signed ''event'' n) = Inr demo_event_body"
    by (simp add: agent_body_def signed_def body_limit_def open_config_def)
  show "push_event_of demo_platform demo_event_body = Inr demo_event" by code_simp
qed

lemma demo_app:
  "memory_query (sv_db registered_service @ db) (devices_ref ''agent_a'') Everything = [(''device_d'', demo_device ++ demo_registration)]"
  if "db = [] \<or> db = [(event_ref ''site_s'' ''event_1'', event_doc demo_clock ''agent_a'' demo_event)]" for db
  using that
  by (auto simp: registered_service_def memory_query_def devices_ref_def device_ref_def agent_ref_def activation_ref_def token_ref_def event_ref_def)

lemma demo_eligible:
  "eligible_devices demo_platform demo_clock (interested demo_event) [(''device_d'', demo_device ++ demo_registration)]
    = Inr [(''device_d'', demo_device ++ demo_registration)]"
  "tokens_of demo_platform [(''device_d'', demo_device ++ demo_registration)] = [''token1'']"
  by (simp_all add: eligible_devices_def device_wants_event_def field_true_def demo_registration_def demo_event_def not_expired_def
    in_days_def unique_devices_by_token_def by_token_def field_text_def tokens_of_def day_us_def Let_def)

lemma demo_publishes:
  "publish_event_route demo_platform open_config demo_clock ''agent_a'' (signed ''event'' []) registered_service = (Inl Crashed, failed_service)"
  "publish_event_route demo_platform open_config demo_clock ''agent_a'' (signed ''event'' []) failed_service = (Inr (Sent 1 0), delivered_service)"
proof -
  let ?agent = "demo_agent(''lastSeenAt'' \<mapsto> server_time demo_clock)"
  let ?q = "signed ''event'' []"
  have b: "map_of demo_bodies ''event'' = Some (JObj demo_event_body)" by (simp add: demo_bodies_def demo_event_body_def)
  have a: "map_of (sv_db registered_service) (agent_ref ''agent_a'') = Some ?agent"
    by (simp add: registered_service_def agent_ref_def activation_ref_def)
  have k: "?agent ''publicKey'' = Some (FStr (replicate 43 CHR ''A''))" "\<not> field_true ?agent ''revoked'' False"
    "demo_agent ''siteId'' = Some (FStr ''site_s'')"
    by (simp_all add: demo_agent_def new_agent_doc_def demo_activation_def field_true_def)
  have auth: "authenticate_agent demo_platform open_config demo_clock ''agent_a'' ?q False s = (Inr (demo_event_body, ?agent), s)"
    if "sv_db s = sv_db registered_service" for s
    by (rule demo_authenticated [OF b _ _ k(1,2)]) (simp_all add: that a)
  have w: "consume_window 1000 60 3600 [] = (True, [1000])" "consume_window 1000 60 3600 [1000] = (True, [1000, 1000])" by code_simp+
  have new: "map_of (sv_db registered_service) (event_ref ''site_s'' ''event_1'') = None"
    by (simp add: registered_service_def event_ref_def agent_ref_def activation_ref_def device_ref_def token_ref_def)
  have gone: "AList.delete (event_ref ''site_s'' ''event_1'') (sv_db registered_service @ [(event_ref ''site_s'' ''event_1'', x)]) = sv_db registered_service" for x
    by (simp add: registered_service_def event_ref_def agent_ref_def activation_ref_def device_ref_def token_ref_def)
  have mem: "sv_events registered_service = []" "sv_sent registered_service = []"
    by (simp_all add: registered_service_def empty_service_def)
  have ev: "pe_category demo_event = ''phone''" "pe_id demo_event = ''event_1''" by (simp_all add: demo_event_def)
  have send: "pf_send demo_platform n m = (if n = 0 then None else Some (map (\<lambda>_. Delivered) (pu_tokens m)))" for n m
    by (simp add: demo_platform_def memory_platform_def)
  have c: "ck_mono demo_clock = 1000" "cf_max_events_per_hour open_config = 60" by (simp_all add: demo_clock_def open_config_def)
  have r: "registered_service\<lparr>sv_db := sv_db registered_service\<rparr> = registered_service" by simp
  show "publish_event_route demo_platform open_config demo_clock ''agent_a'' ?q registered_service = (Inl Crashed, failed_service)"
    unfolding publish_event_route_def
    by (simp cong: then_do_cong add: then_do_def [of "authenticate_agent _ _ _ _ _ _"] auth then_do_def [of "consume_event_window _ _ _"]
      consume_event_window_def c w mem dget_def demo_event_read ev k(3) then_do_commit new deliver_event_def demo_app demo_eligible demo_eligible(1) [unfolded ev(1)]
      then_do_def [of "send_multicast _ _"] send_multicast_def Let_def send then_do_write gone failed_service_def event_push_def)
  show "publish_event_route demo_platform open_config demo_clock ''agent_a'' ?q failed_service = (Inr (Sent 1 0), delivered_service)"
    unfolding publish_event_route_def
    by (simp cong: then_do_cong add: then_do_def [of "authenticate_agent _ _ _ _ _ _"] auth then_do_def [of "consume_event_window _ _ _"]
      consume_event_window_def c w mem dget_def demo_event_read ev k(3) then_do_commit new deliver_event_def demo_app demo_eligible demo_eligible(1) [unfolded ev(1)]
      then_do_def [of "send_multicast _ _"] send_multicast_def Let_def send then_do_write gone failed_service_def event_push_def delivered_service_def delivered_def)
qed

section \<open>What is promised\<close>

text \<open>
  C8. A notification goes to the apps that want it, once for each token. When publishing an event answers
  that it was sent, one message went out, with the event's text; its tokens are distinct, and they are
  exactly those of the Agent's apps that are enabled for this category and importance, have not expired
  and have a token; the counts of the answer are those of the messaging service's answers.
\<close>

theorem event_goes_to_wanting_apps:
  assumes "digest_store P" and "agent_body P C q = Inr body" and "push_event_of P body = Inr e"
    and "publish_event_route P C ck a q s = (Inr (Sent n k), t)"
  shows "\<exists>site tokens rs. sv_sent t = sv_sent s @ [(event_push e site tokens, Some rs)] \<and> distinct tokens \<and>
    set tokens = wanted_tokens P ck (\<lambda>d. device_wants_event d (pe_category e) (pe_importance e))
      (pf_query P (sv_db s) (devices_ref a) Everything) \<and> n = delivered rs \<and> n + k = length rs"
  using digest_store.sent_recipients [OF assms] by metis

theorem event_goes_to_wanting_apps_witness:
  "\<exists>site tokens rs. sv_sent delivered_service = sv_sent failed_service @ [(event_push demo_event site tokens, Some rs)] \<and>
     distinct tokens \<and> 1 = delivered rs"
  using event_goes_to_wanting_apps [OF demo_digest_store demo_event_read demo_publishes(2)] by blast


lemma demo_registers_run: "runs demo_platform open_config claimed_service registered_service"
  using runs.further [OF runs.here [of demo_platform open_config claimed_service] served.registration [where q = "signed ''register'' []" and a = "''agent_a''" and ck = demo_clock]]
    demo_registers by simp

lemma demo_registered_reachable: "reachable demo_platform open_config registered_service"
  by (rule reachable_runs [OF demo_reachable(2) demo_registers_run])

lemma demo_failed_reachable: "reachable demo_platform open_config failed_service"
proof -
  from runs.further [OF demo_registers_run served.event [where q = "signed ''event'' []" and a = "''agent_a''" and ck = demo_clock]]
  have "runs demo_platform open_config claimed_service failed_service" by (simp add: demo_publishes(1))
  then show ?thesis by (rule reachable_runs [OF demo_reachable(2)])
qed


text \<open>
  C20. A messaging failure loses no event. When the messaging client raises, the request fails and the store
  is exactly what it was before it, the record of the event included, so no later attempt at the same event
  from that state is taken for a duplicate.
\<close>

theorem failed_push_is_forgotten:
  assumes "digest_store P" and "agent_body P C q = Inr body" and "push_event_of P body = Inr e"
    and "publish_event_route P C ck a q s = (y, t)" and "sv_sent t = sv_sent s @ [(m, None)]"
    and "agent_body P C q' = Inr body'" and "push_event_of P body' = Inr e'" and "pe_id e' = pe_id e"
  shows "y = Inl Crashed \<and> view P t = view P s \<and> fst (publish_event_route P C ck' a q' t) \<noteq> Inr Duplicate"
proof -
  note f = digest_store.failed_push [OF assms(1-5)]
  from f(3) obtain agent site where "view P t (agent_ref (strip a)) = Some agent" "agent ''siteId'' = Some (FStr site)"
    "view P t (event_ref site (pe_id e')) = None" by (auto simp: f(1) assms(8))
  from digest_store.new_event_not_duplicate [OF assms(1,6,7) this] have "fst (publish_event_route P C ck' a q' t) \<noteq> Inr Duplicate" .
  with f show ?thesis by simp
qed

theorem failed_push_is_forgotten_witness:
  "view demo_platform failed_service = view demo_platform registered_service"
proof -
  have "sv_sent failed_service = sv_sent registered_service @ [(event_push demo_event ''site_s'' [''token1''], None)]"
    by (simp add: failed_service_def registered_service_def empty_service_def)
  from failed_push_is_forgotten [OF demo_digest_store demo_event_read demo_publishes(1) this demo_event_read refl] show ?thesis by blast
qed

end
