(* ===== verification/PushPresence.thy ===== *)
theory PushPresence
  imports PushDelivery
begin

text \<open>
  Presence: the heartbeat of an Agent and the sweep that reports the silent ones.
\<close>

section \<open>Status messages leave the Agents\<close>

context digest_store
begin

lemma keeps_other_delete: "\<not> registry_ref r \<Longrightarrow> keeps (\<lambda>s. view P s r = x) (delete_device_registration P a d dev)"
proof (rule keepsI)
  fix s assume "\<not> registry_ref r" "view P s r = x"
  then show "view P (snd (delete_device_registration P a d dev s)) r = x"
    by (cases rule: delete_view [of a d dev s]) (simp add: without_other)
qed

lemma keeps_other_removed: "\<not> registry_ref r \<Longrightarrow> keeps (\<lambda>s. view P s r = x) (remove_invalid_tokens P a ds rs)"
proof (induction ds rs rule: list_induct2')
  case (4 d ds r rs)
  show ?case by (cases d) (simp only: remove_invalid_tokens.simps, intro keeps_intros keeps_other_delete 4)
qed (simp_all only: remove_invalid_tokens.simps keeps_end)

lemma keeps_other_status: "\<not> registry_ref r \<Longrightarrow> keeps (\<lambda>s. view P s r = x) (send_agent_status P ck a title text)"
proof -
  assume r: "\<not> registry_ref r"
  have s: "keeps (\<lambda>s. view P s r = x) (send_multicast P m)" for m
    by (simp add: keeps_def send_multicast_def Let_def)
  show ?thesis unfolding send_agent_status_def by (intro keeps_intros s keeps_other_removed r)
qed

lemma status_other: "\<not> registry_ref r \<Longrightarrow> view P (snd (send_agent_status P ck a title text s)) r = view P s r"
  using keepsD [OF keeps_other_status [of r "view P s r"], of s] by simp

section \<open>The sweep\<close>

text \<open>The Agents a sweep reports: silent, not revoked, not reported before.\<close>

end

definition newly_lost :: "fdoc \<Rightarrow> bool" where
  "newly_lost d \<longleftrightarrow> \<not> field_true d ''revoked'' False \<and> \<not> field_true d ''lostAt'' False"

definition silent :: "clock \<Rightarrow> fdoc \<Rightarrow> bool" where
  "silent ck d \<longleftrightarrow> (\<exists>t. d ''lastSeenAt'' = Some (FTime t) \<and> t < loss_cutoff ck)"

text \<open>The Agents a sweep reports.\<close>

definition lost_agents :: "'db platform \<Rightarrow> clock \<Rightarrow> 'db server \<Rightarrow> string set" where
  "lost_agents P ck s = {a. \<exists>d. view P s (agent_ref a) = Some d \<and> silent ck d \<and> newly_lost d}"

lemma matches_before: "matches (FieldBefore k t) d \<longleftrightarrow> (\<exists>u. d k = Some (FTime u) \<and> u < t)"
  by (auto split: option.split fval.split)

context digest_store
begin

lemma write_update:
  assumes "view P s r = Some d"
  obtains db where "pf_commit P (sv_db s) [Update r us] = Inr db" "pf_get P db = (view P s)(r \<mapsto> apply_updates d us)"
proof -
  obtain db where db: "pf_commit P (sv_db s) [Update r us] = Inr db"
    using write_succeeds(4) [of "sv_db s" r us] assms by (auto simp: view_def)
  from write_views(4) [OF db] assms that [OF db] show thesis by (auto simp: view_def)
qed

lemma sweep_agents_view:
  assumes "sweep_agents P ck xs s = (Inr n, t)" and "distinct (map fst xs)" and "\<forall>(i, d) \<in> set xs. view P s (agent_ref i) = Some d"
  shows "n = length (filter (\<lambda>x. newly_lost (snd x)) xs) \<and> (\<forall>a. view P t (agent_ref a) =
    (case map_of (filter (\<lambda>x. newly_lost (snd x)) xs) a of None \<Rightarrow> view P s (agent_ref a) | Some d \<Rightarrow> Some (d(''lostAt'' \<mapsto> server_time ck))))"
  using assms
proof (induction xs arbitrary: s n)
  case (Cons x xs)
  obtain i agent where x: "x = (i, agent)" by (cases x)
  have there: "view P s (agent_ref i) = Some agent" using Cons.prems(3) x by auto
  show ?case
  proof (cases "newly_lost agent")
    case False
    with Cons x show ?thesis by (auto simp: newly_lost_def)
  next
    case True
    have "then_do (send_agent_status P ck i ''PBXSense lost the Agent.'' ''Live PBX updates are paused until the Agent is reachable again.'')
        (\<lambda>_. then_do (write_doc P (Update (agent_ref i) [Put ''lostAt'' (server_time ck)])) (\<lambda>_. then_do (sweep_agents P ck xs) (\<lambda>n. ret (Suc n)))) s = (Inr n, t)"
      using Cons.prems(1) True by (simp add: x newly_lost_def)
    then obtain s1 where st: "send_agent_status P ck i ''PBXSense lost the Agent.'' ''Live PBX updates are paused until the Agent is reachable again.'' s = (Inr (), s1)"
      and rest: "then_do (write_doc P (Update (agent_ref i) [Put ''lostAt'' (server_time ck)])) (\<lambda>_. then_do (sweep_agents P ck xs) (\<lambda>n. ret (Suc n))) s1 = (Inr n, t)"
      by (rule then_do_InrE) auto
    have same: "view P s1 (agent_ref a) = view P s (agent_ref a)" for a
      using status_other [of "agent_ref a" ck i _ _ s] st by (metis registry_refs(3) snd_conv)
    obtain db where db: "pf_commit P (sv_db s1) [Update (agent_ref i) [Put ''lostAt'' (server_time ck)]] = Inr db"
      and v: "pf_get P db = (view P s1)(agent_ref i \<mapsto> apply_updates agent [Put ''lostAt'' (server_time ck)])"
      using write_update [of s1 "agent_ref i" agent] there same by metis
    from rest obtain m where m: "sweep_agents P ck xs (s1\<lparr>sv_db := db\<rparr>) = (Inr m, t)" "n = Suc m"
      by (auto simp: write_doc_eq db elim!: then_do_InrE)
    have w: "view P (s1\<lparr>sv_db := db\<rparr>) (agent_ref a) = (if a = i then Some (agent(''lostAt'' \<mapsto> server_time ck)) else view P s (agent_ref a))" for a
      using v same by (simp add: apply_updates_def)
    have ih: "m = length (filter (\<lambda>x. newly_lost (snd x)) xs) \<and> (\<forall>a. view P t (agent_ref a) =
      (case map_of (filter (\<lambda>x. newly_lost (snd x)) xs) a of None \<Rightarrow> view P (s1\<lparr>sv_db := db\<rparr>) (agent_ref a) | Some d \<Rightarrow> Some (d(''lostAt'' \<mapsto> server_time ck))))"
    proof (rule Cons.IH [OF m(1)])
      show "\<forall>(j, d) \<in> set xs. view P (s1\<lparr>sv_db := db\<rparr>) (agent_ref j) = Some d"
      proof clarify
        fix j d assume jd: "(j, d) \<in> set xs"
        then have "j \<noteq> i" using Cons.prems(2) x by force
        moreover have "view P s (agent_ref j) = Some d" using jd Cons.prems(3) by auto
        ultimately show "view P (s1\<lparr>sv_db := db\<rparr>) (agent_ref j) = Some d" unfolding w by simp
      qed
    qed (use Cons.prems(2) in simp)
    have "map_of (filter (\<lambda>x. newly_lost (snd x)) xs) i = None"
      using Cons.prems(2) x by (auto simp: map_of_eq_None_iff)
    with ih m(2) True show ?thesis unfolding w by (simp add: x split: option.split)
  qed
qed simp

text \<open>The Agents the query of a sweep finds.\<close>

lemma sweep_query:
  "map_of (filter f (pf_query P (sv_db s) [''agents''] q)) a = (case view P s (agent_ref a) of
     None \<Rightarrow> None | Some d \<Rightarrow> if matches q d \<and> f (a, d) then Some d else None)"
proof -
  let ?xs = "filter f (pf_query P (sv_db s) [''agents''] q)"
  have dist: "distinct (map fst ?xs)" using query_distinct by (rule distinct_map_filter)
  have mem: "(a, d) \<in> set ?xs \<longleftrightarrow> view P s (agent_ref a) = Some d \<and> matches q d \<and> f (a, d)" for d
    by (simp add: query_mem view_def agent_ref_def)
  show ?thesis
  proof (cases "map_of ?xs a")
    case None
    then have "(a, d) \<notin> set ?xs" for d by (metis fst_conv imageI map_of_eq_None_iff)
    with None mem show ?thesis by (auto split: option.split)
  next
    case (Some d)
    with mem [of d] map_of_SomeD show ?thesis by force
  qed
qed

lemma silent_matches: "matches (FieldBefore ''lastSeenAt'' (loss_cutoff ck)) d = silent ck d"
  unfolding matches_before silent_def by blast

lemma sweep_admin: "sweep_route P C ck q s = (Inr n, t) \<Longrightarrow>
  sweep_route P C ck' q u = sweep_agents P ck' (pf_query P (sv_db u) [''agents''] (FieldBefore ''lastSeenAt'' (loss_cutoff ck'))) u"
  by (cases "require_admin C q") (simp_all add: sweep_route_def)

lemma sweep_lost:
  "fst ` set (filter (\<lambda>x. newly_lost (snd x)) (pf_query P (sv_db s) [''agents''] (FieldBefore ''lastSeenAt'' (loss_cutoff ck)))) = lost_agents P ck s"
  (is "fst ` set ?ys = _")
proof -
  have "(a, d) \<in> set ?ys \<longleftrightarrow> view P s (agent_ref a) = Some d \<and> silent ck d \<and> newly_lost d" for a d
    unfolding set_filter mem_Collect_eq query_mem silent_matches view_def agent_ref_def by simp
  moreover have "a \<in> fst ` A \<longleftrightarrow> (\<exists>d. (a, d) \<in> A)" for a and A :: "(string \<times> fdoc) set" by force
  ultimately have "a \<in> fst ` set ?ys \<longleftrightarrow> a \<in> lost_agents P ck s" for a
    unfolding lost_agents_def by (simp only: mem_Collect_eq)
  then show ?thesis by (rule set_eqI)
qed

lemma sweep_runs:
  assumes "sweep_route P C ck q s = (Inr n, t)"
  defines "ys \<equiv> filter (\<lambda>x. newly_lost (snd x)) (pf_query P (sv_db s) [''agents''] (FieldBefore ''lastSeenAt'' (loss_cutoff ck)))"
  shows "n = length ys" and "view P t (agent_ref a) =
    (case map_of ys a of None \<Rightarrow> view P s (agent_ref a) | Some d \<Rightarrow> Some (d(''lostAt'' \<mapsto> server_time ck)))"
proof -
  let ?xs = "pf_query P (sv_db s) [''agents''] (FieldBefore ''lastSeenAt'' (loss_cutoff ck))"
  have r: "sweep_agents P ck ?xs s = (Inr n, t)" using assms(1) unfolding sweep_admin [OF assms(1)] .
  have "\<forall>(i, d) \<in> set ?xs. view P s (agent_ref i) = Some d" by (auto simp only: query_mem view_def agent_ref_def append.simps)
  from sweep_agents_view [OF r query_distinct this] show "n = length ys" and "view P t (agent_ref a) =
    (case map_of ys a of None \<Rightarrow> view P s (agent_ref a) | Some d \<Rightarrow> Some (d(''lostAt'' \<mapsto> server_time ck)))"
    unfolding ys_def by (rule conjunct1, rule conjunct2 [THEN spec])
qed

lemma sweep_view:
  assumes "sweep_route P C ck q s = (Inr n, t)"
  shows "view P t (agent_ref a) = (if a \<in> lost_agents P ck s
      then map_option (\<lambda>d. d(''lostAt'' \<mapsto> server_time ck)) (view P s (agent_ref a)) else view P s (agent_ref a))"
  unfolding sweep_runs(2) [OF assms, of a] sweep_query silent_matches lost_agents_def
  by (cases "view P s (agent_ref a)") simp_all

lemma sweep_count: "sweep_route P C ck q s = (Inr n, t) \<Longrightarrow> n = card (lost_agents P ck s)"
proof -
  assume r: "sweep_route P C ck q s = (Inr n, t)"
  let ?ys = "filter (\<lambda>x. newly_lost (snd x)) (pf_query P (sv_db s) [''agents''] (FieldBefore ''lastSeenAt'' (loss_cutoff ck)))"
  have "distinct (map fst ?ys)" using query_distinct by (rule distinct_map_filter)
  from distinct_card [OF this] have "card (fst ` set ?ys) = length ?ys" unfolding set_map length_map .
  with sweep_runs(1) [OF r] show ?thesis unfolding sweep_lost by (rule trans [OF _ sym])
qed

lemma sweep_nothing: "\<forall>(i, d) \<in> set xs. \<not> newly_lost d \<Longrightarrow> sweep_agents P ck xs s = (Inr 0, s)"
  by (induction xs) (auto simp: newly_lost_def)

lemma sweep_again:
  assumes "sweep_route P C ck q s = (Inr n, t)" and "loss_cutoff ck' \<le> loss_cutoff ck"
  shows "sweep_route P C ck' q t = (Inr 0, t)"
proof -
  have "\<not> newly_lost d" if "silent ck' d" "view P t (agent_ref a) = Some d" for a d
  proof
    assume l: "newly_lost d"
    have "silent ck d" using that(1) assms(2) by (auto simp: silent_def)
    with that(2) l show False using sweep_view [OF assms(1), of a]
      by (auto simp: lost_agents_def newly_lost_def field_true_def server_time_def split: if_splits)
  qed
  then have "\<forall>(i, d) \<in> set (pf_query P (sv_db t) [''agents''] (FieldBefore ''lastSeenAt'' (loss_cutoff ck'))). \<not> newly_lost d"
    by (auto simp: query_mem silent_matches view_def agent_ref_def simp del: matches.simps)
  from sweep_nothing [OF this] show ?thesis using sweep_admin [OF assms(1), of ck' t] by simp
qed

section \<open>The heartbeat\<close>

lemma apply_updates_untouched: "\<forall>u \<in> set us. update_key u \<noteq> k \<Longrightarrow> apply_updates d us k = d k"
proof (induction us arbitrary: d)
  case (Cons u us)
  then have "apply_update d u k = d k" by (cases u) (auto simp: Let_def)
  with Cons show ?case by (simp add: apply_updates_def)
qed (simp add: apply_updates_def)

lemma usage_keys: "usage_update P ck r d k i inc s = (Inr us, t) \<Longrightarrow> \<forall>u \<in> set us. update_key u = ''usageDate'' \<or> update_key u = ''usage''"
  by (auto simp: usage_update_def Let_def elim!: then_do_InrE split: if_splits)

lemma write_doc_Inr:
  "write_doc P (Update r us) s = (Inr x, t) \<Longrightarrow> \<exists>d. view P t r = Some (apply_updates d us)"
  using write_views(4) by (fastforce simp: write_doc_eq split: sum.splits)

lemma heartbeat_view:
  assumes "heartbeat_route P C ck a q s = (Inr p, t)"
  obtains d where "view P t (agent_ref a) = Some d" "d ''lastSeenAt'' = Some (server_time ck)" "d ''lostAt'' = Some FNull"
proof -
  obtain x s1 where "(case x of (_, agent) \<Rightarrow>
    then_do (if field_true agent ''lostAt'' False
       then send_agent_status P ck a ''PBXSense Agent is reachable again.'' ''Live PBX updates have resumed.''
       else ret ()) (\<lambda>_.
    then_do (usage_update P ck (agent_ref a) agent ''agent'' a [(''heartbeats'', 1)]) (\<lambda>us.
    then_do (write_doc P (Update (agent_ref a) ([Put ''lastSeenAt'' (server_time ck), Put ''lostAt'' FNull] @ us))) (\<lambda>_.
    ret (relay_policy_of C))))) s1 = (Inr p, t)"
    using assms unfolding heartbeat_route_def by (rule then_do_InrE) auto
  then obtain agent s2 where "then_do (usage_update P ck (agent_ref a) agent ''agent'' a [(''heartbeats'', 1)]) (\<lambda>us.
    then_do (write_doc P (Update (agent_ref a) ([Put ''lastSeenAt'' (server_time ck), Put ''lostAt'' FNull] @ us))) (\<lambda>_.
    ret (relay_policy_of C))) s2 = (Inr p, t)"
    unfolding case_prod_unfold by (rule then_do_InrE) auto
  then obtain us s3 s4 where us: "usage_update P ck (agent_ref a) agent ''agent'' a [(''heartbeats'', 1)] s2 = (Inr us, s3)"
    and rest: "then_do (write_doc P (Update (agent_ref a) ([Put ''lastSeenAt'' (server_time ck), Put ''lostAt'' FNull] @ us))) (\<lambda>_. ret (relay_policy_of C)) s3 = (Inr p, t)"
    by (rule then_do_InrE) auto
  from rest have "write_doc P (Update (agent_ref a) ([Put ''lastSeenAt'' (server_time ck), Put ''lostAt'' FNull] @ us)) s3 = (Inr (), t)"
    by (rule then_do_InrE) auto
  from write_doc_Inr [OF this] obtain d where
    "view P t (agent_ref a) = Some (apply_updates (d(''lastSeenAt'' \<mapsto> server_time ck, ''lostAt'' \<mapsto> FNull)) us)"
    by (auto simp: apply_updates_def)
  note there = this
  have "apply_updates e us ''lastSeenAt'' = e ''lastSeenAt''" "apply_updates e us ''lostAt'' = e ''lostAt''" for e
    by (rule apply_updates_untouched, use usage_keys [OF us] in force)+
  then show thesis by (intro that [OF there]) simp_all
qed

lemma heartbeat_then_sweep:
  assumes "heartbeat_route P C ck a q s = (Inr p, t)" and "sweep_route P C ck' q' t = (Inr n, u)"
  shows "\<exists>d. view P t (agent_ref a) = Some d \<and> d ''lostAt'' = Some FNull \<and> view P u (agent_ref a) =
    Some (if ck_server ck < loss_cutoff ck' \<and> \<not> field_true d ''revoked'' False then d(''lostAt'' \<mapsto> server_time ck') else d)"
proof -
  obtain d where d: "view P t (agent_ref a) = Some d" "d ''lastSeenAt'' = Some (server_time ck)" "d ''lostAt'' = Some FNull"
    by (rule heartbeat_view [OF assms(1)])
  then have "a \<in> lost_agents P ck' t \<longleftrightarrow> ck_server ck < loss_cutoff ck' \<and> \<not> field_true d ''revoked'' False"
    by (auto simp: lost_agents_def silent_def newly_lost_def server_time_def field_true_def)
  with d show ?thesis using sweep_view [OF assms(2), of a] by auto
qed

end

section \<open>The properties\<close>

text \<open>
  C28. The sweep reports exactly the silent Agents, once. A sweep that answers marks as lost exactly the
  Agents that were last seen before the cutoff, are not revoked and were not reported before; every other
  Agent's document is as it was, and the answer is their number. A further sweep whose cutoff is no later
  answers 0 and changes nothing at all, so a silent Agent is announced to the apps once.
\<close>

theorem sweep_reports_silent_agents_once:
  assumes "digest_store P" and "sweep_route P C ck q s = (Inr n, t)"
  shows "n = card (lost_agents P ck s) \<and>
    (\<forall>a. view P t (agent_ref a) = (if a \<in> lost_agents P ck s
       then map_option (\<lambda>d. d(''lostAt'' \<mapsto> server_time ck)) (view P s (agent_ref a)) else view P s (agent_ref a))) \<and>
    (loss_cutoff ck' \<le> loss_cutoff ck \<longrightarrow> sweep_route P C ck' q t = (Inr 0, t))"
  using digest_store.sweep_count [OF assms] digest_store.sweep_view [OF assms] digest_store.sweep_again [OF assms] by blast

definition operator_request :: http_request where
  "operator_request = (probe ''/v1/internal/sweep-agent-heartbeats'')\<lparr>hq_headers := [(''x-pbxsense-admin-token'', ''operator'')]\<rparr>"

definition late_clock :: clock where
  "late_clock = demo_clock\<lparr>ck_now := ck_now demo_clock + 3600 * second_us, ck_server := ck_server demo_clock + 3600 * second_us\<rparr>"

lemma demo_admin: "require_admin open_config operator_request = Inr ()"
  by (simp add: require_admin_def open_config_def operator_request_def probe_def header_def dget_def compare_digest_def) code_simp

lemma demo_sweep:
  assumes "sv_db s = AList.update (agent_ref ''agent_a'') agent (sv_db claimed_service)"
    and "agent ''lastSeenAt'' = Some (server_time demo_clock)" and "\<not> field_true agent ''revoked'' False" and "\<not> field_true agent ''lostAt'' False"
  shows "fst (sweep_route demo_platform open_config late_clock operator_request s) = Inr 1"
proof -
  have "ck_server demo_clock < loss_cutoff late_clock"
    by (simp add: loss_cutoff_def late_clock_def demo_clock_def agent_loss_timeout_seconds_def second_us_def)
  then have q: "memory_query (sv_db s) [''agents''] (FieldBefore ''lastSeenAt'' (loss_cutoff late_clock)) = [(''agent_a'', agent)]"
    by (simp add: assms claimed_service_def memory_query_def activation_ref_def agent_ref_def device_ref_def server_time_def)
  have p: "memory_query (sv_db s) (devices_ref ''agent_a'') Everything = [(''device_d'', demo_device)]"
    by (simp add: assms claimed_service_def memory_query_def activation_ref_def agent_ref_def device_ref_def devices_ref_def)
  have m: "map_of (sv_db s) (agent_ref ''agent_a'') = Some agent" by (simp add: assms(1) update_conv')
  have "\<exists>xs. eligible_devices demo_platform late_clock (\<lambda>d. field_true d ''meaningfulEnabled'' True) [(''device_d'', demo_device)] = Inr xs
      \<and> tokens_of demo_platform xs = []"
    by (simp add: demo_device_def eligible_devices_def not_expired_def in_days_def field_true_def unique_devices_by_token_def tokens_of_def split: sum.split)
  then show ?thesis
    by (auto simp: sweep_route_def demo_admin q p m assms(3,4) send_agent_status_def then_do_assoc then_do_write cong: then_do_cong)
qed

definition lost_service :: "memory server" where
  "lost_service = snd (sweep_route demo_platform open_config late_clock operator_request claimed_service)"

lemma demo_sweeps: "sweep_route demo_platform open_config late_clock operator_request claimed_service = (Inr 1, lost_service)"
proof -
  have "fst (sweep_route demo_platform open_config late_clock operator_request claimed_service) = Inr 1"
    by (rule demo_sweep [of _ demo_agent]) (simp_all add: claimed_service_def activation_ref_def agent_ref_def device_ref_def
      demo_agent_def new_agent_doc_def demo_activation_def field_true_def)
  then show ?thesis unfolding lost_service_def by (metis prod.collapse)
qed

theorem sweep_reports_silent_agents_once_witness:
  "card (lost_agents demo_platform late_clock claimed_service) = 1 \<and>
   sweep_route demo_platform open_config late_clock operator_request lost_service = (Inr 0, lost_service)"
  using sweep_reports_silent_agents_once [OF demo_digest_store demo_sweeps] by simp

definition present_service :: "memory server" where
  "present_service = claimed_service\<lparr>sv_db := AList.update (agent_ref ''agent_a'')
     (demo_agent(''lastSeenAt'' \<mapsto> server_time demo_clock, ''lostAt'' \<mapsto> FNull, ''usageDate'' \<mapsto> FStr (date_text (ck_now demo_clock)),
       ''usage'' \<mapsto> counters [(''heartbeats'', 1)])) (sv_db claimed_service)\<rparr>"

lemma demo_beats: "heartbeat_route demo_platform open_config demo_clock ''agent_a'' (signed ''session'' []) claimed_service
  = (Inr (relay_policy_of open_config), present_service)"
proof -
  have b: "map_of demo_bodies ''session'' = Some (JObj [(''protocolVersion'', JInt 1), (''sessionId'', JStr ''session_1'')])"
    by (simp add: demo_bodies_def)
  have a: "map_of (sv_db claimed_service) (agent_ref ''agent_a'') = Some demo_agent"
    by (simp add: claimed_service_def agent_ref_def activation_ref_def)
  have k: "demo_agent ''publicKey'' = Some (FStr (replicate 43 CHR ''A''))" "\<not> field_true demo_agent ''revoked'' False"
    "\<not> field_true demo_agent ''lostAt'' False" "demo_agent ''usageDate'' = None"
    by (simp_all add: demo_agent_def new_agent_doc_def demo_activation_def field_true_def)
  note auth = demo_authenticated [where n = "[]", OF b _ a k(1,2), simplified]
  show ?thesis
    unfolding heartbeat_route_def present_service_def
    by (simp cong: then_do_cong add: then_do_assoc then_do_def [of "authenticate_agent _ _ _ _ _ _"] auth a k usage_update_def archive_usage_def
      finished_day_def Let_def then_do_write apply_updates_def)
qed

text \<open>
  A heartbeat ends the loss and keeps the Agent present. After a heartbeat that answers, the Agent is
  not reported as lost, and a sweep marks it again exactly if the cutoff has passed the heartbeat's time and
  the Agent is not revoked.
\<close>

theorem heartbeat_keeps_agent_present:
  assumes "digest_store P" and "heartbeat_route P C ck a q s = (Inr p, t)" and "sweep_route P C ck' q' t = (Inr n, u)"
  shows "\<exists>d. view P t (agent_ref a) = Some d \<and> d ''lostAt'' = Some FNull \<and> view P u (agent_ref a) =
    Some (if ck_server ck < loss_cutoff ck' \<and> \<not> field_true d ''revoked'' False then d(''lostAt'' \<mapsto> server_time ck') else d)"
  by (rule digest_store.heartbeat_then_sweep [OF assms])

definition silent_service :: "memory server" where
  "silent_service = snd (sweep_route demo_platform open_config late_clock operator_request present_service)"

theorem heartbeat_keeps_agent_present_witness:
  "\<exists>d. view demo_platform present_service (agent_ref ''agent_a'') = Some d \<and> d ''lostAt'' = Some FNull \<and>
     view demo_platform silent_service (agent_ref ''agent_a'') = Some (d(''lostAt'' \<mapsto> server_time late_clock))"
proof -
  let ?d = "demo_agent(''lastSeenAt'' \<mapsto> server_time demo_clock, ''lostAt'' \<mapsto> FNull, ''usageDate'' \<mapsto> FStr (date_text (ck_now demo_clock)),
       ''usage'' \<mapsto> counters [(''heartbeats'', 1)])"
  have r: "\<not> field_true ?d ''revoked'' False" "\<not> field_true ?d ''lostAt'' False"
    by (simp_all add: demo_agent_def new_agent_doc_def demo_activation_def field_true_def)
  have v: "view demo_platform present_service (agent_ref ''agent_a'') = Some ?d"
    by (simp add: view_def present_service_def update_conv')
  have "fst (sweep_route demo_platform open_config late_clock operator_request present_service) = Inr 1"
    by (rule demo_sweep [of _ ?d]) (simp_all add: present_service_def r)
  then have "sweep_route demo_platform open_config late_clock operator_request present_service = (Inr 1, silent_service)"
    unfolding silent_service_def by (metis prod.collapse)
  moreover have "ck_server demo_clock < loss_cutoff late_clock"
    by (simp add: loss_cutoff_def late_clock_def demo_clock_def agent_loss_timeout_seconds_def second_us_def)
  ultimately show ?thesis using heartbeat_keeps_agent_present [OF demo_digest_store demo_beats] v r(1) by simp
qed

end
