(* ===== verification/PushTyped.thy ===== *)
theory PushTyped
  imports PushPresence
begin

text \<open>
  The types of the stored registrations, and why no stored app can make a push raise; what becomes of the
  pointer of a token an app has given up.
\<close>

section \<open>Typed registrations\<close>

text \<open>An app carries the time it expires, and its notification token, if it has one, is text.\<close>

definition typed_app :: "fdoc \<Rightarrow> bool" where
  "typed_app x \<longleftrightarrow> timed x \<and> (\<forall>y. x ''fcmToken'' = Some y \<longrightarrow> (\<exists>t. y = FStr t))"

definition typed_apps :: "fview \<Rightarrow> bool" where
  "typed_apps v \<longleftrightarrow> (\<forall>a d x. v (device_ref a d) = Some x \<longrightarrow> typed_app x)"

lemma typed_appsI: "(\<And>a d x. v (device_ref a d) = Some x \<Longrightarrow> typed_app x) \<Longrightarrow> typed_apps v"
  by (auto simp: typed_apps_def)

lemma typed_appsD: "typed_apps v \<Longrightarrow> v (device_ref a d) = Some x \<Longrightarrow> typed_app x"
  by (auto simp: typed_apps_def)

lemma typed_same: "typed_apps v \<Longrightarrow> (\<And>a d. v' (device_ref a d) \<noteq> None \<Longrightarrow> v' (device_ref a d) = v (device_ref a d)) \<Longrightarrow> typed_apps v'"
  by (rule typed_appsI) (metis option.distinct(1) typed_appsD)

lemma typed_new: "timed dd \<Longrightarrow> dd ''fcmToken'' = None \<Longrightarrow> typed_app dd"
  by (simp add: typed_app_def)

lemma typed_registration: "timed dd \<Longrightarrow> dd ''fcmToken'' = Some (FStr token) \<Longrightarrow> typed_app dd \<and> typed_app (e ++ dd)"
  by (auto simp: typed_app_def timed_def)

lemma typed_counted: "typed_app x \<Longrightarrow> bookkeeping us \<Longrightarrow> typed_app (apply_updates x us)"
  by (simp add: typed_app_def timed_def apply_updates_other bookkeeping_keys_def)

lemma typed_quiet:
  assumes "housekeeping w" and "apply_write w v = Inr v'" and "typed_apps v"
  shows "typed_apps v'"
proof (rule typed_appsI)
  fix a d x assume x: "v' (device_ref a d) = Some x"
  then have "v (device_ref a d) \<noteq> None" using quiet_device [OF assms(1,2), of "device_ref a d"] by auto
  then obtain e where e: "v (device_ref a d) = Some e" by blast
  then obtain us where "bookkeeping us" "v' (device_ref a d) = Some (apply_updates e us)"
    using quiet_record [OF assms(1,2), of "device_ref a d" e] by auto
  with x typed_counted [OF typed_appsD [OF assms(3) e]] show "typed_app x" by auto
qed

lemma typed_without: "typed_apps v \<Longrightarrow> typed_apps (without_pointer P token (device_ref a d) v)"
  "typed_apps v \<Longrightarrow> typed_apps (without_device P (device_ref a d) token v)"
  by (erule typed_same, auto simp: without_pointer_def without_device_def split: if_splits)+

lemma typed_merged:
  assumes "typed_apps v" and "timed dd" and "dd ''fcmToken'' = Some (FStr token)"
  shows "typed_apps (merged (device_ref a d) dd v)"
  using assms(1) typed_registration [OF assms(2,3)]
  by (auto simp: merged_def typed_apps_def split: option.split)

lemma typed_claimed:
  assumes "store_shape v" and "typed_apps v"
  shows "typed_apps (claimed_by P ck token (device_ref a d) v)"
proof -
  obtain u where c: "claimed_by P ck token (device_ref a d) v = u(token_ref P token \<mapsto> [''devicePath'' \<mapsto> FStr (ref_path (device_ref a d)), ''updatedAt'' \<mapsto> server_time ck])"
    and u: "\<And>b e. u (device_ref b e) \<noteq> None \<Longrightarrow> u (device_ref b e) = v (device_ref b e)"
    by (rule claimed_by_effect [OF assms(1), of P ck token a d]) blast
  show ?thesis by (rule typed_same [OF assms(2)]) (use u in \<open>simp add: c\<close>)
qed

sublocale digest_store \<subseteq> types: registry_invariant P C typed_apps for C
proof
  show "typed_apps (v(event_ref site e := None))" if "typed_apps v" for v site e
    using that by (rule typed_same) (simp add: event_ref_def device_ref_def)
  show "typed_apps (v(device_ref a d \<mapsto> dd))" if "typed_apps v" "dd ''fcmToken'' = None" "timed dd" for v a d dd
    using that typed_new [OF that(3,2)] by (auto simp: typed_apps_def)
  show "typed_apps (claimed_by P ck token (device_ref a d) (merged (device_ref a d) dd v))"
    if "typed_apps v" "store_shape v" "slash_free a" "slash_free d" "dd ''fcmToken'' = Some (FStr token)" "timed dd" for v a d token dd ck
    using that by (intro typed_claimed shape_merged typed_merged)
  show "typed_apps (claimed_by P ck token (device_ref a d) (merged (device_ref a d) dd
      (without_pointer P (field_text P device ''fcmToken'' []) (device_ref a d) v)))"
    if "typed_apps v" "store_shape v" "slash_free a" "slash_free d" "dd ''fcmToken'' = Some (FStr token)" "timed dd" for v a d token dd device ck
    using that by (intro typed_claimed shape_merged shape_without typed_merged typed_without)
qed (blast intro: typed_quiet typed_without)+

lemma fresh_typed: "fresh_service P s \<Longrightarrow> typed_apps (view P s)"
  by (simp add: fresh_service_def view_def typed_apps_def)

section \<open>Typed registrations never raise\<close>

lemma typed_expiry: "typed_app x \<Longrightarrow> \<exists>b. not_expired ck x = Some b"
  by (auto simp: typed_app_def timed_def not_expired_def)

lemma typed_live: "\<forall>(i, x) \<in> set ds. typed_app x \<Longrightarrow> \<exists>xs. live_devices ck wants ds = Inr xs"
proof (induction ds)
  case (Cons c ds)
  then obtain xs where "live_devices ck wants ds = Inr xs" by auto
  moreover obtain b where "not_expired ck (snd c) = Some b" using Cons.prems typed_expiry by force
  ultimately show ?case by (cases c) simp
qed simp

context digest_store
begin

lemma reachable_typed:
  assumes "reachable P C s"
  shows "typed_apps (view P s)"
proof -
  from assms obtain s0 where s0: "fresh_service P s0" "runs P C s0 s" unfolding reachable_def by blast
  from types.service.runs_keep [OF s0(2)] fresh_shape [OF s0(1)] fresh_typed [OF s0(1)] show ?thesis by blast
qed

lemma reachable_eligible:
  assumes "reachable P C s"
  shows "\<exists>xs. eligible_devices P ck wants (pf_query P (sv_db s) (devices_ref a) Everything) = Inr xs"
proof -
  have "\<forall>(d, x) \<in> set (pf_query P (sv_db s) (devices_ref a) Everything). typed_app x"
    using typed_appsD [OF reachable_typed [OF assms]] by (auto simp: query_mem view_def)
  then show ?thesis using typed_live unfolding eligible_devices_def by (metis map_sum.simps(2))
qed

end

section \<open>The pointer of a token that was given up\<close>

lemma merged_token [simp]: "owner_path P (merged (device_ref a d) dd v) token = owner_path P v token"
  by (simp add: owner_path_def merged_def)

lemma claimed_pointer:
  assumes "store_shape v" and "owner_path P v old = ref_path (device_ref a d)"
  shows "owner_path P (claimed_by P ck new (device_ref a d) v) old = ref_path (device_ref a d)"
proof -
  obtain u where "claimed_by P ck new (device_ref a d) v = u(token_ref P new \<mapsto> [''devicePath'' \<mapsto> FStr (ref_path (device_ref a d)), ''updatedAt'' \<mapsto> server_time ck])"
    and "\<And>t. u (token_ref P t) = v (token_ref P t)"
    by (rule claimed_by_effect [OF assms(1), of P ck new a d]) blast
  with assms(2) show ?thesis by (simp add: owner_path_def field_text_def)
qed

lemma claimed_keeps_own:
  assumes "store_shape v"
  shows "claimed_by P ck new (device_ref a d) v (device_ref a d) = v (device_ref a d)"
proof -
  obtain u where "claimed_by P ck new (device_ref a d) v = u(token_ref P new \<mapsto> [''devicePath'' \<mapsto> FStr (ref_path (device_ref a d)), ''updatedAt'' \<mapsto> server_time ck])"
    and "u (device_ref a d) = v (device_ref a d)"
    by (rule claimed_by_effect [OF assms, of P ck new a d]) blast
  then show ?thesis by simp
qed

lemma claimed_evicts:
  assumes "store_shape v" and "slash_free a" "slash_free d" "slash_free b" "slash_free e" and "b = a \<longrightarrow> e \<noteq> d"
    and "owner_path P v old = ref_path (device_ref a d)"
  shows "claimed_by P ck old (device_ref b e) v (device_ref a d) = None"
proof -
  obtain u where u: "claimed_by P ck old (device_ref b e) v = u(token_ref P old \<mapsto> [''devicePath'' \<mapsto> FStr (ref_path (device_ref b e)), ''updatedAt'' \<mapsto> server_time ck])"
    "\<And>f g. slash_free f \<Longrightarrow> slash_free g \<Longrightarrow> owner_path P v old = ref_path (device_ref f g) \<Longrightarrow>
      ref_path (device_ref f g) \<noteq> ref_path (device_ref b e) \<Longrightarrow> u (device_ref f g) = None"
    by (rule claimed_by_effect [OF assms(1), of P ck old b e]) blast
  have "ref_path (device_ref a d) \<noteq> ref_path (device_ref b e)"
    using path_ref_device [OF assms(2,3)] path_ref_device [OF assms(4,5)] assms(6) by (metis device_ref_inject(1))
  with u assms(2,3,7) show ?thesis by simp
qed

context digest_store
begin

lemma registration_installs:
  assumes "store_registration P C ck a d body agent token s = (Inr (), t)"
  obtains dd where "dd ''fcmToken'' = Some (FStr token)" "t = snd (install_token P ck token (device_ref a d) dd s)"
proof -
  let ?key = "optional_text (pf_repr P) (jget body ''encryptionPublicKey'') 100"
  have "then_do (if view P s (device_ref a d) = None then require_device_capacity P C a else ret ()) (\<lambda>_.
      then_do (lift (registration_doc P ck body token)) (\<lambda>d'. case agent ''siteId'' of None \<Rightarrow> fail Crashed
        | Some site \<Rightarrow> install_token P ck token (device_ref a d) (d'(''siteId'' \<mapsto> site) ++ optional_key ?key))) s = (Inr (), t)"
    using assms by (simp add: store_registration_def Let_def view_def)
  then obtain s1 where c: "(if view P s (device_ref a d) = None then require_device_capacity P C a else ret ()) s = (Inr (), s1)"
    and r: "then_do (lift (registration_doc P ck body token)) (\<lambda>d'. case agent ''siteId'' of None \<Rightarrow> fail Crashed
        | Some site \<Rightarrow> install_token P ck token (device_ref a d) (d'(''siteId'' \<mapsto> site) ++ optional_key ?key)) s1 = (Inr (), t)"
    by (rule then_do_InrE) auto
  from c types.service.capacity_room [of C a s "()" s1] have "s1 = s" by (auto split: if_splits)
  with r obtain dd site where dd: "registration_doc P ck body token = Inr dd"
    and t: "install_token P ck token (device_ref a d) (dd(''siteId'' \<mapsto> site) ++ optional_key ?key) s = (Inr (), t)"
    by (cases "registration_doc P ck body token"; cases "agent ''siteId''") auto
  show thesis
    using types.service.registration_token(1) [OF dd] t
    by (intro that [of "dd(''siteId'' \<mapsto> site) ++ optional_key ?key"]) (simp_all add: optional_key_def map_add_def)
qed

lemma reachable_shape: "reachable P C s \<Longrightarrow> store_shape (view P s)"
  using fresh_shape types.service.runs_keep fresh_typed unfolding reachable_def by blast

lemma stale_pointer:
  assumes "reachable P C s" and "holds_token (view P s) (device_ref a d) old"
    and "store_registration P C ck a d body agent new s = (Inr (), t)"
    and "store_registration P C ck' b e body' agent' old t = (Inr (), u)"
    and "slash_free b" and "slash_free e" and "b = a \<longrightarrow> e \<noteq> d"
  shows "holds_token (view P t) (device_ref a d) new \<and> view P u (device_ref a d) = None"
proof -
  have s: "store_shape (view P s)" by (rule reachable_shape [OF assms(1)])
  have p: "owner_path P (view P s) old = ref_path (device_ref a d)"
    using reachable_owned [OF assms(1)] assms(2) by (intro points_to_owner) (simp add: owned_def)
  from holds_slash_free [OF s assms(2)] have sf: "slash_free a" "slash_free d" by simp_all
  obtain x where x: "x ''fcmToken'' = Some (FStr new)" "t = snd (install_token P ck new (device_ref a d) x s)"
    by (rule registration_installs [OF assms(3)])
  obtain y where y: "u = snd (install_token P ck' old (device_ref b e) y t)"
    by (rule registration_installs [OF assms(4)])
  have t: "view P t = claimed_by P ck new (device_ref a d) (merged (device_ref a d) x (view P s))"
    using install_view(2) [OF s sf] x(2) by simp
  have m: "store_shape (merged (device_ref a d) x (view P s))" by (rule shape_merged [OF s sf])
  have "holds_token (view P t) (device_ref a d) new"
    unfolding t holds_token_def claimed_keeps_own [OF m] using merged_holds [where dd = x and token = new, OF x(1)]
    by (simp add: holds_token_def)
  moreover have st: "store_shape (view P t)" unfolding t by (rule shape_claimed [OF m sf])
  moreover have "owner_path P (view P t) old = ref_path (device_ref a d)"
    unfolding t by (rule claimed_pointer [OF m]) (simp add: p)
  then have "view P u (device_ref a d) = None"
    using install_view(2) [OF st assms(5,6)] y claimed_evicts [OF shape_merged [OF st assms(5,6)] sf assms(5-7)] by simp
  ultimately show ?thesis by blast
qed

end

context digest_store
begin

lemma registration_succeeds:
  assumes "store_shape (view P s)" and "slash_free a" and "slash_free d" and "registration_doc P ck body token = Inr dd"
    and "agent ''siteId'' = Some site" and "view P s (device_ref a d) \<noteq> None \<or> room C (view P s) a"
  shows "fst (store_registration P C ck a d body agent token s) = Inr ()"
proof -
  have "(if view P s (device_ref a d) = None then require_device_capacity P C a else ret ()) s = (Inr (), s)"
    using assms(6) by (auto simp: require_device_capacity_def Let_def device_room_iff [symmetric] device_room_def require_def)
  then show ?thesis
    using install_view(1) [OF assms(1-3)] unfolding store_registration_def Let_def
    by (simp add: assms(4,5) view_def then_do_def [of "if _ then _ else _"])
qed

end

section \<open>The properties\<close>



text \<open>
  C38. A token that was given up still removes the app. An app registered through its Agent with one token and
  later with another is registered with the new token; when any other app then registers the old token, the
  first app's registration is deleted, although it no longer uses that token, and it gets no further push.
  The ownership pointer of the old token is left behind by the registration through the Agent.
\<close>

theorem given_up_token_removes_app:
  assumes "digest_store P" and "reachable P C s" and "holds_token (view P s) (device_ref a d) old"
    and "store_registration P C ck a d body agent new s = (Inr (), t)"
    and "store_registration P C ck' b e body' agent' old t = (Inr (), u)"
    and "slash_free b" and "slash_free e" and "b = a \<longrightarrow> e \<noteq> d"
  shows "holds_token (view P t) (device_ref a d) new \<and> view P u (device_ref a d) = None"
  by (rule digest_store.stale_pointer [OF assms])

definition renewed_service :: "memory server" where
  "renewed_service = snd (store_registration demo_platform open_config demo_clock ''agent_a'' ''device_d'' [] demo_agent ''token2'' registered_service)"

definition evicted_service :: "memory server" where
  "evicted_service = snd (store_registration demo_platform open_config demo_clock ''agent_a'' ''device_e'' [] demo_agent ''token1'' renewed_service)"

theorem given_up_token_removes_app_witness:
  "holds_token (view demo_platform renewed_service) (device_ref ''agent_a'' ''device_d'') ''token2'' \<and>
   view demo_platform evicted_service (device_ref ''agent_a'' ''device_d'') = None"
proof -
  have r: "reachable demo_platform open_config registered_service" by (rule demo_registered_reachable)
  have s: "store_shape (view demo_platform registered_service)" by (rule digest_store.reachable_shape [OF demo_digest_store r])
  have sf: "slash_free ''agent_a''" "slash_free ''device_d''" "slash_free ''device_e''" by (simp_all add: slash_free_def)
  have site: "demo_agent ''siteId'' = Some (FStr ''site_s'')"
    by (simp add: demo_agent_def new_agent_doc_def demo_activation_def)
  have "bounded_text (pf_repr demo_platform) (JStr ''android'') ''platform'' 32 = Inr ''android''" by code_simp
  then have doc: "\<exists>dd. registration_doc demo_platform demo_clock [] token = Inr dd" for token
    by (simp add: registration_doc_def dget_def)
  have apps: "apps (view demo_platform registered_service) ''agent_a'' \<subseteq> {''device_d''}"
    by (auto simp: apps_def view_def registered_service_def agent_ref_def activation_ref_def token_ref_def device_ref_def split: if_splits)
  obtain dd where dd: "registration_doc demo_platform demo_clock [] ''token2'' = Inr dd" using doc by blast
  have "view demo_platform registered_service (device_ref ''agent_a'' ''device_d'') \<noteq> None" using demo_holds by (auto simp: holds_token_def)
  from digest_store.registration_succeeds [where agent = demo_agent, OF demo_digest_store s sf(1,2) dd site disjI1 [OF this], of open_config]
  have one: "store_registration demo_platform open_config demo_clock ''agent_a'' ''device_d'' [] demo_agent ''token2'' registered_service = (Inr (), renewed_service)"
    unfolding renewed_service_def by (metis prod.collapse)
  obtain x where x: "renewed_service = snd (install_token demo_platform demo_clock ''token2'' (device_ref ''agent_a'' ''device_d'') x registered_service)"
    by (rule digest_store.registration_installs [OF demo_digest_store one])
  have t: "view demo_platform renewed_service = claimed_by demo_platform demo_clock ''token2'' (device_ref ''agent_a'' ''device_d'')
      (merged (device_ref ''agent_a'' ''device_d'') x (view demo_platform registered_service))"
    unfolding x by (rule digest_store.install_view(2) [OF demo_digest_store s sf(1,2)])
  have st: "store_shape (view demo_platform renewed_service)" unfolding t by (intro shape_claimed shape_merged s sf)
  have "apps (view demo_platform renewed_service) ''agent_a'' \<subseteq> {''device_d''}"
    unfolding t using apps_registered [OF s sf(1,2)] apps by fastforce
  from card_mono [OF _ this] have "card (apps (view demo_platform renewed_service) ''agent_a'') \<le> 1" by simp
  then have "room open_config (view demo_platform renewed_service) ''agent_a''" unfolding room_def open_config_def by simp
  from digest_store.registration_succeeds [where agent = demo_agent, OF demo_digest_store st sf(1,3) _ site disjI2 [OF this]] doc
  have "fst (store_registration demo_platform open_config demo_clock ''agent_a'' ''device_e'' [] demo_agent ''token1'' renewed_service) = Inr ()" by blast
  then have two: "store_registration demo_platform open_config demo_clock ''agent_a'' ''device_e'' [] demo_agent ''token1'' renewed_service = (Inr (), evicted_service)"
    unfolding evicted_service_def by (metis prod.collapse)
  show ?thesis by (rule given_up_token_removes_app [OF demo_digest_store r demo_holds one two sf(1,3)]) simp
qed

end
