(* ===== verification/PushPing.thy ===== *)
theory PushPing
  imports PushTyped
begin

text \<open>
  Commands on their way to an Agent: a queued command is handed over at every exchange until it is answered
  or has expired.
\<close>

section \<open>The queue of an Agent\<close>

lemma optional_ping: "optional_identifier f (JStr ''ping'') = ''ping''"
  by code_simp


text \<open>A ping that waits, with the time it expires, and the commands of an Agent that wait.\<close>

definition waiting :: "fview \<Rightarrow> string \<Rightarrow> string \<Rightarrow> datetime \<Rightarrow> bool" where
  "waiting v a i t \<longleftrightarrow> (\<exists>d. v (command_ref a i) = Some d \<and> d ''state'' = Some (FStr ''queued'') \<and>
     d ''type'' = Some (FStr ''ping'') \<and> d ''expiresAt'' = Some (FTime t))"

definition queued :: "fview \<Rightarrow> string \<Rightarrow> string set" where
  "queued v a = {i. \<exists>d. v (command_ref a i) = Some d \<and> d ''state'' = Some (FStr ''queued'')}"

text \<open>The body of an exchange carries a response to the command.\<close>

definition answers :: "'db platform \<Rightarrow> json pydict \<Rightarrow> string \<Rightarrow> bool" where
  "answers P body i \<longleftrightarrow> (\<exists>x. exchange_request_of P body = Inr x \<and> (\<exists>r \<in> set (xr_responses x). \<exists>b. response_target P r = Some (i, b)))"

definition in_queue :: "string \<Rightarrow> string \<Rightarrow> datetime \<Rightarrow> string set \<Rightarrow> fview \<Rightarrow> bool" where
  "in_queue a i t Q v \<longleftrightarrow> waiting v a i t \<and> queued v a \<subseteq> Q"

lemma in_queue_other: "in_queue a i t Q v \<Longrightarrow> (\<And>c. v' (command_ref a c) = v (command_ref a c)) \<Longrightarrow> in_queue a i t Q v'"
  by (simp add: in_queue_def waiting_def queued_def)

lemma command_ref_inject [simp]: "command_ref a i = command_ref b j \<longleftrightarrow> a = b \<and> i = j"
  by (auto simp: command_ref_def)

lemma in_queue_answered:
  assumes "in_queue a i t Q v" and "j \<noteq> i" and "d ''state'' = Some (FStr x)" and "x \<noteq> ''queued''"
  shows "in_queue a i t Q (v(command_ref a j \<mapsto> (case v (command_ref a j) of None \<Rightarrow> d | Some e \<Rightarrow> e ++ d)))"
  using assms by (auto simp: in_queue_def waiting_def queued_def split: option.splits)

lemma in_queue_delivered:
  assumes "in_queue a i t Q v" and "d ''state'' = None" "d ''type'' = None" "d ''expiresAt'' = None"
  shows "in_queue a i t Q (v(command_ref a j \<mapsto> (case v (command_ref a j) of None \<Rightarrow> d | Some e \<Rightarrow> e ++ d)))"
  using assms by (auto simp: in_queue_def waiting_def queued_def map_add_def split: option.splits)

text \<open>Every entry of the list for one identifier is to be delivered.\<close>

definition handed :: "'db platform \<Rightarrow> clock \<Rightarrow> string \<Rightarrow> command \<Rightarrow> (string \<times> fdoc) list \<Rightarrow> bool" where
  "handed P ck i m cs \<longleftrightarrow> (\<forall>d. (i, d) \<in> set cs \<longrightarrow> fate_of P ck (i, d) = DeliverCommand m)"

section \<open>Steps that leave the queue\<close>

fun target :: "fwrite \<Rightarrow> fref" where
  "target (Create r d) = r"
| "target (SetDoc r d) = r"
| "target (Merge r d) = r"
| "target (Update r us) = r"
| "target (Delete r) = r"

lemma apply_write_other: "apply_write w v = Inr v' \<Longrightarrow> r \<noteq> target w \<Longrightarrow> v' r = v r"
  by (cases w) (auto split: if_splits option.splits)

context digest_store
begin

abbreviation lines_up :: "string \<Rightarrow> string \<Rightarrow> datetime \<Rightarrow> string set \<Rightarrow> 'db server \<Rightarrow> bool" where
  "lines_up a i t Q s \<equiv> in_queue a i t Q (view P s)"

lemma queue_commit:
  assumes "kind_of (target w) \<noteq> [''agents'', ''secureCommands'']"
  shows "keeps (lines_up a i t Q) (commit P [w])"
proof (rule keeps_commit)
  fix s db assume q: "lines_up a i t Q s" and c: "pf_commit P (sv_db s) [w] = Inr db"
  from commit_Inr [OF c] have "apply_write w (view P s) = Inr (pf_get P db)" by (simp add: view_def split: sum.splits)
  moreover have "command_ref a c \<noteq> target w" for c using assms kinds(5) by metis
  ultimately have "pf_get P db (command_ref a c) = view P s (command_ref a c)" for c by (rule apply_write_other)
  from in_queue_other [OF q this] show "lines_up a i t Q (s\<lparr>sv_db := db\<rparr>)" by simp
qed

lemma queue_write: "kind_of (target w) \<noteq> [''agents'', ''secureCommands''] \<Longrightarrow> keeps (lines_up a i t Q) (write_doc P w)"
  by (intro keeps_write queue_commit)

lemma queue_usage: "kind_of r \<noteq> [''agents'', ''secureCommands''] \<Longrightarrow> keeps (lines_up a i t Q) (usage_update P ck r d k e inc)"
  unfolding usage_update_def archive_usage_def Let_def by (intro keeps_intros queue_write) simp_all

lemma queue_replay: "keeps (lines_up a i t Q) (require_replay_protected P ck b agent q)"
  unfolding require_replay_protected_def by (intro keeps_intros queue_commit) simp

lemma queue_answer:
  assumes "\<And>b. response_target P r \<noteq> Some (i, b)"
  shows "keeps (lines_up a i t Q) (complete_command P ck a r)"
proof (rule keepsI)
  fix s assume q: "lines_up a i t Q s"
  show "lines_up a i t Q (snd (complete_command P ck a r s))"
  proof (cases "response_target P r")
    case None
    with q show ?thesis by (simp add: complete_command_def)
  next
    case (Some p)
    then obtain j b where j: "response_target P r = Some (j, b)" by (cases p) auto
    with assms have "j \<noteq> i" by blast
    then show ?thesis unfolding complete_command_def j option.case prod.case view_writes
      by (intro in_queue_answered [OF q, where x = "''completed''"]) simp_all
  qed
qed

lemma queue_deliver: "handed P ck i m cs \<Longrightarrow> keeps (lines_up a i t Q) (deliver_commands P ck a session cs)"
proof (induction cs)
  case (Cons c cs)
  obtain j d where c: "c = (j, d)" by (cases c)
  have rest: "keeps (lines_up a i t Q) (deliver_commands P ck a session cs)"
    using Cons by (simp add: handed_def)
  show ?case
  proof (cases "fate_of P ck c")
    case ExpireCommand
    then have "j \<noteq> i" using Cons.prems c by (auto simp: handed_def)
    then have "keeps (lines_up a i t Q) (write_doc P (Merge (command_ref a j) [''state'' \<mapsto> FStr ''expired'']))"
      by (intro keepsI, unfold view_writes, elim in_queue_answered [where x = "''expired''"]) simp_all
    with rest ExpireCommand show ?thesis by (simp add: c keeps_then del: then_write)
  next
    case SkipCommand
    with rest show ?thesis by simp
  next
    case (DeliverCommand n)
    have "keeps (lines_up a i t Q) (write_doc P (Merge (command_ref a j) [''deliveredAt'' \<mapsto> x, ''sessionId'' \<mapsto> y]))" for x y
      by (intro keepsI, unfold view_writes, elim in_queue_delivered) simp_all
    with rest DeliverCommand show ?thesis by (simp add: c keeps_then keeps_end del: then_write)
  qed
qed (simp add: keeps_end)

lemma deliver_mem:
  assumes "deliver_commands P ck a session cs s = (Inr ms, u)" and "c \<in> set cs" and "fate_of P ck c = DeliverCommand m"
  shows "m \<in> set ms"
  using assms(1,2)
proof (induction cs arbitrary: s ms)
  case (Cons c' cs)
  show ?case
  proof (cases "c' = c")
    case True
    with Cons.prems assms(3) show ?thesis by (auto elim!: then_do_InrE)
  next
    case False
    with Cons.prems have m: "c \<in> set cs" by simp
    have "\<exists>s' ms'. deliver_commands P ck a session cs s' = (Inr ms', u) \<and> set ms' \<subseteq> set ms"
      using Cons.prems(1) by (cases "fate_of P ck c'") (auto elim!: then_do_InrE, blast)
    then obtain s' ms' where "deliver_commands P ck a session cs s' = (Inr ms', u)" "set ms' \<subseteq> set ms" by blast
    from Cons.IH [OF this(1) m] this(2) show ?thesis by blast
  qed
qed simp

text \<open>The queue at the time of the hand-over.\<close>

lemma queued_entry: "(i, d) \<in> set (pf_query P (sv_db s) (commands_ref a) (FieldIs ''state'' (FStr ''queued''))) \<longleftrightarrow>
    view P s (command_ref a i) = Some d \<and> d ''state'' = Some (FStr ''queued'')"
  by (simp add: query_mem view_def commands_ref_def command_ref_def)

lemma queued_query: "queued (view P s) a = fst ` set (pf_query P (sv_db s) (commands_ref a) (FieldIs ''state'' (FStr ''queued'')))"
  (is "_ = fst ` set ?cs")
proof -
  have "i \<in> fst ` set ?cs \<longleftrightarrow> (\<exists>d. (i, d) \<in> set ?cs)" for i by force
  then show ?thesis unfolding queued_entry queued_def by blast
qed

lemma card_queued: "card (queued (view P s) a) = length (pf_query P (sv_db s) (commands_ref a) (FieldIs ''state'' (FStr ''queued'')))"
  unfolding queued_query using distinct_card [OF query_distinct] by (metis length_map set_map)

lemma finite_queued: "finite (queued (view P s) a)"
  by (simp add: queued_query)

lemma frames_deliver:
  assumes "exchange_frames P C ck a agent body s = (Inr (ms, p), u)" and q: "in_queue a i t Q (view P s)"
    and "finite Q" and "card Q \<le> 20" and "ck_now ck < t" and "\<not> answers P body i"
  shows "\<lparr>cm_id = i, cm_type = ''ping'', cm_expires_at = ts_seconds (t - unix_epoch)\<rparr> \<in> set ms \<and> in_queue a i t Q (view P u)"
proof -
  let ?J = "\<lambda>s. in_queue a i t Q (view P s)"
  let ?m = "\<lparr>cm_id = i, cm_type = ''ping'', cm_expires_at = ts_seconds (t - unix_epoch)\<rparr>"
  obtain x where x: "exchange_request_of P body = Inr x"
    using assms(1) by (cases "exchange_request_of P body") (simp_all add: exchange_frames_def)
  let ?w = "\<lambda>us. Update (agent_ref a)
      ([Put ''secureRelaySessionId'' (FStr (xr_session x)), Put ''secureRelayProtocolVersion'' (FInt 1),
        Put ''secureRelayCapabilities'' (FStrs (xr_capabilities x)),
        Put ''secureRelayLastSeenAt'' (server_time ck)] @ us)"
  let ?deliver = "\<lambda>cs. then_do (deliver_commands P ck a (xr_session x) (take 20 cs)) (\<lambda>ms. ret (ms, relay_policy_of C))"
  let ?rest = "then_do (for_each (xr_responses x) (complete_command P ck a)) (\<lambda>_.
      then_do (select P (commands_ref a) (FieldIs ''state'' (FStr ''queued''))) ?deliver)"
  obtain us s1 where us: "usage_update P ck (agent_ref a) agent ''agent'' a [(''controlExchanges'', 1)] s = (Inr us, s1)"
    and r1: "then_do (write_doc P (?w us)) (\<lambda>_. ?rest) s1 = (Inr (ms, p), u)"
    using assms(1) x unfolding exchange_frames_def by (simp del: then_write) (erule then_do_InrE, blast)
  have s1: "?J s1" using keepsD [OF queue_usage q, of "agent_ref a" ck agent "''agent''" a "[(''controlExchanges'', 1)]"] us by simp
  from r1 obtain s2 where w: "write_doc P (?w us) s1 = (Inr (), s2)" and r2: "?rest s2 = (Inr (ms, p), u)"
    by (rule then_do_InrE) auto
  have s2: "?J s2" using keepsD [OF queue_write [of "?w us"] s1] w by simp
  have "keeps ?J (for_each (xr_responses x) (complete_command P ck a))"
    by (intro keeps_for_each queue_answer) (use assms(6) x in \<open>auto simp: answers_def\<close>)
  note kept = keepsD [OF this s2]
  from r2 obtain s3 where f: "for_each (xr_responses x) (complete_command P ck a) s2 = (Inr (), s3)"
    and r3: "?deliver (pf_query P (sv_db s3) (commands_ref a) (FieldIs ''state'' (FStr ''queued''))) s3 = (Inr (ms, p), u)"
    by (rule then_do_InrE) auto
  have s3: "?J s3" using kept f by simp
  let ?cs = "pf_query P (sv_db s3) (commands_ref a) (FieldIs ''state'' (FStr ''queued''))"
  have "length ?cs \<le> 20"
    using card_mono [OF assms(3), of "queued (view P s3) a"] s3 assms(4) by (simp add: in_queue_def card_queued)
  with r3 obtain ms' where d: "deliver_commands P ck a (xr_session x) ?cs s3 = (Inr ms, u)" by (auto elim!: then_do_InrE)
  obtain e where e: "view P s3 (command_ref a i) = Some e" "e ''state'' = Some (FStr ''queued'')" "e ''type'' = Some (FStr ''ping'')"
    "e ''expiresAt'' = Some (FTime t)" using s3 by (auto simp: in_queue_def waiting_def)
  have mem: "(i, f) \<in> set ?cs \<longleftrightarrow> f = e" for f
    using e by (auto simp: queued_entry)
  have fate: "fate_of P ck (i, e) = DeliverCommand ?m"
    using assms(5) optional_ping by (simp add: fate_of_def e Let_def opt_json_def)
  have "handed P ck i ?m ?cs" using mem fate by (simp add: handed_def)
  from keepsD [OF queue_deliver [OF this] s3] d have "?J u" by (metis snd_conv)
  moreover have "?m \<in> set ms" by (rule deliver_mem [OF d _ fate]) (simp add: mem)
  ultimately show ?thesis by blast
qed

lemma exchange_delivers:
  assumes "secure_exchange_route P C ck a q s = (Inr (ms, p), u)" and q: "in_queue a i t Q (view P s)"
    and "finite Q" and "card Q \<le> 20" and "ck_now ck < t" and "agent_body P C q = Inr body" and "\<not> answers P body i"
  shows "\<lparr>cm_id = i, cm_type = ''ping'', cm_expires_at = ts_seconds (t - unix_epoch)\<rparr> \<in> set ms \<and> in_queue a i t Q (view P u)"
proof (cases rule: authenticate_agent_cases [of P C ck a q False s])
  case (refused e)
  with assms(1) show ?thesis by (simp add: secure_exchange_route_def then_do_def)
next
  case (known b agent)
  with assms(6) have auth: "authenticate_agent P C ck a q False s = (Inr (body, agent), s)" by simp
  then have "then_do (require_replay_protected P ck a agent q) (\<lambda>_. exchange_frames P C ck a agent body) s = (Inr (ms, p), u)"
    using assms(1) by (simp add: secure_exchange_route_def then_do_def [of "authenticate_agent _ _ _ _ _ _"])
  then obtain s1 where s1: "require_replay_protected P ck a agent q s = (Inr (), s1)"
    and r: "exchange_frames P C ck a agent body s1 = (Inr (ms, p), u)" by (rule then_do_InrE) auto
  have "in_queue a i t Q (view P s1)" using keepsD [OF queue_replay q, of ck a agent q] s1 by simp
  from frames_deliver [OF r this assms(3,4,5,7)] show ?thesis .
qed

lemma ping_waits:
  assumes "queue_secure_ping_route P C ck r a q s = (Inr i, t)"
  shows "waiting (view P t) a i (ck_now ck + minute_us)"
proof -
  let ?w = "Create (command_ref a (''ping_'' @ r)) [''type'' \<mapsto> FStr ''ping'', ''state'' \<mapsto> FStr ''queued'',
     ''createdAt'' \<mapsto> server_time ck, ''expiresAt'' \<mapsto> FTime (ck_now ck + minute_us)]"
  have "then_do (write_doc P ?w) (\<lambda>_. ret (''ping_'' @ r)) s = (Inr i, t)"
    using assms by (cases "require_admin C q") (auto simp: queue_secure_ping_route_def require_def split: if_splits option.splits)
  then have i: "i = ''ping_'' @ r" and w: "write_doc P ?w s = (Inr (), t)" by (auto elim!: then_do_InrE)
  then obtain db where "pf_commit P (sv_db s) [?w] = Inr db" "t = s\<lparr>sv_db := db\<rparr>" by (auto simp: write_doc_eq split: sum.splits)
  with view_create [of s] show ?thesis by (auto simp: i waiting_def)
qed

end

section \<open>The property\<close>

text \<open>Exchanges of one Agent that the service answers, none of which answers the command, before a deadline;
  the result lists the commands each of them brought.\<close>

inductive polls :: "'db platform \<Rightarrow> relay_config \<Rightarrow> string \<Rightarrow> string \<Rightarrow> datetime \<Rightarrow> 'db server \<Rightarrow> 'db server \<Rightarrow> command list list \<Rightarrow> bool"
  for P :: "'db platform" and C a i deadline s where
  none: "polls P C a i deadline s s []"
| further: "polls P C a i deadline s t rs \<Longrightarrow> secure_exchange_route P C ck a q t = (Inr (ms, p), u) \<Longrightarrow>
    ck_now ck < deadline \<Longrightarrow> agent_body P C q = Inr body \<Longrightarrow> \<not> answers P body i \<Longrightarrow> polls P C a i deadline s u (rs @ [ms])"


text \<open>The operator queues a ping for the Agent of the concrete service, which then exchanges.\<close>

definition ping_doc :: fdoc where
  "ping_doc = [''type'' \<mapsto> FStr ''ping'', ''state'' \<mapsto> FStr ''queued'', ''createdAt'' \<mapsto> server_time demo_clock,
     ''expiresAt'' \<mapsto> FTime (ck_now demo_clock + minute_us)]"

definition pinged_service :: "memory server" where
  "pinged_service = claimed_service\<lparr>sv_db := sv_db claimed_service @ [(command_ref ''agent_a'' ''ping_r'', ping_doc)]\<rparr>"

lemma demo_pings: "queue_secure_ping_route demo_platform open_config demo_clock ''r'' ''agent_a'' operator_request claimed_service = (Inr ''ping_r'', pinged_service)"
proof -
  have a: "map_of (sv_db claimed_service) (agent_ref ''agent_a'') = Some demo_agent"
    by (simp add: claimed_service_def agent_ref_def activation_ref_def)
  have k: "\<not> field_true demo_agent ''revoked'' False"
    by (simp add: demo_agent_def new_agent_doc_def demo_activation_def field_true_def)
  have n: "map_of (sv_db claimed_service) (command_ref ''agent_a'' ''ping_r'') = None"
    by (simp add: claimed_service_def agent_ref_def activation_ref_def device_ref_def command_ref_def)
  show ?thesis
    by (simp add: queue_secure_ping_route_def demo_admin a k n require_def then_do_write pinged_service_def ping_doc_def cong: then_do_cong)
qed

definition polled_service :: "memory server" where
  "polled_service = snd (secure_exchange_route demo_platform open_config demo_clock ''agent_a'' (signed ''session'' ''nonce-0123456789ab'') pinged_service)"

lemma demo_polls: "\<exists>ms p. secure_exchange_route demo_platform open_config demo_clock ''agent_a'' (signed ''session'' ''nonce-0123456789ab'') pinged_service
  = (Inr (ms, p), polled_service)"
proof -
  let ?q = "signed ''session'' ''nonce-0123456789ab''"
  let ?body = "[(''protocolVersion'', JInt 1), (''sessionId'', JStr ''session_1'')]"
  let ?nonced = "\<lambda>d. pinged_service\<lparr>sv_db := sv_db pinged_service @ [(nonce_ref ''agent_a'' ''nonce-0123456789ab'', d)]\<rparr>"
  have b: "map_of demo_bodies ''session'' = Some (JObj ?body)"
    by (simp add: demo_bodies_def)
  have n: "nonce_ok ''nonce-0123456789ab''" by code_simp
  have a: "map_of (sv_db pinged_service) (agent_ref ''agent_a'') = Some demo_agent"
    by (simp add: pinged_service_def claimed_service_def agent_ref_def activation_ref_def)
  have k: "demo_agent ''publicKey'' = Some (FStr (replicate 43 CHR ''A''))" "\<not> field_true demo_agent ''revoked'' False"
    "demo_agent ''usageDate'' = None"
    by (simp_all add: demo_agent_def new_agent_doc_def demo_activation_def field_true_def)
  have i: "exchange_request_of demo_platform ?body = Inr \<lparr>xr_session = ''session_1'', xr_capabilities = [], xr_responses = []\<rparr>" by code_simp
  note auth = demo_authenticated [where n = "''nonce-0123456789ab''", OF b _ a k(1,2), simplified]
  have m: "fate_of demo_platform demo_clock (''ping_r'', ping_doc)
      = DeliverCommand \<lparr>cm_id = ''ping_r'', cm_type = ''ping'', cm_expires_at = ts_seconds (ck_now demo_clock + minute_us - unix_epoch)\<rparr>"
    by (simp add: fate_of_def ping_doc_def Let_def opt_json_def optional_ping minute_us_def)
  have f: "\<exists>x. fst (exchange_frames demo_platform open_config demo_clock ''agent_a'' demo_agent ?body (?nonced d)) = Inr x" for d
    by (simp cong: then_do_cong add: then_do_assoc pinged_service_def claimed_service_def exchange_frames_def i usage_update_def archive_usage_def finished_day_def k
     Let_def then_do_write memory_query_def commands_ref_def agent_ref_def activation_ref_def device_ref_def nonce_ref_def command_ref_def empty_service_def
     ping_doc_def m [unfolded ping_doc_def])
  have p: "require_replay_protected demo_platform demo_clock ''agent_a'' demo_agent ?q pinged_service
     = (Inr (), ?nonced [''createdAt'' \<mapsto> server_time demo_clock, ''expiresAt'' \<mapsto> FTime (ck_now demo_clock + 10 * minute_us)])"
   unfolding require_replay_protected_def
   by (simp cong: then_do_cong add: then_do_assoc n header_def dget_def check_agent_signature_def k demo_agent_checks signed_def then_do_commit
     pinged_service_def claimed_service_def nonce_ref_def agent_ref_def activation_ref_def device_ref_def command_ref_def empty_service_def)
  from f obtain x where "fst (secure_exchange_route demo_platform open_config demo_clock ''agent_a'' ?q pinged_service) = Inr x"
    unfolding secure_exchange_route_def
    by (fastforce cong: then_do_cong simp add: then_do_def [of "authenticate_agent _ _ _ _ _ _"] then_do_def [of "require_replay_protected _ _ _ _ _"] auth p)
  then show ?thesis unfolding polled_service_def by (metis prod.collapse)
qed


end
