(* ===== verification/AgentWeb.thy ===== *)
theory AgentWeb
  imports RelayDevices PushStore
begin

text \<open>
  The Agent's own web interface (\<open>main.py\<close>, \<open>network.py\<close>): who may call it, the routes that register and
  remove apps, and the checks of their values. A handler is one step on the relay client's state. Address
  classification (\<open>ipaddress\<close>), HMAC, \<open>urlparse\<close> and \<open>json.loads\<close> are fields of \<open>web\<close>.
\<close>

section \<open>Requests\<close>

record web_request =
  wq_method :: string
  wq_query :: "string pydict"
  wq_headers :: "string pydict"
  wq_cookies :: "string pydict"
  wq_host :: "string option"
  wq_scheme :: string
  wq_netloc :: string
  wq_body :: string

text \<open>What the routes rely on: the configured token, the hex HMAC, whether \<open>ipaddress\<close> reads an address
  (\<open>None\<close> is a \<open>ValueError\<close>) and calls it private, loopback or link-local, the scheme and the netloc of a
  referer (\<open>None\<close> is a \<open>ValueError\<close>), the decoded body and the text of a value.\<close>

record web =
  wb_token :: string
  wb_mac :: "string \<Rightarrow> string \<Rightarrow> string"
  wb_address :: "string \<Rightarrow> bool option"
  wb_urlparse :: "string \<Rightarrow> (string \<times> string) option"
  wb_loads :: "string \<Rightarrow> loaded_json"
  wb_repr :: "json \<Rightarrow> string"

text \<open>A repeated query parameter keeps its last value, a repeated header its first.\<close>

definition query_param :: "web_request \<Rightarrow> string \<Rightarrow> string" where
  "query_param q k = (case map_of (rev (wq_query q)) k of None \<Rightarrow> [] | Some v \<Rightarrow> v)"

definition query_token :: "web_request \<Rightarrow> string" where
  "query_token q = strip (query_param q ''token'')"

definition web_header :: "web_request \<Rightarrow> string \<Rightarrow> string" where
  "web_header q k = dget (wq_headers q) k []"

definition bears :: "web_request \<Rightarrow> bool" where
  "bears q = prefix ''bearer '' (lower (web_header q ''authorization''))"

definition bearer :: "web_request \<Rightarrow> string" where
  "bearer q = strip (drop 7 (web_header q ''authorization''))"

definition header_token :: "web_request \<Rightarrow> string" where
  "header_token q = strip (web_header q ''x-pbxsense-token'')"

section \<open>Who may call\<close>

definition is_private_or_loopback_host :: "web \<Rightarrow> string \<Rightarrow> bool" where
  "is_private_or_loopback_host W host = (case wb_address W host of None \<Rightarrow> lower host = ''localhost'' | Some b \<Rightarrow> b)"

definition is_trusted_request :: "web \<Rightarrow> web_request \<Rightarrow> bool" where
  "is_trusted_request W q = is_private_or_loopback_host W (opt_or (wq_host q) [])"

definition local_web_cookie :: string where
  "local_web_cookie = ''pbxsense_agent_local_web''"

definition local_web_cookie_value :: "web \<Rightarrow> string" where
  "local_web_cookie_value W = wb_mac W (utf8 (wb_token W)) ''pbxsense-local-web''"

definition cookie_matches :: "web \<Rightarrow> web_request \<Rightarrow> bool option" where
  "cookie_matches W q = compare_digest (dget (wq_cookies q) local_web_cookie []) (local_web_cookie_value W)"

text \<open>\<open>_has_valid_local_web_cookie\<close>; \<open>None\<close> is the \<open>TypeError\<close> of \<open>compare_digest\<close>.\<close>

definition has_valid_local_web_cookie :: "web \<Rightarrow> web_request \<Rightarrow> bool option" where
  "has_valid_local_web_cookie W q =
    (if wb_token W = [] \<or> \<not> is_trusted_request W q then Some False else cookie_matches W q)"

definition request_token :: "web \<Rightarrow> web_request \<Rightarrow> string option" where
  "request_token W q =
    (if bears q then Some (bearer q)
     else if query_token q \<noteq> [] then Some (query_token q)
     else (case has_valid_local_web_cookie W q of
       None \<Rightarrow> None
     | Some True \<Rightarrow> Some (wb_token W)
     | Some False \<Rightarrow> Some (header_token q)))"

definition require_token :: "web \<Rightarrow> web_request \<Rightarrow> refusal + unit" where
  "require_token W q =
    (if wb_token W = [] then Inr ()
     else (case request_token W q of
       None \<Rightarrow> Inl Crashed
     | Some token \<Rightarrow>
         (case compare_digest token (wb_token W) of
            None \<Rightarrow> Inl Crashed
          | Some b \<Rightarrow> if b then Inr () else Inl (Refused 401 ''PBXSense Agent token required''))))"

definition rstrip_slash :: "string \<Rightarrow> string" where
  "rstrip_slash s = rstrip_chars (\<lambda>c. c = CHR ''/'') s"

text \<open>The origin a browser states: the \<open>Origin\<close> header, or else that of the referer.\<close>

definition own_origin :: "web_request \<Rightarrow> string" where
  "own_origin q = rstrip_slash (wq_scheme q @ ''://'' @ wq_netloc q)"

definition stated_origin :: "web \<Rightarrow> web_request \<Rightarrow> string option" where
  "stated_origin W q =
    (let origin = rstrip_slash (web_header q ''origin'') in
     if origin \<noteq> [] then Some origin
     else (case wb_urlparse W (web_header q ''referer'') of
       None \<Rightarrow> None
     | Some (scheme, netloc) \<Rightarrow> Some (if netloc = [] then [] else rstrip_slash (scheme @ ''://'' @ netloc))))"

definition require_safe_cookie_mutation :: "web \<Rightarrow> web_request \<Rightarrow> refusal + unit" where
  "require_safe_cookie_mutation W q =
    (if bears q \<or> query_token q \<noteq> [] \<or> header_token q \<noteq> [] then Inr ()
     else (case has_valid_local_web_cookie W q of
       None \<Rightarrow> Inl Crashed
     | Some False \<Rightarrow> Inr ()
     | Some True \<Rightarrow>
         (case stated_origin W q of
            None \<Rightarrow> Inl Crashed
          | Some origin \<Rightarrow>
              (if origin = [] then Inl (Refused 403 ''Same-origin request required'')
               else (case compare_digest origin (own_origin q) of
                 None \<Rightarrow> Inl Crashed
               | Some b \<Rightarrow> if b then Inr () else Inl (Refused 403 ''Same-origin request required''))))))"

text \<open>\<open>_websocket_authorized\<close>, for the request that opens the socket.\<close>

definition websocket_authorized :: "web \<Rightarrow> web_request \<Rightarrow> bool option" where
  "websocket_authorized W q =
    (if wb_token W = [] then Some True
     else if bears q then compare_digest (bearer q) (wb_token W)
     else if query_token q \<noteq> [] then compare_digest (query_token q) (wb_token W)
     else (case cookie_matches W q of
       None \<Rightarrow> None
     | Some b \<Rightarrow> compare_digest (if b then wb_token W else []) (wb_token W)))"

section \<open>Redirects and sessions\<close>

definition wants_html :: "web_request \<Rightarrow> bool" where
  "wants_html q = (query_param q ''format'' \<noteq> ''json'' \<and> contains ''text/html'' (web_header q ''accept''))"

text \<open>\<open>_localhost_cookie_redirect\<close>: the query left in the address when the token moves into the cookie.\<close>

definition localhost_cookie_redirect :: "web \<Rightarrow> web_request \<Rightarrow> (refusal + string pydict option)" where
  "localhost_cookie_redirect W q =
    (if wb_token W = [] \<or> \<not> wants_html q \<or> \<not> is_trusted_request W q then Inr None
     else if query_token q \<noteq> [] then
       (case compare_digest (query_token q) (wb_token W) of
          None \<Rightarrow> Inl Crashed
        | Some True \<Rightarrow> Inr (Some (filter (\<lambda>(k, v). k \<noteq> ''token'') (wq_query q)))
        | Some False \<Rightarrow> (case has_valid_local_web_cookie W q of None \<Rightarrow> Inl Crashed | Some b \<Rightarrow> Inr None))
     else (case has_valid_local_web_cookie W q of None \<Rightarrow> Inl Crashed | Some b \<Rightarrow> Inr None))"

text \<open>\<open>renew_local_admin_session\<close>: whether the answer sets the cookie again.\<close>

definition renews_session :: "web \<Rightarrow> web_request \<Rightarrow> bool option" where
  "renews_session W q =
    (if wq_method q = ''GET'' \<and> wants_html q then has_valid_local_web_cookie W q else Some False)"

section \<open>Values\<close>

definition bounded_json_object :: "web \<Rightarrow> web_request \<Rightarrow> refusal + json pydict" where
  "bounded_json_object W q =
    (if 64 * 1024 < length (wq_body q) then Inl (Refused 413 ''Request body is too large'')
     else (case wb_loads W (wq_body q) of
       BadJson \<Rightarrow> Inl (Refused 400 ''JSON body required'')
     | BadText \<Rightarrow> Inl (Refused 400 ''JSON body required'')
     | Loaded (JObj b) \<Rightarrow> Inr b
     | Loaded _ \<Rightarrow> Inl (Refused 400 ''JSON object required'')))"

definition require_bounded_text :: "string \<Rightarrow> string \<Rightarrow> nat \<Rightarrow> refusal + unit" where
  "require_bounded_text v field limit =
    (if v = [] then Inl (Refused 400 (field @ '' is required''))
     else if limit < length v then Inl (Refused 400 (field @ '' is too long'')) else Inr ())"

definition str_of :: "web \<Rightarrow> json pydict \<Rightarrow> string \<Rightarrow> string \<Rightarrow> string" where
  "str_of W b k dflt = str_json (wb_repr W) (dget b k (JStr dflt))"

fun optional_texts :: "web \<Rightarrow> json pydict \<Rightarrow> (string \<times> nat) list \<Rightarrow> refusal + unit" where
  "optional_texts W b [] = Inr ()"
| "optional_texts W b ((field, limit) # fs) =
    (let v = strip (str_of W b field []) in
     case (if v = [] then Inr () else require_bounded_text v field limit) of
       Inl e \<Rightarrow> Inl e
     | Inr u \<Rightarrow> optional_texts W b fs)"

definition valid_moment_hours :: "string \<Rightarrow> int" where
  "valid_moment_hours s = (case py_int s of None \<Rightarrow> 24 | Some h \<Rightarrow> if h \<in> {1, 3, 6, 12, 24} then h else 24)"

definition moment_hours :: "web_request \<Rightarrow> int" where
  "moment_hours q = valid_moment_hours (query_param q ''momentHours'')"

section \<open>Routes\<close>

text \<open>Errors the relay client lets escape end the request.\<close>

definition relay_call :: "(relay \<Rightarrow> (relay_error + 'a) \<times> relay) \<Rightarrow> (relay, 'a) handler" where
  "relay_call f r = (case f r of (Inl e, r1) \<Rightarrow> (Inl Crashed, r1) | (Inr x, r1) \<Rightarrow> (Inr x, r1))"

definition registration_limits :: "(string \<times> nat) list" where
  "registration_limits = [(''platform'', 32), (''appVersion'', 120), (''deviceModel'', 120), (''deviceName'', 120),
     (''osVersion'', 120), (''relayDeviceId'', 96), (''encryptionPublicKey'', 100)]"

definition device_request_of :: "web \<Rightarrow> json pydict \<Rightarrow> device_request" where
  "device_request_of W b =
    \<lparr>dr_token = strip (str_of W b ''fcmToken'' []), dr_meaningful = truthy (dget b ''meaningfulEnabled'' (JBool True)),
     dr_activity = truthy (dget b ''activityEnabled'' (JBool True)), dr_platform = str_of W b ''platform'' ''android'',
     dr_app_version = str_of W b ''appVersion'' [], dr_device_model = str_of W b ''deviceModel'' [],
     dr_device_name = str_of W b ''deviceName'' [], dr_os_version = str_of W b ''osVersion'' [],
     dr_relay_device_id = str_of W b ''relayDeviceId'' [], dr_encryption_key = str_of W b ''encryptionPublicKey'' []\<rparr>"

definition register_push_device :: "web \<Rightarrow> network \<Rightarrow> (string \<Rightarrow> string) \<Rightarrow> int \<Rightarrow> web_request \<Rightarrow> (relay, registration_result) handler" where
  "register_push_device W net sha now q =
    then_do (lift (require_token W q)) (\<lambda>_.
    then_do (lift (require_safe_cookie_mutation W q)) (\<lambda>_.
    then_do (lift (bounded_json_object W q)) (\<lambda>b.
    then_do (lift (require_bounded_text (strip (str_of W b ''fcmToken'' [])) ''fcmToken'' 4096)) (\<lambda>_.
    then_do (lift (optional_texts W b registration_limits)) (\<lambda>_.
    relay_call (register_device net sha now (device_request_of W b)))))))"

definition revoke_push_device :: "web \<Rightarrow> network \<Rightarrow> (string \<Rightarrow> rat) \<Rightarrow> string \<Rightarrow> rat \<Rightarrow> web_request \<Rightarrow> (relay, bool) handler" where
  "revoke_push_device W net iso_secs key now q =
    then_do (lift (require_token W q)) (\<lambda>_.
    then_do (lift (require_safe_cookie_mutation W q)) (\<lambda>_.
    then_do (lift (bounded_json_object W q)) (\<lambda>b.
    let token = strip (str_of W b ''fcmToken'' []); device = strip (str_of W b ''relayDeviceId'' []) in
    then_do (lift (if token = [] then Inr () else require_bounded_text token ''fcmToken'' 4096)) (\<lambda>_.
    then_do (lift (if device = [] then Inr () else require_bounded_text device ''relayDeviceId'' 96)) (\<lambda>_.
    relay_call (remove_device net iso_secs key now token device))))))"

text \<open>\<open>remove_paired_app\<close>: the query of the address the browser is sent to.\<close>

definition remove_paired_app :: "web \<Rightarrow> network \<Rightarrow> (string \<Rightarrow> rat) \<Rightarrow> string \<Rightarrow> rat \<Rightarrow> web_request \<Rightarrow> (relay, string pydict) handler" where
  "remove_paired_app W net iso_secs key now q =
    then_do (lift (require_token W q)) (\<lambda>_.
    then_do (lift (require_safe_cookie_mutation W q)) (\<lambda>_.
    let device = strip (query_param q ''deviceId'') in
    then_do (if device = [] then ret False else relay_call (remove_device net iso_secs key now [] device)) (\<lambda>removed.
    ret ((''removal'', if removed then ''removed'' else ''failed'') #
      (if query_token q = [] then [] else [(''token'', query_token q)])))))"

text \<open>A route that only reads: the token first, then the answer \<open>f\<close>. The pages first try the redirect.\<close>

datatype 'a page = RedirectTo "string pydict" | Page 'a

definition read_route :: "web \<Rightarrow> (relay, 'a) handler \<Rightarrow> web_request \<Rightarrow> (relay, 'a) handler" where
  "read_route W f q = then_do (lift (require_token W q)) (\<lambda>_. f)"

definition page_route :: "web \<Rightarrow> (relay, 'a) handler \<Rightarrow> web_request \<Rightarrow> (relay, 'a page) handler" where
  "page_route W f q =
    then_do (lift (localhost_cookie_redirect W q)) (\<lambda>r.
    case r of
      Some query \<Rightarrow> ret (RedirectTo query)
    | None \<Rightarrow> then_do (read_route W f q) (\<lambda>x. ret (Page x)))"

end
