(* ===== verification/Recordings.thy ===== *)
theory Recordings
  imports AgentWeb
begin

text \<open>
  \<open>recordings.py\<close> and its route: the recording a request may play. The files below the configured root
  are an argument, in the order of \<open>rglob\<close>; a path is its list of names.
\<close>

section \<open>Names\<close>

text \<open>\<open>Path(s).name\<close>: the last part; empty parts and \<open>.\<close> are none.\<close>

definition path_name :: "string \<Rightarrow> string" where
  "path_name s = (let parts = filter (\<lambda>p. p \<noteq> [] \<and> p \<noteq> ''.'') (split_on (CHR ''/'') s) in if parts = [] then [] else last parts)"

text \<open>\<open>stem\<close> and \<open>suffix\<close> split a name at its last dot, unless that is its first or its last character.\<close>

definition has_suffix :: "string \<Rightarrow> bool" where
  "has_suffix name = (CHR ''.'' \<in> set name \<and> after_last (CHR ''.'') name \<noteq> [] \<and>
     length (after_last (CHR ''.'') name) + 1 < length name)"

definition suffix_of :: "string \<Rightarrow> string" where
  "suffix_of name = (if has_suffix name then CHR ''.'' # after_last (CHR ''.'') name else [])"

definition stem_of :: "string \<Rightarrow> string" where
  "stem_of name = take (length name - length (suffix_of name)) name"

definition audio_suffixes :: "string list" where
  "audio_suffixes = [''.wav'', ''.mp3'', ''.ogg'', ''.gsm'', ''.ulaw'', ''.alaw'', ''.flac'']"

section \<open>The search\<close>

text \<open>The pattern of the identifier between characters that are neither letters nor digits; \<open>prev\<close> is the
  character before the rest.\<close>

definition word_char :: "char \<Rightarrow> bool" where
  "word_char c = (let n = code_point (lower_char c) in 97 \<le> n \<and> n \<le> 122 \<or> 48 \<le> n \<and> n \<le> 57)"

definition word_here :: "string \<Rightarrow> char option \<Rightarrow> string \<Rightarrow> bool" where
  "word_here w prev s = ((case prev of None \<Rightarrow> True | Some c \<Rightarrow> \<not> word_char c) \<and> prefix w (lower s) \<and>
     (case drop (length w) s of [] \<Rightarrow> True | c # cs \<Rightarrow> \<not> word_char c))"

fun word_in :: "string \<Rightarrow> char option \<Rightarrow> string \<Rightarrow> bool" where
  "word_in w prev [] = word_here w prev []"
| "word_in w prev (c # cs) = (word_here w prev (c # cs) \<or> word_in w (Some c) cs)"

text \<open>What \<open>is_file\<close> says of an entry; \<open>Unreadable\<close> raises an \<open>OSError\<close>.\<close>

datatype entry = File | Other | Unreadable

definition is_audio :: "string list \<times> entry \<Rightarrow> bool" where
  "is_audio c = (snd c = File \<and> lower (suffix_of (last (fst c))) \<in> set audio_suffixes)"

definition exact_match :: "string \<Rightarrow> string list \<Rightarrow> bool" where
  "exact_match name p = (lower (last p) = name \<or> lower (stem_of (last p)) = stem_of name)"

definition bounded_match :: "string \<Rightarrow> string list \<Rightarrow> bool" where
  "bounded_match name p = (stem_of name \<noteq> [] \<and> word_in (stem_of name) None (stem_of (last p)))"

definition find_recording :: "(string \<Rightarrow> (string list \<times> entry) list option) \<Rightarrow> string \<Rightarrow> string \<Rightarrow> string list option" where
  "find_recording files folder rid =
    (if folder = [] \<or> rid = [] then None
     else (case files folder of
       None \<Rightarrow> None
     | Some entries \<Rightarrow>
        (if list_ex (\<lambda>c. snd c = Unreadable) entries then None
         else (let name = lower (path_name rid);
                   audio = map fst (filter is_audio entries);
                   exact = filter (exact_match name) audio;
                   bounded = filter (\<lambda>p. \<not> exact_match name p \<and> bounded_match name p) audio;
                   matches = (if exact \<noteq> [] then exact else bounded)
               in if length matches = 1 then Some (hd matches) else None))))"

text \<open>The route, for the connectors that read recordings from files.\<close>

definition recording_route :: "web \<Rightarrow> (string \<Rightarrow> (string list \<times> entry) list option) \<Rightarrow> string \<Rightarrow> string \<Rightarrow> web_request \<Rightarrow> (relay, string list) handler" where
  "recording_route W files folder rid =
    read_route W (case find_recording files folder rid of
      None \<Rightarrow> fail (Refused 404 ''Recording was not found in the configured root'')
    | Some p \<Rightarrow> ret p)"

section \<open>Names have no directories\<close>

lemma split_on_parts: "p \<in> set (split_on c s) \<Longrightarrow> c \<notin> set p"
  by (induction c s arbitrary: p rule: split_on.induct) (auto split: list.splits if_splits)

lemma split_on_none: "c \<notin> set s \<Longrightarrow> split_on c s = [s]"
  by (induction c s rule: split_on.induct) auto

lemma path_name_flat: "CHR ''/'' \<notin> set (path_name s)"
proof -
  let ?parts = "filter (\<lambda>p. p \<noteq> [] \<and> p \<noteq> ''.'') (split_on (CHR ''/'') s)"
  have "last ?parts \<in> set (split_on (CHR ''/'') s)" if "?parts \<noteq> []" using last_in_set [OF that] by simp
  then show ?thesis using split_on_parts [of "last ?parts" "CHR ''/''" s] by (auto simp: path_name_def Let_def)
qed

lemma path_name_idem: "path_name (path_name s) = path_name s"
proof (cases "path_name s = []")
  case False
  let ?parts = "filter (\<lambda>p. p \<noteq> [] \<and> p \<noteq> ''.'') (split_on (CHR ''/'') s)"
  from False have ne: "?parts \<noteq> []" by (auto simp: path_name_def Let_def split: if_splits)
  then have "last ?parts \<in> set ?parts" by (rule last_in_set)
  with ne have "path_name s \<noteq> ''.''" by (simp add: path_name_def Let_def)
  with False show ?thesis using split_on_none [OF path_name_flat [of s]] by (simp add: path_name_def Let_def)
qed (simp add: path_name_def)

section \<open>What is found\<close>

text \<open>The names that answer an identifier: the file names below the root that are equal to it, or else those
  that contain it as a word.\<close>

definition answering :: "(string list \<times> entry) list \<Rightarrow> string \<Rightarrow> string list list" where
  "answering entries name = (let audio = map fst (filter is_audio entries); exact = filter (exact_match name) audio
     in if exact \<noteq> [] then exact else filter (bounded_match name) audio)"

lemma only_match: "(if length xs = 1 then Some (hd xs) else None) = Some p \<longleftrightarrow> xs = [p]"
  by (cases xs) auto

lemma find_recording_answering:
  assumes "files folder = Some entries"
  shows "find_recording files folder rid = (if folder = [] \<or> rid = [] \<or> list_ex (\<lambda>c. snd c = Unreadable) entries then None
    else (let ms = answering entries (lower (path_name rid)) in if length ms = 1 then Some (hd ms) else None))"
proof -
  let ?n = "lower (path_name rid)" and ?audio = "map fst (filter is_audio entries)"
  have "filter (\<lambda>p. \<not> exact_match ?n p \<and> bounded_match ?n p) ?audio = filter (bounded_match ?n) ?audio" if "filter (exact_match ?n) ?audio = []"
    by (rule filter_cong) (use that in \<open>auto simp: filter_empty_conv\<close>)
  then have "answering entries ?n = (if filter (exact_match ?n) ?audio \<noteq> [] then filter (exact_match ?n) ?audio
      else filter (\<lambda>p. \<not> exact_match ?n p \<and> bounded_match ?n p) ?audio)"
    unfolding answering_def Let_def by argo
  then show ?thesis unfolding find_recording_def assms option.case Let_def
    by (cases "folder = [] \<or> rid = []"; cases "list_ex (\<lambda>c. snd c = Unreadable) entries") (simp_all only: if_True if_False simp_thms)
qed

lemma find_recording_iff:
  "find_recording files folder rid = Some p \<longleftrightarrow> folder \<noteq> [] \<and> rid \<noteq> [] \<and> (\<exists>entries. files folder = Some entries \<and>
     (\<forall>c \<in> set entries. snd c \<noteq> Unreadable) \<and> answering entries (lower (path_name rid)) = [p])"
proof (cases "files folder")
  case (Some entries)
  have readable: "list_ex (\<lambda>c. snd c = Unreadable) entries \<longleftrightarrow> \<not> (\<forall>c \<in> set entries. snd c \<noteq> Unreadable)" by (simp add: list_ex_iff)
  show ?thesis
    unfolding find_recording_answering [of files, OF Some] Let_def readable
    by (cases "folder = [] \<or> rid = [] \<or> \<not> (\<forall>c \<in> set entries. snd c \<noteq> Unreadable)")
      (simp_all only: if_True if_False only_match Some option.inject, auto)
qed (simp add: find_recording_def)

end
