(* ===== verification/AgentAccess.thy ===== *)
theory AgentAccess
  imports Recordings
begin

text \<open>
  What the Agent's web interface promises: no route acts without the token, no other site's page can write,
  and a recording identifier names at most one file, whatever directories it spells.
\<close>

section \<open>The token\<close>

text \<open>A request that carries the configured token in the place the routes look at, or the cookie that stands
  for it from a private address.\<close>

definition carries_token :: "web \<Rightarrow> web_request \<Rightarrow> bool" where
  "carries_token W q \<longleftrightarrow> (if bears q then bearer q = wb_token W
     else if query_token q \<noteq> [] then query_token q = wb_token W
     else is_trusted_request W q \<and> dget (wq_cookies q) local_web_cookie [] = local_web_cookie_value W \<or> header_token q = wb_token W)"

lemma compare_digest_True: "compare_digest a b = Some True \<longleftrightarrow> is_ascii a \<and> is_ascii b \<and> a = b"
  by (auto simp: compare_digest_def)

lemma require_token_carries: "wb_token W \<noteq> [] \<Longrightarrow> require_token W q = Inr () \<Longrightarrow> carries_token W q"
  by (auto simp: require_token_def request_token_def carries_token_def has_valid_local_web_cookie_def cookie_matches_def
    compare_digest_True split: option.splits bool.splits if_splits)

lemma refused_first: "lift_result = Inl e \<Longrightarrow> then_do (lift lift_result) f s = (Inl e, s)"
  by (simp add: then_do_def lift_def)

lemma token_refused: "wb_token W \<noteq> [] \<Longrightarrow> \<not> carries_token W q \<Longrightarrow> \<exists>e. require_token W q = Inl e"
  using require_token_carries by (cases "require_token W q") auto

lemma redirect_token: "localhost_cookie_redirect W q = Inr (Some query) \<Longrightarrow> query_token q = wb_token W"
  by (auto simp: localhost_cookie_redirect_def compare_digest_True split: option.splits bool.splits if_splits)


section \<open>Writes from other sites\<close>

lemma unsafe_refused:
  assumes "\<not> bears q" and "query_token q = []" and "header_token q = []" and "has_valid_local_web_cookie W q = Some True"
    and "stated_origin W q \<noteq> Some (own_origin q)"
  shows "\<exists>e. require_safe_cookie_mutation W q = Inl e"
  using assms by (auto simp: require_safe_cookie_mutation_def compare_digest_def split: option.split)

lemma unsafe_first:
  assumes "\<exists>e. require_safe_cookie_mutation W q = Inl e"
  shows "\<exists>e. then_do (lift (require_token W q)) (\<lambda>_. then_do (lift (require_safe_cookie_mutation W q)) f) r = (Inl e, r)"
  using assms by (cases "require_token W q") (auto simp: then_do_def lift_def)

text \<open>
  C13. Another site's page cannot write. A request whose only credential is the local session cookie, and whose
  origin (the \<open>Origin\<close> header, or the referer's without one) is not the Agent's own, is refused by the three
  routes that change the paired apps, before the relay is asked anything.
\<close>

theorem cross_origin_writes_refused:
  assumes "\<not> bears q" and "query_token q = []" and "header_token q = []" and "has_valid_local_web_cookie W q = Some True"
    and "stated_origin W q \<noteq> Some (own_origin q)"
  shows "(\<exists>e. register_push_device W net sha now q r = (Inl e, r)) \<and>
    (\<exists>e. revoke_push_device W net iso_secs key t q r = (Inl e, r)) \<and>
    (\<exists>e. remove_paired_app W net iso_secs key t q r = (Inl e, r))"
  unfolding register_push_device_def revoke_push_device_def remove_paired_app_def
  by (intro conjI unsafe_first unsafe_refused [OF assms])

section \<open>The live socket\<close>

text \<open>
  C39. The live socket opens with the same credentials, except that it takes the cookie from anywhere. Whatever
  opens the socket and is refused by the routes is the session cookie sent from an address that is neither
  private nor loopback: there the routes ignore the cookie and the socket does not.
\<close>

theorem socket_takes_cookie_from_anywhere:
  assumes "websocket_authorized W q = Some True" and "require_token W q \<noteq> Inr ()"
  shows "\<not> bears q \<and> query_token q = [] \<and> \<not> is_trusted_request W q \<and>
    dget (wq_cookies q) local_web_cookie [] = local_web_cookie_value W"
  using assms by (auto simp: websocket_authorized_def require_token_def request_token_def has_valid_local_web_cookie_def cookie_matches_def
    compare_digest_def split: option.splits bool.splits if_splits)

section \<open>Recordings\<close>

lemma split_on_append: "split_on c (xs @ c # ys) = split_on c xs @ split_on c ys"
proof (induction xs)
  case (Cons x xs)
  show ?case
  proof (cases "split_on c xs")
    case Nil
    then show ?thesis by (cases xs) (auto split: list.splits if_splits)
  next
    case (Cons w ws)
    with Cons.IH show ?thesis by simp
  qed
qed simp

lemma path_name_last: "CHR ''/'' \<notin> set n \<Longrightarrow> n \<noteq> [] \<Longrightarrow> n \<noteq> ''.'' \<Longrightarrow> path_name (dirs @ CHR ''/'' # n) = n"
  by (simp add: path_name_def Let_def split_on_append split_on_none)

lemma path_name_not_dot: "path_name s \<noteq> ''.''"
proof -
  let ?parts = "filter (\<lambda>p. p \<noteq> [] \<and> p \<noteq> ''.'') (split_on (CHR ''/'') s)"
  have "last ?parts \<noteq> ''.''" if "?parts \<noteq> []" using last_in_set [OF that] by auto
  then show ?thesis by (auto simp: path_name_def Let_def)
qed

lemma answering_audio: "p \<in> set (answering entries name) \<Longrightarrow> (p, File) \<in> set entries \<and> lower (suffix_of (last p)) \<in> set audio_suffixes"
  by (auto simp: answering_def Let_def is_audio_def split: if_splits)

lemma lower_Nil [simp]: "lower s = [] \<longleftrightarrow> s = []"
  by (simp add: lower_def)

lemma answering_needs_name: "answering entries [] = []"
proof -
  have "stem_of n \<noteq> []" if "lower (suffix_of n) \<in> set audio_suffixes" for n
    using that by (auto simp: stem_of_def suffix_of_def has_suffix_def audio_suffixes_def lower_def split: if_splits)
  moreover have "stem_of [] = []" by (simp add: stem_of_def)
  moreover have "suffix_of [] = []" by (simp add: suffix_of_def has_suffix_def)
  ultimately have "\<not> exact_match [] p \<and> \<not> bounded_match [] p" if "lower (suffix_of (last p)) \<in> set audio_suffixes" for p
    using that by (auto simp: exact_match_def bounded_match_def audio_suffixes_def lower_def)
  then show ?thesis by (auto simp: answering_def Let_def filter_empty_conv is_audio_def)
qed

text \<open>
  C15. A recording identifier names one audio file of the configured folder, or nothing. The file that is
  returned is a readable entry below the folder with an audio suffix and the only one that answers to the
  identifier's last part; whatever directories are put before that part, \<open>..\<close> included, the answer is the
  same, so an identifier cannot reach outside the folder.
\<close>

theorem recording_is_the_only_match:
  assumes "find_recording files folder rid = Some p"
  shows "\<exists>entries. files folder = Some entries \<and> (p, File) \<in> set entries \<and> lower (suffix_of (last p)) \<in> set audio_suffixes \<and>
    answering entries (lower (path_name rid)) = [p] \<and> (\<forall>dirs. find_recording files folder (dirs @ ''/'' @ path_name rid) = Some p)"
proof -
  from assms obtain entries where e: "folder \<noteq> []" "files folder = Some entries" "\<forall>c \<in> set entries. snd c \<noteq> Unreadable"
    "answering entries (lower (path_name rid)) = [p]" by (auto simp: find_recording_iff)
  then have "path_name rid \<noteq> []" using answering_needs_name [of entries] by (metis list.distinct(1) lower_Nil)
  then have "path_name (dirs @ ''/'' @ path_name rid) = path_name rid" for dirs
    using path_name_last [OF path_name_flat _ path_name_not_dot, where dirs = dirs] by simp
  then have "find_recording files folder (dirs @ ''/'' @ path_name rid) = Some p" for dirs
    unfolding find_recording_iff using e by simp
  with e answering_audio [of p entries "lower (path_name rid)"] show ?thesis by simp
qed

section \<open>A concrete Agent\<close>

definition demo_web :: web where
  "demo_web = \<lparr>wb_token = ''secret'', wb_mac = (\<lambda>k m. k @ m), wb_address = (\<lambda>h. Some (h = ''10.0.0.7'')),
     wb_urlparse = (\<lambda>s. Some ([], [])), wb_loads = (\<lambda>s. BadJson), wb_repr = (\<lambda>v. [])\<rparr>"

definition web_call :: "string \<Rightarrow> string pydict \<Rightarrow> string pydict \<Rightarrow> web_request" where
  "web_call host headers cookies = \<lparr>wq_method = ''POST'', wq_query = [], wq_headers = headers, wq_cookies = cookies,
     wq_host = Some host, wq_scheme = ''http'', wq_netloc = ''10.0.0.2:8080'', wq_body = []\<rparr>"

definition demo_cookie :: "string pydict" where
  "demo_cookie = [(local_web_cookie, ''secretpbxsense-local-web'')]"


theorem cross_origin_writes_refused_witness:
  "\<forall>net iso_secs key t r. \<exists>e. remove_paired_app demo_web net iso_secs key t (web_call ''10.0.0.7'' [(''origin'', ''http://evil.example'')] demo_cookie) r = (Inl e, r)"
proof -
  let ?q = "web_call ''10.0.0.7'' [(''origin'', ''http://evil.example'')] demo_cookie"
  have "\<not> bears ?q" "query_token ?q = []" "header_token ?q = []" "has_valid_local_web_cookie demo_web ?q = Some True"
    "stated_origin demo_web ?q \<noteq> Some (own_origin ?q)" by code_simp+
  from cross_origin_writes_refused [OF this] show ?thesis by blast
qed

theorem socket_takes_cookie_from_anywhere_witness:
  "websocket_authorized demo_web (web_call ''8.8.8.8'' [] demo_cookie) = Some True \<and>
   \<not> is_trusted_request demo_web (web_call ''8.8.8.8'' [] demo_cookie)"
proof -
  have "websocket_authorized demo_web (web_call ''8.8.8.8'' [] demo_cookie) = Some True"
    "require_token demo_web (web_call ''8.8.8.8'' [] demo_cookie) \<noteq> Inr ()" by code_simp+
  with socket_takes_cookie_from_anywhere [OF this] show ?thesis by blast
qed

definition demo_recordings :: "(string list \<times> entry) list" where
  "demo_recordings = [([''2026''], Other), ([''2026'', ''call-17.wav''], File), ([''2026'', ''call-171.wav''], File), ([''notes.txt''], File)]"

theorem recording_is_the_only_match_witness:
  "find_recording (\<lambda>f. Some demo_recordings) ''/rec'' ''../../17'' = Some [''2026'', ''call-17.wav''] \<and>
   answering demo_recordings ''17'' = [[''2026'', ''call-17.wav'']]"
proof -
  have f: "find_recording (\<lambda>f. Some demo_recordings) ''/rec'' ''../../17'' = Some [''2026'', ''call-17.wav'']" by code_simp
  have "lower (path_name ''../../17'') = ''17''" by code_simp
  with f recording_is_the_only_match [OF f] show ?thesis by auto
qed

end
