(* ===== verification/Yeastar.thy ===== *)
theory Yeastar
  imports FreeSwitch
begin

text \<open>
  \<open>yeastar.py\<close>: the client of the Yeastar P-Series API, its access token, the parts of a snapshot and the
  two-second cache. \<open>yn_reply n\<close> answers the n-th request; \<open>yn_clock n\<close> is the monotonic clock once n
  requests have been made.
\<close>

section \<open>Requests and errors\<close>

record ys_request =
  yr_method :: string
  yr_endpoint :: string
  yr_params :: "json pydict"
  yr_payload :: "string pydict option"

text \<open>\<open>YeastarError\<close> is an \<open>OSError\<close>; so is what a broken connection raises past \<open>urlopen\<close>. A body that is not
  UTF-8, an answer that is not HTTP and the overflow of a date are not.\<close>

datatype ys_error = YeastarError string | YOsError string | YOtherError | YOverflowError

text \<open>A status other than success, a connection that fails, a body that is not JSON, another exception, or a
  document.\<close>

datatype ys_reply = YHttp nat | YDown string | YBadJson string | YRaise ys_error | YJson json

record ys_net =
  yn_reply :: "nat \<Rightarrow> ys_request \<Rightarrow> ys_reply"
  yn_download :: "nat \<Rightarrow> string \<Rightarrow> string + string \<times> string"
  yn_clock :: "nat \<Rightarrow> rat"
  yn_repr :: "json \<Rightarrow> string"
  yn_from_ts :: "int \<Rightarrow> ts_result"
  yn_from_iso :: "string \<Rightarrow> datetime option"

record ys_settings =
  yc_base_url :: string
  yc_client_id :: string
  yc_client_secret :: string

record ys_client =
  yl_token :: string
  yl_expires_at :: rat
  yl_cached :: "ami_snapshot option"
  yl_refresh_after :: rat
  yl_requests :: nat

type_synonym 'a ys = "ys_client \<Rightarrow> (ys_error + 'a) \<times> ys_client"

definition yret :: "'a \<Rightarrow> 'a ys" where
  "yret x s = (Inr x, s)"

definition yfail :: "ys_error \<Rightarrow> 'a ys" where
  "yfail e s = (Inl e, s)"

definition ybind :: "'a ys \<Rightarrow> ('a \<Rightarrow> 'b ys) \<Rightarrow> 'b ys" where
  "ybind m f s = (case m s of (Inl e, t) \<Rightarrow> (Inl e, t) | (Inr x, t) \<Rightarrow> f x t)"

fun is_ys_os_error :: "ys_error \<Rightarrow> bool" where
  "is_ys_os_error (YeastarError m) = True"
| "is_ys_os_error (YOsError m) = True"
| "is_ys_os_error e = False"

text \<open>\<open>try: m except OSError: value\<close>.\<close>

definition ycatch :: "'a ys \<Rightarrow> 'a \<Rightarrow> 'a ys" where
  "ycatch m x s = (case m s of (Inl e, t) \<Rightarrow> (if is_ys_os_error e then (Inr x, t) else (Inl e, t)) | r \<Rightarrow> r)"

fun ymap :: "('a \<Rightarrow> 'b ys) \<Rightarrow> 'a list \<Rightarrow> 'b list ys" where
  "ymap f [] = yret []"
| "ymap f (x # xs) = ybind (f x) (\<lambda>y. ybind (ymap f xs) (\<lambda>ys. yret (y # ys)))"

section \<open>Values\<close>

definition ys_rows_of :: "json \<Rightarrow> json pydict list" where
  "ys_rows_of v = (case v of JList xs \<Rightarrow> List.map_filter (\<lambda>x. case x of JObj b \<Rightarrow> Some b | _ \<Rightarrow> None) xs | _ \<Rightarrow> [])"

definition ys_get :: "json pydict \<Rightarrow> string \<Rightarrow> json" where
  "ys_get row k = opt_or (map_of row k) JNull"

definition ys_rows :: "json pydict \<Rightarrow> json pydict list" where
  "ys_rows response = ys_rows_of (ys_get response ''data'')"

fun ys_object :: "json \<Rightarrow> json pydict" where
  "ys_object (JObj b) = b"
| "ys_object v = []"

definition ys_string :: "ys_net \<Rightarrow> json pydict \<Rightarrow> string list \<Rightarrow> string" where
  "ys_string N row keys = row_string (yn_repr N) row keys"

definition ys_integer :: "ys_net \<Rightarrow> json \<Rightarrow> int" where
  "ys_integer N v = opt_or (py_int (str_json (yn_repr N) v)) 0"

definition ys_datetime :: "ys_net \<Rightarrow> string \<Rightarrow> datetime option ys" where
  "ys_datetime N v =
    (if str_isdigit v then (case parse_timestamp (yn_from_ts N) v of None \<Rightarrow> yfail YOverflowError | Some t \<Rightarrow> yret t)
     else (case yn_from_iso N (concat (map (\<lambda>c. if c = CHR ''Z'' then ''+00:00'' else [c]) v)) of
       Some t \<Rightarrow> yret (Some t)
     | None \<Rightarrow> yret (parse_datetime_text v)))"

section \<open>The API\<close>

definition ys_failed :: "string \<Rightarrow> string \<Rightarrow> ys_error" where
  "ys_failed path m = YeastarError (''Yeastar API '' @ path @ '' failed: '' @ m)"

definition ys_request_json :: "ys_net \<Rightarrow> ys_request \<Rightarrow> json pydict ys" where
  "ys_request_json N q s =
    (let t = s\<lparr>yl_requests := yl_requests s + 1\<rparr> in
     case yn_reply N (yl_requests s) q of
       YHttp code \<Rightarrow> (Inl (ys_failed (yr_endpoint q) (''HTTP '' @ show_nat code)), t)
     | YDown m \<Rightarrow> (Inl (ys_failed (yr_endpoint q) m), t)
     | YBadJson m \<Rightarrow> (Inl (ys_failed (yr_endpoint q) m), t)
     | YRaise e \<Rightarrow> (Inl e, t)
     | YJson (JObj b) \<Rightarrow>
         (if ys_integer N (ys_get b ''errcode'') \<noteq> 0
          then (Inl (ys_failed (yr_endpoint q) (or_str (ys_string N b [''errmsg'']) (str_json (yn_repr N) (ys_get b ''errcode'')))), t)
          else (Inr b, t))
     | YJson v \<Rightarrow> (Inl (YeastarError (''Yeastar API '' @ yr_endpoint q @ '' returned an invalid response'')), t))"

definition ys_token_request :: "ys_settings \<Rightarrow> ys_request" where
  "ys_token_request C = \<lparr>yr_method = ''POST'', yr_endpoint = ''get_token'', yr_params = [],
     yr_payload = Some [(''username'', yc_client_id C), (''password'', yc_client_secret C)]\<rparr>"

definition ys_token :: "ys_net \<Rightarrow> ys_settings \<Rightarrow> string ys" where
  "ys_token N C s =
    (if yl_token s \<noteq> [] \<and> yn_clock N (yl_requests s) < yl_expires_at s then (Inr (yl_token s), s)
     else if yc_base_url C = [] then (Inl (YeastarError ''Yeastar base URL is not configured''), s)
     else if yc_client_id C = [] \<or> yc_client_secret C = []
       then (Inl (YeastarError ''Yeastar Client ID and Client Secret are not configured''), s)
     else (case ys_request_json N (ys_token_request C) s of
       (Inl e, t) \<Rightarrow> (Inl e, t)
     | (Inr b, t) \<Rightarrow>
         (let token = ys_string N b [''access_token''] in
          if token = [] then (Inl (YeastarError ''Yeastar did not return an access token''), t)
          else (Inr token, t\<lparr>yl_token := token, yl_expires_at := yn_clock N (yl_requests t) +
            of_int (max (ys_integer N (ys_get b ''access_token_expire_time'') - 30) 30)\<rparr>))))"

definition ys_api :: "ys_net \<Rightarrow> ys_settings \<Rightarrow> string \<Rightarrow> json pydict \<Rightarrow> json pydict ys" where
  "ys_api N C path params =
    ybind (ys_token N C) (\<lambda>token.
    ys_request_json N \<lparr>yr_method = ''GET'', yr_endpoint = path,
      yr_params = AList.update ''access_token'' (JStr token) params, yr_payload = None\<rparr>)"

definition ys_page :: "json pydict" where
  "ys_page = [(''page'', JInt 1), (''page_size'', JInt 1000)]"

section \<open>Endpoints, channels, queues\<close>

definition ys_endpoint :: "ys_net \<Rightarrow> json pydict \<Rightarrow> ami_endpoint option" where
  "ys_endpoint N row =
    (let number = ys_string N row [''number''];
         items = ys_rows_of (ys_get row ''status_list'');
         online = (list_ex (\<lambda>i. ys_integer N (ys_get i ''status'') = 1) items \<or>
           ys_integer N (ys_get (ys_object (ys_get row ''online_status'')) ''status'') = 1);
         item = (case items of [] \<Rightarrow> [] | i # is \<Rightarrow> i)
     in if number = [] then None
        else Some (default_endpoint\<lparr>ep_extension := number, device_state := (if online then ''Reachable'' else ''Unavailable''),
          ep_label := ys_string N row [''caller_id_name'', ''name''],
          presence := ys_string N row [''presence_status'', ''presence'', ''presence_state''],
          ip_address := ys_string N item [''ip_address'', ''ip'', ''host'']\<rparr>))"

definition ys_endpoints :: "ys_net \<Rightarrow> ys_settings \<Rightarrow> ami_endpoint list ys" where
  "ys_endpoints N C =
    ybind (ys_api N C ''extension/search'' ys_page) (\<lambda>r. yret (List.map_filter (ys_endpoint N) (ys_rows r)))"

definition ys_member_channel :: "ys_net \<Rightarrow> string \<Rightarrow> json pydict \<Rightarrow> string \<Rightarrow> ami_channel option" where
  "ys_member_channel N call_id member kind =
    (let details = ys_object (ys_get member kind);
         number = ys_string N details [''number'', ''to'', ''from''];
         peer = ys_string N details [''to'', ''from''];
         who = ys_string N details [''from'', ''number''];
         cid = or_str (ys_string N details [''channel_id'']) call_id
     in if details = [] then None
        else Some \<lparr>channel = cid, extension = number, caller = who, connected = peer,
          chan_state = ys_string N details [''member_status''], endpoint = number, caller_number = who,
          connected_number = peer, duration = [], unique_id = cid, linked_id = call_id\<rparr>)"

definition ys_call_channels :: "ys_net \<Rightarrow> json pydict \<Rightarrow> ami_channel list" where
  "ys_call_channels N r = concat (map (\<lambda>call. let call_id = ys_string N call [''call_id''] in
     concat (map (\<lambda>member. List.map_filter (ys_member_channel N call_id member) [''extension'', ''inbound'', ''outbound''])
       (ys_rows_of (ys_get call ''members'')))) (ys_rows r))"

definition ys_channels :: "ys_net \<Rightarrow> ys_settings \<Rightarrow> ami_channel list ys" where
  "ys_channels N C =
    ybind (ymap (\<lambda>kind. ys_api N C ''call/query'' [(''type'', JStr kind)]) [''inbound'', ''outbound'', ''internal''])
      (\<lambda>rs. yret (concat (map (ys_call_channels N) rs)))"

definition ys_queue_of :: "ys_net \<Rightarrow> json pydict \<Rightarrow> int \<Rightarrow> json pydict \<Rightarrow> ami_queue" where
  "ys_queue_of N row queue_id st =
    (let waiting = ys_rows_of (ys_get st ''waiting_list'');
         waits = map (\<lambda>i. ys_integer N (ys_get i ''duration'')) waiting
     in default_queue\<lparr>q_name := or_str (ys_string N row [''number'', ''name'']) (show_int queue_id),
          waiting_callers := max (ys_integer N (ys_get st ''waiting_calls'')) (int (length waiting)),
          longest_wait_seconds := (if waits = [] then 0 else Max (set waits))\<rparr>)"

definition ys_queue :: "ys_net \<Rightarrow> ys_settings \<Rightarrow> json pydict \<Rightarrow> ami_queue option ys" where
  "ys_queue N C row =
    (let queue_id = ys_integer N (ys_get row ''id'') in
     if queue_id \<le> 0 then yret None
     else ycatch (ybind (ys_api N C ''queue/call_status'' [(''id'', JInt queue_id)])
       (\<lambda>st. yret (Some (ys_queue_of N row queue_id st)))) None)"

definition ys_queues :: "ys_net \<Rightarrow> ys_settings \<Rightarrow> ami_queue list ys" where
  "ys_queues N C =
    ybind (ycatch (ybind (ys_api N C ''queue/search'' ys_page) (\<lambda>r. yret (Some r))) None) (\<lambda>r.
    case r of
      None \<Rightarrow> yret []
    | Some response \<Rightarrow> ybind (ymap (ys_queue N C) (ys_rows response)) (\<lambda>qs. yret (List.map_filter id qs)))"

section \<open>Calls and voicemail\<close>

definition ys_call :: "ys_net \<Rightarrow> json pydict \<Rightarrow> cdr_call ys" where
  "ys_call N row =
    ybind (ys_datetime N (ys_string N row [''time'', ''timestamp''])) (\<lambda>t.
    yret (default_call\<lparr>source := ys_string N row [''call_from_number'', ''call_from''],
      destination := ys_string N row [''call_to_number'', ''call_to''],
      disposition := upper (ys_string N row [''disposition'']), started_at := t,
      duration_seconds := ys_integer N (ys_get row ''duration''), recording_id := ys_string N row [''record_file'']\<rparr>))"

definition ys_cdr_calls :: "ys_net \<Rightarrow> ys_settings \<Rightarrow> cdr_call list ys" where
  "ys_cdr_calls N C =
    ybind (ys_api N C ''cdr/list'' (ys_page @ [(''sort_by'', JStr ''time''), (''order_by'', JStr ''desc'')]))
      (\<lambda>r. ymap (ys_call N) (ys_rows r))"

definition ys_message :: "ys_net \<Rightarrow> string \<Rightarrow> json pydict \<Rightarrow> voicemail_message ys" where
  "ys_message N box item =
    ybind (ys_datetime N (ys_string N item [''time''])) (\<lambda>t.
    yret \<lparr>mailbox = box, vm_caller = or_str (ys_string N item [''name'', ''number'']) ''A caller'', created_at = t\<rparr>)"

definition ys_mailbox :: "ys_net \<Rightarrow> json pydict \<Rightarrow> voicemail_message list ys" where
  "ys_mailbox N row = ymap (ys_message N (ys_string N row [''number''])) (ys_rows_of (ys_get row ''data''))"

text \<open>The extensions in groups of fifty.\<close>

function groups_of :: "nat \<Rightarrow> 'a list \<Rightarrow> 'a list list" where
  "groups_of n xs = (if xs = [] \<or> n = 0 then [] else take n xs # groups_of n (drop n xs))"
  by auto
termination by (relation "measure (\<lambda>(n, xs). length xs)") auto

declare groups_of.simps [simp del]

definition ys_group_messages :: "ys_net \<Rightarrow> ys_settings \<Rightarrow> string list \<Rightarrow> voicemail_message list ys" where
  "ys_group_messages N C numbers =
    ybind (ys_api N C ''vm/query'' [(''number'', JStr (join '','' numbers))]) (\<lambda>r.
    ybind (ymap (ys_mailbox N) (ys_rows_of (ys_get r ''voicemail_list''))) (\<lambda>ms. yret (concat ms)))"

definition ys_voicemails :: "ys_net \<Rightarrow> ys_settings \<Rightarrow> ami_endpoint list \<Rightarrow> voicemail_message list ys" where
  "ys_voicemails N C eps =
    ybind (ymap (ys_group_messages N C) (groups_of 50 (map ep_extension eps)))
      (\<lambda>ms. yret (take 100 (sort_desc (\<lambda>m. opt_or (created_at m) datetime_min) (concat ms))))"

section \<open>Snapshot, diagnostics, recordings\<close>

definition ys_fresh_snapshot :: "ys_net \<Rightarrow> ys_settings \<Rightarrow> ami_snapshot ys" where
  "ys_fresh_snapshot N C =
    ybind (ys_endpoints N C) (\<lambda>eps. ybind (ys_channels N C) (\<lambda>cs. ybind (ys_queues N C) (\<lambda>qs.
    ybind (ys_cdr_calls N C) (\<lambda>calls. ybind (ys_voicemails N C eps) (\<lambda>mails.
    yret (default_snapshot\<lparr>agent_version := ''0.5.20-beta'', channels := cs, endpoints := eps, queues := qs,
      recent_calls := calls, voicemails := mails\<rparr>))))))"

definition ys_unreachable :: "ys_error \<Rightarrow> ami_snapshot" where
  "ys_unreachable e = default_snapshot\<lparr>reachable := False, agent_version := ''0.5.20-beta'',
     error := (case e of YeastarError m \<Rightarrow> Some m | YOsError m \<Rightarrow> Some m | _ \<Rightarrow> None)\<rparr>"

definition ys_keep :: "ys_net \<Rightarrow> ami_snapshot \<Rightarrow> ami_snapshot ys" where
  "ys_keep N x t = (Inr x, t\<lparr>yl_cached := Some x, yl_refresh_after := yn_clock N (yl_requests t) + 2\<rparr>)"

definition ys_refresh :: "ys_net \<Rightarrow> ys_settings \<Rightarrow> ami_snapshot ys" where
  "ys_refresh N C s =
    (case ys_fresh_snapshot N C s of
       (Inl e, t) \<Rightarrow> if is_ys_os_error e then ys_keep N (ys_unreachable e) t else (Inl e, t)
     | (Inr y, t) \<Rightarrow> ys_keep N y t)"

text \<open>\<open>now\<close> is the monotonic clock when the snapshot is asked for.\<close>

definition ys_snapshot :: "ys_net \<Rightarrow> ys_settings \<Rightarrow> rat \<Rightarrow> ami_snapshot ys" where
  "ys_snapshot N C now s =
    (case yl_cached s of
       Some x \<Rightarrow> if now < yl_refresh_after s then (Inr x, s) else ys_refresh N C s
     | None \<Rightarrow> ys_refresh N C s)"

text \<open>\<open>diagnostics\<close>: the error, if the API could not be asked; otherwise both of its checks passed.\<close>

definition ys_diagnostics :: "ys_net \<Rightarrow> ys_settings \<Rightarrow> string option ys" where
  "ys_diagnostics N C s =
    (case ys_api N C ''system/information'' [] s of
       (Inl (YeastarError m), t) \<Rightarrow> (Inr (Some m), t)
     | (Inl (YOsError m), t) \<Rightarrow> (Inr (Some m), t)
     | (Inl e, t) \<Rightarrow> (Inl e, t)
     | (Inr b, t) \<Rightarrow> (Inr None, t))"

definition ys_download_recording :: "ys_net \<Rightarrow> ys_settings \<Rightarrow> string \<Rightarrow> (string \<times> string \<times> string) ys" where
  "ys_download_recording N C rid =
    ybind (ys_api N C ''recording/download'' [(''file'', JStr rid)]) (\<lambda>r.
    let resource = ys_string N r [''download_resource_url''] in
    if resource = [] then yfail (YeastarError ''Yeastar did not return a recording download URL'')
    else ybind (ys_token N C) (\<lambda>token s.
      let url = yc_base_url C @ resource @ (if CHR ''?'' \<in> set resource then ''&'' else ''?'') @ ''access_token='' @ token;
          t = s\<lparr>yl_requests := yl_requests s + 1\<rparr>
      in (case yn_download N (yl_requests s) url of
            Inl m \<Rightarrow> (Inl (YeastarError (''Yeastar recording download failed: '' @ m)), t)
          | Inr (content, media) \<Rightarrow> (Inr (content, or_str (ys_string N r [''file'']) rid, media), t))))"

section \<open>What a snapshot can be\<close>

lemma groups_of_concat: "0 < n \<Longrightarrow> concat (groups_of n xs) = xs \<and> (\<forall>g \<in> set (groups_of n xs). g \<noteq> [] \<and> length g \<le> n)"
proof (induction n xs rule: groups_of.induct)
  case (1 n xs)
  show ?case
  proof (cases "xs = []")
    case False
    with 1 show ?thesis by (subst (1 2) groups_of.simps) auto
  qed (simp add: groups_of.simps)
qed

lemma ybind_Inr: "ybind m f s = (Inr y, t) \<Longrightarrow> (\<And>x u. m s = (Inr x, u) \<Longrightarrow> f x u = (Inr y, t) \<Longrightarrow> R) \<Longrightarrow> R"
  by (auto simp: ybind_def split: prod.splits sum.splits)

lemma fresh_reachable: "ys_fresh_snapshot N C s = (Inr x, t) \<Longrightarrow> reachable x \<and> error x = None"
  unfolding ys_fresh_snapshot_def by (elim ybind_Inr) (auto simp: yret_def default_snapshot_def)

lemma unreachable_snapshot: "is_ys_os_error e \<Longrightarrow> \<not> reachable (ys_unreachable e) \<and> error (ys_unreachable e) \<noteq> None"
  by (cases e) (simp_all add: ys_unreachable_def default_snapshot_def)

text \<open>A new snapshot is either reachable, without an error, or unreachable, with one; it is kept for two
  seconds, and only what is not an \<open>OSError\<close> escapes, the kept snapshot being the old one then.\<close>

lemma ys_refresh_outcome:
  "case ys_refresh N C s of
     (Inr x, t) \<Rightarrow> (reachable x \<longleftrightarrow> error x = None) \<and> yl_cached t = Some x \<and> yl_refresh_after t = yn_clock N (yl_requests t) + 2
   | (Inl e, t) \<Rightarrow> \<not> is_ys_os_error e \<and> ys_fresh_snapshot N C s = (Inl e, t)"
proof (cases "ys_fresh_snapshot N C s")
  case (Pair r t)
  show ?thesis
  proof (cases r)
    case (Inl e)
    with Pair unreachable_snapshot [of e] show ?thesis by (auto simp: ys_refresh_def ys_keep_def)
  next
    case (Inr x)
    with Pair fresh_reachable [of N C s x t] show ?thesis by (simp add: ys_refresh_def ys_keep_def)
  qed
qed

lemma ys_snapshot_cached:
  assumes "ys_refresh N C s = (Inr x, t)" and "now < yn_clock N (yl_requests t) + 2"
  shows "ys_snapshot N C now t = (Inr x, t)"
  using ys_refresh_outcome [of N C s] assms by (simp add: ys_snapshot_def)

text \<open>A call record whose time is a number beyond the platform's range makes the whole snapshot raise: the
  conversion's \<open>OverflowError\<close> is caught neither by \<open>_parse_datetime\<close> nor by \<open>snapshot\<close>.\<close>

lemma ys_datetime_overflow: "str_isdigit v \<Longrightarrow> py_int v = Some n \<Longrightarrow> yn_from_ts N n = TsOverflow \<Longrightarrow> ys_datetime N v s = (Inl YOverflowError, s)"
  by (simp add: ys_datetime_def parse_timestamp_def yfail_def)

end
