(* ===== verification/Cucm.thy ===== *)
theory Cucm
  imports FreeSwitch
begin

text \<open>
  CUCM: the AXL and RisPort client (\<open>cucm.py\<close>), the Java bridge for live calls (\<open>jtapi.py\<close>) and the call
  records (\<open>history.py\<close>). The replies of the SOAP services are parsed XML; the process of the bridge is
  what the operating system says of it.
\<close>

section \<open>XML\<close>

datatype xml = Elem (xml_tag: string) (xml_content: "string option") (xml_children: "xml list")

definition xml_local :: "string \<Rightarrow> string" where
  "xml_local tag = after_last (CHR ''}'') tag"

fun xml_iter :: "xml \<Rightarrow> xml list" where
  "xml_iter (Elem t c xs) = Elem t c xs # concat (map xml_iter xs)"

definition xml_elements :: "xml \<Rightarrow> string \<Rightarrow> xml list" where
  "xml_elements x name = filter (\<lambda>e. xml_local (xml_tag e) = name) (xml_iter x)"

definition xml_text :: "xml \<Rightarrow> string" where
  "xml_text x = strip (opt_or (xml_content x) [])"

definition xml_child_text :: "xml \<Rightarrow> string \<Rightarrow> string" where
  "xml_child_text x name = (case xml_elements x name of [] \<Rightarrow> [] | e # es \<Rightarrow> xml_text e)"

section \<open>The SOAP services\<close>

record cu_settings =
  cu_host :: string
  cu_username :: string
  cu_password :: string
  cu_jtapi_enabled :: bool
  cu_jtapi_classpath :: string
  cu_jtapi_username :: string
  cu_jtapi_password :: string
  cu_stale_seconds :: rat
  cu_restart_seconds :: rat

text \<open>A status other than success, another failure \<open>_soap\<close> turns into a \<open>CucmError\<close>, an \<open>OSError\<close> or
  another exception that passes, or a document.\<close>

datatype cu_error = CucmError string | CuOsError string | CuOther

datatype cu_reply = CuHttp nat | CuDown string | CuRaise cu_error | CuXml xml

fun is_cu_os_error :: "cu_error \<Rightarrow> bool" where
  "is_cu_os_error CuOther = False"
| "is_cu_os_error e = True"

fun cu_error_text :: "cu_error \<Rightarrow> string" where
  "cu_error_text (CucmError m) = m"
| "cu_error_text (CuOsError m) = m"
| "cu_error_text CuOther = []"

definition soap :: "cu_settings \<Rightarrow> cu_reply \<Rightarrow> cu_error + xml" where
  "soap C reply =
    (if cu_host C = [] then Inl (CucmError ''CUCM host is not configured'')
     else if cu_username C = [] \<or> cu_password C = [] then Inl (CucmError ''CUCM application-user credentials are not configured'')
     else (case reply of
       CuHttp n \<Rightarrow> Inl (CucmError (''CUCM SOAP request failed: HTTP '' @ show_nat n))
     | CuDown m \<Rightarrow> Inl (CucmError (''CUCM SOAP request failed: '' @ m))
     | CuRaise e \<Rightarrow> Inl e
     | CuXml x \<Rightarrow> Inr x))"

definition row_values :: "xml \<Rightarrow> string pydict" where
  "row_values row = foldl (\<lambda>d c. AList.update (xml_local (xml_tag c)) (xml_text c) d) [] (xml_children row)"

definition inventory_of :: "xml \<Rightarrow> string pydict list" where
  "inventory_of x = filter (\<lambda>v. dget v ''extension'' [] \<noteq> [] \<and> dget v ''device_name'' [] \<noteq> []) (map row_values (xml_elements x ''row''))"

record registration_status =
  gs_status :: string
  gs_ip :: string
  gs_model :: string

definition device_ip :: "xml \<Rightarrow> string" where
  "device_ip d = (case xml_elements d ''IPAddress'' of [] \<Rightarrow> [] | n # ns \<Rightarrow> or_str (xml_child_text n ''IP'') (xml_text n))"

definition registrations_of :: "xml \<Rightarrow> registration_status pydict" where
  "registrations_of x = foldl (\<lambda>d dev. let name = xml_child_text dev ''Name'' in
     if name = [] then d
     else AList.update name \<lparr>gs_status = xml_child_text dev ''Status'', gs_ip = device_ip dev, gs_model = xml_child_text dev ''Model''\<rparr> d)
     [] (xml_elements x ''CmDevice'')"

section \<open>One line, several devices\<close>

definition line_label :: "string pydict \<Rightarrow> string" where
  "line_label row = or_str (dget row ''line_description'' []) (dget row ''device_description'' [])"

definition no_registration :: registration_status where
  "no_registration = \<lparr>gs_status = [], gs_ip = [], gs_model = []\<rparr>"

definition line_endpoint :: "registration_status pydict \<Rightarrow> string \<times> string pydict list \<Rightarrow> ami_endpoint" where
  "line_endpoint registration = (\<lambda>(ext, rows).
    let states = map (\<lambda>row. dget registration (dget row ''device_name'' []) no_registration) rows;
        registered = list_ex (\<lambda>s. lower (gs_status s) = ''registered'') states
    in default_endpoint\<lparr>ep_extension := ext, ep_number := ext, ep_label := first_nonempty (map line_label rows),
         device_state := (if registered then ''Reachable'' else ''Unavailable''),
         ip_address := first_nonempty (map gs_ip states)\<rparr>)"

text \<open>\<open>sorted(lines.items())\<close>: the extensions are distinct, so their order alone decides.\<close>

definition merge_inventory_and_registration :: "string pydict list \<Rightarrow> registration_status pydict \<Rightarrow> ami_endpoint list" where
  "merge_inventory_and_registration inventory registration =
    map (line_endpoint registration) (sort_key (\<lambda>x. map code_point (fst x)) (group_by (\<lambda>row. dget row ''extension'' []) inventory))"

section \<open>The Java bridge\<close>

text \<open>The state the bridge keeps: whether a process was started, the calls it last sent and when, the last
  error and the earliest restart.\<close>

record bridge =
  br_started :: bool
  br_calls :: "json pydict list"
  br_updated_at :: rat
  br_last_error :: string
  br_restart_after :: rat

text \<open>What the operating system says: the process runs, the compiled bridge and the classpath exist, and
  how starting it ends (\<open>None\<close>: it starts).\<close>

record bridge_probe =
  bp_alive :: bool
  bp_compiled :: bool
  bp_classpath :: bool
  bp_start_error :: "string option"

definition bridge_configured :: "cu_settings \<Rightarrow> bool" where
  "bridge_configured C = (cu_jtapi_enabled C \<and> cu_jtapi_classpath C \<noteq> [])"

definition ensure_running :: "cu_settings \<Rightarrow> bridge_probe \<Rightarrow> rat \<Rightarrow> bridge \<Rightarrow> bridge" where
  "ensure_running C p now b =
    (if br_started b \<and> bp_alive p then b
     else if now < br_restart_after b then b
     else (let b1 = b\<lparr>br_restart_after := now + cu_restart_seconds C\<rparr> in
       if \<not> bp_compiled p then b1\<lparr>br_last_error := ''Compiled JTAPI bridge is missing''\<rparr>
       else if \<not> bp_classpath p then b1\<lparr>br_last_error := ''Configured Cisco JTAPI classpath is not readable''\<rparr>
       else (case bp_start_error p of
           Some e \<Rightarrow> b1\<lparr>br_last_error := ''Could not start Java JTAPI bridge: '' @ e\<rparr>
         | None \<Rightarrow> b1\<lparr>br_started := True\<rparr>)))"

text \<open>A line of the bridge's output, and whether the reading thread goes on: a document that is not an
  object has no \<open>get\<close>, an \<open>AttributeError\<close> the loop does not catch.\<close>

definition bridge_line :: "(string \<Rightarrow> json option) \<Rightarrow> rat \<Rightarrow> string \<Rightarrow> bridge \<Rightarrow> bool \<times> bridge" where
  "bridge_line loads now line b =
    (case loads line of
       None \<Rightarrow> (True, b)
     | Some (JObj doc) \<Rightarrow>
         (case opt_or (map_of doc ''calls'') JNull of
            JList xs \<Rightarrow> (True, b\<lparr>br_calls := List.map_filter (\<lambda>x. case x of JObj c \<Rightarrow> Some c | _ \<Rightarrow> None) xs,
              br_updated_at := now, br_last_error := []\<rparr>)
          | _ \<Rightarrow> (True, b))
     | Some v \<Rightarrow> (False, b))"

definition bridge_error_line :: "string \<Rightarrow> bridge \<Rightarrow> bridge" where
  "bridge_error_line line b = (let m = strip line in if m = [] then b else b\<lparr>br_last_error := take 500 m\<rparr>)"

definition channel_from_call :: "(json \<Rightarrow> string) \<Rightarrow> json pydict \<Rightarrow> ami_channel" where
  "channel_from_call repr c =
    (let str = (\<lambda>k dflt. str_json repr (dget c k (JStr dflt)));
         call_id = strip (str ''id'' []);
         who = strip (str ''caller'' []);
         dest = strip (str ''destination'' []);
         ext = or_str (strip (str ''extension'' [])) who
     in \<lparr>channel = ''JTAPI/'' @ call_id, extension = ext, caller = who, connected = dest, chan_state = str ''state'' ''Up'',
         endpoint = ext, caller_number = who, connected_number = dest, duration = str ''duration'' [],
         unique_id = call_id, linked_id = call_id\<rparr>)"

text \<open>\<open>channels\<close>; \<open>now\<close> is read before the process is looked at and \<open>later\<close> after.\<close>

definition bridge_channels :: "(json \<Rightarrow> string) \<Rightarrow> cu_settings \<Rightarrow> bridge_probe \<Rightarrow> rat \<Rightarrow> rat \<Rightarrow> bridge \<Rightarrow> ami_channel list \<times> bridge" where
  "bridge_channels repr C p now later b =
    (if \<not> bridge_configured C then ([], b)
     else (let b1 = ensure_running C p now b in
       if cu_stale_seconds C < later - br_updated_at b1 then ([], b1)
       else (map (channel_from_call repr) (filter (\<lambda>c. truthy (opt_or (map_of c ''id'') JNull)) (br_calls b1)), b1)))"

text \<open>\<open>close\<close>, when the Agent ends: the process is asked to end, or killed when it does not.\<close>

definition bridge_close :: "bridge \<Rightarrow> bridge" where
  "bridge_close b = b\<lparr>br_started := False\<rparr>"

text \<open>\<open>diagnostics\<close> of a configured bridge. The clock starts after zero, so a time of zero says that no calls
  have come yet; the age is rounded to a tenth of a second.\<close>

record bridge_report =
  bd_credentials :: bool
  bd_running :: bool
  bd_reachable :: bool
  bd_age :: "rat option"
  bd_calls :: nat
  bd_error :: "string option"

definition round_tenth :: "rat \<Rightarrow> rat" where
  "round_tenth x = fl (of_int (round_half_even (x * 10)) / 10)"

definition bridge_diagnostics :: "cu_settings \<Rightarrow> bridge_probe \<Rightarrow> rat \<Rightarrow> bool \<Rightarrow> rat \<Rightarrow> bridge \<Rightarrow> bridge_report option \<times> bridge" where
  "bridge_diagnostics C p now alive later b =
    (if \<not> bridge_configured C then (None, b)
     else (let b1 = ensure_running C p now b;
               age = (if br_updated_at b1 = 0 then None else Some (later - br_updated_at b1));
               running = (br_started b1 \<and> alive);
               ok = (running \<and> (case age of None \<Rightarrow> False | Some a \<Rightarrow> a \<le> cu_stale_seconds C))
           in (Some \<lparr>bd_credentials = ((cu_jtapi_username C \<noteq> [] \<or> cu_username C \<noteq> []) \<and> (cu_jtapi_password C \<noteq> [] \<or> cu_password C \<noteq> [])),
                 bd_running = running, bd_reachable = ok, bd_age = map_option round_tenth age,
                 bd_calls = (if ok then length (br_calls b1) else 0),
                 bd_error = (if br_last_error b1 = [] then None else Some (br_last_error b1))\<rparr>, b1)))"

section \<open>The snapshot\<close>

record cucm_client =
  cc_cached :: "ami_snapshot option"
  cc_refresh_after :: rat
  cc_bridge :: bridge

definition cucm_fresh :: "cu_settings \<Rightarrow> cu_reply \<Rightarrow> cu_reply \<Rightarrow> cu_error + ami_snapshot" where
  "cucm_fresh C axl ris =
    (case soap C axl of
       Inl e \<Rightarrow> Inl e
     | Inr x \<Rightarrow> (case soap C ris of
         Inl e \<Rightarrow> Inl e
       | Inr y \<Rightarrow> Inr (default_snapshot\<lparr>agent_version := ''0.5.20-beta'',
           endpoints := merge_inventory_and_registration (inventory_of x) (registrations_of y)\<rparr>)))"

definition cucm_result :: "cu_settings \<Rightarrow> cu_reply \<Rightarrow> cu_reply \<Rightarrow> cu_error + ami_snapshot" where
  "cucm_result C axl ris =
    (case cucm_fresh C axl ris of
       Inr x \<Rightarrow> Inr x
     | Inl e \<Rightarrow> (if is_cu_os_error e then Inr (default_snapshot\<lparr>reachable := False, agent_version := ''0.5.20-beta'',
         error := Some (cu_error_text e)\<rparr>) else Inl e))"

text \<open>\<open>t0\<close>, \<open>t1\<close>: the clock when asked and when the replies are in; the bridge is read after both.\<close>

definition cucm_snapshot :: "(json \<Rightarrow> string) \<Rightarrow> cu_settings \<Rightarrow> cu_reply \<Rightarrow> cu_reply \<Rightarrow> bridge_probe \<Rightarrow> rat \<Rightarrow> rat \<Rightarrow> rat \<Rightarrow>
    cucm_client \<Rightarrow> (cu_error + ami_snapshot) \<times> cucm_client" where
  "cucm_snapshot repr C axl ris p t0 t1 t2 s =
    (let live = (\<lambda>x u. case bridge_channels repr C p t1 t2 (cc_bridge u) of (cs, b) \<Rightarrow>
           (Inr (x\<lparr>channels := cs\<rparr>), u\<lparr>cc_bridge := b\<rparr>));
         refresh = (case cucm_result C axl ris of
           Inl e \<Rightarrow> (Inl e, s)
         | Inr x \<Rightarrow> live x (s\<lparr>cc_cached := Some x, cc_refresh_after := t1 + 10\<rparr>))
     in case cc_cached s of
          None \<Rightarrow> refresh
        | Some x \<Rightarrow> if t0 < cc_refresh_after s then live x s else refresh)"

text \<open>\<open>diagnostics\<close>: the error of each service, if it has one, and the report of the bridge. What is not an
  \<open>OSError\<close> escapes.\<close>

definition cucm_check :: "cu_settings \<Rightarrow> cu_reply \<Rightarrow> cu_error + string option" where
  "cucm_check C reply = (case soap C reply of
     Inr x \<Rightarrow> Inr None
   | Inl e \<Rightarrow> if is_cu_os_error e then Inr (Some (cu_error_text e)) else Inl e)"

definition cucm_diagnostics :: "cu_settings \<Rightarrow> cu_reply \<Rightarrow> cu_reply \<Rightarrow> bridge_probe \<Rightarrow> rat \<Rightarrow> bool \<Rightarrow> rat \<Rightarrow> cucm_client \<Rightarrow>
    (cu_error + string option \<times> string option \<times> bridge_report option) \<times> cucm_client" where
  "cucm_diagnostics C axl ris p now alive later s =
    (case cucm_check C axl of
       Inl e \<Rightarrow> (Inl e, s)
     | Inr axl_error \<Rightarrow> (case cucm_check C ris of
         Inl e \<Rightarrow> (Inl e, s)
       | Inr ris_error \<Rightarrow> (case bridge_diagnostics C p now alive later (cc_bridge s) of
           (report, b) \<Rightarrow> (Inr (axl_error, ris_error, report), s\<lparr>cc_bridge := b\<rparr>))))"

section \<open>Lines\<close>

lemma merged_line:
  "e \<in> set (merge_inventory_and_registration inventory registration) \<longleftrightarrow>
   (\<exists>x. x \<in> (\<lambda>row. dget row ''extension'' []) ` set inventory \<and>
     e = line_endpoint registration (x, filter (\<lambda>row. dget row ''extension'' [] = x) inventory))"
  by (auto simp: merge_inventory_and_registration_def group_by_eq_map)

lemma line_endpoint_simps [simp]:
  "ep_extension (line_endpoint registration (x, rs)) = x"
  "device_state (line_endpoint registration (x, rs)) =
    (if \<exists>row \<in> set rs. lower (gs_status (dget registration (dget row ''device_name'' []) no_registration)) = ''registered''
     then ''Reachable'' else ''Unavailable'')"
  by (simp_all add: line_endpoint_def Let_def list_ex_iff)

lemma ep_extension_line_endpoint: "ep_extension (line_endpoint registration x) = fst x"
  by (cases x) simp

lemma merged_extensions:
  "map ep_extension (merge_inventory_and_registration inventory registration) =
   map fst (sort_key (\<lambda>x. map code_point (fst x)) (group_by (\<lambda>row. dget row ''extension'' []) inventory))"
  by (simp add: merge_inventory_and_registration_def comp_def ep_extension_line_endpoint)

lemma distinct_map_fst_sort_key: "distinct (map fst xs) \<Longrightarrow> distinct (map fst (sort_key f xs))"
  by (metis distinct_map distinct_sort inj_on_cong set_sort)

lemma sorted_merged: "sorted (map (map code_point) (map ep_extension (merge_inventory_and_registration inventory registration)))"
  unfolding merged_extensions map_map comp_def by (rule sorted_sort_key)

lemma distinct_merged: "distinct (map ep_extension (merge_inventory_and_registration inventory registration))"
  unfolding merged_extensions by (rule distinct_map_fst_sort_key) simp

text \<open>
  One endpoint for each line of the CUCM directory. The endpoints are sorted by extension, without
  repetition, and are exactly the extensions of the inventory; a line that several devices share is Reachable
  exactly when one of its devices is registered.
\<close>

theorem cucm_line_reachable_iff_device_registered:
  "sorted (map (map code_point) (map ep_extension (merge_inventory_and_registration inventory registration))) \<and>
   distinct (map ep_extension (merge_inventory_and_registration inventory registration)) \<and>
   ep_extension ` set (merge_inventory_and_registration inventory registration) = (\<lambda>row. dget row ''extension'' []) ` set inventory \<and>
   (\<forall>e \<in> set (merge_inventory_and_registration inventory registration). device_state e = ''Reachable'' \<longleftrightarrow>
     (\<exists>row \<in> set inventory. dget row ''extension'' [] = ep_extension e \<and>
       lower (gs_status (dget registration (dget row ''device_name'' []) no_registration)) = ''registered''))"
proof -
  have "ep_extension ` set (merge_inventory_and_registration inventory registration) = set (map fst (group_by (\<lambda>row. dget row ''extension'' []) inventory))"
    unfolding set_map [symmetric] merged_extensions by (simp del: keys_group_by)
  then have ext: "ep_extension ` set (merge_inventory_and_registration inventory registration) = (\<lambda>row. dget row ''extension'' []) ` set inventory"
    unfolding keys_group_by set_first_keys .
  have dev: "device_state e = ''Reachable'' \<longleftrightarrow> (\<exists>row \<in> set inventory. dget row ''extension'' [] = ep_extension e \<and>
       lower (gs_status (dget registration (dget row ''device_name'' []) no_registration)) = ''registered'')"
    if "e \<in> set (merge_inventory_and_registration inventory registration)" for e
    using that by (auto simp: merged_line split: if_splits)
  show ?thesis by (intro conjI ballI sorted_merged distinct_merged ext dev)
qed

text \<open>A line of two telephones, of which the second is registered, and a line of none.\<close>

definition demo_inventory :: "string pydict list" where
  "demo_inventory = [[(''device_name'', ''SEP1''), (''extension'', ''1002'')], [(''device_name'', ''SEP1''), (''extension'', ''1001'')],
     [(''device_name'', ''SEP2''), (''extension'', ''1001'')]]"

definition demo_registrations :: "registration_status pydict" where
  "demo_registrations = [(''SEP2'', \<lparr>gs_status = ''Registered'', gs_ip = ''10.0.0.9'', gs_model = []\<rparr>)]"

theorem cucm_line_reachable_iff_device_registered_witness:
  "map (\<lambda>e. (ep_extension e, device_state e)) (merge_inventory_and_registration demo_inventory demo_registrations) =
     [(''1001'', ''Reachable''), (''1002'', ''Unavailable'')] \<and>
   (\<forall>e \<in> set (merge_inventory_and_registration demo_inventory demo_registrations).
      ep_extension e = ''1001'' \<longrightarrow> device_state e = ''Reachable'')"
proof -
  have "map (\<lambda>e. (ep_extension e, device_state e)) (merge_inventory_and_registration demo_inventory demo_registrations) =
     [(''1001'', ''Reachable''), (''1002'', ''Unavailable'')]" by code_simp
  moreover have "device_state e = ''Reachable''"
    if "e \<in> set (merge_inventory_and_registration demo_inventory demo_registrations)" "ep_extension e = ''1001''" for e
  proof -
    have "\<exists>row \<in> set demo_inventory. dget row ''extension'' [] = ''1001'' \<and>
      lower (gs_status (dget demo_registrations (dget row ''device_name'' []) no_registration)) = ''registered''" by code_simp
    with bspec [OF conjunct2 [OF conjunct2 [OF conjunct2 [OF cucm_line_reachable_iff_device_registered]]] that(1)] that(2) show ?thesis by simp
  qed
  ultimately show ?thesis by blast
qed

end
