(* ===== verification/CucmHistory.thy ===== *)
theory CucmHistory
  imports History
begin

text \<open>
  The CUCM readers of \<open>history.py\<close>: call records and quality records from CSV files. A row is what
  \<open>csv.DictReader\<close> makes of a line: a value for each column of the header, \<open>None\<close> for the columns a short
  line lacks. \<open>to_float\<close> is \<open>float\<close> on finite numbers (\<open>None\<close> for a \<open>ValueError\<close>). A result \<open>None\<close> is an
  exception that escapes the reader.
\<close>

section \<open>Rows\<close>

type_synonym csv_row = "string option pydict"

text \<open>\<open>row.get(k, "")\<close>, and the same stripped: \<open>None\<close> has no \<open>strip\<close>.\<close>

definition cell :: "csv_row \<Rightarrow> string \<Rightarrow> string option" where
  "cell row k = dget row k (Some [])"

definition stripped :: "csv_row \<Rightarrow> string \<Rightarrow> string option" where
  "stripped row k = map_option strip (cell row k)"

text \<open>\<open>_cucm_csv_rows\<close>: the files with their modification times (\<open>None\<close>: no directory, or an \<open>OSError\<close> while
  listing) and the rows read from each before its end or an error.\<close>

definition cucm_csv_rows :: "nat \<Rightarrow> (rat \<times> csv_row list) list option \<Rightarrow> csv_row list" where
  "cucm_csv_rows file_limit files = (case files of None \<Rightarrow> []
     | Some fs \<Rightarrow> concat (map snd (take file_limit (sort_desc fst fs))))"

definition cucm_call_key :: "csv_row \<Rightarrow> string option" where
  "cucm_call_key row =
    (case stripped row ''globalCallID_callManagerId'' of None \<Rightarrow> None
     | Some manager \<Rightarrow> map_option (\<lambda>call. if manager \<noteq> [] \<or> call \<noteq> [] then manager @ '':'' @ call else [])
         (stripped row ''globalCallID_callId''))"

definition parse_float :: "(string \<Rightarrow> rat option) \<Rightarrow> string option \<Rightarrow> rat" where
  "parse_float to_float v = opt_or (to_float (or_str (opt_or v []) ''0'')) 0"

section \<open>Quality\<close>

record quality =
  ql_loss :: rat
  ql_jitter :: rat
  ql_latency :: rat

definition no_quality :: quality where
  "no_quality = \<lparr>ql_loss = 0, ql_jitter = 0, ql_latency = 0\<rparr>"

definition row_quality :: "(string \<Rightarrow> rat option) \<Rightarrow> csv_row \<Rightarrow> quality" where
  "row_quality to_float row =
    (let received = parse_float to_float (cell row ''packetsReceived'');
         lost = parse_float to_float (cell row ''numberPacketsLost'')
     in \<lparr>ql_loss = (if 0 < fl (received + lost) then fl (fl (lost / fl (received + lost)) * 100) else 0),
         ql_jitter = parse_float to_float (cell row ''jitter''),
         ql_latency = parse_float to_float (cell row ''latency'')\<rparr>)"

text \<open>The worst of two records, and of the records of one call.\<close>

definition worse :: "quality \<Rightarrow> quality \<Rightarrow> quality" where
  "worse a b = \<lparr>ql_loss = max (ql_loss a) (ql_loss b), ql_jitter = max (ql_jitter a) (ql_jitter b),
     ql_latency = max (ql_latency a) (ql_latency b)\<rparr>"

definition quality_step :: "(string \<Rightarrow> rat option) \<Rightarrow> quality pydict \<Rightarrow> string \<times> csv_row \<Rightarrow> quality pydict" where
  "quality_step to_float d x =
    AList.update (fst x) (worse (opt_or (map_of d (fst x)) no_quality) (row_quality to_float (snd x))) d"

definition keyed :: "csv_row list \<Rightarrow> (string \<times> csv_row) list option" where
  "keyed rows = those (map (\<lambda>row. map_option (\<lambda>k. (k, row)) (cucm_call_key row)) rows)"

definition cucm_quality_by_call :: "(string \<Rightarrow> rat option) \<Rightarrow> csv_row list \<Rightarrow> quality pydict option" where
  "cucm_quality_by_call to_float rows =
    map_option (\<lambda>xs. foldl (quality_step to_float) [] (filter (\<lambda>x. fst x \<noteq> []) xs)) (keyed rows)"

section \<open>Calls\<close>

text \<open>\<open>or_next x y\<close> is \<open>x or y\<close> where reading either may raise; \<open>y\<close> is read when \<open>x\<close> is empty.\<close>

definition or_next :: "string option \<Rightarrow> string option \<Rightarrow> string option" where
  "or_next x y = (case x of None \<Rightarrow> None | Some [] \<Rightarrow> y | Some s \<Rightarrow> Some s)"

text \<open>One row: \<open>None\<close> raises, \<open>Some None\<close> is skipped. \<open>int(None)\<close> is a \<open>TypeError\<close>: \<open>_parse_timestamp\<close> catches
  it, \<open>_parse_int\<close> does not.\<close>

definition origination :: "(int \<Rightarrow> ts_result) \<Rightarrow> csv_row \<Rightarrow> datetime option option" where
  "origination from_ts row = (case cell row ''dateTimeOrigination'' of None \<Rightarrow> Some None | Some s \<Rightarrow> parse_timestamp from_ts s)"

definition cucm_call :: "(int \<Rightarrow> ts_result) \<Rightarrow> quality pydict \<Rightarrow> csv_row \<Rightarrow> cdr_call option option" where
  "cucm_call from_ts quality row =
    Option.bind (origination from_ts row) (\<lambda>start.
    Option.bind (map_option parse_int (cell row ''duration'')) (\<lambda>secs.
    Option.bind (cucm_call_key row) (\<lambda>key.
    Option.bind (or_next (stripped row ''finalCalledPartyNumber'') (stripped row ''originalCalledPartyNumber'')) (\<lambda>dst.
    Option.bind (stripped row ''callingPartyNumber'') (\<lambda>src.
    if src = [] \<and> dst = [] then Some None
    else Option.bind (stripped row ''origDeviceName'') (\<lambda>device.
      Option.bind (stripped row ''destDeviceName'') (\<lambda>peer.
      Some (Some (default_call\<lparr>source := src, destination := dst,
        disposition := (if 0 < secs then ''ANSWERED'' else ''NO ANSWER''), started_at := start, duration_seconds := secs,
        cdr_context := device, cdr_channel := device, destination_channel := peer,
        packet_loss_percent := map_option ql_loss (map_of quality key),
        jitter_ms := map_option ql_jitter (map_of quality key),
        latency_ms := map_option ql_latency (map_of quality key)\<rparr>)))))))))"

definition read_recent_cucm_calls :: "(int \<Rightarrow> ts_result) \<Rightarrow> (string \<Rightarrow> rat option) \<Rightarrow> nat \<Rightarrow>
    (rat \<times> csv_row list) list option \<Rightarrow> (rat \<times> csv_row list) list option \<Rightarrow> cdr_call list option" where
  "read_recent_cucm_calls from_ts to_float limit cdr_files cmr_files =
    Option.bind (cucm_quality_by_call to_float (cucm_csv_rows 40 cmr_files)) (\<lambda>quality.
    map_option (\<lambda>cs. take limit (sort_desc call_sort_key (List.map_filter id cs)))
      (those (map (cucm_call from_ts quality) (cucm_csv_rows 40 cdr_files))))"

section \<open>The quality of a call\<close>

text \<open>The records of one call, and the worst of them.\<close>

definition records_of :: "string \<Rightarrow> csv_row list \<Rightarrow> csv_row list" where
  "records_of key rows = (if key = [] then [] else filter (\<lambda>row. cucm_call_key row = Some key) rows)"

definition worst :: "(string \<Rightarrow> rat option) \<Rightarrow> csv_row list \<Rightarrow> quality" where
  "worst to_float rows = foldl (\<lambda>q row. worse q (row_quality to_float row)) no_quality rows"

lemma keyed_Some: "keyed rows = Some xs \<Longrightarrow> map (\<lambda>row. (cucm_call_key row, row)) rows = map (\<lambda>x. (Some (fst x), snd x)) xs"
proof (induction rows arbitrary: xs)
  case (Cons row rows)
  then show ?case by (auto simp: keyed_def split: option.splits)
qed (simp add: keyed_def)

lemma keyed_filter: "keyed rows = Some xs \<Longrightarrow> map snd (filter (\<lambda>x. fst x = k) xs) = filter (\<lambda>row. cucm_call_key row = Some k) rows"
proof (induction rows arbitrary: xs)
  case (Cons row rows)
  then show ?case by (auto simp: keyed_def split: option.splits)
qed (simp add: keyed_def)

lemma keyed_rows: "keyed rows = Some xs \<Longrightarrow> k \<noteq> [] \<Longrightarrow>
    map snd (filter (\<lambda>x. fst x = k) (filter (\<lambda>x. fst x \<noteq> []) xs)) = records_of k rows"
  using keyed_filter [of rows xs k] by (simp add: records_of_def conj_commute cong: conj_cong)

lemma fold_some_worse:
  "foldl (\<lambda>acc x. Some (worse (opt_or acc no_quality) (row_quality to_float (snd x)))) (Some q) xs =
   Some (foldl (\<lambda>q row. worse q (row_quality to_float row)) q (map snd xs))"
  by (induction xs arbitrary: q) (simp_all add: opt_or_def)

lemma fold_worse:
  "foldl (\<lambda>acc x. Some (worse (opt_or acc no_quality) (row_quality to_float (snd x)))) None xs =
   (if xs = [] then None else Some (worst to_float (map snd xs)))"
proof (cases xs)
  case (Cons x ys)
  then show ?thesis using fold_some_worse [of to_float "worse no_quality (row_quality to_float (snd x))" ys]
    by (simp add: worst_def opt_or_def [of None])
qed simp

lemma quality_lookup:
  assumes "cucm_quality_by_call to_float rows = Some d"
  shows "map_of d k = (if records_of k rows = [] then None else Some (worst to_float (records_of k rows)))"
proof -
  from assms obtain xs where xs: "keyed rows = Some xs" and d: "d = foldl (quality_step to_float) [] (filter (\<lambda>x. fst x \<noteq> []) xs)"
    by (auto simp: cucm_quality_by_call_def)
  let ?ys = "filter (\<lambda>x. fst x = k) (filter (\<lambda>x. fst x \<noteq> []) xs)"
  have "map_of d k = (if ?ys = [] then None else Some (worst to_float (map snd ?ys)))"
    unfolding d quality_step_def [abs_def]
    using ad.fold_lookup [of fst "\<lambda>acc x. worse (opt_or acc no_quality) (row_quality to_float (snd x))" "[]" "filter (\<lambda>x. fst x \<noteq> []) xs" k]
    by (simp only: fold_worse map_of.simps)
  moreover have "map snd ?ys = records_of k rows"
    using keyed_rows [OF xs] by (cases "k = []") (simp_all add: records_of_def)
  moreover have "?ys = [] \<longleftrightarrow> map snd ?ys = []" by (rule map_is_Nil_conv [symmetric])
  ultimately show ?thesis by simp
qed

section \<open>What is read\<close>

text \<open>The columns a call record must have, and whether its origination time is in the platform's range.\<close>

definition needed_columns :: "csv_row \<Rightarrow> string list" where
  "needed_columns row =
    [''duration'', ''globalCallID_callManagerId'', ''globalCallID_callId'', ''finalCalledPartyNumber'', ''callingPartyNumber''] @
    (if stripped row ''finalCalledPartyNumber'' = Some [] then [''originalCalledPartyNumber''] else []) @
    (if stripped row ''callingPartyNumber'' = Some [] \<and> stripped row ''finalCalledPartyNumber'' = Some [] \<and>
        stripped row ''originalCalledPartyNumber'' = Some [] then [] else [''origDeviceName'', ''destDeviceName''])"

definition readable_call :: "(int \<Rightarrow> ts_result) \<Rightarrow> csv_row \<Rightarrow> bool" where
  "readable_call from_ts row \<longleftrightarrow> (\<forall>k \<in> set (needed_columns row). cell row k \<noteq> None) \<and> origination from_ts row \<noteq> None"

definition readable_record :: "csv_row \<Rightarrow> bool" where
  "readable_record row \<longleftrightarrow> (\<forall>k \<in> {''globalCallID_callManagerId'', ''globalCallID_callId''}. cell row k \<noteq> None)"

lemma stripped_cell: "stripped row k = Some v \<Longrightarrow> \<exists>y. cell row k = Some y"
  by (auto simp: stripped_def)

lemma stripped_None [simp]: "stripped row k = None \<longleftrightarrow> cell row k = None"
  by (simp add: stripped_def)

lemma cucm_call_key_None: "cucm_call_key row = None \<longleftrightarrow> \<not> readable_record row"
  by (auto simp: cucm_call_key_def readable_record_def stripped_def split: option.splits)

lemma those_None: "those xs = None \<longleftrightarrow> None \<in> set xs"
  by (induction xs) (auto split: option.splits)

lemma none_image: "None \<in> f ` A \<longleftrightarrow> (\<exists>x \<in> A. f x = None)"
  by (metis image_iff)

lemma those_Some: "those xs = Some ys \<Longrightarrow> xs = map Some ys"
  by (induction xs arbitrary: ys) (auto split: option.splits)

lemma quality_None: "cucm_quality_by_call to_float rows = None \<longleftrightarrow> (\<exists>row \<in> set rows. \<not> readable_record row)"
  by (auto simp: cucm_quality_by_call_def keyed_def those_None cucm_call_key_None image_iff)

lemma or_next_Some: "or_next x y = Some [] \<longleftrightarrow> x = Some [] \<and> y = Some []"
  by (auto simp: or_next_def split: option.splits list.splits)

lemma or_next_None: "or_next x y = None \<longleftrightarrow> x = None \<or> x = Some [] \<and> y = None"
  by (auto simp: or_next_def split: option.splits list.splits)

lemma cucm_call_None: "cucm_call from_ts quality row = None \<longleftrightarrow> \<not> readable_call from_ts row"
proof (cases "origination from_ts row = None \<or> cell row ''duration'' = None \<or> \<not> readable_record row \<or>
    cell row ''finalCalledPartyNumber'' = None \<or> cell row ''callingPartyNumber'' = None")
  case True
  then have "\<not> readable_call from_ts row"
    by (auto simp: readable_call_def readable_record_def needed_columns_def)
  moreover from True have "cucm_call from_ts quality row = None"
    by (auto simp: cucm_call_def bind_eq_None_conv cucm_call_key_None or_next_None)
  ultimately show ?thesis by simp
next
  case False
  then obtain start secs key dst src where v: "origination from_ts row = Some start" "cell row ''duration'' = Some secs"
    "cucm_call_key row = Some key" "stripped row ''finalCalledPartyNumber'' = Some dst" "stripped row ''callingPartyNumber'' = Some src"
    using cucm_call_key_None [of row] by (auto simp: stripped_def)
  from False have c: "cell row ''finalCalledPartyNumber'' \<noteq> None" "cell row ''callingPartyNumber'' \<noteq> None"
    "\<forall>k \<in> {''globalCallID_callManagerId'', ''globalCallID_callId''}. cell row k \<noteq> None"
    by (auto simp: readable_record_def)
  show ?thesis
  proof (cases "dst = []")
    case True
    show ?thesis
      by (cases "stripped row ''originalCalledPartyNumber''"; cases "src = []")
        (use v c True in \<open>auto dest: stripped_cell simp: cucm_call_def readable_call_def needed_columns_def or_next_def bind_eq_None_conv split: list.split\<close>)
  next
    case nonempty: False
    then show ?thesis using v c
      by (auto simp: cucm_call_def readable_call_def needed_columns_def or_next_def bind_eq_None_conv split: list.split)
  qed
qed

text \<open>
  C40. One cut line makes the CUCM history unreadable. Reading the call records raises exactly when some record
  lacks a value the reader needs, or has an origination time beyond the platform's range, or some quality
  record lacks its call identifier: a single short line among all the files, such as the last line of a file
  still being written, hides every call.
\<close>

theorem cucm_history_raises_iff_row_unreadable:
  "read_recent_cucm_calls from_ts to_float limit cdr_files cmr_files = None \<longleftrightarrow>
   (\<exists>row \<in> set (cucm_csv_rows 40 cmr_files). \<not> readable_record row) \<or>
   (\<exists>row \<in> set (cucm_csv_rows 40 cdr_files). \<not> readable_call from_ts row)"
  unfolding read_recent_cucm_calls_def bind_eq_None_conv quality_None Option.option.map_disc_iff those_None set_map none_image cucm_call_None
  by (rule refl)

lemma cucm_call_quality:
  "cucm_call from_ts quality row = Some (Some c) \<Longrightarrow> \<exists>key. cucm_call_key row = Some key \<and>
     packet_loss_percent c = map_option ql_loss (map_of quality key) \<and> jitter_ms c = map_option ql_jitter (map_of quality key) \<and>
     latency_ms c = map_option ql_latency (map_of quality key)"
  unfolding cucm_call_def bind_eq_Some_conv by (elim exE conjE) (clarsimp simp: bind_eq_Some_conv split: if_splits)

text \<open>
  A CUCM call shows the worst quality on record for it. The calls that are read are the newest within the
  limit, newest first, and each comes from a record of the call files; the loss, jitter and latency of a call
  are the worst of the quality records with its call identifier, and absent when there are none.
\<close>

theorem cucm_call_has_worst_quality:
  assumes "read_recent_cucm_calls from_ts to_float limit cdr_files cmr_files = Some calls"
  shows "length calls \<le> limit \<and> sorted_wrt (\<lambda>a b. call_sort_key b \<le> call_sort_key a) calls \<and>
    (\<forall>c \<in> set calls. \<exists>row \<in> set (cucm_csv_rows 40 cdr_files). \<exists>key. cucm_call_key row = Some key \<and>
      (let records = records_of key (cucm_csv_rows 40 cmr_files); q = worst to_float records in
       packet_loss_percent c = (if records = [] then None else Some (ql_loss q)) \<and>
       jitter_ms c = (if records = [] then None else Some (ql_jitter q)) \<and>
       latency_ms c = (if records = [] then None else Some (ql_latency q))))"
proof -
  from assms obtain quality cs where q: "cucm_quality_by_call to_float (cucm_csv_rows 40 cmr_files) = Some quality"
    and cs: "those (map (cucm_call from_ts quality) (cucm_csv_rows 40 cdr_files)) = Some cs"
    and calls: "calls = take limit (sort_desc call_sort_key (List.map_filter id cs))"
    by (auto simp: read_recent_cucm_calls_def bind_eq_Some_conv)
  have row: "\<exists>row \<in> set (cucm_csv_rows 40 cdr_files). cucm_call from_ts quality row = Some (Some c)" if "c \<in> set calls" for c
  proof -
    from that calls have "Some c \<in> set cs" by (auto dest!: in_set_takeD simp: in_set_map_filter)
    then have "Some (Some c) \<in> set (map Some cs)" by simp
    then show ?thesis unfolding those_Some [OF cs, symmetric] by auto
  qed
  have "\<exists>row \<in> set (cucm_csv_rows 40 cdr_files). \<exists>key. cucm_call_key row = Some key \<and>
      (let records = records_of key (cucm_csv_rows 40 cmr_files); q = worst to_float records in
       packet_loss_percent c = (if records = [] then None else Some (ql_loss q)) \<and>
       jitter_ms c = (if records = [] then None else Some (ql_jitter q)) \<and>
       latency_ms c = (if records = [] then None else Some (ql_latency q)))" if "c \<in> set calls" for c
  proof -
    from row [OF that] obtain row where row: "row \<in> set (cucm_csv_rows 40 cdr_files)" "cucm_call from_ts quality row = Some (Some c)" by blast
    from cucm_call_quality [OF row(2)] obtain key where "cucm_call_key row = Some key"
      "packet_loss_percent c = map_option ql_loss (map_of quality key)" "jitter_ms c = map_option ql_jitter (map_of quality key)"
      "latency_ms c = map_option ql_latency (map_of quality key)" by blast
    with row(1) show ?thesis by (intro bexI [of _ row] exI [of _ key]) (simp_all add: quality_lookup [OF q] Let_def)
  qed
  moreover have "length calls \<le> limit" "sorted_wrt (\<lambda>a b. call_sort_key b \<le> call_sort_key a) calls"
    by (simp_all add: calls sorted_wrt_take [OF sorted_sort_desc])
  ultimately show ?thesis by (intro conjI ballI)
qed

section \<open>Concrete files\<close>

definition demo_cdr :: "string \<Rightarrow> string \<Rightarrow> csv_row" where
  "demo_cdr call secs = [(''globalCallID_callManagerId'', Some ''1''), (''globalCallID_callId'', Some call),
     (''callingPartyNumber'', Some ''1001''), (''finalCalledPartyNumber'', Some ''1002''), (''duration'', Some secs)]"

definition demo_cmr :: "string \<Rightarrow> string \<Rightarrow> csv_row" where
  "demo_cmr call jitter = [(''globalCallID_callManagerId'', Some ''1''), (''globalCallID_callId'', Some call), (''jitter'', Some jitter)]"

definition demo_float :: "string \<Rightarrow> rat option" where
  "demo_float s = map_option of_int (py_int s)"

text \<open>A line cut after the caller: the columns that follow have no value.\<close>

definition cut_cdr :: csv_row where
  "cut_cdr = [(''globalCallID_callManagerId'', Some ''1''), (''globalCallID_callId'', Some ''8''),
     (''callingPartyNumber'', Some ''1001''), (''finalCalledPartyNumber'', None), (''duration'', None)]"

theorem cucm_history_raises_iff_row_unreadable_witness:
  "read_recent_cucm_calls TsOk demo_float 1000 (Some [(1, [demo_cdr ''7'' ''12'', cut_cdr])]) None = None \<and>
   read_recent_cucm_calls TsOk demo_float 1000 (Some [(1, [demo_cdr ''7'' ''12''])]) None \<noteq> None"
proof -
  have "cucm_csv_rows 40 None = []" "cucm_csv_rows 40 (Some [(1, xs)]) = xs" for xs
    by (simp_all add: cucm_csv_rows_def sort_desc_def)
  moreover have "\<not> readable_call TsOk cut_cdr" "readable_call TsOk (demo_cdr ''7'' ''12'')" by code_simp+
  ultimately show ?thesis unfolding cucm_history_raises_iff_row_unreadable by simp
qed

lemma demo_jitter:
  "ql_jitter (worst demo_float [demo_cmr ''7'' ''3'', demo_cmr ''7'' ''9'']) = 9"
proof -
  have "parse_float demo_float (cell (demo_cmr ''7'' ''3'') ''jitter'') = 3" "parse_float demo_float (cell (demo_cmr ''7'' ''9'') ''jitter'') = 9"
    by code_simp+
  then show ?thesis by (simp add: worst_def worse_def row_quality_def no_quality_def Let_def)
qed

lemma demo_call: "\<exists>c. cucm_call TsOk q (demo_cdr ''7'' ''12'') = Some (Some c)"
proof -
  have "origination TsOk (demo_cdr ''7'' ''12'') = Some None" "cell (demo_cdr ''7'' ''12'') ''duration'' = Some ''12''"
    "cucm_call_key (demo_cdr ''7'' ''12'') = Some ''1:7''" "stripped (demo_cdr ''7'' ''12'') ''finalCalledPartyNumber'' = Some ''1002''"
    "stripped (demo_cdr ''7'' ''12'') ''callingPartyNumber'' = Some ''1001''" "stripped (demo_cdr ''7'' ''12'') ''origDeviceName'' = Some []"
    "stripped (demo_cdr ''7'' ''12'') ''destDeviceName'' = Some []" by code_simp+
  then show ?thesis by (simp add: cucm_call_def or_next_def)
qed

theorem cucm_call_has_worst_quality_witness:
  "\<exists>c. read_recent_cucm_calls TsOk demo_float 1000 (Some [(1, [demo_cdr ''7'' ''12''])])
       (Some [(1, [demo_cmr ''7'' ''3'', demo_cmr ''7'' ''9'', demo_cmr ''8'' ''40''])]) = Some [c] \<and> jitter_ms c = Some 9"
proof -
  let ?cmr = "[demo_cmr ''7'' ''3'', demo_cmr ''7'' ''9'', demo_cmr ''8'' ''40'']"
  have rows: "cucm_csv_rows 40 (Some [(1, xs)]) = xs" for xs
    by (simp add: cucm_csv_rows_def sort_desc_def)
  have "\<forall>row \<in> set ?cmr. readable_record row" by code_simp
  then obtain q where q: "cucm_quality_by_call demo_float ?cmr = Some q" using quality_None [of demo_float ?cmr] by blast
  obtain c where c: "cucm_call TsOk q (demo_cdr ''7'' ''12'') = Some (Some c)" using demo_call by blast
  have read: "read_recent_cucm_calls TsOk demo_float 1000 (Some [(1, [demo_cdr ''7'' ''12''])]) (Some [(1, ?cmr)]) = Some [c]"
    by (simp add: read_recent_cucm_calls_def rows q c List.map_filter_simps sort_desc_def)
  have key: "cucm_call_key (demo_cdr ''7'' ''12'') = Some ''1:7''" "records_of ''1:7'' ?cmr = [demo_cmr ''7'' ''3'', demo_cmr ''7'' ''9'']"
    by code_simp+
  from cucm_call_has_worst_quality [OF read] have "jitter_ms c = Some 9"
    by (simp add: rows key demo_jitter Let_def)
  with read show ?thesis by blast
qed

end
