(* ===== verification/Settings.thy ===== *)
theory Settings
  imports AgentWeb FreeSwitch
begin

text \<open>
  \<open>settings.py\<close>, the settings of the Agent from its environment; \<open>connectors.py\<close> and \<open>mock.py\<close>, the
  connector they choose; the paths and addresses \<open>main.py\<close> takes from them; \<open>diagnostics.py\<close>, the checks a
  page shows of a connector.
\<close>

section \<open>Numbers\<close>

text \<open>\<open>float\<close> of a string (\<open>None\<close> for a \<open>ValueError\<close>): a decimal number with single underscores between its
  digits, rounded once, or an infinity or \<open>nan\<close>. Both zeros are one, and subnormal numbers keep 53 bits.\<close>

datatype pyfloat = Finite rat | PosInf | NegInf | NotANumber

text \<open>The digits a text begins with; \<open>inside\<close> says that a digit stands before it.\<close>

fun digit_run :: "bool \<Rightarrow> string \<Rightarrow> string \<times> string" where
  "digit_run inside [] = ([], [])"
| "digit_run inside (c # cs) =
    (if is_decimal c then (case digit_run True cs of (ds, rest) \<Rightarrow> (c # ds, rest))
     else if inside \<and> c = CHR ''_'' \<and> (case cs of [] \<Rightarrow> False | d # ds \<Rightarrow> is_decimal d) then digit_run False cs
     else ([], c # cs))"

definition number_of_digits :: "string \<Rightarrow> int" where
  "number_of_digits ds = foldl (\<lambda>n c. 10 * n + digit_val c) 0 ds"

definition exponent_of :: "string \<Rightarrow> int option" where
  "exponent_of s =
    (case s of
       [] \<Rightarrow> Some 0
     | c # cs \<Rightarrow> (if lower_char c \<noteq> CHR ''e'' then None
         else (let (neg, body) = (case cs of d # ds \<Rightarrow> if d = CHR ''-'' then (True, ds) else if d = CHR ''+'' then (False, ds) else (False, cs)
                   | [] \<Rightarrow> (False, []));
                   (ds, rest) = digit_run False body
               in if ds = [] \<or> rest \<noteq> [] then None else Some (if neg then - number_of_digits ds else number_of_digits ds))))"

definition round_float :: "rat \<Rightarrow> pyfloat" where
  "round_float x = (let y = fl x in if 2 ^ 1024 \<le> y then PosInf else if y \<le> - (2 ^ 1024) then NegInf else Finite y)"

definition ten_to :: "int \<Rightarrow> rat" where
  "ten_to e = (if 0 \<le> e then 10 ^ nat e else 1 / 10 ^ nat (- e))"

definition unsigned_float :: "string \<Rightarrow> rat option" where
  "unsigned_float s =
    (let (whole, rest) = digit_run False s;
         (frac, tail) = (case rest of c # cs \<Rightarrow> if c = CHR ''.'' then digit_run False cs else ([], rest) | [] \<Rightarrow> ([], []))
     in if whole = [] \<and> frac = [] then None
        else map_option (\<lambda>e. of_int (number_of_digits (whole @ frac)) * ten_to (e - int (length frac))) (exponent_of tail))"

definition py_float :: "string \<Rightarrow> pyfloat option" where
  "py_float s =
    (let t = strip s;
         (neg, body) = (case t of c # cs \<Rightarrow> if c = CHR ''-'' then (True, cs) else if c = CHR ''+'' then (False, cs) else (False, t)
           | [] \<Rightarrow> (False, []))
     in if lower body \<in> {''inf'', ''infinity''} then Some (if neg then NegInf else PosInf)
        else if lower body = ''nan'' then Some NotANumber
        else map_option (\<lambda>x. round_float (if neg then - x else x)) (unsigned_float body))"

text \<open>\<open>max(lo, x)\<close>: nothing is greater than \<open>lo\<close> unless it compares so, which \<open>nan\<close> never does.\<close>

definition at_least :: "rat \<Rightarrow> pyfloat \<Rightarrow> pyfloat" where
  "at_least lo x = (case x of Finite r \<Rightarrow> Finite (if lo < r then r else lo) | PosInf \<Rightarrow> PosInf | _ \<Rightarrow> Finite lo)"

section \<open>The environment\<close>

type_synonym environment = "string \<rightharpoonup> string"

definition env_int :: "environment \<Rightarrow> string \<Rightarrow> int \<Rightarrow> int" where
  "env_int env key dflt = (case env key of None \<Rightarrow> dflt | Some s \<Rightarrow> opt_or (py_int s) dflt)"

definition env_float :: "environment \<Rightarrow> string \<Rightarrow> pyfloat \<Rightarrow> pyfloat" where
  "env_float env key dflt = (case env key of None \<Rightarrow> dflt | Some s \<Rightarrow> opt_or (py_float s) dflt)"

definition env_bool :: "environment \<Rightarrow> string \<Rightarrow> bool \<Rightarrow> bool" where
  "env_bool env key dflt = (case env key of None \<Rightarrow> dflt | Some s \<Rightarrow> lower (strip s) \<notin> {''0'', ''false'', ''no'', ''off''})"

definition extension_name_of :: "string \<Rightarrow> (string \<times> string) option" where
  "extension_name_of chunk =
    (if CHR ''='' \<notin> set chunk then None
     else (let ext = strip (before (CHR ''='') chunk); name = strip (after (CHR ''='') chunk)
           in if ext \<noteq> [] \<and> name \<noteq> [] then Some (ext, name) else None))"

definition parse_extension_names :: "string \<Rightarrow> string pydict" where
  "parse_extension_names raw =
    foldl (\<lambda>d x. AList.update (fst x) (snd x) d) [] (List.map_filter extension_name_of (split_on (CHR '','') raw))"

definition pbx_type_names :: "string pydict" where
  "pbx_type_names = [(''ami'', ''asterisk''),
     (''asteriskami'', ''asterisk''),
     (''asterisk'', ''asterisk''),
     (''freepbx'', ''asterisk''),
     (''issabel'', ''asterisk''),
     (''vitalpbx'', ''asterisk''),
     (''grandstream'', ''grandstream''),
     (''grandstreamucm'', ''grandstream''),
     (''ucm'', ''grandstream''),
     (''ucm6xxx'', ''grandstream''),
     (''ucm62xx'', ''grandstream''),
     (''ucm63xx'', ''grandstream''),
     (''ucm6100'', ''grandstream''),
     (''ucm6200'', ''grandstream''),
     (''ucm6300'', ''grandstream''),
     (''ucm6300a'', ''grandstream''),
     (''ucm6300audio'', ''grandstream''),
     (''ucm6510'', ''grandstream''),
     (''fs'', ''freeswitch''),
     (''freeswitch'', ''freeswitch''),
     (''fusionpbx'', ''freeswitch''),
     (''yeastar'', ''yeastar''),
     (''yeastarpseries'', ''yeastar''),
     (''pseries'', ''yeastar''),
     (''cucm'', ''cucm''),
     (''ciscocucm'', ''cucm''),
     (''ciscounifiedcommunicationsmanager'', ''cucm''),
     (''mock'', ''mock'')]"

definition normalize_pbx_type :: "string \<Rightarrow> string" where
  "normalize_pbx_type raw =
    (let n = filter (\<lambda>c. c \<noteq> CHR ''_'') (filter (\<lambda>c. c \<noteq> CHR ''-'') (lower (strip raw)))
     in dget pbx_type_names n (or_str n ''asterisk''))"

definition default_display_name :: "string \<Rightarrow> string" where
  "default_display_name pbx = dget [(''asterisk'', ''Asterisk''),
     (''grandstream'', ''Grandstream UCM''),
     (''freeswitch'', ''FreeSWITCH''),
     (''yeastar'', ''Yeastar P-Series''),
     (''cucm'', ''Cisco Unified Communications Manager''),
     (''mock'', ''Mock PBX'')] pbx ''PBX''"


record agent_settings =
  cfg_mode :: string
  cfg_pbx_type :: string
  cfg_host :: string
  cfg_port :: int
  cfg_username :: string
  cfg_password :: string
  cfg_freeswitch_host :: string
  cfg_freeswitch_port :: int
  cfg_freeswitch_password :: string
  cfg_freeswitch_cdr_json_path :: string
  cfg_freeswitch_voicemail_path :: string
  cfg_display_name :: string
  cfg_timeout_seconds :: pyfloat
  cfg_extension_names :: "string pydict"
  cfg_cdr_csv_path :: string
  cfg_voicemail_path :: string
  cfg_timezone :: string
  cfg_token :: string
  cfg_relay_url :: string
  cfg_relay_identity_path :: string
  cfg_relay_timeout_seconds :: pyfloat
  cfg_relay_enrollment_ticket :: string
  cfg_quality_frequency_seconds :: int
  cfg_endpoint_outage_confirmation_seconds :: pyfloat
  cfg_trunk_outage_confirmation_seconds :: pyfloat
  cfg_endpoint_recovery_confirmation_seconds :: pyfloat
  cfg_asterisk_recordings_path :: string
  cfg_asterisk_security_log_path :: string
  cfg_freeswitch_recordings_path :: string
  cfg_yeastar_base_url :: string
  cfg_yeastar_client_id :: string
  cfg_yeastar_client_secret :: string
  cfg_yeastar_api_version :: string
  cfg_yeastar_verify_tls :: bool
  cfg_grandstream_ami_host :: string
  cfg_grandstream_ami_port :: int
  cfg_grandstream_ami_username :: string
  cfg_grandstream_ami_password :: string
  cfg_grandstream_ami_tls :: bool
  cfg_grandstream_ami_verify_tls :: bool
  cfg_grandstream_cdr_csv_path :: string
  cfg_grandstream_voicemail_path :: string
  cfg_grandstream_recordings_path :: string
  cfg_grandstream_security_log_path :: string
  cfg_snapshot_poll_seconds :: pyfloat
  cfg_history_poll_seconds :: pyfloat
  cfg_internet_relay_enabled :: bool
  cfg_internet_relay_poll_seconds :: pyfloat
  cfg_endpoint_activity_path :: string
  cfg_cucm_host :: string
  cfg_cucm_username :: string
  cfg_cucm_password :: string
  cfg_cucm_axl_version :: string
  cfg_cucm_verify_tls :: bool
  cfg_cucm_cdr_path :: string
  cfg_cucm_cmr_path :: string
  cfg_cucm_jtapi_enabled :: bool
  cfg_cucm_jtapi_classpath :: string
  cfg_cucm_jtapi_java :: string
  cfg_cucm_jtapi_username :: string
  cfg_cucm_jtapi_password :: string
  cfg_cucm_jtapi_poll_seconds :: pyfloat
  cfg_cucm_jtapi_stale_seconds :: pyfloat
  cfg_cucm_jtapi_restart_seconds :: pyfloat

definition from_env :: "environment \<Rightarrow> agent_settings" where
  "from_env env =
    (let mode = lower (strip (getenv env ''PBXSENSE_AGENT_MODE'' []));
         pbx = normalize_pbx_type (getenv env ''PBXSENSE_PBX_TYPE'' (or_str mode ''asterisk''));
         tls = env_bool env ''GRANDSTREAM_UCM_AMI_TLS'' False;
         ucm_timeout = env_float env ''GRANDSTREAM_UCM_AMI_TIMEOUT'' (Finite 3)
     in \<lparr>cfg_mode = or_str mode (if pbx \<in> {''asterisk'', ''grandstream''} then ''ami'' else pbx),
         cfg_pbx_type = pbx,
         cfg_host = getenv env ''ASTERISK_AMI_HOST'' ''127.0.0.1'',
         cfg_port = env_int env ''ASTERISK_AMI_PORT'' 5038,
         cfg_username = getenv env ''ASTERISK_AMI_USERNAME'' [],
         cfg_password = getenv env ''ASTERISK_AMI_PASSWORD'' [],
         cfg_freeswitch_host = getenv env ''FREESWITCH_ESL_HOST'' ''127.0.0.1'',
         cfg_freeswitch_port = env_int env ''FREESWITCH_ESL_PORT'' 8021,
         cfg_freeswitch_password = getenv env ''FREESWITCH_ESL_PASSWORD'' [],
         cfg_freeswitch_cdr_json_path = getenv env ''FREESWITCH_CDR_JSON_PATH'' [],
         cfg_freeswitch_voicemail_path = getenv env ''FREESWITCH_VOICEMAIL_PATH'' [],
         cfg_display_name = getenv env ''PBXSENSE_DISPLAY_NAME'' (default_display_name pbx),
         cfg_timeout_seconds = env_float env ''PBXSENSE_CONNECT_TIMEOUT'' (if pbx = ''grandstream'' then ucm_timeout else (env_float env ''ASTERISK_AMI_TIMEOUT'' (Finite 3))),
         cfg_extension_names = parse_extension_names (getenv env ''PBXSENSE_EXTENSION_NAMES'' []),
         cfg_cdr_csv_path = getenv env ''ASTERISK_CDR_CSV_PATH'' (getenv env ''ASTERISK_CDR_CUSTOM_PATH'' ''/var/log/asterisk/cdr-csv/Master.csv''),
         cfg_voicemail_path = getenv env ''ASTERISK_VOICEMAIL_PATH'' ''/var/spool/asterisk/voicemail'',
         cfg_timezone = strip (getenv env ''PBXSENSE_TIMEZONE'' (getenv env ''TZ'' [])),
         cfg_token = strip (getenv env ''PBXSENSE_AGENT_TOKEN'' []),
         cfg_relay_url = rstrip_slash (strip (getenv env ''PBXSENSE_RELAY_URL'' [])),
         cfg_relay_identity_path = strip (getenv env ''PBXSENSE_RELAY_IDENTITY_PATH'' ''/var/lib/pbxsense-agent/relay_identity.json''),
         cfg_relay_timeout_seconds = env_float env ''PBXSENSE_RELAY_TIMEOUT'' (Finite 5),
         cfg_relay_enrollment_ticket = strip (getenv env ''PBXSENSE_RELAY_ENROLLMENT_TICKET'' []),
         cfg_quality_frequency_seconds = env_int env ''PBXSENSE_QUALITY_FREQUENCY_SECONDS'' 180,
         cfg_endpoint_outage_confirmation_seconds = at_least 0 (env_float env ''PBXSENSE_ENDPOINT_OUTAGE_CONFIRMATION_SECONDS'' (Finite 5)),
         cfg_trunk_outage_confirmation_seconds = at_least 0 (env_float env ''PBXSENSE_TRUNK_OUTAGE_CONFIRMATION_SECONDS'' (Finite 5)),
         cfg_endpoint_recovery_confirmation_seconds = at_least 0 (env_float env ''PBXSENSE_ENDPOINT_RECOVERY_CONFIRMATION_SECONDS'' (Finite 5)),
         cfg_asterisk_recordings_path = getenv env ''ASTERISK_RECORDINGS_PATH'' ''/var/spool/asterisk/monitor'',
         cfg_asterisk_security_log_path = getenv env ''ASTERISK_SECURITY_LOG_PATH'' ''/var/log/asterisk/security'',
         cfg_freeswitch_recordings_path = getenv env ''FREESWITCH_RECORDINGS_PATH'' [],
         cfg_yeastar_base_url = rstrip_slash (strip (getenv env ''YEASTAR_BASE_URL'' [])),
         cfg_yeastar_client_id = strip (getenv env ''YEASTAR_CLIENT_ID'' []),
         cfg_yeastar_client_secret = strip (getenv env ''YEASTAR_CLIENT_SECRET'' []),
         cfg_yeastar_api_version = or_str (strip (getenv env ''YEASTAR_API_VERSION'' ''v1.0'')) ''v1.0'',
         cfg_yeastar_verify_tls = env_bool env ''YEASTAR_VERIFY_TLS'' True,
         cfg_grandstream_ami_host = strip (getenv env ''GRANDSTREAM_UCM_AMI_HOST'' ''127.0.0.1''),
         cfg_grandstream_ami_port = env_int env ''GRANDSTREAM_UCM_AMI_PORT'' (if tls then 5039 else 7777),
         cfg_grandstream_ami_username = strip (getenv env ''GRANDSTREAM_UCM_AMI_USERNAME'' []),
         cfg_grandstream_ami_password = getenv env ''GRANDSTREAM_UCM_AMI_PASSWORD'' [],
         cfg_grandstream_ami_tls = tls,
         cfg_grandstream_ami_verify_tls = env_bool env ''GRANDSTREAM_UCM_AMI_VERIFY_TLS'' True,
         cfg_grandstream_cdr_csv_path = strip (getenv env ''GRANDSTREAM_UCM_CDR_CSV_PATH'' []),
         cfg_grandstream_voicemail_path = strip (getenv env ''GRANDSTREAM_UCM_VOICEMAIL_PATH'' []),
         cfg_grandstream_recordings_path = strip (getenv env ''GRANDSTREAM_UCM_RECORDINGS_PATH'' []),
         cfg_grandstream_security_log_path = strip (getenv env ''GRANDSTREAM_UCM_SECURITY_LOG_PATH'' []),
         cfg_snapshot_poll_seconds = at_least (1 / 2) (env_float env ''PBXSENSE_SNAPSHOT_POLL_SECONDS'' (Finite 1)),
         cfg_history_poll_seconds = at_least 5 (env_float env ''PBXSENSE_HISTORY_POLL_SECONDS'' (Finite 30)),
         cfg_internet_relay_enabled = env_bool env ''PBXSENSE_INTERNET_RELAY_ENABLED'' True,
         cfg_internet_relay_poll_seconds = at_least 5 (env_float env ''PBXSENSE_INTERNET_RELAY_POLL_SECONDS'' (Finite 15)),
         cfg_endpoint_activity_path = strip (getenv env ''PBXSENSE_ENDPOINT_ACTIVITY_PATH'' ''/var/lib/pbxsense-agent/endpoint_activity.json''),
         cfg_cucm_host = strip (getenv env ''CUCM_HOST'' []),
         cfg_cucm_username = strip (getenv env ''CUCM_USERNAME'' []),
         cfg_cucm_password = getenv env ''CUCM_PASSWORD'' [],
         cfg_cucm_axl_version = or_str (strip (getenv env ''CUCM_AXL_VERSION'' ''15.0'')) ''15.0'',
         cfg_cucm_verify_tls = env_bool env ''CUCM_VERIFY_TLS'' True,
         cfg_cucm_cdr_path = strip (getenv env ''CUCM_CDR_PATH'' ''/var/lib/pbxsense-agent/cucm/cdr''),
         cfg_cucm_cmr_path = strip (getenv env ''CUCM_CMR_PATH'' ''/var/lib/pbxsense-agent/cucm/cmr''),
         cfg_cucm_jtapi_enabled = env_bool env ''CUCM_JTAPI_ENABLED'' False,
         cfg_cucm_jtapi_classpath = strip (getenv env ''CUCM_JTAPI_CLASSPATH'' ''/opt/pbxsense-agent/vendor/jtapi/*''),
         cfg_cucm_jtapi_java = or_str (strip (getenv env ''CUCM_JTAPI_JAVA'' ''java'')) ''java'',
         cfg_cucm_jtapi_username = strip (getenv env ''CUCM_JTAPI_USERNAME'' []),
         cfg_cucm_jtapi_password = getenv env ''CUCM_JTAPI_PASSWORD'' [],
         cfg_cucm_jtapi_poll_seconds = at_least (1 / 4) (env_float env ''CUCM_JTAPI_POLL_SECONDS'' (Finite 1)),
         cfg_cucm_jtapi_stale_seconds = at_least 2 (env_float env ''CUCM_JTAPI_STALE_SECONDS'' (Finite 10)),
         cfg_cucm_jtapi_restart_seconds = at_least 5 (env_float env ''CUCM_JTAPI_RESTART_SECONDS'' (Finite 15))\<rparr>)"

section \<open>The connector\<close>

datatype connector_kind = MockConnector | FreeSwitchClient | YeastarClient | GrandstreamUcmClient | CucmClient | AmiClient

definition connector_for_settings :: "agent_settings \<Rightarrow> connector_kind" where
  "connector_for_settings S =
    (if cfg_pbx_type S = ''mock'' \<or> cfg_mode S = ''mock'' then MockConnector
     else if cfg_pbx_type S = ''freeswitch'' then FreeSwitchClient
     else if cfg_pbx_type S = ''yeastar'' then YeastarClient
     else if cfg_pbx_type S = ''grandstream'' then GrandstreamUcmClient
     else if cfg_pbx_type S = ''cucm'' then CucmClient
     else AmiClient)"

text \<open>What the page says of the PBX, and where its files are.\<close>

definition pbx_host :: "agent_settings \<Rightarrow> string" where
  "pbx_host S =
    (if cfg_pbx_type S = ''cucm'' then cfg_cucm_host S
     else if cfg_pbx_type S = ''freeswitch'' then cfg_freeswitch_host S
     else if cfg_pbx_type S = ''yeastar'' then cfg_yeastar_base_url S
     else if cfg_pbx_type S = ''grandstream'' then cfg_grandstream_ami_host S
     else cfg_host S)"

definition pbx_port :: "agent_settings \<Rightarrow> string + int" where
  "pbx_port S =
    (if cfg_pbx_type S = ''cucm'' then Inr 8443
     else if cfg_pbx_type S = ''freeswitch'' then Inr (cfg_freeswitch_port S)
     else if cfg_pbx_type S = ''yeastar'' then Inl ''https''
     else if cfg_pbx_type S = ''grandstream'' then Inr (cfg_grandstream_ami_port S)
     else Inr (cfg_port S))"

definition history_paths :: "agent_settings \<Rightarrow> string \<times> string" where
  "history_paths S =
    (if cfg_pbx_type S = ''grandstream'' then (cfg_grandstream_cdr_csv_path S, cfg_grandstream_voicemail_path S)
     else (cfg_cdr_csv_path S, cfg_voicemail_path S))"

definition recordings_path :: "agent_settings \<Rightarrow> string" where
  "recordings_path S =
    (if cfg_pbx_type S = ''freeswitch'' then cfg_freeswitch_recordings_path S
     else if cfg_pbx_type S = ''grandstream'' then cfg_grandstream_recordings_path S
     else cfg_asterisk_recordings_path S)"

definition security_log_path :: "agent_settings \<Rightarrow> string" where
  "security_log_path S = (if cfg_pbx_type S = ''grandstream'' then cfg_grandstream_security_log_path S else cfg_asterisk_security_log_path S)"

definition mock_snapshot :: ami_snapshot where
  "mock_snapshot = default_snapshot\<lparr>agent_version := ''0.5.20-beta'',
    channels := [\<lparr>channel = ''PJSIP/101-00000042'', extension = ''101'', caller = ''Maria'', connected = ''Reception'',
      chan_state = ''Up'', endpoint = [], caller_number = [], connected_number = [], duration = ''00:01:24'',
      unique_id = [], linked_id = []\<rparr>],
    endpoints := [
      default_endpoint\<lparr>ep_extension := ''101'', device_state := ''Reachable'', active_channels := 1, ep_label := ''Reception''\<rparr>,
      default_endpoint\<lparr>ep_extension := ''120'', device_state := ''Reachable'', ep_label := ''Support'', presence := ''Away''\<rparr>,
      default_endpoint\<lparr>ep_extension := ''130'', device_state := ''Reachable'', ep_label := ''Sales'', presence := ''Do Not Disturb''\<rparr>,
      default_endpoint\<lparr>ep_extension := ''200'', device_state := ''Unavailable'', ep_label := ''Warehouse''\<rparr>,
      default_endpoint\<lparr>ep_extension := ''sip-provider'', device_state := ''Reachable'', ep_label := ''Main SIP trunk'', role := ''trunk''\<rparr>],
    queues := [default_queue\<lparr>q_name := ''support'', waiting_callers := 2, longest_wait_seconds := 94,
      available_members := 1, busy_members := 1, total_members := 2\<rparr>]\<rparr>"

section \<open>Checks of a connector\<close>

text \<open>\<open>d.get(k) is True\<close>.\<close>

definition says_true :: "json pydict \<Rightarrow> string \<Rightarrow> bool" where
  "says_true d k = (map_of d k = Some (JBool True))"

definition ami_diagnostic_statuses :: "string \<Rightarrow> json pydict \<Rightarrow> (string \<times> string) list" where
  "ami_diagnostic_statuses label d =
    (if \<not> list_ex (\<lambda>k. map_of d k \<noteq> None) [''tcpConnected'', ''bannerReceived'', ''loginAccepted''] then []
     else (let tcp = says_true d ''tcpConnected''; banner = says_true d ''bannerReceived''; login = says_true d ''loginAccepted''
       in [(''PBX port'', if tcp then ''Reachable'' else ''Unreachable''),
           (label, if \<not> tcp then ''Not attempted'' else if banner then ''Detected''
              else if login then ''Optional (login accepted)'' else ''Not detected''),
           (''Authentication'', if \<not> tcp then ''Not attempted'' else if login then ''Accepted'' else ''Rejected'')]))"

text \<open>\<open>casefold\<close> makes the same names as \<open>lower\<close> of these three, whatever Latin-1 text it is applied to.\<close>

definition connector_diagnostic_statuses :: "(json \<Rightarrow> string) \<Rightarrow> json pydict \<Rightarrow> (string \<times> string) list" where
  "connector_diagnostic_statuses repr d =
    (let pbx = lower (str_json repr (dget d ''pbxType'' (JStr []))) in
     if pbx = ''asterisk'' then ami_diagnostic_statuses ''AMI protocol'' d
     else if pbx = ''grandstream'' then ami_diagnostic_statuses ''UCM AMI protocol'' d
     else if pbx \<noteq> ''freeswitch'' then []
     else (let tcp = says_true d ''tcpConnected''; login = says_true d ''loginAccepted''; command = says_true d ''commandAccepted''
       in [(''PBX port'', if tcp then ''Reachable'' else ''Unreachable''),
           (''ESL authentication'', if \<not> tcp then ''Not attempted'' else if login then ''Accepted'' else ''Rejected''),
           (''ESL command'', if \<not> login then ''Not attempted'' else if command then ''Accepted'' else ''Rejected'')]))"

section \<open>What the settings can be\<close>

text \<open>A number that is not below a bound; infinity is not, \<open>nan\<close> is.\<close>

definition reaches :: "rat \<Rightarrow> pyfloat \<Rightarrow> bool" where
  "reaches lo x = (case x of Finite r \<Rightarrow> lo \<le> r | PosInf \<Rightarrow> True | _ \<Rightarrow> False)"

lemma reaches_at_least [simp]: "reaches lo (at_least lo x)"
  by (simp add: reaches_def at_least_def split: pyfloat.split)

text \<open>Whatever the environment says, the intervals and confirmation periods are numbers, and at least their bounds.\<close>

lemma settings_intervals:
  "reaches (1 / 2) (cfg_snapshot_poll_seconds (from_env env))"
  "reaches 5 (cfg_history_poll_seconds (from_env env))"
  "reaches 5 (cfg_internet_relay_poll_seconds (from_env env))"
  "reaches 0 (cfg_endpoint_outage_confirmation_seconds (from_env env))"
  "reaches 0 (cfg_trunk_outage_confirmation_seconds (from_env env))"
  "reaches 0 (cfg_endpoint_recovery_confirmation_seconds (from_env env))"
  "reaches (1 / 4) (cfg_cucm_jtapi_poll_seconds (from_env env))"
  "reaches 2 (cfg_cucm_jtapi_stale_seconds (from_env env))"
  "reaches 5 (cfg_cucm_jtapi_restart_seconds (from_env env))"
  unfolding from_env_def Let_def agent_settings.select_convs by (rule reaches_at_least)+

text \<open>The timeouts have no bound: one that no socket accepts is taken as it is.\<close>

lemma connect_timeout_unbounded:
  "cfg_timeout_seconds (from_env [''PBXSENSE_CONNECT_TIMEOUT'' \<mapsto> ''nan'']) = NotANumber"
  "cfg_timeout_seconds (from_env [''PBXSENSE_CONNECT_TIMEOUT'' \<mapsto> ''-inf'']) = NegInf"
proof -
  have "py_float ''nan'' = Some NotANumber" "py_float ''-inf'' = Some NegInf" by code_simp+
  then show "cfg_timeout_seconds (from_env [''PBXSENSE_CONNECT_TIMEOUT'' \<mapsto> ''nan'']) = NotANumber"
    "cfg_timeout_seconds (from_env [''PBXSENSE_CONNECT_TIMEOUT'' \<mapsto> ''-inf'']) = NegInf"
    unfolding from_env_def Let_def agent_settings.select_convs by (simp_all add: env_float_def opt_or_def)
qed

text \<open>The type of the PBX alone chooses the connector: the mode only says whether it is the mock one.\<close>

definition mode_of :: "environment \<Rightarrow> string" where
  "mode_of env = lower (strip (getenv env ''PBXSENSE_AGENT_MODE'' []))"

lemma settings_type:
  "env ''PBXSENSE_PBX_TYPE'' = Some t \<Longrightarrow> cfg_pbx_type (from_env env) = normalize_pbx_type t"
  "mode_of env \<noteq> [] \<Longrightarrow> cfg_mode (from_env env) = mode_of env"
  unfolding from_env_def Let_def agent_settings.select_convs by (simp_all add: getenv_def opt_or_def mode_of_def or_str_def)

lemma connector_follows_type:
  assumes "env ''PBXSENSE_PBX_TYPE'' = Some t" and "env2 ''PBXSENSE_PBX_TYPE'' = Some t" and "mode_of env \<notin> {[], ''mock''}" and "mode_of env2 \<notin> {[], ''mock''}"
  shows "connector_for_settings (from_env env) = connector_for_settings (from_env env2)"
  using assms by (simp add: connector_for_settings_def settings_type)

end
