(* ===== verification/AgentPages.thy ===== *)
theory AgentPages
  imports Settings
begin

text \<open>
  The HTML pages of the Agent (\<open>main.py\<close>): the page around a body, the status, pairing, paired apps and
  JSON pages, and what they take from requests, diagnostics and the relay's list of apps. Long texts are
  lists of lines. The drawing of the QR code and the digest are parameters.
\<close>

section \<open>Text\<close>

text \<open>In a literal, \<open>~\<close> stands for a double quote and \<open>^\<close> for a single one.\<close>

definition html :: "string \<Rightarrow> string" where
  "html s = map (\<lambda>c. if c = CHR ''~'' then CHR 0x22 else if c = CHR ''^'' then CHR 0x27 else c) s"

definition html_lines :: "string list \<Rightarrow> string" where
  "html_lines ls = join [newline] ls"

text \<open>\<open>html.escape\<close>, and \<open>urllib.parse.urlencode\<close> with \<open>quote_plus\<close>.\<close>

definition escape_char :: "char \<Rightarrow> string" where
  "escape_char c = (if c = CHR ''&'' then ''&amp;'' else if c = CHR ''<'' then ''&lt;'' else if c = CHR ''>'' then ''&gt;''
     else if c = CHR 0x22 then ''&quot;'' else if c = CHR 0x27 then ''&#x27;'' else [c])"

definition escape :: "string \<Rightarrow> string" where
  "escape s = concat (map escape_char s)"

definition url_safe_char :: "char \<Rightarrow> bool" where
  "url_safe_char c = (let n = code_point c in 48 \<le> n \<and> n \<le> 57 \<or> 65 \<le> n \<and> n \<le> 90 \<or> 97 \<le> n \<and> n \<le> 122 \<or> c \<in> set ''_.-~'')"

definition upper_hex :: "nat \<Rightarrow> char" where
  "upper_hex d = (if d < 10 then digit_char d else char_of (55 + d))"

definition quote_byte :: "char \<Rightarrow> string" where
  "quote_byte c = (if url_safe_char c then [c] else if c = CHR '' '' then ''+''
     else [CHR ''%'', upper_hex (code_point c div 16), upper_hex (code_point c mod 16)])"

definition quote_plus :: "string \<Rightarrow> string" where
  "quote_plus s = concat (map quote_byte (utf8 s))"

definition urlencode :: "string pydict \<Rightarrow> string" where
  "urlencode kvs = join ''&'' (map (\<lambda>(k, v). quote_plus k @ ''='' @ quote_plus v) kvs)"

text \<open>\<open>str.title\<close>: the first letter of each run of letters is upper case, the others are lower case.\<close>

fun title_from :: "bool \<Rightarrow> string \<Rightarrow> string" where
  "title_from inside [] = []"
| "title_from inside (c # cs) = (if inside then [lower_char c] else upper_char c) @ title_from (is_alpha c) cs"

definition str_title :: "string \<Rightarrow> string" where
  "str_title s = title_from False s"

text \<open>\<open>str(d.get(k1) or d.get(k2) or dflt)\<close>.\<close>

definition text_or :: "(json \<Rightarrow> string) \<Rightarrow> json pydict \<Rightarrow> string list \<Rightarrow> string \<Rightarrow> string" where
  "text_or repr d ks dflt = (case find truthy (map (\<lambda>k. dget d k JNull) ks) of None \<Rightarrow> dflt | Some v \<Rightarrow> str_json repr v)"

section \<open>The parts of a page\<close>

definition link_token_suffix :: "web_request \<Rightarrow> string" where
  "link_token_suffix q = (if query_token q = [] then [] else ''?'' @ urlencode [(''token'', query_token q)])"

definition beacon_svg :: "string" where
  "beacon_svg = html_lines [
     [],
     html ''      <svg viewBox=~0 0 32 32~ fill=~none~ role=~img~ aria-label=~PBXSense beacon~ color=~#75d49b~>'',
     html ''        <circle cx=~16~ cy=~16~ r=~8.8~ stroke=~currentColor~ stroke-width=~2.4~'',
     html ''          stroke-linecap=~round~ stroke-dasharray=~44.6 10.7~ transform=~rotate(17 16 16)~ opacity=~0.68~/>'',
     html ''        <circle cx=~16~ cy=~16~ r=~13.9~ stroke=~currentColor~ stroke-width=~2.4~'',
     html ''          stroke-linecap=~round~ stroke-dasharray=~54.9 32.4~ transform=~rotate(123 16 16)~ opacity=~0.45~/>'',
     html ''        <circle cx=~16~ cy=~16~ r=~3.7~ fill=~currentColor~/>'',
     ''      </svg>'',
     ''    '']"

definition brand_html :: "agent_settings \<Rightarrow> string" where
  "brand_html S = html_lines [
     [],
     html ''      <div class=~brand~>'',
     html ''        <div class=~mark~ aria-hidden=~true~>'',
     ''          '' @ beacon_svg,
     ''        </div>'',
     ''        <div>'',
     ''          <h1>PBXSense Agent</h1>'',
     html ''          <p class=~subtitle~>'' @ escape (cfg_display_name S) @ ''</p>'',
     ''        </div>'',
     ''      </div>'',
     ''    '']"

text \<open>The style of a page is the same text on every page; it is left out of \<open>page_html\<close> as the argument \<open>style\<close>.\<close>

definition page_html :: "string \<Rightarrow> string \<Rightarrow> string \<Rightarrow> string" where
  "page_html style title body = html_lines [
     ''<!doctype html>'',
     html ''    <html lang=~en~>'',
     ''      <head>'',
     html ''          <meta charset=~utf-8~>'',
     html ''          <meta name=~viewport~ content=~width=device-width, initial-scale=1~>'',
     html ''          <link rel=~icon~ href=~/favicon.svg~ type=~image/svg+xml~>'',
     ''        <title>'' @ escape title @ ''</title>'',
     ''        <style>'',
     style,
     ''        </style>'',
     ''      </head>'',
     ''      <body>'',
     ''        <main>'',
     ''          '' @ body,
     ''        </main>'',
     ''      </body>'',
     ''    </html>'']"

definition waiting_for_registered_app :: "string" where
  "waiting_for_registered_app = html_lines [
     [],
     html ''      <div class=~status ok~>'',
     html ''        <span class=~dot~></span>'',
     ''        <span>Finishing pairing...<small>Waiting for the registered app details.</small></span>'',
     ''      </div>'',
     ''      <script>window.setTimeout(() => window.location.reload(), 1500);</script>'',
     ''    '']"

text \<open>The rows of a card and of the diagnostics.\<close>

definition html_row :: "string \<Rightarrow> string \<Rightarrow> string" where
  "html_row label v = ''<div><dt>'' @ label @ ''</dt><dd>'' @ v @ ''</dd></div>''"

section \<open>A paired app\<close>

text \<open>The texts of a card, and the address its button posts to, empty when the relay named no revocation id.\<close>

definition device_subtitle :: "(json \<Rightarrow> string) \<Rightarrow> json pydict \<Rightarrow> string" where
  "device_subtitle repr d =
    (let os = text_or repr d [''osVersion''] []
     in str_title (text_or repr d [''platform''] ''Unknown platform'') @ (if os = [] then [] else '' '' @ os))"

definition device_notifications :: "json pydict \<Rightarrow> string" where
  "device_notifications d =
    (let kinds = (if truthy (dget d ''meaningfulEnabled'' (JBool True)) then [''Meaningful signals''] else []) @
       (if truthy (dget d ''activityEnabled'' (JBool True)) then [''PBX activity''] else [])
     in if kinds = [] then ''Disabled'' else join '', '' kinds)"

definition device_app_version :: "(json \<Rightarrow> string) \<Rightarrow> json pydict \<Rightarrow> string" where
  "device_app_version repr d = (let v = strip (text_or repr d [''appVersion''] []) in if v = [] then [] else before (CHR ''+'') v)"

definition device_rows :: "(json \<Rightarrow> string) \<Rightarrow> json pydict \<Rightarrow> (string \<times> string) list" where
  "device_rows repr d =
    [(''Connection'', if says_true d ''connectedNow'' then ''Connected now'' else ''Not connected recently''),
     (''Model'', or_str (strip (text_or repr d [''deviceModel''] [])) ''Not reported''),
     (''App version'', or_str (device_app_version repr d) ''Not reported''),
     (''Notifications'', device_notifications d),
     (''Last registered'', text_or repr d [''updatedAt''] ''Not reported''),
     (''Registration ID'', text_or repr d [''id''] ''Unknown'')]"

definition revoke_id_of :: "(json \<Rightarrow> string) \<Rightarrow> json pydict \<Rightarrow> string" where
  "revoke_id_of repr d = strip (text_or repr d [''revokeId''] [])"

definition remove_action :: "web_request \<Rightarrow> string \<Rightarrow> string" where
  "remove_action q rid = (if rid = [] then [] else
     html ''<form class=~device-actions~ method=~post~ action=~/apps/remove?'' @ urlencode ((''deviceId'', rid) # (if query_token q = [] then [] else [(''token'', query_token q)])) @ html ''~ '' @
     html ''onsubmit=~return confirm(^Remove this app? It will stop receiving notifications from this Agent.^)~>'' @
     html ''<button class=~button danger~ type=~submit~>Remove app</button></form>'')"

definition device_card :: "(json \<Rightarrow> string) \<Rightarrow> web_request \<Rightarrow> json pydict \<Rightarrow> string" where
  "device_card repr q d = html_lines [
     [],
     html ''      <article class=~device-card~>'',
     html ''        <div class=~device-card-header~>'',
     html ''          <div class=~device-card-title~>'',
     ''            <h2>'' @ escape (text_or repr d [''deviceName'', ''deviceModel''] ''PBXSense app'') @ ''</h2>'',
     ''            <p>'' @ escape (device_subtitle repr d) @ ''</p>'',
     ''          </div>'',
     ''          '' @ remove_action q (revoke_id_of repr d),
     ''        </div>'',
     html ''        <dl class=~diagnostics~>'' @ concat (map (\<lambda>(label, v). html_row (escape label) (escape v)) (device_rows repr d)) @ ''</dl>'',
     ''      </article>'',
     ''    '']"

section \<open>The paired apps\<close>

definition not_enrolled_html :: "string" where
  "not_enrolled_html = html_lines [
     [],
     html ''          <div class=~status empty~>'',
     html ''            <span class=~dot~></span>'',
     ''            <span>No registered apps<small>Pair your first app. If this Agent was rebuilt and apps are missing, restore its previous relay identity or pair them again.</small></span>'',
     ''          </div>'',
     ''        '']"

definition no_apps_html :: "string" where
  "no_apps_html = html_lines [
     [],
     html ''          <div class=~status empty~>'',
     html ''            <span class=~dot~></span>'',
     ''            <span>No registered apps<small>Pair an app to register it for push notifications.</small></span>'',
     ''          </div>'',
     ''        '']"

definition apps_unavailable_html :: "(json \<Rightarrow> string) \<Rightarrow> json pydict \<Rightarrow> string" where
  "apps_unavailable_html repr result = html_lines [
     [],
     html ''          <div class=~status attention~>'',
     html ''            <span class=~dot~></span>'',
     ''            <span>Apps unavailable<small>'' @ escape (str_json repr (dget result ''error'' (JStr ''The push relay is unavailable.''))) @ ''</small></span>'',
     ''          </div>'',
     ''        '']"

definition objects_of :: "json list \<Rightarrow> json pydict list" where
  "objects_of xs = List.map_filter (\<lambda>x. case x of JObj b \<Rightarrow> Some b | _ \<Rightarrow> None) xs"

definition apps_html :: "(json \<Rightarrow> string) \<Rightarrow> web_request \<Rightarrow> json list \<Rightarrow> string" where
  "apps_html repr q ds = html_lines [
     [],
     html ''          <div class=~status ok~>'',
     html ''            <span class=~dot~></span>'',
     ''            <span>'' @ show_nat (length ds) @ '' registered '' @ (if length ds = 1 then ''app'' else ''apps'') @ ''<small>Push registration details.</small></span>'',
     ''          </div>'',
     html ''          <div class=~device-list~>'' @ concat (map (device_card repr q) (objects_of ds)) @ ''</div>'',
     ''        '']"

definition removal_notice :: "string \<Rightarrow> string" where
  "removal_notice removal = (if removal = ''removed'' then
     html ''<div class=~status ok~><span class=~dot~></span><span>App removed'' @
     html ''<small>This app will no longer receive notifications from this Agent.</small></span></div>''
   else if removal = ''failed'' then
     html ''<div class=~status attention~><span class=~dot~></span><span>App was not removed'' @
     html ''<small>The relay could not complete the request. Try again.</small></span></div>''
   else [])"

text \<open>The answer of \<open>devices\<close> as the dict it is.\<close>

definition apps_content :: "(json \<Rightarrow> string) \<Rightarrow> web_request \<Rightarrow> json pydict \<Rightarrow> string" where
  "apps_content repr q result =
    (let ds = dget result ''devices'' (JList []); wait = (query_param q ''waitForDevice'' = ''1'');
         enrolled = (map_of result ''state'' \<noteq> Some (JStr ''notEnrolled''))
     in if \<not> enrolled then (if wait then waiting_for_registered_app else not_enrolled_html)
        else if \<not> says_true result ''available'' then apps_unavailable_html repr result
        else (case ds of
            JList (x # xs) \<Rightarrow> apps_html repr q (x # xs)
          | _ \<Rightarrow> (if wait then waiting_for_registered_app else no_apps_html)))"

definition paired_apps_html :: "(json \<Rightarrow> string) \<Rightarrow> agent_settings \<Rightarrow> web_request \<Rightarrow> json pydict \<Rightarrow> string" where
  "paired_apps_html repr S q result = html_lines [
     [],
     html ''          <section class=~hero-card~>'',
     ''            '' @ brand_html S,
     html ''            <div class=~section-heading~><span>Paired apps</span><small>Push relay</small></div>'',
     ''            '' @ removal_notice (query_param q ''removal''),
     ''            '' @ apps_content repr q result,
     html ''            <div class=~actions~>'',
     html ''              <a class=~button primary~ href=~/pair'' @ link_token_suffix q @ html ''~>Add another app</a>'',
     html ''              <a class=~button~ href=~/'' @ link_token_suffix q @ html ''~>Agent status</a>'',
     ''            </div>'',
     ''          </section>'',
     ''        '']"

text \<open>\<open>_registered_device_revision\<close>, from the SHA-256 digest in hex.\<close>

definition registered_device_revision :: "(json \<Rightarrow> string) \<Rightarrow> (string \<Rightarrow> string) \<Rightarrow> json pydict \<Rightarrow> string" where
  "registered_device_revision repr digest result =
    (if \<not> says_true result ''available'' then []
     else (case dget result ''devices'' (JList []) of
         JList xs \<Rightarrow>
           (let values = map (\<lambda>d. str_json repr (dget d ''id'' (JStr [])) @ ''|'' @ str_json repr (dget d ''updatedAt'' (JStr []))) (objects_of xs)
            in take 20 (digest (utf8 (join [newline] (sort_key (map code_point) values)))))
       | _ \<Rightarrow> []))"

section \<open>JSON and diagnostics\<close>

text \<open>\<open>formatted\<close> is the indented JSON text.\<close>

definition raw_json_query :: "web_request \<Rightarrow> string pydict" where
  "raw_json_query q = [(''format'', ''json'')] @ (if query_token q = [] then [] else [(''token'', query_token q)]) @
     (let h = strip (query_param q ''momentHours'') in if h = [] then [] else [(''momentHours'', h)])"

definition json_page :: "agent_settings \<Rightarrow> web_request \<Rightarrow> string \<Rightarrow> string" where
  "json_page S q formatted = html_lines [
     [],
     html ''          <section class=~json-card~>'',
     ''            '' @ brand_html S,
     html ''            <div class=~actions~>'',
     html ''              <a class=~button~ href=~/'' @ link_token_suffix q @ html ''~>Agent status</a>'',
     html ''              <a class=~button primary~ href=~?'' @ urlencode (raw_json_query q) @ html ''~>Raw JSON</a>'',
     ''            </div>'',
     ''            <pre><code>'' @ escape formatted @ ''</code></pre>'',
     ''          </section>'',
     ''        '']"

definition diagnostic_fields :: "(string \<times> string \<times> bool) list" where
  "diagnostic_fields = [(''host'', ''Host'', False),
     (''port'', ''Port'', False),
     (''baseUrl'', ''API URL'', False),
     (''apiVersion'', ''API version'', False),
     (''clientIdConfigured'', ''Client ID configured'', True),
     (''clientSecretConfigured'', ''Client secret configured'', True),
     (''tokenAccepted'', ''API token'', True),
     (''apiReachable'', ''API'', True),
     (''credentialsConfigured'', ''Credentials'', True),
     (''axlReachable'', ''AXL inventory'', True),
     (''risPortReachable'', ''Phone registration'', True),
     (''jtapiConfigured'', ''JTAPI configured'', True),
     (''jtapiCredentialsConfigured'', ''JTAPI credentials'', True),
     (''jtapiProcessRunning'', ''JTAPI bridge'', True),
     (''jtapiReachable'', ''JTAPI stream'', True),
     (''jtapiActiveCalls'', ''JTAPI active calls'', False),
     (''liveCallsAvailable'', ''Live calls'', True),
     (''tlsEnabled'', ''TLS enabled'', True),
     (''tlsVerification'', ''TLS verification'', True),
     (''internetRelayState'', ''Internet relay'', False)]"

definition yes_no :: "json \<Rightarrow> string" where
  "yes_no v = (if v = JBool True then ''Yes'' else ''No'')"

definition diagnostic_rows :: "(json \<Rightarrow> string) \<Rightarrow> json pydict \<Rightarrow> json \<Rightarrow> string" where
  "diagnostic_rows repr d message =
    concat (map (\<lambda>(label, v). html_row label v) (connector_diagnostic_statuses repr d)) @
    concat (map (\<lambda>(key, label, boolean). case map_of d key of None \<Rightarrow> []
      | Some v \<Rightarrow> html_row label (if boolean then yes_no v else escape (str_json repr v))) diagnostic_fields) @
    html_row ''Message'' (escape (str_json repr message))"

text \<open>\<open>_agent_status\<close>, from the connector's diagnostics and label and the state of the Internet relay.\<close>

definition agent_status :: "string \<Rightarrow> bool \<Rightarrow> bool \<Rightarrow> string \<Rightarrow> json pydict \<Rightarrow> json pydict" where
  "agent_status label enabled online protocol d =
    (let d1 = AList.update ''internetRelayState'' (JStr (if \<not> enabled then ''Disabled'' else if online then ''Connected'' else ''Connecting securely'')) d;
         d2 = AList.update ''internetRelayProtocol'' (JStr (''v'' @ protocol)) d1;
         ok = (says_true d2 ''ok'' \<or> says_true d2 ''loginAccepted'');
         d3 = AList.update ''ok'' (JBool ok) d2
     in if ok \<and> \<not> truthy (dget d3 ''message'' JNull)
        then AList.update ''message'' (JStr (label @ '' connection check succeeded.'')) d3 else d3)"

definition status_detail :: "agent_settings \<Rightarrow> bool \<Rightarrow> string" where
  "status_detail S ok = (if ok
     then ''The Agent can talk to '' @ cfg_display_name S @ '' and PBXSense can use live snapshots.''
     else ''The Agent is running, but '' @ cfg_display_name S @ '' still needs a little attention.'')"

definition diagnostic_message :: "json pydict \<Rightarrow> json" where
  "diagnostic_message d = dget d ''message'' (dget d ''error'' (JStr ''The latest check completed.''))"

definition diagnostic_html :: "(json \<Rightarrow> string) \<Rightarrow> string \<Rightarrow> json pydict \<Rightarrow> string" where
  "diagnostic_html repr label d = html_lines [
     [],
     html ''        <section class=~panel~>'',
     html ''          <div class=~section-heading~>'',
     ''            <span>Connection check</span>'',
     ''            <small>'' @ escape label @ ''</small>'',
     ''          </div>'',
     html ''          <dl class=~diagnostics~>'' @ diagnostic_rows repr d (diagnostic_message d) @ ''</dl>'',
     ''        </section>'',
     ''        '']"

definition index_html :: "(json \<Rightarrow> string) \<Rightarrow> agent_settings \<Rightarrow> web_request \<Rightarrow> string \<Rightarrow> json pydict \<Rightarrow> string" where
  "index_html repr S q label d = (let ok = says_true d ''ok'' in html_lines [
     [],
     html ''          <section class=~hero-card~>'',
     ''            '' @ brand_html S,
     html ''            <div class=~status '' @ (if ok then ''ok'' else ''attention'') @ html ''~>'',
     html ''              <span class=~dot~></span>'',
     ''              <span>'' @ (if ok then ''Connected'' else ''Needs attention'') @ ''<small>'' @ status_detail S ok @ ''</small></span>'',
     ''            </div>'',
     html ''            <div class=~actions~>'',
     html ''              <a class=~button primary~ href=~/pair'' @ link_token_suffix q @ html ''~>Pair app</a>'',
     html ''              <a class=~button~ href=~/apps'' @ link_token_suffix q @ html ''~>Paired apps</a>'',
     html ''              <a class=~button~ href=~/diagnostics'' @ link_token_suffix q @ html ''~>Diagnostics</a>'',
     ''            </div>'',
     ''            '' @ diagnostic_html repr label d,
     html ''            <div class=~footer~>'',
     html ''              <span class=~footer-meta~>'',
     ''                <span>PBX: '' @ escape (cfg_pbx_type S) @ ''</span>'',
     ''                <small>Version '' @ ''0.5.20-beta'' @ '' &middot; '' @ str_title ''breeze'' @ ''</small>'',
     ''              </span>'',
     html ''              <span class=~footer-actions~>'',
     ''                <a'',
     html ''                  class=~discord-badge~'',
     html ''                  href=~https://discord.gg/5GgsSRasQB~'',
     html ''                  target=~_blank~'',
     html ''                  rel=~noopener noreferrer~'',
     html ''                  aria-label=~Join PBXSense on Discord~'',
     ''                >'',
     html ''                  <svg viewBox=~0 0 24 24~ aria-hidden=~true~>'',
     html ''                    <path d=~M19.5 5.34A16.3 16.3 0 0 0 15.44 4l-.5 1.02a15.1 15.1 0 0 0-5.86 0L8.56 4A16.5 16.5 0 0 0 4.5 5.35C1.93 9.16 1.24 12.88 1.59 16.54a16.7 16.7 0 0 0 4.98 2.5l1.2-1.64c-.66-.25-1.3-.56-1.9-.92l.47-.36c3.66 1.7 7.63 1.7 11.25 0l.48.36c-.6.36-1.24.67-1.9.92l1.2 1.64a16.7 16.7 0 0 0 4.98-2.5c.42-4.24-.72-7.92-2.85-11.2ZM8.83 14.28c-1.1 0-2-1.02-2-2.27 0-1.25.88-2.27 2-2.27 1.13 0 2.03 1.03 2 2.27 0 1.25-.88 2.27-2 2.27Zm6.34 0c-1.1 0-2-1.02-2-2.27 0-1.25.88-2.27 2-2.27 1.13 0 2.03 1.03 2 2.27 0 1.25-.87 2.27-2 2.27Z~></path>'',
     ''                  </svg>'',
     ''                  <span>Discord</span>'',
     ''                </a>'',
     ''              </span>'',
     ''            </div>'',
     ''          </section>'',
     ''        ''])"

section \<open>Pairing\<close>

text \<open>The text of the QR code, with the activation the relay issued, if it did.\<close>

definition pairing_payload :: "agent_settings \<Rightarrow> web_request \<Rightarrow> (string \<times> string) option \<Rightarrow> string" where
  "pairing_payload S q act = ''pbxsense://pair?'' @ urlencode (
     [(''agent'', own_origin q)] @ (if cfg_token S = [] then [] else [(''token'', cfg_token S)]) @
     (case act of None \<Rightarrow> []
      | Some (aid, secret) \<Rightarrow> [(''relay'', cfg_relay_url S), (''activation'', aid), (''activationSecret'', secret)]))"

text \<open>What the page says, from the relay's state.\<close>

record pair_state =
  ps_configured :: bool
  ps_enrolled :: bool
  ps_attempts :: int
  ps_registrations :: int
  ps_devices :: string

definition relay_degraded :: "pair_state \<Rightarrow> string \<Rightarrow> bool" where
  "relay_degraded s payload = (ps_configured s \<and> \<not> ps_enrolled s \<and> \<not> contains ''activation='' payload)"

definition activation_pending :: "pair_state \<Rightarrow> string \<Rightarrow> bool" where
  "activation_pending s payload = (ps_enrolled s \<and> \<not> contains ''activation='' payload)"

definition pairing_status :: "pair_state \<Rightarrow> string \<Rightarrow> string" where
  "pairing_status s payload = (if activation_pending s payload then ''Preparing secure pairing''
     else if ps_enrolled s then ''Add another app'' else if relay_degraded s payload then ''Local pairing ready'' else ''Pairing ready'')"

definition pairing_detail :: "pair_state \<Rightarrow> string \<Rightarrow> string" where
  "pairing_detail s payload =
    (if activation_pending s payload then html ''Waiting for the push relay to issue this app^s protected pairing capability.''
     else if ps_enrolled s then ''Scan this QR on the additional phone. It will register its own push-notification device with this Agent.''
     else if relay_degraded s payload then ''The push relay is temporarily unavailable. Local pairing still works; refresh before pairing to include closed-app push.''
     else ''Scan this QR with PBXSense setup, or paste the pairing text.'')"

definition paired_apps_url :: "web_request \<Rightarrow> string" where
  "paired_apps_url q = ''/apps?'' @ urlencode ((''waitForDevice'', ''1'') # (if query_token q = [] then [] else [(''token'', query_token q)]))"

definition pair_html :: "agent_settings \<Rightarrow> web_request \<Rightarrow> pair_state \<Rightarrow> string \<Rightarrow> string \<Rightarrow> string" where
  "pair_html S q s qr payload = html_lines [
     [],
     html ''          <section class=~hero-card~>'',
     ''            '' @ brand_html S,
     html ''            <div id=~pairing-status~ class=~status '' @ (if relay_degraded s payload then ''attention'' else ''ok'') @ html ''~>'',
     html ''              <span class=~dot~></span>'',
     ''              <span>'' @ pairing_status s payload @ ''<small>'' @ pairing_detail s payload @ ''</small></span>'',
     ''            </div>'',
     ''            '' @ (if activation_pending s payload then
       html ''<div class=~status~><span class=~dot~></span><span>Please wait<small>This page will refresh automatically.</small></span></div>'' else []),
     html ''            <div class=~qr~ '' @ (if activation_pending s payload then html ''style=~display:none~'' else []) @ ''>'' @ qr @ ''</div>'',
     html ''            <div class=~pairing-text-row~ '' @ (if activation_pending s payload then html ''style=~display:none~'' else []) @ ''>'',
     html ''              <div id=~pairing-text~ class=~pairing-code~>'' @ escape payload @ ''</div>'',
     html ''              <button id=~copy-pairing-text~ class=~copy-button~ type=~button~ title=~Copy pairing text~ aria-label=~Copy pairing text~>'',
     html ''                <svg viewBox=~0 0 24 24~ aria-hidden=~true~>'',
     html ''                  <rect x=~8~ y=~8~ width=~11~ height=~11~ rx=~2~ fill=~none~ stroke=~currentColor~ stroke-width=~2~/>'',
     html ''                  <path d=~M16 8V6a2 2 0 0 0-2-2H6a2 2 0 0 0-2 2v8a2 2 0 0 0 2 2h2~ fill=~none~ stroke=~currentColor~ stroke-width=~2~ stroke-linecap=~round~/>'',
     ''                </svg>'',
     html ''                <span id=~copy-feedback~ class=~copy-feedback~ role=~status~ aria-live=~polite~>Copied</span>'',
     ''              </button>'',
     ''            </div>'',
     html ''            <div class=~actions~>'',
     html ''              <a class=~button~ href=~/'' @ link_token_suffix q @ html ''~>Agent status</a>'',
     ''            </div>'',
     ''            <script>'',
     ''              (() => {'',
     html ''                const copyButton = document.getElementById(^copy-pairing-text^);'',
     html ''                const copyFeedback = document.getElementById(^copy-feedback^);'',
     ''                let feedbackTimer;'',
     html ''                copyButton.addEventListener(^click^, async () => {'',
     html ''                  const value = document.getElementById(^pairing-text^).textContent;'',
     ''                  try {'',
     ''                    await navigator.clipboard.writeText(value);'',
     ''                  } catch (_) {'',
     html ''                    const field = document.createElement(^textarea^);'',
     ''                    field.value = value;'',
     html ''                    field.style.position = ^fixed^;'',
     html ''                    field.style.opacity = ^0^;'',
     ''                    document.body.appendChild(field);'',
     ''                    field.select();'',
     html ''                    document.execCommand(^copy^);'',
     ''                    field.remove();'',
     ''                  }'',
     html ''                  copyButton.title = ^Copied^;'',
     html ''                  copyButton.setAttribute(^aria-label^, ^Pairing text copied^);'',
     html ''                  copyFeedback.classList.add(^visible^);'',
     ''                  window.clearTimeout(feedbackTimer);'',
     ''                  feedbackTimer = window.setTimeout(() => {'',
     html ''                    copyFeedback.classList.remove(^visible^);'',
     html ''                    copyButton.title = ^Copy pairing text^;'',
     html ''                    copyButton.setAttribute(^aria-label^, ^Copy pairing text^);'',
     ''                  }, 1600);'',
     ''                });'',
     ''                const initialRevision = '' @ show_int (ps_registrations s) @ '';'',
     ''                const initialAttemptRevision = '' @ show_int (ps_attempts s) @ '';'',
     ''                const initialDeviceRevision = '' @ json_string (ps_devices s) @ '';'',
     ''                const statusUrl = '' @ json_string (''/push/devices/status'' @ link_token_suffix q) @ '';'',
     ''                const appsUrl = '' @ json_string (paired_apps_url q) @ '';'',
     ''                if ('' @ (if activation_pending s payload then ''true'' else ''false'') @ '') {'',
     ''                  window.setTimeout(() => window.location.reload(), 1500);'',
     ''                }'',
     ''                const poll = async () => {'',
     ''                  try {'',
     html ''                    const response = await fetch(statusUrl, { cache: ^no-store^ });'',
     ''                    if (response.ok) {'',
     ''                      const status = await response.json();'',
     ''                      if (Number(status.attemptRevision) > initialAttemptRevision) {'',
     html ''                        const card = document.getElementById(^pairing-status^);'',
     html ''                        card.className = ^status ok^;'',
     html ''                        card.innerHTML = ^<span class=~dot~></span><span>Finishing pairing...<small>Waiting for the registered app details.</small></span>^;'',
     ''                      }'',
     ''                      if (Number(status.registrationRevision) > initialRevision) {'',
     ''                        window.location.replace(appsUrl);'',
     ''                        return;'',
     ''                      }'',
     ''                      if (status.deviceRevision && status.deviceRevision !== initialDeviceRevision) {'',
     ''                        window.location.replace(appsUrl);'',
     ''                        return;'',
     ''                      }'',
     ''                    }'',
     ''                  } catch (_) {'',
     ''                    // Pairing remains usable while the browser or Agent reconnects.'',
     ''                  }'',
     ''                  window.setTimeout(poll, 1500);'',
     ''                };'',
     ''                window.setTimeout(poll, 1500);'',
     ''              })();'',
     ''            </script>'',
     ''          </section>'',
     ''        '']"

end
