(* ===== verification/PageText.thy ===== *)
theory PageText
  imports AgentPages
begin

text \<open>
  What the pages do with the values they show: no value from an app, the relay, a request or the PBX adds
  markup to a page, except the display name on the status page.
\<close>

section \<open>Markup\<close>

text \<open>The characters that open or close a tag or an attribute.\<close>

definition markup_char :: "char \<Rightarrow> bool" where
  "markup_char c = (c = CHR ''<'' \<or> c = CHR ''>'' \<or> c = CHR 0x22 \<or> c = CHR 0x27)"

definition markup :: "string \<Rightarrow> string" where
  "markup s = filter markup_char s"

lemma markup_Nil: "markup [] = []"
  by (simp add: markup_def)

lemma markup_append: "markup (a @ b) = markup a @ markup b"
  by (simp add: markup_def)

lemma markup_Cons: "markup (c # s) = (if markup_char c then c # markup s else markup s)"
  by (simp add: markup_def)

lemma markup_concat: "markup (concat xs) = concat (map markup xs)"
  by (simp add: markup_def [abs_def] filter_concat)

lemma markup_empty: "(\<And>c. c \<in> set s \<Longrightarrow> \<not> markup_char c) \<Longrightarrow> markup s = []"
  by (auto simp: markup_def filter_empty_conv)

lemma markup_escape_char: "markup (escape_char c) = []"
proof (cases "c \<in> set ''&<>'' \<or> c = CHR 0x22 \<or> c = CHR 0x27")
  case True
  then show ?thesis by (auto simp: escape_char_def markup_def markup_char_def)
next
  case False
  then have "escape_char c = [c]" "\<not> markup_char c" by (simp_all add: escape_char_def markup_char_def)
  then show ?thesis by (simp add: markup_def)
qed

lemma markup_escape: "markup (escape s) = []"
  by (simp add: escape_def markup_concat markup_escape_char comp_def)

lemma upper_hex_plain: "d < 16 \<Longrightarrow> \<not> markup_char (upper_hex d)"
proof -
  assume "d < 16"
  then have "code_point (upper_hex d) \<in> {48..57} \<union> {65..70}"
    by (auto simp: upper_hex_def digit_char_def code_point_def)
  then show ?thesis by (auto simp: markup_char_def code_point_def)
qed

lemma url_safe_plain: "url_safe_char c \<Longrightarrow> \<not> markup_char c"
  by (auto simp: url_safe_char_def markup_char_def code_point_def Let_def)

lemma markup_quote_byte: "markup (quote_byte c) = []"
  using upper_hex_plain [of "code_point c div 16"] upper_hex_plain [of "code_point c mod 16"] url_safe_plain [of c] code_point_lt [of c]
  by (auto simp: quote_byte_def markup_def markup_char_def)

lemma markup_quote_plus: "markup (quote_plus s) = []"
  by (simp add: quote_plus_def markup_concat markup_quote_byte comp_def)

lemma markup_join: "markup (join sep xs) = join (markup sep) (map markup xs)"
  by (induction sep xs rule: join.induct) (simp_all add: markup_append markup_Nil)

lemma join_Nil: "join [] xs = concat xs"
  by (induction "[] :: string" xs rule: join.induct) simp_all

lemma markup_urlencode: "markup (urlencode kvs) = []"
proof -
  have "markup ''&'' = []" "\<not> markup_char (CHR ''='')" by code_simp+
  then show ?thesis
    by (simp add: urlencode_def markup_join join_Nil markup_append markup_Cons markup_quote_plus comp_def case_prod_beta')
qed

lemma markup_lines: "markup (html_lines ls) = concat (map markup ls)"
proof -
  have "markup [newline] = []" by code_simp
  then show ?thesis by (simp add: html_lines_def markup_join join_Nil)
qed

lemma markup_suffix: "markup (link_token_suffix q) = []"
proof -
  have "\<not> markup_char (CHR ''?'')" by code_simp
  then show ?thesis by (simp add: link_token_suffix_def markup_Cons markup_urlencode markup_Nil)
qed

lemma markup_show_nat: "markup (show_nat n) = []"
proof (induction n rule: show_nat.induct)
  case (1 n)
  have "\<not> markup_char (digit_char d)" if "d < 10" for d
  proof -
    from that have "code_point (digit_char d) \<in> {48..57}" by (auto simp: digit_char_def code_point_def)
    then show ?thesis by (auto simp: markup_char_def code_point_def)
  qed
  with 1 show ?case by (subst show_nat.simps) (simp add: markup_def)
qed

lemma markup_app: "markup (if b then ''app'' else ''apps'') = []"
proof -
  have "markup ''app'' = []" "markup ''apps'' = []" by code_simp+
  then show ?thesis by simp
qed

lemma markup_brand: "markup (brand_html S) = markup (brand_html S')"
  by (simp only: brand_html_def markup_lines list.map markup_append markup_escape)

lemmas markup_parts = markup_lines list.map markup_append markup_escape markup_urlencode markup_suffix markup_Nil append_Nil append_Nil2

section \<open>Pages\<close>

lemma markup_row: "markup (html_row (escape label) (escape v)) = markup (html_row [] [])"
  by (simp only: html_row_def markup_parts)

lemma markup_device_rows: "markup (concat (map (\<lambda>(label, v). html_row (escape label) (escape v)) (device_rows repr d))) =
    concat (replicate 6 (markup (html_row [] [])))"
  by (simp only: markup_concat device_rows_def list.map prod.case markup_row) (simp add: numeral_eq_Suc)

lemma markup_action: "(rid = []) = (rid2 = []) \<Longrightarrow> markup (remove_action q rid) = markup (remove_action q2 rid2)"
  by (cases "rid = []") (simp_all only: remove_action_def simp_thms if_True if_False markup_parts)

lemma markup_card:
  "(revoke_id_of repr d = []) = (revoke_id_of repr e = []) \<Longrightarrow> markup (device_card repr q d) = markup (device_card repr q2 e)"
  by (simp only: device_card_def markup_parts markup_device_rows markup_action [of "revoke_id_of repr d" "revoke_id_of repr e" q q2])

lemma markup_cards:
  "map (\<lambda>d. revoke_id_of repr d = []) xs = map (\<lambda>d. revoke_id_of repr d = []) ys \<Longrightarrow>
   markup (concat (map (device_card repr q) xs)) = markup (concat (map (device_card repr q2) ys))"
proof (induction xs arbitrary: ys)
  case (Cons x xs)
  then obtain y ys2 where "ys = y # ys2" by (cases ys) auto
  with Cons markup_card [of repr x y q q2] show ?case by (simp add: markup_append)
qed (simp add: markup_Nil)

lemma pair_texts:
  assumes "activation_pending s p = activation_pending s p2" and "relay_degraded s p = relay_degraded s p2"
  shows "pairing_status s p = pairing_status s p2" and "pairing_detail s p = pairing_detail s p2"
  using assms by (simp_all only: pairing_status_def pairing_detail_def)


text \<open>An app that names itself after a script, and one that does not.\<close>

definition demo_app :: "string \<Rightarrow> json" where
  "demo_app name = JObj [(''deviceName'', JStr name), (''revokeId'', JStr ''r1'')]"

definition demo_page_request :: web_request where
  "demo_page_request = \<lparr>wq_method = ''GET'', wq_query = [], wq_headers = [], wq_cookies = [], wq_host = None,
     wq_scheme = ''http'', wq_netloc = ''agent'', wq_body = []\<rparr>"


section \<open>The status page\<close>

text \<open>The status page writes the display name into its text as it is, although the title of the same page and
  every other page escape it.\<close>

lemma markup_status_detail:
  "cfg_display_name S2 = [] \<Longrightarrow> length (markup (status_detail S ok)) = length (markup (status_detail S2 ok)) + length (markup (cfg_display_name S))"
  by (cases ok) (simp_all only: status_detail_def if_True if_False markup_append length_append markup_Nil list.size add_0 add_0_right add.assoc add.commute add.left_commute)

lemma index_shows_name_as_markup:
  "cfg_display_name S2 = [] \<Longrightarrow> length (markup (index_html repr S q title d)) = length (markup (index_html repr S2 q title d)) + length (markup (cfg_display_name S))"
  by (simp only: index_html_def Let_def markup_parts concat.simps length_append markup_status_detail [of S2 S]
    markup_brand [of S S2] add.assoc add.commute add.left_commute)

end
