(* ===== verification/PushPages.thy ===== *)
theory PushPages
  imports PushAccess PageText Yeastar
begin

text \<open>
  The operator's dashboard of the relay (\<open>push_relay/app.py\<close>): the form that asks for the administrator token,
  the page over the usage report, and who gets it. The decoded form field is a parameter.
\<close>

section \<open>Pages\<close>

text \<open>\<open>f"{n:,}"\<close>\<close>

definition show_commas :: "int \<Rightarrow> string" where
  "show_commas n = (if n < 0 then ''-'' else []) @ rev (join '','' (groups_of 3 (rev (show_nat (nat \<bar>n\<bar>)))))"

definition usage_css :: "string" where
  "usage_css = html_lines [
     [],
     '':root{color-scheme:dark;font-family:Inter,ui-sans-serif,system-ui,sans-serif;background:#07110f;color:#edf7f2}'',
     ''*{box-sizing:border-box}body{margin:0;background:radial-gradient(circle at top,#17362e 0,#07110f 42%);min-height:100vh}'',
     ''main{width:min(1180px,calc(100% - 32px));margin:0 auto;padding:42px 0 80px}header{display:flex;justify-content:space-between;gap:24px;align-items:flex-start}'',
     ''h1{font-size:clamp(32px,5vw,54px);margin:4px 0 8px}h2{margin:0 0 18px;font-size:22px}.eyebrow{color:#f1bd70;text-transform:uppercase;letter-spacing:.14em;font-size:12px;font-weight:800}'',
     ''p{color:#a9bdb5}.status{background:#193f35;color:#8ce0c2;border:1px solid #285b4e;border-radius:999px;padding:8px 13px}'',
     ''.cards{display:grid;grid-template-columns:repeat(4,1fr);gap:14px;margin:34px 0}article,section{background:#0e1d19;border:1px solid #203c34;border-radius:18px;padding:22px}'',
     ''section{margin:16px 0}article span,article small{display:block;color:#99afa6}article strong{display:block;font-size:34px;margin:10px 0 5px}'',
     ''.policy{display:flex;flex-wrap:wrap;gap:10px}.policy span{background:#152a24;border-radius:10px;padding:10px 13px;color:#a9bdb5}.policy b{color:#edf7f2}'',
     ''.table{overflow:auto}table{width:100%;border-collapse:collapse;min-width:760px}th,td{text-align:left;padding:12px;border-bottom:1px solid #203c34;font-variant-numeric:tabular-nums}th{color:#8ce0c2;font-size:12px;text-transform:uppercase;letter-spacing:.06em}'',
     ''code{color:#f1bd70}.note{font-size:13px}.login{display:grid;place-items:center;min-height:100vh;padding:20px}.login section{width:min(460px,100%)}label{display:grid;gap:8px;color:#a9bdb5}'',
     ''input{width:100%;padding:13px;border-radius:10px;border:1px solid #36554c;background:#07110f;color:#fff}button{margin-top:14px;border:0;border-radius:10px;padding:12px 16px;background:#e9ad5c;color:#191107;font-weight:800;cursor:pointer}.error{color:#ffaaa0}'',
     ''@media(max-width:800px){.cards{grid-template-columns:repeat(2,1fr)}header{display:block}.status{display:inline-block;margin-top:12px}}'',
     ''@media(max-width:480px){.cards{grid-template-columns:1fr}}'',
     []]"

definition usage_login_page :: "string \<Rightarrow> string" where
  "usage_login_page err = (let message = (if err \<noteq> [] then html ''<p class=~error~>'' @ escape err @ ''</p>''
      else ''<p>Enter the Relay administrator token. It is stored only in a secure, HTTP-only session cookie.</p>'') in
    html_lines [
     ''<!doctype html>'',
     html ''<html lang=~en~><head><meta charset=~utf-8~><meta name=~viewport~ content=~width=device-width,initial-scale=1~>'',
     ''<title>PBXSense Relay usage</title><style>'' @ usage_css @ ''</style></head>'',
     html ''<body><main class=~login~><section><p class=~eyebrow~>PBXSense Relay</p><h1>Usage dashboard</h1>'',
     message @ html ''<form method=~post~ action=~/admin/usage~><label>Administrator token'',
     html ''<input type=~password~ name=~token~ autocomplete=~current-password~ required></label>'',
     html ''<button type=~submit~>Open dashboard</button></form></section></main></body></html>''])"

definition usage_count :: "int pydict \<Rightarrow> string \<Rightarrow> string" where
  "usage_count totals k = show_commas (dget totals k 0)"

definition html_cell :: "string \<Rightarrow> string" where
  "html_cell v = ''<td>'' @ v @ ''</td>''"

definition daily_row :: "rollup \<Rightarrow> string" where
  "daily_row r = ''<tr>'' @ html_cell (escape (ro_date r) @ (if ro_complete r then [] else '' (today)'')) @
     html_cell (show_nat (ro_agents r)) @ html_cell (show_nat (ro_apps r)) @
     concat (map (\<lambda>k. html_cell (usage_count (ro_totals r) k))
       [''heartbeats'', ''controlExchanges'', ''remoteSnapshotReads'', ''encryptedSnapshotsPublished'', ''encryptedSnapshotBytes'']) @ ''</tr>''"

definition agent_row :: "usage_row \<Rightarrow> string" where
  "agent_row r = ''<tr>'' @ html_cell (''<code>'' @ escape (ur_agent r) @ ''</code>'') @
     html_cell (if ur_active r then ''Active'' else ''Inactive'') @ html_cell (show_nat (ur_registered r)) @
     html_cell (show_nat (ur_connected r)) @ html_cell (show_commas (sum_list (map snd (ur_usage r)))) @ ''</tr>''"

text \<open>The report's own sentence on privacy.\<close>

definition usage_privacy :: "string" where
  "usage_privacy = ''Agent identifiers are one-way hashes; '' @
    ''PBX and call content is excluded.''"

definition usage_dashboard_page :: "usage_report \<Rightarrow> string" where
  "usage_dashboard_page r = html_lines [
     ''<!doctype html>'',
     html ''<html lang=~en~><head><meta charset=~utf-8~><meta name=~viewport~ content=~width=device-width,initial-scale=1~>'',
     html ''<meta http-equiv=~refresh~ content=~300~><title>PBXSense Relay usage</title>'',
     ''<style>'' @ usage_css @ html ''</style></head><body><main><header><div><p class=~eyebrow~>PBXSense Relay '' @ ''0.5.2'' @ ''</p>'',
     ''<h1>Usage dashboard</h1><p>Updated '' @ escape (rep_generated_at r) @ ''; refreshes every five minutes.</p></div>'',
     html ''<span class=~status~>Privacy-safe</span></header>'',
     html ''<section class=~cards~><article><span>Active Agents</span><strong>'' @ show_nat (us_active (rep_sums r)) @ ''</strong><small>'' @ show_nat (rep_registered_agents r) @ '' registered</small></article>'',
     ''<article><span>Connected apps</span><strong>'' @ show_nat (us_connected (rep_sums r)) @ ''</strong><small>'' @ show_nat (us_registered (rep_sums r)) @ '' registered</small></article>'',
     ''<article><span>Heartbeats today</span><strong>'' @ show_commas (dget (rep_totals r) ''heartbeats'' 0) @ ''</strong><small>30/'' @ show_int (rp_agent_loss_seconds (rep_policy r)) @ '' sec presence</small></article>'',
     ''<article><span>Remote reads today</span><strong>'' @ show_commas (dget (rep_totals r) ''remoteSnapshotReads'' 0) @ ''</strong><small>'' @ show_int (rp_remote_poll_seconds (rep_policy r)) @ '' sec app policy</small></article></section>'',
     html ''<section><h2>Remotely delivered policy</h2><div class=~policy~>'',
     ''<span>Presence <b>'' @ show_int (rp_agent_presence_seconds (rep_policy r)) @ '' sec</b></span>'',
     ''<span>Lost after <b>'' @ show_int (rp_agent_loss_seconds (rep_policy r)) @ '' sec</b></span>'',
     ''<span>App poll <b>'' @ show_int (rp_remote_poll_seconds (rep_policy r)) @ '' sec</b></span>'',
     ''<span>Control exchange <b>'' @ show_int (rp_control_exchange_seconds (rep_policy r)) @ '' sec</b></span></div>'',
     html ''<p class=~note~>Presence is fixed for reliable Agent-down detection. App polling and control exchange are bounded server settings delivered in Relay responses.</p></section>'',
     html ''<section><h2>Daily rollups</h2><div class=~table~><table><thead><tr><th>UTC date</th><th>Agents</th><th>Apps</th><th>Heartbeats</th><th>Control</th><th>Remote reads</th><th>Snapshots</th><th>Encrypted bytes</th></tr></thead>'',
     ''<tbody>'' @ concat (map daily_row (rep_daily r)) @ ''</tbody></table></div></section>'',
     html ''<section><h2>Agent activity today</h2><div class=~table~><table><thead><tr><th>Hashed Agent</th><th>Status</th><th>Apps</th><th>Connected</th><th>Operations</th></tr></thead>'',
     ''<tbody>'' @ concat (map agent_row (rep_agents r)) @ html ''</tbody></table></div><p class=~note~>'' @ escape usage_privacy @ ''</p></section>'',
     ''</main></body></html>'']"

definition admin_page_headers :: "string pydict" where
  "admin_page_headers = [(''Cache-Control'', ''no-store''),
     (''Content-Security-Policy'', html ''default-src ^none^; style-src ^unsafe-inline^; form-action ^self^; base-uri ^none^; frame-ancestors ^none^''),
     (''Referrer-Policy'', ''no-referrer''),
     (''X-Content-Type-Options'', ''nosniff''),
     (''X-Frame-Options'', ''DENY'')]"

section \<open>Routes\<close>

text \<open>A page has a status and a text; a login that succeeds sets the cookie and sends the browser back.\<close>

datatype admin_answer = AdminPage nat string | AdminLogin string

definition usage_dashboard_route :: "'db platform \<Rightarrow> relay_config \<Rightarrow> clock \<Rightarrow> http_request \<Rightarrow> ('db server, admin_answer) handler" where
  "usage_dashboard_route P C ck q =
    then_do (lift (admin_authenticated C q)) (\<lambda>ok.
    if \<not> ok then ret (AdminPage 401 (usage_login_page []))
    else then_do (usage_report_of P C ck 7) (\<lambda>r. ret (AdminPage 200 (usage_dashboard_page r))))"

definition usage_dashboard_login :: "relay_config \<Rightarrow> (string \<Rightarrow> string) \<Rightarrow> http_request \<Rightarrow> ('db server, admin_answer) handler" where
  "usage_dashboard_login C form_token q =
    (let refused = AdminPage 401 (usage_login_page ''That administrator token was not accepted.'') in
     if cf_admin_token C = [] then ret refused
     else (case compare_digest (form_token (hq_body q)) (cf_admin_token C) of
         None \<Rightarrow> fail Crashed
       | Some b \<Rightarrow> ret (if b then AdminLogin (form_token (hq_body q)) else refused)))"

section \<open>Who sees the dashboard\<close>

definition admin_credential :: "relay_config \<Rightarrow> http_request \<Rightarrow> bool" where
  "admin_credential C q \<longleftrightarrow> cf_admin_token C \<noteq> [] \<and>
     (header q ''x-pbxsense-admin-token'' = cf_admin_token C \<or>
      header q ''x-pbxsense-admin-token'' = [] \<and> dget (hq_cookies q) admin_cookie [] = cf_admin_token C)"

lemma admin_authenticated_credential: "admin_authenticated C q = Inr True \<longleftrightarrow> admin_credential C q \<and> is_ascii (cf_admin_token C)"
  by (auto simp: admin_authenticated_def admin_credential_def compare_digest_def Let_def split: option.splits if_splits)

text \<open>
  The operator's dashboard is shown for the administrator token only. Without it in the header, or in the
  session cookie when there is no header, a request is answered with the login form or fails, nothing is read
  or written, and the answer is the same whatever the store holds; the login sets the cookie only to the token
  itself, and that cookie opens the dashboard.
\<close>

theorem dashboard_needs_admin_token:
  "(\<not> admin_credential C q \<longrightarrow> usage_dashboard_route P C ck q s \<in> {(Inr (AdminPage 401 (usage_login_page [])), s), (Inl Crashed, s)}) \<and>
   (\<forall>c t. usage_dashboard_login C form_token q s = (Inr (AdminLogin c), t) \<longrightarrow> t = s \<and> c = cf_admin_token C \<and> c \<noteq> [] \<and>
     (\<forall>q2. header q2 ''x-pbxsense-admin-token'' = [] \<and> dget (hq_cookies q2) admin_cookie [] = c \<longrightarrow> admin_authenticated C q2 = Inr True))"
proof (intro conjI impI allI)
  assume "\<not> admin_credential C q"
  then have "admin_authenticated C q \<noteq> Inr True" by (simp add: admin_authenticated_credential)
  moreover have "admin_authenticated C q \<in> {Inl Crashed, Inr True, Inr False}"
    by (auto simp: admin_authenticated_def Let_def split: option.splits)
  ultimately show "usage_dashboard_route P C ck q s \<in> {(Inr (AdminPage 401 (usage_login_page [])), s), (Inl Crashed, s)}"
    by (auto simp: usage_dashboard_route_def then_do_def lift_def ret_def)
next
  fix c t
  assume login: "usage_dashboard_login C form_token q s = (Inr (AdminLogin c), t)"
  then show "t = s" "c = cf_admin_token C" "c \<noteq> []"
    by (auto simp: usage_dashboard_login_def Let_def ret_def fail_def compare_digest_def split: if_splits option.splits)
  fix q2
  assume "header q2 ''x-pbxsense-admin-token'' = [] \<and> dget (hq_cookies q2) admin_cookie [] = c"
  with login show "admin_authenticated C q2 = Inr True"
    unfolding admin_authenticated_credential admin_credential_def
    by (auto simp: usage_dashboard_login_def Let_def ret_def fail_def compare_digest_def split: if_splits option.splits)
qed

text \<open>A token that is not ASCII makes the login fail instead of refusing it.\<close>

lemma login_fails_on_other_characters:
  "cf_admin_token C \<noteq> [] \<Longrightarrow> \<not> is_ascii (form_token (hq_body q)) \<Longrightarrow> usage_dashboard_login C form_token q s = (Inl Crashed, s)"
  by (simp add: usage_dashboard_login_def compare_digest_def fail_def)

definition admin_config :: relay_config where
  "admin_config = open_config\<lparr>cf_admin_token := ''admin''\<rparr>"

theorem dashboard_needs_admin_token_witness:
  "usage_dashboard_route demo_platform admin_config demo_clock (probe ''/admin/usage'') claimed_service = (Inr (AdminPage 401 (usage_login_page [])), claimed_service) \<and>
   admin_authenticated admin_config (probe ''/admin/usage''\<lparr>hq_cookies := [(admin_cookie, ''admin'')]\<rparr>) = Inr True"
proof -
  let ?q = "probe ''/admin/usage''" and ?q2 = "probe ''/admin/usage''\<lparr>hq_cookies := [(admin_cookie, ''admin'')]\<rparr>"
  have h: "header ?q k = []" "header ?q2 k = []" "dget (hq_cookies ?q) admin_cookie [] = []" "dget (hq_cookies ?q2) admin_cookie [] = ''admin''" for k
    by (simp_all add: header_def probe_def dget_def opt_or_def)
  have t: "cf_admin_token admin_config = ''admin''" by (simp add: admin_config_def)
  have "is_ascii ''admin''" "is_ascii []" by code_simp+
  then have "admin_authenticated admin_config ?q = Inr False" and
    login: "usage_dashboard_login admin_config (\<lambda>b. ''admin'') ?q claimed_service = (Inr (AdminLogin ''admin''), claimed_service)"
    by (simp_all add: admin_authenticated_def usage_dashboard_login_def h t compare_digest_def ret_def)
  then have "fst (usage_dashboard_route demo_platform admin_config demo_clock ?q claimed_service) \<noteq> Inl Crashed"
    by (simp add: usage_dashboard_route_def then_do_def lift_def ret_def)
  moreover have "\<not> admin_credential admin_config ?q" by (simp add: admin_credential_def h t)
  ultimately have "usage_dashboard_route demo_platform admin_config demo_clock ?q claimed_service = (Inr (AdminPage 401 (usage_login_page [])), claimed_service)"
    using conjunct1 [OF dashboard_needs_admin_token, of admin_config ?q demo_platform demo_clock claimed_service] by auto
  moreover have "admin_authenticated admin_config ?q2 = Inr True"
    using conjunct2 [OF dashboard_needs_admin_token, of admin_config "\<lambda>b. ''admin''" ?q claimed_service] login h by blast
  ultimately show ?thesis by blast
qed

end
