(* ===== verification/Connectors.thy ===== *)
theory Connectors
  imports Settings AmiLaws FreeSwitch
begin

text \<open>
  What the settings make of the connectors: the accounts they log in with, Grandstream's TLS socket
  (\<open>grandstream.py\<close>), the diagnostics of \<open>freeswitch.py\<close> and its choice of files.
\<close>

section \<open>Accounts\<close>

text \<open>\<open>_ami_host\<close>, \<open>_ami_port\<close>, \<open>_ami_username\<close>, \<open>_ami_password\<close> of the two AMI clients.\<close>

definition asterisk_account :: "agent_settings \<Rightarrow> ami_settings" where
  "asterisk_account S = \<lparr>as_host = cfg_host S, as_port = cfg_port S, as_username = cfg_username S, as_password = cfg_password S\<rparr>"

definition grandstream_account :: "agent_settings \<Rightarrow> ami_settings" where
  "grandstream_account S = \<lparr>as_host = cfg_grandstream_ami_host S, as_port = cfg_grandstream_ami_port S,
     as_username = cfg_grandstream_ami_username S, as_password = cfg_grandstream_ami_password S\<rparr>"

definition freeswitch_account :: "agent_settings \<Rightarrow> esl_settings" where
  "freeswitch_account S = \<lparr>es_host = cfg_freeswitch_host S, es_port = cfg_freeswitch_port S, es_password = cfg_freeswitch_password S\<rparr>"

section \<open>Grandstream\<close>

text \<open>\<open>_connect\<close>: \<open>wrap\<close> is the TLS handshake on the socket that was opened.\<close>

definition grandstream_connect :: "agent_settings \<Rightarrow> (sock \<Rightarrow> conn_error + sock) \<Rightarrow> conn_error + sock \<Rightarrow> conn_error + sock" where
  "grandstream_connect S wrap conn =
    (case ami_connect (grandstream_account S) conn of
       Inl e \<Rightarrow> Inl e
     | Inr s \<Rightarrow>
        (if \<not> cfg_grandstream_ami_tls S then Inr s
         else (case wrap s of
             Inr t \<Rightarrow> Inr (t\<lparr>sk_tls := True\<rparr>)
           | Inl e \<Rightarrow>
              (if conn_os_error e then Inl (ConnError (''Grandstream UCM AMI TLS connection to '' @ cfg_grandstream_ami_host S @ '':'' @
                 show_int (cfg_grandstream_ami_port S) @ '' failed: '' @ conn_text e)) else Inl e))))"

definition grandstream_snapshot :: "(string \<Rightarrow> string) \<Rightarrow> agent_settings \<Rightarrow> (sock \<Rightarrow> conn_error + sock) \<Rightarrow> conn_error + sock \<Rightarrow> conn_error + ami_snapshot" where
  "grandstream_snapshot decode S wrap conn =
    (case grandstream_connect S wrap conn of
       Inr s \<Rightarrow> ami_snapshot_of decode (grandstream_account S) (Inr s)
     | Inl e \<Rightarrow>
        (if conn_os_error e then Inr (default_snapshot\<lparr>reachable := False, agent_version := agent_version_string, error := Some (conn_text e)\<rparr>)
         else Inl e))"

text \<open>\<open>diagnostics\<close>: what the AMI client reports, whether TLS is enabled and, if so, verified.\<close>

definition grandstream_diagnostics :: "(string \<Rightarrow> string) \<Rightarrow> agent_settings \<Rightarrow> (sock \<Rightarrow> conn_error + sock) \<Rightarrow> conn_error + sock \<Rightarrow>
    conn_error + ami_diagnostics \<times> bool \<times> bool option" where
  "grandstream_diagnostics decode S wrap conn =
    map_sum id (\<lambda>d. (d, cfg_grandstream_ami_tls S, if cfg_grandstream_ami_tls S then Some (cfg_grandstream_ami_verify_tls S) else None))
      (case grandstream_connect S wrap conn of
         Inr s \<Rightarrow> ami_diagnostics_result decode (grandstream_account S) (Inr s)
       | Inl e \<Rightarrow> if conn_os_error e then Inr (no_diagnostics\<lparr>ad_error := Some (conn_text e)\<rparr>) else Inl e)"

text \<open>With TLS enabled and a handshake that succeeds, no snapshot is ever taken: reading raises.\<close>

lemma grandstream_tls_never_reads:
  assumes "cfg_grandstream_ami_tls S" and "conn = Inr s" and "wrap s = Inr t"
  shows "\<exists>m. grandstream_snapshot decode S wrap conn = Inl (ConnValueError m)"
proof -
  have "grandstream_connect S wrap conn = Inr (t\<lparr>sk_tls := True\<rparr>)"
    using assms by (simp add: grandstream_connect_def ami_connect_def Let_def)
  moreover have "sk_tls (t\<lparr>sk_tls := True\<rparr>)" by simp
  from tls_read_events [OF this, of decode "grandstream_account S"]
  have "\<exists>m. ami_snapshot_of decode (grandstream_account S) (Inr (t\<lparr>sk_tls := True\<rparr>)) = Inl (ConnValueError m)"
    by (auto simp: ami_snapshot_of_def ami_connect_def Let_def)
  ultimately show ?thesis by (simp add: grandstream_snapshot_def)
qed

section \<open>FreeSWITCH\<close>

record esl_diagnostics =
  ed_tcp_connected :: bool
  ed_login_accepted :: bool
  ed_command_accepted :: bool
  ed_error :: "string option"

text \<open>The steps inside the \<open>try\<close>, and what they raise.\<close>

definition esl_diagnose :: "(string \<Rightarrow> string) \<Rightarrow> esl_settings \<Rightarrow> conn_error + sock \<Rightarrow> esl_diagnostics \<times> conn_error option" where
  "esl_diagnose decode cfg conn =
    (let d = \<lparr>ed_tcp_connected = False, ed_login_accepted = False, ed_command_accepted = False, ed_error = None\<rparr> in
     case esl_connect cfg conn of
       Inl e \<Rightarrow> (d, Some e)
     | Inr s \<Rightarrow>
        (case authenticate decode cfg s of
           (Inl e, s1) \<Rightarrow> (d\<lparr>ed_tcp_connected := True\<rparr>, Some e)
         | (Inr u, s1) \<Rightarrow>
            (case api decode ''status'' s1 of
               (Inl e, s2) \<Rightarrow> (d\<lparr>ed_tcp_connected := True, ed_login_accepted := True\<rparr>, Some e)
             | (Inr body, s2) \<Rightarrow> (d\<lparr>ed_tcp_connected := True, ed_login_accepted := True, ed_command_accepted := True\<rparr>, None))))"

text \<open>\<open>diagnostics\<close>; \<open>ok\<close> is the acceptance of the login.\<close>

definition esl_diagnostics_result :: "(string \<Rightarrow> string) \<Rightarrow> esl_settings \<Rightarrow> conn_error + sock \<Rightarrow> conn_error + esl_diagnostics" where
  "esl_diagnostics_result decode cfg conn =
    (case esl_diagnose decode cfg conn of
       (d, None) \<Rightarrow> Inr d
     | (d, Some e) \<Rightarrow> if conn_os_error e then Inr (d\<lparr>ed_error := Some (conn_text e)\<rparr>) else Inl e)"

text \<open>As the dict the pages read.\<close>

definition esl_status_json :: "esl_diagnostics \<Rightarrow> json pydict" where
  "esl_status_json d = [(''pbxType'', JStr ''freeswitch''), (''tcpConnected'', JBool (ed_tcp_connected d)),
     (''loginAccepted'', JBool (ed_login_accepted d)), (''commandAccepted'', JBool (ed_command_accepted d))] @
     (case ed_error d of None \<Rightarrow> [] | Some m \<Rightarrow> [(''error'', JStr m)]) @ [(''ok'', JBool (ed_login_accepted d))]"

lemma esl_diagnostics_progressive:
  "esl_diagnostics_result decode cfg conn = Inr d \<Longrightarrow>
     (ed_command_accepted d \<longrightarrow> ed_login_accepted d) \<and> (ed_login_accepted d \<longrightarrow> ed_tcp_connected d) \<and> (ed_error d = None \<longleftrightarrow> ed_command_accepted d)"
  by (auto simp: esl_diagnostics_result_def esl_diagnose_def Let_def split: sum.splits prod.splits option.splits if_splits)

text \<open>The page shows an accepted login only of a reachable port and an accepted command only of an accepted login.\<close>

lemma esl_status_page_progressive:
  assumes "esl_diagnostics_result decode cfg conn = Inr d"
    and "connector_diagnostic_statuses repr (esl_status_json d) = shown"
  shows "((''ESL authentication'', ''Accepted'') \<in> set shown \<longrightarrow> (''PBX port'', ''Reachable'') \<in> set shown) \<and>
    ((''ESL command'', ''Accepted'') \<in> set shown \<longrightarrow> (''ESL authentication'', ''Accepted'') \<in> set shown)"
  using esl_diagnostics_progressive [OF assms(1)] unfolding assms(2) [symmetric]
  by (simp add: connector_diagnostic_statuses_def esl_status_json_def says_true_def dget_def opt_or_def lower_def lower_char_def code_point_def Let_def)

text \<open>\<open>_recent_files\<close>: the entries that match (\<open>None\<close>: an \<open>OSError\<close> while listing), each a file or not, with its
  modification time; one that cannot be read counts as zero.\<close>

definition recent_files :: "nat \<Rightarrow> ('a \<times> bool \<times> rat option) list option \<Rightarrow> 'a list" where
  "recent_files limit entries = (case entries of None \<Rightarrow> []
     | Some es \<Rightarrow> map fst (take limit (sort_desc (\<lambda>e. opt_or (snd (snd e)) 0) (filter (\<lambda>e. fst (snd e)) es))))"

end
