(* ===== verification/RelaySigning.thy ===== *)
theory RelaySigning
  imports PushDemo
begin

text \<open>
  Both ends of a signed request: the headers the Agent adds to it (\<open>relay.py\<close>, \<open>_request\<close>) and the checks of
  the relay (\<open>push_relay/app.py\<close>). Ed25519 is a parameter of both: \<open>sign\<close> for the Agent's private key, the
  platform's \<open>pf_verify\<close> for the public key the relay keeps.
\<close>

section \<open>The Agent's side\<close>

text \<open>\<open>_encode\<close> and \<open>_decode\<close>\<close>

definition encode_bytes :: "string \<Rightarrow> string" where
  "encode_bytes s = rstrip_chars (\<lambda>c. c = CHR ''='') (urlsafe_b64encode s)"

definition decode_text :: "string \<Rightarrow> string option" where
  "decode_text s = urlsafe_b64decode (padding s)"

text \<open>The clock, the digest in hex, the signature of the Agent's key and 18 random bytes for a nonce
  (\<open>None\<close> when the request is not replay protected). Header names are as a server reads them, in lower case.\<close>

definition request_headers :: "(string \<Rightarrow> string) \<Rightarrow> (string \<Rightarrow> string) \<Rightarrow> rat \<Rightarrow> string option \<Rightarrow> string \<Rightarrow> string \<Rightarrow> string pydict" where
  "request_headers sha sign now random path raw =
    (let timestamp = show_int (trunc_rat now);
         message = utf8 (timestamp @ [newline] @ path @ [newline]) @ raw
     in [(''content-type'', ''application/json''), (''x-pbxsense-timestamp'', timestamp),
         (''x-pbxsense-signature'', encode_bytes (sign message))] @
        (case random of None \<Rightarrow> []
         | Some bytes \<Rightarrow>
             (let nonce = encode_bytes bytes;
                  v2 = utf8 (timestamp @ [newline] @ nonce @ [newline] @ ''POST'' @ [newline] @ path @ [newline] @ sha raw)
              in [(''x-pbxsense-nonce'', nonce), (''x-pbxsense-signature-v2'', encode_bytes (sign v2))])))"

definition agent_request :: "(string \<Rightarrow> string) \<Rightarrow> (string \<Rightarrow> string) \<Rightarrow> rat \<Rightarrow> string option \<Rightarrow> string \<Rightarrow> string \<Rightarrow> http_request" where
  "agent_request sha sign now random path raw =
    \<lparr>hq_method = ''POST'', hq_path = path, hq_headers = request_headers sha sign now random path raw, hq_cookies = [],
     hq_body = raw, hq_host = None\<rparr>"

section \<open>Numbers and nonces\<close>

lemma parse_decimal: "list_all is_decimal s \<Longrightarrow> parse_digits acc s = Some (foldl (\<lambda>a c. a * 10 + digit_val c) acc s)"
  by (induction s arbitrary: acc) auto

lemma digit_char_decimal: "d < 10 \<Longrightarrow> is_decimal (digit_char d) \<and> digit_val (digit_char d) = int d \<and> \<not> is_space (digit_char d)"
  by (auto simp: is_decimal_def digit_char_def digit_val_def code_point_def is_space_def)

lemma show_nat_decimal: "show_nat n \<noteq> [] \<and> list_all is_decimal (show_nat n) \<and> list_all (\<lambda>c. \<not> is_space c) (show_nat n) \<and>
    foldl (\<lambda>a c. a * 10 + digit_val c) 0 (show_nat n) = int n"
proof (induction n rule: show_nat.induct)
  case (1 n)
  show ?case
  proof (cases "n < 10")
    case True
    then show ?thesis using digit_char_decimal [of n] by (subst (1 2 3 4) show_nat.simps) simp
  next
    case False
    with 1 have IH: "list_all is_decimal (show_nat (n div 10))" "list_all (\<lambda>c. \<not> is_space c) (show_nat (n div 10))"
      "foldl (\<lambda>a c. a * 10 + digit_val c) 0 (show_nat (n div 10)) = int (n div 10)" by simp_all
    have "int (n div 10) * 10 + int (n mod 10) = int n" by presburger
    with False IH show ?thesis using digit_char_decimal [of "n mod 10"]
      by (subst (1 2 3 4) show_nat.simps) simp
  qed
qed

lemma strip_no_space: "list_all (\<lambda>c. \<not> is_space c) s \<Longrightarrow> strip s = s"
proof -
  have none: "list_all (\<lambda>c. \<not> is_space c) t \<Longrightarrow> dropWhile is_space t = t" for t by (cases t) simp_all
  assume "list_all (\<lambda>c. \<not> is_space c) s"
  then show ?thesis using none [of s] none [of "rev s"] by (simp add: strip_def strip_chars_def rstrip_chars_def list_all_rev)
qed

lemma py_int_show: "0 \<le> n \<Longrightarrow> py_int (show_int n) = Some n"
proof -
  assume n: "0 \<le> n"
  then have s: "show_int n = show_nat (nat n)" by (simp add: show_int_def)
  from show_nat_decimal [of "nat n"] n have d: "show_nat (nat n) \<noteq> []" "list_all is_decimal (show_nat (nat n))"
    "strip (show_nat (nat n)) = show_nat (nat n)" "foldl (\<lambda>a c. a * 10 + digit_val c) 0 (show_nat (nat n)) = n"
    by (simp_all add: strip_no_space)
  then obtain c cs where c: "show_nat (nat n) = c # cs" by (cases "show_nat (nat n)") auto
  with d have "is_decimal c" "list_all is_decimal cs" by simp_all
  moreover from this have "c \<noteq> CHR ''-''" "c \<noteq> CHR ''+''" by (auto simp: is_decimal_def code_point_def)
  ultimately show ?thesis using d c by (simp add: py_int_def s parse_unsigned_def parse_decimal)
qed

lemma encode_bytes_text: "encode_bytes s = b64_text s"
  by (simp add: encode_bytes_def encode_rstrip)

lemma decode_encode: "decode_text (encode_bytes s) = Some s"
  by (simp add: decode_text_def encode_bytes_text b64_round_trip)

lemma b64_groups_length: "length bs = 3 * k \<Longrightarrow> length (b64_groups bs) = 4 * k"
proof (induction bs arbitrary: k rule: b64_groups.induct)
  case (2 a)
  then have "Suc 0 = 3 * k" by simp
  then show ?case by presburger
next
  case (3 a b)
  then have "Suc (Suc 0) = 3 * k" by simp
  then show ?case by presburger
next
  case (4 a b c bs)
  then obtain n where "k = Suc n" by (cases k) simp_all
  with 4 show ?case by simp
qed simp

lemma b64_text_length: "length xs = 18 \<Longrightarrow> length (b64_text xs) = 24"
  using b64_groups_length [of "map code_point xs" 6] by (simp add: b64_text_def)

lemma alnum_b64:
  assumes "v < 64" and "b64_char v \<notin> set ''-_''"
  shows "is_alnum (b64_char v)"
proof -
  have "list_all (\<lambda>v. b64_char v \<in> set ''-_'' \<or> is_alnum (b64_char v)) [0..<64]" by code_simp
  then show ?thesis using assms unfolding list_all_iff by (auto dest: bspec [where x = v])
qed

lemma nonce_accepted:
  assumes "length bytes = 18" and "\<exists>c \<in> set (b64_text bytes). c \<notin> set ''-_''"
  shows "nonce_ok (b64_text bytes)"
proof -
  obtain vs where vs: "b64_text bytes = map b64_char vs" "\<forall>v \<in> set vs. v < 64" using b64_text_values by blast
  then have "is_alnum c" if "c \<in> set (b64_text bytes)" "c \<notin> set ''-_''" for c using that alnum_b64 by auto
  with assms(2) have "identifier_text ''-_'' (b64_text bytes)"
    by (auto simp: identifier_text_def str_isalnum_def list_all_iff filter_empty_conv)
  with b64_text_length [OF assms(1)] show ?thesis by (simp add: nonce_ok_def)
qed

section \<open>Both sides agree\<close>

lemma request_header_simps:
  fixes sha sign now random path raw
  defines "q \<equiv> agent_request sha sign now random path raw"
  shows "header q ''x-pbxsense-timestamp'' = show_int (trunc_rat now)"
    and "header q ''x-pbxsense-signature'' = encode_bytes (sign (signed_message q))"
    and "random = Some bytes \<Longrightarrow> header q ''x-pbxsense-nonce'' = encode_bytes bytes"
    and "random = Some bytes \<Longrightarrow> sha = pf_sha P \<Longrightarrow> header q ''x-pbxsense-signature-v2'' = encode_bytes (sign (replay_message P q))"
proof -
  show ts: "header q ''x-pbxsense-timestamp'' = show_int (trunc_rat now)"
    by (simp add: q_def agent_request_def request_headers_def header_def dget_def opt_or_def Let_def)
  show "header q ''x-pbxsense-signature'' = encode_bytes (sign (signed_message q))"
    unfolding signed_message_def ts by (simp add: q_def agent_request_def request_headers_def header_def dget_def opt_or_def Let_def)
  show nonce: "header q ''x-pbxsense-nonce'' = encode_bytes bytes" if "random = Some bytes"
    using that by (simp add: q_def agent_request_def request_headers_def header_def dget_def opt_or_def Let_def)
  have "upper ''POST'' = ''POST''" by code_simp
  then show "header q ''x-pbxsense-signature-v2'' = encode_bytes (sign (replay_message P q))" if "random = Some bytes" "sha = pf_sha P"
    unfolding replay_message_def ts nonce [OF that(1)] using that
    by (simp add: q_def agent_request_def request_headers_def header_def dget_def opt_or_def Let_def)
qed

lemma signature_accepted:
  assumes "length pub = 32" and "pf_verify P pub (sign m) m" and "agent ''publicKey'' = Some (FStr (encode_bytes pub))"
  shows "check_agent_signature P agent (encode_bytes (sign m)) m bad = Inr ()"
  using assms by (simp add: check_agent_signature_def check_signature_def decode_public_key_def decode_signature_def encode_bytes_text b64_round_trip)

text \<open>
  C3. The relay accepts what its Agent signs. If the relay keeps the Agent's public key and has not revoked it,
  the Agent's clock is not before 1970 and within five minutes of the relay's, the body is a JSON object within
  the limit, and a signature of the private key verifies under the public one, then the request the Agent
  builds passes the authentication of the relay, which changes nothing; a replay-protected request with a
  new nonce also passes the second check, which records the nonce.
\<close>

theorem agent_request_is_accepted:
  fixes sign :: "string \<Rightarrow> string"
  assumes "length pub = 32" and "\<And>m. pf_verify P pub (sign m) m"
    and "pf_get P (sv_db s) (agent_ref a) = Some agent" and "agent ''publicKey'' = Some (FStr (encode_bytes pub))"
    and "\<not> field_true agent ''revoked'' False" and "bounded_identifier (pf_repr P) (JStr a) ''agentId'' = Inr a"
    and "0 \<le> now" and "clock_distance (ck_time ck) (trunc_rat now) = Some d" and "d \<le> 300"
    and "int (length raw) \<le> body_limit C (agent_request (pf_sha P) sign now random path raw)" and "pf_loads P raw = Loaded (JObj body)"
  shows "authenticate_agent P C ck a (agent_request (pf_sha P) sign now random path raw) False s = (Inr (body, agent), s) \<and>
    (\<forall>bytes. random = Some bytes \<and> length bytes = 18 \<and> (\<exists>c \<in> set (encode_bytes bytes). c \<notin> set ''-_'') \<and> firestore P \<and>
        pf_get P (sv_db s) (nonce_ref a (encode_bytes bytes)) = None \<longrightarrow>
      (\<exists>db. require_replay_protected P ck a agent (agent_request (pf_sha P) sign now random path raw) s = (Inr (), s\<lparr>sv_db := db\<rparr>) \<and>
        pf_get P db = (pf_get P (sv_db s))(nonce_ref a (encode_bytes bytes) \<mapsto>
          [''createdAt'' \<mapsto> server_time ck, ''expiresAt'' \<mapsto> FTime (ck_now ck + 10 * minute_us)])))"
proof (intro conjI allI impI)
  let ?q = "agent_request (pf_sha P) sign now random path raw"
  have "py_int (show_int (trunc_rat now)) = Some (trunc_rat now)"
    using assms(7) by (intro py_int_show) (simp add: trunc_rat_def)
  then have fresh: "fresh_timestamp ck (header ?q ''x-pbxsense-timestamp'') e f = Inr ()" for e f
    using assms(8,9) by (simp add: request_header_simps fresh_timestamp_def)
  have accepted: "check_agent_signature P agent (encode_bytes (sign m)) m e = Inr ()" for m e
    by (rule signature_accepted [where sign = sign and m = m and pub = pub]) (rule assms(1,2,4))+
  have known: "known_agent P ck ?q (Some agent) = Inr agent"
    using assms(5) fresh accepted by (simp add: known_agent_def request_header_simps(2))
  have body: "agent_body P C ?q = Inr body"
    using assms(10,11) by (simp add: agent_body_def agent_request_def)
  show "authenticate_agent P C ck a ?q False s = (Inr (body, agent), s)"
    by (simp add: authenticate_agent_def assms(3,6) body known then_do_def lift_def fetch_def ret_def)
  fix bytes
  assume b: "random = Some bytes \<and> length bytes = 18 \<and> (\<exists>c \<in> set (encode_bytes bytes). c \<notin> set ''-_'') \<and> firestore P \<and>
        pf_get P (sv_db s) (nonce_ref a (encode_bytes bytes)) = None"
  then have nonce: "nonce_ok (header ?q ''x-pbxsense-nonce'')" "header ?q ''x-pbxsense-nonce'' = encode_bytes bytes"
    using nonce_accepted [of bytes] request_header_simps(3) [of random bytes] by (simp_all add: encode_bytes_text)
  have v2: "check_agent_signature P agent (header ?q ''x-pbxsense-signature-v2'') (replay_message P ?q) e = Inr ()" for e
    using b accepted request_header_simps(4) [of random bytes "pf_sha P" P] by simp
  let ?w = "Create (nonce_ref a (encode_bytes bytes)) [''createdAt'' \<mapsto> server_time ck, ''expiresAt'' \<mapsto> FTime (ck_now ck + 10 * minute_us)]"
  from b have fs: "firestore P" and new: "pf_get P (sv_db s) (nonce_ref a (encode_bytes bytes)) = None" by simp_all
  have "\<exists>v. apply_writes [?w] (pf_get P (sv_db s)) = Inr v" using new by simp
  then obtain db where db: "pf_commit P (sv_db s) [?w] = Inr db" using firestore.commit_iff [OF fs] by blast
  have "require_replay_protected P ck a agent ?q s = (Inr (), s\<lparr>sv_db := db\<rparr>)"
    using nonce v2 db by (simp add: require_replay_protected_def then_do_def lift_def require_def commit_def ret_def)
  moreover have "pf_get P db = (pf_get P (sv_db s))(nonce_ref a (encode_bytes bytes) \<mapsto>
          [''createdAt'' \<mapsto> server_time ck, ''expiresAt'' \<mapsto> FTime (ck_now ck + 10 * minute_us)])"
    using firestore.write_views(1) [OF fs db] by simp
  ultimately show "\<exists>db. require_replay_protected P ck a agent ?q s = (Inr (), s\<lparr>sv_db := db\<rparr>) \<and>
        pf_get P db = (pf_get P (sv_db s))(nonce_ref a (encode_bytes bytes) \<mapsto>
          [''createdAt'' \<mapsto> server_time ck, ''expiresAt'' \<mapsto> FTime (ck_now ck + 10 * minute_us)])" by blast
qed

definition demo_nonce :: string where
  "demo_nonce = replicate 18 (CHR ''x'')"

lemma demo_nonce_text: "encode_bytes demo_nonce = concat (replicate 6 ''eHh4'')"
  by code_simp

theorem agent_request_is_accepted_witness:
  "\<exists>db. let q = agent_request (pf_sha demo_platform) (\<lambda>m. m) 1000 (Some demo_nonce) ''/v1'' ''session'' in
     succeeds (authenticate_agent demo_platform open_config demo_clock ''agent_a'' q False claimed_service) \<and>
     require_replay_protected demo_platform demo_clock ''agent_a'' demo_agent q claimed_service = (Inr (), claimed_service\<lparr>sv_db := db\<rparr>)"
proof -
  have key: "encode_bytes (replicate 32 (CHR 0x00)) = replicate 43 (CHR ''A'')" by code_simp
  have agent: "pf_get demo_platform (sv_db claimed_service) (agent_ref ''agent_a'') = Some demo_agent"
    "demo_agent ''publicKey'' = Some (FStr (encode_bytes (replicate 32 (CHR 0x00))))" "\<not> field_true demo_agent ''revoked'' False"
    unfolding key by (simp_all add: claimed_service_def agent_ref_def activation_ref_def device_ref_def demo_agent_def new_agent_doc_def demo_activation_def field_true_def)
  have verify: "pf_verify demo_platform (replicate 32 (CHR 0x00)) m m" for m by (simp add: demo_platform_def memory_platform_def)
  have "trunc_rat 1000 = 1000" "fl 1000 = 1000" by code_simp+
  then have time: "clock_distance (ck_time demo_clock) (trunc_rat 1000) = Some 0"
    by (simp add: clock_distance_def float_of_int_def demo_clock_def)
  have body: "pf_loads demo_platform ''session'' = Loaded (JObj (case map_of demo_bodies ''session'' of Some (JObj b) \<Rightarrow> b | _ \<Rightarrow> []))"
    by (simp add: demo_platform_def memory_platform_def demo_loads_def demo_bodies_def)
  have limit: "int (length ''session'') \<le> body_limit open_config (agent_request (pf_sha demo_platform) (\<lambda>m. m) 1000 (Some demo_nonce) ''/v1'' ''session'')"
  proof -
    have "length ''/secure/snapshots'' > length ''/v1''" by simp
    then have "\<not> suffix ''/secure/snapshots'' ''/v1''" using suffix_length_le by fastforce
    then show ?thesis by (simp add: body_limit_def agent_request_def open_config_def)
  qed
  note accepted = agent_request_is_accepted [where sign = "\<lambda>m. m" and pub = "replicate 32 (CHR 0x00)", OF _ verify agent demo_agent_checks(1) _ time _ limit body]
  have "firestore demo_platform" using demo_digest_store by (rule digest_store.axioms(1))
  moreover have "pf_get demo_platform (sv_db claimed_service) (nonce_ref ''agent_a'' (encode_bytes demo_nonce)) = None"
    by (simp add: claimed_service_def agent_ref_def activation_ref_def device_ref_def nonce_ref_def empty_service_def)
  moreover have "length demo_nonce = 18" "\<exists>c \<in> set (encode_bytes demo_nonce). c \<notin> set ''-_''"
    unfolding demo_nonce_text by (simp_all add: demo_nonce_def)
  ultimately show ?thesis using accepted by (auto simp: succeeds_def Let_def)
qed

end
