(* ===== verification/Spec2Isabelle.thy ===== *)
theory Spec2Isabelle
  imports HomeLaws EngineLaws Live RelayOutbox InternetRelay AmiLaws FreeSwitch PushPing AgentAccess Yeastar Cucm CucmHistory PageText PushPages Connectors RelaySigning
begin

text \<open>
  PBXPulse Agent: a verification library for \<open>pbxsense_agent\<close> and for the relay service its Agents
  and apps meet at, \<open>push_relay/app.py\<close>.

  The Agent polls a PBX through a connector, keeps a short memory of what it saw, and serves a Home
  payload (people, trunks, queues, calls and Signals) to paired apps. The library models the path from
  the PBX socket and the raw history through the connector's snapshot to that payload, and the two ways it reaches an app:
  the live socket in the local network and the relay client outside it. The relay service is modelled from
  the other end: it enrolls Agents, pairs apps, sends push notifications and passes encrypted snapshots.

  Theories and the code they model:
  \<^item> \<open>PyBase\<close>: the Python string, dict and Counter operations the code uses, over Latin-1 strings and
    association lists in insertion order; the \<open>py_dict\<close> locale states what updating a dict in a loop
    does, and is interpreted on association lists.
  \<^item> \<open>PyNum\<close>: floats (exact rationals rounded to 53 bits after each operation), dates and times
    (microseconds of wall-clock time), formatting and parsing of timestamps.
  \<^item> \<open>PbxTypes\<close>: \<open>AmiSnapshot\<close> and its parts, Signals and the payload records.
  \<^item> \<open>History\<close>: \<open>history.py\<close>, the CDR, voicemail and security-log readers and the classification
    of call records.
  \<^item> \<open>PulseText\<close>, \<open>PulseViews\<close>: the naming helpers, People, trunk, queue and call lists of
    \<open>pulse.py\<close>, and the grouping of the channels of one call.
  \<^item> \<open>Confirm\<close>: the \<open>confirmation\<close> locale, a machine that reports a condition once it has held for
    a delay; interpreted by the availability tracker and by the aggregate-tip tracker.
  \<^item> \<open>PulseTrackers\<close>: \<open>EndpointAvailabilitySignalTracker\<close>, \<open>EndpointAggregateTipTracker\<close> and
    \<open>EndpointLastActiveTracker\<close> (\<open>presence_history.py\<close>).
  \<^item> \<open>PulseActivity\<close>: \<open>ActivityTracker\<close>, the event feed built from differences of snapshots.
  \<^item> \<open>EngineText\<close>, \<open>Engine\<close>, \<open>EngineLaws\<close>: \<open>engine.py\<close>, the Signals derived from the call
    history, and what they promise about the calls they count.
  \<^item> \<open>PulseHome\<close>, \<open>HomeLaws\<close>: \<open>build_home_payload\<close> and the refresh of the Home state in \<open>main.py\<close>,
    with the theorems over the whole path.
  \<^item> \<open>Live\<close>: \<open>live.py\<close> and the socket loop of \<open>main.py\<close>, the events between two payloads; the
    \<open>collection_client\<close> locale states how a client applies them, for Signals and for people.
  \<^item> \<open>PyJson\<close>: JSON documents and \<open>json.dumps\<close>, with the proof that the text of a document without
    numbers determines it.
  \<^item> \<open>Relay\<close>, \<open>RelayDevices\<close>, \<open>RelaySecure\<close>: \<open>relay.py\<close>, the durable outbox, enrollment and
    \<open>observe\<close>; the operations on paired apps; the snapshots for the apps. The network is a function
    from the number of the request and the request to the reply.
  \<^item> \<open>RelayLaws\<close>, \<open>RelayOutbox\<close>, \<open>RelayPairing\<close>: the \<open>relay_invariant\<close> locale, whose lemmas carry a
    property of the state through every operation, with three interpretations; delivery in order and
    what is queued; registrations, pairing capabilities and snapshot sequence numbers.
  \<^item> \<open>InternetRelay\<close>: \<open>internet_relay.py\<close>, the control session, over any exchange function and as
    wired to the relay client.
  \<^item> \<open>Socket\<close>, \<open>Framing\<close>: a stream socket whose bytes arrive in pieces, and the two readers up to a
    delimiter; both interpret the \<open>framing\<close> locale.
  \<^item> \<open>Ami\<close>, \<open>AmiViews\<close>, \<open>AmiLaws\<close>: \<open>ami.py\<close>, the protocol, the channels, endpoints and queues of a
    snapshot, and what they promise; \<open>FreeSwitch\<close>: \<open>freeswitch.py\<close>.
  \<^item> \<open>Yeastar\<close>, \<open>Cucm\<close>, \<open>CucmHistory\<close>: the HTTP client of \<open>yeastar.py\<close>; \<open>cucm.py\<close> with the Java bridge of
    \<open>jtapi.py\<close>; the CUCM readers of \<open>history.py\<close>.
  \<^item> \<open>Settings\<close>: \<open>settings.py\<close>, and what is chosen from it in \<open>connectors.py\<close> and \<open>main.py\<close>; \<open>mock.py\<close> and
    \<open>diagnostics.py\<close>. \<open>Connectors\<close>: the accounts the connectors take from the settings, \<open>grandstream.py\<close>, the
    diagnostics of \<open>freeswitch.py\<close>.
  \<^item> \<open>AgentWeb\<close>, \<open>Recordings\<close>, \<open>AgentAccess\<close>: the web interface of \<open>main.py\<close> with \<open>network.py\<close>, the search of
    \<open>recordings.py\<close>, and who may do what through them.
  \<^item> \<open>AgentPages\<close>, \<open>PageText\<close>: the HTML pages, and that the values they show stay text.

  The relay service (\<open>push_relay/app.py\<close>), one theory for each group of its functions:
  \<^item> \<open>PyFloatOrder\<close>, \<open>PyBase64\<close>: the order of rounded floats; UTF-8 and URL-safe base64 with their
    round trip.
  \<^item> \<open>PushText\<close>, \<open>PushGate\<close>: settings and the checks of request values; the middleware that limits the
    size and rate of requests.
  \<^item> \<open>PushStore\<close>: documents, writes and queries, the \<open>platform\<close> the service runs on, the handler
    combinators (state in, result or refusal and state out) and the authentication functions.
  \<^item> \<open>PushDevices\<close>, \<open>PushUsage\<close>, \<open>PushEvents\<close>, \<open>PushEnroll\<close>, \<open>PushSecure\<close>: paired apps, usage
    counters, events and presence, tickets and activations, the control session and the snapshots; one
    definition for each route.
  \<^item> \<open>PushFirestore\<close>: the \<open>firestore\<close> locale, what the document store promises, and a store in memory
    that satisfies it.
  \<^item> \<open>PushLaws\<close>: the \<open>push_service\<close> locale, inside which every route is shown to keep a property of the
    state; \<open>served\<close> and \<open>runs\<close>, one request and any sequence of requests.
  \<^item> \<open>PushInvariants\<close>, \<open>PushRecords\<close>: what each change does to the store, and the properties kept:
    records that stay, claimed activations, identities.
  \<^item> \<open>PushTokens\<close>: which app holds a notification token and how many apps an Agent has, kept by every route.
  \<^item> \<open>PushDemo\<close>: a concrete service and a run of it, on which the theorems are applied.
  \<^item> \<open>PushAccess\<close>, \<open>PushSafety\<close>: what a request must carry, and the theorems over runs.
  \<^item> \<open>PushDelivery\<close>, \<open>PushPresence\<close>: which apps an event reaches, when it is a duplicate and what a failed
    push leaves; the sweep for silent Agents and the heartbeat.
  \<^item> \<open>PushTyped\<close>, \<open>PushPing\<close>: the types of the stored registrations and the pointer of a token given up;
    the commands that wait for an Agent.
  \<^item> \<open>PushPages\<close>: the operator's dashboard, its login and who sees it.
  \<^item> \<open>RelaySigning\<close>: both ends of a signed request, the headers of \<open>relay.py\<close> and the checks of the relay.

  What the theorems show: an outage is shown exactly when it has been confirmed, by the tracker alone
  and through the Home payload; occurrence ids name the start of an outage; the Activity feed is
  ordered, bounded in time and consistent with the snapshot, and reports a recovery only for a
  confirmed outage; recommendations, streaks, averages and clusters say what the calls say; the
  readers are bounded and their one escaping exception is characterized. A client that applies the
  live events holds the current Signals; the relay client delivers its outbox in order, queues exactly
  what is new, keeps its store bounded and saved, and lets nothing out of the site that the projection
  removes; the control session answers every command once. The connectors read what the PBX wrote however
  the network cuts it, and every way a snapshot can end is listed. Some theorems record
  behaviour that differs from what a comment or a title promises. The Agent's routes act for nobody without its token, no other
  site's page can write, a recording identifier stays inside its folder, and what an app calls itself is shown
  as text. For the relay service: request rates
  are bounded, a secure request and an activation are each good for one use over any run,
  a token belongs to one app and the apps of an Agent stay within their number, no route acts for a caller
  without its credential, an event goes to exactly the apps that want it and once, silence is reported once,
  what an Agent signs is accepted, a queued command reaches its Agent, and no stored registration can make a push raise.

  Conventions: sets of the code are HOL sets where only membership matters; a loop over such a set is
  one update; a lock makes a method one step. Time zone data, the file system and \<open>csv.reader\<close> are
  parameters. Loops are structural or carry a measure, so no fuel is needed; the two streak loops end
  because each step leaves the finite set of days with calls.

  For the relay service: Firestore, Firebase Cloud Messaging, Ed25519, SHA-256, HMAC and \<open>json.loads\<close> are
  fields of a \<open>platform\<close>; theorems that need the store assume \<open>digest_store\<close>, what Google documents of
  Firestore and that a digest has no slash. A handler is one step of one instance: nothing is awaited
  after the body is read (a self-registration reads its document just before), and other instances are not
  interleaved. A handler reads each clock once. Numbers in requests are whole and shorter than 4,300 digits.

  Not modelled: the style sheet, the QR drawing and the health answer of \<open>main.py\<close>, its background loops, which
  call the modelled operations and sleep, and its logging; the diagnostics of \<open>history.py\<close>, which only probe files;
  opening sockets and the TLS handshake, the text of SOAP requests; UTF-8 decoding, JSON, XML, CSV and URL parsing,
  the classification of IP addresses and HMAC (parameters); Ed25519, key handling and encryption
  of the relay client (a signature and an envelope are results of parameters); the health answer of the relay
  service, its logging, and the expiry of documents by the store's own time-to-live policy.
\<close>

end
